(* ===== verification/Prelude.thy ===== *)
theory Prelude
  imports Complex_Main
begin

text \<open>
  What every component shares.

  \<^item> Times are milliseconds since the epoch (\<open>Date.getTime()\<close>), an \<open>int\<close>; identifiers,
    tokens and hashes are \<open>string\<close>s.
  \<^item> A database table is the list of its rows, oldest first. The queries of the code are
    written out where they occur: \<open>find\<close> for a lookup, \<open>first_by\<close> for a lookup with an
    \<open>orderBy\<close> (a stable sort, so equal keys keep insertion order), \<open>update_where\<close> for
    \<open>updateMany\<close> and for an \<open>update\<close> by primary key, \<open>count_where\<close> for the count it
    returns.
  \<^item> \<open>transaction\<close> runs a step and restores the state when it fails; a step outside a
    transaction keeps what it has written before its error.
  \<^item> Four contracts are stated once, as locales: an exclusive claim of a row
    (\<open>exclusive_claim\<close>), a bounded retry policy (\<open>retry_policy\<close>), a limit per window of time
    (\<open>fixed_window\<close>), and a step system with an invariant (\<open>invariant_system\<close>). Each is interpreted by the components that
    provide it.
\<close>

type_synonym time = int
type_synonym ident = string

named_theorems table_simps
named_theorems error_simps

section \<open>Results, and transactions\<close>

text \<open>A step of a service: it returns an error or a value, and the new state.\<close>

type_synonym ('s, 'e, 'a) step = "'s \<Rightarrow> ('e + 'a) \<times> 's"

definition transaction :: "('s, 'e, 'a) step \<Rightarrow> ('s, 'e, 'a) step" where
  "transaction f s = (case f s of (Inl e, _) \<Rightarrow> (Inl e, s) | (Inr a, s') \<Rightarrow> (Inr a, s'))"

lemma transaction_error [error_simps]: "fst (f s) = Inl e \<Longrightarrow> transaction f s = (Inl e, s)"
  by (cases "f s") (simp add: transaction_def)

lemma transaction_atomic:
  "transaction f s = (r, s') \<Longrightarrow> (case r of Inl _ \<Rightarrow> s' = s | Inr _ \<Rightarrow> f s = (r, s'))"
  by (auto simp: transaction_def split: prod.splits sum.splits)

lemma transaction_state: "transaction f s = (r, s') \<Longrightarrow> s' = s \<or> f s = (r, s')"
  by (auto simp: transaction_def split: prod.splits sum.splits)

section \<open>Tables\<close>

definition update_where :: "('r \<Rightarrow> bool) \<Rightarrow> ('r \<Rightarrow> 'r) \<Rightarrow> 'r list \<Rightarrow> 'r list" where
  "update_where p f rows = map (\<lambda>r. if p r then f r else r) rows"

definition count_where :: "('r \<Rightarrow> bool) \<Rightarrow> 'r list \<Rightarrow> nat" where
  "count_where p rows = length (filter p rows)"

definition delete_where :: "('r \<Rightarrow> bool) \<Rightarrow> 'r list \<Rightarrow> 'r list" where
  "delete_where p rows = filter (\<lambda>r. \<not> p r) rows"

definition first_by :: "('r \<Rightarrow> 'k::linorder) \<Rightarrow> ('r \<Rightarrow> bool) \<Rightarrow> 'r list \<Rightarrow> 'r option" where
  "first_by key p rows =
     (case sort_key key (filter p rows) of [] \<Rightarrow> None | r # _ \<Rightarrow> Some r)"

lemma update_where_Nil [simp]: "update_where p f [] = []"
  by (simp add: update_where_def)

lemma update_where_Cons [simp]:
  "update_where p f (r # rows) = (if p r then f r else r) # update_where p f rows"
  by (simp add: update_where_def)

lemma update_where_append [simp]:
  "update_where p f (xs @ ys) = update_where p f xs @ update_where p f ys"
  by (simp add: update_where_def)

lemma length_update_where [simp]: "length (update_where p f rows) = length rows"
  by (simp add: update_where_def)

lemma set_update_where [table_simps]:
  "set (update_where p f rows) = (\<lambda>r. if p r then f r else r) ` set rows"
  by (simp add: update_where_def)

lemma map_update_where:
  "(\<And>r. p r \<Longrightarrow> g (f r) = g r) \<Longrightarrow> map g (update_where p f rows) = map g rows"
  by (simp add: update_where_def)

lemma image_update_where:
  "(\<And>r. p r \<Longrightarrow> g (f r) = g r) \<Longrightarrow> g ` set (update_where p f rows) = g ` set rows"
  by (metis map_update_where set_map)

lemma ball_update_where:
  "(\<forall>x \<in> set (update_where p f rows). Q x) \<longleftrightarrow> (\<forall>r \<in> set rows. Q (if p r then f r else r))"
  by (auto simp: set_update_where)

lemma bex_update_where:
  "(\<exists>x \<in> set (update_where p f rows). Q x) \<longleftrightarrow> (\<exists>r \<in> set rows. Q (if p r then f r else r))"
  by (auto simp: set_update_where)

lemma update_where_id: "(\<And>r. r \<in> set rows \<Longrightarrow> \<not> p r) \<Longrightarrow> update_where p f rows = rows"
  by (induction rows) auto

lemma count_where_Nil [simp]: "count_where p [] = 0"
  by (simp add: count_where_def)

lemma count_where_Cons [simp]:
  "count_where p (r # rows) = (if p r then Suc (count_where p rows) else count_where p rows)"
  by (simp add: count_where_def)

lemma count_where_append [simp]:
  "count_where p (xs @ ys) = count_where p xs + count_where p ys"
  by (simp add: count_where_def)

lemma count_where_0 [table_simps]: "count_where p rows = 0 \<longleftrightarrow> (\<forall>r \<in> set rows. \<not> p r)"
  by (simp add: count_where_def filter_empty_conv)

lemma count_where_le_length: "count_where p rows \<le> length rows"
  by (simp add: count_where_def)

lemma set_delete_where [simp]: "set (delete_where p rows) = {r \<in> set rows. \<not> p r}"
  by (simp add: delete_where_def)

lemma find_Some: "List.find p rows = Some r \<Longrightarrow> r \<in> set rows \<and> p r"
  by (auto simp: find_Some_iff)

lemma find_None: "List.find p rows = None \<longleftrightarrow> (\<forall>r \<in> set rows. \<not> p r)"
  by (auto simp: find_None_iff)

lemma find_key_unique:
  assumes "distinct (map key rows)" and "r \<in> set rows"
  shows "List.find (\<lambda>x. key x = key r) rows = Some r"
  using assms by (induction rows) (auto intro: rev_image_eqI)

lemma find_update_where_key:
  assumes key: "\<And>r. key (f r) = key r"
    and found: "List.find (\<lambda>x. key x = k) rows = Some r"
  shows "List.find (\<lambda>x. key x = k) (update_where (\<lambda>x. key x = k) f rows) = Some (f r)"
  using found by (induction rows) (auto simp: key split: if_splits)

lemma find_update_where_other:
  assumes "\<And>r. key (f r) = key r" and "\<And>r. p r \<Longrightarrow> key r \<noteq> k"
  shows "List.find (\<lambda>x. key x = k) (update_where p f rows) = List.find (\<lambda>x. key x = k) rows"
  using assms by (induction rows) auto

lemma first_by_Some: "first_by key p rows = Some r \<Longrightarrow> r \<in> set rows \<and> p r"
proof -
  assume "first_by key p rows = Some r"
  then obtain rs where "sort_key key (filter p rows) = r # rs"
    by (auto simp: first_by_def split: list.splits)
  then have "r \<in> set (sort_key key (filter p rows))" by simp
  then show ?thesis by simp
qed

lemma first_by_None: "first_by key p rows = None \<longleftrightarrow> (\<forall>r \<in> set rows. \<not> p r)"
proof -
  have "first_by key p rows = None \<longleftrightarrow> sort_key key (filter p rows) = []"
    by (auto simp: first_by_def split: list.splits)
  also have "\<dots> \<longleftrightarrow> set (sort_key key (filter p rows)) = {}"
    by (metis set_empty)
  also have "\<dots> \<longleftrightarrow> (\<forall>r \<in> set rows. \<not> p r)"
    by auto
  finally show ?thesis .
qed

lemma first_by_least:
  assumes "first_by key p rows = Some r" and "x \<in> set rows" and "p x"
  shows "key r \<le> key x"
proof -
  from assms(1) obtain rs where rs: "sort_key key (filter p rows) = r # rs"
    by (auto simp: first_by_def split: list.splits)
  have "sorted (map key (sort_key key (filter p rows)))" by simp
  with rs have least: "\<forall>y \<in> set rs. key r \<le> key y" by simp
  from assms(2,3) have "x \<in> set (sort_key key (filter p rows))" by simp
  with rs least show ?thesis by auto
qed

lemma find_update_where:
  assumes "\<And>r. key (f r) = key r"
  shows "List.find (\<lambda>x. key x = k) (update_where p f rows) =
           map_option (\<lambda>r. if p r then f r else r) (List.find (\<lambda>x. key x = k) rows)"
  using assms by (induction rows) auto

lemma concat_pages: "concat (map (\<lambda>k. take l (drop (k * l) xs)) [0..<n]) = take (n * l) xs"
proof (induction n)
  case 0
  then show ?case by simp
next
  case (Suc n)
  have "take (Suc n * l) xs = take (n * l) xs @ take l (drop (n * l) xs)"
    using take_add [of "n * l" l xs] by (simp add: add.commute)
  with Suc show ?case by simp
qed

lemma find_append: "List.find p (xs @ ys) = (case List.find p xs of None \<Rightarrow> List.find p ys | Some x \<Rightarrow> Some x)"
  by (induction xs) auto

lemma count_update_same:
  "(\<And>r. r \<in> set rows \<Longrightarrow> p r \<Longrightarrow> q (f r) = q r) \<Longrightarrow> count_where q (update_where p f rows) = count_where q rows"
  by (induction rows) auto

lemma count_update_le:
  "(\<And>r. r \<in> set rows \<Longrightarrow> p r \<Longrightarrow> q (f r) \<Longrightarrow> q r) \<Longrightarrow> count_where q (update_where p f rows) \<le> count_where q rows"
  by (induction rows) auto

lemma count_update_one:
  assumes "distinct (map key rows)" and "r \<in> set rows" and "p r" and "q r" and "\<not> q (f r)"
    and "\<And>x. p x \<Longrightarrow> key x = key r"
  shows "Suc (count_where q (update_where p f rows)) = count_where q rows"
  using assms(1,2)
proof (induction rows)
  case Nil
  then show ?case by simp
next
  case (Cons y rows)
  show ?case
  proof (cases "key y = key r")
    case True
    with Cons.prems have "y = r" by (auto intro: rev_image_eqI)
    moreover have "update_where p f rows = rows"
      using Cons.prems True assms(6) by (intro update_where_id) (auto intro: rev_image_eqI)
    ultimately show ?thesis using assms(3-5) by simp
  next
    case False
    then have "r \<in> set rows" "\<not> p y" using Cons.prems assms(6) by auto
    with Cons show ?thesis by simp
  qed
qed

lemma count_remove1: "x \<in> set xs \<Longrightarrow> q x \<Longrightarrow> Suc (count_where q (remove1 x xs)) = count_where q xs"
  by (induction xs) auto

lemma count_remove1_other: "\<not> q x \<Longrightarrow> count_where q (remove1 x xs) = count_where q xs"
  by (induction xs) auto

text \<open>A loop that updates, one after the other, each row of a list that was read before it.\<close>

lemma foldl_update_read:
  assumes key: "\<And>d r. key (h d r) = key r" and "distinct (map key ds)"
  shows "foldl (\<lambda>rs d. update_where (\<lambda>r. key r = key d) (h d) rs) rows ds =
           map (\<lambda>r. case List.find (\<lambda>d. key d = key r) ds of None \<Rightarrow> r | Some d \<Rightarrow> h d r) rows"
  using assms(2)
proof (induction ds arbitrary: rows)
  case Nil
  then show ?case by simp
next
  case (Cons d ds)
  have none: "List.find (\<lambda>x. key x = key d) ds = None"
    unfolding find_None using Cons.prems by (metis distinct.simps(2) imageI list.simps(9) set_map)
  from Cons show ?case
    by (auto simp: update_where_def key none)
qed

lemma foldl_update_all:
  assumes key: "\<And>d r. key (h d r) = key r" and dist: "distinct (map key rows)"
  shows "foldl (\<lambda>rs d. update_where (\<lambda>r. key r = key d) (h d) rs) rows (filter p rows) =
           map (\<lambda>r. if p r then h r r else r) rows"
proof -
  have ds: "distinct (map key (filter p rows))"
    using dist by (simp add: distinct_map_filter)
  have "List.find (\<lambda>d. key d = key r) (filter p rows) = (if p r then Some r else None)" if "r \<in> set rows" for r
  proof (cases "p r")
    case True
    with that find_key_unique [OF ds, of r] show ?thesis by simp
  next
    case False
    with that dist show ?thesis by (auto simp: find_None distinct_map inj_on_def)
  qed
  then show ?thesis unfolding foldl_update_read [OF key ds] by simp
qed

text \<open>\<open>rows.find(...)\<close> followed by a mutation of the object found.\<close>

fun update_first :: "('r \<Rightarrow> bool) \<Rightarrow> ('r \<Rightarrow> 'r) \<Rightarrow> 'r list \<Rightarrow> 'r list" where
  "update_first p f [] = []"
| "update_first p f (r # rows) = (if p r then f r # rows else r # update_first p f rows)"

lemma map_update_first: "(\<And>r. g (f r) = g r) \<Longrightarrow> map g (update_first p f rows) = map g rows"
  by (induction rows) auto

lemma set_update_first: "x \<in> set (update_first p f rows) \<Longrightarrow> x \<in> set rows \<or> (\<exists>r \<in> set rows. p r \<and> x = f r)"
  by (induction rows) (auto split: if_splits)

lemma update_first_keeps: "x \<in> set rows \<Longrightarrow> \<not> p x \<Longrightarrow> x \<in> set (update_first p f rows)"
  by (induction rows) auto

lemma update_first_none: "\<forall>r \<in> set rows. \<not> p r \<Longrightarrow> update_first p f rows = rows"
  by (induction rows) auto

text \<open>A sum over the rows after one row, found by its key, has changed.\<close>

lemma sum_update_first:
  fixes w :: "'r \<Rightarrow> int"
  assumes "distinct (map key rows)" and "r \<in> set rows"
  shows "(\<Sum>x\<leftarrow>update_first (\<lambda>x. key x = key r) f rows. w x) = (\<Sum>x\<leftarrow>rows. w x) + (w (f r) - w r)"
  using assms
proof (induction rows)
  case Nil
  then show ?case by simp
next
  case (Cons y rows)
  show ?case
  proof (cases "key y = key r")
    case True
    with Cons.prems have "y = r" by (auto intro: rev_image_eqI)
    then show ?thesis by simp
  next
    case False
    with Cons.prems have "r \<in> set rows" by auto
    with Cons False show ?thesis by simp
  qed
qed

lemma remove1_key:
  "distinct (map key xs) \<Longrightarrow> y \<in> set xs \<Longrightarrow> x \<in> set (remove1 y xs) \<Longrightarrow> x \<in> set xs \<and> key x \<noteq> key y"
  by (induction xs) (auto intro: rev_image_eqI split: if_splits)

lemma distinct_key_remove1: "distinct (map key xs) \<Longrightarrow> distinct (map key (remove1 y xs))"
  by (induction xs) (auto dest: subsetD [OF set_remove1_subset])

section \<open>An exclusive claim of a row\<close>

text \<open>
  Several components claim a row with a conditional \<open>updateMany\<close>: the \<open>where\<close> clause names
  the row and the status it must still have, the \<open>data\<close> moves it out of that status, and the
  returned count says whether this caller won. The law is that the write falsifies its own
  guard; the contract is that of any two such claims at most one counts a row.
\<close>

locale exclusive_claim =
  fixes guard :: "'r \<Rightarrow> bool" and mark :: "'r \<Rightarrow> 'r"
  assumes mark_leaves: "guard r \<Longrightarrow> \<not> guard (mark r)"
begin

lemma claimed_once: "count_where guard (update_where guard mark rows) = 0"
  by (induction rows) (auto simp: mark_leaves)

lemma claim_idem:
  "update_where guard mark' (update_where guard mark rows) = update_where guard mark rows"
  by (induction rows) (auto simp: mark_leaves)

end

section \<open>A bounded retry policy\<close>

text \<open>
  The delivery queues share one policy: a failed attempt is counted; while the count stays
  below the limit the row stays (or becomes again) eligible, later; at the limit the row is
  given up for good. \<open>tries\<close> is the count, \<open>limit\<close> the bound, \<open>fail\<close> one failed attempt.
\<close>

locale retry_policy =
  fixes tries :: "'r \<Rightarrow> nat" and limit :: "'r \<Rightarrow> nat"
    and live :: "'r \<Rightarrow> bool" and fail :: "'r \<Rightarrow> 'r"
  assumes tries_fail: "tries (fail r) = Suc (tries r)"
    and limit_fail: "limit (fail r) = limit r"
    and live_fail: "live r \<Longrightarrow> live (fail r) \<longleftrightarrow> Suc (tries r) < limit r"
begin

lemma tries_funpow: "tries ((fail ^^ n) r) = tries r + n"
  by (induction n) (simp_all add: tries_fail)

lemma limit_funpow: "limit ((fail ^^ n) r) = limit r"
  by (induction n) (simp_all add: limit_fail)

lemma live_funpow:
  assumes "live r" and "tries r + n < limit r"
  shows "live ((fail ^^ n) r)"
  using assms(2)
proof (induction n)
  case 0
  with assms(1) show ?case by simp
next
  case (Suc n)
  then have "live ((fail ^^ n) r)" by simp
  with Suc.prems show ?case
    by (simp add: live_fail tries_funpow limit_funpow)
qed

text \<open>A row that keeps failing is given up after exactly the attempts it had left.\<close>

lemma exhausted:
  assumes "live r" and "tries r < limit r"
  shows "\<not> live ((fail ^^ (limit r - tries r)) r)"
proof -
  define n where "n = limit r - tries r - 1"
  with assms(2) have n: "limit r - tries r = Suc n" and lt: "tries r + n < limit r"
    by auto
  from live_funpow [OF assms(1) lt] have "live ((fail ^^ n) r)" .
  then have "live (fail ((fail ^^ n) r)) \<longleftrightarrow> Suc (tries r + n) < limit r"
    by (simp add: live_fail tries_funpow limit_funpow)
  with n show ?thesis by simp
qed

end

section \<open>A step system with an invariant\<close>

text \<open>
  Concurrent requests interleave at every \<open>await\<close>. A component that has to be right under
  every interleaving is a relation between states; an invariant that holds at the start and
  that every step keeps holds in every state it can reach.
\<close>

inductive reaches :: "('s \<Rightarrow> 's \<Rightarrow> bool) \<Rightarrow> 's \<Rightarrow> 's \<Rightarrow> bool" for R where
  reaches_refl: "reaches R s s"
| reaches_step: "reaches R s t \<Longrightarrow> R t u \<Longrightarrow> reaches R s u"

lemma reaches_one: "R s t \<Longrightarrow> reaches R s t"
  using reaches_step [OF reaches_refl [of R s]] .

locale invariant_system =
  fixes init :: "'s \<Rightarrow> bool" and next_state :: "'s \<Rightarrow> 's \<Rightarrow> bool" and inv :: "'s \<Rightarrow> bool"
  assumes inv_init: "init s \<Longrightarrow> inv s"
    and inv_next: "inv s \<Longrightarrow> next_state s t \<Longrightarrow> inv t"
begin

lemma inv_reaches: "reaches next_state s t \<Longrightarrow> inv s \<Longrightarrow> inv t"
  by (induction rule: reaches.induct) (auto intro: inv_next)

lemma inv_reachable: "init s \<Longrightarrow> reaches next_state s t \<Longrightarrow> inv t"
  by (rule inv_reaches) (auto intro: inv_init)

end

section \<open>A limit per window\<close>

text \<open>
  The limits on requests are counters that start over when their window closes. A request \<open>q\<close>, made at
  \<open>moment q\<close>, is \<open>admitted\<close> or not. While the window is open the counter only grows, and a request is admitted only below
  \<open>limit\<close>; a request after it closed opens a new one \<open>width\<close> long, or leaves things as they are. Windows are
  not aligned with the calendar, so an interval as long as a window can see the end of one and a whole
  other one: twice the limit.
\<close>

fun admissions :: "('q \<Rightarrow> 's \<Rightarrow> bool \<times> 's) \<Rightarrow> 'q list \<Rightarrow> 's \<Rightarrow> nat" where
  "admissions admit [] s = 0"
| "admissions admit (q # qs) s = (if fst (admit q s) then 1 else 0) + admissions admit qs (snd (admit q s))"

locale fixed_window =
  fixes admit :: "'q \<Rightarrow> 's \<Rightarrow> bool \<times> 's" and moment :: "'q \<Rightarrow> time"
    and hits :: "'s \<Rightarrow> nat" and closes :: "'s \<Rightarrow> time option" and limit :: nat and width :: int
  assumes admit_open: "\<lbrakk>closes s = Some e; moment q \<le> e; admit q s = (b, s')\<rbrakk> \<Longrightarrow>
      closes s' = Some e \<and> hits s \<le> hits s' \<and> (b \<longrightarrow> hits s < limit \<and> hits s < hits s')"
    and admit_closed: "\<lbrakk>\<And>e. closes s = Some e \<Longrightarrow> e < moment q; admit q s = (b, s')\<rbrakk> \<Longrightarrow>
      \<not> b \<and> closes s' = closes s \<and> hits s' = hits s \<or> closes s' = Some (moment q + width) \<and> 1 \<le> hits s'"
begin

lemma open_bound:
  assumes "closes s = Some e" and "list_all (\<lambda>q. moment q \<le> e) qs"
  shows "admissions admit qs s \<le> limit - hits s"
  using assms
proof (induction qs arbitrary: s)
  case (Cons q qs)
  obtain b s' where a: "admit q s = (b, s')" by fastforce
  with admit_open [of s e q b s'] Cons.prems
  have s': "closes s' = Some e" "hits s \<le> hits s'" "b \<longrightarrow> hits s < limit \<and> hits s < hits s'" by auto
  from Cons.IH [OF s'(1)] Cons.prems have "admissions admit qs s' \<le> limit - hits s'" by simp
  with s' a show ?case by auto
qed simp

lemma interval_bound:
  assumes "list_all (\<lambda>q. t0 \<le> moment q \<and> moment q \<le> t0 + width) qs"
  shows "admissions admit qs s \<le> (limit - hits s) + max 1 limit"
  using assms
proof (induction qs arbitrary: s)
  case (Cons q qs)
  obtain b s' where a: "admit q s = (b, s')" by fastforce
  from Cons.prems Cons.IH [of s'] have IH: "admissions admit qs s' \<le> (limit - hits s') + max 1 limit" by simp
  show ?case
  proof (cases "\<exists>e. closes s = Some e \<and> moment q \<le> e")
    case True
    with admit_open [of s _ q b s'] a have "hits s \<le> hits s'" "b \<longrightarrow> hits s < limit \<and> hits s < hits s'" by auto
    with IH a show ?thesis by auto
  next
    case False
    with admit_closed [of s q b s'] a
    have "\<not> b \<and> closes s' = closes s \<and> hits s' = hits s \<or> closes s' = Some (moment q + width) \<and> 1 \<le> hits s'" by force
    then show ?thesis
    proof
      assume "\<not> b \<and> closes s' = closes s \<and> hits s' = hits s"
      with IH a show ?thesis by simp
    next
      assume w: "closes s' = Some (moment q + width) \<and> 1 \<le> hits s'"
      from Cons.prems have "list_all (\<lambda>r. moment r \<le> moment q + width) qs" by (auto simp: list_all_iff)
      with w have "admissions admit qs s' \<le> limit - hits s'" by (auto intro: open_bound)
      with w a show ?thesis by auto
    qed
  qed
qed simp

end

section \<open>Strings of the language\<close>

text \<open>
  Strings are lists of 8-bit code units. The library functions of JavaScript that the source
  calls: \<open>padStart\<close>, \<open>padEnd\<close>, \<open>slice\<close> from the front, \<open>split\<close> at one character, \<open>trim\<close>
  (the white space among the first 256 code units), and the digit tests of a regular
  expression.
\<close>

definition padStart :: "nat \<Rightarrow> char \<Rightarrow> string \<Rightarrow> string" where
  "padStart n c s = replicate (n - length s) c @ s"

definition padEnd :: "nat \<Rightarrow> char \<Rightarrow> string \<Rightarrow> string" where
  "padEnd n c s = s @ replicate (n - length s) c"

definition is_space :: "char \<Rightarrow> bool" where
  "is_space c \<longleftrightarrow> of_char c \<in> {9, 10, 11, 12, 13, 32, 160 :: nat}"

definition is_digit :: "char \<Rightarrow> bool" where
  "is_digit c \<longleftrightarrow> (48 :: nat) \<le> of_char c \<and> of_char c \<le> (57 :: nat)"

definition trim :: "string \<Rightarrow> string" where
  "trim s = rev (dropWhile is_space (rev (dropWhile is_space s)))"

fun split_on :: "char \<Rightarrow> string \<Rightarrow> string list" where
  "split_on c [] = [[]]"
| "split_on c (x # xs) =
     (if x = c then [] # split_on c xs
      else (case split_on c xs of [] \<Rightarrow> [[x]] | p # ps \<Rightarrow> (x # p) # ps))"

lemma split_on_none: "c \<notin> set s \<Longrightarrow> split_on c s = [s]"
  by (induction s) auto

lemma split_on_append: "c \<notin> set s \<Longrightarrow> split_on c (s @ c # t) = s # split_on c t"
  by (induction s) auto

lemma trim_id: "\<forall>c \<in> set s. \<not> is_space c \<Longrightarrow> trim s = s"
proof -
  assume a: "\<forall>c \<in> set s. \<not> is_space c"
  then have "dropWhile is_space s = s" by (cases s) auto
  moreover from a have "dropWhile is_space (rev s) = rev s"
    by (cases s rule: rev_cases) auto
  ultimately show ?thesis by (simp add: trim_def)
qed

text \<open>Decimal digits of a natural number, and back.\<close>

definition digit_char :: "nat \<Rightarrow> char" where
  "digit_char d = char_of (48 + d)"

fun show_nat :: "nat \<Rightarrow> string" where
  "show_nat n = (if n < 10 then [digit_char n] else show_nat (n div 10) @ [digit_char (n mod 10)])"

declare show_nat.simps [simp del]

definition digit_val :: "char \<Rightarrow> nat" where
  "digit_val c = of_char c - 48"

definition parse_nat :: "string \<Rightarrow> nat" where
  "parse_nat s = foldl (\<lambda>a c. 10 * a + digit_val c) 0 s"

lemma of_char_digit: "d < 10 \<Longrightarrow> of_char (digit_char d) = (48 + d :: nat)"
  by (simp add: digit_char_def)

lemma digit_val_char [simp]: "d < 10 \<Longrightarrow> digit_val (digit_char d) = d"
  by (simp add: digit_val_def of_char_digit)

lemma is_digit_char [simp]: "d < 10 \<Longrightarrow> is_digit (digit_char d)"
  by (simp add: is_digit_def of_char_digit)

lemma digit_not_space: "is_digit c \<Longrightarrow> \<not> is_space c"
  by (auto simp: is_digit_def is_space_def)

lemma show_nat_digits: "\<forall>c \<in> set (show_nat n). is_digit c"
proof (induction n rule: show_nat.induct)
  case (1 n)
  show ?case
  proof (cases "n < 10")
    case True
    then show ?thesis by (simp add: show_nat.simps [of n])
  next
    case False
    with "1.IH" show ?thesis by (auto simp: show_nat.simps [of n])
  qed
qed

lemma show_nat_nonempty: "show_nat n \<noteq> []"
  by (simp add: show_nat.simps [of n])

lemma parse_nat_snoc: "parse_nat (s @ [c]) = 10 * parse_nat s + digit_val c"
  by (simp add: parse_nat_def)

lemma parse_show_nat: "parse_nat (show_nat n) = n"
proof (induction n rule: show_nat.induct)
  case (1 n)
  show ?case
  proof (cases "n < 10")
    case True
    then show ?thesis by (simp add: show_nat.simps [of n] parse_nat_def)
  next
    case False
    then have "parse_nat (show_nat n) = 10 * parse_nat (show_nat (n div 10)) + n mod 10"
      by (subst show_nat.simps) (simp add: parse_nat_snoc)
    with "1.IH" False show ?thesis by simp
  qed
qed

lemma foldl_zeros:
  "foldl (\<lambda>a c. 10 * a + digit_val c) 0 (replicate k (CHR ''0'')) = 0"
  by (induction k) (simp_all add: digit_val_def)

lemma parse_nat_padStart: "parse_nat (padStart n (CHR ''0'') s) = parse_nat s"
  by (simp add: parse_nat_def padStart_def foldl_append foldl_zeros)

lemma show_nat_length: "0 < k \<Longrightarrow> n < 10 ^ k \<Longrightarrow> length (show_nat n) \<le> k"
proof (induction k arbitrary: n)
  case 0
  then show ?case by simp
next
  case (Suc k)
  show ?case
  proof (cases "n < 10")
    case True
    then show ?thesis by (simp add: show_nat.simps [of n])
  next
    case False
    with Suc.prems have k: "0 < k" by (cases k) auto
    from Suc.prems have "n div 10 < 10 ^ k"
      by (simp add: less_mult_imp_div_less mult.commute)
    with Suc.IH [OF k] have "length (show_nat (n div 10)) \<le> k" .
    with False show ?thesis by (simp add: show_nat.simps [of n])
  qed
qed

definition show_int :: "int \<Rightarrow> string" where
  "show_int i = (if i < 0 then CHR ''-'' # show_nat (nat (- i)) else show_nat (nat i))"

lemma show_nat_inj: "show_nat a = show_nat b \<Longrightarrow> a = b"
  by (metis parse_show_nat)

lemma show_int_inj: "show_int a = show_int b \<Longrightarrow> a = b"
proof -
  assume eq: "show_int a = show_int b"
  have minus: "show_nat n \<noteq> CHR ''-'' # t" for n t
  proof
    assume "show_nat n = CHR ''-'' # t"
    then have "CHR ''-'' \<in> set (show_nat n)" by simp
    with show_nat_digits [of n] have "is_digit (CHR ''-'')" by blast
    then show False by (simp add: is_digit_def)
  qed
  show "a = b"
  proof (cases "a < 0"; cases "b < 0")
    assume "a < 0" "\<not> b < 0"
    with eq minus [of "nat b"] show ?thesis by (metis show_int_def)
  next
    assume "\<not> a < 0" "b < 0"
    with eq minus [of "nat a"] show ?thesis by (metis show_int_def)
  qed (use eq in \<open>auto simp: show_int_def dest: show_nat_inj\<close>)
qed

lemma show_int_no_colon: "CHR '':'' \<notin> set (show_int i)"
proof
  assume "CHR '':'' \<in> set (show_int i)"
  then have "CHR '':'' \<in> set (show_nat (nat i)) \<or> CHR '':'' \<in> set (show_nat (nat (- i)))"
    by (auto simp: show_int_def split: if_splits)
  then have "is_digit (CHR '':'')" using show_nat_digits by blast
  then show False by (simp add: is_digit_def)
qed

text \<open>\<open>parseInt(s, 10)\<close>: leading white space, a sign, then the digits up to the first other
  character; \<open>None\<close> is \<open>NaN\<close>.\<close>

definition parseInt10 :: "string \<Rightarrow> int option" where
  "parseInt10 s =
     (let t = dropWhile is_space s;
          neg = (t \<noteq> [] \<and> hd t = CHR ''-'');
          u = (if t \<noteq> [] \<and> hd t \<in> {CHR ''-'', CHR ''+''} then tl t else t);
          ds = takeWhile is_digit u
      in if ds = [] then None
         else Some (if neg then - int (parse_nat ds) else int (parse_nat ds)))"

section \<open>JSON values\<close>

text \<open>
  A value of type \<open>unknown\<close> is a JSON value. A column that holds JSON text holds either the
  text of a value (\<open>JSON.stringify\<close> and \<open>JSON.parse\<close> are inverse on these values, so the
  text is the value) or text that does not parse.
\<close>

datatype json = JNull | JBool bool | JNum int | JStr string | JArr "json list" | JObj "(string \<times> json) list"

datatype json_text = JsonText json | Malformed string

definition json_stringify :: "json \<Rightarrow> json_text" where
  "json_stringify v = JsonText v"

fun json_parse :: "json_text \<Rightarrow> json option" where
  "json_parse (JsonText v) = Some v"
| "json_parse (Malformed _) = None"

lemma json_parse_stringify [simp]: "json_parse (json_stringify v) = Some v"
  by (simp add: json_stringify_def)

definition json_field :: "json \<Rightarrow> string \<Rightarrow> json option" where
  "json_field v k = (case v of JObj fs \<Rightarrow> map_of fs k | _ \<Rightarrow> None)"

text \<open>\<open>Boolean(v)\<close>.\<close>

definition json_truthy :: "json \<Rightarrow> bool" where
  "json_truthy v = (case v of JNull \<Rightarrow> False | JBool b \<Rightarrow> b | JNum n \<Rightarrow> n \<noteq> 0 | JStr s \<Rightarrow> s \<noteq> [] | _ \<Rightarrow> True)"

end
