(* ===== verification/Money.thy ===== *)
theory Money
  imports Prelude
begin

text \<open>
  \<open>src/src/utils/money.ts\<close>: exact amounts in stroops. A \<open>bigint\<close> is an \<open>int\<close>, and its
  division truncates towards zero (\<open>bigint_div\<close>). A \<open>MoneyError\<close> is its code. The conversion
  of a legacy binary float is left out: it computes in IEEE doubles.
\<close>

datatype money_error =
    OUT_OF_RANGE | OVERFLOW | INVALID_XLM_STRING | SUBTRACTION_UNDERFLOW | DIVIDE_BY_ZERO

definition STROOPS_PER_XLM :: int where
  "STROOPS_PER_XLM = 10000000"

definition MAX_STROOPS :: int where
  "MAX_STROOPS = 10 ^ 18"

definition bigint_div :: "int \<Rightarrow> int \<Rightarrow> int" where
  "bigint_div a b = sgn a * sgn b * (\<bar>a\<bar> div \<bar>b\<bar>)"

definition assertInRange :: "int \<Rightarrow> money_error + unit" where
  "assertInRange stroops =
     (if stroops < 0 then Inl OUT_OF_RANGE
      else if stroops > MAX_STROOPS then Inl OVERFLOW
      else Inr ())"

text \<open>\<open>const result = ...; assertInRange(result); return result\<close>\<close>

definition checked :: "int \<Rightarrow> money_error + int" where
  "checked result = (case assertInRange result of Inl e \<Rightarrow> Inl e | Inr _ \<Rightarrow> Inr result)"

definition xlmToStroops :: "int \<Rightarrow> money_error + int" where
  "xlmToStroops xlm = checked (xlm * STROOPS_PER_XLM)"

definition stroopsToXlmString :: "int \<Rightarrow> money_error + string" where
  "stroopsToXlmString stroops =
     (case assertInRange stroops of
        Inl e \<Rightarrow> Inl e
      | Inr _ \<Rightarrow>
          (let isNegative = stroops < 0;
               a = (if isNegative then - stroops else stroops);
               whole = a div STROOPS_PER_XLM;
               fr = a mod STROOPS_PER_XLM;
               fracStr = padStart 7 (CHR ''0'') (show_nat (nat fr))
           in Inr ((if isNegative then ''-'' else []) @ show_nat (nat whole) @ ''.'' @ fracStr)))"

text \<open>The regular expression \<open>^-?\d+(\.\d{0,7})?$\<close>.\<close>

definition xlm_pattern :: "string \<Rightarrow> bool" where
  "xlm_pattern s =
     (let s1 = (case s of c # cs \<Rightarrow> if c = CHR ''-'' then cs else s | [] \<Rightarrow> []);
          whole = takeWhile is_digit s1;
          rest = dropWhile is_digit s1
      in whole \<noteq> [] \<and>
         (case rest of
            [] \<Rightarrow> True
          | c # fr \<Rightarrow> c = CHR ''.'' \<and> list_all is_digit fr \<and> length fr \<le> 7))"

definition xlmStringToStroops :: "string \<Rightarrow> money_error + int" where
  "xlmStringToStroops xlmString =
     (if \<not> xlm_pattern (trim xlmString) then Inl INVALID_XLM_STRING
      else
        (let trimmed = trim xlmString;
             isNegative = (trimmed \<noteq> [] \<and> hd trimmed = CHR ''-'');
             a = (if isNegative then tl trimmed else trimmed);
             parts = split_on (CHR ''.'') a;
             wholePart = (case parts of [] \<Rightarrow> ''0'' | w # _ \<Rightarrow> w);
             fracPart = (case parts of _ # f # _ \<Rightarrow> f | _ \<Rightarrow> []);
             paddedFrac = padEnd 7 (CHR ''0'') fracPart;
             result = int (parse_nat wholePart) * STROOPS_PER_XLM + int (parse_nat paddedFrac)
         in checked (if isNegative then - result else result)))"

definition addStroops :: "int \<Rightarrow> int \<Rightarrow> money_error + int" where
  "addStroops a b = checked (a + b)"

definition subtractStroops :: "int \<Rightarrow> int \<Rightarrow> money_error + int" where
  "subtractStroops a b = (let result = a - b in
     if result < 0 then Inl SUBTRACTION_UNDERFLOW else Inr result)"

definition multiplyStroops :: "int \<Rightarrow> int \<Rightarrow> int \<Rightarrow> money_error + int" where
  "multiplyStroops stroops numerator denominator =
     (if denominator = 0 then Inl DIVIDE_BY_ZERO
      else checked (bigint_div (stroops * numerator) denominator))"

definition clampStroops :: "int \<Rightarrow> int \<Rightarrow> int" where
  "clampStroops value max_value =
     (if value < 0 then 0 else if value > max_value then max_value else value)"

definition formatStroops :: "int \<Rightarrow> string \<Rightarrow> money_error + string" where
  "formatStroops stroops assetCode =
     (case stroopsToXlmString stroops of Inl e \<Rightarrow> Inl e | Inr s \<Rightarrow> Inr (s @ '' '' @ assetCode))"

definition isValidStroopAmount :: "int \<Rightarrow> bool" where
  "isValidStroopAmount stroops \<longleftrightarrow> 0 \<le> stroops \<and> stroops \<le> MAX_STROOPS"

section \<open>Lemmas\<close>

lemma assertInRange_Inr [error_simps]: "assertInRange n = Inr u \<longleftrightarrow> isValidStroopAmount n"
  by (auto simp: assertInRange_def isValidStroopAmount_def)

lemma checked_Inr [error_simps]: "checked n = Inr m \<longleftrightarrow> m = n \<and> isValidStroopAmount n"
  by (auto simp: checked_def assertInRange_def isValidStroopAmount_def)

lemma checked_Inl:
  "checked n = Inl e \<longleftrightarrow> (n < 0 \<and> e = OUT_OF_RANGE) \<or> (MAX_STROOPS < n \<and> e = OVERFLOW)"
  by (auto simp: checked_def assertInRange_def MAX_STROOPS_def)

lemma valid_nonneg: "isValidStroopAmount n \<Longrightarrow> 0 \<le> n"
  by (simp add: isValidStroopAmount_def)

lemma bigint_div_nonneg: "0 \<le> a \<Longrightarrow> 0 < b \<Longrightarrow> bigint_div a b = a div b"
  by (cases "a = 0") (simp_all add: bigint_div_def)

lemma multiplyStroops_nonneg:
  "0 \<le> s * n \<Longrightarrow> 0 < d \<Longrightarrow> multiplyStroops s n d = checked (s * n div d)"
  by (simp add: multiplyStroops_def bigint_div_nonneg)

lemma show_nat_no_dot: "CHR ''.'' \<notin> set (show_nat n)"
  using show_nat_digits [of n] by (auto simp: is_digit_def)

lemma show_nat_takeWhile:
  "takeWhile is_digit (show_nat n @ CHR ''.'' # t) = show_nat n"
  "dropWhile is_digit (show_nat n @ CHR ''.'' # t) = CHR ''.'' # t"
proof -
  have dot: "\<not> is_digit (CHR ''.'')" by (simp add: is_digit_def)
  from show_nat_digits [of n] show "takeWhile is_digit (show_nat n @ CHR ''.'' # t) = show_nat n"
    by (simp add: takeWhile_append2 dot)
  from show_nat_digits [of n] show "dropWhile is_digit (show_nat n @ CHR ''.'' # t) = CHR ''.'' # t"
    by (simp add: dropWhile_append2 dot)
qed

text \<open>The seven fractional digits that are printed.\<close>

definition frac_digits :: "nat \<Rightarrow> string" where
  "frac_digits f = padStart 7 (CHR ''0'') (show_nat f)"

lemma frac_digits_length: "f < 10000000 \<Longrightarrow> length (frac_digits f) = 7"
  using show_nat_length [of 7 f] by (simp add: frac_digits_def padStart_def)

lemma frac_digits_digits: "\<forall>c \<in> set (frac_digits f). is_digit c"
proof -
  have "is_digit (CHR ''0'')" by (simp add: is_digit_def)
  with show_nat_digits [of f] show ?thesis by (auto simp: frac_digits_def padStart_def)
qed

lemma parse_frac_digits: "f < 10000000 \<Longrightarrow> parse_nat (padEnd 7 (CHR ''0'') (frac_digits f)) = f"
  by (simp add: padEnd_def frac_digits_length)
     (simp add: frac_digits_def parse_nat_padStart parse_show_nat)

lemma parse_printed:
  assumes "f < 10000000"
  shows "xlmStringToStroops (show_nat w @ ''.'' @ frac_digits f)
       = checked (int w * STROOPS_PER_XLM + int f)"
proof -
  let ?s = "show_nat w @ CHR ''.'' # frac_digits f"
  obtain c cs where sw: "show_nat w = c # cs" using show_nat_nonempty by (cases "show_nat w") auto
  with show_nat_digits [of w] have "is_digit c" by simp
  then have neg: "c \<noteq> CHR ''-''" by (auto simp: is_digit_def)
  have dot: "\<not> is_space (CHR ''.'')" by (simp add: is_space_def)
  have "\<forall>x \<in> set ?s. \<not> is_space x"
    using show_nat_digits [of w] frac_digits_digits [of f] dot by (auto dest: digit_not_space)
  then have trim: "trim ?s = ?s" by (rule trim_id)
  have strip: "(case ?s of x # xs \<Rightarrow> if x = CHR ''-'' then xs else ?s | [] \<Rightarrow> []) = ?s"
    using sw neg by simp
  have pat: "xlm_pattern ?s"
    unfolding xlm_pattern_def Let_def strip show_nat_takeWhile
    using show_nat_nonempty [of w] frac_digits_digits [of f] frac_digits_length [OF assms]
    by (simp add: list_all_iff)
  have fr: "split_on (CHR ''.'') (frac_digits f) = [frac_digits f]"
    using frac_digits_digits [of f] by (intro split_on_none) (auto simp: is_digit_def)
  have parts: "split_on (CHR ''.'') ?s = [show_nat w, frac_digits f]"
    using split_on_append [OF show_nat_no_dot, of w "frac_digits f"] fr by simp
  have hd: "hd ?s \<noteq> CHR ''-''" using sw neg by simp
  show ?thesis
    using pat trim hd parts
    by (simp add: xlmStringToStroops_def parse_show_nat parse_frac_digits [OF assms])
qed

lemma stroopsToXlmString_valid:
  assumes "isValidStroopAmount n"
  shows "stroopsToXlmString n =
     Inr (show_nat (nat (n div STROOPS_PER_XLM)) @ ''.'' @
          frac_digits (nat (n mod STROOPS_PER_XLM)))"
proof -
  from assms have "0 \<le> n" by (rule valid_nonneg)
  moreover from assms have "assertInRange n = Inr ()" by (simp add: error_simps)
  ultimately show ?thesis
    by (simp add: stroopsToXlmString_def Let_def frac_digits_def)
qed

section \<open>Properties\<close>

lemma parse_of_printed:
  "stroopsToXlmString n = Inr s \<Longrightarrow> xlmStringToStroops s = Inr n"
proof -
  assume printed: "stroopsToXlmString n = Inr s"
  then have valid: "isValidStroopAmount n"
    by (auto simp: stroopsToXlmString_def assertInRange_def isValidStroopAmount_def
             split: if_splits)
  let ?w = "nat (n div STROOPS_PER_XLM)" and ?f = "nat (n mod STROOPS_PER_XLM)"
  from printed stroopsToXlmString_valid [OF valid]
  have s: "s = show_nat ?w @ ''.'' @ frac_digits ?f" by simp
  have f: "?f < 10000000" by (simp add: STROOPS_PER_XLM_def nat_less_iff)
  have "int ?w * STROOPS_PER_XLM + int ?f = n"
    using valid_nonneg [OF valid] by (simp add: STROOPS_PER_XLM_def pos_imp_zdiv_nonneg_iff)
  with parse_printed [OF f, of ?w] s valid show ?thesis by (simp add: error_simps)
qed

text \<open>
  C27. Printing an amount as a 7-decimal XLM string and parsing that string gives the amount
  back: the only two conversions at the I/O boundary lose nothing, for every stroop amount
  that can be printed.
\<close>

theorem xlm_string_roundtrip:
  "stroopsToXlmString n = Inr s \<Longrightarrow> xlmStringToStroops s = Inr n"
  by (rule parse_of_printed)

theorem xlm_string_roundtrip_witness: "xlmStringToStroops ''5.0000001'' = Inr 50000001"
proof (rule xlm_string_roundtrip)
  show "stroopsToXlmString 50000001 = Inr ''5.0000001''" by code_simp
qed

text \<open>
  Parsing never yields a value outside \<open>[0, MAX_STROOPS]\<close>: although the pattern admits a
  leading minus sign, a negative amount is rejected with \<open>OUT_OF_RANGE\<close>, and an amount above
  the ceiling with \<open>OVERFLOW\<close>; a string that does not match the pattern is the only other
  failure.
\<close>

theorem xlm_parse_range:
  "case xlmStringToStroops s of
     Inr n \<Rightarrow> isValidStroopAmount n \<and> xlm_pattern (trim s)
   | Inl e \<Rightarrow> (if xlm_pattern (trim s) then e = OUT_OF_RANGE \<and> hd (trim s) = CHR ''-'' \<or> e = OVERFLOW
              else e = INVALID_XLM_STRING)"
proof (cases "xlm_pattern (trim s)")
  case False
  then show ?thesis by (simp add: xlmStringToStroops_def)
next
  case True
  then obtain r where r: "xlmStringToStroops s =
      checked (if trim s \<noteq> [] \<and> hd (trim s) = CHR ''-'' then - r else r)" and pos: "0 \<le> r"
    by (auto simp: xlmStringToStroops_def Let_def STROOPS_PER_XLM_def)
  then show ?thesis
    using True pos by (auto simp: checked_def assertInRange_def isValidStroopAmount_def MAX_STROOPS_def)
qed

text \<open>
  Multiplying a non-negative amount by a non-negative rational rounds down: the result is
  the greatest number of stroops whose multiple by the denominator does not exceed the exact
  product.
\<close>

theorem multiplyStroops_floor:
  assumes "0 \<le> s" and "0 \<le> n" and "0 < d" and "multiplyStroops s n d = Inr r"
  shows "d * r \<le> s * n \<and> s * n < d * (r + 1) \<and> isValidStroopAmount r"
proof -
  from assms(1,2) have "0 \<le> s * n" by simp
  with assms(3,4) have r: "r = s * n div d" and valid: "isValidStroopAmount r"
    by (auto simp: multiplyStroops_nonneg error_simps)
  have "d * r + s * n mod d = s * n" unfolding r by (rule mult_div_mod_eq)
  moreover from assms(3) have "0 \<le> s * n mod d" and "s * n mod d < d" by simp_all
  ultimately have "d * r \<le> s * n" and "s * n < d * r + d" by linarith+
  with valid show ?thesis by (simp add: distrib_left)
qed

theorem multiplyStroops_floor_witness:
  "(2::int) * 75 \<le> 50 * 3 \<and> (50::int) * 3 < 2 * (75 + 1) \<and> isValidStroopAmount 75"
  by (rule multiplyStroops_floor)
     (simp_all add: multiplyStroops_def bigint_div_def checked_def assertInRange_def MAX_STROOPS_def)

end
