(* ===== verification/Rewards.thy ===== *)
theory Rewards
  imports Money
begin

text \<open>
  \<open>src/src/services/reward.service.ts\<close>: the reward ledger, kept in memory. The module-level
  maps and the transaction array are the record \<open>reward_state\<close>. \<open>stellarService.sendPayment\<close>
  is the parameter \<open>pay\<close>: it answers a payment request with an error message or a transaction
  hash. \<open>Date.now()\<close> and the random transaction id are arguments.

  \<open>claimReward\<close> and \<open>processWithdrawal\<close> are asynchronous: they give up control once, at the
  \<open>await\<close> of the payment. Each is therefore two steps, \<open>claim_prepare\<close> and \<open>claim_record\<close>,
  \<open>withdraw_prepare\<close> and \<open>withdraw_settle\<close>; the sequential operations compose them, and the
  relation \<open>ledger_step\<close> interleaves them. Push notifications are fire-and-forget and are left
  out, as is \<open>payReferralBonus\<close>, which only logs.
\<close>

section \<open>Types and constants\<close>

datatype txn_type = ModuleReward | StreakBonus | ReferralReward | Withdrawal
datatype txn_status = TxnPending | TxnCompleted | TxnFailed

record module_info =
  mod_id :: ident
  mod_difficulty :: string
  mod_baseRewardStroops :: int

record reward_claim =
  rc_userId :: ident
  rc_moduleId :: ident
  rc_walletAddress :: string
  rc_streakDays :: "int option"
  rc_referralCode :: "string option"

record reward_breakdown =
  baseAmountStroops :: int
  streakBonusStroops :: int
  referralBonusStroops :: int
  totalAmountStroops :: int

record txn =
  txn_id :: ident
  txn_userId :: ident
  txn_moduleId :: "ident option"
  txn_amountStroops :: int
  txn_type :: txn_type
  txn_status :: txn_status
  txn_stellarTxHash :: "string option"
  txn_createdAt :: time
  txn_completedAt :: "time option"

record withdrawal_request =
  wr_userId :: ident
  wr_walletAddress :: string
  wr_amountStroops :: int
  wr_memo :: "string option"

record payment_request =
  pay_destination :: string
  pay_amount :: string
  pay_memo :: string

record reward_state =
  claimedRewards :: "ident \<Rightarrow> ident set option"
  transactions :: "txn list"
  referralCodes :: "string \<Rightarrow> ident option"
  pendingWithdrawals :: "ident \<Rightarrow> withdrawal_request option"

datatype reward_error =
    AlreadyClaimed | ReferralCodeInUse | InsufficientBalance | NonPositiveAmount
  | MoneyFailed money_error | PaymentFailed string

definition empty_rewards :: reward_state where
  "empty_rewards = \<lparr>claimedRewards = (\<lambda>_. None), transactions = [],
     referralCodes = (\<lambda>_. None), pendingWithdrawals = (\<lambda>_. None)\<rparr>"

definition DIFFICULTY_MULTIPLIERS :: "string \<Rightarrow> (int \<times> int) option" where
  "DIFFICULTY_MULTIPLIERS d =
     (if d = ''beginner'' then Some (1, 1)
      else if d = ''intermediate'' then Some (3, 2)
      else if d = ''advanced'' then Some (2, 1)
      else if d = ''expert'' then Some (3, 1)
      else None)"

definition STREAK_BONUS_RATE_NUM :: int where "STREAK_BONUS_RATE_NUM = 1"
definition STREAK_BONUS_RATE_DEN :: int where "STREAK_BONUS_RATE_DEN = 10"
definition MAX_STREAK_BONUS_NUM :: int where "MAX_STREAK_BONUS_NUM = 1"
definition MAX_STREAK_BONUS_DEN :: int where "MAX_STREAK_BONUS_DEN = 1"

definition REFERRAL_BONUS_STROOPS :: int where
  "REFERRAL_BONUS_STROOPS = projr (xlmToStroops 2)"

lemma REFERRAL_BONUS_value [simp]: "REFERRAL_BONUS_STROOPS = 20000000"
  by (simp add: REFERRAL_BONUS_STROOPS_def xlmToStroops_def checked_def assertInRange_def
      STROOPS_PER_XLM_def MAX_STROOPS_def)

lemmas streak_rates = STREAK_BONUS_RATE_NUM_def STREAK_BONUS_RATE_DEN_def
  MAX_STREAK_BONUS_NUM_def MAX_STREAK_BONUS_DEN_def

section \<open>Amounts\<close>

definition calculateBaseReward :: "module_info \<Rightarrow> money_error + int" where
  "calculateBaseReward m =
     (let (num, den) = (case DIFFICULTY_MULTIPLIERS (mod_difficulty m) of Some r \<Rightarrow> r | None \<Rightarrow> (1, 1))
      in multiplyStroops (mod_baseRewardStroops m) num den)"

definition calculateStreakBonus :: "int \<Rightarrow> int \<Rightarrow> money_error + int" where
  "calculateStreakBonus base streakDays =
     (if streakDays \<le> 0 then Inr 0
      else case multiplyStroops base (streakDays * STREAK_BONUS_RATE_NUM) STREAK_BONUS_RATE_DEN of
        Inl e \<Rightarrow> Inl e
      | Inr uncappedBonus \<Rightarrow>
          (case multiplyStroops base MAX_STREAK_BONUS_NUM MAX_STREAK_BONUS_DEN of
             Inl e \<Rightarrow> Inl e
           | Inr maxBonus \<Rightarrow> Inr (clampStroops uncappedBonus maxBonus)))"

definition calculateReward :: "module_info \<Rightarrow> int \<Rightarrow> bool \<Rightarrow> money_error + reward_breakdown" where
  "calculateReward m streakDays hasReferral =
     (case calculateBaseReward m of
        Inl e \<Rightarrow> Inl e
      | Inr base \<Rightarrow>
          (case calculateStreakBonus base streakDays of
             Inl e \<Rightarrow> Inl e
           | Inr streak \<Rightarrow>
               (let referral = (if hasReferral then REFERRAL_BONUS_STROOPS else 0) in
                case addStroops base streak of
                  Inl e \<Rightarrow> Inl e
                | Inr sub \<Rightarrow>
                    (case addStroops sub referral of
                       Inl e \<Rightarrow> Inl e
                     | Inr tot \<Rightarrow>
                         Inr \<lparr>baseAmountStroops = base, streakBonusStroops = streak,
                              referralBonusStroops = referral, totalAmountStroops = tot\<rparr>))))"

section \<open>The ledger\<close>

definition hasAlreadyClaimed :: "reward_state \<Rightarrow> ident \<Rightarrow> ident \<Rightarrow> bool" where
  "hasAlreadyClaimed s userId moduleId =
     (case claimedRewards s userId of None \<Rightarrow> False | Some ms \<Rightarrow> moduleId \<in> ms)"

definition markAsClaimed :: "ident \<Rightarrow> ident \<Rightarrow> reward_state \<Rightarrow> reward_state" where
  "markAsClaimed userId moduleId s = s\<lparr>claimedRewards := (claimedRewards s)
     (userId := Some (insert moduleId (case claimedRewards s userId of None \<Rightarrow> {} | Some ms \<Rightarrow> ms)))\<rparr>"

definition recordTransaction :: "txn \<Rightarrow> reward_state \<Rightarrow> reward_state" where
  "recordTransaction t s = s\<lparr>transactions := transactions s @ [t]\<rparr>"

definition updateTransactionStatus ::
    "time \<Rightarrow> ident \<Rightarrow> txn_status \<Rightarrow> string option \<Rightarrow> reward_state \<Rightarrow> reward_state" where
  "updateTransactionStatus now tid status hash s = s\<lparr>transactions :=
     update_first (\<lambda>t. txn_id t = tid)
       (\<lambda>t. t\<lparr>txn_status := status,
              txn_stellarTxHash := (case hash of Some h \<Rightarrow> (if h = [] then txn_stellarTxHash t else Some h)
                                   | None \<Rightarrow> txn_stellarTxHash t),
              txn_completedAt := (if status = TxnCompleted then Some now else txn_completedAt t)\<rparr>)
       (transactions s)\<rparr>"

definition registerReferralCode ::
    "string \<Rightarrow> ident \<Rightarrow> reward_state \<Rightarrow> (reward_error + unit) \<times> reward_state" where
  "registerReferralCode code userId s =
     (if referralCodes s code \<noteq> None then (Inl ReferralCodeInUse, s)
      else (Inr (), s\<lparr>referralCodes := (referralCodes s)(code := Some userId)\<rparr>))"

definition resolveReferralCode :: "reward_state \<Rightarrow> string \<Rightarrow> ident option" where
  "resolveReferralCode s code = referralCodes s code"

definition getUserTransactions :: "reward_state \<Rightarrow> ident \<Rightarrow> txn list" where
  "getUserTransactions s userId = filter (\<lambda>t. txn_userId t = userId) (transactions s)"

definition is_earning :: "txn \<Rightarrow> bool" where
  "is_earning t \<longleftrightarrow> txn_status t = TxnCompleted \<and>
     txn_type t \<in> {ModuleReward, StreakBonus, ReferralReward}"

definition is_withdrawn :: "txn \<Rightarrow> bool" where
  "is_withdrawn t \<longleftrightarrow> txn_status t = TxnCompleted \<and> txn_type t = Withdrawal"

definition is_pending_withdrawal :: "txn \<Rightarrow> bool" where
  "is_pending_withdrawal t \<longleftrightarrow> txn_status t = TxnPending \<and> txn_type t = Withdrawal"

definition sum_stroops :: "(txn \<Rightarrow> bool) \<Rightarrow> txn list \<Rightarrow> int" where
  "sum_stroops p ts = foldl (\<lambda>sum t. sum + txn_amountStroops t) 0 (filter p ts)"

record balance =
  availableStroops :: int
  pendingStroops :: int
  lifetimeStroops :: int

definition getBalance :: "reward_state \<Rightarrow> ident \<Rightarrow> balance" where
  "getBalance s userId =
     (let userTransactions = getUserTransactions s userId;
          earned = sum_stroops is_earning userTransactions;
          withdrawn = sum_stroops is_withdrawn userTransactions;
          pending = sum_stroops is_pending_withdrawal userTransactions
      in \<lparr>availableStroops = (if earned \<ge> withdrawn + pending then earned - withdrawn - pending else 0),
          pendingStroops = pending, lifetimeStroops = earned\<rparr>)"

definition hasSufficientBalance :: "reward_state \<Rightarrow> ident \<Rightarrow> int \<Rightarrow> bool" where
  "hasSufficientBalance s userId amount \<longleftrightarrow> amount \<le> availableStroops (getBalance s userId)"

record txn_filter =
  tf_type :: "txn_type option"
  tf_status :: "txn_status option"
  tf_fromDate :: "time option"
  tf_toDate :: "time option"
  tf_limit :: "nat option"
  tf_offset :: "nat option"

record txn_page =
  page_transactions :: "txn list"
  page_total :: nat
  page_hasMore :: bool

definition matches_filter :: "txn_filter \<Rightarrow> txn \<Rightarrow> bool" where
  "matches_filter f t \<longleftrightarrow>
     (case tf_type f of None \<Rightarrow> True | Some ty \<Rightarrow> txn_type t = ty) \<and>
     (case tf_status f of None \<Rightarrow> True | Some st \<Rightarrow> txn_status t = st) \<and>
     (case tf_fromDate f of None \<Rightarrow> True | Some d \<Rightarrow> txn_createdAt t \<ge> d) \<and>
     (case tf_toDate f of None \<Rightarrow> True | Some d \<Rightarrow> txn_createdAt t \<le> d)"

definition history_rows :: "reward_state \<Rightarrow> ident \<Rightarrow> txn_filter \<Rightarrow> txn list" where
  "history_rows s userId f =
     sort_key (\<lambda>t. - txn_createdAt t) (filter (matches_filter f) (getUserTransactions s userId))"

definition getTransactionHistory :: "reward_state \<Rightarrow> ident \<Rightarrow> txn_filter \<Rightarrow> txn_page" where
  "getTransactionHistory s userId f =
     (let rows = history_rows s userId f;
          tot = length rows;
          limit = (case tf_limit f of None \<Rightarrow> 20 | Some l \<Rightarrow> l);
          offset = (case tf_offset f of None \<Rightarrow> 0 | Some n \<Rightarrow> n)
      in \<lparr>page_transactions = take limit (drop offset rows), page_total = tot,
          page_hasMore = offset + limit < tot\<rparr>)"

section \<open>Claiming a reward\<close>

text \<open>\<open>claim.referralCode ? resolve(...) : undefined\<close>, then \<open>!!referrerId\<close>: the empty string is
  falsy in both places.\<close>

definition referrerOf :: "reward_state \<Rightarrow> reward_claim \<Rightarrow> ident option" where
  "referrerOf s c =
     (case rc_referralCode c of
        None \<Rightarrow> None
      | Some code \<Rightarrow> if code = [] then None else resolveReferralCode s code)"

definition has_referrer :: "ident option \<Rightarrow> bool" where
  "has_referrer r \<longleftrightarrow> (case r of None \<Rightarrow> False | Some u \<Rightarrow> u \<noteq> [])"

text \<open>Everything before the payment: the checks, the amounts and the payment request.\<close>

definition claim_prepare ::
    "reward_state \<Rightarrow> reward_claim \<Rightarrow> module_info \<Rightarrow> reward_error + (reward_breakdown \<times> payment_request)" where
  "claim_prepare s c m =
     (if hasAlreadyClaimed s (rc_userId c) (rc_moduleId c) then Inl AlreadyClaimed
      else
        (let days = (case rc_streakDays c of None \<Rightarrow> 0 | Some d \<Rightarrow> d) in
         case calculateReward m days (has_referrer (referrerOf s c)) of
           Inl e \<Rightarrow> Inl (MoneyFailed e)
         | Inr b \<Rightarrow>
             (case stroopsToXlmString (totalAmountStroops b) of
                Inl e \<Rightarrow> Inl (MoneyFailed e)
              | Inr amount \<Rightarrow>
                  Inr (b, \<lparr>pay_destination = rc_walletAddress c, pay_amount = amount,
                           pay_memo = ''Learnault reward: module '' @ rc_moduleId c\<rparr>))))"

text \<open>Everything after it: mark the module as claimed and book the reward.\<close>

definition claim_record ::
    "reward_claim \<Rightarrow> reward_breakdown \<Rightarrow> string \<Rightarrow> ident \<Rightarrow> time \<Rightarrow> reward_state \<Rightarrow> reward_state" where
  "claim_record c b hash tid now s =
     recordTransaction
       \<lparr>txn_id = tid, txn_userId = rc_userId c, txn_moduleId = Some (rc_moduleId c),
        txn_amountStroops = totalAmountStroops b, txn_type = ModuleReward,
        txn_status = TxnCompleted, txn_stellarTxHash = Some hash,
        txn_createdAt = now, txn_completedAt = None\<rparr>
       (markAsClaimed (rc_userId c) (rc_moduleId c) s)"

definition claimReward ::
    "(payment_request \<Rightarrow> string + string) \<Rightarrow> ident \<Rightarrow> time \<Rightarrow> reward_claim \<Rightarrow> module_info \<Rightarrow>
     (reward_state, reward_error, reward_breakdown \<times> string) step" where
  "claimReward pay tid now c m s =
     (case claim_prepare s c m of
        Inl e \<Rightarrow> (Inl e, s)
      | Inr (b, req) \<Rightarrow>
          (case pay req of
             Inl err \<Rightarrow> (Inl (PaymentFailed err), s)
           | Inr hash \<Rightarrow> (Inr (b, hash), claim_record c b hash tid now s)))"

section \<open>Withdrawing\<close>

definition withdraw_prepare ::
    "ident \<Rightarrow> time \<Rightarrow> withdrawal_request \<Rightarrow> (reward_state, reward_error, unit) step" where
  "withdraw_prepare tid now r s =
     (let available = availableStroops (getBalance s (wr_userId r)) in
      if wr_amountStroops r > available then
        (case (stroopsToXlmString available, stroopsToXlmString (wr_amountStroops r)) of
           (Inl e, _) \<Rightarrow> (Inl (MoneyFailed e), s)
         | (_, Inl e) \<Rightarrow> (Inl (MoneyFailed e), s)
         | _ \<Rightarrow> (Inl InsufficientBalance, s))
      else if wr_amountStroops r \<le> 0 then (Inl NonPositiveAmount, s)
      else
        (let s1 = recordTransaction
               \<lparr>txn_id = tid, txn_userId = wr_userId r, txn_moduleId = None,
                txn_amountStroops = wr_amountStroops r, txn_type = Withdrawal,
                txn_status = TxnPending, txn_stellarTxHash = None,
                txn_createdAt = now, txn_completedAt = None\<rparr> s
         in (Inr (), s1\<lparr>pendingWithdrawals := (pendingWithdrawals s1)(tid := Some r)\<rparr>)))"

definition withdraw_payment :: "ident \<Rightarrow> withdrawal_request \<Rightarrow> money_error + payment_request" where
  "withdraw_payment tid r =
     (case stroopsToXlmString (wr_amountStroops r) of
        Inl e \<Rightarrow> Inl e
      | Inr amount \<Rightarrow> Inr \<lparr>pay_destination = wr_walletAddress r, pay_amount = amount,
          pay_memo = (case wr_memo r of Some memo \<Rightarrow> memo | None \<Rightarrow> ''Learnault withdrawal: '' @ tid)\<rparr>)"

text \<open>The \<open>try\<close> block after a payment, and its \<open>catch\<close>.\<close>

definition withdraw_settle :: "ident \<Rightarrow> time \<Rightarrow> string option \<Rightarrow> reward_state \<Rightarrow> reward_state" where
  "withdraw_settle tid now hash s =
     (case hash of
        Some h \<Rightarrow> updateTransactionStatus now tid TxnCompleted (Some h) s
      | None \<Rightarrow>
          (let s1 = updateTransactionStatus now tid TxnFailed None s
           in s1\<lparr>pendingWithdrawals := (pendingWithdrawals s1)(tid := None)\<rparr>))"

definition processWithdrawal ::
    "(payment_request \<Rightarrow> string + string) \<Rightarrow> ident \<Rightarrow> time \<Rightarrow> withdrawal_request \<Rightarrow>
     (reward_state, reward_error, string) step" where
  "processWithdrawal pay tid now r s =
     (case withdraw_prepare tid now r s of
        (Inl e, s1) \<Rightarrow> (Inl e, s1)
      | (Inr _, s1) \<Rightarrow>
          (case withdraw_payment tid r of
             Inl e \<Rightarrow> (Inl (MoneyFailed e), withdraw_settle tid now None s1)
           | Inr req \<Rightarrow>
               (case pay req of
                  Inl err \<Rightarrow> (Inl (PaymentFailed err), withdraw_settle tid now None s1)
                | Inr hash \<Rightarrow> (Inr hash, withdraw_settle tid now (Some hash) s1))))"

end
