(* ===== verification/RewardsProps.thy ===== *)
theory RewardsProps
  imports Rewards
begin

text \<open>
  Properties of the reward ledger (\<open>Rewards\<close>): the arithmetic of a reward, the behaviour of
  one claim, the paging of the history, and the safety of the ledger under every interleaving
  of claims and withdrawals.
\<close>

section \<open>Amounts of a reward\<close>

lemma bigint_div_10: "0 \<le> a \<Longrightarrow> bigint_div a 10 = a div 10"
  by (simp add: bigint_div_nonneg)

lemma streak_bonus_value:
  assumes "isValidStroopAmount base" and "calculateStreakBonus base days = Inr b"
  shows "b = (if days \<le> 0 then 0 else min base (base * days div 10))"
proof (cases "days \<le> 0")
  case True
  with assms(2) show ?thesis by (simp add: calculateStreakBonus_def)
next
  case False
  from assms(1) have base: "0 \<le> base" by (rule valid_nonneg)
  with False have prod: "0 \<le> base * days" by simp
  then have div: "0 \<le> base * days div 10" by (simp add: pos_imp_zdiv_nonneg_iff)
  from prod have "multiplyStroops base (days * STREAK_BONUS_RATE_NUM) STREAK_BONUS_RATE_DEN
      = checked (base * days div 10)"
    by (simp add: streak_rates multiplyStroops_nonneg)
  moreover from base have "multiplyStroops base MAX_STREAK_BONUS_NUM MAX_STREAK_BONUS_DEN
      = checked base"
    by (simp add: streak_rates multiplyStroops_nonneg)
  ultimately have "b = clampStroops (base * days div 10) base"
    using assms(2) False
    by (auto simp: calculateStreakBonus_def error_simps split: sum.splits)
  with div False show ?thesis by (auto simp: clampStroops_def)
qed

lemma calculateReward_total: "calculateReward m d r = Inr b \<Longrightarrow> isValidStroopAmount (totalAmountStroops b)"
  by (auto simp: calculateReward_def Let_def addStroops_def error_simps split: sum.splits)

lemma calculateBaseReward_valid:
  "calculateBaseReward m = Inr b \<Longrightarrow> isValidStroopAmount b"
  by (auto simp: calculateBaseReward_def multiplyStroops_def error_simps
      split: option.splits prod.splits if_splits)

text \<open>
  A reward that is computed at all is the sum of its three parts, with a streak bonus of
  a tenth of the base per day capped at the base, a referral bonus of 2 XLM exactly when there
  is a referrer, and every part and the total within the legal range of stroop amounts.
\<close>

theorem reward_breakdown_correct:
  assumes "calculateReward m days ref = Inr b"
  shows "calculateBaseReward m = Inr (baseAmountStroops b)
    \<and> streakBonusStroops b =
        (if days \<le> 0 then 0 else min (baseAmountStroops b) (baseAmountStroops b * days div 10))
    \<and> referralBonusStroops b = (if ref then 20000000 else 0)
    \<and> totalAmountStroops b =
        baseAmountStroops b + streakBonusStroops b + referralBonusStroops b
    \<and> 0 \<le> streakBonusStroops b \<and> streakBonusStroops b \<le> baseAmountStroops b
    \<and> isValidStroopAmount (totalAmountStroops b)"
proof -
  from assms obtain base streak sub where
    base: "calculateBaseReward m = Inr base" and
    streak: "calculateStreakBonus base days = Inr streak" and
    sub: "addStroops base streak = Inr sub" and
    tot: "addStroops sub (if ref then REFERRAL_BONUS_STROOPS else 0) = Inr (totalAmountStroops b)" and
    b: "baseAmountStroops b = base" "streakBonusStroops b = streak"
       "referralBonusStroops b = (if ref then REFERRAL_BONUS_STROOPS else 0)"
    by (auto simp: calculateReward_def Let_def split: sum.splits)
  have valid: "isValidStroopAmount base" by (rule calculateBaseReward_valid [OF base])
  note val = streak_bonus_value [OF valid streak]
  have "0 \<le> streak" "streak \<le> base"
    using val valid_nonneg [OF valid] by (auto simp: pos_imp_zdiv_nonneg_iff)
  with base b val sub tot show ?thesis
    by (simp add: addStroops_def error_simps)
qed

theorem reward_breakdown_correct_witness:
  "\<exists>b. calculateReward \<lparr>mod_id = ''m'', mod_difficulty = ''intermediate'',
          mod_baseRewardStroops = 50000000\<rparr> 3 True = Inr b
     \<and> totalAmountStroops b = baseAmountStroops b + streakBonusStroops b + referralBonusStroops b
     \<and> totalAmountStroops b = 117500000"
proof -
  let ?m = "\<lparr>mod_id = ''m'', mod_difficulty = ''intermediate'', mod_baseRewardStroops = 50000000\<rparr>"
  let ?b = "\<lparr>baseAmountStroops = 75000000, streakBonusStroops = 22500000,
             referralBonusStroops = 20000000, totalAmountStroops = 117500000\<rparr>"
  have "calculateReward ?m 3 True = Inr ?b"
    by (simp add: calculateReward_def calculateBaseReward_def calculateStreakBonus_def
        DIFFICULTY_MULTIPLIERS_def multiplyStroops_def bigint_div_def addStroops_def
        checked_def assertInRange_def MAX_STROOPS_def clampStroops_def streak_rates)
  with reward_breakdown_correct [OF this] show ?thesis by (intro exI [of _ ?b]) simp
qed

section \<open>One claim after another\<close>

lemma hasAlreadyClaimed_mark:
  "hasAlreadyClaimed (markAsClaimed u m s) u' m' \<longleftrightarrow> u = u' \<and> m = m' \<or> hasAlreadyClaimed s u' m'"
  by (auto simp: hasAlreadyClaimed_def markAsClaimed_def split: option.splits)

lemma hasAlreadyClaimed_record:
  "hasAlreadyClaimed (claim_record c b h tid now s) u m
     \<longleftrightarrow> rc_userId c = u \<and> rc_moduleId c = m \<or> hasAlreadyClaimed s u m"
  using hasAlreadyClaimed_mark [of "rc_userId c" "rc_moduleId c" s u m]
  by (simp add: claim_record_def recordTransaction_def hasAlreadyClaimed_def)

text \<open>
  Once a claim has been paid, every later claim of the same user for the same module fails
  with \<open>AlreadyClaimed\<close>, whatever its amounts, its module row or the payment service, and it
  leaves the ledger untouched.
\<close>

theorem claim_then_claim_again:
  assumes "claimReward pay tid now c m s = (Inr r, s')"
    and "rc_userId c' = rc_userId c" and "rc_moduleId c' = rc_moduleId c"
  shows "claimReward pay' tid' now' c' m' s' = (Inl AlreadyClaimed, s')"
proof -
  from assms(1) obtain b h where "s' = claim_record c b h tid now s"
    by (auto simp: claimReward_def split: sum.splits prod.splits)
  with assms(2,3) have "hasAlreadyClaimed s' (rc_userId c') (rc_moduleId c')"
    by (simp add: hasAlreadyClaimed_record)
  then show ?thesis by (simp add: claimReward_def claim_prepare_def)
qed

abbreviation demo_claim :: reward_claim where
  "demo_claim \<equiv> \<lparr>rc_userId = ''u'', rc_moduleId = ''m'', rc_walletAddress = ''G'',
     rc_streakDays = None, rc_referralCode = None\<rparr>"

abbreviation demo_module :: module_info where
  "demo_module \<equiv> \<lparr>mod_id = ''m'', mod_difficulty = ''beginner'', mod_baseRewardStroops = 50000000\<rparr>"

abbreviation demo_breakdown :: reward_breakdown where
  "demo_breakdown \<equiv> \<lparr>baseAmountStroops = 50000000, streakBonusStroops = 0,
     referralBonusStroops = 0, totalAmountStroops = 50000000\<rparr>"

abbreviation demo_payment :: payment_request where
  "demo_payment \<equiv> \<lparr>pay_destination = ''G'', pay_amount = ''5.0000000'',
     pay_memo = ''Learnault reward: module m''\<rparr>"

lemma demo_reward: "calculateReward demo_module 0 False = Inr demo_breakdown"
  by (simp add: calculateReward_def calculateBaseReward_def calculateStreakBonus_def
      DIFFICULTY_MULTIPLIERS_def multiplyStroops_def bigint_div_def addStroops_def
      checked_def assertInRange_def MAX_STROOPS_def)

lemma demo_amount: "stroopsToXlmString 50000000 = Inr ''5.0000000''"
  by code_simp

lemma demo_prepare:
  "\<not> hasAlreadyClaimed s ''u'' ''m'' \<Longrightarrow>
     claim_prepare s demo_claim demo_module = Inr (demo_breakdown, demo_payment)"
  by (simp add: claim_prepare_def referrerOf_def has_referrer_def demo_reward demo_amount)

lemma empty_not_claimed: "\<not> hasAlreadyClaimed empty_rewards u m"
  by (simp add: hasAlreadyClaimed_def empty_rewards_def)

theorem claim_then_claim_again_witness:
  "\<exists>s'. snd (claimReward (\<lambda>_. Inr ''h'') ''t1'' 5 demo_claim demo_module empty_rewards) = s'
      \<and> claimReward (\<lambda>_. Inr ''h2'') ''t2'' 6 demo_claim demo_module s' = (Inl AlreadyClaimed, s')"
proof -
  let ?s = "claim_record demo_claim demo_breakdown ''h'' ''t1'' 5 empty_rewards"
  have "claimReward (\<lambda>_. Inr ''h'') ''t1'' 5 demo_claim demo_module empty_rewards
      = (Inr (demo_breakdown, ''h''), ?s)"
    by (simp add: claimReward_def demo_prepare empty_not_claimed)
  from this claim_then_claim_again [OF this refl refl] show ?thesis by simp
qed

section \<open>Paging the history\<close>

lemma sorted_history: "sorted (map (\<lambda>t. - txn_createdAt t) (history_rows s u f))"
  by (simp add: history_rows_def)

text \<open>
  The pages of a user's history are a partition of it, newest first: reading page after
  page with a fixed limit yields exactly the matching transactions, each once, in order, and
  \<open>hasMore\<close> is true on a page exactly when transactions are left after it.
\<close>

theorem history_pages_partition:
  "let page = (\<lambda>k. getTransactionHistory s u (f\<lparr>tf_limit := Some l, tf_offset := Some (k * l)\<rparr>))
   in concat (map (\<lambda>k. page_transactions (page k)) [0..<n]) = take (n * l) (history_rows s u f)
    \<and> set (history_rows s u f) = {t \<in> set (transactions s). txn_userId t = u \<and> matches_filter f t}
    \<and> sorted (map (\<lambda>t. - txn_createdAt t) (history_rows s u f))
    \<and> (page_hasMore (page k) \<longleftrightarrow> drop (Suc k * l) (history_rows s u f) \<noteq> [])
    \<and> page_total (page k) = length (history_rows s u f)"
proof -
  have rows: "history_rows s u (f\<lparr>tf_limit := a, tf_offset := b\<rparr>) = history_rows s u f" for a b
    by (simp add: history_rows_def matches_filter_def [abs_def])
  have members: "set (history_rows s u f) = {t \<in> set (transactions s). txn_userId t = u \<and> matches_filter f t}"
    by (auto simp: history_rows_def getUserTransactions_def)
  show ?thesis
    using concat_pages [of l "history_rows s u f" n] members sorted_history [of s u f]
    by (simp add: Let_def getTransactionHistory_def rows not_le add.commute)
qed

section \<open>Interleavings\<close>

text \<open>
  Several requests are in flight at once. A claim or a withdrawal that has reached its payment
  waits in \<open>sys_claims\<close> or \<open>sys_withdrawals\<close>; the answers come back in any order, and new
  requests start meanwhile. Transaction ids are fresh (the code draws them at random).
\<close>

record ledger_sys =
  sys_rewards :: reward_state
  sys_claims :: "(reward_claim \<times> reward_breakdown) list"
  sys_withdrawals :: "(ident \<times> withdrawal_request) list"

definition fresh_txn :: "ident \<Rightarrow> reward_state \<Rightarrow> bool" where
  "fresh_txn tid s \<longleftrightarrow> tid \<notin> txn_id ` set (transactions s)"

inductive ledger_step :: "ledger_sys \<Rightarrow> ledger_sys \<Rightarrow> bool" where
  claim_start: "claim_prepare (sys_rewards s) c m = Inr (b, req) \<Longrightarrow>
     ledger_step s (s\<lparr>sys_claims := (c, b) # sys_claims s\<rparr>)"
| claim_paid: "(c, b) \<in> set (sys_claims s) \<Longrightarrow> fresh_txn tid (sys_rewards s) \<Longrightarrow>
     ledger_step s (s\<lparr>sys_rewards := claim_record c b hash tid now (sys_rewards s),
                      sys_claims := remove1 (c, b) (sys_claims s)\<rparr>)"
| claim_failed: "(c, b) \<in> set (sys_claims s) \<Longrightarrow>
     ledger_step s (s\<lparr>sys_claims := remove1 (c, b) (sys_claims s)\<rparr>)"
| withdraw_start: "withdraw_prepare tid now r (sys_rewards s) = (Inr (), t) \<Longrightarrow>
     fresh_txn tid (sys_rewards s) \<Longrightarrow>
     ledger_step s (s\<lparr>sys_rewards := t, sys_withdrawals := (tid, r) # sys_withdrawals s\<rparr>)"
| withdraw_answer: "(tid, r) \<in> set (sys_withdrawals s) \<Longrightarrow>
     ledger_step s (s\<lparr>sys_rewards := withdraw_settle tid now answer (sys_rewards s),
                      sys_withdrawals := remove1 (tid, r) (sys_withdrawals s)\<rparr>)"
| register: "registerReferralCode code u (sys_rewards s) = (Inr (), t) \<Longrightarrow>
     ledger_step s (s\<lparr>sys_rewards := t\<rparr>)"

definition ledger_init :: "ledger_sys \<Rightarrow> bool" where
  "ledger_init s \<longleftrightarrow> s = \<lparr>sys_rewards = empty_rewards, sys_claims = [], sys_withdrawals = []\<rparr>"

text \<open>The sums of the balance, as sums over the whole ledger.\<close>

definition weight :: "(txn \<Rightarrow> bool) \<Rightarrow> ident \<Rightarrow> txn \<Rightarrow> int" where
  "weight p u t = (if txn_userId t = u \<and> p t then txn_amountStroops t else 0)"

definition total_of :: "(txn \<Rightarrow> bool) \<Rightarrow> ident \<Rightarrow> reward_state \<Rightarrow> int" where
  "total_of p u s = (\<Sum>t\<leftarrow>transactions s. weight p u t)"

lemma foldl_plus: "foldl (\<lambda>sum t. sum + w t) (a::int) xs = a + (\<Sum>t\<leftarrow>xs. w t)"
  by (induction xs arbitrary: a) (simp_all add: add.assoc)

lemma sum_list_filter_weight:
  "(\<Sum>t\<leftarrow>filter p (filter (\<lambda>t. txn_userId t = u) ts). txn_amountStroops t) = (\<Sum>t\<leftarrow>ts. weight p u t)"
  by (induction ts) (simp_all add: weight_def)

lemma sum_stroops_total: "sum_stroops p (getUserTransactions s u) = total_of p u s"
  unfolding sum_stroops_def foldl_plus getUserTransactions_def sum_list_filter_weight total_of_def
  by simp

definition ledger_ok :: "reward_state \<Rightarrow> bool" where
  "ledger_ok s \<longleftrightarrow> distinct (map txn_id (transactions s))
     \<and> (\<forall>u. total_of is_withdrawn u s + total_of is_pending_withdrawal u s \<le> total_of is_earning u s)"

definition in_flight_ok :: "ledger_sys \<Rightarrow> bool" where
  "in_flight_ok s \<longleftrightarrow> distinct (map fst (sys_withdrawals s))
     \<and> (\<forall>(c, b) \<in> set (sys_claims s). 0 \<le> totalAmountStroops b)
     \<and> (\<forall>(tid, r) \<in> set (sys_withdrawals s). \<exists>t \<in> set (transactions (sys_rewards s)).
           txn_id t = tid \<and> is_pending_withdrawal t \<and> 0 \<le> txn_amountStroops t)"

definition ledger_inv :: "ledger_sys \<Rightarrow> bool" where
  "ledger_inv s \<longleftrightarrow> ledger_ok (sys_rewards s) \<and> in_flight_ok s"

lemma total_of_record: "total_of p u (recordTransaction t s) = total_of p u s + weight p u t"
  by (simp add: total_of_def recordTransaction_def)

lemma total_of_claim_record:
  "total_of p u (claim_record c b h tid now s) =
     total_of p u s + weight p u \<lparr>txn_id = tid, txn_userId = rc_userId c,
        txn_moduleId = Some (rc_moduleId c), txn_amountStroops = totalAmountStroops b,
        txn_type = ModuleReward, txn_status = TxnCompleted, txn_stellarTxHash = Some h,
        txn_createdAt = now, txn_completedAt = None\<rparr>"
  by (simp add: claim_record_def total_of_record) (simp add: total_of_def markAsClaimed_def)

lemma transactions_claim_record:
  "\<exists>t. transactions (claim_record c b h tid now s) = transactions s @ [t] \<and> txn_id t = tid"
  by (simp add: claim_record_def recordTransaction_def markAsClaimed_def)

lemma claim_prepare_nonneg:
  "claim_prepare s c m = Inr (b, req) \<Longrightarrow> 0 \<le> totalAmountStroops b"
  by (auto simp: claim_prepare_def Let_def dest!: calculateReward_total
      split: if_splits sum.splits intro: valid_nonneg)


lemma ids_settle: "map txn_id (transactions (withdraw_settle tid now a s)) = map txn_id (transactions s)"
  by (simp add: withdraw_settle_def updateTransactionStatus_def Let_def map_update_first split: option.split)

lemma settle_other:
  "t \<in> set (transactions s) \<Longrightarrow> txn_id t \<noteq> tid \<Longrightarrow> t \<in> set (transactions (withdraw_settle tid now a s))"
  by (simp add: withdraw_settle_def updateTransactionStatus_def Let_def update_first_keeps split: option.split)

lemma total_of_settle:
  assumes "distinct (map txn_id (transactions s))" and "t \<in> set (transactions s)"
    and "txn_id t = tid" and "is_pending_withdrawal t"
  shows "total_of is_pending_withdrawal u (withdraw_settle tid now a s) =
           total_of is_pending_withdrawal u s - weight is_pending_withdrawal u t"
    and "total_of is_earning u (withdraw_settle tid now a s) = total_of is_earning u s"
    and "total_of is_withdrawn u (withdraw_settle tid now a s) = total_of is_withdrawn u s
           + (if a = None then 0 else weight is_pending_withdrawal u t)"
  using assms(3,4) sum_update_first [where key = txn_id, OF assms(1,2)]
  by (auto simp: withdraw_settle_def updateTransactionStatus_def Let_def total_of_def weight_def
      is_pending_withdrawal_def is_earning_def is_withdrawn_def split: option.split)

lemma prepared_withdrawal:
  assumes "withdraw_prepare tid now r s = (Inr (), s')"
  shows "\<exists>t. transactions s' = transactions s @ [t] \<and> txn_id t = tid \<and> is_pending_withdrawal t
      \<and> txn_userId t = wr_userId r \<and> txn_amountStroops t = wr_amountStroops r
      \<and> 0 < wr_amountStroops r \<and> wr_amountStroops r \<le> availableStroops (getBalance s (wr_userId r))"
  using assms
  by (auto simp: withdraw_prepare_def Let_def recordTransaction_def is_pending_withdrawal_def
      split: if_splits sum.splits prod.splits)

lemma available_total:
  "0 < availableStroops (getBalance s u) \<Longrightarrow> availableStroops (getBalance s u) =
     total_of is_earning u s - total_of is_withdrawn u s - total_of is_pending_withdrawal u s"
  by (simp add: getBalance_def Let_def sum_stroops_total split: if_splits)

section \<open>The invariant of the ledger\<close>

lemma ledger_inv_claim_paid:
  assumes inv: "ledger_inv s" and pend: "(c, b) \<in> set (sys_claims s)"
    and fresh: "fresh_txn tid (sys_rewards s)"
  shows "ledger_inv (s\<lparr>sys_rewards := claim_record c b hash tid now (sys_rewards s),
                      sys_claims := remove1 (c, b) (sys_claims s)\<rparr>)"
proof -
  from inv pend have pos: "0 \<le> totalAmountStroops b"
    by (auto simp: ledger_inv_def in_flight_ok_def)
  obtain t where t: "transactions (claim_record c b hash tid now (sys_rewards s))
      = transactions (sys_rewards s) @ [t]" and tid: "txn_id t = tid"
    using transactions_claim_record by blast
  have "ledger_ok (claim_record c b hash tid now (sys_rewards s))"
    using inv fresh pos t tid
    by (auto simp: ledger_inv_def ledger_ok_def fresh_txn_def total_of_claim_record
        weight_def is_earning_def is_withdrawn_def is_pending_withdrawal_def)
       (metis add_increasing2)
  moreover have "in_flight_ok (s\<lparr>sys_rewards := claim_record c b hash tid now (sys_rewards s),
                      sys_claims := remove1 (c, b) (sys_claims s)\<rparr>)"
    using inv set_remove1_subset [of "(c, b)" "sys_claims s"]
    by (simp add: ledger_inv_def in_flight_ok_def t) blast
  ultimately show ?thesis by (simp add: ledger_inv_def)
qed

lemma ledger_inv_withdraw_start:
  assumes inv: "ledger_inv s" and fresh: "fresh_txn tid (sys_rewards s)"
    and prep: "withdraw_prepare tid now r (sys_rewards s) = (Inr (), s')"
  shows "ledger_inv (s\<lparr>sys_rewards := s', sys_withdrawals := (tid, r) # sys_withdrawals s\<rparr>)"
proof -
  from prepared_withdrawal [OF prep] obtain t where
    t: "transactions s' = transactions (sys_rewards s) @ [t]" and
    tid: "txn_id t = tid" "is_pending_withdrawal t" and
    amount: "txn_userId t = wr_userId r" "txn_amountStroops t = wr_amountStroops r"
      "0 < wr_amountStroops r"
      "wr_amountStroops r \<le> availableStroops (getBalance (sys_rewards s) (wr_userId r))"
    by auto
  have split: "total_of p u s' = total_of p u (sys_rewards s) + weight p u t" for p u
    by (simp add: total_of_def t)
  have "wr_amountStroops r \<le> total_of is_earning (wr_userId r) (sys_rewards s)
      - total_of is_withdrawn (wr_userId r) (sys_rewards s)
      - total_of is_pending_withdrawal (wr_userId r) (sys_rewards s)"
    using amount available_total [of "sys_rewards s" "wr_userId r"] by simp
  with inv fresh tid amount have "ledger_ok s'"
    by (auto simp: ledger_inv_def ledger_ok_def split t fresh_txn_def weight_def
        is_pending_withdrawal_def is_earning_def is_withdrawn_def)
  moreover have "in_flight_ok (s\<lparr>sys_rewards := s', sys_withdrawals := (tid, r) # sys_withdrawals s\<rparr>)"
    using inv fresh tid amount
    by (force simp: ledger_inv_def in_flight_ok_def fresh_txn_def t)
  ultimately show ?thesis by (simp add: ledger_inv_def)
qed

lemma ledger_inv_withdraw_answer:
  assumes inv: "ledger_inv s" and pend: "(tid, r) \<in> set (sys_withdrawals s)"
  shows "ledger_inv (s\<lparr>sys_rewards := withdraw_settle tid now a (sys_rewards s),
                      sys_withdrawals := remove1 (tid, r) (sys_withdrawals s)\<rparr>)"
proof -
  let ?s = "withdraw_settle tid now a (sys_rewards s)"
  from inv pend obtain t where t: "t \<in> set (transactions (sys_rewards s))" "txn_id t = tid"
      "is_pending_withdrawal t" "0 \<le> txn_amountStroops t"
    by (fastforce simp: ledger_inv_def in_flight_ok_def)
  from inv have ids: "distinct (map txn_id (transactions (sys_rewards s)))"
    by (simp add: ledger_inv_def ledger_ok_def)
  note totals = total_of_settle [OF ids t(1-3)]
  have "0 \<le> weight is_pending_withdrawal u t" for u
    using t(4) by (simp add: weight_def)
  with inv ids have "ledger_ok ?s"
    by (auto simp: ledger_inv_def ledger_ok_def ids_settle totals) 
      (smt (verit))
  moreover have "in_flight_ok (s\<lparr>sys_rewards := ?s, sys_withdrawals := remove1 (tid, r) (sys_withdrawals s)\<rparr>)"
  proof -
    from inv have keys: "distinct (map fst (sys_withdrawals s))"
      by (simp add: ledger_inv_def in_flight_ok_def)
    have rest: "x \<in> set (sys_withdrawals s) \<and> fst x \<noteq> tid"
      if "x \<in> set (remove1 (tid, r) (sys_withdrawals s))" for x
      using remove1_key [OF keys pend that] by simp
    have "\<exists>t' \<in> set (transactions ?s). txn_id t' = tid' \<and> is_pending_withdrawal t' \<and> 0 \<le> txn_amountStroops t'"
      if "(tid', r') \<in> set (remove1 (tid, r) (sys_withdrawals s))" for tid' r'
      using rest [OF that] inv settle_other [of _ "sys_rewards s" tid now a]
      by (fastforce simp: ledger_inv_def in_flight_ok_def)
    moreover have "distinct (map fst (remove1 (tid, r) (sys_withdrawals s)))"
      using keys by (rule distinct_key_remove1)
    ultimately show ?thesis
      using inv by (auto simp: ledger_inv_def in_flight_ok_def)
  qed
  ultimately show ?thesis by (simp add: ledger_inv_def)
qed

lemma ledger_inv_initial: "ledger_init s \<Longrightarrow> ledger_inv s"
  by (simp add: ledger_init_def ledger_inv_def ledger_ok_def in_flight_ok_def empty_rewards_def total_of_def)

lemma ledger_inv_step: "ledger_step s s' \<Longrightarrow> ledger_inv s \<Longrightarrow> ledger_inv s'"
proof (induction rule: ledger_step.induct)
  case (claim_start s c m b req)
  then show ?case
    by (auto simp: ledger_inv_def in_flight_ok_def dest: claim_prepare_nonneg)
next
  case (claim_paid c b s tid hash now)
  then show ?case by (intro ledger_inv_claim_paid)
next
  case (claim_failed c b s)
  then show ?case
    using set_remove1_subset [of "(c, b)" "sys_claims s"]
    by (simp add: ledger_inv_def in_flight_ok_def) blast
next
  case (withdraw_start tid now r s t)
  then show ?case by (intro ledger_inv_withdraw_start)
next
  case (withdraw_answer tid r s now answer)
  then show ?case by (intro ledger_inv_withdraw_answer)
next
  case (register code u s t)
  then show ?case
    by (auto simp: registerReferralCode_def ledger_inv_def ledger_ok_def in_flight_ok_def total_of_def
        split: if_splits)
qed

interpretation ledger: invariant_system ledger_init ledger_step ledger_inv
  by unfold_locales (auto intro: ledger_inv_initial ledger_inv_step)

text \<open>
  C1. Under every interleaving of claims, withdrawals, payment answers and referral
  registrations, no user ever withdraws more than was earned: what is withdrawn and what is on
  its way never exceed the completed rewards, so the clamp at zero in \<open>getBalance\<close> never
  bites and the available balance is the exact difference.
\<close>

theorem ledger_never_overdrawn:
  assumes "reaches ledger_step \<lparr>sys_rewards = empty_rewards, sys_claims = [], sys_withdrawals = []\<rparr> s"
  shows "sum_stroops is_withdrawn (getUserTransactions (sys_rewards s) u)
        + pendingStroops (getBalance (sys_rewards s) u) \<le> lifetimeStroops (getBalance (sys_rewards s) u)
    \<and> availableStroops (getBalance (sys_rewards s) u) =
        lifetimeStroops (getBalance (sys_rewards s) u)
        - sum_stroops is_withdrawn (getUserTransactions (sys_rewards s) u)
        - pendingStroops (getBalance (sys_rewards s) u)"
proof -
  from ledger.inv_reachable [OF _ assms] have "ledger_inv s" by (simp add: ledger_init_def)
  then show ?thesis
    by (simp add: getBalance_def Let_def sum_stroops_total ledger_inv_def ledger_ok_def)
qed

section \<open>Two claims in flight\<close>

abbreviation demo_sys :: "reward_state \<Rightarrow> (reward_claim \<times> reward_breakdown) list \<Rightarrow> ledger_sys" where
  "demo_sys r cs \<equiv> \<lparr>sys_rewards = r, sys_claims = cs, sys_withdrawals = []\<rparr>"

abbreviation demo_paid :: "ident \<Rightarrow> reward_state \<Rightarrow> reward_state" where
  "demo_paid tid s \<equiv> claim_record demo_claim demo_breakdown ''h'' tid 5 s"

lemma demo_start:
  assumes "\<not> hasAlreadyClaimed r ''u'' ''m''"
  shows "ledger_step (demo_sys r cs) (demo_sys r ((demo_claim, demo_breakdown) # cs))"
  using claim_start [of "demo_sys r cs" demo_claim demo_module] demo_prepare [OF assms] by simp

lemma demo_answer:
  assumes "fresh_txn tid r"
  shows "ledger_step (demo_sys r ((demo_claim, demo_breakdown) # cs)) (demo_sys (demo_paid tid r) cs)"
  using claim_paid [of demo_claim demo_breakdown "demo_sys r ((demo_claim, demo_breakdown) # cs)" tid "''h''" 5]
    assms by simp

lemma demo_fresh: "tid \<noteq> tid' \<Longrightarrow> fresh_txn tid (demo_paid tid' empty_rewards)"
  by (simp add: fresh_txn_def claim_record_def recordTransaction_def markAsClaimed_def empty_rewards_def)

lemma empty_fresh: "fresh_txn tid empty_rewards"
  by (simp add: fresh_txn_def empty_rewards_def)

lemma demo_twice:
  "reaches ledger_step (demo_sys empty_rewards []) (demo_sys (demo_paid ''t2'' (demo_paid ''t1'' empty_rewards)) [])"
proof -
  let ?c = "(demo_claim, demo_breakdown)"
  have "reaches ledger_step (demo_sys empty_rewards []) (demo_sys empty_rewards [])"
    by (rule reaches_refl)
  then have "reaches ledger_step (demo_sys empty_rewards []) (demo_sys empty_rewards [?c])"
    by (rule reaches_step) (rule demo_start [OF empty_not_claimed])
  then have "reaches ledger_step (demo_sys empty_rewards []) (demo_sys empty_rewards [?c, ?c])"
    by (rule reaches_step) (rule demo_start [OF empty_not_claimed])
  then have "reaches ledger_step (demo_sys empty_rewards []) (demo_sys (demo_paid ''t1'' empty_rewards) [?c])"
    by (rule reaches_step) (rule demo_answer [OF empty_fresh])
  then show ?thesis
    by (rule reaches_step) (rule demo_answer, rule demo_fresh, simp)
qed

theorem ledger_never_overdrawn_witness:
  "availableStroops (getBalance (demo_paid ''t2'' (demo_paid ''t1'' empty_rewards)) ''u'') = 100000000"
  using ledger_never_overdrawn [OF demo_twice, of "''u''"]
  by (simp add: getBalance_def Let_def sum_stroops_def getUserTransactions_def claim_record_def
      recordTransaction_def markAsClaimed_def empty_rewards_def is_earning_def is_withdrawn_def
      is_pending_withdrawal_def)

text \<open>
  The check of \<open>claimReward\<close> and its mark are on the two sides of the payment's \<open>await\<close>:
  two requests that both pass the check before either payment is answered are both paid, so a
  state with two completed rewards for one user and one module is reachable (and the balance
  counts both). Sequential claims cannot do this (\<open>claim_then_claim_again\<close>).
\<close>

theorem double_payout_reachable:
  "\<exists>s. reaches ledger_step (demo_sys empty_rewards []) s
     \<and> count_where (\<lambda>t. txn_userId t = ''u'' \<and> txn_moduleId t = Some ''m'' \<and> is_earning t)
          (transactions (sys_rewards s)) = 2
     \<and> lifetimeStroops (getBalance (sys_rewards s) ''u'') = 2 * totalAmountStroops demo_breakdown"
  by (intro exI [of _ "demo_sys (demo_paid ''t2'' (demo_paid ''t1'' empty_rewards)) []"] conjI demo_twice)
     (simp_all add: getBalance_def Let_def sum_stroops_def getUserTransactions_def claim_record_def
      recordTransaction_def markAsClaimed_def empty_rewards_def is_earning_def is_withdrawn_def)

end
