(* ===== verification/Outbox.thy ===== *)
theory Outbox
  imports Prelude
begin

text \<open>
  \<open>src/src/lib/transactions\<close>: the tables of the transactional outbox (\<open>types.ts\<close>), the event
  schemas (\<open>event-schema.ts\<close>), the handler registry (\<open>handler-registry.ts\<close>) and the outbox
  service (\<open>outbox.service.ts\<close>).

  The columns \<open>payload\<close> and \<open>result\<close> hold JSON text (\<open>json_text\<close>). A column that Prisma
  maintains by itself and nothing reads (\<open>updatedAt\<close>) is left out. Unique columns
  and foreign keys are enforced where a row is created: a violation is the error
  \<open>UniqueViolation\<close> (P2002) or \<open>ForeignKeyViolation\<close> (P2003), and \<open>update\<close> of a missing row is
  \<open>RecordNotFound\<close> (P2025). Random parts of identifiers and the clock are arguments.
\<close>

section \<open>Tables\<close>

datatype event_status = EvPending | EvProcessing | EvPublished | EvDeadLetter | EvRolledBack

record outbox_event =
  oe_id :: ident
  oe_aggregateId :: ident
  oe_aggregateType :: string
  oe_eventType :: string
  oe_eventVersion :: int
  oe_payload :: json_text
  oe_status :: event_status
  oe_publishedAt :: "time option"
  oe_source :: "string option"
  oe_causedBy :: "ident option"
  oe_createdAt :: time

datatype job_status = JobPending | JobLeased | JobCompleted | JobFailed | JobDeadLetter | JobRolledBack

record job_attempt =
  ja_id :: ident
  ja_outboxEventId :: ident
  ja_jobType :: string
  ja_jobName :: string
  ja_status :: job_status
  ja_leaseToken :: "ident option"
  ja_leasedUntil :: "time option"
  ja_availableAt :: time
  ja_attempt :: nat
  ja_maxAttempts :: nat
  ja_backoffMultiplier :: rat
  ja_backoffBaseMs :: int
  ja_lastError :: "string option"
  ja_lastAttemptAt :: "time option"
  ja_idempotencyKey :: "string option"
  ja_completedAt :: "time option"
  ja_result :: "json_text option"
  ja_createdAt :: time

datatype rolled_back_type = RbOutboxEvent | RbJobAttempt

record rolled_back_record =
  rb_id :: ident
  rb_recordType :: rolled_back_type
  rb_recordId :: ident
  rb_reason :: "string option"

record outbox_db =
  events :: "outbox_event list"
  jobs :: "job_attempt list"
  rolledBack :: "rolled_back_record list"

datatype outbox_error =
    UniqueViolation | ForeignKeyViolation | RecordNotFound
  | JobNotFound | LeaseMismatch | NotDeadLetter | PayloadSyntaxError | EventMissing
  | SchemaMissing string | SchemaInvalid string | HandlerFailed string

definition update_event :: "(outbox_event \<Rightarrow> bool) \<Rightarrow> (outbox_event \<Rightarrow> outbox_event) \<Rightarrow> outbox_db \<Rightarrow> outbox_db" where
  "update_event p f db = db\<lparr>events := update_where p f (events db)\<rparr>"

definition update_job :: "(job_attempt \<Rightarrow> bool) \<Rightarrow> (job_attempt \<Rightarrow> job_attempt) \<Rightarrow> outbox_db \<Rightarrow> outbox_db" where
  "update_job p f db = db\<lparr>jobs := update_where p f (jobs db)\<rparr>"

lemma update_event_simps [simp]:
  "jobs (update_event p f db) = jobs db"
  "rolledBack (update_event p f db) = rolledBack db"
  "events (update_event p f db) = update_where p f (events db)"
  by (simp_all add: update_event_def)

lemma update_job_simps [simp]:
  "events (update_job p f db) = events db"
  "rolledBack (update_job p f db) = rolledBack db"
  "jobs (update_job p f db) = update_where p f (jobs db)"
  by (simp_all add: update_job_def)

definition find_event :: "ident \<Rightarrow> outbox_db \<Rightarrow> outbox_event option" where
  "find_event eid db = List.find (\<lambda>e. oe_id e = eid) (events db)"

definition find_job :: "ident \<Rightarrow> outbox_db \<Rightarrow> job_attempt option" where
  "find_job jid db = List.find (\<lambda>j. ja_id j = jid) (jobs db)"

text \<open>\<open>outboxEvent.update\<close> by primary key, setting the status.\<close>

definition set_event_status :: "ident \<Rightarrow> event_status \<Rightarrow> outbox_db \<Rightarrow> outbox_db" where
  "set_event_status eid st db = update_event (\<lambda>e. oe_id e = eid) (\<lambda>e. e\<lparr>oe_status := st\<rparr>) db"

section \<open>Event schemas\<close>

text \<open>
  A schema is a list of fields with the validator each is given. What a validator of the zod
  package accepts is the parameter \<open>zod\<close>: it is asked with the value of the field, or
  \<open>None\<close> when the field is missing. \<open>z.object\<close> accepts an object whose listed fields are
  accepted and ignores the others.
\<close>

datatype zod =
    ZString | ZUuid | ZEmail | ZEnum "string list" | ZNumber int int | ZPositiveInt
  | ZNullable zod | ZOptional zod

type_synonym zod_semantics = "zod \<Rightarrow> json option \<Rightarrow> bool"

record event_schema =
  es_eventType :: string
  es_version :: int
  es_fields :: "(string \<times> zod) list"

type_synonym schema_registry = "string \<Rightarrow> event_schema option"

definition keyOf :: "string \<Rightarrow> int \<Rightarrow> string" where
  "keyOf eventType eventVersion = eventType @ '':v'' @ show_int eventVersion"

definition register_schema :: "event_schema \<Rightarrow> schema_registry \<Rightarrow> schema_registry" where
  "register_schema s reg = reg(keyOf (es_eventType s) (es_version s) \<mapsto> s)"

definition has_schema :: "schema_registry \<Rightarrow> string \<Rightarrow> int \<Rightarrow> bool" where
  "has_schema reg t v \<longleftrightarrow> reg (keyOf t v) \<noteq> None"

definition schema_accepts :: "zod_semantics \<Rightarrow> event_schema \<Rightarrow> json \<Rightarrow> bool" where
  "schema_accepts zod s payload \<longleftrightarrow>
     (case payload of JObj _ \<Rightarrow> (\<forall>(f, z) \<in> set (es_fields s). zod z (json_field payload f)) | _ \<Rightarrow> False)"

definition validate_event ::
    "zod_semantics \<Rightarrow> schema_registry \<Rightarrow> string \<Rightarrow> int \<Rightarrow> json \<Rightarrow> outbox_error + unit" where
  "validate_event zod reg t v payload =
     (case reg (keyOf t v) of
        None \<Rightarrow> Inl (SchemaMissing (keyOf t v))
      | Some s \<Rightarrow> if schema_accepts zod s payload then Inr () else Inl (SchemaInvalid (keyOf t v)))"

definition builtInSchemas :: "event_schema list" where
  "builtInSchemas =
    [\<lparr>es_eventType = ''UserCreated'', es_version = 1, es_fields =
        [(''userId'', ZUuid), (''email'', ZEmail),
         (''role'', ZEnum [''ADMIN'', ''LEARNER'', ''INSTRUCTOR''])]\<rparr>,
     \<lparr>es_eventType = ''WalletProvisioningRequested'', es_version = 1, es_fields =
        [(''walletId'', ZUuid), (''userId'', ZUuid), (''network'', ZString)]\<rparr>,
     \<lparr>es_eventType = ''WalletProvisioned'', es_version = 1, es_fields =
        [(''walletId'', ZUuid), (''userId'', ZUuid), (''publicKey'', ZString),
         (''network'', ZEnum [''testnet'', ''mainnet''])]\<rparr>,
     \<lparr>es_eventType = ''WalletProvisioningFailed'', es_version = 1, es_fields =
        [(''walletId'', ZUuid), (''userId'', ZUuid), (''failureCode'', ZString),
         (''attemptCount'', ZPositiveInt)]\<rparr>,
     \<lparr>es_eventType = ''ModuleCompleted'', es_version = 1, es_fields =
        [(''completionId'', ZUuid), (''userId'', ZUuid), (''moduleId'', ZUuid),
         (''score'', ZNumber 0 100)]\<rparr>,
     \<lparr>es_eventType = ''RewardCalculated'', es_version = 1, es_fields =
        [(''rewardId'', ZUuid), (''userId'', ZUuid), (''amountStroops'', ZString),
         (''assetCode'', ZString), (''assetIssuer'', ZNullable ZString), (''source'', ZString)]\<rparr>,
     \<lparr>es_eventType = ''RewardDistributed'', es_version = 1, es_fields =
        [(''transactionId'', ZUuid), (''userId'', ZUuid), (''amountStroops'', ZString),
         (''assetCode'', ZString), (''stellarTxHash'', ZString), (''ledgerSequence'', ZPositiveInt)]\<rparr>,
     \<lparr>es_eventType = ''CredentialIssued'', es_version = 1, es_fields =
        [(''credentialId'', ZUuid), (''userId'', ZUuid), (''moduleId'', ZUuid),
         (''onChainId'', ZOptional ZString)]\<rparr>,
     \<lparr>es_eventType = ''NotificationQueued'', es_version = 1, es_fields =
        [(''notificationId'', ZUuid), (''userId'', ZUuid),
         (''type'', ZEnum [''reward'', ''quiz'', ''streak'', ''credential'']),
         (''title'', ZString), (''body'', ZString)]\<rparr>,
     \<lparr>es_eventType = ''EmailQueued'', es_version = 1, es_fields =
        [(''emailId'', ZUuid), (''userId'', ZUuid), (''to'', ZEmail),
         (''subject'', ZString), (''type'', ZString)]\<rparr>]"

definition registerBuiltInSchemas :: "schema_registry \<Rightarrow> schema_registry" where
  "registerBuiltInSchemas reg = fold register_schema builtInSchemas reg"

section \<open>Handlers and their registry\<close>

record handler_context =
  ctx_eventId :: ident
  ctx_eventType :: string
  ctx_eventVersion :: int
  ctx_aggregateId :: ident
  ctx_aggregateType :: string
  ctx_payload :: json
  ctx_attempt :: nat

record handler_result =
  hr_idempotencyKey :: "string option"
  hr_result :: "json option"

text \<open>\<open>handle\<close> may do anything to the outbox tables (create events, or let other workers run
  meanwhile) before it answers with an error message or a result.\<close>

record outbox_handler =
  oh_name :: string
  oh_eventType :: string
  oh_eventVersion :: int
  oh_maxAttempts :: "nat option"
  oh_backoffBaseMs :: "int option"
  oh_backoffMultiplier :: "rat option"
  oh_handle :: "handler_context \<Rightarrow> (outbox_db, string, handler_result option) step"

record handler_registry =
  byEvent :: "string \<Rightarrow> outbox_handler list option"
  byName :: "(string \<times> outbox_handler) list"

definition empty_handlers :: handler_registry where
  "empty_handlers = \<lparr>byEvent = (\<lambda>_. None), byName = []\<rparr>"

datatype registry_error =
  DuplicateHandlerError string | UnknownEventTypeError string string int | UnhandledEventTypeError "string list"

definition register_handler ::
    "schema_registry \<Rightarrow> outbox_handler \<Rightarrow> handler_registry \<Rightarrow> registry_error + handler_registry" where
  "register_handler schemas h reg =
     (if map_of (byName reg) (oh_name h) \<noteq> None then Inl (DuplicateHandlerError (oh_name h))
      else if \<not> has_schema schemas (oh_eventType h) (oh_eventVersion h)
      then Inl (UnknownEventTypeError (oh_name h) (oh_eventType h) (oh_eventVersion h))
      else
        (let key = keyOf (oh_eventType h) (oh_eventVersion h);
             existing = (case byEvent reg key of None \<Rightarrow> [] | Some hs \<Rightarrow> hs)
         in Inr \<lparr>byEvent = (byEvent reg)(key \<mapsto> existing @ [h]),
                 byName = byName reg @ [(oh_name h, h)]\<rparr>))"

definition handlersFor :: "handler_registry \<Rightarrow> string \<Rightarrow> int \<Rightarrow> outbox_handler list" where
  "handlersFor reg t v = (case byEvent reg (keyOf t v) of None \<Rightarrow> [] | Some hs \<Rightarrow> hs)"

definition handlerByName :: "handler_registry \<Rightarrow> string \<Rightarrow> outbox_handler option" where
  "handlerByName reg name = map_of (byName reg) name"

definition str_le :: "string \<Rightarrow> string \<Rightarrow> bool" where
  "str_le a b \<longleftrightarrow> lexordp_eq (map (of_char :: char \<Rightarrow> nat) a) (map of_char b)"

fun insert_name :: "string \<Rightarrow> string list \<Rightarrow> string list" where
  "insert_name x [] = [x]"
| "insert_name x (y # ys) = (if str_le x y then x # y # ys else y # insert_name x ys)"

definition registeredNames :: "handler_registry \<Rightarrow> string list" where
  "registeredNames reg = foldr insert_name (map fst (byName reg)) []"

definition assertHandlersFor ::
    "handler_registry \<Rightarrow> (string \<times> int) list \<Rightarrow> registry_error + unit" where
  "assertHandlersFor reg emitted =
     (let missing = map (\<lambda>(t, v). keyOf t v) (filter (\<lambda>(t, v). handlersFor reg t v = []) emitted)
      in if missing \<noteq> [] then Inl (UnhandledEventTypeError missing) else Inr ())"

definition EMITTED_EVENT_TYPES :: "(string \<times> int) list" where
  "EMITTED_EVENT_TYPES = [(''UserCreated'', 1), (''WalletProvisioningRequested'', 1)]"

text \<open>\<open>registerOutboxHandlers\<close>: the two handlers it constructs are arguments.\<close>

definition registerOutboxHandlers ::
    "schema_registry \<Rightarrow> outbox_handler \<Rightarrow> outbox_handler \<Rightarrow> handler_registry \<Rightarrow>
     registry_error + (schema_registry \<times> handler_registry)" where
  "registerOutboxHandlers schemas userCreated walletRequested reg =
     (let schemas' = registerBuiltInSchemas schemas in
      case register_handler schemas' userCreated reg of
        Inl e \<Rightarrow> Inl e
      | Inr reg1 \<Rightarrow>
          (case register_handler schemas' walletRequested reg1 of
             Inl e \<Rightarrow> Inl e
           | Inr reg2 \<Rightarrow>
               (case assertHandlersFor reg2 EMITTED_EVENT_TYPES of
                  Inl e \<Rightarrow> Inl e
                | Inr _ \<Rightarrow> Inr (schemas', reg2))))"

section \<open>The outbox service\<close>

record create_event_options =
  ceo_aggregateId :: ident
  ceo_aggregateType :: string
  ceo_eventType :: string
  ceo_eventVersion :: int
  ceo_payload :: json
  ceo_source :: "string option"
  ceo_causedBy :: "ident option"

record job_config =
  jc_jobType :: string
  jc_jobName :: string
  jc_maxAttempts :: "nat option"
  jc_backoffMultiplier :: "rat option"
  jc_backoffBaseMs :: "int option"

definition or_default :: "'a \<Rightarrow> 'a option \<Rightarrow> 'a" where
  "or_default d x = (case x of None \<Rightarrow> d | Some y \<Rightarrow> y)"

definition insert_event :: "outbox_event \<Rightarrow> (outbox_db, outbox_error, outbox_event) step" where
  "insert_event e db =
     (if find_event (oe_id e) db \<noteq> None then (Inl UniqueViolation, db)
      else (Inr e, db\<lparr>events := events db @ [e]\<rparr>))"

definition insert_job :: "job_attempt \<Rightarrow> (outbox_db, outbox_error, unit) step" where
  "insert_job j db =
     (if find_job (ja_id j) db \<noteq> None then (Inl UniqueViolation, db)
      else if find_event (ja_outboxEventId j) db = None then (Inl ForeignKeyViolation, db)
      else (Inr (), db\<lparr>jobs := jobs db @ [j]\<rparr>))"

definition createEvent ::
    "time \<Rightarrow> string \<Rightarrow> create_event_options \<Rightarrow> (outbox_db, outbox_error, outbox_event) step" where
  "createEvent now rnd opts db =
     insert_event
       \<lparr>oe_id = ceo_aggregateId opts @ ''_'' @ show_int now @ ''_'' @ rnd,
        oe_aggregateId = ceo_aggregateId opts, oe_aggregateType = ceo_aggregateType opts,
        oe_eventType = ceo_eventType opts, oe_eventVersion = ceo_eventVersion opts,
        oe_payload = json_stringify (ceo_payload opts), oe_status = EvPending,
        oe_publishedAt = None, oe_source = ceo_source opts, oe_causedBy = ceo_causedBy opts,
        oe_createdAt = now\<rparr> db"

text \<open>A fresh job row; the columns not given take the defaults of the schema.\<close>

definition new_job ::
    "ident \<Rightarrow> ident \<Rightarrow> string \<Rightarrow> string \<Rightarrow> nat option \<Rightarrow> rat option \<Rightarrow> int option \<Rightarrow> time \<Rightarrow> job_attempt" where
  "new_job jid eid jobType jobName maxAttempts multiplier baseMs now =
     \<lparr>ja_id = jid, ja_outboxEventId = eid, ja_jobType = jobType, ja_jobName = jobName,
      ja_status = JobPending, ja_leaseToken = None, ja_leasedUntil = None, ja_availableAt = now,
      ja_attempt = 0, ja_maxAttempts = or_default 3 maxAttempts,
      ja_backoffMultiplier = or_default 2 multiplier, ja_backoffBaseMs = or_default 1000 baseMs,
      ja_lastError = None, ja_lastAttemptAt = None, ja_idempotencyKey = None,
      ja_completedAt = None, ja_result = None, ja_createdAt = now\<rparr>"

fun createJobAttempts ::
    "time \<Rightarrow> ident \<Rightarrow> job_config list \<Rightarrow> (outbox_db, outbox_error, unit) step" where
  "createJobAttempts now eid [] db = (Inr (), db)"
| "createJobAttempts now eid (c # cs) db =
     (case insert_job
             (new_job (eid @ ''_'' @ jc_jobType c @ ''_'' @ show_int now) eid (jc_jobType c)
                (jc_jobName c) (jc_maxAttempts c) (jc_backoffMultiplier c) (jc_backoffBaseMs c) now) db of
        (Inl e, db') \<Rightarrow> (Inl e, db')
      | (Inr _, db') \<Rightarrow> createJobAttempts now eid cs db')"

definition getPendingEvents :: "nat \<Rightarrow> outbox_db \<Rightarrow> outbox_event list" where
  "getPendingEvents limit db =
     take limit (sort_key oe_createdAt (filter (\<lambda>e. oe_status e = EvPending) (events db)))"

definition markPublished :: "time \<Rightarrow> ident \<Rightarrow> (outbox_db, outbox_error, unit) step" where
  "markPublished now eid db =
     (if find_event eid db = None then (Inl RecordNotFound, db)
      else (Inr (), update_event (\<lambda>e. oe_id e = eid)
                      (\<lambda>e. e\<lparr>oe_status := EvPublished, oe_publishedAt := Some now\<rparr>) db))"

definition markDeadLetter :: "ident \<Rightarrow> (outbox_db, outbox_error, unit) step" where
  "markDeadLetter eid db =
     (if find_event eid db = None then (Inl RecordNotFound, db)
      else (Inr (), set_event_status eid EvDeadLetter db))"

text \<open>Two statements, not in a transaction: the marker stays when the update fails.\<close>

definition markRolledBack ::
    "time \<Rightarrow> ident \<Rightarrow> string option \<Rightarrow> (outbox_db, outbox_error, unit) step" where
  "markRolledBack now eid reason db =
     (let rid = ''event_'' @ eid @ ''_'' @ show_int now in
      if rid \<in> rb_id ` set (rolledBack db) then (Inl UniqueViolation, db)
      else
        (let db1 = db\<lparr>rolledBack := rolledBack db @
               [\<lparr>rb_id = rid, rb_recordType = RbOutboxEvent, rb_recordId = eid, rb_reason = reason\<rparr>]\<rparr>
         in if find_event eid db1 = None then (Inl RecordNotFound, db1)
            else (Inr (), set_event_status eid EvRolledBack db1)))"

definition getEventsByAggregate :: "ident \<Rightarrow> string \<Rightarrow> nat \<Rightarrow> outbox_db \<Rightarrow> outbox_event list" where
  "getEventsByAggregate aid atype limit db =
     take limit (sort_key (\<lambda>e. - oe_createdAt e)
       (filter (\<lambda>e. oe_aggregateId e = aid \<and> oe_aggregateType e = atype) (events db)))"

end
