(* ===== verification/JobLease.thy ===== *)
theory JobLease
  imports Outbox
begin

text \<open>
  \<open>src/src/lib/transactions/job-lease.service.ts\<close>: leasing, completing, failing and recovering
  jobs, and the leases of whole queues. \<open>randomUUID()\<close> and the clock are arguments; a
  Prisma \<open>$transaction\<close> is \<open>transaction\<close>. The delay of a retry is a product of floating-point
  numbers in the code and of rationals here; \<open>new Date\<close> drops its fraction of a millisecond.
\<close>

section \<open>Leasing a job\<close>

record lease_result =
  lr_jobId :: ident
  lr_leaseToken :: ident
  lr_leasedUntil :: time
  lr_attempt :: nat
  lr_payload :: json

definition leased_until :: "job_attempt \<Rightarrow> time" where
  "leased_until j = (case ja_leasedUntil j of Some t \<Rightarrow> t | None \<Rightarrow> 0)"

definition lease_expired :: "time \<Rightarrow> job_attempt \<Rightarrow> bool" where
  "lease_expired now j \<longleftrightarrow> ja_status j = JobLeased
     \<and> (case ja_leasedUntil j of Some t \<Rightarrow> t < now | None \<Rightarrow> False)"

definition lease_candidate :: "time \<Rightarrow> string \<Rightarrow> outbox_db \<Rightarrow> job_attempt option" where
  "lease_candidate now jobType db =
     (case first_by ja_createdAt
             (\<lambda>j. ja_jobType j = jobType \<and> ja_status j = JobPending \<and> ja_availableAt j \<le> now) (jobs db) of
        Some j \<Rightarrow> Some j
      | None \<Rightarrow> first_by leased_until (\<lambda>j. ja_jobType j = jobType \<and> lease_expired now j) (jobs db))"

definition take_lease :: "time \<Rightarrow> ident \<Rightarrow> time \<Rightarrow> job_attempt \<Rightarrow> job_attempt" where
  "take_lease now token until j = j\<lparr>ja_leaseToken := Some token, ja_leasedUntil := Some until,
     ja_status := JobLeased, ja_lastAttemptAt := Some now\<rparr>"

definition leaseJob ::
    "time \<Rightarrow> ident \<Rightarrow> string \<Rightarrow> int option \<Rightarrow> (outbox_db, outbox_error, lease_result option) step" where
  "leaseJob now token jobType maxLeaseMs db =
     (let until = now + or_default 30000 maxLeaseMs in
      case lease_candidate now jobType db of
        None \<Rightarrow> (Inr None, db)
      | Some job \<Rightarrow>
          (let db1 = update_job (\<lambda>j. ja_id j = ja_id job) (take_lease now token until) db in
           case find_event (ja_outboxEventId job) db1 of
             None \<Rightarrow> (Inl EventMissing, db1)
           | Some e \<Rightarrow>
               (case json_parse (oe_payload e) of
                  None \<Rightarrow> (Inl PayloadSyntaxError, db1)
                | Some payload \<Rightarrow>
                    (Inr (Some \<lparr>lr_jobId = ja_id job, lr_leaseToken = token, lr_leasedUntil = until,
                                lr_attempt = ja_attempt job, lr_payload = payload\<rparr>), db1))))"

section \<open>Completing a job\<close>

definition holds_lease :: "ident \<Rightarrow> ident \<Rightarrow> job_attempt \<Rightarrow> bool" where
  "holds_lease jid token j \<longleftrightarrow> ja_id j = jid \<and> ja_leaseToken j = Some token"

definition mark_completed ::
    "time \<Rightarrow> string option \<Rightarrow> json option \<Rightarrow> job_attempt \<Rightarrow> job_attempt" where
  "mark_completed now key result j = j\<lparr>ja_status := JobCompleted, ja_completedAt := Some now,
     ja_idempotencyKey := (case key of None \<Rightarrow> ja_idempotencyKey j | Some k \<Rightarrow> Some k),
     ja_result := (case result of None \<Rightarrow> None
                   | Some v \<Rightarrow> if json_truthy v then Some (json_stringify v) else None),
     ja_leaseToken := None, ja_leasedUntil := None\<rparr>"

definition key_taken :: "string option \<Rightarrow> ident \<Rightarrow> outbox_db \<Rightarrow> bool" where
  "key_taken key jid db \<longleftrightarrow> key \<noteq> None \<and> (\<exists>j \<in> set (jobs db). ja_id j \<noteq> jid \<and> ja_idempotencyKey j = key)"

definition complete_in_tx ::
    "time \<Rightarrow> ident \<Rightarrow> ident \<Rightarrow> handler_result \<Rightarrow> (outbox_db, outbox_error, unit) step" where
  "complete_in_tx now jid token r db =
     (if count_where (holds_lease jid token) (jobs db) = 0 then (Inl LeaseMismatch, db)
      else if key_taken (hr_idempotencyKey r) jid db then (Inl UniqueViolation, db)
      else
        (let db1 = update_job (holds_lease jid token)
               (mark_completed now (hr_idempotencyKey r) (hr_result r)) db in
         case find_job jid db1 of
           None \<Rightarrow> (Inr (), db1)
         | Some job \<Rightarrow>
             if count_where (\<lambda>j. ja_outboxEventId j = ja_outboxEventId job \<and> ja_status j \<noteq> JobCompleted)
                  (jobs db1) = 0
             then markPublished now (ja_outboxEventId job) db1
             else (Inr (), db1)))"

definition completeJob ::
    "time \<Rightarrow> ident \<Rightarrow> ident \<Rightarrow> handler_result \<Rightarrow> (outbox_db, outbox_error, unit) step" where
  "completeJob now jid token r = transaction (complete_in_tx now jid token r)"

section \<open>Failing a job\<close>

definition retry_delay :: "int \<Rightarrow> rat \<Rightarrow> nat \<Rightarrow> int" where
  "retry_delay baseMs multiplier n = \<lfloor>of_int baseMs * multiplier ^ n\<rfloor>"

definition mark_dead :: "string \<Rightarrow> job_attempt \<Rightarrow> job_attempt" where
  "mark_dead msg j = j\<lparr>ja_status := JobDeadLetter, ja_lastError := Some msg,
     ja_leaseToken := None, ja_leasedUntil := None\<rparr>"

definition mark_retry :: "time \<Rightarrow> nat \<Rightarrow> string \<Rightarrow> job_attempt \<Rightarrow> job_attempt" where
  "mark_retry availableAt nextAttempt msg j = j\<lparr>ja_status := JobPending, ja_attempt := nextAttempt,
     ja_availableAt := availableAt, ja_lastError := Some msg,
     ja_leaseToken := None, ja_leasedUntil := None\<rparr>"

definition fail_in_tx ::
    "time \<Rightarrow> ident \<Rightarrow> ident \<Rightarrow> string \<Rightarrow> (outbox_db, outbox_error, unit) step" where
  "fail_in_tx now jid token msg db =
     (case find_job jid db of
        None \<Rightarrow> (Inl JobNotFound, db)
      | Some job \<Rightarrow>
          if ja_leaseToken job \<noteq> Some token then (Inl LeaseMismatch, db)
          else
            (let nextAttempt = ja_attempt job + 1 in
             if nextAttempt \<ge> ja_maxAttempts job
             then markDeadLetter (ja_outboxEventId job)
                    (update_job (\<lambda>j. ja_id j = jid) (mark_dead msg) db)
             else
               (let availableAt = now + retry_delay (ja_backoffBaseMs job) (ja_backoffMultiplier job) nextAttempt
                in (Inr (), update_job (\<lambda>j. ja_id j = jid) (mark_retry availableAt nextAttempt msg) db))))"

definition failJob ::
    "time \<Rightarrow> ident \<Rightarrow> ident \<Rightarrow> string \<Rightarrow> (outbox_db, outbox_error, unit) step" where
  "failJob now jid token msg = transaction (fail_in_tx now jid token msg)"

section \<open>Recovery\<close>

definition release_lease :: "job_attempt \<Rightarrow> job_attempt" where
  "release_lease j = j\<lparr>ja_status := JobPending, ja_leaseToken := None, ja_leasedUntil := None\<rparr>"

definition recoverAbandonedLeases :: "time \<Rightarrow> outbox_db \<Rightarrow> nat \<times> outbox_db" where
  "recoverAbandonedLeases now db =
     (count_where (lease_expired now) (jobs db), update_job (lease_expired now) release_lease db)"

definition mark_reset :: "time \<Rightarrow> job_attempt \<Rightarrow> job_attempt" where
  "mark_reset now j = j\<lparr>ja_status := JobPending, ja_attempt := 0, ja_availableAt := now, ja_lastError := None\<rparr>"

definition resetJobForRetry :: "time \<Rightarrow> ident \<Rightarrow> (outbox_db, outbox_error, unit) step" where
  "resetJobForRetry now jid db =
     (case find_job jid db of
        None \<Rightarrow> (Inl JobNotFound, db)
      | Some job \<Rightarrow>
          if ja_status job \<noteq> JobDeadLetter then (Inl NotDeadLetter, db)
          else (Inr (), update_job (\<lambda>j. ja_id j = jid) (mark_reset now) db))"

definition getDeadLetterJobs :: "nat \<Rightarrow> outbox_db \<Rightarrow> job_attempt list" where
  "getDeadLetterJobs limit db =
     take limit (sort_key ja_createdAt (filter (\<lambda>j. ja_status j = JobDeadLetter) (jobs db)))"

definition getJobsForEvent :: "ident \<Rightarrow> outbox_db \<Rightarrow> job_attempt list" where
  "getJobsForEvent eid db = sort_key ja_createdAt (filter (\<lambda>j. ja_outboxEventId j = eid) (jobs db))"

section \<open>Leases of queues\<close>

record queue_lease =
  ql_queueName :: string
  ql_leaseToken :: "ident option"
  ql_leasedUntil :: "time option"
  ql_owner :: "string option"
  ql_lastTickAt :: "time option"

definition DEFAULT_QUEUE_LEASE_MS :: int where "DEFAULT_QUEUE_LEASE_MS = 60000"

definition queue_free :: "time \<Rightarrow> queue_lease \<Rightarrow> bool" where
  "queue_free now q \<longleftrightarrow> (case ql_leasedUntil q of None \<Rightarrow> True | Some t \<Rightarrow> t \<le> now)"

definition grant_queue :: "ident \<Rightarrow> time \<Rightarrow> string option \<Rightarrow> queue_lease \<Rightarrow> queue_lease" where
  "grant_queue token until owner q =
     q\<lparr>ql_leaseToken := Some token, ql_leasedUntil := Some until, ql_owner := owner\<rparr>"

text \<open>\<open>INSERT ... ON CONFLICT DO UPDATE ... WHERE ... RETURNING\<close>: the row is returned when it was
  inserted or when the \<open>WHERE\<close> let the update through.\<close>

definition acquireQueueLease ::
    "time \<Rightarrow> ident \<Rightarrow> string \<Rightarrow> int option \<Rightarrow> string option \<Rightarrow> queue_lease list \<Rightarrow>
     (ident \<times> time) option \<times> queue_lease list" where
  "acquireQueueLease now token name leaseMs owner qs =
     (let until = now + or_default DEFAULT_QUEUE_LEASE_MS leaseMs in
      case List.find (\<lambda>q. ql_queueName q = name) qs of
        None \<Rightarrow> (Some (token, until),
                 qs @ [\<lparr>ql_queueName = name, ql_leaseToken = Some token, ql_leasedUntil = Some until,
                        ql_owner = owner, ql_lastTickAt = None\<rparr>])
      | Some q \<Rightarrow>
          if queue_free now q
          then (Some (token, until),
                update_where (\<lambda>q. ql_queueName q = name) (grant_queue token until owner) qs)
          else (None, qs))"

definition holds_queue :: "string \<Rightarrow> ident \<Rightarrow> queue_lease \<Rightarrow> bool" where
  "holds_queue name token q \<longleftrightarrow> ql_queueName q = name \<and> ql_leaseToken q = Some token"

definition renewQueueLease ::
    "time \<Rightarrow> string \<Rightarrow> ident \<Rightarrow> int \<Rightarrow> queue_lease list \<Rightarrow> bool \<times> queue_lease list" where
  "renewQueueLease now name token leaseMs qs =
     (count_where (holds_queue name token) qs > 0,
      update_where (holds_queue name token) (\<lambda>q. q\<lparr>ql_leasedUntil := Some (now + leaseMs)\<rparr>) qs)"

definition clear_queue :: "time \<Rightarrow> queue_lease \<Rightarrow> queue_lease" where
  "clear_queue now q = q\<lparr>ql_leaseToken := None, ql_leasedUntil := None, ql_lastTickAt := Some now\<rparr>"

definition releaseQueueLease ::
    "time \<Rightarrow> string \<Rightarrow> ident \<Rightarrow> queue_lease list \<Rightarrow> bool \<times> queue_lease list" where
  "releaseQueueLease now name token qs =
     (count_where (holds_queue name token) qs > 0,
      update_where (holds_queue name token) (clear_queue now) qs)"

end
