(* ===== verification/Relay.thy ===== *)
theory Relay
  imports JobLease
begin

text \<open>
  \<open>src/src/workers/outbox-relay.ts\<close>: one tick of the relay turns pending events into jobs and
  dispatches the jobs that can be leased. A handler is an argument of the registry; while it
  runs it may change the tables in any way. \<open>uuid\<close> gives the random identifiers: each
  operation draws from it at the position it is given and returns the next position. One tick
  reads the clock as \<open>now\<close>. Logging is left out.
\<close>

section \<open>Turning events into jobs\<close>

fun create_jobs ::
    "(nat \<Rightarrow> ident) \<Rightarrow> time \<Rightarrow> outbox_event \<Rightarrow> outbox_handler list \<Rightarrow> nat \<Rightarrow>
     (outbox_db, outbox_error, nat) step" where
  "create_jobs uuid now e [] n db = (Inr n, db)"
| "create_jobs uuid now e (h # hs) n db =
     (case insert_job (new_job (uuid n) (oe_id e) (oh_name h)
              (oe_eventType e @ '' -> '' @ oh_name h) (oh_maxAttempts h)
              (oh_backoffMultiplier h) (oh_backoffBaseMs h) now) db of
        (Inl err, db') \<Rightarrow> (Inl err, db')
      | (Inr _, db') \<Rightarrow> create_jobs uuid now e hs (Suc n) db')"

record relay_counts =
  rc_materialized :: nat
  rc_unhandled :: nat

fun materialize ::
    "handler_registry \<Rightarrow> (nat \<Rightarrow> ident) \<Rightarrow> time \<Rightarrow> outbox_event list \<Rightarrow> nat \<Rightarrow> relay_counts \<Rightarrow>
     (outbox_db, outbox_error, relay_counts \<times> nat) step" where
  "materialize reg uuid now [] n c db = (Inr (c, n), db)"
| "materialize reg uuid now (e # es) n c db =
     (let hs = handlersFor reg (oe_eventType e) (oe_eventVersion e) in
      if hs = [] then
        (case markDeadLetter (oe_id e) db of
           (Inl err, db') \<Rightarrow> (Inl err, db')
         | (Inr _, db') \<Rightarrow>
             materialize reg uuid now es n (c\<lparr>rc_unhandled := rc_unhandled c + 1\<rparr>) db')
      else
        (case transaction (create_jobs uuid now e hs n) db of
           (Inl err, db') \<Rightarrow> (Inl err, db')
         | (Inr n', db') \<Rightarrow>
             materialize reg uuid now es n' (c\<lparr>rc_materialized := rc_materialized c + 1\<rparr>) db'))"

definition unmaterialized :: "outbox_db \<Rightarrow> outbox_event \<Rightarrow> bool" where
  "unmaterialized db e \<longleftrightarrow> oe_status e = EvPending \<and> (\<forall>j \<in> set (jobs db). ja_outboxEventId j \<noteq> oe_id e)"

definition materializePending ::
    "handler_registry \<Rightarrow> nat \<Rightarrow> (nat \<Rightarrow> ident) \<Rightarrow> time \<Rightarrow> nat \<Rightarrow>
     (outbox_db, outbox_error, relay_counts \<times> nat) step" where
  "materializePending reg batchSize uuid now n db =
     materialize reg uuid now
       (take batchSize (sort_key oe_createdAt (filter (unmaterialized db) (events db)))) n
       \<lparr>rc_materialized = 0, rc_unhandled = 0\<rparr> db"

section \<open>Dispatching\<close>

datatype dispatch_outcome = OutcomeOk | OutcomeFailed | OutcomeIdle

record relay_config =
  cfg_handlers :: handler_registry
  cfg_schemas :: schema_registry
  cfg_zod :: zod_semantics
  cfg_batchSize :: nat
  cfg_leaseMs :: int
  cfg_uuid :: "nat \<Rightarrow> ident"

definition error_message :: "outbox_error \<Rightarrow> string" where
  "error_message e = (case e of HandlerFailed m \<Rightarrow> m | SchemaMissing k \<Rightarrow> k | SchemaInvalid k \<Rightarrow> k
     | UniqueViolation \<Rightarrow> ''P2002'' | ForeignKeyViolation \<Rightarrow> ''P2003'' | RecordNotFound \<Rightarrow> ''P2025''
     | LeaseMismatch \<Rightarrow> ''lease mismatch'' | _ \<Rightarrow> ''error'')"

text \<open>The body of the \<open>try\<close>: validate, run the handler, complete the job.\<close>

definition run_handler ::
    "relay_config \<Rightarrow> time \<Rightarrow> outbox_handler \<Rightarrow> outbox_event \<Rightarrow> lease_result \<Rightarrow>
     (outbox_db, outbox_error, unit) step" where
  "run_handler cfg now h e lease db =
     (case validate_event (cfg_zod cfg) (cfg_schemas cfg) (oe_eventType e) (oe_eventVersion e) (lr_payload lease) of
        Inl err \<Rightarrow> (Inl err, db)
      | Inr _ \<Rightarrow>
          (case oh_handle h
                  \<lparr>ctx_eventId = oe_id e, ctx_eventType = oe_eventType e, ctx_eventVersion = oe_eventVersion e,
                   ctx_aggregateId = oe_aggregateId e, ctx_aggregateType = oe_aggregateType e,
                   ctx_payload = lr_payload lease, ctx_attempt = lr_attempt lease\<rparr> db of
             (Inl msg, db1) \<Rightarrow> (Inl (HandlerFailed msg), db1)
           | (Inr result, db1) \<Rightarrow>
               completeJob now (lr_jobId lease) (lr_leaseToken lease)
                 \<lparr>hr_idempotencyKey =
                    Some (or_default (oe_id e @ '':'' @ oh_name h)
                           (case result of None \<Rightarrow> None | Some r \<Rightarrow> hr_idempotencyKey r)),
                  hr_result = (case result of None \<Rightarrow> None | Some r \<Rightarrow> hr_result r)\<rparr> db1))"

definition dispatchOne ::
    "relay_config \<Rightarrow> time \<Rightarrow> string \<Rightarrow> nat \<Rightarrow> (outbox_db, outbox_error, dispatch_outcome) step" where
  "dispatchOne cfg now jobType n db =
     (case handlerByName (cfg_handlers cfg) jobType of
        None \<Rightarrow> (Inr OutcomeIdle, db)
      | Some h \<Rightarrow>
          (case leaseJob now (cfg_uuid cfg n) jobType (Some (cfg_leaseMs cfg)) db of
             (Inl err, db1) \<Rightarrow> (Inl err, db1)
           | (Inr None, db1) \<Rightarrow> (Inr OutcomeIdle, db1)
           | (Inr (Some lease), db1) \<Rightarrow>
               (case (case find_job (lr_jobId lease) db1 of None \<Rightarrow> None
                      | Some job \<Rightarrow> find_event (ja_outboxEventId job) db1) of
                  None \<Rightarrow>
                    (case failJob now (lr_jobId lease) (lr_leaseToken lease)
                            ''Outbox event missing for job'' db1 of
                       (Inl err, db2) \<Rightarrow> (Inl err, db2)
                     | (Inr _, db2) \<Rightarrow> (Inr OutcomeFailed, db2))
                | Some e \<Rightarrow>
                    (case run_handler cfg now h e lease db1 of
                       (Inr _, db2) \<Rightarrow> (Inr OutcomeOk, db2)
                     | (Inl err, db2) \<Rightarrow>
                         (case failJob now (lr_jobId lease) (lr_leaseToken lease) (error_message err) db2 of
                            (Inl err', db3) \<Rightarrow> (Inl err', db3)
                          | (Inr _, db3) \<Rightarrow> (Inr OutcomeFailed, db3))))))"

record dispatch_counts =
  dc_dispatched :: nat
  dc_failed :: nat

text \<open>\<open>while (drained < batchSize)\<close>: the number of rounds left is the recursion argument.\<close>

fun drain_queue ::
    "relay_config \<Rightarrow> time \<Rightarrow> string \<Rightarrow> nat \<Rightarrow> nat \<Rightarrow> dispatch_counts \<Rightarrow>
     (outbox_db, outbox_error, dispatch_counts \<times> nat) step" where
  "drain_queue cfg now name 0 n c db = (Inr (c, n), db)"
| "drain_queue cfg now name (Suc left) n c db =
     (case dispatchOne cfg now name n db of
        (Inl err, db') \<Rightarrow> (Inl err, db')
      | (Inr OutcomeIdle, db') \<Rightarrow> (Inr (c, Suc n), db')
      | (Inr OutcomeOk, db') \<Rightarrow>
          drain_queue cfg now name left (Suc n) (c\<lparr>dc_dispatched := dc_dispatched c + 1\<rparr>) db'
      | (Inr OutcomeFailed, db') \<Rightarrow>
          drain_queue cfg now name left (Suc n) (c\<lparr>dc_failed := dc_failed c + 1\<rparr>) db')"

fun drain_all ::
    "relay_config \<Rightarrow> time \<Rightarrow> string list \<Rightarrow> nat \<Rightarrow> dispatch_counts \<Rightarrow>
     (outbox_db, outbox_error, dispatch_counts \<times> nat) step" where
  "drain_all cfg now [] n c db = (Inr (c, n), db)"
| "drain_all cfg now (name # names) n c db =
     (case drain_queue cfg now name (cfg_batchSize cfg) n c db of
        (Inl err, db') \<Rightarrow> (Inl err, db')
      | (Inr (c', n'), db') \<Rightarrow> drain_all cfg now names n' c' db')"

definition dispatchLeasable ::
    "relay_config \<Rightarrow> time \<Rightarrow> nat \<Rightarrow> (outbox_db, outbox_error, dispatch_counts \<times> nat) step" where
  "dispatchLeasable cfg now n =
     drain_all cfg now (registeredNames (cfg_handlers cfg)) n \<lparr>dc_dispatched = 0, dc_failed = 0\<rparr>"

definition relay_runOnce ::
    "relay_config \<Rightarrow> time \<Rightarrow> nat \<Rightarrow> (outbox_db, outbox_error, relay_counts \<times> dispatch_counts \<times> nat) step" where
  "relay_runOnce cfg now n db =
     (case materializePending (cfg_handlers cfg) (cfg_batchSize cfg) (cfg_uuid cfg) now n db of
        (Inl err, db1) \<Rightarrow> (Inl err, db1)
      | (Inr (c, n1), db1) \<Rightarrow>
          (case dispatchLeasable cfg now n1 db1 of
             (Inl err, db2) \<Rightarrow> (Inl err, db2)
           | (Inr (d, n2), db2) \<Rightarrow> (Inr (c, d, n2), db2)))"

section \<open>Replaying dead letters\<close>

fun reset_jobs :: "time \<Rightarrow> ident list \<Rightarrow> (outbox_db, outbox_error, unit) step" where
  "reset_jobs now [] db = (Inr (), db)"
| "reset_jobs now (j # js) db =
     (case resetJobForRetry now j db of
        (Inl err, db') \<Rightarrow> (Inl err, db')
      | (Inr _, db') \<Rightarrow> reset_jobs now js db')"

definition replayDeadLetter :: "time \<Rightarrow> ident \<Rightarrow> (outbox_db, outbox_error, nat) step" where
  "replayDeadLetter now eid db =
     (let dead = map ja_id (filter (\<lambda>j. ja_outboxEventId j = eid \<and> ja_status j = JobDeadLetter) (jobs db)) in
      case reset_jobs now dead db of
        (Inl err, db1) \<Rightarrow> (Inl err, db1)
      | (Inr _, db1) \<Rightarrow>
          if find_event eid db1 = None then (Inl RecordNotFound, db1)
          else (Inr (length dead), set_event_status eid EvPending db1))"

definition deadLetterEvents :: "nat \<Rightarrow> outbox_db \<Rightarrow> (ident \<times> string \<times> string option) list" where
  "deadLetterEvents limit db =
     map (\<lambda>e. (oe_id e, oe_eventType e,
            case List.find (\<lambda>j. ja_outboxEventId j = oe_id e \<and> ja_status j = JobDeadLetter) (jobs db) of
              None \<Rightarrow> None | Some j \<Rightarrow> ja_lastError j))
       (take limit (sort_key oe_createdAt (filter (\<lambda>e. oe_status e = EvDeadLetter) (events db))))"

end
