(* ===== verification/OutboxProps.thy ===== *)
theory OutboxProps
  imports Relay
begin

text \<open>
  Properties of the outbox: what the registry looks up, who may settle a leased job, what a
  failure does, and the invariants of the tables under every interleaving of workers.
\<close>

section \<open>The handler registry\<close>

lemma keyOf_inj: "keyOf t v = keyOf t' v' \<longleftrightarrow> t = t' \<and> v = v'"
proof
  assume eq: "keyOf t v = keyOf t' v'"
  have tail: "takeWhile (\<lambda>c. c \<noteq> CHR '':'') (rev (keyOf a i)) = rev (show_int i) @ ''v''" for a i
  proof -
    have "\<And>x. x \<in> set (rev (show_int i)) \<Longrightarrow> x \<noteq> CHR '':''"
      using show_int_no_colon [of i] by auto
    from takeWhile_append2 [where xs = "rev (show_int i)" and ys = "''v:'' @ rev a", OF this]
    show ?thesis by (simp add: keyOf_def)
  qed
  from arg_cong [OF eq, of "\<lambda>s. takeWhile (\<lambda>c. c \<noteq> CHR '':'') (rev s)"]
  have "show_int v = show_int v'" by (simp add: tail)
  then have "v = v'" by (rule show_int_inj)
  with eq show "t = t' \<and> v = v'" by (simp add: keyOf_def)
qed simp

definition targets :: "string \<Rightarrow> int \<Rightarrow> outbox_handler \<Rightarrow> bool" where
  "targets t v h \<longleftrightarrow> oh_eventType h = t \<and> oh_eventVersion h = v"

fun register_all ::
    "schema_registry \<Rightarrow> outbox_handler list \<Rightarrow> handler_registry \<Rightarrow> registry_error + handler_registry" where
  "register_all schemas [] reg = Inr reg"
| "register_all schemas (h # hs) reg =
     (case register_handler schemas h reg of Inl e \<Rightarrow> Inl e | Inr reg' \<Rightarrow> register_all schemas hs reg')"

lemma register_handler_lookup:
  assumes "register_handler schemas h reg = Inr reg'"
  shows "handlersFor reg' t v = handlersFor reg t v @ filter (targets t v) [h]"
    and "byName reg' = byName reg @ [(oh_name h, h)]"
    and "has_schema schemas (oh_eventType h) (oh_eventVersion h)"
    and "map_of (byName reg) (oh_name h) = None"
  using assms
  by (auto simp: register_handler_def handlersFor_def targets_def keyOf_inj Let_def
      split: if_splits option.splits)

lemma register_all_lookup:
  assumes "register_all schemas hs reg = Inr reg'" and "distinct (map fst (byName reg))"
  shows "handlersFor reg' t v = handlersFor reg t v @ filter (targets t v) hs
    \<and> byName reg' = byName reg @ map (\<lambda>h. (oh_name h, h)) hs
    \<and> distinct (map fst (byName reg'))"
  using assms
proof (induction hs arbitrary: reg)
  case Nil
  then show ?case by simp
next
  case (Cons h hs)
  then obtain reg1 where r1: "register_handler schemas h reg = Inr reg1"
    and rest: "register_all schemas hs reg1 = Inr reg'"
    by (auto split: sum.splits)
  note look = register_handler_lookup [OF r1]
  from Cons.prems(2) look(2,4) have "distinct (map fst (byName reg1))"
    by (auto simp: map_of_eq_None_iff)
  note IH = Cons.IH [OF rest this]
  then have "handlersFor reg' t v = handlersFor reg t v @ filter (targets t v) (h # hs)"
    and "byName reg' = byName reg @ map (\<lambda>h. (oh_name h, h)) (h # hs)"
    by (simp_all add: look(1,2))
  with IH show ?case by blast
qed

text \<open>
  C40. After a sequence of successful registrations the registry is exactly the list of
  handlers: the handlers of an event type and version are those registered for that type and
  that version, in the order of their registration, names are unique, and a handler is found
  under its name. (Keys of different types and versions never collide.)
\<close>

theorem registry_refines_list:
  assumes "register_all schemas hs empty_handlers = Inr reg"
  shows "handlersFor reg t v = filter (\<lambda>h. oh_eventType h = t \<and> oh_eventVersion h = v) hs
    \<and> distinct (map oh_name hs)
    \<and> (\<forall>h \<in> set hs. handlerByName reg (oh_name h) = Some h)"
proof -
  from register_all_lookup [OF assms, of t v]
  have "handlersFor reg t v = filter (targets t v) hs"
    and names: "byName reg = map (\<lambda>h. (oh_name h, h)) hs" "distinct (map fst (byName reg))"
    by (auto simp: empty_handlers_def handlersFor_def)
  moreover have "distinct (map oh_name hs)"
    using names by (simp add: comp_def)
  moreover have "handlerByName reg (oh_name h) = Some h" if "h \<in> set hs" for h
    unfolding handlerByName_def using names that by (intro map_of_is_SomeI) auto
  ultimately show ?thesis by (simp add: targets_def [abs_def])
qed

abbreviation idle_handler :: "string \<Rightarrow> string \<Rightarrow> outbox_handler" where
  "idle_handler name t \<equiv> \<lparr>oh_name = name, oh_eventType = t, oh_eventVersion = 1, oh_maxAttempts = Some 5,
     oh_backoffBaseMs = None, oh_backoffMultiplier = None, oh_handle = (\<lambda>_ db. (Inr None, db))\<rparr>"

lemma builtin_keys:
  "has_schema (registerBuiltInSchemas s) t v \<longleftrightarrow>
     has_schema s t v \<or> (\<exists>e \<in> set builtInSchemas. es_eventType e = t \<and> es_version e = v)"
proof -
  have "has_schema (fold register_schema es s) t v \<longleftrightarrow>
      has_schema s t v \<or> (\<exists>e \<in> set es. es_eventType e = t \<and> es_version e = v)" for es
    by (induction es arbitrary: s) (auto simp: register_schema_def has_schema_def keyOf_inj)
  then show ?thesis by (simp add: registerBuiltInSchemas_def)
qed

lemma registry_refines_list_witness:
  "\<exists>reg. register_all (registerBuiltInSchemas (\<lambda>_. None))
           [idle_handler ''a'' ''UserCreated'', idle_handler ''b'' ''UserCreated''] empty_handlers = Inr reg
     \<and> map oh_name (handlersFor reg ''UserCreated'' 1) = [''a'', ''b'']"
proof -
  let ?hs = "[idle_handler ''a'' ''UserCreated'', idle_handler ''b'' ''UserCreated'']"
  have "\<exists>reg. register_all (registerBuiltInSchemas (\<lambda>_. None)) ?hs empty_handlers = Inr reg"
    by (simp add: register_handler_def empty_handlers_def builtin_keys builtInSchemas_def)
  then obtain reg where reg: "register_all (registerBuiltInSchemas (\<lambda>_. None)) ?hs empty_handlers = Inr reg" ..
  from reg registry_refines_list [OF reg, of "''UserCreated''" 1] show ?thesis
    by (intro exI [of _ reg]) simp
qed

section \<open>Only the holder of a lease settles a job\<close>

lemma job_ids_update [simp]:
  "(\<And>j. ja_id (f j) = ja_id j) \<Longrightarrow> map ja_id (jobs (update_job p f db)) = map ja_id (jobs db)"
  by (simp add: map_update_where)

lemma find_job_update_same:
  assumes "\<And>j. ja_id (f j) = ja_id j" and "find_job jid db = Some j"
  shows "find_job jid (update_job (\<lambda>j. ja_id j = jid) f db) = Some (f j)"
  using find_update_where_key [where key = ja_id, of f] assms by (simp add: find_job_def)

lemma find_job_update_other:
  assumes "\<And>j. ja_id (f j) = ja_id j" and "i \<noteq> jid"
  shows "find_job i (update_job (\<lambda>j. ja_id j = jid) f db) = find_job i db"
  using assms unfolding find_job_def update_job_simps by (intro find_update_where_other) auto

interpretation settle: exclusive_claim "holds_lease jid token" "mark_completed now key r"
  by unfold_locales (simp add: holds_lease_def mark_completed_def)

lemma job_of_id:
  assumes "distinct (map ja_id (jobs db))" and "j \<in> set (jobs db)"
  shows "find_job (ja_id j) db = Some j"
  using find_key_unique [OF assms] by (simp add: find_job_def)

lemma lease_candidate_mem: "lease_candidate now jt db = Some j \<Longrightarrow> j \<in> set (jobs db)"
  by (auto simp: lease_candidate_def dest: first_by_Some split: option.splits)

lemma lease_candidate_state:
  "lease_candidate now jt db = Some j \<Longrightarrow> ja_jobType j = jt
     \<and> (ja_status j = JobPending \<and> ja_availableAt j \<le> now \<or> lease_expired now j)"
  by (auto simp: lease_candidate_def dest: first_by_Some split: option.splits)

lemma leaseJob_leases:
  assumes "leaseJob now token jt ms db = (Inr (Some l), db')"
  obtains j where "lease_candidate now jt db = Some j" and "lr_jobId l = ja_id j"
    and "lr_leaseToken l = token" and "lr_attempt l = ja_attempt j"
    and "lr_leasedUntil l = now + or_default 30000 ms"
    and "db' = update_job (\<lambda>i. ja_id i = ja_id j) (take_lease now token (now + or_default 30000 ms)) db"
  using assms by (auto simp: leaseJob_def Let_def split: option.splits)

lemma stale_complete:
  "count_where (holds_lease jid token) (jobs db) = 0 \<Longrightarrow> completeJob now jid token r db = (Inl LeaseMismatch, db)"
  by (simp add: completeJob_def complete_in_tx_def transaction_def)

lemma stale_fail:
  "find_job jid db = Some j \<Longrightarrow> ja_leaseToken j \<noteq> Some token \<Longrightarrow>
     failJob now jid token msg db = (Inl LeaseMismatch, db)"
  by (simp add: failJob_def fail_in_tx_def transaction_def)

text \<open>
  C7. After a job has been leased under a new token, a worker that still holds an older token
  for it (its lease expired and the job was reclaimed) can neither complete nor fail the job:
  both calls report a lease mismatch and change nothing.
\<close>

theorem stale_worker_cannot_settle:
  assumes ids: "distinct (map ja_id (jobs db))"
    and lease: "leaseJob now token jt ms db = (Inr (Some l), db')"
    and old: "old \<noteq> token"
  shows "completeJob now1 (lr_jobId l) old r db' = (Inl LeaseMismatch, db')
    \<and> failJob now2 (lr_jobId l) old msg db' = (Inl LeaseMismatch, db')"
proof -
  from lease obtain j where j: "lease_candidate now jt db = Some j" "lr_jobId l = ja_id j"
    and db': "db' = update_job (\<lambda>i. ja_id i = ja_id j) (take_lease now token (now + or_default 30000 ms)) db"
    by (rule leaseJob_leases)
  from j(1) have "find_job (ja_id j) db = Some j"
    by (intro job_of_id ids) (rule lease_candidate_mem)
  then have found: "find_job (lr_jobId l) db' = Some (take_lease now token (now + or_default 30000 ms) j)"
    unfolding db' j(2) by (intro find_job_update_same) (simp_all add: take_lease_def)
  moreover have "count_where (holds_lease (lr_jobId l) old) (jobs db') = 0"
    using old by (auto simp: count_where_0 db' j(2) set_update_where holds_lease_def take_lease_def)
  ultimately show ?thesis
    using old by (simp add: stale_complete stale_fail take_lease_def)
qed

abbreviation demo_event :: outbox_event where
  "demo_event \<equiv> \<lparr>oe_id = ''e'', oe_aggregateId = ''a'', oe_aggregateType = ''User'',
     oe_eventType = ''UserCreated'', oe_eventVersion = 1, oe_payload = JsonText JNull,
     oe_status = EvPending, oe_publishedAt = None, oe_source = None, oe_causedBy = None, oe_createdAt = 0\<rparr>"

abbreviation demo_job :: job_attempt where
  "demo_job \<equiv> new_job ''j'' ''e'' ''w'' ''n'' None None None 0"

abbreviation demo_db :: "event_status \<Rightarrow> job_attempt \<Rightarrow> outbox_db" where
  "demo_db st j \<equiv> \<lparr>events = [demo_event\<lparr>oe_status := st\<rparr>], jobs = [j], rolledBack = []\<rparr>"

lemma demo_lease:
  assumes "ja_id j = ''j''" and "ja_outboxEventId j = ''e''" and "ja_jobType j = jt"
    and "ja_status j = JobPending \<and> ja_availableAt j \<le> now \<or> lease_expired now j"
  shows "leaseJob now token jt ms (demo_db st j) =
    (Inr (Some \<lparr>lr_jobId = ''j'', lr_leaseToken = token, lr_leasedUntil = now + or_default 30000 ms,
                lr_attempt = ja_attempt j, lr_payload = JNull\<rparr>),
     demo_db st (take_lease now token (now + or_default 30000 ms) j))"
  using assms
  by (auto simp: leaseJob_def lease_candidate_def first_by_def find_event_def update_job_def Let_def)

lemma stale_worker_cannot_settle_witness:
  "completeJob 50000 ''j'' ''t1'' \<lparr>hr_idempotencyKey = None, hr_result = None\<rparr>
      (demo_db EvPending (take_lease 40000 ''t2'' 70000 (take_lease 0 ''t1'' 30000 demo_job)))
   = (Inl LeaseMismatch, demo_db EvPending (take_lease 40000 ''t2'' 70000 (take_lease 0 ''t1'' 30000 demo_job)))"
proof -
  let ?j = "take_lease 0 ''t1'' 30000 demo_job"
  have "leaseJob 40000 ''t2'' ''w'' None (demo_db EvPending ?j) =
    (Inr (Some \<lparr>lr_jobId = ''j'', lr_leaseToken = ''t2'', lr_leasedUntil = 70000, lr_attempt = 0,
       lr_payload = JNull\<rparr>), demo_db EvPending (take_lease 40000 ''t2'' 70000 ?j))"
    using demo_lease [of ?j "''w''" 40000 "''t2''" None EvPending]
    by (simp add: new_job_def take_lease_def lease_expired_def or_default_def)
  from stale_worker_cannot_settle [OF _ this, of "''t1''"] show ?thesis by simp
qed

section \<open>What a failure does\<close>

lemma event_after_status:
  assumes "find_event eid db = Some e"
  shows "find_event eid (set_event_status eid st db) = Some (e\<lparr>oe_status := st\<rparr>)"
  using find_update_where_key [where key = oe_id, of "\<lambda>e. e\<lparr>oe_status := st\<rparr>"] assms
  by (simp add: find_event_def set_event_status_def)

text \<open>
  A failure reported by the holder of the lease: below the limit the job becomes pending
  again, its attempt counted and its next run put off by the base delay times the multiplier
  to the number of the attempt, and the event is untouched; at the limit the job and its event
  are dead-lettered. Either way the lease is given up and no other job changes.
\<close>

theorem failJob_outcome:
  assumes "find_job jid db = Some j" and "ja_leaseToken j = Some token"
    and "find_event (ja_outboxEventId j) db = Some e"
  shows "fst (failJob now jid token msg db) = Inr ()
    \<and> find_job jid (snd (failJob now jid token msg db)) =
        Some (if ja_attempt j + 1 < ja_maxAttempts j
              then j\<lparr>ja_status := JobPending, ja_attempt := ja_attempt j + 1,
                     ja_availableAt := now + \<lfloor>of_int (ja_backoffBaseMs j) * ja_backoffMultiplier j ^ (ja_attempt j + 1)\<rfloor>,
                     ja_lastError := Some msg, ja_leaseToken := None, ja_leasedUntil := None\<rparr>
              else j\<lparr>ja_status := JobDeadLetter, ja_lastError := Some msg,
                     ja_leaseToken := None, ja_leasedUntil := None\<rparr>)
    \<and> find_event (ja_outboxEventId j) (snd (failJob now jid token msg db)) =
        Some (if ja_attempt j + 1 < ja_maxAttempts j then e else e\<lparr>oe_status := EvDeadLetter\<rparr>)
    \<and> (\<forall>i. i \<noteq> jid \<longrightarrow> find_job i (snd (failJob now jid token msg db)) = find_job i db)"
proof -
  let ?dead = "update_job (\<lambda>j. ja_id j = jid) (mark_dead msg) db"
  let ?retry = "\<lambda>t n. update_job (\<lambda>j. ja_id j = jid) (mark_retry t n msg) db"
  have dead: "find_event (ja_outboxEventId j) ?dead = Some e"
    and retry: "find_event (ja_outboxEventId j) (?retry t n) = Some e" for t n
    using assms(3) by (simp_all add: find_event_def)
  have same: "find_job jid ?dead = Some (mark_dead msg j)"
    "find_job jid (?retry t n) = Some (mark_retry t n msg j)" for t n
    using find_job_update_same [OF _ assms(1)] by (simp_all add: mark_dead_def mark_retry_def)
  have other: "find_job i ?dead = find_job i db" "find_job i (?retry t n) = find_job i db"
    if "i \<noteq> jid" for i t n
    using that by (simp_all add: find_job_update_other mark_dead_def mark_retry_def)
  show ?thesis
  proof (cases "ja_attempt j + 1 < ja_maxAttempts j")
    case True
    with assms have "failJob now jid token msg db =
        (Inr (), ?retry (now + retry_delay (ja_backoffBaseMs j) (ja_backoffMultiplier j) (ja_attempt j + 1)) (ja_attempt j + 1))"
      by (simp add: failJob_def fail_in_tx_def transaction_def)
    with True same(2) other(2) retry show ?thesis
      by (simp add: mark_retry_def retry_delay_def)
  next
    case False
    with assms dead have "failJob now jid token msg db =
        (Inr (), set_event_status (ja_outboxEventId j) EvDeadLetter ?dead)"
      by (simp add: failJob_def fail_in_tx_def transaction_def markDeadLetter_def)
    moreover have "find_job i (set_event_status k st d) = find_job i d" for i k st d
      by (simp add: find_job_def set_event_status_def)
    ultimately show ?thesis
      using False same(1) other(1) event_after_status [OF dead] by (simp add: mark_dead_def)
  qed
qed

lemma failJob_outcome_witness:
  "find_job ''j'' (snd (failJob 5000 ''j'' ''t'' ''boom'' (demo_db EvPending (take_lease 0 ''t'' 30000 demo_job))))
     = Some (demo_job\<lparr>ja_attempt := 1, ja_availableAt := 7000, ja_lastError := Some ''boom'',
                      ja_lastAttemptAt := Some 0\<rparr>)"
  using failJob_outcome [of "''j''" "demo_db EvPending (take_lease 0 ''t'' 30000 demo_job)"
      "take_lease 0 ''t'' 30000 demo_job" "''t''" demo_event 5000 "''boom''"]
  by (simp add: find_job_def find_event_def take_lease_def new_job_def or_default_def)

end
