(* ===== verification/OutboxInvariant.thy ===== *)
theory OutboxInvariant
  imports OutboxProps
begin

text \<open>
  The tables of the outbox under every interleaving of the operations that workers and
  requests run against them (each a single statement or a transaction): the step relation
  \<open>outbox_step\<close>, its invariant \<open>outbox_ok\<close>, and what follows for published events, lease
  tokens and attempts. Lease tokens are fresh, as random UUIDs are.
\<close>

section \<open>The invariant\<close>

definition job_ok :: "job_attempt \<Rightarrow> bool" where
  "job_ok j \<longleftrightarrow> (ja_leaseToken j \<noteq> None \<longleftrightarrow> ja_status j = JobLeased)
     \<and> (ja_status j = JobLeased \<longrightarrow> ja_leasedUntil j \<noteq> None)
     \<and> (ja_status j = JobCompleted \<longrightarrow> ja_completedAt j \<noteq> None)
     \<and> (ja_attempt j = 0 \<or> ja_attempt j < ja_maxAttempts j)"

definition tokens_unique :: "job_attempt list \<Rightarrow> bool" where
  "tokens_unique js \<longleftrightarrow> (\<forall>i \<in> set js. \<forall>j \<in> set js. \<forall>t.
     ja_leaseToken i = Some t \<longrightarrow> ja_leaseToken j = Some t \<longrightarrow> ja_id i = ja_id j)"

lemma tokens_uniqueD:
  "tokens_unique js \<Longrightarrow> i \<in> set js \<Longrightarrow> j \<in> set js \<Longrightarrow>
     ja_leaseToken i = Some t \<Longrightarrow> ja_leaseToken j = Some t \<Longrightarrow> ja_id i = ja_id j"
  unfolding tokens_unique_def by blast

lemma tokens_unique_append:
  assumes "tokens_unique js" and "ja_leaseToken j = None"
  shows "tokens_unique (js @ [j])"
  unfolding tokens_unique_def
proof (intro ballI allI impI)
  fix a b t assume mem: "a \<in> set (js @ [j])" "b \<in> set (js @ [j])"
    and tok: "ja_leaseToken a = Some t" "ja_leaseToken b = Some t"
  with assms(2) have "a \<in> set js" "b \<in> set js" by auto
  from tokens_uniqueD [OF assms(1) this tok] show "ja_id a = ja_id b" .
qed

definition all_done :: "ident \<Rightarrow> outbox_db \<Rightarrow> bool" where
  "all_done eid db \<longleftrightarrow> (\<exists>j \<in> set (jobs db). ja_outboxEventId j = eid)
     \<and> (\<forall>j \<in> set (jobs db). ja_outboxEventId j = eid \<longrightarrow> ja_status j = JobCompleted)"

definition outbox_ok :: "outbox_db \<Rightarrow> bool" where
  "outbox_ok db \<longleftrightarrow> distinct (map oe_id (events db)) \<and> distinct (map ja_id (jobs db))
     \<and> (\<forall>j \<in> set (jobs db). job_ok j \<and> ja_outboxEventId j \<in> oe_id ` set (events db))
     \<and> tokens_unique (jobs db)
     \<and> (\<forall>e \<in> set (events db). oe_status e = EvPublished \<longrightarrow> all_done (oe_id e) db)"

lemma update_job_ok:
  assumes ok: "outbox_ok db"
    and keeps: "\<And>j. ja_id (f j) = ja_id j \<and> ja_outboxEventId (f j) = ja_outboxEventId j"
    and row: "\<And>j. j \<in> set (jobs db) \<Longrightarrow> p j \<Longrightarrow> job_ok (f j)
        \<and> (ja_status j = JobCompleted \<longrightarrow> ja_status (f j) = JobCompleted)
        \<and> (ja_leaseToken (f j) = None \<or> (\<forall>i \<in> set (jobs db). ja_leaseToken i \<noteq> ja_leaseToken (f j)
              \<and> (p i \<longrightarrow> ja_id i = ja_id j)))"
  shows "outbox_ok (update_job p f db)"
proof -
  have "tokens_unique (jobs (update_job p f db))"
    unfolding tokens_unique_def update_job_simps ball_update_where
  proof (intro ballI allI impI)
    fix i j t assume mem: "i \<in> set (jobs db)" "j \<in> set (jobs db)"
      and ti: "ja_leaseToken (if p i then f i else i) = Some t"
      and tj: "ja_leaseToken (if p j then f j else j) = Some t"
    have new: "ja_id k = ja_id l" if "l \<in> set (jobs db)" "p l" "ja_leaseToken (f l) = Some t"
        "k \<in> set (jobs db)" "ja_leaseToken (if p k then f k else k) = Some t" for k l
    proof -
      from row [OF that(1,2)] that(3) have "\<forall>k \<in> set (jobs db). ja_leaseToken k \<noteq> Some t \<and> (p k \<longrightarrow> ja_id k = ja_id l)"
        by simp
      with that(4,5) show ?thesis by (auto split: if_splits)
    qed
    have "ja_id i = ja_id j"
    proof (cases "p i \<or> p j")
      case True
      with new [of i j] new [of j i] mem ti tj show ?thesis by auto
    next
      case False
      then have "ja_leaseToken i = Some t" "ja_leaseToken j = Some t" using ti tj by simp_all
      with ok mem show ?thesis unfolding outbox_ok_def by (blast dest: tokens_uniqueD)
    qed
    then show "ja_id (if p i then f i else i) = ja_id (if p j then f j else j)"
      using keeps by simp
  qed
  moreover have "all_done eid (update_job p f db)" if "all_done eid db" for eid
    using that keeps row by (auto simp: all_done_def ball_update_where bex_update_where)
  ultimately show ?thesis
    using ok keeps row map_update_where [of p ja_id f "jobs db"]
    by (auto simp: outbox_ok_def ball_update_where)
qed

lemma set_event_status_ok:
  assumes "outbox_ok db" and "st \<noteq> EvPublished"
  shows "outbox_ok (set_event_status eid st db)"
  using assms
  by (simp add: outbox_ok_def set_event_status_def ball_update_where map_update_where
      image_update_where all_done_def)

lemma markDeadLetter_ok: "markDeadLetter eid db = (r, db') \<Longrightarrow> outbox_ok db \<Longrightarrow> outbox_ok db'"
  by (auto simp: markDeadLetter_def intro: set_event_status_ok split: if_splits)

lemma markPublished_ok:
  assumes "markPublished now eid db = (r, db')" and "outbox_ok db" and "all_done eid db"
  shows "outbox_ok db'"
proof (cases "find_event eid db = None")
  case True
  with assms(1,2) show ?thesis by (simp add: markPublished_def)
next
  case False
  let ?f = "\<lambda>e. e\<lparr>oe_status := EvPublished, oe_publishedAt := Some now\<rparr>"
  from False assms(1) have db': "db' = update_event (\<lambda>e. oe_id e = eid) ?f db"
    by (auto simp: markPublished_def)
  have frame: "all_done i db' = all_done i db" for i
    by (simp add: db' all_done_def)
  have "\<forall>e \<in> set (events db'). oe_status e = EvPublished \<longrightarrow> all_done (oe_id e) db'"
    using assms(2,3) unfolding frame by (simp add: db' ball_update_where outbox_ok_def)
  then show ?thesis
    using assms(2) by (simp add: db' outbox_ok_def map_update_where image_update_where)
qed

section \<open>Each operation keeps it\<close>

lemma transaction_ok:
  assumes "transaction f db = (r, db')" and "outbox_ok db" and "\<And>r db'. f db = (r, db') \<Longrightarrow> outbox_ok db'"
  shows "outbox_ok db'"
  using assms by (auto simp: transaction_def split: prod.splits sum.splits)

lemma find_event_None: "find_event eid db = None \<longleftrightarrow> eid \<notin> oe_id ` set (events db)"
  by (auto simp: find_event_def find_None)

lemma insert_event_ok:
  assumes "insert_event e db = (r, db')" and "outbox_ok db" and "oe_status e \<noteq> EvPublished"
  shows "outbox_ok db'"
  using assms by (auto simp: insert_event_def find_event_None outbox_ok_def all_done_def split: if_splits)

lemma createEvent_ok: "createEvent now rnd opts db = (r, db') \<Longrightarrow> outbox_ok db \<Longrightarrow> outbox_ok db'"
  unfolding createEvent_def by (erule insert_event_ok) simp_all

lemma insert_job_ok:
  assumes "insert_job (new_job jid eid t n mx b ba now) db = (r, db')" and "outbox_ok db"
    and "\<And>e. e \<in> set (events db) \<Longrightarrow> oe_id e = eid \<Longrightarrow> oe_status e \<noteq> EvPublished"
  shows "outbox_ok db'"
proof (cases "find_job jid db = None \<and> find_event eid db \<noteq> None")
  case False
  with assms(1,2) show ?thesis by (auto simp: insert_job_def new_job_def split: if_splits)
next
  case True
  let ?j = "new_job jid eid t n mx b ba now"
  from True assms(1) have db': "db' = db\<lparr>jobs := jobs db @ [?j]\<rparr>"
    by (auto simp: insert_job_def new_job_def)
  have row: "ja_id ?j = jid" "ja_outboxEventId ?j = eid" "ja_leaseToken ?j = None" "job_ok ?j"
    by (simp_all add: new_job_def job_ok_def)
  from True find_Some have "jid \<notin> ja_id ` set (jobs db)" "eid \<in> oe_id ` set (events db)"
    by (auto simp: find_job_def find_event_def find_None)
  moreover have "tokens_unique (jobs db @ [?j])"
    using assms(2) row(3) by (auto simp: outbox_ok_def intro: tokens_unique_append)
  moreover have "all_done (oe_id e) db'" if "e \<in> set (events db)" "oe_status e = EvPublished" for e
    using that assms(2,3) row by (auto simp: db' outbox_ok_def all_done_def)
  ultimately show ?thesis
    using assms(2) row by (simp add: db' outbox_ok_def)
qed

lemma insert_job_events: "insert_job j db = (r, db') \<Longrightarrow> events db' = events db"
  by (auto simp: insert_job_def split: if_splits)

lemma create_jobs_ok:
  assumes "create_jobs uuid now e hs n db = (r, db')" and "outbox_ok db"
    and "\<And>e'. e' \<in> set (events db) \<Longrightarrow> oe_id e' = oe_id e \<Longrightarrow> oe_status e' \<noteq> EvPublished"
  shows "outbox_ok db'"
  using assms
proof (induction hs arbitrary: n db)
  case Nil
  then show ?case by simp
next
  case (Cons h hs)
  let ?j = "new_job (uuid n) (oe_id e) (oh_name h) (oe_eventType e @ '' -> '' @ oh_name h)
      (oh_maxAttempts h) (oh_backoffMultiplier h) (oh_backoffBaseMs h) now"
  obtain r1 db1 where ins: "insert_job ?j db = (r1, db1)" by fastforce
  from insert_job_ok [OF ins Cons.prems(2,3)] have "outbox_ok db1" .
  with Cons.IH [of "Suc n" db1] Cons.prems ins insert_job_events [OF ins] show ?case
    by (auto split: sum.splits)
qed

lemma take_lease_ok: "job_ok j \<Longrightarrow> job_ok (take_lease now token until j)"
  by (simp add: job_ok_def take_lease_def)

lemma lease_update_ok:
  assumes ok: "outbox_ok db" and cand: "lease_candidate now jt db = Some j"
    and fresh: "\<And>i. i \<in> set (jobs db) \<Longrightarrow> ja_leaseToken i \<noteq> Some token"
  shows "outbox_ok (update_job (\<lambda>i. ja_id i = ja_id j) (take_lease now token until) db)"
proof (rule update_job_ok [OF ok])
  fix i assume i: "i \<in> set (jobs db)" "ja_id i = ja_id j"
  have "j \<in> set (jobs db)" using cand by (rule lease_candidate_mem)
  with i ok have "i = j" by (auto simp: outbox_ok_def distinct_map inj_on_def)
  with lease_candidate_state [OF cand] have "ja_status i \<noteq> JobCompleted"
    by (auto simp: lease_expired_def)
  with i ok fresh show "job_ok (take_lease now token until i)
      \<and> (ja_status i = JobCompleted \<longrightarrow> ja_status (take_lease now token until i) = JobCompleted)
      \<and> (ja_leaseToken (take_lease now token until i) = None
         \<or> (\<forall>k \<in> set (jobs db). ja_leaseToken k \<noteq> ja_leaseToken (take_lease now token until i)
             \<and> (ja_id k = ja_id j \<longrightarrow> ja_id k = ja_id i)))"
    by (auto simp: outbox_ok_def take_lease_ok) (simp add: take_lease_def)
qed (simp add: take_lease_def)

lemma leaseJob_ok:
  assumes "leaseJob now token jt ms db = (r, db')" and "outbox_ok db"
    and "\<And>i. i \<in> set (jobs db) \<Longrightarrow> ja_leaseToken i \<noteq> Some token"
  shows "outbox_ok db'"
  using assms lease_update_ok [OF assms(2) _ assms(3)]
  by (auto simp: leaseJob_def Let_def split: option.splits)

lemma complete_in_tx_ok:
  assumes run: "complete_in_tx now jid token r db = (x, db')" and ok: "outbox_ok db"
  shows "outbox_ok db'"
proof -
  let ?db1 = "update_job (holds_lease jid token) (mark_completed now (hr_idempotencyKey r) (hr_result r)) db"
  have ok1: "outbox_ok ?db1"
    by (rule update_job_ok [OF ok]) (use ok in \<open>auto simp: mark_completed_def job_ok_def outbox_ok_def\<close>)
  have complete: "all_done (ja_outboxEventId job) ?db1"
    if "find_job jid ?db1 = Some job"
      "count_where (\<lambda>j. ja_outboxEventId j = ja_outboxEventId job \<and> ja_status j \<noteq> JobCompleted) (jobs ?db1) = 0" for job
    using that find_Some unfolding all_done_def find_job_def count_where_0 by metis
  show ?thesis
    using run ok ok1 markPublished_ok [OF _ ok1 complete]
    by (auto simp: complete_in_tx_def Let_def split: if_splits option.splits)
qed

lemma fail_in_tx_ok:
  assumes run: "fail_in_tx now jid token msg db = (x, db')" and ok: "outbox_ok db"
  shows "outbox_ok db'"
proof (cases "\<exists>job. find_job jid db = Some job \<and> ja_leaseToken job = Some token")
  case False
  with run ok show ?thesis by (auto simp: fail_in_tx_def split: option.splits)
next
  case True
  then obtain job where job: "find_job jid db = Some job" "ja_leaseToken job = Some token" by blast
  have only: "j = job" if "j \<in> set (jobs db)" "ja_id j = jid" for j
    using that job(1) job_of_id [of db j] ok by (auto simp: outbox_ok_def)
  from job find_Some [of _ "jobs db" job] have mem: "job \<in> set (jobs db)"
    by (simp add: find_job_def)
  with ok job(2) have leased: "ja_status job = JobLeased" by (auto simp: outbox_ok_def job_ok_def)
  have dead: "outbox_ok (update_job (\<lambda>j. ja_id j = jid) (mark_dead msg) db)"
    by (rule update_job_ok [OF ok]) (use ok only leased in \<open>auto simp: mark_dead_def job_ok_def outbox_ok_def\<close>)
  have retry: "outbox_ok (update_job (\<lambda>j. ja_id j = jid) (mark_retry t (ja_attempt job + 1) msg) db)"
    if "ja_attempt job + 1 < ja_maxAttempts job" for t
    by (rule update_job_ok [OF ok]) (use only leased that in \<open>auto simp: mark_retry_def job_ok_def\<close>)
  show ?thesis
    using run job retry markDeadLetter_ok [OF _ dead]
    by (auto simp: fail_in_tx_def Let_def split: if_splits)
qed

lemma recover_ok:
  assumes "outbox_ok db"
  shows "outbox_ok (snd (recoverAbandonedLeases now db))"
  unfolding recoverAbandonedLeases_def snd_conv
  by (rule update_job_ok [OF assms])
     (use assms in \<open>auto simp: release_lease_def job_ok_def outbox_ok_def lease_expired_def\<close>)

lemma reset_ok:
  assumes "resetJobForRetry now jid db = (r, db')" and ok: "outbox_ok db"
  shows "outbox_ok db'"
proof (cases "\<exists>job. find_job jid db = Some job \<and> ja_status job = JobDeadLetter")
  case False
  with assms show ?thesis by (auto simp: resetJobForRetry_def split: option.splits if_splits)
next
  case True
  then obtain job where job: "find_job jid db = Some job" "ja_status job = JobDeadLetter" by blast
  have only: "j = job" if "j \<in> set (jobs db)" "ja_id j = jid" for j
    using that job(1) job_of_id [of db j] ok by (auto simp: outbox_ok_def)
  have "outbox_ok (update_job (\<lambda>j. ja_id j = jid) (mark_reset now) db)"
    by (rule update_job_ok [OF ok])
       (use ok only job(2) in \<open>auto simp: mark_reset_def job_ok_def outbox_ok_def\<close>)
  with assms job show ?thesis by (auto simp: resetJobForRetry_def)
qed

lemma reset_jobs_ok: "reset_jobs now js db = (r, db') \<Longrightarrow> outbox_ok db \<Longrightarrow> outbox_ok db'"
  by (induction js arbitrary: db) (auto split: prod.splits sum.splits dest: reset_ok)

lemma replay_ok:
  assumes "replayDeadLetter now eid db = (r, db')" and "outbox_ok db"
  shows "outbox_ok db'"
  using assms
  by (auto simp: replayDeadLetter_def Let_def intro!: set_event_status_ok dest: reset_jobs_ok
      split: prod.splits sum.splits if_splits)

section \<open>Every interleaving\<close>

inductive outbox_step :: "outbox_db \<Rightarrow> outbox_db \<Rightarrow> bool" where
  os_create: "createEvent now rnd opts db = (r, db') \<Longrightarrow> outbox_step db db'"
| os_materialize: "e \<in> set (events db) \<Longrightarrow> unmaterialized db e \<Longrightarrow> hs \<noteq> [] \<Longrightarrow>
     transaction (create_jobs uuid now e hs n) db = (r', db') \<Longrightarrow> outbox_step db db'"
| os_unhandled: "markDeadLetter eid db = (r, db') \<Longrightarrow> outbox_step db db'"
| os_lease: "leaseJob now token jt ms db = (l, db') \<Longrightarrow>
     (\<And>i. i \<in> set (jobs db) \<Longrightarrow> ja_leaseToken i \<noteq> Some token) \<Longrightarrow> outbox_step db db'"
| os_complete: "completeJob now jid token res db = (r, db') \<Longrightarrow> outbox_step db db'"
| os_fail: "failJob now jid token msg db = (r, db') \<Longrightarrow> outbox_step db db'"
| os_recover: "recoverAbandonedLeases now db = (k, db') \<Longrightarrow> outbox_step db db'"
| os_replay: "replayDeadLetter now eid db = (k', db') \<Longrightarrow> outbox_step db db'"

definition empty_outbox :: outbox_db where
  "empty_outbox = \<lparr>events = [], jobs = [], rolledBack = []\<rparr>"

lemma outbox_step_ok: "outbox_step db db' \<Longrightarrow> outbox_ok db \<Longrightarrow> outbox_ok db'"
proof (induction rule: outbox_step.induct)
  case (os_create now rnd opts db r db')
  then show ?case by (rule createEvent_ok)
next
  case (os_materialize e db hs uuid now n r' db')
  have pending: "oe_status e' \<noteq> EvPublished" if "e' \<in> set (events db)" "oe_id e' = oe_id e" for e'
  proof -
    from that os_materialize have "e' = e" by (auto simp: outbox_ok_def distinct_map inj_on_def)
    with os_materialize(2) show ?thesis by (simp add: unmaterialized_def)
  qed
  show ?case
    by (rule transaction_ok [OF os_materialize(4,5)]) (rule create_jobs_ok [OF _ os_materialize(5) pending])
next
  case (os_unhandled eid db r db')
  then show ?case by (rule markDeadLetter_ok)
next
  case (os_lease now token jt ms db l db')
  then show ?case by (intro leaseJob_ok [OF os_lease(1) os_lease(3) os_lease(2)])
next
  case (os_complete now jid token res db r db')
  then show ?case unfolding completeJob_def by (blast intro: transaction_ok complete_in_tx_ok)
next
  case (os_fail now jid token msg db r db')
  then show ?case unfolding failJob_def by (blast intro: transaction_ok fail_in_tx_ok)
next
  case (os_recover now db k db')
  then show ?case by (metis recover_ok snd_conv)
next
  case (os_replay now eid db k' db')
  then show ?case by (rule replay_ok)
qed

lemma outbox_ok_empty: "outbox_ok empty_outbox"
  by (simp add: outbox_ok_def empty_outbox_def tokens_unique_def)

interpretation outbox: invariant_system "\<lambda>db. db = empty_outbox" outbox_step outbox_ok
  by unfold_locales (auto simp: outbox_ok_empty intro: outbox_step_ok)


abbreviation demo_options :: create_event_options where
  "demo_options \<equiv> \<lparr>ceo_aggregateId = ''a'', ceo_aggregateType = ''User'', ceo_eventType = ''UserCreated'',
     ceo_eventVersion = 1, ceo_payload = JNull, ceo_source = None, ceo_causedBy = None\<rparr>"


section \<open>A completed job\<close>

text \<open>
  A completion by the holder of the lease: the job is completed with the handler's
  idempotency key and result and gives up its lease; the event is published exactly when every
  other job of it is completed already, and is untouched otherwise.
\<close>

theorem completeJob_outcome:
  assumes "outbox_ok db" and "find_job jid db = Some j" and "ja_leaseToken j = Some token"
    and "\<not> key_taken (hr_idempotencyKey r) jid db" and "find_event (ja_outboxEventId j) db = Some e"
  shows "fst (completeJob now jid token r db) = Inr ()
    \<and> find_job jid (snd (completeJob now jid token r db)) =
        Some (mark_completed now (hr_idempotencyKey r) (hr_result r) j)
    \<and> find_event (ja_outboxEventId j) (snd (completeJob now jid token r db)) =
        Some (if \<forall>i \<in> set (jobs db). ja_outboxEventId i = ja_outboxEventId j \<and> ja_id i \<noteq> jid \<longrightarrow>
                   ja_status i = JobCompleted
              then e\<lparr>oe_status := EvPublished, oe_publishedAt := Some now\<rparr> else e)"
proof -
  let ?m = "mark_completed now (hr_idempotencyKey r) (hr_result r)"
  let ?db1 = "update_job (holds_lease jid token) ?m db"
  let ?others = "\<forall>i \<in> set (jobs db). ja_outboxEventId i = ja_outboxEventId j \<and> ja_id i \<noteq> jid \<longrightarrow>
                   ja_status i = JobCompleted"
  have mem: "j \<in> set (jobs db)" "ja_id j = jid"
    using assms(2) find_Some [of _ "jobs db" j] by (auto simp: find_job_def)
  from assms(1) have ids: "distinct (map ja_id (jobs db))" by (simp add: outbox_ok_def)
  then have only: "i = j" if "i \<in> set (jobs db)" "ja_id i = jid" for i
    using mem that by (auto simp: distinct_map inj_on_def)
  have rows: "i \<in> set (jobs db) \<Longrightarrow> holds_lease jid token i = (ja_id i = jid)" for i
    using only assms(3) by (auto simp: holds_lease_def)
  then have db1: "?db1 = update_job (\<lambda>i. ja_id i = jid) ?m db"
    by (auto simp: update_job_def update_where_def)
  have found: "find_job jid ?db1 = Some (?m j)"
    unfolding db1 using assms(2) by (intro find_job_update_same) (simp_all add: mark_completed_def)
  have event: "find_event (ja_outboxEventId j) ?db1 = Some e"
    using assms(5) by (simp add: find_event_def)
  have count: "count_where (holds_lease jid token) (jobs db) \<noteq> 0"
    unfolding count_where_0 using mem assms(3) by (auto simp: holds_lease_def)
  have all: "count_where (\<lambda>i. ja_outboxEventId i = ja_outboxEventId (?m j) \<and> ja_status i \<noteq> JobCompleted)
      (jobs ?db1) = 0 \<longleftrightarrow> ?others"
    unfolding count_where_0 db1 update_job_simps ball_update_where
    by (auto simp: mark_completed_def)
  have "find_event (ja_outboxEventId j) (update_event (\<lambda>e. oe_id e = ja_outboxEventId j)
      (\<lambda>e. e\<lparr>oe_status := EvPublished, oe_publishedAt := Some now\<rparr>) ?db1) =
      Some (e\<lparr>oe_status := EvPublished, oe_publishedAt := Some now\<rparr>)"
    using find_update_where_key [where key = oe_id, of "\<lambda>e. e\<lparr>oe_status := EvPublished, oe_publishedAt := Some now\<rparr>"]
      event by (simp add: find_event_def)
  moreover have "find_job i (update_event p f d) = find_job i d" for i p f d
    by (simp add: find_job_def)
  moreover have "ja_outboxEventId (?m j) = ja_outboxEventId j" by (simp add: mark_completed_def)
  moreover have "completeJob now jid token r db =
      (if ?others then (Inr (), update_event (\<lambda>e. oe_id e = ja_outboxEventId j)
          (\<lambda>e. e\<lparr>oe_status := EvPublished, oe_publishedAt := Some now\<rparr>) ?db1) else (Inr (), ?db1))"
    using count assms(4) found all event calculation(3)
    by (cases ?others) (auto simp: completeJob_def transaction_def complete_in_tx_def markPublished_def Let_def)
  ultimately show ?thesis using found event by (cases ?others) auto
qed

lemma completeJob_outcome_witness:
  "find_event ''e'' (snd (completeJob 9 ''j'' ''t'' \<lparr>hr_idempotencyKey = Some ''k'', hr_result = None\<rparr>
      (demo_db EvPending (take_lease 0 ''t'' 30000 demo_job)))) =
     Some (demo_event\<lparr>oe_status := EvPublished, oe_publishedAt := Some 9\<rparr>)"
  using completeJob_outcome [of "demo_db EvPending (take_lease 0 ''t'' 30000 demo_job)" "''j''"
      "take_lease 0 ''t'' 30000 demo_job" "''t''" "\<lparr>hr_idempotencyKey = Some ''k'', hr_result = None\<rparr>" demo_event 9]
  by (simp add: outbox_ok_def job_ok_def tokens_unique_def find_job_def find_event_def key_taken_def
      take_lease_def new_job_def)

section \<open>What the outbox does not promise\<close>

fun crash_rounds :: "(nat \<Rightarrow> ident) \<Rightarrow> time \<Rightarrow> string \<Rightarrow> nat \<Rightarrow> outbox_db \<Rightarrow> outbox_db" where
  "crash_rounds uuid now jt 0 db = db"
| "crash_rounds uuid now jt (Suc n) db =
     crash_rounds uuid (now + 30001) jt n (snd (leaseJob now (uuid n) jt None db))"

lemma crash_job:
  assumes "ja_id j = ''j''" and "ja_outboxEventId j = ''e''"
    and "ja_status j = JobPending \<and> ja_availableAt j \<le> now \<or> lease_expired now j"
  shows "\<exists>j'. crash_rounds uuid now (ja_jobType j) (Suc n) (demo_db st j) = demo_db st j'
     \<and> ja_attempt j' = ja_attempt j \<and> ja_maxAttempts j' = ja_maxAttempts j \<and> ja_status j' = JobLeased"
  using assms
proof (induction n arbitrary: j now)
  case 0
  then show ?case
    using demo_lease [of j "ja_jobType j" now "uuid 0" None st] by (simp add: take_lease_def)
next
  case (Suc n)
  let ?j = "take_lease now (uuid (Suc n)) (now + or_default 30000 None) j"
  have step: "crash_rounds uuid now (ja_jobType j) (Suc (Suc n)) (demo_db st j) =
      crash_rounds uuid (now + 30001) (ja_jobType ?j) (Suc n) (demo_db st ?j)"
    using Suc.prems demo_lease [of j "ja_jobType j" now "uuid (Suc n)" None st]
    by (simp add: take_lease_def)
  have "lease_expired (now + 30001) ?j"
    by (simp add: lease_expired_def take_lease_def or_default_def)
  with Suc.IH [of ?j "now + 30001"] Suc.prems step show ?case
    by (simp add: take_lease_def)
qed

text \<open>
  An abandoned lease is reclaimed without counting an attempt: however often a worker
  crashes on a job (its lease runs out, the next worker reclaims it and crashes in turn), the
  attempt handed out is still the first one and the job is still leased, so a job that kills
  its worker is never dead-lettered, whatever its limit.
\<close>

theorem crashes_are_not_counted:
  assumes "ja_id j = ''j''" and "ja_outboxEventId j = ''e''"
    and "ja_status j = JobPending" and "ja_availableAt j \<le> now" and "0 < n"
  shows "\<exists>j'. jobs (crash_rounds uuid now (ja_jobType j) n (demo_db EvPending j)) = [j']
     \<and> ja_attempt j' = ja_attempt j \<and> ja_status j' = JobLeased"
proof -
  obtain k where n: "n = Suc k" using assms(5) by (cases n) auto
  from crash_job [OF assms(1,2), of now uuid k EvPending] assms(3,4) show ?thesis
    by (auto simp: n)
qed

lemma crashes_are_not_counted_witness:
  "\<exists>j'. jobs (crash_rounds (\<lambda>_. ''t'') 0 ''w'' 1000 (demo_db EvPending demo_job)) = [j']
     \<and> ja_attempt j' = 0 \<and> ja_status j' = JobLeased"
  using crashes_are_not_counted [of demo_job 0 1000 "\<lambda>_. ''t''"] by (simp add: new_job_def)

text \<open>
  Marking an event as rolled back does not stop its jobs: a job that was already created
  is leased and handed to its handler as before (\<open>leaseJob\<close> never looks at the event's status);
  only the creation of jobs skips the event.
\<close>

theorem rolled_back_event_still_leased:
  assumes mark: "markRolledBack now0 eid reason db = (Inr (), db1)"
    and cand: "lease_candidate now jt db = Some j" and "ja_outboxEventId j = eid"
    and "find_event eid db = Some e" and "json_parse (oe_payload e) = Some payload"
  shows "map_option oe_status (find_event eid db1) = Some EvRolledBack
    \<and> (\<exists>l. fst (leaseJob now token jt ms db1) = Inr (Some l) \<and> lr_jobId l = ja_id j \<and> lr_payload l = payload)
    \<and> (\<forall>e \<in> set (events db1). oe_id e = eid \<longrightarrow> \<not> unmaterialized db1 e)"
proof -
  obtain rb where db1: "db1 = set_event_status eid EvRolledBack (db\<lparr>rolledBack := rb\<rparr>)"
    using mark by (auto simp: markRolledBack_def Let_def split: if_splits)
  have ev: "find_event eid db1 = Some (e\<lparr>oe_status := EvRolledBack\<rparr>)"
    unfolding db1 using assms(4) by (intro event_after_status) (simp add: find_event_def)
  have jobs: "jobs db1 = jobs db" by (simp add: db1 set_event_status_def)
  from cand have cand1: "lease_candidate now jt db1 = Some j" unfolding lease_candidate_def jobs .
  have "\<exists>l. fst (leaseJob now token jt ms db1) = Inr (Some l) \<and> lr_jobId l = ja_id j \<and> lr_payload l = payload"
    using cand1 ev assms(3,5) by (simp add: leaseJob_def Let_def find_event_def)
  moreover have "\<forall>e \<in> set (events db1). oe_id e = eid \<longrightarrow> oe_status e = EvRolledBack"
    by (simp add: db1 set_event_status_def ball_update_where)
  ultimately show ?thesis using ev by (auto simp: unmaterialized_def)
qed

lemma rolled_back_event_still_leased_witness:
  "\<exists>l. fst (leaseJob 5 ''t'' ''w'' None (snd (markRolledBack 1 ''e'' None (demo_db EvPending demo_job)))) = Inr (Some l)
     \<and> lr_jobId l = ''j''"
  using rolled_back_event_still_leased [of 1 "''e''" None "demo_db EvPending demo_job"
      "snd (markRolledBack 1 ''e'' None (demo_db EvPending demo_job))" 5 "''w''" demo_job demo_event JNull "''t''" None]
  by (auto simp: markRolledBack_def Let_def find_event_def lease_candidate_def first_by_def new_job_def)

end
