(* ===== verification/Scheduler.thy ===== *)
theory Scheduler
  imports JobLease
begin

text \<open>
  The scheduler that drives the background queues: \<open>src/src/config/scheduler.ts\<close> (settings read
  from the environment), \<open>src/src/workers/queue-metrics.ts\<close> (counters per queue) and
  \<open>src/src/workers/scheduled-job-runner.ts\<close> (one tick of a queue under its lease). The work of a
  queue and its depth probe are arguments; timers only decide when a tick runs and are left
  out, so a tick is the unit of the model.
\<close>

section \<open>Settings\<close>

type_synonym env = "string \<Rightarrow> string option"

definition DEFAULT_INTERVAL_MS :: int where "DEFAULT_INTERVAL_MS = 15000"
definition DEFAULT_LEASE_MS :: int where "DEFAULT_LEASE_MS = 60000"
definition DEFAULT_SHUTDOWN_TIMEOUT_MS :: int where "DEFAULT_SHUTDOWN_TIMEOUT_MS = 30000"

definition toInt :: "string option \<Rightarrow> int \<Rightarrow> int" where
  "toInt v fallback =
     (case parseInt10 (or_default '''' v) of
        None \<Rightarrow> fallback
      | Some n \<Rightarrow> if n > 0 then n else fallback)"

definition toBool :: "string option \<Rightarrow> bool \<Rightarrow> bool" where
  "toBool v fallback =
     (case v of None \<Rightarrow> fallback
      | Some s \<Rightarrow> if s = '''' then fallback else s = ''true'' \<or> s = ''1'')"

definition toList :: "string option \<Rightarrow> string list" where
  "toList v = filter (\<lambda>s. 0 < length s) (map trim (split_on (CHR '','') (or_default '''' v)))"

definition is_alnum :: "char \<Rightarrow> bool" where
  "is_alnum c \<longleftrightarrow> is_digit c \<or> (65 \<le> (of_char c :: nat) \<and> of_char c \<le> (90 :: nat))
     \<or> (97 \<le> (of_char c :: nat) \<and> of_char c \<le> (122 :: nat))"

definition upper :: "char \<Rightarrow> char" where
  "upper c = (if 97 \<le> (of_char c :: nat) \<and> of_char c \<le> (122 :: nat) then char_of (of_char c - (32 :: nat)) else c)"

fun squash_runs :: "bool \<Rightarrow> string \<Rightarrow> string" where
  "squash_runs inRun [] = []"
| "squash_runs inRun (c # cs) =
     (if is_alnum c then c # squash_runs False cs
      else if inRun then squash_runs True cs
      else CHR ''_'' # squash_runs True cs)"

definition envKeyFor :: "string \<Rightarrow> string" where
  "envKeyFor queueName = ''SCHEDULER_'' @ map upper (squash_runs False queueName) @ ''_INTERVAL_MS''"

record scheduler_config =
  sc_env :: env
  sc_intervalMs :: int
  sc_leaseMs :: int
  sc_shutdownTimeoutMs :: int
  sc_inProcess :: bool
  sc_only :: "string list"
  sc_disabled :: "string list"
  sc_ownerId :: string

definition schedulerConfig :: "env \<Rightarrow> string \<Rightarrow> int \<Rightarrow> scheduler_config" where
  "schedulerConfig env hostname pid =
     \<lparr>sc_env = env,
      sc_intervalMs = toInt (env ''SCHEDULER_INTERVAL_MS'') DEFAULT_INTERVAL_MS,
      sc_leaseMs = toInt (env ''SCHEDULER_LEASE_MS'') DEFAULT_LEASE_MS,
      sc_shutdownTimeoutMs = toInt (env ''SCHEDULER_SHUTDOWN_TIMEOUT_MS'') DEFAULT_SHUTDOWN_TIMEOUT_MS,
      sc_inProcess = toBool (env ''SCHEDULER_IN_PROCESS'') False,
      sc_only = toList (env ''SCHEDULER_QUEUES''),
      sc_disabled = toList (env ''SCHEDULER_DISABLED_QUEUES''),
      sc_ownerId = (case env ''SCHEDULER_OWNER_ID'' of
          None \<Rightarrow> hostname @ '':'' @ show_int pid
        | Some s \<Rightarrow> if s = '''' then hostname @ '':'' @ show_int pid else s)\<rparr>"

definition isEnabled :: "scheduler_config \<Rightarrow> string \<Rightarrow> bool" where
  "isEnabled cfg q =
     (if q \<in> set (sc_disabled cfg) then False else sc_only cfg = [] \<or> q \<in> set (sc_only cfg))"

definition intervalFor :: "scheduler_config \<Rightarrow> string \<Rightarrow> int" where
  "intervalFor cfg q =
     (case sc_env cfg (envKeyFor q) of
        Some override \<Rightarrow> toInt (Some override) (sc_intervalMs cfg)
      | None \<Rightarrow>
          if q = ''account-lifecycle'' then
            (case parseInt10 (or_default '''' (sc_env cfg ''LIFECYCLE_SWEEP_INTERVAL_MS'')) of
               None \<Rightarrow> sc_intervalMs cfg
             | Some legacy \<Rightarrow> if legacy > 0 then legacy else sc_intervalMs cfg)
          else sc_intervalMs cfg)"

definition leaseFor :: "scheduler_config \<Rightarrow> string \<Rightarrow> int" where
  "leaseFor cfg q = max (sc_leaseMs cfg) (intervalFor cfg q * 2)"

section \<open>Counters\<close>

datatype tick_outcome = Ran | Skipped | TickFailed

record depth_snapshot =
  ds_depth :: int
  ds_due :: int
  ds_oldestDueAt :: "time option"

record tick_sample =
  ts_queue :: string
  ts_outcome :: tick_outcome
  ts_durationMs :: int
  ts_depth :: int
  ts_due :: int
  ts_lagMs :: int
  ts_error :: "string option"

record queue_metrics =
  qm_queue :: string
  qm_attempts :: nat
  qm_failures :: nat
  qm_skipped :: nat
  qm_depth :: int
  qm_due :: int
  qm_lagMs :: int
  qm_lastDurationMs :: int
  qm_lastRunAt :: "time option"
  qm_lastError :: "string option"

type_synonym metrics = "string \<Rightarrow> queue_metrics option"

definition emptyMetrics :: "string \<Rightarrow> queue_metrics" where
  "emptyMetrics q = \<lparr>qm_queue = q, qm_attempts = 0, qm_failures = 0, qm_skipped = 0, qm_depth = 0,
     qm_due = 0, qm_lagMs = 0, qm_lastDurationMs = 0, qm_lastRunAt = None, qm_lastError = None\<rparr>"

definition next_metrics :: "time \<Rightarrow> tick_sample \<Rightarrow> queue_metrics \<Rightarrow> queue_metrics" where
  "next_metrics now s current =
     (let n1 = current\<lparr>qm_depth := ts_depth s, qm_due := ts_due s, qm_lagMs := ts_lagMs s,
                       qm_lastDurationMs := ts_durationMs s\<rparr>;
          n2 = (if ts_outcome s = Skipped then n1\<lparr>qm_skipped := qm_skipped current + 1\<rparr>
                else n1\<lparr>qm_attempts := qm_attempts current + 1, qm_lastRunAt := Some now\<rparr>)
      in if ts_outcome s = TickFailed
         then n2\<lparr>qm_failures := qm_failures current + 1,
                 qm_lastError := Some (or_default ''unknown error'' (ts_error s))\<rparr>
         else if ts_outcome s = Ran then n2\<lparr>qm_lastError := None\<rparr>
         else n2)"

definition record_metrics :: "time \<Rightarrow> tick_sample \<Rightarrow> metrics \<Rightarrow> metrics" where
  "record_metrics now s m = m(ts_queue s \<mapsto>
     next_metrics now s (or_default (emptyMetrics (ts_queue s)) (m (ts_queue s))))"

section \<open>One tick of a queue\<close>

record scheduled_queue =
  sq_name :: string
  sq_drain :: "queue_lease list \<Rightarrow> (string + unit) \<times> queue_lease list"
  sq_inspect :: "string + depth_snapshot"

record runner_state =
  rn_leases :: "queue_lease list"
  rn_metrics :: metrics

definition EMPTY_DEPTH :: depth_snapshot where
  "EMPTY_DEPTH = \<lparr>ds_depth = 0, ds_due = 0, ds_oldestDueAt = None\<rparr>"

definition inspect_queue :: "scheduled_queue \<Rightarrow> depth_snapshot" where
  "inspect_queue q = (case sq_inspect q of Inl _ \<Rightarrow> EMPTY_DEPTH | Inr d \<Rightarrow> d)"

definition record_tick ::
    "time \<Rightarrow> scheduled_queue \<Rightarrow> tick_outcome \<Rightarrow> int \<Rightarrow> depth_snapshot \<Rightarrow> int \<Rightarrow> string option \<Rightarrow>
     runner_state \<Rightarrow> tick_outcome \<times> runner_state" where
  "record_tick now q outcome durationMs depth lagMs err s =
     (outcome, s\<lparr>rn_metrics := record_metrics now
        \<lparr>ts_queue = sq_name q, ts_outcome = outcome, ts_durationMs = durationMs,
         ts_depth = ds_depth depth, ts_due = ds_due depth, ts_lagMs = lagMs, ts_error = err\<rparr> (rn_metrics s)\<rparr>)"

text \<open>\<open>outage\<close> is the error with which acquiring the lease fails when the database is down.
  While the queue drains, its argument turns the lease table into what it is afterwards
  (heartbeats and other workers included). The lease is released on every path.\<close>

definition runQueue ::
    "scheduler_config \<Rightarrow> time \<Rightarrow> time \<Rightarrow> ident \<Rightarrow> string option \<Rightarrow> scheduled_queue \<Rightarrow>
     runner_state \<Rightarrow> tick_outcome \<times> runner_state" where
  "runQueue cfg now done_at token outage q s =
     (let leaseMs = leaseFor cfg (sq_name q);
          before = inspect_queue q;
          lagMs = (case ds_oldestDueAt before of None \<Rightarrow> 0 | Some t \<Rightarrow> max 0 (now - t))
      in case outage of
           Some err \<Rightarrow> record_tick now q TickFailed 0 before lagMs (Some err) s
         | None \<Rightarrow>
             (case acquireQueueLease now token (sq_name q) (Some leaseMs) (Some (sc_ownerId cfg)) (rn_leases s) of
                (None, qs) \<Rightarrow> record_tick now q Skipped 0 before lagMs None (s\<lparr>rn_leases := qs\<rparr>)
              | (Some _, qs) \<Rightarrow>
                  (let (result, qs1) = sq_drain q qs;
                       (outcome, s1) =
                         (case result of
                            Inr _ \<Rightarrow> record_tick done_at q Ran (done_at - now) before lagMs None (s\<lparr>rn_leases := qs1\<rparr>)
                          | Inl err \<Rightarrow> record_tick done_at q TickFailed (done_at - now) before lagMs (Some err)
                                        (s\<lparr>rn_leases := qs1\<rparr>))
                   in (outcome, s1\<lparr>rn_leases := snd (releaseQueueLease done_at (sq_name q) token (rn_leases s1))\<rparr>))))"

definition registeredQueues :: "scheduler_config \<Rightarrow> scheduled_queue list \<Rightarrow> scheduled_queue list" where
  "registeredQueues cfg qs = filter (\<lambda>q. isEnabled cfg (sq_name q)) qs"

text \<open>\<open>runOnce\<close>: every enabled queue in turn; \<open>ticks\<close> gives each its times, token and outage.\<close>

fun run_queues ::
    "scheduler_config \<Rightarrow> (nat \<Rightarrow> time \<times> time \<times> ident \<times> string option) \<Rightarrow> nat \<Rightarrow> scheduled_queue list \<Rightarrow>
     runner_state \<Rightarrow> (string \<times> tick_outcome) list \<times> runner_state" where
  "run_queues cfg ticks n [] s = ([], s)"
| "run_queues cfg ticks n (q # qs) s =
     (let (now, done_at, token, outage) = ticks n;
          (outcome, s1) = runQueue cfg now done_at token outage q s;
          (rest, s2) = run_queues cfg ticks (Suc n) qs s1
      in ((sq_name q, outcome) # rest, s2))"

definition scheduler_runOnce ::
    "scheduler_config \<Rightarrow> (nat \<Rightarrow> time \<times> time \<times> ident \<times> string option) \<Rightarrow> scheduled_queue list \<Rightarrow>
     runner_state \<Rightarrow> (string \<times> tick_outcome) list \<times> runner_state" where
  "scheduler_runOnce cfg ticks qs s = run_queues cfg ticks 0 (registeredQueues cfg qs) s"

section \<open>Properties\<close>

lemma toInt_pos: "0 < fallback \<Longrightarrow> 0 < toInt v fallback"
  by (auto simp: toInt_def split: option.splits)

text \<open>
  Whatever the environment contains, every queue has a positive interval and its lease
  outlives two of its intervals, so a worker that ticks on time never finds its own lease
  expired between two ticks.
\<close>

theorem lease_outlives_interval:
  "0 < intervalFor (schedulerConfig env host pid) q
   \<and> 2 * intervalFor (schedulerConfig env host pid) q \<le> leaseFor (schedulerConfig env host pid) q"
proof -
  have "0 < sc_intervalMs (schedulerConfig env host pid)"
    by (simp add: schedulerConfig_def toInt_pos DEFAULT_INTERVAL_MS_def)
  then show ?thesis
    by (auto simp: leaseFor_def intervalFor_def toInt_pos split: option.splits)
qed

section \<open>Mutual exclusion of the workers of a queue\<close>

text \<open>What other workers do to the lease table, each with a token of its own.\<close>

datatype queue_op =
    OpAcquire time ident string "int option" "string option"
  | OpRenew time string ident int
  | OpRelease time string ident

fun run_op :: "queue_op \<Rightarrow> queue_lease list \<Rightarrow> bool \<times> queue_lease list" where
  "run_op (OpAcquire now token name ms owner) qs =
     (case acquireQueueLease now token name ms owner qs of (r, qs') \<Rightarrow> (r \<noteq> None, qs'))"
| "run_op (OpRenew now name token ms) qs = renewQueueLease now name token ms qs"
| "run_op (OpRelease now name token) qs = releaseQueueLease now name token qs"

fun op_token :: "queue_op \<Rightarrow> ident" where
  "op_token (OpAcquire _ token _ _ _) = token"
| "op_token (OpRenew _ _ token _) = token"
| "op_token (OpRelease _ _ token) = token"

fun op_time :: "queue_op \<Rightarrow> time" where
  "op_time (OpAcquire now _ _ _ _) = now"
| "op_time (OpRenew now _ _ _) = now"
| "op_time (OpRelease now _ _) = now"

fun op_name :: "queue_op \<Rightarrow> string" where
  "op_name (OpAcquire _ _ name _ _) = name"
| "op_name (OpRenew _ name _ _) = name"
| "op_name (OpRelease _ name _) = name"

fun run_ops :: "queue_op list \<Rightarrow> queue_lease list \<Rightarrow> (queue_op \<times> bool) list \<times> queue_lease list" where
  "run_ops [] qs = ([], qs)"
| "run_ops (x # xs) qs =
     (let (r, qs1) = run_op x qs; (rs, qs2) = run_ops xs qs1 in ((x, r) # rs, qs2))"

definition held :: "string \<Rightarrow> ident \<Rightarrow> time \<Rightarrow> queue_lease list \<Rightarrow> bool" where
  "held name token until qs \<longleftrightarrow> (\<exists>q \<in> set qs. ql_queueName q = name)
     \<and> (\<forall>q \<in> set qs. ql_queueName q = name \<longrightarrow> ql_leaseToken q = Some token \<and> ql_leasedUntil q = Some until)"

interpretation queue_release: exclusive_claim "holds_queue name token" "clear_queue now"
  by unfold_locales (simp add: holds_queue_def clear_queue_def)

lemma acquire_held:
  assumes "acquireQueueLease now token name ms owner qs = (Some (t, until), qs')"
  shows "t = token \<and> until = now + or_default DEFAULT_QUEUE_LEASE_MS ms \<and> held name token until qs'"
proof (cases "List.find (\<lambda>q. ql_queueName q = name) qs")
  case None
  then have none: "\<forall>q \<in> set qs. ql_queueName q \<noteq> name" by (simp add: find_None)
  from None assms have "t = token \<and> until = now + or_default DEFAULT_QUEUE_LEASE_MS ms"
    and "\<exists>q. qs' = qs @ [q] \<and> ql_queueName q = name \<and> ql_leaseToken q = Some t \<and> ql_leasedUntil q = Some until"
    by (auto simp: acquireQueueLease_def Let_def)
  with none show ?thesis by (simp add: held_def) fastforce
next
  case (Some q)
  with assms have "qs' = update_where (\<lambda>q. ql_queueName q = name) (grant_queue t until owner) qs"
    and "t = token" "until = now + or_default DEFAULT_QUEUE_LEASE_MS ms"
    by (auto simp: acquireQueueLease_def Let_def split: if_splits)
  moreover from find_Some [OF Some] have "\<exists>q \<in> set qs. ql_queueName q = name" by blast
  ultimately show ?thesis
    by (simp add: held_def bex_update_where ball_update_where grant_queue_def)
qed

lemma held_blocks:
  assumes "held name token until qs" and "now < until"
  shows "acquireQueueLease now other name ms owner qs = (None, qs)"
proof -
  from assms(1) obtain q where "List.find (\<lambda>q. ql_queueName q = name) qs = Some q"
    by (cases "List.find (\<lambda>q. ql_queueName q = name) qs") (auto simp: held_def find_None)
  with assms find_Some [OF this] show ?thesis
    by (auto simp: acquireQueueLease_def Let_def queue_free_def held_def)
qed

lemma held_step:
  assumes held: "held name token until qs" and other: "op_token x \<noteq> token" and time: "op_time x < until"
  shows "held name token until (snd (run_op x qs)) \<and> (op_name x = name \<longrightarrow> \<not> fst (run_op x qs))"
proof (cases "op_name x = name")
  case True
  have none: "\<not> holds_queue name (op_token x) q" if "q \<in> set qs" for q
    using held other that by (auto simp: held_def holds_queue_def)
  then have "count_where (holds_queue name (op_token x)) qs = 0" by (simp add: count_where_0)
  moreover have "update_where (holds_queue name (op_token x)) f qs = qs" for f
    using none by (intro update_where_id)
  moreover have "acquireQueueLease (op_time x) (op_token x) name ms owner qs = (None, qs)" for ms owner
    using held time by (rule held_blocks)
  ultimately show ?thesis
    using True held by (cases x) (auto simp: renewQueueLease_def releaseQueueLease_def)
next
  case False
  have frame: "held name token until (update_where p f qs)"
    if "\<And>q. p q \<Longrightarrow> ql_queueName q \<noteq> name" "\<And>q. ql_queueName (f q) = ql_queueName q" for p f
    using held that by (auto simp: held_def ball_update_where bex_update_where)
  have "held name token until (snd (acquireQueueLease t tok n ms ow qs))" if "n \<noteq> name" for t tok n ms ow
  proof (cases "List.find (\<lambda>q. ql_queueName q = n) qs")
    case None
    with held that show ?thesis by (auto simp: acquireQueueLease_def Let_def held_def)
  next
    case (Some q)
    with held that frame [of "\<lambda>q. ql_queueName q = n" "grant_queue tok (t + or_default DEFAULT_QUEUE_LEASE_MS ms) ow"]
    show ?thesis by (auto simp: acquireQueueLease_def Let_def grant_queue_def)
  qed
  note acquired = this
  show ?thesis
  proof (cases x)
    case (OpAcquire t tok n ms ow)
    with False acquired [of n t tok ms ow] show ?thesis by (auto split: prod.splits)
  next
    case (OpRenew t n tok ms)
    with False frame [of "holds_queue n tok" "\<lambda>q. q\<lparr>ql_leasedUntil := Some (t + ms)\<rparr>"]
    show ?thesis by (simp add: renewQueueLease_def holds_queue_def)
  next
    case (OpRelease t n tok)
    with False frame [of "holds_queue n tok" "clear_queue t"]
    show ?thesis by (simp add: releaseQueueLease_def holds_queue_def clear_queue_def)
  qed
qed

text \<open>
  C35. A worker that has been granted a queue keeps it until its deadline, whatever any number
  of other workers try meanwhile: each of their attempts to acquire, renew or release that
  queue before the deadline fails and the row stays the holder's.
\<close>

theorem queue_lease_exclusive:
  assumes "acquireQueueLease now token name ms owner qs = (Some (token, until), qs')"
    and "\<forall>x \<in> set xs. op_token x \<noteq> token \<and> op_time x < until"
  shows "(\<forall>(x, granted) \<in> set (fst (run_ops xs qs')). op_name x = name \<longrightarrow> \<not> granted)
    \<and> (\<forall>q \<in> set (snd (run_ops xs qs')). ql_queueName q = name \<longrightarrow>
          ql_leaseToken q = Some token \<and> ql_leasedUntil q = Some until)"
proof -
  have "held name token until qs'" using acquire_held [OF assms(1)] by auto
  then have "(\<forall>(x, granted) \<in> set (fst (run_ops xs qs')). op_name x = name \<longrightarrow> \<not> granted)
      \<and> held name token until (snd (run_ops xs qs'))"
    using assms(2)
  proof (induction xs arbitrary: qs')
    case Nil
    then show ?case by simp
  next
    case (Cons x xs)
    from held_step [OF Cons.prems(1), of x] Cons.prems(2)
    have step: "held name token until (snd (run_op x qs'))" "op_name x = name \<longrightarrow> \<not> fst (run_op x qs')"
      by simp_all
    from Cons.IH [OF step(1)] Cons.prems(2) step(2) show ?case
      by (simp add: Let_def split_beta)
  qed
  then show ?thesis by (simp add: held_def)
qed

lemma queue_lease_exclusive_witness:
  "fst (run_ops [OpAcquire 10 ''t2'' ''q'' None None, OpRelease 20 ''q'' ''t3'']
         (snd (acquireQueueLease 0 ''t1'' ''q'' None None [])))
     = [(OpAcquire 10 ''t2'' ''q'' None None, False), (OpRelease 20 ''q'' ''t3'', False)]"
  using queue_lease_exclusive [of 0 "''t1''" "''q''" None None "[]" 60000
      "snd (acquireQueueLease 0 ''t1'' ''q'' None None [])"
      "[OpAcquire 10 ''t2'' ''q'' None None, OpRelease 20 ''q'' ''t3'']"]
  by (simp add: acquireQueueLease_def or_default_def DEFAULT_QUEUE_LEASE_MS_def Let_def split_beta)

end
