(* ===== verification/Sessions.thy ===== *)
theory Sessions
  imports Prelude "HOL-Library.List_Lexorder" "HOL-Library.Char_ord"
begin

text \<open>
  Sessions and rotating refresh tokens: \<open>src/src/services/refresh-token.service.ts\<close>,
  \<open>src/src/services/session.service.ts\<close> and the audit rows they write
  (\<open>src/src/services/audit.service.ts\<close>). SHA-256 is the parameter \<open>hash\<close>, signing a JWT the
  parameter \<open>sign\<close> (claims and time; the code signs no random claim), and random identifiers
  and tokens are arguments. The user row a session joins is the function \<open>ad_role\<close>.

  \<open>rotate\<close> is three statements: it reads the token, claims it with a conditional update, and
  mints the successor in a transaction. The sequential operation composes them; the relation
  \<open>auth_step\<close> interleaves them with each other and with every revocation.
\<close>

section \<open>Tables\<close>

record session_row =
  ss_id :: ident
  ss_userId :: ident
  ss_token :: string
  ss_userAgent :: "string option"
  ss_ipAddress :: "string option"
  ss_deviceName :: "string option"
  ss_browser :: "string option"
  ss_os :: "string option"
  ss_country :: "string option"
  ss_city :: "string option"
  ss_lastUsedAt :: "time option"
  ss_expiresAt :: time
  ss_isRevoked :: bool
  ss_revokedAt :: "time option"
  ss_createdAt :: time

datatype token_status = TokActive | TokRotated | TokRevoked

record refresh_token =
  rt_id :: ident
  rt_sessionId :: ident
  rt_familyId :: ident
  rt_tokenHash :: string
  rt_status :: token_status
  rt_expiresAt :: time

datatype session_action =
  SESSION_REVOKED | SESSION_ALL_REVOKED | SESSION_LOGGED_OUT | SESSION_ALL_LOGGED_OUT | REFRESH_REUSE_DETECTED

record audit_entry =
  ae_userId :: ident
  ae_action :: session_action
  ae_metadata :: "(string \<times> json) list"
  ae_ipAddress :: "string option"
  ae_userAgent :: "string option"

record auth_db =
  ad_sessions :: "session_row list"
  ad_tokens :: "refresh_token list"
  ad_audit :: "audit_entry list"
  ad_role :: "ident \<Rightarrow> string"

record refresh_context =
  cx_ipAddress :: "string option"
  cx_userAgent :: "string option"

datatype auth_error = AuthUniqueViolation | SessionMissing

definition find_session :: "ident \<Rightarrow> auth_db \<Rightarrow> session_row option" where
  "find_session sid db = List.find (\<lambda>s. ss_id s = sid) (ad_sessions db)"

definition find_token :: "string \<Rightarrow> auth_db \<Rightarrow> refresh_token option" where
  "find_token h db = List.find (\<lambda>t. rt_tokenHash t = h) (ad_tokens db)"

definition audit_op ::
    "refresh_context \<Rightarrow> ident \<Rightarrow> session_action \<Rightarrow> (string \<times> json) list \<Rightarrow> auth_db \<Rightarrow> auth_db" where
  "audit_op ctx userId action meta db = db\<lparr>ad_audit := ad_audit db @
     [\<lparr>ae_userId = userId, ae_action = action, ae_metadata = meta,
       ae_ipAddress = cx_ipAddress ctx, ae_userAgent = cx_userAgent ctx\<rparr>]\<rparr>"

section \<open>Issuing a session\<close>

record fresh_ids =
  fi_sessionId :: ident
  fi_refreshTokenId :: ident
  fi_familyId :: ident
  fi_rawToken :: string

record issue_params =
  ip_userId :: ident
  ip_role :: string
  ip_userAgent :: "string option"
  ip_ipAddress :: "string option"

record issue_result =
  ir_sessionId :: ident
  ir_accessToken :: string
  ir_refreshToken :: string
  ir_expiresIn :: int

record token_config =
  tc_hash :: "string \<Rightarrow> string"
  tc_sign :: "ident \<Rightarrow> string \<Rightarrow> time \<Rightarrow> string"
  tc_ttlMs :: int
  tc_accessTtlSeconds :: int

definition insert_session :: "session_row \<Rightarrow> (auth_db, auth_error, unit) step" where
  "insert_session s db =
     (if \<exists>r \<in> set (ad_sessions db). ss_id r = ss_id s \<or> ss_token r = ss_token s
      then (Inl AuthUniqueViolation, db)
      else (Inr (), db\<lparr>ad_sessions := ad_sessions db @ [s]\<rparr>))"

definition insert_token :: "refresh_token \<Rightarrow> (auth_db, auth_error, unit) step" where
  "insert_token t db =
     (if \<exists>r \<in> set (ad_tokens db). rt_id r = rt_id t \<or> rt_tokenHash r = rt_tokenHash t
      then (Inl AuthUniqueViolation, db)
      else (Inr (), db\<lparr>ad_tokens := ad_tokens db @ [t]\<rparr>))"

definition issue_tx ::
    "token_config \<Rightarrow> time \<Rightarrow> fresh_ids \<Rightarrow> issue_params \<Rightarrow> (auth_db, auth_error, unit) step" where
  "issue_tx tc now ids p db =
     (case insert_session
             \<lparr>ss_id = fi_sessionId ids, ss_userId = ip_userId p,
              ss_token = tc_sign tc (ip_userId p) (ip_role p) now,
              ss_userAgent = ip_userAgent p, ss_ipAddress = ip_ipAddress p,
              ss_deviceName = None, ss_browser = None, ss_os = None, ss_country = None, ss_city = None,
              ss_lastUsedAt = None, ss_expiresAt = now + tc_ttlMs tc, ss_isRevoked = False,
              ss_revokedAt = None, ss_createdAt = now\<rparr> db of
        (Inl e, db1) \<Rightarrow> (Inl e, db1)
      | (Inr _, db1) \<Rightarrow>
          insert_token
            \<lparr>rt_id = fi_refreshTokenId ids, rt_sessionId = fi_sessionId ids,
             rt_familyId = fi_familyId ids, rt_tokenHash = tc_hash tc (fi_rawToken ids),
             rt_status = TokActive, rt_expiresAt = now + tc_ttlMs tc\<rparr> db1)"

definition issueSession ::
    "token_config \<Rightarrow> time \<Rightarrow> fresh_ids \<Rightarrow> issue_params \<Rightarrow> (auth_db, auth_error, issue_result) step" where
  "issueSession tc now ids p db =
     (case transaction (issue_tx tc now ids p) db of
        (Inl e, db1) \<Rightarrow> (Inl e, db1)
      | (Inr _, db1) \<Rightarrow>
          (Inr \<lparr>ir_sessionId = fi_sessionId ids, ir_accessToken = tc_sign tc (ip_userId p) (ip_role p) now,
                ir_refreshToken = fi_rawToken ids, ir_expiresIn = tc_accessTtlSeconds tc\<rparr>, db1))"

section \<open>Revocation\<close>

definition revoke_tokens :: "(refresh_token \<Rightarrow> bool) \<Rightarrow> auth_db \<Rightarrow> auth_db" where
  "revoke_tokens p db = db\<lparr>ad_tokens :=
     update_where (\<lambda>t. p t \<and> rt_status t \<noteq> TokRevoked) (\<lambda>t. t\<lparr>rt_status := TokRevoked\<rparr>) (ad_tokens db)\<rparr>"

definition mark_revoked :: "time \<Rightarrow> session_row \<Rightarrow> session_row" where
  "mark_revoked now s = s\<lparr>ss_isRevoked := True, ss_revokedAt := Some now\<rparr>"

definition revoke_sessions :: "time \<Rightarrow> (session_row \<Rightarrow> bool) \<Rightarrow> auth_db \<Rightarrow> auth_db" where
  "revoke_sessions now p db = db\<lparr>ad_sessions :=
     update_where (\<lambda>s. p s \<and> \<not> ss_isRevoked s) (mark_revoked now) (ad_sessions db)\<rparr>"

definition revokeFamily ::
    "time \<Rightarrow> ident \<Rightarrow> ident \<Rightarrow> ident \<Rightarrow> refresh_context \<Rightarrow> session_action \<Rightarrow> auth_db \<Rightarrow> auth_db" where
  "revokeFamily now familyId sessionId userId ctx action db =
     audit_op ctx userId action [(''familyId'', JStr familyId), (''sessionId'', JStr sessionId)]
       (revoke_sessions now (\<lambda>s. ss_id s = sessionId)
         (revoke_tokens (\<lambda>t. rt_familyId t = familyId) db))"

definition revokeAllForUser ::
    "time \<Rightarrow> ident \<Rightarrow> refresh_context \<Rightarrow> auth_db \<Rightarrow> nat \<times> auth_db" where
  "revokeAllForUser now userId ctx db =
     (let sessionIds = map ss_id (filter (\<lambda>s. ss_userId s = userId \<and> \<not> ss_isRevoked s) (ad_sessions db)) in
      if sessionIds = [] then (0, db)
      else (length sessionIds,
            audit_op ctx userId SESSION_ALL_LOGGED_OUT [(''revokedCount'', JNum (int (length sessionIds)))]
              (revoke_tokens (\<lambda>t. rt_sessionId t \<in> set sessionIds)
                (revoke_sessions now (\<lambda>s. ss_id s \<in> set sessionIds) db))))"

definition revokeByRefreshToken ::
    "token_config \<Rightarrow> time \<Rightarrow> string \<Rightarrow> refresh_context \<Rightarrow> (auth_db, auth_error, nat) step" where
  "revokeByRefreshToken tc now raw ctx db =
     (case find_token (tc_hash tc raw) db of
        None \<Rightarrow> (Inr 0, db)
      | Some t \<Rightarrow>
          (case find_session (rt_sessionId t) db of
             None \<Rightarrow> (Inl SessionMissing, db)
           | Some s \<Rightarrow> (Inr 1, revokeFamily now (rt_familyId t) (rt_sessionId t) (ss_userId s) ctx
                                SESSION_LOGGED_OUT db)))"

definition revokeAllByRefreshToken ::
    "token_config \<Rightarrow> time \<Rightarrow> string \<Rightarrow> refresh_context \<Rightarrow> (auth_db, auth_error, nat) step" where
  "revokeAllByRefreshToken tc now raw ctx db =
     (case find_token (tc_hash tc raw) db of
        None \<Rightarrow> (Inr 0, db)
      | Some t \<Rightarrow>
          (case find_session (rt_sessionId t) db of
             None \<Rightarrow> (Inl SessionMissing, db)
           | Some s \<Rightarrow> (case revokeAllForUser now (ss_userId s) ctx db of (n, db') \<Rightarrow> (Inr n, db'))))"

section \<open>Rotation\<close>

datatype rotate_result = RotOk string string int | RotInvalid | RotReuse | RotRevoked | RotExpired

datatype rotate_decision = DecReuse | DecRevoked | DecExpired | DecClaim

definition rotate_decide :: "time \<Rightarrow> refresh_token \<Rightarrow> session_row \<Rightarrow> rotate_decision" where
  "rotate_decide now t s =
     (if rt_status t = TokRotated then DecReuse
      else if rt_status t = TokRevoked then DecRevoked
      else if rt_expiresAt t \<le> now then DecExpired
      else if ss_isRevoked s then DecRevoked
      else if ss_expiresAt s \<le> now then DecExpired
      else DecClaim)"

definition claimable :: "ident \<Rightarrow> refresh_token \<Rightarrow> bool" where
  "claimable tid t \<longleftrightarrow> rt_id t = tid \<and> rt_status t = TokActive"

definition mark_rotated :: "refresh_token \<Rightarrow> refresh_token" where
  "mark_rotated t = t\<lparr>rt_status := TokRotated\<rparr>"

definition rotate_claim :: "ident \<Rightarrow> auth_db \<Rightarrow> nat \<times> auth_db" where
  "rotate_claim tid db =
     (count_where (claimable tid) (ad_tokens db),
      db\<lparr>ad_tokens := update_where (claimable tid) mark_rotated (ad_tokens db)\<rparr>)"

definition rotate_mint_tx ::
    "token_config \<Rightarrow> time \<Rightarrow> ident \<Rightarrow> string \<Rightarrow> string \<Rightarrow> refresh_token \<Rightarrow> (auth_db, auth_error, unit) step" where
  "rotate_mint_tx tc now newId newRaw accessToken t db =
     (case insert_token
             \<lparr>rt_id = newId, rt_sessionId = rt_sessionId t, rt_familyId = rt_familyId t,
              rt_tokenHash = tc_hash tc newRaw, rt_status = TokActive,
              rt_expiresAt = now + tc_ttlMs tc\<rparr> db of
        (Inl e, db1) \<Rightarrow> (Inl e, db1)
      | (Inr _, db1) \<Rightarrow>
          if \<exists>r \<in> set (ad_sessions db1). ss_id r \<noteq> rt_sessionId t \<and> ss_token r = accessToken
          then (Inl AuthUniqueViolation, db1)
          else if find_session (rt_sessionId t) db1 = None then (Inl SessionMissing, db1)
          else (Inr (), db1\<lparr>ad_sessions := update_where (\<lambda>s. ss_id s = rt_sessionId t)
                  (\<lambda>s. s\<lparr>ss_token := accessToken, ss_lastUsedAt := Some now\<rparr>) (ad_sessions db1)\<rparr>))"

definition rotate_mint ::
    "token_config \<Rightarrow> time \<Rightarrow> ident \<Rightarrow> string \<Rightarrow> string \<Rightarrow> refresh_token \<Rightarrow> (auth_db, auth_error, unit) step" where
  "rotate_mint tc now newId newRaw accessToken t =
     transaction (rotate_mint_tx tc now newId newRaw accessToken t)"

definition rotate ::
    "token_config \<Rightarrow> time \<Rightarrow> ident \<Rightarrow> string \<Rightarrow> string \<Rightarrow> refresh_context \<Rightarrow>
     (auth_db, auth_error, rotate_result) step" where
  "rotate tc now newId newRaw raw ctx db =
     (case find_token (tc_hash tc raw) db of
        None \<Rightarrow> (Inr RotInvalid, db)
      | Some t \<Rightarrow>
          (case find_session (rt_sessionId t) db of
             None \<Rightarrow> (Inl SessionMissing, db)
           | Some s \<Rightarrow>
               (let revoked = revokeFamily now (rt_familyId t) (rt_sessionId t) (ss_userId s) ctx
                                REFRESH_REUSE_DETECTED
                in case rotate_decide now t s of
                     DecReuse \<Rightarrow> (Inr RotReuse, revoked db)
                   | DecRevoked \<Rightarrow> (Inr RotRevoked, db)
                   | DecExpired \<Rightarrow> (Inr RotExpired, db)
                   | DecClaim \<Rightarrow>
                       (case rotate_claim (rt_id t) db of (count, db1) \<Rightarrow>
                          if count = 0 then (Inr RotReuse, revoked db1)
                          else
                            (let accessToken = tc_sign tc (ss_userId s) (ad_role db (ss_userId s)) now in
                             case rotate_mint tc now newId newRaw accessToken t db1 of
                               (Inl e, db2) \<Rightarrow> (Inl e, db2)
                             | (Inr _, db2) \<Rightarrow>
                                 (Inr (RotOk accessToken newRaw (tc_accessTtlSeconds tc)), db2))))))"

section \<open>The session list and revocation by the user\<close>

record session_view =
  sv_id :: ident
  sv_deviceName :: "string option"
  sv_browser :: "string option"
  sv_os :: "string option"
  sv_country :: "string option"
  sv_city :: "string option"
  sv_createdAt :: time
  sv_lastUsedAt :: "time option"
  sv_expiresAt :: time
  sv_isCurrent :: bool

definition toSessionView :: "session_row \<Rightarrow> ident option \<Rightarrow> session_view" where
  "toSessionView s current =
     \<lparr>sv_id = ss_id s, sv_deviceName = ss_deviceName s, sv_browser = ss_browser s, sv_os = ss_os s,
      sv_country = ss_country s, sv_city = ss_city s, sv_createdAt = ss_createdAt s,
      sv_lastUsedAt = ss_lastUsedAt s, sv_expiresAt = ss_expiresAt s,
      sv_isCurrent = (Some (ss_id s) = current)\<rparr>"

definition live_session :: "ident \<Rightarrow> time \<Rightarrow> session_row \<Rightarrow> bool" where
  "live_session userId now s \<longleftrightarrow> ss_userId s = userId \<and> \<not> ss_isRevoked s \<and> ss_expiresAt s > now"

text \<open>The first sort key, the primary key, is unique, so the other two never decide.\<close>

definition list_sessions ::
    "time \<Rightarrow> ident \<Rightarrow> ident option \<Rightarrow> nat \<Rightarrow> nat \<Rightarrow> auth_db \<Rightarrow> session_view list \<times> nat" where
  "list_sessions now userId current page limit db =
     (let live = filter (live_session userId now) (ad_sessions db);
          rows = take limit (drop ((page - 1) * limit) (sort_key ss_id live));
          sorted = (case current of
              None \<Rightarrow> rows
            | Some c \<Rightarrow> if c = [] then rows
                        else filter (\<lambda>s. ss_id s = c) rows @ filter (\<lambda>s. ss_id s \<noteq> c) rows)
      in (map (\<lambda>s. toSessionView s current) sorted, length live))"

datatype revoke_one_result = RevokeOk | RevokeNotFound | RevokeCrossUser | RevokeCurrentSession

definition revokeOne ::
    "time \<Rightarrow> ident \<Rightarrow> ident \<Rightarrow> ident option \<Rightarrow> refresh_context \<Rightarrow> auth_db \<Rightarrow> revoke_one_result \<times> auth_db" where
  "revokeOne now userId sessionId current ctx db =
     (case find_session sessionId db of
        None \<Rightarrow> (RevokeNotFound, db)
      | Some s \<Rightarrow>
          if ss_isRevoked s \<or> ss_expiresAt s \<le> now then (RevokeNotFound, db)
          else if ss_userId s \<noteq> userId then (RevokeCrossUser, db)
          else if Some (ss_id s) = current then (RevokeCurrentSession, db)
          else (RevokeOk,
                audit_op ctx userId SESSION_REVOKED [(''revokedSessionId'', JStr sessionId)]
                  (db\<lparr>ad_sessions := update_where (\<lambda>s. ss_id s = sessionId) (mark_revoked now) (ad_sessions db)\<rparr>)))"

definition revokeAll ::
    "time \<Rightarrow> ident \<Rightarrow> ident option \<Rightarrow> refresh_context \<Rightarrow> auth_db \<Rightarrow> nat \<times> auth_db" where
  "revokeAll now userId current ctx db =
     (let excluded = (case current of None \<Rightarrow> [] | Some c \<Rightarrow> if c = [] then [] else [c]);
          p = (\<lambda>s. live_session userId now s \<and> ss_id s \<notin> set excluded);
          count = count_where p (ad_sessions db);
          db1 = db\<lparr>ad_sessions := update_where p (mark_revoked now) (ad_sessions db)\<rparr>
      in (count,
          if count > 0
          then audit_op ctx userId SESSION_ALL_REVOKED
                 [(''revokedCount'', JNum (int count)), (''keptCurrentSession'', JBool (excluded \<noteq> []))] db1
          else db1))"

section \<open>Redaction of addresses\<close>

definition short_digits :: "string \<Rightarrow> bool" where
  "short_digits s \<longleftrightarrow> 1 \<le> length s \<and> length s \<le> 3 \<and> (\<forall>c \<in> set s. is_digit c)"

definition redactIp :: "string option \<Rightarrow> string option" where
  "redactIp raw =
     (case raw of
        None \<Rightarrow> None
      | Some s \<Rightarrow>
          if s = [] then None
          else
            (let v4 = split_on (CHR ''.'') s; v6 = split_on (CHR '':'') s in
             if length v4 = 4 \<and> (\<forall>p \<in> set v4. short_digits p)
             then Some (v4 ! 0 @ ''.'' @ v4 ! 1 @ ''.'' @ v4 ! 2 @ ''.*'')
             else if length v6 \<ge> 4
             then Some (v6 ! 0 @ '':'' @ v6 ! 1 @ '':'' @ v6 ! 2 @ '':'' @ v6 ! 3 @ '':*'')
             else None))"

definition redactFingerprint :: "string option \<Rightarrow> string option" where
  "redactFingerprint raw = (case raw of None \<Rightarrow> None | Some s \<Rightarrow> if s = [] then None else Some (take 8 s))"

end
