(* ===== verification/SessionProps.thy ===== *)
theory SessionProps
  imports Sessions
begin

text \<open>
  Properties of sessions and refresh tokens: a replayed token kills its family, at most one
  token of a family is active under every interleaving of refreshes and revocations, and a
  revoked session never comes back.
\<close>

section \<open>Interleavings of refreshes and revocations\<close>

text \<open>A refresh that has claimed its token and not yet minted the successor waits in
  \<open>as_minting\<close>. Family ids of new sessions are fresh (random UUIDs).\<close>

record auth_sys =
  as_db :: auth_db
  as_minting :: "refresh_token list"

inductive auth_step :: "auth_sys \<Rightarrow> auth_sys \<Rightarrow> bool" where
  as_issue: "issueSession tc now ids p (as_db s) = (r, db') \<Longrightarrow>
     fi_familyId ids \<notin> rt_familyId ` set (ad_tokens (as_db s)) \<Longrightarrow> auth_step s (s\<lparr>as_db := db'\<rparr>)"
| as_claim: "t \<in> set (ad_tokens (as_db s)) \<Longrightarrow> rt_status t = TokActive \<Longrightarrow>
     rotate_claim (rt_id t) (as_db s) = (n, db') \<Longrightarrow>
     auth_step s (s\<lparr>as_db := db', as_minting := t # as_minting s\<rparr>)"
| as_mint: "t \<in> set (as_minting s) \<Longrightarrow> rotate_mint tc now newId newRaw acc t (as_db s) = (r', db') \<Longrightarrow>
     auth_step s (s\<lparr>as_db := db', as_minting := remove1 t (as_minting s)\<rparr>)"
| as_family: "auth_step s (s\<lparr>as_db := revokeFamily now fam sid uid ctx action (as_db s)\<rparr>)"
| as_user: "auth_step s (s\<lparr>as_db := snd (revokeAllForUser now uid ctx (as_db s))\<rparr>)"
| as_one: "auth_step s (s\<lparr>as_db := snd (revokeOne now uid sid current ctx (as_db s))\<rparr>)"
| as_all: "auth_step s (s\<lparr>as_db := snd (revokeAll now uid current ctx (as_db s))\<rparr>)"

definition active_in :: "ident \<Rightarrow> auth_db \<Rightarrow> nat" where
  "active_in fam db = count_where (\<lambda>t. rt_familyId t = fam \<and> rt_status t = TokActive) (ad_tokens db)"

definition auth_inv :: "auth_sys \<Rightarrow> bool" where
  "auth_inv s \<longleftrightarrow> distinct (map rt_id (ad_tokens (as_db s)))
     \<and> (\<forall>fam. active_in fam (as_db s) + count_where (\<lambda>t. rt_familyId t = fam) (as_minting s) \<le> 1)
     \<and> (\<forall>t \<in> set (as_minting s). rt_familyId t \<in> rt_familyId ` set (ad_tokens (as_db s)))"

definition empty_auth :: "(ident \<Rightarrow> string) \<Rightarrow> auth_sys" where
  "empty_auth roles = \<lparr>as_db = \<lparr>ad_sessions = [], ad_tokens = [], ad_audit = [], ad_role = roles\<rparr>, as_minting = []\<rparr>"

lemma auth_inv_bound:
  "auth_inv s \<Longrightarrow> active_in fam (as_db s) + count_where (\<lambda>t. rt_familyId t = fam) (as_minting s) \<le> 1"
  by (simp add: auth_inv_def)

text \<open>An update of the token table that keeps ids and families and activates nothing.\<close>

lemma auth_inv_update:
  assumes inv: "auth_inv s"
    and keep: "\<And>t. rt_id (f t) = rt_id t \<and> rt_familyId (f t) = rt_familyId t \<and> rt_status (f t) \<noteq> TokActive"
    and upd: "ad_tokens db' = update_where p f (ad_tokens (as_db s))"
  shows "auth_inv (s\<lparr>as_db := db'\<rparr>)"
proof -
  have "active_in fam db' + count_where (\<lambda>t. rt_familyId t = fam) (as_minting s) \<le> 1" for fam
  proof -
    have "active_in fam db' \<le> active_in fam (as_db s)"
      unfolding active_in_def upd using keep by (intro count_update_le) auto
    with auth_inv_bound [OF inv, of fam] show ?thesis by linarith
  qed
  with assms show ?thesis
    by (simp add: auth_inv_def map_update_where image_update_where)
qed

lemma auth_inv_frame: "auth_inv s \<Longrightarrow> ad_tokens db' = ad_tokens (as_db s) \<Longrightarrow> auth_inv (s\<lparr>as_db := db'\<rparr>)"
  by (simp add: auth_inv_def active_in_def)

lemma insert_token_tokens:
  assumes "insert_token t db = (r, db')"
  shows "ad_tokens db' = ad_tokens db
    \<or> ad_tokens db' = ad_tokens db @ [t] \<and> rt_id t \<notin> rt_id ` set (ad_tokens db)"
proof (cases "\<exists>r \<in> set (ad_tokens db). rt_id r = rt_id t \<or> rt_tokenHash r = rt_tokenHash t")
  case True
  with assms show ?thesis by (simp add: insert_token_def)
next
  case False
  with assms show ?thesis by (auto simp: insert_token_def)
qed

lemma insert_session_tokens: "insert_session s db = (r, db') \<Longrightarrow> ad_tokens db' = ad_tokens db"
  by (auto simp: insert_session_def split: if_splits)

lemma issue_tx_tokens:
  assumes "issue_tx tc now ids p db = (r, db')"
  shows "ad_tokens db' = ad_tokens db \<or>
    (\<exists>t. ad_tokens db' = ad_tokens db @ [t] \<and> rt_id t \<notin> rt_id ` set (ad_tokens db)
       \<and> rt_familyId t = fi_familyId ids)"
proof -
  from assms obtain ss r1 db1 where ins: "insert_session ss db = (r1, db1)"
    and rest: "db' = db1 \<or> (\<exists>t r2. insert_token t db1 = (r2, db') \<and> rt_familyId t = fi_familyId ids)"
    unfolding issue_tx_def by (fastforce split: prod.splits sum.splits)
  from insert_session_tokens [OF ins] rest show ?thesis
    by (metis insert_token_tokens)
qed

lemma issue_tokens:
  assumes "issueSession tc now ids p db = (r, db')"
  shows "ad_tokens db' = ad_tokens db \<or>
    (\<exists>t. ad_tokens db' = ad_tokens db @ [t] \<and> rt_id t \<notin> rt_id ` set (ad_tokens db)
       \<and> rt_familyId t = fi_familyId ids)"
proof -
  from assms obtain r1 where "transaction (issue_tx tc now ids p) db = (r1, db')"
    by (auto simp: issueSession_def split: prod.splits sum.splits)
  then show ?thesis by (metis transaction_state issue_tx_tokens)
qed

lemma mint_tokens:
  assumes "rotate_mint tc now newId newRaw acc t db = (r, db')"
  shows "ad_tokens db' = ad_tokens db \<or>
    (\<exists>n. ad_tokens db' = ad_tokens db @ [n] \<and> rt_id n \<notin> rt_id ` set (ad_tokens db)
       \<and> rt_familyId n = rt_familyId t)"
proof (cases "db' = db")
  case False
  with assms have "rotate_mint_tx tc now newId newRaw acc t db = (r, db')"
    unfolding rotate_mint_def by (metis transaction_state)
  then obtain n r1 db1 where "insert_token n db = (r1, db1)" "rt_familyId n = rt_familyId t"
      "ad_tokens db' = ad_tokens db1"
    unfolding rotate_mint_tx_def by (fastforce split: prod.splits sum.splits if_splits)
  with insert_token_tokens show ?thesis by metis
qed simp

lemma auth_inv_issue:
  assumes inv: "auth_inv s" and "issueSession tc now ids p (as_db s) = (r, db')"
    and fresh: "fi_familyId ids \<notin> rt_familyId ` set (ad_tokens (as_db s))"
  shows "auth_inv (s\<lparr>as_db := db'\<rparr>)"
  using issue_tokens [OF assms(2)]
proof (elim disjE exE conjE)
  assume "ad_tokens db' = ad_tokens (as_db s)"
  with inv show ?thesis by (rule auth_inv_frame)
next
  fix t assume t: "ad_tokens db' = ad_tokens (as_db s) @ [t]" "rt_id t \<notin> rt_id ` set (ad_tokens (as_db s))"
    "rt_familyId t = fi_familyId ids"
  have none: "active_in (fi_familyId ids) (as_db s) = 0"
    "count_where (\<lambda>t. rt_familyId t = fi_familyId ids) (as_minting s) = 0"
    using fresh inv by (force simp: active_in_def count_where_0 auth_inv_def)+
  have "active_in fam db' = active_in fam (as_db s)" if "fam \<noteq> fi_familyId ids" for fam
    using that t by (simp add: active_in_def)
  moreover have "active_in (fi_familyId ids) db' \<le> 1"
    using none t by (simp add: active_in_def)
  ultimately have "active_in fam db' + count_where (\<lambda>t. rt_familyId t = fam) (as_minting s) \<le> 1" for fam
    using inv none by (cases "fam = fi_familyId ids") (simp_all add: auth_inv_def)
  with inv t show ?thesis by (simp add: auth_inv_def)
qed

lemma auth_inv_claim:
  assumes inv: "auth_inv s" and t: "t \<in> set (ad_tokens (as_db s))" "rt_status t = TokActive"
    and claim: "rotate_claim (rt_id t) (as_db s) = (n, db')"
  shows "auth_inv (s\<lparr>as_db := db', as_minting := t # as_minting s\<rparr>)"
proof -
  from claim have db': "ad_tokens db' = update_where (claimable (rt_id t)) mark_rotated (ad_tokens (as_db s))"
    by (auto simp: rotate_claim_def)
  have ids: "distinct (map rt_id (ad_tokens (as_db s)))" using inv by (simp add: auth_inv_def)
  have keep: "rt_id (mark_rotated x) = rt_id x" "rt_familyId (mark_rotated x) = rt_familyId x" for x
    by (simp_all add: mark_rotated_def)
  have same: "Suc (active_in (rt_familyId t) db') = active_in (rt_familyId t) (as_db s)"
    unfolding active_in_def db' using t
    by (intro count_update_one [where key = rt_id, OF ids]) (auto simp: claimable_def mark_rotated_def)
  have le: "active_in fam db' \<le> active_in fam (as_db s)" for fam
    unfolding active_in_def db' by (intro count_update_le) (auto simp: mark_rotated_def)
  have "active_in fam db' + count_where (\<lambda>x. rt_familyId x = fam) (t # as_minting s) \<le> 1" for fam
  proof (cases "fam = rt_familyId t")
    case True
    with auth_inv_bound [OF inv, of fam] same show ?thesis by simp
  next
    case False
    with auth_inv_bound [OF inv, of fam] le [of fam] show ?thesis by simp
  qed
  with inv t show ?thesis
    by (simp add: auth_inv_def db' map_update_where image_update_where keep)
qed

lemma auth_inv_mint:
  assumes inv: "auth_inv s" and t: "t \<in> set (as_minting s)"
    and mint: "rotate_mint tc now newId newRaw acc t (as_db s) = (r, db')"
  shows "auth_inv (s\<lparr>as_db := db', as_minting := remove1 t (as_minting s)\<rparr>)"
proof -
  let ?m = "\<lambda>fam ts. count_where (\<lambda>x. rt_familyId x = fam) ts"
  have one: "Suc (?m (rt_familyId t) (remove1 t (as_minting s))) = ?m (rt_familyId t) (as_minting s)"
    using t by (rule count_remove1) simp
  have le: "?m fam (remove1 t (as_minting s)) \<le> ?m fam (as_minting s)" for fam
    using one count_remove1_other [of "\<lambda>x. rt_familyId x = fam" t] by (cases "rt_familyId t = fam") auto
  have mem: "x \<in> set (as_minting s)" if "x \<in> set (remove1 t (as_minting s))" for x
    using that set_remove1_subset by fast
  from mint_tokens [OF mint] show ?thesis
  proof (elim disjE exE conjE)
    assume same: "ad_tokens db' = ad_tokens (as_db s)"
    have "active_in fam db' + ?m fam (remove1 t (as_minting s)) \<le> 1" for fam
      using auth_inv_bound [OF inv, of fam] le [of fam] same by (simp add: active_in_def)
    with inv same mem show ?thesis by (simp add: auth_inv_def)
  next
    fix n assume n: "ad_tokens db' = ad_tokens (as_db s) @ [n]" "rt_id n \<notin> rt_id ` set (ad_tokens (as_db s))"
      "rt_familyId n = rt_familyId t"
    have "active_in fam db' + ?m fam (remove1 t (as_minting s)) \<le> 1" for fam
    proof (cases "fam = rt_familyId t")
      case True
      then have "active_in fam db' \<le> Suc (active_in fam (as_db s))" by (simp add: active_in_def n)
      with True one auth_inv_bound [OF inv, of fam] show ?thesis by simp
    next
      case False
      then have "active_in fam db' = active_in fam (as_db s)" by (simp add: active_in_def n)
      with auth_inv_bound [OF inv, of fam] le [of fam] show ?thesis by simp
    qed
    with inv n mem show ?thesis by (simp add: auth_inv_def)
  qed
qed

lemma revoke_family_tokens:
  "ad_tokens (revokeFamily now fam sid uid ctx action db) =
     update_where (\<lambda>t. rt_familyId t = fam \<and> rt_status t \<noteq> TokRevoked) (\<lambda>t. t\<lparr>rt_status := TokRevoked\<rparr>) (ad_tokens db)"
  by (simp add: revokeFamily_def audit_op_def revoke_sessions_def revoke_tokens_def)

lemma revoke_family_sessions:
  "ad_sessions (revokeFamily now fam sid uid ctx action db) =
     update_where (\<lambda>s. ss_id s = sid \<and> \<not> ss_isRevoked s) (mark_revoked now) (ad_sessions db)"
  by (simp add: revokeFamily_def audit_op_def revoke_sessions_def revoke_tokens_def)

lemma auth_inv_step: "auth_step s s' \<Longrightarrow> auth_inv s \<Longrightarrow> auth_inv s'"
proof (induction rule: auth_step.induct)
  case (as_issue tc now ids p s r db')
  then show ?case by (intro auth_inv_issue)
next
  case (as_claim t s n db')
  then show ?case by (intro auth_inv_claim)
next
  case (as_mint t s tc now newId newRaw acc r' db')
  then show ?case by (intro auth_inv_mint)
next
  case (as_family s now fam sid uid ctx action)
  then show ?case
    by (rule auth_inv_update [where f = "\<lambda>t. t\<lparr>rt_status := TokRevoked\<rparr>", OF _ _ revoke_family_tokens]) simp
next
  case (as_user s now uid ctx)
  then show ?case
    by (cases "fst (revokeAllForUser now uid ctx (as_db s)) = 0")
       (auto simp: revokeAllForUser_def Let_def audit_op_def revoke_tokens_def revoke_sessions_def
         intro: auth_inv_frame auth_inv_update [where f = "\<lambda>t. t\<lparr>rt_status := TokRevoked\<rparr>"])
next
  case (as_one s now uid sid current ctx)
  then show ?case
    by (intro auth_inv_frame) (auto simp: revokeOne_def audit_op_def split: option.splits)
next
  case (as_all s now uid current ctx)
  then show ?case
    by (intro auth_inv_frame) (auto simp: revokeAll_def audit_op_def Let_def)
qed

interpretation auth: invariant_system "\<lambda>s. \<exists>roles. s = empty_auth roles" auth_step auth_inv
proof
  fix s assume "\<exists>roles. s = empty_auth roles"
  then show "auth_inv s" by (auto simp: empty_auth_def auth_inv_def active_in_def)
next
  fix s s' assume "auth_inv s" "auth_step s s'"
  then show "auth_inv s'" by (rule auth_inv_step [rotated])
qed

interpretation rotation: exclusive_claim "claimable tid" mark_rotated
  by unfold_locales (simp add: claimable_def mark_rotated_def)

text \<open>
  C3. Under every interleaving of logins, refreshes and revocations a family has at most one
  active refresh token, counting the successor a refresh is about to mint: two refreshes of one
  token can never both hand out a live successor. Of two claims of one token the second counts no
  row.
\<close>

theorem one_active_token_per_family:
  assumes "reaches auth_step (empty_auth roles) s"
  shows "count_where (\<lambda>t. rt_familyId t = fam \<and> rt_status t = TokActive) (ad_tokens (as_db s))
       + count_where (\<lambda>t. rt_familyId t = fam) (as_minting s) \<le> 1
    \<and> fst (rotate_claim tid (snd (rotate_claim tid (as_db s)))) = 0"
proof -
  from auth.inv_reachable [OF _ assms] have "auth_inv s" by blast
  then show ?thesis
    using auth_inv_bound [of s fam]
    by (simp add: active_in_def rotate_claim_def rotation.claimed_once)
qed

abbreviation demo_tc :: token_config where
  "demo_tc \<equiv> \<lparr>tc_hash = (\<lambda>s. CHR ''#'' # s), tc_sign = (\<lambda>u r t. u @ r @ show_int t), tc_ttlMs = 1000,
     tc_accessTtlSeconds = 900\<rparr>"

abbreviation demo_ids :: fresh_ids where
  "demo_ids \<equiv> \<lparr>fi_sessionId = ''s'', fi_refreshTokenId = ''r1'', fi_familyId = ''f'', fi_rawToken = ''raw''\<rparr>"

abbreviation demo_params :: issue_params where
  "demo_params \<equiv> \<lparr>ip_userId = ''u'', ip_role = ''L'', ip_userAgent = None, ip_ipAddress = None\<rparr>"

abbreviation demo_ctx :: refresh_context where
  "demo_ctx \<equiv> \<lparr>cx_ipAddress = None, cx_userAgent = None\<rparr>"

abbreviation demo_session :: "string \<Rightarrow> time option \<Rightarrow> session_row" where
  "demo_session tok used \<equiv> \<lparr>ss_id = ''s'', ss_userId = ''u'', ss_token = tok, ss_userAgent = None,
     ss_ipAddress = None, ss_deviceName = None, ss_browser = None, ss_os = None, ss_country = None,
     ss_city = None, ss_lastUsedAt = used, ss_expiresAt = 1000, ss_isRevoked = False, ss_revokedAt = None,
     ss_createdAt = 0\<rparr>"

abbreviation demo_token :: "ident \<Rightarrow> string \<Rightarrow> token_status \<Rightarrow> time \<Rightarrow> refresh_token" where
  "demo_token i raw st expires \<equiv> \<lparr>rt_id = i, rt_sessionId = ''s'', rt_familyId = ''f'',
     rt_tokenHash = CHR ''#'' # raw, rt_status = st, rt_expiresAt = expires\<rparr>"

abbreviation demo_auth :: "session_row list \<Rightarrow> refresh_token list \<Rightarrow> auth_db" where
  "demo_auth ss ts \<equiv> \<lparr>ad_sessions = ss, ad_tokens = ts, ad_audit = [], ad_role = (\<lambda>_. ''L'')\<rparr>"

abbreviation demo_login :: auth_db where
  "demo_login \<equiv> demo_auth [demo_session (''uL'' @ show_int 0) None] [demo_token ''r1'' ''raw'' TokActive 1000]"

lemma demo_issue: "issueSession demo_tc 0 demo_ids demo_params (demo_auth [] []) =
    (Inr \<lparr>ir_sessionId = ''s'', ir_accessToken = ''uL'' @ show_int 0, ir_refreshToken = ''raw'', ir_expiresIn = 900\<rparr>,
     demo_login)"
  by (simp add: issueSession_def issue_tx_def transaction_def insert_session_def insert_token_def)

theorem one_active_token_per_family_witness:
  "count_where (\<lambda>t. rt_familyId t = ''f'' \<and> rt_status t = TokActive) (ad_tokens demo_login) \<le> 1"
proof -
  have "auth_step (empty_auth (\<lambda>_. ''L'')) \<lparr>as_db = demo_login, as_minting = []\<rparr>"
    using as_issue [of demo_tc 0 demo_ids demo_params "empty_auth (\<lambda>_. ''L'')" _ demo_login] demo_issue
    by (simp add: empty_auth_def)
  from one_active_token_per_family [OF reaches_one, OF this, of "''f''"] show ?thesis by simp
qed

section \<open>Replay\<close>

lemma rotate_ok:
  assumes "rotate tc now newId newRaw raw ctx db = (Inr (RotOk acc fresh n), db')"
  obtains t s where "find_token (tc_hash tc raw) db = Some t" and "find_session (rt_sessionId t) db = Some s"
    and "rotate_decide now t s = DecClaim" and "0 < count_where (claimable (rt_id t)) (ad_tokens db)"
    and "rotate_mint tc now newId newRaw (tc_sign tc (ss_userId s) (ad_role db (ss_userId s)) now) t
           (snd (rotate_claim (rt_id t) db)) = (Inr (), db')"
  using assms
  by (auto simp: rotate_def Let_def rotate_claim_def split: option.splits rotate_decision.splits if_splits
      prod.splits sum.splits)

lemma minted:
  assumes "rotate_mint tc now newId newRaw acc t db = (Inr (), db')"
  shows "\<exists>n. ad_tokens db' = ad_tokens db @ [n] \<and> rt_sessionId n = rt_sessionId t \<and> rt_familyId n = rt_familyId t
      \<and> ad_sessions db' = update_where (\<lambda>s. ss_id s = rt_sessionId t)
            (\<lambda>s. s\<lparr>ss_token := acc, ss_lastUsedAt := Some now\<rparr>) (ad_sessions db)"
  using assms
  by (auto simp: rotate_mint_def rotate_mint_tx_def transaction_def insert_token_def
      split: prod.splits sum.splits if_splits)

text \<open>
  C12. A refresh token works once. When it has been rotated and is presented again, at any
  later time, the answer is \<open>RotReuse\<close>, every token of its family (the one just handed out
  included) is revoked, and the session is revoked.
\<close>

theorem replay_revokes_family:
  assumes first: "rotate tc now newId newRaw raw ctx db = (Inr (RotOk acc fresh n), db1)"
    and again: "rotate tc now2 newId2 newRaw2 raw ctx2 db1 = (r, db2)"
  shows "r = Inr RotReuse
    \<and> (\<exists>t \<in> set (ad_tokens db2). rt_tokenHash t = tc_hash tc raw
         \<and> (\<forall>t' \<in> set (ad_tokens db2). rt_familyId t' = rt_familyId t \<longrightarrow> rt_status t' = TokRevoked)
         \<and> (\<forall>s \<in> set (ad_sessions db2). ss_id s = rt_sessionId t \<longrightarrow> ss_isRevoked s))"
proof -
  from first obtain t s where t: "find_token (tc_hash tc raw) db = Some t"
    and s: "find_session (rt_sessionId t) db = Some s" and dec: "rotate_decide now t s = DecClaim"
    and mint: "rotate_mint tc now newId newRaw (tc_sign tc (ss_userId s) (ad_role db (ss_userId s)) now) t
           (snd (rotate_claim (rt_id t) db)) = (Inr (), db1)"
    by (rule rotate_ok)
  from minted [OF mint] obtain m where
    toks: "ad_tokens db1 = update_where (claimable (rt_id t)) mark_rotated (ad_tokens db) @ [m]" and
    sess: "ad_sessions db1 = update_where (\<lambda>x. ss_id x = rt_sessionId t) (\<lambda>x. x\<lparr>ss_token :=
        tc_sign tc (ss_userId s) (ad_role db (ss_userId s)) now, ss_lastUsedAt := Some now\<rparr>) (ad_sessions db)"
    by (auto simp: rotate_claim_def)
  from dec have "rt_status t = TokActive"
    by (cases "rt_status t") (auto simp: rotate_decide_def)
  then have "claimable (rt_id t) t" by (simp add: claimable_def)
  then have t1: "find_token (tc_hash tc raw) db1 = Some (mark_rotated t)"
    using t by (simp add: find_token_def toks find_append find_update_where mark_rotated_def)
  obtain s1 where s1: "find_session (rt_sessionId t) db1 = Some s1"
    using s by (auto simp: find_session_def sess find_update_where)
  have rot: "rt_status (mark_rotated t) = TokRotated" "rt_sessionId (mark_rotated t) = rt_sessionId t"
    by (simp_all add: mark_rotated_def)
  have "rotate tc now2 newId2 newRaw2 raw ctx2 db1 = (Inr RotReuse,
      revokeFamily now2 (rt_familyId t) (rt_sessionId t) (ss_userId s1) ctx2 REFRESH_REUSE_DETECTED db1)"
    using t1 s1 by (simp add: rotate_def rot rotate_decide_def Let_def mark_rotated_def)
  with again have r: "r = Inr RotReuse" and db2: "db2 = revokeFamily now2 (rt_familyId t) (rt_sessionId t)
      (ss_userId s1) ctx2 REFRESH_REUSE_DETECTED db1" by simp_all
  have "mark_rotated t \<in> set (ad_tokens db1)" "rt_tokenHash (mark_rotated t) = tc_hash tc raw"
    using find_Some [OF t1 [unfolded find_token_def]] by simp_all
  then have "\<exists>t' \<in> set (ad_tokens db2). rt_tokenHash t' = tc_hash tc raw \<and> rt_familyId t' = rt_familyId t
      \<and> rt_sessionId t' = rt_sessionId t"
    unfolding db2 revoke_family_tokens bex_update_where
    by (intro bexI [of _ "mark_rotated t"]) (simp_all add: mark_rotated_def)
  moreover have "\<forall>t' \<in> set (ad_tokens db2). rt_familyId t' = rt_familyId t \<longrightarrow> rt_status t' = TokRevoked"
    unfolding db2 revoke_family_tokens ball_update_where by simp
  moreover have "\<forall>x \<in> set (ad_sessions db2). ss_id x = rt_sessionId t \<longrightarrow> ss_isRevoked x"
    unfolding db2 revoke_family_sessions ball_update_where by (simp add: mark_revoked_def)
  ultimately show ?thesis using r by metis
qed

lemma demo_rotate:
  "rotate demo_tc 10 ''r2'' ''raw2'' ''raw'' demo_ctx demo_login =
     (Inr (RotOk (''uL'' @ show_int 10) ''raw2'' 900),
      demo_auth [demo_session (''uL'' @ show_int 10) (Some 10)]
        [demo_token ''r1'' ''raw'' TokRotated 1000, demo_token ''r2'' ''raw2'' TokActive 1010])"
  by (simp add: rotate_def find_token_def find_session_def rotate_decide_def rotate_claim_def claimable_def
      mark_rotated_def rotate_mint_def rotate_mint_tx_def transaction_def insert_token_def Let_def)

theorem replay_revokes_family_witness:
  "fst (rotate demo_tc 20 ''r3'' ''raw3'' ''raw'' demo_ctx
         (snd (rotate demo_tc 10 ''r2'' ''raw2'' ''raw'' demo_ctx demo_login))) = Inr RotReuse"
  using replay_revokes_family [OF demo_rotate, of 20 "''r3''" "''raw3''" demo_ctx] demo_rotate
  by (metis prod.collapse snd_conv)

section \<open>Revocation is for ever\<close>

definition revoked_in :: "ident \<Rightarrow> auth_db \<Rightarrow> bool" where
  "revoked_in sid db \<longleftrightarrow> (case find_session sid db of None \<Rightarrow> False | Some s \<Rightarrow> ss_isRevoked s)"

lemma revoked_in_update:
  assumes "revoked_in sid db" and "ad_sessions db' = update_where p f (ad_sessions db)"
    and "\<And>s. ss_id (f s) = ss_id s \<and> (ss_isRevoked s \<longrightarrow> ss_isRevoked (f s))"
  shows "revoked_in sid db'"
  using assms by (auto simp: revoked_in_def find_session_def find_update_where split: option.splits)

lemma revoked_in_frame: "revoked_in sid db \<Longrightarrow> ad_sessions db' = ad_sessions db \<Longrightarrow> revoked_in sid db'"
  by (simp add: revoked_in_def find_session_def)

lemma revoked_in_append: "revoked_in sid db \<Longrightarrow> ad_sessions db' = ad_sessions db @ [s] \<Longrightarrow> revoked_in sid db'"
  by (auto simp: revoked_in_def find_session_def find_append split: option.splits)

lemma insert_token_sessions: "insert_token t db = (r, db') \<Longrightarrow> ad_sessions db' = ad_sessions db"
  by (auto simp: insert_token_def split: if_splits)

lemma issue_revoked:
  assumes "issueSession tc now ids p db = (r, db')" and "revoked_in sid db"
  shows "revoked_in sid db'"
proof -
  from assms(1) obtain r1 where "transaction (issue_tx tc now ids p) db = (r1, db')"
    by (auto simp: issueSession_def split: prod.splits sum.splits)
  then consider "db' = db" | "issue_tx tc now ids p db = (r1, db')" by (metis transaction_state)
  then show ?thesis
  proof cases
    case 2
    then obtain ss r2 db1 where ins: "insert_session ss db = (r2, db1)"
      and rest: "db' = db1 \<or> (\<exists>t r3. insert_token t db1 = (r3, db'))"
      unfolding issue_tx_def by (fastforce split: prod.splits sum.splits)
    from ins assms(2) have "revoked_in sid db1"
      by (auto simp: insert_session_def intro: revoked_in_append split: if_splits)
    with rest show ?thesis by (metis insert_token_sessions revoked_in_frame)
  qed (use assms(2) in simp)
qed

lemma mint_revoked:
  assumes "rotate_mint tc now newId newRaw acc t db = (r, db')" and "revoked_in sid db"
  shows "revoked_in sid db'"
proof (cases "\<exists>e. r = Inl e")
  case True
  with assms have "db' = db"
    by (auto simp: rotate_mint_def transaction_def split: prod.splits sum.splits)
  with assms(2) show ?thesis by simp
next
  case False
  then have "r = Inr ()" by (cases r) auto
  with minted assms(1) obtain q where
    "ad_sessions db' = update_where q (\<lambda>s. s\<lparr>ss_token := acc, ss_lastUsedAt := Some now\<rparr>) (ad_sessions db)"
    by blast
  with assms(2) show ?thesis by (rule revoked_in_update) simp
qed

lemma revoked_step: "auth_step s s' \<Longrightarrow> revoked_in sid (as_db s) \<Longrightarrow> revoked_in sid (as_db s')"
proof (induction rule: auth_step.induct)
  case (as_issue tc now ids p s r db')
  then show ?case by (simp add: issue_revoked)
next
  case (as_claim t s n db')
  then show ?case by (auto simp: rotate_claim_def intro: revoked_in_frame)
next
  case (as_mint t s tc now newId newRaw acc r' db')
  then show ?case by (simp add: mint_revoked)
next
  case (as_family s now fam sid' uid ctx action)
  then show ?case
    by (auto intro: revoked_in_update [OF _ revoke_family_sessions] simp: mark_revoked_def)
next
  case (as_user s now uid ctx)
  then show ?case
    by (auto simp: revokeAllForUser_def Let_def audit_op_def revoke_tokens_def revoke_sessions_def mark_revoked_def
         intro: revoked_in_update [where f = "mark_revoked now"])
next
  case (as_one s now uid sid' current ctx)
  then show ?case
    by (auto simp: revokeOne_def audit_op_def mark_revoked_def
         intro: revoked_in_update [where f = "mark_revoked now"] split: option.splits)
next
  case (as_all s now uid current ctx)
  then show ?case
    by (auto simp: revokeAll_def audit_op_def Let_def mark_revoked_def
         intro: revoked_in_update [where f = "mark_revoked now"])
qed

lemma revoked_reaches:
  "reaches auth_step s s' \<Longrightarrow> revoked_in sid (as_db s) \<Longrightarrow> revoked_in sid (as_db s')"
  by (induction rule: reaches.induct) (auto intro: revoked_step)



section \<open>A refresh that fails half way\<close>

text \<open>
  The claim of a refresh commits before the successor is minted. When minting fails (the
  access token, which is a function of the user, the role and the second, equals the token
  of another session of the same user, whose column is unique) the caller gets an error and has
  lost its token; retrying with it is taken for theft and revokes the session.
\<close>

theorem failed_mint_locks_out:
  assumes "find_token (tc_hash tc raw) db = Some t" and "find_session (rt_sessionId t) db = Some s"
    and "rotate_decide now t s = DecClaim"
    and other: "o' \<in> set (ad_sessions db)" "ss_id o' \<noteq> rt_sessionId t"
      "ss_token o' = tc_sign tc (ss_userId s) (ad_role db (ss_userId s)) now"
  shows "\<exists>e db1. rotate tc now newId newRaw raw ctx db = (Inl e, db1)
    \<and> fst (rotate tc now2 newId2 newRaw2 raw ctx2 db1) = Inr RotReuse
    \<and> revoked_in (rt_sessionId t) (snd (rotate tc now2 newId2 newRaw2 raw ctx2 db1))"
proof -
  let ?db1 = "snd (rotate_claim (rt_id t) db)"
  from assms(3) have "rt_status t = TokActive"
    by (cases "rt_status t") (auto simp: rotate_decide_def)
  then have cl: "claimable (rt_id t) t" by (simp add: claimable_def)
  have "t \<in> set (ad_tokens db)" using find_Some [OF assms(1) [unfolded find_token_def]] by simp
  with cl have count: "fst (rotate_claim (rt_id t) db) \<noteq> 0"
    by (auto simp: rotate_claim_def count_where_0)
  have sess: "ad_sessions ?db1 = ad_sessions db" by (simp add: rotate_claim_def)
  have "\<exists>r \<in> set (ad_sessions ?db1). ss_id r \<noteq> rt_sessionId t
      \<and> ss_token r = tc_sign tc (ss_userId s) (ad_role db (ss_userId s)) now"
    using other sess by auto
  then have "rotate_mint tc now newId newRaw (tc_sign tc (ss_userId s) (ad_role db (ss_userId s)) now) t ?db1
      = (Inl AuthUniqueViolation, ?db1)"
    by (simp add: rotate_mint_def rotate_mint_tx_def transaction_def insert_token_def)
  then have first: "rotate tc now newId newRaw raw ctx db = (Inl AuthUniqueViolation, ?db1)"
    using assms(1-3) count by (simp add: rotate_def Let_def split_beta)
  have t1: "find_token (tc_hash tc raw) ?db1 = Some (mark_rotated t)"
    using assms(1) cl by (simp add: find_token_def rotate_claim_def find_update_where mark_rotated_def)
  have s1: "find_session (rt_sessionId t) ?db1 = Some s"
    using assms(2) by (simp add: find_session_def sess)
  have again: "rotate tc now2 newId2 newRaw2 raw ctx2 ?db1 = (Inr RotReuse,
      revokeFamily now2 (rt_familyId t) (rt_sessionId t) (ss_userId s) ctx2 REFRESH_REUSE_DETECTED ?db1)"
    using t1 s1 by (simp add: rotate_def rotate_decide_def Let_def mark_rotated_def)
  have "revoked_in (rt_sessionId t) (revokeFamily now2 (rt_familyId t) (rt_sessionId t) (ss_userId s) ctx2
      REFRESH_REUSE_DETECTED ?db1)"
    using s1 find_Some [OF s1 [unfolded find_session_def]]
    by (auto simp: revoked_in_def find_session_def revoke_family_sessions find_update_where mark_revoked_def)
  with first again show ?thesis by simp
qed

theorem failed_mint_locks_out_witness:
  "\<exists>e db1. rotate demo_tc 10 ''r2'' ''raw2'' ''raw'' demo_ctx
       (demo_auth [demo_session ''x'' None, (demo_session (''uL'' @ show_int 10) None)\<lparr>ss_id := ''s2''\<rparr>]
          [demo_token ''r1'' ''raw'' TokActive 1000]) = (Inl e, db1)
    \<and> fst (rotate demo_tc 11 ''r3'' ''raw3'' ''raw'' demo_ctx db1) = Inr RotReuse"
proof -
  let ?db = "demo_auth [demo_session ''x'' None, (demo_session (''uL'' @ show_int 10) None)\<lparr>ss_id := ''s2''\<rparr>]
          [demo_token ''r1'' ''raw'' TokActive 1000]"
  have "\<exists>e db1. rotate demo_tc 10 ''r2'' ''raw2'' ''raw'' demo_ctx ?db = (Inl e, db1)
    \<and> fst (rotate demo_tc 11 ''r3'' ''raw3'' ''raw'' demo_ctx db1) = Inr RotReuse
    \<and> revoked_in ''s'' (snd (rotate demo_tc 11 ''r3'' ''raw3'' ''raw'' demo_ctx db1))"
    using failed_mint_locks_out [of demo_tc "''raw''" ?db "demo_token ''r1'' ''raw'' TokActive 1000"
        "demo_session ''x'' None" 10 "(demo_session (''uL'' @ show_int 10) None)\<lparr>ss_id := ''s2''\<rparr>"
        "''r2''" "''raw2''" demo_ctx 11 "''r3''" "''raw3''" demo_ctx]
    by (simp add: find_token_def find_session_def rotate_decide_def)
  then show ?thesis by blast
qed

end
