(* ===== verification/Otp.thy ===== *)
theory Otp
  imports Prelude
begin

text \<open>
  One-time codes: \<open>src/src/services/otp.service.ts\<close>. The hash of a code is the parameter
  \<open>hash\<close> (SHA-256 of phone and code), the drawn number and the row id are arguments; sending the
  message is fire-and-forget. Verification reads a row and later writes it back without a
  condition; \<open>verify_settle\<close> is the part after the read, so that concurrent verifications can
  be interleaved.
\<close>

definition OTP_CODE_LENGTH :: nat where "OTP_CODE_LENGTH = 6"
definition OTP_EXPIRY_MS :: int where "OTP_EXPIRY_MS = 5 * 60 * 1000"
definition OTP_MAX_ATTEMPTS :: nat where "OTP_MAX_ATTEMPTS = 5"

datatype otp_purpose = PurposeLogin | PurposePhoneVerification
datatype otp_status = OtpPending | OtpConsumed | OtpExpired | OtpRevoked | OtpLocked

record otp_challenge =
  oc_id :: ident
  oc_userId :: ident
  oc_phone :: string
  oc_purpose :: otp_purpose
  oc_codeHash :: string
  oc_status :: otp_status
  oc_attempts :: nat
  oc_maxAttempts :: nat
  oc_expiresAt :: time
  oc_consumedAt :: "time option"
  oc_requestIp :: "string option"
  oc_deviceId :: "string option"
  oc_createdAt :: time

datatype otp_failure = OtpNotFound | OtpIsExpired | OtpIsLocked | OtpMismatch

text \<open>\<open>/^\\+[1-9]\\d{7,14}$/\<close>.\<close>

definition e164_pattern :: "string \<Rightarrow> bool" where
  "e164_pattern s = (case s of
      p # d # ds \<Rightarrow> p = CHR ''+'' \<and> is_digit d \<and> d \<noteq> CHR ''0'' \<and> 7 \<le> length ds \<and> length ds \<le> 14
                    \<and> list_all is_digit ds
    | _ \<Rightarrow> False)"

definition normalizePhone :: "string \<Rightarrow> string option" where
  "normalizePhone input = (let trimmed = trim input in if e164_pattern trimmed then Some trimmed else None)"

definition generateCode :: "nat \<Rightarrow> string" where
  "generateCode n = padStart OTP_CODE_LENGTH (CHR ''0'') (show_nat (n mod 10 ^ OTP_CODE_LENGTH))"

type_synonym otp_hash = "string \<Rightarrow> string \<Rightarrow> string"

definition requestChallenge ::
    "otp_hash \<Rightarrow> time \<Rightarrow> nat \<Rightarrow> ident \<Rightarrow> string \<Rightarrow> otp_purpose \<Rightarrow> ident \<Rightarrow> string option \<Rightarrow> string option \<Rightarrow>
     otp_challenge list \<Rightarrow> otp_challenge list" where
  "requestChallenge hash now drawn rowId phone purpose userId ip deviceId rows =
     update_where (\<lambda>c. oc_userId c = userId \<and> oc_purpose c = purpose \<and> oc_status c = OtpPending)
       (\<lambda>c. c\<lparr>oc_status := OtpRevoked\<rparr>) rows
     @ [\<lparr>oc_id = rowId, oc_userId = userId, oc_phone = phone, oc_purpose = purpose,
         oc_codeHash = hash (generateCode drawn) phone, oc_status = OtpPending, oc_attempts = 0,
         oc_maxAttempts = OTP_MAX_ATTEMPTS, oc_expiresAt = now + OTP_EXPIRY_MS, oc_consumedAt = None,
         oc_requestIp = ip, oc_deviceId = deviceId, oc_createdAt = now\<rparr>]"

definition verify_read :: "string \<Rightarrow> otp_purpose \<Rightarrow> otp_challenge list \<Rightarrow> otp_challenge option" where
  "verify_read phone purpose rows =
     first_by (\<lambda>c. - oc_createdAt c)
       (\<lambda>c. oc_phone c = phone \<and> oc_purpose c = purpose \<and> oc_status c = OtpPending) rows"

definition wrong_guess :: "nat \<Rightarrow> bool \<Rightarrow> otp_challenge \<Rightarrow> otp_challenge" where
  "wrong_guess attempts lockedOut c =
     c\<lparr>oc_attempts := attempts, oc_status := (if lockedOut then OtpLocked else oc_status c)\<rparr>"

definition verify_settle ::
    "otp_hash \<Rightarrow> time \<Rightarrow> string \<Rightarrow> string \<Rightarrow> otp_challenge \<Rightarrow> otp_challenge list \<Rightarrow>
     (otp_failure + ident) \<times> otp_challenge list" where
  "verify_settle hash now phone code ch rows =
     (let upd = (\<lambda>f. update_where (\<lambda>c. oc_id c = oc_id ch) f rows) in
      if now > oc_expiresAt ch then (Inl OtpIsExpired, upd (\<lambda>c. c\<lparr>oc_status := OtpExpired\<rparr>))
      else if oc_attempts ch \<ge> oc_maxAttempts ch then (Inl OtpIsLocked, upd (\<lambda>c. c\<lparr>oc_status := OtpLocked\<rparr>))
      else if hash code phone \<noteq> oc_codeHash ch then
        (let attempts = oc_attempts ch + 1; lockedOut = attempts \<ge> oc_maxAttempts ch
         in (Inl (if lockedOut then OtpIsLocked else OtpMismatch), upd (wrong_guess attempts lockedOut)))
      else (Inr (oc_userId ch), upd (\<lambda>c. c\<lparr>oc_status := OtpConsumed, oc_consumedAt := Some now\<rparr>)))"

definition verifyChallenge ::
    "otp_hash \<Rightarrow> time \<Rightarrow> string \<Rightarrow> string \<Rightarrow> otp_purpose \<Rightarrow> ident option \<Rightarrow> otp_challenge list \<Rightarrow>
     (otp_failure + ident) \<times> otp_challenge list" where
  "verifyChallenge hash now phone code purpose expectedUserId rows =
     (case verify_read phone purpose rows of
        None \<Rightarrow> (Inl OtpNotFound, rows)
      | Some ch \<Rightarrow>
          if (case expectedUserId of None \<Rightarrow> False | Some u \<Rightarrow> u \<noteq> [] \<and> oc_userId ch \<noteq> u)
          then (Inl OtpNotFound, rows)
          else verify_settle hash now phone code ch rows)"

section \<open>Sequential guesses\<close>

text \<open>One wrong guess, as it changes the row it was read from.\<close>

definition guess_row :: "otp_challenge \<Rightarrow> otp_challenge" where
  "guess_row c = wrong_guess (oc_attempts c + 1) (oc_attempts c + 1 \<ge> oc_maxAttempts c) c"

interpretation otp_retry: retry_policy oc_attempts oc_maxAttempts "\<lambda>c. oc_status c = OtpPending" guess_row
  by unfold_locales (auto simp: guess_row_def wrong_guess_def)

text \<open>The only pending challenge of the phone; \<open>before\<close> and \<open>after\<close> hold the other rows.\<close>

definition sole_pending :: "otp_challenge \<Rightarrow> otp_challenge list \<Rightarrow> bool" where
  "sole_pending c rows \<longleftrightarrow> (\<forall>r \<in> set rows. oc_id r \<noteq> oc_id c \<and>
     \<not> (oc_phone r = oc_phone c \<and> oc_purpose r = oc_purpose c \<and> oc_status r = OtpPending))"

lemma verify_read_sole:
  assumes "sole_pending c before" and "sole_pending c after" and "oc_status c = OtpPending"
  shows "verify_read (oc_phone c) (oc_purpose c) (before @ c # after) = Some c"
proof -
  let ?p = "\<lambda>r. oc_phone r = oc_phone c \<and> oc_purpose r = oc_purpose c \<and> oc_status r = OtpPending"
  have "filter ?p before = []" "filter ?p after = []"
    using assms(1,2) by (auto simp: sole_pending_def filter_empty_conv)
  with assms(3) show ?thesis by (simp add: verify_read_def first_by_def)
qed

lemma update_sole: "sole_pending c rows \<Longrightarrow> update_where (\<lambda>r. oc_id r = oc_id c) f rows = rows"
  by (simp add: sole_pending_def update_where_id)

fun guesses ::
    "otp_hash \<Rightarrow> time \<Rightarrow> string \<Rightarrow> otp_purpose \<Rightarrow> string list \<Rightarrow> otp_challenge list \<Rightarrow> otp_challenge list" where
  "guesses hash now phone purpose [] rows = rows"
| "guesses hash now phone purpose (code # codes) rows =
     guesses hash now phone purpose codes (snd (verifyChallenge hash now phone code purpose None rows))"

lemma guess_once:
  assumes "sole_pending c before" and "sole_pending c after" and "oc_status c = OtpPending"
    and "now \<le> oc_expiresAt c" and "oc_attempts c < oc_maxAttempts c"
    and "hash code (oc_phone c) \<noteq> oc_codeHash c"
  shows "snd (verifyChallenge hash now (oc_phone c) code (oc_purpose c) None (before @ c # after)) =
           before @ guess_row c # after"
  using assms
  by (simp add: verifyChallenge_def verify_read_sole verify_settle_def Let_def update_sole guess_row_def)

lemma guesses_row:
  assumes "sole_pending c before" and "sole_pending c after" and "oc_status c = OtpPending"
    and "now \<le> oc_expiresAt c" and "oc_attempts c + length codes \<le> oc_maxAttempts c"
    and "\<forall>code \<in> set codes. hash code (oc_phone c) \<noteq> oc_codeHash c"
  shows "guesses hash now (oc_phone c) (oc_purpose c) codes (before @ c # after) =
           before @ (guess_row ^^ length codes) c # after"
  using assms
proof (induction codes arbitrary: c)
  case Nil
  then show ?case by simp
next
  case (Cons code codes)
  have row: "oc_id (guess_row c) = oc_id c" "oc_phone (guess_row c) = oc_phone c"
    "oc_purpose (guess_row c) = oc_purpose c" "oc_codeHash (guess_row c) = oc_codeHash c"
    "oc_expiresAt (guess_row c) = oc_expiresAt c" "oc_maxAttempts (guess_row c) = oc_maxAttempts c"
    "oc_attempts (guess_row c) = Suc (oc_attempts c)"
    by (simp_all add: guess_row_def wrong_guess_def)
  have one: "snd (verifyChallenge hash now (oc_phone c) code (oc_purpose c) None (before @ c # after)) =
      before @ guess_row c # after"
    using Cons.prems by (intro guess_once) auto
  show ?case
  proof (cases "codes = []")
    case True
    with one show ?thesis by simp
  next
    case False
    then have "0 < length codes" by simp
    with Cons.prems(3,5) have "oc_status (guess_row c) = OtpPending"
      unfolding guess_row_def wrong_guess_def by (cases codes) auto
    with Cons.IH [of "guess_row c"] Cons.prems one show ?thesis
      by (simp add: sole_pending_def row funpow_swap1)
  qed
qed

text \<open>
  C29. Guesses made one after the other are limited: after as many wrong codes as the challenge
  allows it is locked, and from then on even the right code finds no challenge.
\<close>

theorem guesses_lock_challenge:
  assumes "sole_pending c before" and "sole_pending c after" and "oc_status c = OtpPending"
    and "now \<le> oc_expiresAt c" and "oc_attempts c < oc_maxAttempts c"
    and "length codes = oc_maxAttempts c - oc_attempts c"
    and "\<forall>code \<in> set codes. hash code (oc_phone c) \<noteq> oc_codeHash c"
  shows "fst (verifyChallenge hash now' (oc_phone c) code (oc_purpose c) u
           (guesses hash now (oc_phone c) (oc_purpose c) codes (before @ c # after))) = Inl OtpNotFound"
proof -
  let ?c = "(guess_row ^^ length codes) c"
  have rows: "guesses hash now (oc_phone c) (oc_purpose c) codes (before @ c # after) = before @ ?c # after"
    using assms by (intro guesses_row) auto
  have locked: "oc_status ?c \<noteq> OtpPending"
    unfolding assms(6) by (rule otp_retry.exhausted [OF assms(3,5)])
  have "verify_read (oc_phone c) (oc_purpose c) (before @ ?c # after) = None"
    unfolding verify_read_def first_by_None using assms(1,2) locked by (auto simp: sole_pending_def)
  then show ?thesis by (simp add: rows verifyChallenge_def)
qed

abbreviation demo_challenge :: otp_challenge where
  "demo_challenge \<equiv> \<lparr>oc_id = ''c'', oc_userId = ''u'', oc_phone = ''+23480000000'', oc_purpose = PurposeLogin,
     oc_codeHash = ''000001'', oc_status = OtpPending, oc_attempts = 0, oc_maxAttempts = 5,
     oc_expiresAt = 300000, oc_consumedAt = None, oc_requestIp = None, oc_deviceId = None, oc_createdAt = 0\<rparr>"

theorem guesses_lock_challenge_witness:
  "fst (verifyChallenge (\<lambda>code phone. code) 10 ''+23480000000'' ''000001'' PurposeLogin None
     (guesses (\<lambda>code phone. code) 5 ''+23480000000'' PurposeLogin
        [''000002'', ''000003'', ''000004'', ''000005'', ''000006''] [demo_challenge])) = Inl OtpNotFound"
  using guesses_lock_challenge [of demo_challenge "[]" "[]" 5
      "[''000002'', ''000003'', ''000004'', ''000005'', ''000006'']" "\<lambda>code phone. code" 10 "''000001''" None]
  by (simp add: sole_pending_def)

section \<open>Concurrent guesses\<close>

text \<open>Any number of verifications that have all read the row before any of them writes.\<close>

fun settle_all ::
    "otp_hash \<Rightarrow> time \<Rightarrow> string \<Rightarrow> otp_challenge \<Rightarrow> string list \<Rightarrow> otp_challenge list \<Rightarrow> otp_challenge list" where
  "settle_all hash now phone ch [] rows = rows"
| "settle_all hash now phone ch (code # codes) rows =
     settle_all hash now phone ch codes (snd (verify_settle hash now phone code ch rows))"

text \<open>
  Guesses made at the same time are not limited: the attempt counter is read before the
  code is compared and written back without a condition, so any number of verifications that
  read the row together count as one attempt, and the challenge stays open (below its
  last attempt) for the right code.
\<close>

theorem concurrent_guesses_count_once:
  assumes "sole_pending c before" and "sole_pending c after" and "oc_status c = OtpPending"
    and "now \<le> oc_expiresAt c" and "oc_attempts c + 1 < oc_maxAttempts c" and "codes \<noteq> []"
    and "\<forall>code \<in> set codes. hash code (oc_phone c) \<noteq> oc_codeHash c"
    and "hash right (oc_phone c) = oc_codeHash c"
  shows "settle_all hash now (oc_phone c) c codes (before @ c # after) =
           before @ c\<lparr>oc_attempts := oc_attempts c + 1\<rparr> # after
    \<and> fst (verifyChallenge hash now (oc_phone c) right (oc_purpose c) None
          (settle_all hash now (oc_phone c) c codes (before @ c # after))) = Inr (oc_userId c)"
proof -
  let ?c = "c\<lparr>oc_attempts := oc_attempts c + 1\<rparr>"
  have step: "snd (verify_settle hash now (oc_phone c) code c (before @ x # after)) = before @ ?c # after"
    if "hash code (oc_phone c) \<noteq> oc_codeHash c" "x = c \<or> x = ?c" for code x
    using assms that
    by (auto simp: verify_settle_def Let_def wrong_guess_def sole_pending_def update_where_id)
  have "settle_all hash now (oc_phone c) c cs (before @ ?c # after) = before @ ?c # after"
    if "\<forall>code \<in> set cs. hash code (oc_phone c) \<noteq> oc_codeHash c" for cs
    using that step by (induction cs) auto
  then have rows: "settle_all hash now (oc_phone c) c codes (before @ c # after) = before @ ?c # after"
    using assms(6,7) step by (cases codes) auto
  have "sole_pending ?c before" "sole_pending ?c after" using assms(1,2) by (simp_all add: sole_pending_def)
  with verify_read_sole [of ?c before after] assms(3) have
    "verify_read (oc_phone c) (oc_purpose c) (before @ ?c # after) = Some ?c" by simp
  with assms show ?thesis
    by (simp add: rows verifyChallenge_def verify_settle_def Let_def)
qed

theorem concurrent_guesses_count_once_witness:
  "settle_all (\<lambda>code phone. code) 5 ''+23480000000'' demo_challenge
     [''000002'', ''000003'', ''000004'', ''000005'', ''000006'', ''000007''] [demo_challenge]
   = [demo_challenge\<lparr>oc_attempts := 1\<rparr>]"
  using concurrent_guesses_count_once [of demo_challenge "[]" "[]" 5
      "[''000002'', ''000003'', ''000004'', ''000005'', ''000006'', ''000007'']" "\<lambda>code phone. code" "''000001''"]
  by (simp add: sole_pending_def)

end
