(* ===== verification/RetryQueues.thy ===== *)
theory RetryQueues
  imports Prelude "HOL-Library.Sublist"
begin

text \<open>
  The delivery queues: \<open>src/src/services/email.service.ts\<close>, \<open>notification.service.ts\<close>,
  \<open>webhook.service.ts\<close> and \<open>stellar-funding.service.ts\<close>. Each selects the rows that are due,
  counts an attempt, calls a provider and settles the row. The providers are parameters: the
  mail transport (today a log line), Firebase, \<open>fetch\<close>, and the Stellar service.
  \<open>processQueue\<close> reads its rows once; each is then settled against the table of the moment,
  with the attempt count of the row as it was read.
\<close>

section \<open>The common backoff\<close>

text \<open>\<open>Math.pow(5, nextAttemptCount - 1)\<close> minutes.\<close>

definition backoff_ms :: "nat \<Rightarrow> nat \<Rightarrow> int" where
  "backoff_ms base nextAttemptCount = int (base ^ (nextAttemptCount - 1)) * 60000"

definition due_at :: "time \<Rightarrow> time option \<Rightarrow> bool" where
  "due_at now t \<longleftrightarrow> (case t of None \<Rightarrow> False | Some d \<Rightarrow> d \<le> now)"

section \<open>Email\<close>

datatype email_status = EmailPending | EmailSent | EmailDeadLetter

record email_delivery =
  em_id :: ident
  em_userId :: ident
  em_to :: string
  em_subject :: string
  em_body :: string
  em_type :: string
  em_status :: email_status
  em_error :: "string option"
  em_attemptCount :: nat
  em_maxAttempts :: nat
  em_nextAttemptAt :: "time option"
  em_lastAttemptAt :: "time option"
  em_sentAt :: "time option"
  em_createdAt :: time

type_synonym mailer = "email_delivery \<Rightarrow> string option"

definition queueEmail ::
    "time \<Rightarrow> ident \<Rightarrow> ident \<Rightarrow> string \<Rightarrow> string \<Rightarrow> string \<Rightarrow> string \<Rightarrow>
     email_delivery list \<Rightarrow> email_delivery \<times> email_delivery list" where
  "queueEmail now rowId userId to subject body type rows =
     (let d = \<lparr>em_id = rowId, em_userId = userId, em_to = to, em_subject = subject, em_body = body,
               em_type = type, em_status = EmailPending, em_error = None, em_attemptCount = 0,
               em_maxAttempts = 5, em_nextAttemptAt = Some now, em_lastAttemptAt = None,
               em_sentAt = None, em_createdAt = now\<rparr>
      in (d, rows @ [d]))"

definition email_due :: "time \<Rightarrow> email_delivery \<Rightarrow> bool" where
  "email_due now d \<longleftrightarrow> em_status d = EmailPending \<and> due_at now (em_nextAttemptAt d) \<and> em_attemptCount d < 5"

definition email_failure :: "time \<Rightarrow> nat \<Rightarrow> nat \<Rightarrow> string \<Rightarrow> email_delivery \<Rightarrow> email_delivery" where
  "email_failure now nextAttemptCount maxAttempts err d =
     (if nextAttemptCount \<ge> maxAttempts
      then d\<lparr>em_status := EmailDeadLetter, em_error := Some err\<rparr>
      else d\<lparr>em_error := Some err, em_nextAttemptAt := Some (now + backoff_ms 5 nextAttemptCount)\<rparr>)"

definition count_email :: "time \<Rightarrow> email_delivery \<Rightarrow> email_delivery" where
  "count_email now d = d\<lparr>em_attemptCount := em_attemptCount d + 1, em_lastAttemptAt := Some now\<rparr>"

definition sendEmail ::
    "mailer \<Rightarrow> time \<Rightarrow> email_delivery \<Rightarrow> email_delivery list \<Rightarrow> email_delivery list" where
  "sendEmail mail now d rows =
     (let upd = update_where (\<lambda>r. em_id r = em_id d);
          rows1 = upd (count_email now) rows
      in case mail d of
           None \<Rightarrow> upd (\<lambda>r. r\<lparr>em_status := EmailSent, em_sentAt := Some now\<rparr>) rows1
         | Some err \<Rightarrow> upd (email_failure now (em_attemptCount d + 1) (em_maxAttempts d) err) rows1)"

definition email_processQueue ::
    "mailer \<Rightarrow> time \<Rightarrow> email_delivery list \<Rightarrow> email_delivery list" where
  "email_processQueue mail now rows = foldl (\<lambda>rs d. sendEmail mail now d rs) rows (filter (email_due now) rows)"

section \<open>Push notifications\<close>

datatype push_status = PushPending | PushSuccess | PushFailed | PushDeadLetter

record notification_log =
  nl_id :: ident
  nl_userId :: ident
  nl_type :: string
  nl_title :: string
  nl_body :: string
  nl_status :: push_status
  nl_error :: "string option"
  nl_attemptCount :: nat
  nl_maxAttempts :: nat
  nl_nextAttemptAt :: "time option"

record device_token =
  dt_userId :: ident
  dt_token :: string
  dt_platform :: string

record notification_db =
  nd_logs :: "notification_log list"
  nd_tokens :: "device_token list"
  nd_prefs :: "ident \<Rightarrow> (string \<Rightarrow> bool) option"

text \<open>Firebase answers a multicast with the messages of the failed sends, or throws; it is
  absent (\<open>None\<close>) when no service account is configured.\<close>

type_synonym firebase = "(string \<Rightarrow> string \<Rightarrow> string list \<Rightarrow> string + string list) option"

definition registerDeviceToken :: "ident \<Rightarrow> string \<Rightarrow> string \<Rightarrow> notification_db \<Rightarrow> notification_db" where
  "registerDeviceToken userId token platform db =
     (if \<exists>t \<in> set (nd_tokens db). dt_token t = token
      then db\<lparr>nd_tokens := update_where (\<lambda>t. dt_token t = token)
                (\<lambda>t. t\<lparr>dt_userId := userId, dt_platform := platform\<rparr>) (nd_tokens db)\<rparr>
      else db\<lparr>nd_tokens := nd_tokens db @ [\<lparr>dt_userId = userId, dt_token = token, dt_platform = platform\<rparr>]\<rparr>)"

definition updateUserPreferences :: "ident \<Rightarrow> (string \<Rightarrow> bool option) \<Rightarrow> notification_db \<Rightarrow> notification_db" where
  "updateUserPreferences userId changes db =
     (let current = (case nd_prefs db userId of None \<Rightarrow> (\<lambda>_. True) | Some p \<Rightarrow> p)
      in db\<lparr>nd_prefs := (nd_prefs db)(userId \<mapsto> (\<lambda>k. case changes k of None \<Rightarrow> current k | Some b \<Rightarrow> b))\<rparr>)"

definition queueNotification ::
    "time \<Rightarrow> ident \<Rightarrow> ident \<Rightarrow> string \<Rightarrow> string \<Rightarrow> string \<Rightarrow> notification_db \<Rightarrow>
     notification_log option \<times> notification_db" where
  "queueNotification now rowId userId type title body db =
     (let isEnabled = (case nd_prefs db userId of None \<Rightarrow> True | Some p \<Rightarrow> p type) in
      if \<not> isEnabled then (None, db)
      else
        (let l = \<lparr>nl_id = rowId, nl_userId = userId, nl_type = type, nl_title = title, nl_body = body,
                  nl_status = PushPending, nl_error = None, nl_attemptCount = 0, nl_maxAttempts = 5,
                  nl_nextAttemptAt = Some now\<rparr>
         in (Some l, db\<lparr>nd_logs := nd_logs db @ [l]\<rparr>)))"

definition push_failure :: "time \<Rightarrow> nat \<Rightarrow> nat \<Rightarrow> string \<Rightarrow> notification_log \<Rightarrow> notification_log" where
  "push_failure now nextAttemptCount maxAttempts err l =
     (if nextAttemptCount \<ge> maxAttempts
      then l\<lparr>nl_status := PushDeadLetter, nl_error := Some err\<rparr>
      else l\<lparr>nl_error := Some err, nl_nextAttemptAt := Some (now + backoff_ms 5 nextAttemptCount)\<rparr>)"

fun join_comma :: "string list \<Rightarrow> string" where
  "join_comma [] = []"
| "join_comma [x] = x"
| "join_comma (x # y # ys) = x @ '', '' @ join_comma (y # ys)"

text \<open>What happens to a row whose attempt has been counted.\<close>

definition push_settle :: "firebase \<Rightarrow> time \<Rightarrow> string list \<Rightarrow> notification_log \<Rightarrow> notification_log \<Rightarrow> notification_log" where
  "push_settle fb now tokens read l =
     (if tokens = [] then l\<lparr>nl_status := PushFailed, nl_error := Some ''No device tokens found for user''\<rparr>
      else case fb of
        None \<Rightarrow> l\<lparr>nl_status := PushSuccess\<rparr>
      | Some send \<Rightarrow>
          (case send (nl_title read) (nl_body read) tokens of
             Inl err \<Rightarrow> push_failure now (nl_attemptCount read + 1) (nl_maxAttempts read) err l
           | Inr [] \<Rightarrow> l\<lparr>nl_status := PushSuccess\<rparr>
           | Inr errs \<Rightarrow> push_failure now (nl_attemptCount read + 1) (nl_maxAttempts read) (join_comma errs) l))"

definition sendPush :: "firebase \<Rightarrow> time \<Rightarrow> notification_log \<Rightarrow> string list \<Rightarrow> notification_log list \<Rightarrow> notification_log list" where
  "sendPush fb now l tokens rows =
     (let upd = update_where (\<lambda>r. nl_id r = nl_id l);
          rows1 = upd (\<lambda>r. r\<lparr>nl_attemptCount := nl_attemptCount r + 1\<rparr>) rows
      in upd (push_settle fb now tokens l) rows1)"

definition push_due :: "time \<Rightarrow> notification_log \<Rightarrow> bool" where
  "push_due now l \<longleftrightarrow> nl_status l = PushPending \<and> due_at now (nl_nextAttemptAt l) \<and> nl_attemptCount l < 5"

definition push_processQueue :: "firebase \<Rightarrow> time \<Rightarrow> notification_db \<Rightarrow> notification_db" where
  "push_processQueue fb now db = db\<lparr>nd_logs :=
     foldl (\<lambda>rs l. sendPush fb now l
              (map dt_token (filter (\<lambda>t. dt_userId t = nl_userId l) (nd_tokens db))) rs)
       (nd_logs db) (filter (push_due now) (nd_logs db))\<rparr>"

section \<open>Webhooks\<close>

datatype hook_status = HookPending | HookSuccess | HookFailed

record webhook_endpoint =
  we_id :: ident
  we_url :: string
  we_secret :: "string option"
  we_events :: string
  we_description :: "string option"
  we_isActive :: bool

record webhook_delivery =
  wd_id :: ident
  wd_endpointId :: ident
  wd_eventType :: string
  wd_payload :: json_text
  wd_status :: hook_status
  wd_statusCode :: "int option"
  wd_responseBody :: "string option"
  wd_error :: "string option"
  wd_attemptCount :: nat
  wd_maxAttempts :: nat
  wd_nextAttemptAt :: "time option"
  wd_lastAttemptAt :: "time option"
  wd_createdAt :: time

record webhook_db =
  wh_endpoints :: "webhook_endpoint list"
  wh_deliveries :: "webhook_delivery list"

record http_request =
  rq_url :: string
  rq_signature :: string
  rq_event :: string
  rq_body :: json_text

type_synonym http = "http_request \<Rightarrow> string + int \<times> string"
type_synonym hmac = "string \<Rightarrow> json_text \<Rightarrow> string"

fun join_events :: "string list \<Rightarrow> string" where
  "join_events [] = []"
| "join_events [x] = x"
| "join_events (x # y # ys) = x @ '','' @ join_events (y # ys)"

definition registerEndpoint ::
    "ident \<Rightarrow> string \<Rightarrow> string \<Rightarrow> string option \<Rightarrow> string list \<Rightarrow> string option \<Rightarrow> webhook_db \<Rightarrow> webhook_db" where
  "registerEndpoint rowId randomHex url secret events description db =
     db\<lparr>wh_endpoints := wh_endpoints db @
       [\<lparr>we_id = rowId, we_url = url,
         we_secret = Some (case secret of None \<Rightarrow> randomHex | Some s \<Rightarrow> if s = [] then randomHex else s),
         we_events = join_events events, we_description = description, we_isActive = True\<rparr>]\<rparr>"

definition interested :: "string \<Rightarrow> webhook_endpoint \<Rightarrow> bool" where
  "interested eventType e \<longleftrightarrow> we_isActive e \<and> sublist eventType (we_events e)"

definition webhook_payload :: "ident \<Rightarrow> string \<Rightarrow> string \<Rightarrow> json \<Rightarrow> json" where
  "webhook_payload eventId eventType timestamp data =
     JObj [(''eventId'', JStr eventId), (''eventType'', JStr eventType), (''timestamp'', JStr timestamp), (''data'', data)]"

definition queueEvent ::
    "time \<Rightarrow> string \<Rightarrow> (nat \<Rightarrow> ident) \<Rightarrow> (nat \<Rightarrow> ident) \<Rightarrow> string \<Rightarrow> json \<Rightarrow> webhook_db \<Rightarrow> webhook_db" where
  "queueEvent now timestamp rowId eventId eventType data db =
     db\<lparr>wh_deliveries := wh_deliveries db @
       map (\<lambda>(n, e). \<lparr>wd_id = rowId n, wd_endpointId = we_id e, wd_eventType = eventType,
              wd_payload = json_stringify (webhook_payload (eventId n) eventType timestamp data),
              wd_status = HookPending, wd_statusCode = None, wd_responseBody = None, wd_error = None,
              wd_attemptCount = 0, wd_maxAttempts = 5, wd_nextAttemptAt = Some now,
              wd_lastAttemptAt = None, wd_createdAt = now\<rparr>)
         (List.enumerate 0 (filter (interested eventType) (wh_endpoints db)))\<rparr>"

definition update_delivery ::
    "ident \<Rightarrow> (webhook_delivery \<Rightarrow> webhook_delivery) \<Rightarrow> webhook_db \<Rightarrow> webhook_db" where
  "update_delivery i f db = db\<lparr>wh_deliveries := update_where (\<lambda>d. wd_id d = i) f (wh_deliveries db)\<rparr>"

definition checkEndpointHealth :: "ident \<Rightarrow> webhook_db \<Rightarrow> webhook_db" where
  "checkEndpointHealth eid db =
     (let recent = take 10 (sort_key (\<lambda>d. - wd_createdAt d)
            (filter (\<lambda>d. wd_endpointId d = eid) (wh_deliveries db)));
          failureCount = count_where (\<lambda>d. wd_status d = HookFailed) recent
      in if failureCount \<ge> 10
         then db\<lparr>wh_endpoints := update_where (\<lambda>e. we_id e = eid) (\<lambda>e. e\<lparr>we_isActive := False\<rparr>) (wh_endpoints db)\<rparr>
         else db)"

text \<open>An \<open>undefined\<close> status code leaves the column as it is.\<close>

definition hook_failure ::
    "time \<Rightarrow> webhook_delivery \<Rightarrow> string \<Rightarrow> int option \<Rightarrow> webhook_db \<Rightarrow> webhook_db" where
  "hook_failure now read err code db =
     (let next = wd_attemptCount read + 1;
          set_code = (\<lambda>d. case code of None \<Rightarrow> wd_statusCode d | Some c \<Rightarrow> Some c)
      in if next \<ge> wd_maxAttempts read
         then checkEndpointHealth (wd_endpointId read)
                (update_delivery (wd_id read)
                   (\<lambda>d. d\<lparr>wd_status := HookFailed, wd_error := Some err, wd_statusCode := set_code d\<rparr>) db)
         else update_delivery (wd_id read)
                (\<lambda>d. d\<lparr>wd_error := Some err, wd_statusCode := set_code d,
                       wd_nextAttemptAt := Some (now + backoff_ms 5 next)\<rparr>) db)"

definition sendWebhook ::
    "hmac \<Rightarrow> http \<Rightarrow> time \<Rightarrow> webhook_delivery \<times> webhook_endpoint \<Rightarrow> webhook_db \<Rightarrow> webhook_db" where
  "sendWebhook sign fetch now de db =
     (let (d, e) = de;
          db1 = update_delivery (wd_id d)
                  (\<lambda>r. r\<lparr>wd_attemptCount := wd_attemptCount r + 1, wd_lastAttemptAt := Some now\<rparr>) db;
          signature = sign (case we_secret e of None \<Rightarrow> [] | Some s \<Rightarrow> s) (wd_payload d)
      in case fetch \<lparr>rq_url = we_url e, rq_signature = signature, rq_event = wd_eventType d, rq_body = wd_payload d\<rparr> of
           Inl err \<Rightarrow> hook_failure now d (if err = [] then ''Network error'' else err) None db1
         | Inr (status, body) \<Rightarrow>
             if 200 \<le> status \<and> status \<le> 299
             then update_delivery (wd_id d)
                    (\<lambda>r. r\<lparr>wd_status := HookSuccess, wd_statusCode := Some status, wd_responseBody := Some (take 1000 body)\<rparr>) db1
             else hook_failure now d (''HTTP '' @ show_int status @ '': '' @ take 200 body) (Some status) db1)"

definition hook_due :: "time \<Rightarrow> webhook_delivery \<Rightarrow> bool" where
  "hook_due now d \<longleftrightarrow> wd_status d = HookPending \<and> due_at now (wd_nextAttemptAt d) \<and> wd_attemptCount d < 5"

text \<open>Deliveries are read together with their endpoint; the foreign key gives each one.\<close>

definition with_endpoint :: "webhook_db \<Rightarrow> webhook_delivery \<Rightarrow> (webhook_delivery \<times> webhook_endpoint) list" where
  "with_endpoint db d =
     (case List.find (\<lambda>e. we_id e = wd_endpointId d) (wh_endpoints db) of None \<Rightarrow> [] | Some e \<Rightarrow> [(d, e)])"

definition hook_processQueue :: "hmac \<Rightarrow> http \<Rightarrow> time \<Rightarrow> webhook_db \<Rightarrow> webhook_db" where
  "hook_processQueue sign fetch now db =
     foldl (\<lambda>s de. sendWebhook sign fetch now de s) db
       (concat (map (with_endpoint db) (filter (hook_due now) (wh_deliveries db))))"

end
