(* ===== verification/RetryProps.thy ===== *)
theory RetryProps
  imports RetryQueues
begin

text \<open>
  Properties of the delivery queues: a run of a queue is the same as settling every due row by
  itself, attempts are bounded, and a settled row is never touched again.
\<close>

section \<open>One row\<close>

definition email_settle :: "mailer \<Rightarrow> time \<Rightarrow> email_delivery \<Rightarrow> email_delivery \<Rightarrow> email_delivery" where
  "email_settle mail now d r =
     (case mail d of
        None \<Rightarrow> (count_email now r)\<lparr>em_status := EmailSent, em_sentAt := Some now\<rparr>
      | Some err \<Rightarrow> email_failure now (em_attemptCount d + 1) (em_maxAttempts d) err (count_email now r))"

lemma email_settle_id: "em_id (email_settle mail now d r) = em_id r"
  by (simp add: email_settle_def count_email_def email_failure_def split: option.split)

lemma sendEmail_settle:
  "sendEmail mail now d rows = update_where (\<lambda>r. em_id r = em_id d) (email_settle mail now d) rows"
  by (simp add: sendEmail_def Let_def update_where_def email_settle_def count_email_def split: option.split)

interpretation email_retry: retry_policy em_attemptCount em_maxAttempts "\<lambda>d. em_status d = EmailPending"
    "\<lambda>d. email_failure now (em_attemptCount d + 1) (em_maxAttempts d) err (count_email now d)"
  by unfold_locales (auto simp: email_failure_def count_email_def)

interpretation push_retry: retry_policy nl_attemptCount nl_maxAttempts "\<lambda>l. nl_status l = PushPending"
    "\<lambda>l. push_failure now (nl_attemptCount l + 1) (nl_maxAttempts l) err
           (l\<lparr>nl_attemptCount := nl_attemptCount l + 1\<rparr>)"
  by unfold_locales (auto simp: push_failure_def)

section \<open>A run of the queue\<close>

text \<open>
  A run of the mail queue, which updates the table one delivery after the other from the
  rows it read at its start, has exactly the effect of settling every due row by itself and
  leaving every other row alone.
\<close>

theorem email_run_is_rowwise:
  assumes "distinct (map em_id rows)"
  shows "email_processQueue mail now rows =
           map (\<lambda>d. if email_due now d then email_settle mail now d d else d) rows"
  unfolding email_processQueue_def sendEmail_settle
  by (rule foldl_update_all [where key = em_id, OF email_settle_id assms])

abbreviation demo_email :: "ident \<Rightarrow> email_delivery" where
  "demo_email i \<equiv> \<lparr>em_id = i, em_userId = ''u'', em_to = ''a'', em_subject = ''s'', em_body = ''b'', em_type = ''t'',
     em_status = EmailPending, em_error = None, em_attemptCount = 0, em_maxAttempts = 5,
     em_nextAttemptAt = Some 0, em_lastAttemptAt = None, em_sentAt = None, em_createdAt = 0\<rparr>"

theorem email_run_is_rowwise_witness:
  "map em_status (email_processQueue (\<lambda>d. if em_id d = ''1'' then None else Some ''x'') 7 [demo_email ''1'', demo_email ''2''])
     = [EmailSent, EmailPending]"
  by (subst email_run_is_rowwise)
     (simp_all add: email_due_def due_at_def email_settle_def email_failure_def count_email_def)

section \<open>Any number of runs\<close>

text \<open>Runs at any times, each with a transport that fails as it likes.\<close>

fun email_runs :: "(mailer \<times> time) list \<Rightarrow> email_delivery list \<Rightarrow> email_delivery list" where
  "email_runs [] rows = rows"
| "email_runs ((mail, now) # rs) rows = email_runs rs (email_processQueue mail now rows)"

definition email_ok :: "email_delivery \<Rightarrow> bool" where
  "email_ok d \<longleftrightarrow> em_attemptCount d \<le> 5 \<and> em_maxAttempts d = 5
     \<and> (em_status d = EmailPending \<longrightarrow> em_attemptCount d < 5)
     \<and> (em_status d = EmailDeadLetter \<longrightarrow> em_attemptCount d = 5)"

lemma email_run_rowwise:
  "distinct (map em_id rows) \<Longrightarrow>
     email_processQueue mail now rows = map (\<lambda>d. if email_due now d then email_settle mail now d d else d) rows"
  unfolding email_processQueue_def sendEmail_settle
  by (rule foldl_update_all [where key = em_id, OF email_settle_id])

lemma email_run_ids: "distinct (map em_id rows) \<Longrightarrow> map em_id (email_processQueue mail now rows) = map em_id rows"
  by (simp add: email_run_rowwise email_settle_id)

lemma email_settle_ok: "email_ok d \<Longrightarrow> email_due now d \<Longrightarrow> email_ok (email_settle mail now d d)"
  by (auto simp: email_ok_def email_due_def email_settle_def email_failure_def count_email_def split: option.splits)

lemma email_run_ok:
  "distinct (map em_id rows) \<Longrightarrow> \<forall>d \<in> set rows. email_ok d \<Longrightarrow> \<forall>d \<in> set (email_processQueue mail now rows). email_ok d"
  by (auto simp: email_run_rowwise intro: email_settle_ok)

lemma settled_kept:
  "distinct (map em_id rows) \<Longrightarrow> d \<in> set rows \<Longrightarrow> em_status d \<noteq> EmailPending \<Longrightarrow>
     d \<in> set (email_processQueue mail now rows)"
  by (force simp: email_run_rowwise email_due_def)

text \<open>
  Whatever the transport does and however often and whenever the queue runs, a queued mail
  is attempted at most five times, it is dead-lettered only after the fifth attempt, it never
  stays pending with no attempt left, and a mail that was sent is never sent again.
\<close>

theorem email_attempts_bounded:
  assumes "distinct (map em_id rows)"
    and "\<forall>d \<in> set rows. em_status d = EmailPending \<and> em_attemptCount d = 0 \<and> em_maxAttempts d = 5"
  shows "(\<forall>d \<in> set (email_runs rs rows). em_attemptCount d \<le> 5
            \<and> (em_status d = EmailDeadLetter \<longrightarrow> em_attemptCount d = 5)
            \<and> (em_status d = EmailPending \<longrightarrow> em_attemptCount d < 5))
    \<and> (\<forall>d \<in> set (email_runs rs rows). em_status d = EmailSent \<longrightarrow> d \<in> set (email_runs (rs @ rs') rows))"
proof -
  have runs: "distinct (map em_id (email_runs xs rows)) \<and> (\<forall>d \<in> set (email_runs xs rows). email_ok d)"
    if "distinct (map em_id rows)" "\<forall>d \<in> set rows. email_ok d" for xs rows
    using that by (induction xs rows rule: email_runs.induct) (simp_all add: email_run_ids email_run_ok)
  have append: "email_runs (xs @ ys) rows = email_runs ys (email_runs xs rows)" for xs ys rows
    by (induction xs rows rule: email_runs.induct) simp_all
  have keep: "d \<in> set (email_runs xs rows)"
    if "distinct (map em_id rows)" "d \<in> set rows" "em_status d = EmailSent" for xs rows d
    using that by (induction xs rows rule: email_runs.induct) (simp_all add: email_run_ids settled_kept)
  from assms(2) have "\<forall>d \<in> set rows. email_ok d" by (simp add: email_ok_def)
  with runs [OF assms(1)] have after: "distinct (map em_id (email_runs rs rows))" "\<forall>d \<in> set (email_runs rs rows). email_ok d"
    by blast+
  from after(2) have "\<forall>d \<in> set (email_runs rs rows). em_attemptCount d \<le> 5
      \<and> (em_status d = EmailDeadLetter \<longrightarrow> em_attemptCount d = 5)
      \<and> (em_status d = EmailPending \<longrightarrow> em_attemptCount d < 5)"
    by (simp add: email_ok_def)
  moreover have "\<forall>d \<in> set (email_runs rs rows). em_status d = EmailSent \<longrightarrow> d \<in> set (email_runs (rs @ rs') rows)"
    unfolding append using keep [OF after(1)] by blast
  ultimately show ?thesis ..
qed

theorem email_attempts_bounded_witness:
  "list_all (\<lambda>d. em_attemptCount d \<le> 5)
     (email_runs [(\<lambda>_. Some ''x'', 1), (\<lambda>_. Some ''x'', 60001)] [demo_email ''1''])"
  using email_attempts_bounded [of "[demo_email ''1'']" "[(\<lambda>_. Some ''x'', 1), (\<lambda>_. Some ''x'', 60001)]" "[]"]
  unfolding list_all_iff by simp

end
