(* ===== verification/Funding.thy ===== *)
theory Funding
  imports RetryQueues
begin

text \<open>
  Funding of new Stellar accounts: \<open>src/src/services/stellar-funding.service.ts\<close>, with the
  settings of \<open>src/src/config/stellar.ts\<close>. The Stellar service is a parameter: a balance query
  and a verification may fail, a payment answers with a hash and ledger or with an error.
  \<open>fd_sent\<close> logs every payment handed to it, in order (the code keeps no such log; the
  properties need it). An XLM amount is read as a rational; the minimum is a setting.
\<close>

datatype funding_status = FundPending | FundSubmitted | FundConfirmed | FundDeadLetter

record funding =
  fn_id :: ident
  fn_publicKey :: string
  fn_amount :: string
  fn_status :: funding_status
  fn_transactionHash :: "string option"
  fn_ledger :: "int option"
  fn_retryCount :: nat
  fn_maxRetries :: nat
  fn_nextAttemptAt :: "time option"
  fn_lastAttemptAt :: "time option"
  fn_error :: "string option"
  fn_confirmedAt :: "time option"

record funding_db =
  fd_rows :: "funding list"
  fd_sent :: "(string \<times> string) list"

record funding_config =
  fc_amount :: string
  fc_minBalance :: rat
  fc_maxRetries :: nat
  fc_backoffBaseMinutes :: nat
  fc_sourceSecret :: "string option"

datatype pay_failure = StellarFailure string string string | OtherFailure string

record stellar_api =
  st_balance :: "string \<Rightarrow> rat option"
  st_pay :: "string \<Rightarrow> string \<Rightarrow> pay_failure + string \<times> int option"
  st_verify :: "string \<Rightarrow> bool option"

definition queueFunding ::
    "funding_config \<Rightarrow> time \<Rightarrow> ident \<Rightarrow> string \<Rightarrow> funding_db \<Rightarrow> funding \<times> funding_db" where
  "queueFunding cfg now rowId publicKey db =
     (case List.find (\<lambda>r. fn_publicKey r = publicKey) (fd_rows db) of
        Some r \<Rightarrow> (r, db)
      | None \<Rightarrow>
          (let r = \<lparr>fn_id = rowId, fn_publicKey = publicKey, fn_amount = fc_amount cfg,
                    fn_status = FundPending, fn_transactionHash = None, fn_ledger = None,
                    fn_retryCount = 0, fn_maxRetries = 5, fn_nextAttemptAt = Some now,
                    fn_lastAttemptAt = None, fn_error = None, fn_confirmedAt = None\<rparr>
           in (r, db\<lparr>fd_rows := fd_rows db @ [r]\<rparr>)))"

definition update_funding :: "ident \<Rightarrow> (funding \<Rightarrow> funding) \<Rightarrow> funding_db \<Rightarrow> funding_db" where
  "update_funding i f db = db\<lparr>fd_rows := update_where (\<lambda>r. fn_id r = i) f (fd_rows db)\<rparr>"

definition confirm_row :: "time \<Rightarrow> string option \<Rightarrow> int option \<Rightarrow> funding \<Rightarrow> funding" where
  "confirm_row now hash ledger r = r\<lparr>fn_status := FundConfirmed, fn_confirmedAt := Some now,
     fn_transactionHash := (case hash of Some h \<Rightarrow> if h = [] then fn_transactionHash r else Some h
                            | None \<Rightarrow> fn_transactionHash r),
     fn_ledger := (case ledger of Some l \<Rightarrow> Some l | None \<Rightarrow> fn_ledger r)\<rparr>"

definition markConfirmed :: "time \<Rightarrow> funding \<Rightarrow> string option \<Rightarrow> int option \<Rightarrow> funding_db \<Rightarrow> funding_db" where
  "markConfirmed now rec hash ledger = update_funding (fn_id rec) (confirm_row now hash ledger)"

definition failure_row :: "funding_config \<Rightarrow> time \<Rightarrow> funding \<Rightarrow> string \<Rightarrow> funding \<Rightarrow> funding" where
  "failure_row cfg now rec err r =
     (if fn_retryCount rec + 1 \<ge> fn_maxRetries rec
      then r\<lparr>fn_status := FundDeadLetter, fn_error := Some err\<rparr>
      else r\<lparr>fn_status := FundPending, fn_error := Some err,
             fn_nextAttemptAt := Some (now + backoff_ms (fc_backoffBaseMinutes cfg) (fn_retryCount rec + 1))\<rparr>)"

definition funding_failure :: "funding_config \<Rightarrow> time \<Rightarrow> funding \<Rightarrow> string \<Rightarrow> funding_db \<Rightarrow> funding_db" where
  "funding_failure cfg now rec err = update_funding (fn_id rec) (failure_row cfg now rec err)"

definition checkAlreadyFunded ::
    "funding_config \<Rightarrow> stellar_api \<Rightarrow> time \<Rightarrow> funding \<Rightarrow> funding_db \<Rightarrow> bool \<times> funding_db" where
  "checkAlreadyFunded cfg st now rec db =
     (case st_balance st (fn_publicKey rec) of
        None \<Rightarrow> (False, db)
      | Some b \<Rightarrow> if b \<ge> fc_minBalance cfg then (True, markConfirmed now rec None None db) else (False, db))"

definition reconcile ::
    "funding_config \<Rightarrow> stellar_api \<Rightarrow> time \<Rightarrow> funding \<Rightarrow> funding_db \<Rightarrow> funding_db" where
  "reconcile cfg st now rec db =
     (case checkAlreadyFunded cfg st now rec db of
        (True, db1) \<Rightarrow> db1
      | (False, db1) \<Rightarrow>
          (case fn_transactionHash rec of
             Some h \<Rightarrow>
               if h \<noteq> [] \<and> st_verify st h = Some True then markConfirmed now rec (Some h) (fn_ledger rec) db1
               else funding_failure cfg now rec ''Reconciliation: funding not confirmed, retrying'' db1
           | None \<Rightarrow> funding_failure cfg now rec ''Reconciliation: funding not confirmed, retrying'' db1))"

definition isInsufficientFundsError :: "string \<Rightarrow> bool" where
  "isInsufficientFundsError cause \<longleftrightarrow> sublist ''op_underfunded'' cause \<or> sublist ''insufficient'' cause"

definition processFunding ::
    "funding_config \<Rightarrow> stellar_api \<Rightarrow> time \<Rightarrow> funding \<Rightarrow> funding_db \<Rightarrow> funding_db" where
  "processFunding cfg st now rec db =
     (let db1 = update_funding (fn_id rec)
                  (\<lambda>r. r\<lparr>fn_retryCount := fn_retryCount r + 1, fn_lastAttemptAt := Some now\<rparr>) db in
      if fn_status rec = FundSubmitted then reconcile cfg st now rec db1
      else
        (case checkAlreadyFunded cfg st now rec db1 of
           (True, db2) \<Rightarrow> db2
         | (False, db2) \<Rightarrow>
             (case fc_sourceSecret cfg of
                None \<Rightarrow> funding_failure cfg now rec ''Funding source secret not configured'' db2
              | Some secret \<Rightarrow>
                  if secret = [] then funding_failure cfg now rec ''Funding source secret not configured'' db2
                  else
                    (let db3 = db2\<lparr>fd_sent := fd_sent db2 @ [(fn_publicKey rec, fn_amount rec)]\<rparr> in
                     case st_pay st (fn_publicKey rec) (fn_amount rec) of
                       Inr (hash, ledger) \<Rightarrow> markConfirmed now rec (Some hash) ledger db3
                     | Inl (StellarFailure code msg cause) \<Rightarrow>
                         if code = ''TRANSACTION_TIMEOUT''
                         then update_funding (fn_id rec)
                                (\<lambda>r. r\<lparr>fn_status := FundSubmitted,
                                       fn_error := Some ''Transaction submitted, awaiting confirmation''\<rparr>) db3
                         else if code = ''PAYMENT_ERROR'' \<and> isInsufficientFundsError cause
                         then funding_failure cfg now rec ''Insufficient funding source balance'' db3
                         else funding_failure cfg now rec msg db3
                     | Inl (OtherFailure msg) \<Rightarrow> funding_failure cfg now rec msg db3))))"

definition funding_due :: "funding_config \<Rightarrow> time \<Rightarrow> funding \<Rightarrow> bool" where
  "funding_due cfg now r \<longleftrightarrow> fn_status r \<in> {FundPending, FundSubmitted}
     \<and> due_at now (fn_nextAttemptAt r) \<and> fn_retryCount r < fc_maxRetries cfg"

definition funding_processQueue ::
    "funding_config \<Rightarrow> stellar_api \<Rightarrow> time \<Rightarrow> funding_db \<Rightarrow> funding_db" where
  "funding_processQueue cfg st now db =
     foldl (\<lambda>s r. processFunding cfg st now r s) db (filter (funding_due cfg now) (fd_rows db))"

section \<open>Properties\<close>

lemma funding_not_due: "\<not> funding_due cfg now r \<Longrightarrow> funding_processQueue cfg st now \<lparr>fd_rows = [r], fd_sent = ps\<rparr>
    = \<lparr>fd_rows = [r], fd_sent = ps\<rparr>"
  by (simp add: funding_processQueue_def)

lemma funding_timeout_step:
  assumes "funding_due cfg now r" and "fn_status r = FundPending"
    and "fc_sourceSecret cfg = Some k" and "k \<noteq> []"
    and "st_balance st (fn_publicKey r) = None"
    and "st_pay st (fn_publicKey r) (fn_amount r) = Inl (StellarFailure ''TRANSACTION_TIMEOUT'' m cause)"
  shows "funding_processQueue cfg st now \<lparr>fd_rows = [r], fd_sent = ps\<rparr> =
     \<lparr>fd_rows = [r\<lparr>fn_retryCount := fn_retryCount r + 1, fn_lastAttemptAt := Some now, fn_status := FundSubmitted,
                   fn_error := Some ''Transaction submitted, awaiting confirmation''\<rparr>],
      fd_sent = ps @ [(fn_publicKey r, fn_amount r)]\<rparr>"
  using assms
  by (simp add: funding_processQueue_def processFunding_def Let_def checkAlreadyFunded_def update_funding_def)

lemma funding_reconcile_step:
  assumes "funding_due cfg now r" and "fn_status r = FundSubmitted" and "fn_transactionHash r = None"
    and "st_balance st (fn_publicKey r) = None"
  shows "funding_processQueue cfg st now \<lparr>fd_rows = [r], fd_sent = ps\<rparr> =
     \<lparr>fd_rows = [failure_row cfg now r ''Reconciliation: funding not confirmed, retrying''
                   (r\<lparr>fn_retryCount := fn_retryCount r + 1, fn_lastAttemptAt := Some now\<rparr>)],
      fd_sent = ps\<rparr>"
  using assms
  by (simp add: funding_processQueue_def processFunding_def Let_def checkAlreadyFunded_def update_funding_def
      reconcile_def funding_failure_def)

text \<open>
  A payment that times out is recorded as submitted without its transaction hash, so the
  reconciliation has nothing to verify. When the balance cannot be read meanwhile, the row goes
  back to pending and the same account is paid a second time, although the first payment
  may have gone through.
\<close>

theorem timed_out_funding_paid_twice:
  assumes "fn_status r = FundPending" and "fn_transactionHash r = None" and "due_at t1 (fn_nextAttemptAt r)"
    and "fn_retryCount r + 3 \<le> fn_maxRetries r" and "fn_maxRetries r \<le> fc_maxRetries cfg" and "t1 \<le> t2"
    and "fc_sourceSecret cfg = Some k" and "k \<noteq> []"
    and "st_balance st (fn_publicKey r) = None"
    and "st_pay st (fn_publicKey r) (fn_amount r) = Inl (StellarFailure ''TRANSACTION_TIMEOUT'' m cause)"
  shows "fd_sent (funding_processQueue cfg st (t2 + backoff_ms (fc_backoffBaseMinutes cfg) (fn_retryCount r + 2))
           (funding_processQueue cfg st t2
             (funding_processQueue cfg st t1 \<lparr>fd_rows = [r], fd_sent = []\<rparr>)))
         = [(fn_publicKey r, fn_amount r), (fn_publicKey r, fn_amount r)]"
proof -
  let ?r1 = "r\<lparr>fn_retryCount := fn_retryCount r + 1, fn_lastAttemptAt := Some t1, fn_status := FundSubmitted,
               fn_error := Some ''Transaction submitted, awaiting confirmation''\<rparr>"
  let ?r2 = "failure_row cfg t2 ?r1 ''Reconciliation: funding not confirmed, retrying''
               (?r1\<lparr>fn_retryCount := fn_retryCount ?r1 + 1, fn_lastAttemptAt := Some t2\<rparr>)"
  let ?t3 = "t2 + backoff_ms (fc_backoffBaseMinutes cfg) (fn_retryCount r + 2)"
  have d1: "funding_due cfg t1 r" using assms by (simp add: funding_due_def)
  have one: "funding_processQueue cfg st t1 \<lparr>fd_rows = [r], fd_sent = []\<rparr> =
      \<lparr>fd_rows = [?r1], fd_sent = [(fn_publicKey r, fn_amount r)]\<rparr>"
    using funding_timeout_step [OF d1 assms(1,7-10), of "[]"] by simp
  have d2: "funding_due cfg t2 ?r1"
    using assms by (auto simp: funding_due_def due_at_def split: option.splits)
  have two: "funding_processQueue cfg st t2 \<lparr>fd_rows = [?r1], fd_sent = [(fn_publicKey r, fn_amount r)]\<rparr> =
      \<lparr>fd_rows = [?r2], fd_sent = [(fn_publicKey r, fn_amount r)]\<rparr>"
    using d2 assms(2,9) by (intro funding_reconcile_step) simp_all
  have r2: "fn_status ?r2 = FundPending" "fn_publicKey ?r2 = fn_publicKey r" "fn_amount ?r2 = fn_amount r"
    "fn_retryCount ?r2 = fn_retryCount r + 2" "fn_nextAttemptAt ?r2 = Some ?t3"
    using assms(4) by (simp_all add: failure_row_def)
  have d3: "funding_due cfg ?t3 ?r2"
    using assms(4,5) r2 by (simp add: funding_due_def due_at_def)
  have "funding_processQueue cfg st ?t3 \<lparr>fd_rows = [?r2], fd_sent = [(fn_publicKey r, fn_amount r)]\<rparr> =
      \<lparr>fd_rows = [?r2\<lparr>fn_retryCount := fn_retryCount ?r2 + 1, fn_lastAttemptAt := Some ?t3, fn_status := FundSubmitted,
               fn_error := Some ''Transaction submitted, awaiting confirmation''\<rparr>],
       fd_sent = [(fn_publicKey r, fn_amount r)] @ [(fn_publicKey ?r2, fn_amount ?r2)]\<rparr>"
    using d3 r2 assms(7-10) by (intro funding_timeout_step) simp_all
  with one two r2 show ?thesis by simp
qed

abbreviation demo_funding :: funding where
  "demo_funding \<equiv> \<lparr>fn_id = ''f'', fn_publicKey = ''G'', fn_amount = ''10'', fn_status = FundPending,
     fn_transactionHash = None, fn_ledger = None, fn_retryCount = 0, fn_maxRetries = 5,
     fn_nextAttemptAt = Some 0, fn_lastAttemptAt = None, fn_error = None, fn_confirmedAt = None\<rparr>"

abbreviation demo_funding_config :: funding_config where
  "demo_funding_config \<equiv> \<lparr>fc_amount = ''10'', fc_minBalance = 1, fc_maxRetries = 5, fc_backoffBaseMinutes = 5,
     fc_sourceSecret = Some ''S''\<rparr>"

abbreviation timing_out :: stellar_api where
  "timing_out \<equiv> \<lparr>st_balance = (\<lambda>_. None),
     st_pay = (\<lambda>_ _. Inl (StellarFailure ''TRANSACTION_TIMEOUT'' '''' '''')), st_verify = (\<lambda>_. None)\<rparr>"

theorem timed_out_funding_paid_twice_witness:
  "length (fd_sent (funding_processQueue demo_funding_config timing_out (20 + 300000)
      (funding_processQueue demo_funding_config timing_out 20
        (funding_processQueue demo_funding_config timing_out 10 \<lparr>fd_rows = [demo_funding], fd_sent = []\<rparr>)))) = 2"
  using timed_out_funding_paid_twice [of demo_funding 10 demo_funding_config 20 "''S''" timing_out "''''" "''''"]
  by (simp add: due_at_def backoff_ms_def)

text \<open>
  A row whose last allowed attempt times out stays submitted for good: no later run of the
  queue touches it, whatever the time and whatever the Stellar service would answer, so it is
  neither confirmed nor dead-lettered.
\<close>

theorem last_attempt_timeout_is_stuck:
  assumes "funding_due cfg now r" and "fn_status r = FundPending" and "fn_retryCount r + 1 = fc_maxRetries cfg"
    and "fc_sourceSecret cfg = Some k" and "k \<noteq> []"
    and "st_balance st (fn_publicKey r) = None"
    and "st_pay st (fn_publicKey r) (fn_amount r) = Inl (StellarFailure ''TRANSACTION_TIMEOUT'' m cause)"
  shows "let db = funding_processQueue cfg st now \<lparr>fd_rows = [r], fd_sent = []\<rparr>
         in map fn_status (fd_rows db) = [FundSubmitted] \<and> (\<forall>st' t. funding_processQueue cfg st' t db = db)"
proof -
  let ?r1 = "r\<lparr>fn_retryCount := fn_retryCount r + 1, fn_lastAttemptAt := Some now, fn_status := FundSubmitted,
               fn_error := Some ''Transaction submitted, awaiting confirmation''\<rparr>"
  have "funding_processQueue cfg st now \<lparr>fd_rows = [r], fd_sent = []\<rparr> =
      \<lparr>fd_rows = [?r1], fd_sent = [(fn_publicKey r, fn_amount r)]\<rparr>"
    using funding_timeout_step [OF assms(1,2,4-7), of "[]"] by simp
  moreover have "\<not> funding_due cfg t ?r1" for t
    using assms(3) by (simp add: funding_due_def)
  ultimately show ?thesis
    by (simp add: Let_def funding_not_due)
qed

theorem last_attempt_timeout_is_stuck_witness:
  "let db = funding_processQueue demo_funding_config timing_out 10
              \<lparr>fd_rows = [demo_funding\<lparr>fn_retryCount := 4\<rparr>], fd_sent = []\<rparr>
   in map fn_status (fd_rows db) = [FundSubmitted]"
  using last_attempt_timeout_is_stuck [of demo_funding_config 10 "demo_funding\<lparr>fn_retryCount := 4\<rparr>" "''S''"
      timing_out "''''" "''''"]
  by (simp add: funding_due_def due_at_def Let_def)

interpretation funding_retry: retry_policy fn_retryCount fn_maxRetries "\<lambda>r. fn_status r \<in> {FundPending, FundSubmitted}"
    "\<lambda>r. failure_row cfg now r err (r\<lparr>fn_retryCount := fn_retryCount r + 1\<rparr>)"
  by unfold_locales (auto simp: failure_row_def)

end
