(* ===== verification/Accounts.thy ===== *)
theory Accounts
  imports Sessions
begin

text \<open>
  The account life cycle: \<open>src/src/services/account-lifecycle.service.ts\<close>. Besides the user
  table, the requests and the sessions, every other table of the schema that belongs to a
  user is kept as the list of its rows with their owner (\<open>ac_tables\<close>). A failure of the database while a
  deletion is finalized is the argument \<open>fault\<close>; the transaction then leaves nothing behind.
  Deleting a session also deletes its refresh tokens (a cascade of the schema); tokens are not
  part of this state.
\<close>

datatype account_status = StActive | StDeactivated | StPendingDeletion | StDeleted

datatype deletion_status = DelPending | DelProcessing | DelCompleted | DelCancelled | DelFailed

record user_row =
  us_id :: ident
  us_email :: string
  us_username :: string
  us_password :: string
  us_walletAddress :: "string option"
  us_isVerified :: bool
  us_phone :: "string option"
  us_phoneVerifiedAt :: "time option"
  us_status :: account_status
  us_statusChangedAt :: "time option"
  us_lastLoginAt :: "time option"

record deletion_request =
  dr_id :: ident
  dr_userId :: ident
  dr_status :: deletion_status
  dr_reason :: "string option"
  dr_scheduledFor :: time
  dr_cancelledAt :: "time option"
  dr_completedAt :: "time option"
  dr_error :: "string option"
  dr_attemptCount :: nat
  dr_maxAttempts :: nat
  dr_nextAttemptAt :: "time option"
  dr_lastAttemptAt :: "time option"
  dr_createdAt :: time

datatype owned_table =
    TVerificationToken | TDeviceToken | TSyncEvent | TNotificationLog | TNotificationPreference
  | TEmailDelivery | TCompletion | TReferralCode | TDataExportRequest
  | TTransaction | TCredential | TReferral | TLearnerProfile | TLearnerPreference
  | TOnboardingProgress | TConsentRecord | TPreferenceAuditLog | TOtpChallenge | TAvatar | TWallet

record owned_row =
  ow_userId :: ident
  ow_data :: json

datatype account_action =
    EXPORT_REQUESTED | EXPORT_READY | EXPORT_DOWNLOADED | EXPORT_PURGED
  | ACCOUNT_DEACTIVATED | ACCOUNT_REACTIVATED | DELETION_REQUESTED | DELETION_CANCELLED | DELETION_COMPLETED
  | STEP_UP_FAILED

record account_audit =
  aa_userId :: ident
  aa_action :: account_action
  aa_metadata :: "json option"
  aa_ipAddress :: "string option"
  aa_userAgent :: "string option"

record account_db =
  ac_users :: "user_row list"
  ac_requests :: "deletion_request list"
  ac_sessions :: "session_row list"
  ac_audit :: "account_audit list"
  ac_tables :: "owned_table \<Rightarrow> owned_row list"

definition account_op ::
    "refresh_context \<Rightarrow> ident \<Rightarrow> account_action \<Rightarrow> json option \<Rightarrow> account_db \<Rightarrow> account_db" where
  "account_op ctx userId action meta db = db\<lparr>ac_audit := ac_audit db @
     [\<lparr>aa_userId = userId, aa_action = action, aa_metadata = meta,
       aa_ipAddress = cx_ipAddress ctx, aa_userAgent = cx_userAgent ctx\<rparr>]\<rparr>"

definition set_status :: "time \<Rightarrow> ident \<Rightarrow> account_status \<Rightarrow> account_db \<Rightarrow> account_db" where
  "set_status now userId st db = db\<lparr>ac_users := update_where (\<lambda>u. us_id u = userId)
     (\<lambda>u. u\<lparr>us_status := st, us_statusChangedAt := Some now\<rparr>) (ac_users db)\<rparr>"

definition revoke_user_sessions :: "time \<Rightarrow> ident \<Rightarrow> account_db \<Rightarrow> account_db" where
  "revoke_user_sessions now userId db = db\<lparr>ac_sessions :=
     update_where (\<lambda>s. ss_userId s = userId \<and> \<not> ss_isRevoked s) (mark_revoked now) (ac_sessions db)\<rparr>"

section \<open>Deactivation\<close>

datatype deactivate_result = Deactivated | DeactivateConflict account_status

definition deactivate ::
    "time \<Rightarrow> ident \<Rightarrow> account_status \<Rightarrow> refresh_context \<Rightarrow> account_db \<Rightarrow> deactivate_result \<times> account_db" where
  "deactivate now userId currentStatus ctx db =
     (if currentStatus \<noteq> StActive then (DeactivateConflict currentStatus, db)
      else (Deactivated,
            account_op ctx userId ACCOUNT_DEACTIVATED None
              (revoke_user_sessions now userId (set_status now userId StDeactivated db))))"

definition reactivate :: "time \<Rightarrow> ident \<Rightarrow> refresh_context \<Rightarrow> account_db \<Rightarrow> account_db" where
  "reactivate now userId ctx db = account_op ctx userId ACCOUNT_REACTIVATED None (set_status now userId StActive db)"

section \<open>Requesting and cancelling a deletion\<close>

definition active_request :: "ident \<Rightarrow> deletion_request \<Rightarrow> bool" where
  "active_request userId r \<longleftrightarrow> dr_userId r = userId \<and> dr_status r \<in> {DelPending, DelProcessing}"

datatype request_result = DelRequestCreated deletion_request | DelRequestDuplicate deletion_request

text \<open>The partial unique index allows one active request per user: a request created meanwhile
  wins, and is what the \<open>catch\<close> finds. Both paths return the active request that exists.\<close>

definition requestDeletion ::
    "time \<Rightarrow> int \<Rightarrow> ident \<Rightarrow> ident \<Rightarrow> string option \<Rightarrow> refresh_context \<Rightarrow> account_db \<Rightarrow> request_result \<times> account_db" where
  "requestDeletion now coolingOffDays rowId userId reason ctx db =
     (case List.find (active_request userId) (ac_requests db) of
        Some r \<Rightarrow> (DelRequestDuplicate r, db)
      | None \<Rightarrow>
          (let r = \<lparr>dr_id = rowId, dr_userId = userId, dr_status = DelPending, dr_reason = reason,
                    dr_scheduledFor = now + coolingOffDays * 24 * 60 * 60000, dr_cancelledAt = None,
                    dr_completedAt = None, dr_error = None, dr_attemptCount = 0, dr_maxAttempts = 5,
                    dr_nextAttemptAt = None, dr_lastAttemptAt = None, dr_createdAt = now\<rparr>
           in (DelRequestCreated r,
               account_op ctx userId DELETION_REQUESTED (Some (JObj [(''scheduledFor'', JNum (dr_scheduledFor r))]))
                 (revoke_user_sessions now userId
                   (set_status now userId StPendingDeletion (db\<lparr>ac_requests := ac_requests db @ [r]\<rparr>))))))"

definition getLatestDeletionRequest :: "ident \<Rightarrow> account_db \<Rightarrow> deletion_request option" where
  "getLatestDeletionRequest userId db = first_by (\<lambda>r. - dr_createdAt r) (\<lambda>r. dr_userId r = userId) (ac_requests db)"

datatype cancel_result = DelCancelDone "deletion_request option" | DelCancelFinalized | DelCancelNone

definition cancellable :: "ident \<Rightarrow> deletion_request \<Rightarrow> bool" where
  "cancellable userId r \<longleftrightarrow> dr_userId r = userId \<and> dr_status r = DelPending"

definition mark_cancelled :: "time \<Rightarrow> deletion_request \<Rightarrow> deletion_request" where
  "mark_cancelled now r = r\<lparr>dr_status := DelCancelled, dr_cancelledAt := Some now\<rparr>"

definition cancelDeletion ::
    "time \<Rightarrow> ident \<Rightarrow> refresh_context \<Rightarrow> account_db \<Rightarrow> cancel_result \<times> account_db" where
  "cancelDeletion now userId ctx db =
     (let db1 = db\<lparr>ac_requests := update_where (cancellable userId) (mark_cancelled now) (ac_requests db)\<rparr> in
      if count_where (cancellable userId) (ac_requests db) = 0 then
        (case getLatestDeletionRequest userId db1 of
           None \<Rightarrow> (DelCancelNone, db1)
         | Some r \<Rightarrow> ((if dr_status r \<in> {DelProcessing, DelCompleted} then DelCancelFinalized else DelCancelNone), db1))
      else
        (let db2 = account_op ctx userId DELETION_CANCELLED None (set_status now userId StActive db1)
         in (DelCancelDone (getLatestDeletionRequest userId db2), db2)))"

section \<open>Finalizing\<close>

definition deleted_tables :: "owned_table list" where
  "deleted_tables = [TVerificationToken, TDeviceToken, TSyncEvent, TNotificationLog, TNotificationPreference,
     TEmailDelivery, TCompletion, TReferralCode, TDataExportRequest]"

definition tombstoneSuffix :: "ident \<Rightarrow> string" where
  "tombstoneSuffix userId = take 12 (filter (\<lambda>c. c \<noteq> CHR ''-'') userId)"

definition anonymize :: "time \<Rightarrow> string \<Rightarrow> user_row \<Rightarrow> user_row" where
  "anonymize now randomHex u =
     u\<lparr>us_email := ''deleted+'' @ tombstoneSuffix (us_id u) @ ''@anon.invalid'',
       us_username := ''deleted_'' @ tombstoneSuffix (us_id u), us_password := randomHex,
       us_walletAddress := None, us_isVerified := False, us_lastLoginAt := None,
       us_status := StDeleted, us_statusChangedAt := Some now\<rparr>"

definition scrub_audit :: "account_audit \<Rightarrow> account_audit" where
  "scrub_audit a = a\<lparr>aa_ipAddress := None, aa_userAgent := None,
     aa_metadata := Some (JObj [(''redacted'', JBool True)])\<rparr>"

definition finalizeDeletion :: "time \<Rightarrow> string \<Rightarrow> ident \<Rightarrow> ident \<Rightarrow> account_db \<Rightarrow> account_db" where
  "finalizeDeletion now randomHex requestId userId db =
     account_op \<lparr>cx_ipAddress = None, cx_userAgent = None\<rparr> userId DELETION_COMPLETED
       (Some (JObj [(''requestId'', JStr requestId)]))
       (db\<lparr>ac_sessions := delete_where (\<lambda>s. ss_userId s = userId) (ac_sessions db),
           ac_tables := (\<lambda>t. if t \<in> set deleted_tables
               then delete_where (\<lambda>r. ow_userId r = userId) (ac_tables db t) else ac_tables db t),
           ac_audit := update_where (\<lambda>a. aa_userId a = userId) scrub_audit (ac_audit db),
           ac_users := update_where (\<lambda>u. us_id u = userId) (anonymize now randomHex) (ac_users db),
           ac_requests := update_where (\<lambda>r. dr_id r = requestId)
             (\<lambda>r. r\<lparr>dr_status := DelCompleted, dr_completedAt := Some now, dr_error := None\<rparr>) (ac_requests db)\<rparr>)"

definition deletion_due :: "time \<Rightarrow> deletion_request \<Rightarrow> bool" where
  "deletion_due now r \<longleftrightarrow> dr_status r = DelPending \<and> dr_scheduledFor r \<le> now \<and> dr_attemptCount r < 5
     \<and> (case dr_nextAttemptAt r of None \<Rightarrow> True | Some t \<Rightarrow> t \<le> now)"

definition claim_guard :: "ident \<Rightarrow> deletion_request \<Rightarrow> bool" where
  "claim_guard rid r \<longleftrightarrow> dr_id r = rid \<and> dr_status r = DelPending"

definition mark_processing :: "time \<Rightarrow> deletion_request \<Rightarrow> deletion_request" where
  "mark_processing now r = r\<lparr>dr_status := DelProcessing, dr_attemptCount := dr_attemptCount r + 1,
     dr_lastAttemptAt := Some now\<rparr>"

definition claim_deletion :: "time \<Rightarrow> ident \<Rightarrow> account_db \<Rightarrow> nat \<times> account_db" where
  "claim_deletion now rid db = (count_where (claim_guard rid) (ac_requests db),
     db\<lparr>ac_requests := update_where (claim_guard rid) (mark_processing now) (ac_requests db)\<rparr>)"

definition processing_guard :: "ident \<Rightarrow> deletion_request \<Rightarrow> bool" where
  "processing_guard rid r \<longleftrightarrow> dr_id r = rid \<and> dr_status r = DelProcessing"

text \<open>\<open>request\<close> is the row as it was read before the claim.\<close>

definition handleFinalizationFailure ::
    "time \<Rightarrow> deletion_request \<Rightarrow> string \<Rightarrow> account_db \<Rightarrow> account_db" where
  "handleFinalizationFailure now request err db =
     (let next = dr_attemptCount request + 1;
          f = (if next \<ge> dr_maxAttempts request
               then (\<lambda>r. r\<lparr>dr_status := DelFailed, dr_error := Some err\<rparr>)
               else (\<lambda>r. r\<lparr>dr_status := DelPending, dr_error := Some err,
                           dr_nextAttemptAt := Some (now + int (5 ^ (next - 1)) * 60000)\<rparr>))
      in db\<lparr>ac_requests := update_where (processing_guard (dr_id request)) f (ac_requests db)\<rparr>)"

definition process_one ::
    "(ident \<Rightarrow> string option) \<Rightarrow> (ident \<Rightarrow> string) \<Rightarrow> time \<Rightarrow> deletion_request \<Rightarrow> account_db \<Rightarrow> account_db" where
  "process_one fault hex now r db =
     (case claim_deletion now (dr_id r) db of (count, db1) \<Rightarrow>
        if count = 0 then db1
        else case fault (dr_id r) of
               None \<Rightarrow> finalizeDeletion now (hex (dr_id r)) (dr_id r) (dr_userId r) db1
             | Some err \<Rightarrow> handleFinalizationFailure now r err db1)"

definition processDue ::
    "(ident \<Rightarrow> string option) \<Rightarrow> (ident \<Rightarrow> string) \<Rightarrow> time \<Rightarrow> account_db \<Rightarrow> account_db" where
  "processDue fault hex now db =
     foldl (\<lambda>s r. process_one fault hex now r s) db (filter (deletion_due now) (ac_requests db))"

end
