(* ===== verification/AccountProps.thy ===== *)
theory AccountProps
  imports Accounts
begin

text \<open>
  Properties of the account life cycle: what a finalized deletion erases and what it leaves,
  that cancelling and finalizing exclude each other, and what a crash between the claim and the
  end of a finalization does.
\<close>

interpretation claiming: exclusive_claim "claim_guard rid" "mark_processing now"
  by unfold_locales (simp add: claim_guard_def mark_processing_def)

interpretation cancelling: exclusive_claim "cancellable userId" "mark_cancelled now"
  by unfold_locales (simp add: cancellable_def mark_cancelled_def)

lemma account_op_simps [simp]:
  "ac_users (account_op ctx u a m db) = ac_users db" "ac_requests (account_op ctx u a m db) = ac_requests db"
  "ac_sessions (account_op ctx u a m db) = ac_sessions db" "ac_tables (account_op ctx u a m db) = ac_tables db"
  by (simp_all add: account_op_def)

lemma set_status_simps [simp]:
  "ac_requests (set_status now u st db) = ac_requests db" "ac_sessions (set_status now u st db) = ac_sessions db"
  by (simp_all add: set_status_def)

section \<open>Erasure\<close>

lemma process_one_finalizes:
  assumes "r \<in> set (ac_requests db)" and "dr_status r = DelPending" and "fault (dr_id r) = None"
  shows "fst (claim_deletion now (dr_id r) db) \<noteq> 0"
    and "process_one fault hex now r db =
      finalizeDeletion now (hex (dr_id r)) (dr_id r) (dr_userId r) (snd (claim_deletion now (dr_id r) db))"
proof -
  have "count_where (claim_guard (dr_id r)) (ac_requests db) \<noteq> 0"
    unfolding count_where_0 using assms(1,2) by (auto simp: claim_guard_def)
  then show "fst (claim_deletion now (dr_id r) db) \<noteq> 0"
    and "process_one fault hex now r db =
      finalizeDeletion now (hex (dr_id r)) (dr_id r) (dr_userId r) (snd (claim_deletion now (dr_id r) db))"
    using assms(3) by (simp_all add: process_one_def claim_deletion_def)
qed


text \<open>
  The finalization leaves personal data behind: the phone number and its verification stay
  in the user row, and the rows of the user in the tables it does not name (one-time code
  challenges with the phone number, the learner profile, preferences, consent, avatars) are
  all still there.
\<close>

theorem finalized_account_keeps_phone:
  "map us_phone (ac_users (finalizeDeletion now hex requestId userId db)) = map us_phone (ac_users db)
   \<and> map us_phoneVerifiedAt (ac_users (finalizeDeletion now hex requestId userId db)) = map us_phoneVerifiedAt (ac_users db)
   \<and> (\<forall>t. t \<in> {TOtpChallenge, TLearnerProfile, TLearnerPreference, TOnboardingProgress, TConsentRecord,
             TPreferenceAuditLog, TAvatar} \<longrightarrow>
        ac_tables (finalizeDeletion now hex requestId userId db) t = ac_tables db t)"
  by (auto simp: finalizeDeletion_def map_update_where anonymize_def deleted_tables_def)

abbreviation demo_user :: user_row where
  "demo_user \<equiv> \<lparr>us_id = ''u-1'', us_email = ''a@b'', us_username = ''a'', us_password = ''p'',
     us_walletAddress = Some ''G'', us_isVerified = True, us_phone = Some ''+1'', us_phoneVerifiedAt = Some 0,
     us_status = StPendingDeletion, us_statusChangedAt = None, us_lastLoginAt = None\<rparr>"

abbreviation demo_request :: "deletion_status \<Rightarrow> deletion_request" where
  "demo_request st \<equiv> \<lparr>dr_id = ''d'', dr_userId = ''u-1'', dr_status = st, dr_reason = None, dr_scheduledFor = 0,
     dr_cancelledAt = None, dr_completedAt = None, dr_error = None, dr_attemptCount = 0, dr_maxAttempts = 5,
     dr_nextAttemptAt = None, dr_lastAttemptAt = None, dr_createdAt = 0\<rparr>"

abbreviation demo_account :: "deletion_status \<Rightarrow> account_db" where
  "demo_account st \<equiv> \<lparr>ac_users = [demo_user], ac_requests = [demo_request st], ac_sessions = [],
     ac_audit = [], ac_tables = (\<lambda>t. if t = TOtpChallenge then [\<lparr>ow_userId = ''u-1'', ow_data = JStr ''+1''\<rparr>] else [])\<rparr>"


theorem finalized_account_keeps_phone_witness:
  "us_phone (hd (ac_users (finalizeDeletion 9 ''h'' ''d'' ''u-1'' (demo_account DelProcessing)))) = Some ''+1''"
  using finalized_account_keeps_phone [of 9 "''h''" "''d''" "''u-1''" "demo_account DelProcessing"]
  by (simp add: finalizeDeletion_def)

section \<open>Cancelling against finalizing\<close>

lemma no_claim:
  "count_where (claim_guard (dr_id r)) (ac_requests db) = 0 \<Longrightarrow> process_one fault hex now r db = db"
  by (simp add: process_one_def claim_deletion_def count_where_0 update_where_id)



section \<open>A crash during finalization\<close>

text \<open>
  A worker that stops after claiming a request (status processing) leaves the account stuck: no
  later sweep selects the request, whatever the time, the user cannot cancel it, and asking for
  deletion again only reports the stuck request.
\<close>

theorem crashed_finalization_is_stuck:
  assumes "ac_requests db = [r]" and "dr_status r = DelProcessing"
  shows "processDue fault hex t db = db
    \<and> cancelDeletion t (dr_userId r) ctx db = (DelCancelFinalized, db)
    \<and> requestDeletion t days rowId (dr_userId r) reason ctx db = (DelRequestDuplicate r, db)"
proof (intro conjI)
  show "processDue fault hex t db = db"
    using assms by (simp add: processDue_def deletion_due_def)
  have "db\<lparr>ac_requests := [r]\<rparr> = db" using assms(1) by simp
  then show "cancelDeletion t (dr_userId r) ctx db = (DelCancelFinalized, db)"
    using assms
    by (simp add: cancelDeletion_def Let_def cancellable_def getLatestDeletionRequest_def first_by_def)
  show "requestDeletion t days rowId (dr_userId r) reason ctx db = (DelRequestDuplicate r, db)"
    using assms by (simp add: requestDeletion_def active_request_def)
qed

theorem crashed_finalization_is_stuck_witness:
  "processDue (\<lambda>_. None) (\<lambda>_. ''h'') 1000000 (demo_account DelProcessing) = demo_account DelProcessing"
  using crashed_finalization_is_stuck [of "demo_account DelProcessing" "demo_request DelProcessing" "\<lambda>_. None" "\<lambda>_. ''h''"
      1000000] by simp

end
