(* ===== verification/Kms.thy ===== *)
theory Kms
  imports Prelude
begin

text \<open>
  \<open>src/src/services/kms\<close>: the key store of the managed wallets. \<open>kms-secret-store.ts\<close> is the
  interface (the locale \<open>kms_store\<close> states what its comment demands of an implementation),
  \<open>in-memory-envelope-kms.ts\<close> the implementation the server is wired with. A \<open>Map\<close> is the
  list of its entries in insertion order. The AES-GCM cipher of the platform is the parameter
  \<open>aead\<close>; the base64 text of an entry is read as the bytes it encodes. Each call runs a hook
  first (and a store another one after it), which may throw: whether it does is an argument.
\<close>

section \<open>Secrets\<close>

datatype sensitive_value = SensitiveValue string

fun sensitive_use :: "sensitive_value \<Rightarrow> (string \<Rightarrow> 'a) \<Rightarrow> 'a" where
  "sensitive_use (SensitiveValue v) consumer = consumer v"

definition sensitive_toString :: "sensitive_value \<Rightarrow> string" where
  "sensitive_toString v = ''[REDACTED]''"

definition sensitive_toJSON :: "sensitive_value \<Rightarrow> string" where
  "sensitive_toJSON v = ''[REDACTED]''"

record stored_key =
  sk_provider :: string
  sk_opaqueReference :: string
  sk_keyVersion :: "string option"
  sk_publicKey :: string

record store_input =
  si_idempotencyKey :: string
  si_publicKey :: string
  si_secret :: sensitive_value

section \<open>The interface\<close>

text \<open>
  A store is idempotent by its key: it answers with what a later lookup returns, it never
  changes an entry that exists, and it touches no other key. \<open>'c\<close> is what the outside
  contributes to a call: random numbers and failures.
\<close>

locale kms_store =
  fixes lookup :: "'k \<Rightarrow> string \<Rightarrow> stored_key option"
    and store :: "'c \<Rightarrow> store_input \<Rightarrow> 'k \<Rightarrow> ('e + stored_key) \<times> 'k"
  assumes store_found: "store c i k = (Inr m, k') \<Longrightarrow> lookup k' (si_idempotencyKey i) = Some m"
    and store_keeps: "lookup k (si_idempotencyKey i) = Some m \<Longrightarrow> store c i k = (Inr m, k)"
    and store_other: "key \<noteq> si_idempotencyKey i \<Longrightarrow> lookup (snd (store c i k)) key = lookup k key"
begin

lemma never_replaced: "lookup k key = Some m \<Longrightarrow> lookup (snd (store c i k)) key = Some m"
  by (cases "key = si_idempotencyKey i") (simp_all add: store_keeps store_other)

lemma stored_twice: "store c i k = (Inr m, k') \<Longrightarrow> si_idempotencyKey i' = si_idempotencyKey i \<Longrightarrow>
    store c' i' k' = (Inr m, k')"
  by (metis store_found store_keeps)

end

section \<open>The in-memory implementation\<close>

record aead =
  ae_encrypt :: "string \<Rightarrow> string \<Rightarrow> string \<times> string"
  ae_decrypt :: "string \<Rightarrow> string \<Rightarrow> string \<Rightarrow> string option"

record encrypted_entry =
  en_material :: stored_key
  en_ciphertext :: string
  en_iv :: string
  en_authTag :: string

type_synonym kms = "(string \<times> encrypted_entry) list"

datatype kms_error = HookFailed | KmsReferenceNotFound | AuthenticationFailed

record store_call =
  sc_beforeStoreFails :: bool
  sc_afterStoreFails :: bool
  sc_uuid :: string
  sc_iv :: string

definition kms_lookup :: "kms \<Rightarrow> string \<Rightarrow> stored_key option" where
  "kms_lookup k key = map_option en_material (map_of k key)"

definition findByIdempotencyKey :: "bool \<Rightarrow> string \<Rightarrow> kms \<Rightarrow> kms_error + stored_key option" where
  "findByIdempotencyKey hookFails key k = (if hookFails then Inl HookFailed else Inr (kms_lookup k key))"

definition storeStellarSecret ::
    "aead \<Rightarrow> store_call \<Rightarrow> store_input \<Rightarrow> kms \<Rightarrow> (kms_error + stored_key) \<times> kms" where
  "storeStellarSecret ae call i k =
     (case map_of k (si_idempotencyKey i) of
        Some existing \<Rightarrow> (Inr (en_material existing), k)
      | None \<Rightarrow>
          if sc_beforeStoreFails call then (Inl HookFailed, k)
          else
            (let encrypted = sensitive_use (si_secret i) (ae_encrypt ae (sc_iv call));
                 material = \<lparr>sk_provider = ''in-memory-envelope-kms'',
                             sk_opaqueReference = ''kms-memory://'' @ sc_uuid call,
                             sk_keyVersion = Some ''1'', sk_publicKey = si_publicKey i\<rparr>;
                 k' = k @ [(si_idempotencyKey i,
                            \<lparr>en_material = material, en_ciphertext = fst encrypted,
                             en_iv = sc_iv call, en_authTag = snd encrypted\<rparr>)]
             in if sc_afterStoreFails call then (Inl HookFailed, k') else (Inr material, k')))"

definition has_reference :: "string \<Rightarrow> string \<times> encrypted_entry \<Rightarrow> bool" where
  "has_reference ref e \<longleftrightarrow> sk_opaqueReference (en_material (snd e)) = ref"

definition loadStellarSecret :: "aead \<Rightarrow> bool \<Rightarrow> string \<Rightarrow> kms \<Rightarrow> kms_error + sensitive_value option" where
  "loadStellarSecret ae hookFails ref k =
     (if hookFails then Inl HookFailed
      else
        (case List.find (has_reference ref) k of
           None \<Rightarrow> Inr None
         | Some (_, e) \<Rightarrow>
             (case ae_decrypt ae (en_iv e) (en_ciphertext e) (en_authTag e) of
                None \<Rightarrow> Inl AuthenticationFailed
              | Some plaintext \<Rightarrow> Inr (Some (SensitiveValue plaintext)))))"

definition deleteStellarSecret :: "bool \<Rightarrow> string \<Rightarrow> kms \<Rightarrow> (kms_error + unit) \<times> kms" where
  "deleteStellarSecret hookFails ref k =
     (if hookFails then (Inl HookFailed, k)
      else
        (case List.find (has_reference ref) k of
           None \<Rightarrow> (Inl KmsReferenceNotFound, k)
         | Some (key, _) \<Rightarrow> (Inr (), filter (\<lambda>e. fst e \<noteq> key) k)))"

definition storedKeyCount :: "kms \<Rightarrow> nat" where
  "storedKeyCount k = length k"

section \<open>The implementation meets the interface\<close>

lemma map_of_snoc: "map_of (k @ [(a, b)]) x = (case map_of k x of Some y \<Rightarrow> Some y | None \<Rightarrow> if x = a then Some b else None)"
  by (auto simp: map_add_def split: option.splits)

interpretation memory_kms: kms_store kms_lookup "storeStellarSecret ae"
proof (unfold_locales, goal_cases)
  case (1 c i k m k')
  then show ?case
    by (auto simp: storeStellarSecret_def kms_lookup_def Let_def map_of_snoc simp del: map_of_append split: option.splits if_splits)
next
  case (2 k i m c)
  then show ?case by (auto simp: storeStellarSecret_def kms_lookup_def)
next
  case (3 key i c k)
  then show ?case
    by (auto simp: storeStellarSecret_def kms_lookup_def Let_def map_of_snoc simp del: map_of_append split: option.splits)
qed

text \<open>An entry is sound when its secret is that of its public key and its key and reference are
  its own.\<close>

definition entry_sound :: "aead \<Rightarrow> (string \<Rightarrow> string \<Rightarrow> bool) \<Rightarrow> encrypted_entry \<Rightarrow> bool" where
  "entry_sound ae keypair e \<longleftrightarrow>
     (\<exists>s. ae_decrypt ae (en_iv e) (en_ciphertext e) (en_authTag e) = Some s
        \<and> keypair (sk_publicKey (en_material e)) s)"

definition references :: "kms \<Rightarrow> string list" where
  "references k = map (\<lambda>e. sk_opaqueReference (en_material (snd e))) k"

definition kms_ok :: "aead \<Rightarrow> (string \<Rightarrow> string \<Rightarrow> bool) \<Rightarrow> kms \<Rightarrow> bool" where
  "kms_ok ae keypair k \<longleftrightarrow> distinct (map fst k) \<and> distinct (references k)
     \<and> (\<forall>e \<in> set k. entry_sound ae keypair (snd e))"

lemma find_reference:
  assumes "distinct (references k)" and "e \<in> set k"
  shows "List.find (has_reference (sk_opaqueReference (en_material (snd e)))) k = Some e"
proof -
  let ?f = "\<lambda>e. sk_opaqueReference (en_material (snd e))"
  have "has_reference (?f e) = (\<lambda>x. ?f x = ?f e)"
    by (simp add: has_reference_def fun_eq_iff)
  moreover from assms(1) have "distinct (map ?f k)" by (simp add: references_def)
  ultimately show ?thesis using find_key_unique [of ?f k e] assms(2) by simp
qed

lemma load_sound:
  assumes "kms_ok ae keypair k" and "(key, e) \<in> set k"
  shows "\<exists>s. loadStellarSecret ae False (sk_opaqueReference (en_material e)) k = Inr (Some (SensitiveValue s))
           \<and> keypair (sk_publicKey (en_material e)) s"
proof -
  from assms have "List.find (has_reference (sk_opaqueReference (en_material e))) k = Some (key, e)"
    using find_reference [of k "(key, e)"] by (simp add: kms_ok_def)
  moreover from assms have "entry_sound ae keypair e" by (auto simp: kms_ok_def)
  ultimately show ?thesis by (auto simp: loadStellarSecret_def entry_sound_def)
qed

lemma store_ok:
  assumes "kms_ok ae keypair k"
    and law: "\<And>iv s. ae_decrypt ae iv (fst (ae_encrypt ae iv s)) (snd (ae_encrypt ae iv s)) = Some s"
    and "''kms-memory://'' @ sc_uuid call \<notin> set (references k)" and "keypair (si_publicKey i) s"
    and "si_secret i = SensitiveValue s"
  shows "kms_ok ae keypair (snd (storeStellarSecret ae call i k))"
proof (cases "map_of k (si_idempotencyKey i)")
  case None
  then have new: "si_idempotencyKey i \<notin> fst ` set k" by (simp add: map_of_eq_None_iff)
  from assms new None show ?thesis
    by (auto simp: storeStellarSecret_def Let_def kms_ok_def references_def entry_sound_def)
next
  case (Some e)
  with assms(1) show ?thesis by (simp add: storeStellarSecret_def)
qed

end
