(* ===== verification/Wallets.thy ===== *)
theory Wallets
  imports Kms Relay
begin

text \<open>
  The provisioning of managed wallets: the tables and their life cycle
  (\<open>src/src/types/wallet-provisioning.types.ts\<close>, \<open>utils/transitions.ts\<close>), the repository
  (\<open>services/wallet-provisioning.repository.ts\<close>), the worker
  (\<open>jobs/wallet-provisioning.handler.ts\<close>) and the two outbox handlers that drive it
  (\<open>jobs/user-created.handler.ts\<close>, \<open>jobs/wallet-provisioning-requested.handler.ts\<close>).

  The worker reads the clock, generates a key pair and may lose the key store or the database at
  every call: a run gets these as a record \<open>wallet_env\<close>. A database outage fails a transaction
  without an effect. Columns that Prisma maintains and nothing reads (\<open>createdAt\<close> of a wallet,
  \<open>updatedAt\<close>) are left out.
\<close>

section \<open>The life cycle\<close>

datatype wallet_status =
    WReserved | WProvisioning | WRetryable | WActive | WExporting | WMigrated | WFailed | WDisabled

definition canTransition :: "('s \<Rightarrow> 's list) \<Rightarrow> 's \<Rightarrow> 's \<Rightarrow> bool" where
  "canTransition m from to \<longleftrightarrow> to \<in> set (m from)"

fun WALLET_TRANSITIONS :: "wallet_status \<Rightarrow> wallet_status list" where
  "WALLET_TRANSITIONS WReserved = [WProvisioning, WFailed]"
| "WALLET_TRANSITIONS WProvisioning = [WActive, WRetryable, WFailed]"
| "WALLET_TRANSITIONS WRetryable = [WProvisioning, WFailed]"
| "WALLET_TRANSITIONS WActive = [WExporting, WDisabled]"
| "WALLET_TRANSITIONS WExporting = [WActive, WMigrated, WFailed]"
| "WALLET_TRANSITIONS WMigrated = [WDisabled]"
| "WALLET_TRANSITIONS WFailed = [WReserved]"
| "WALLET_TRANSITIONS WDisabled = []"

definition canTransitionWallet :: "wallet_status \<Rightarrow> wallet_status \<Rightarrow> bool" where
  "canTransitionWallet = canTransition WALLET_TRANSITIONS"

datatype wallet_transition_error = InvalidWalletTransition wallet_status wallet_status

definition assertValidWalletTransition ::
    "wallet_status \<Rightarrow> wallet_status \<Rightarrow> wallet_transition_error + unit" where
  "assertValidWalletTransition from to =
     (if canTransitionWallet from to then Inr () else Inl (InvalidWalletTransition from to))"

datatype wallet_job_status = WJPending | WJProcessing | WJRetry | WJCompleted | WJDeadLetter

datatype wallet_failure =
  KEY_GENERATION_FAILED | KMS_UNAVAILABLE | KMS_STORE_UNCERTAIN | DATABASE_FINALIZATION_FAILED

fun failure_name :: "wallet_failure \<Rightarrow> string" where
  "failure_name KEY_GENERATION_FAILED = ''KEY_GENERATION_FAILED''"
| "failure_name KMS_UNAVAILABLE = ''KMS_UNAVAILABLE''"
| "failure_name KMS_STORE_UNCERTAIN = ''KMS_STORE_UNCERTAIN''"
| "failure_name DATABASE_FINALIZATION_FAILED = ''DATABASE_FINALIZATION_FAILED''"

section \<open>Tables\<close>

record wallet =
  w_id :: ident
  w_userId :: ident
  w_network :: string
  w_custody :: string
  w_publicKey :: "string option"
  w_status :: wallet_status
  w_managedKeyReferenceId :: "ident option"
  w_failureCode :: "wallet_failure option"
  w_attemptCount :: nat
  w_provisionedAt :: "time option"
  w_statusChangedAt :: time

record wallet_job =
  wj_id :: ident
  wj_walletId :: ident
  wj_status :: wallet_job_status
  wj_availableAt :: time
  wj_leaseToken :: "ident option"
  wj_leasedUntil :: "time option"
  wj_attempts :: nat
  wj_maxAttempts :: nat
  wj_lastFailureCode :: "wallet_failure option"
  wj_completedAt :: "time option"
  wj_createdAt :: time

record managed_key =
  mk_id :: ident
  mk_provider :: string
  mk_opaqueReference :: string
  mk_keyVersion :: "string option"

record wallet_user =
  wu_id :: ident
  wu_isVerified :: bool
  wu_walletAddress :: "string option"

record wallet_consent =
  wc_userId :: ident
  wc_purpose :: string
  wc_status :: string
  wc_createdAt :: time

record wallet_audit =
  wa_userId :: ident
  wa_action :: string
  wa_metadata :: json

record wallet_db =
  wallets :: "wallet list"
  wallet_jobs :: "wallet_job list"
  managed_keys :: "managed_key list"
  wallet_users :: "wallet_user list"
  wallet_consents :: "wallet_consent list"
  wallet_log :: "wallet_audit list"

record claimed_wallet =
  cl_job :: wallet_job
  cl_wallet :: wallet

record public_wallet =
  pw_id :: ident
  pw_network :: string
  pw_custody :: string
  pw_publicKey :: "string option"
  pw_status :: wallet_status
  pw_failureCode :: "wallet_failure option"

definition toPublicWallet :: "wallet \<Rightarrow> public_wallet" where
  "toPublicWallet w = \<lparr>pw_id = w_id w, pw_network = w_network w, pw_custody = w_custody w,
     pw_publicKey = w_publicKey w, pw_status = w_status w, pw_failureCode = w_failureCode w\<rparr>"

datatype wallet_error =
    USER_NOT_FOUND | USER_NOT_VERIFIED | CUSTODIAL_CONSENT_REQUIRED
  | WalletNotFound | LeaseLost | WalletUniqueViolation | DatabaseDown

section \<open>Reserving a wallet\<close>

definition CUSTODIAL_WALLET_CONSENT_PURPOSE :: string where
  "CUSTODIAL_WALLET_CONSENT_PURPOSE = ''custodial_wallet''"

definition assertEligible :: "ident \<Rightarrow> wallet_db \<Rightarrow> wallet_error + unit" where
  "assertEligible userId db =
     (case List.find (\<lambda>u. wu_id u = userId) (wallet_users db) of
        None \<Rightarrow> Inl USER_NOT_FOUND
      | Some u \<Rightarrow>
          if \<not> wu_isVerified u then Inl USER_NOT_VERIFIED
          else
            (case first_by (\<lambda>c. - wc_createdAt c)
                    (\<lambda>c. wc_userId c = userId \<and> wc_purpose c = CUSTODIAL_WALLET_CONSENT_PURPOSE)
                    (wallet_consents db) of
               None \<Rightarrow> Inl CUSTODIAL_CONSENT_REQUIRED
             | Some c \<Rightarrow> if wc_status c \<noteq> ''granted'' then Inl CUSTODIAL_CONSENT_REQUIRED else Inr ()))"

definition new_wallet :: "time \<Rightarrow> ident \<Rightarrow> ident \<Rightarrow> string \<Rightarrow> wallet" where
  "new_wallet now i userId network = \<lparr>w_id = i, w_userId = userId, w_network = network, w_custody = ''MANAGED'',
     w_publicKey = None, w_status = WReserved, w_managedKeyReferenceId = None, w_failureCode = None,
     w_attemptCount = 0, w_provisionedAt = None, w_statusChangedAt = now\<rparr>"

definition new_wallet_job :: "time \<Rightarrow> ident \<Rightarrow> ident \<Rightarrow> wallet_job" where
  "new_wallet_job now i walletId = \<lparr>wj_id = i, wj_walletId = walletId, wj_status = WJPending,
     wj_availableAt = now, wj_leaseToken = None, wj_leasedUntil = None, wj_attempts = 0, wj_maxAttempts = 8,
     wj_lastFailureCode = None, wj_completedAt = None, wj_createdAt = now\<rparr>"

definition requeue_job :: "time \<Rightarrow> wallet_job \<Rightarrow> wallet_job" where
  "requeue_job now j = j\<lparr>wj_status := WJPending, wj_availableAt := now, wj_leaseToken := None,
     wj_leasedUntil := None, wj_lastFailureCode := None, wj_completedAt := None\<rparr>"

definition reset_failed :: "time \<Rightarrow> wallet \<Rightarrow> wallet" where
  "reset_failed now w = (if w_status w = WFailed
     then w\<lparr>w_status := WReserved, w_failureCode := None, w_statusChangedAt := now\<rparr> else w)"

definition upsert_wallet_job :: "time \<Rightarrow> ident \<Rightarrow> ident \<Rightarrow> wallet_job list \<Rightarrow> wallet_job list" where
  "upsert_wallet_job now jobId walletId js =
     (if walletId \<in> wj_walletId ` set js
      then update_where (\<lambda>j. wj_walletId j = walletId) (requeue_job now) js
      else js @ [new_wallet_job now jobId walletId])"

definition wallet_log_entry :: "ident \<Rightarrow> string \<Rightarrow> (string \<times> json) list \<Rightarrow> wallet_db \<Rightarrow> wallet_db" where
  "wallet_log_entry userId action metadata db =
     db\<lparr>wallet_log := wallet_log db @
          [\<lparr>wa_userId = userId, wa_action = action, wa_metadata = JObj metadata\<rparr>]\<rparr>"

text \<open>\<open>now\<close> is read several times in the transaction of the code; one reading stands for all.\<close>

definition reserve_in_tx ::
    "time \<Rightarrow> ident \<Rightarrow> ident \<Rightarrow> ident \<Rightarrow> string \<Rightarrow> (wallet_db, wallet_error, wallet) step" where
  "reserve_in_tx now walletId jobId userId network db =
     (case assertEligible userId db of
        Inl e \<Rightarrow> (Inl e, db)
      | Inr _ \<Rightarrow>
          (let before = List.find (\<lambda>w. w_userId w = userId) (wallets db);
               db1 = (case before of Some _ \<Rightarrow> db
                      | None \<Rightarrow> db\<lparr>wallets := wallets db @ [new_wallet now walletId userId network]\<rparr>);
               upserted = (case before of Some w \<Rightarrow> w | None \<Rightarrow> new_wallet now walletId userId network);
               w = reset_failed now upserted;
               db2 = db1\<lparr>wallets := update_where (\<lambda>x. w_id x = w_id w) (reset_failed now) (wallets db1)\<rparr>;
               db3 = (if w_status w \<noteq> WActive
                      then db2\<lparr>wallet_jobs := upsert_wallet_job now jobId (w_id w) (wallet_jobs db2)\<rparr>
                      else db2);
               db4 = (if before = None \<or> w_status upserted = WFailed
                      then wallet_log_entry userId
                             (if before = None then ''WALLET_PROVISIONING_RESERVED''
                              else ''WALLET_PROVISIONING_REQUEUED'')
                             [(''walletId'', JStr (w_id w)), (''network'', JStr network)] db3
                      else db3)
           in (Inr w, db4)))"

definition reserveEligibleWallet ::
    "time \<Rightarrow> ident \<Rightarrow> ident \<Rightarrow> ident \<Rightarrow> string \<Rightarrow> (wallet_db, wallet_error, wallet) step" where
  "reserveEligibleWallet now walletId jobId userId network =
     transaction (reserve_in_tx now walletId jobId userId network)"

definition getByUserId :: "ident \<Rightarrow> wallet_db \<Rightarrow> wallet option" where
  "getByUserId userId db = List.find (\<lambda>w. w_userId w = userId) (wallets db)"

text \<open>\<open>services/wallet-provisioning.service.ts\<close>.\<close>

definition wallet_request ::
    "time \<Rightarrow> ident \<Rightarrow> ident \<Rightarrow> ident \<Rightarrow> string option \<Rightarrow> (wallet_db, wallet_error, public_wallet) step" where
  "wallet_request now walletId jobId userId network db =
     (case reserveEligibleWallet now walletId jobId userId (or_default ''TESTNET'' network) db of
        (Inl e, db') \<Rightarrow> (Inl e, db')
      | (Inr w, db') \<Rightarrow> (Inr (toPublicWallet w), db'))"

definition getForUser :: "ident \<Rightarrow> wallet_db \<Rightarrow> public_wallet option" where
  "getForUser userId db = map_option toPublicWallet (getByUserId userId db)"

section \<open>Claiming a job\<close>

definition claimableWhere :: "time \<Rightarrow> wallet_job \<Rightarrow> bool" where
  "claimableWhere now j \<longleftrightarrow>
     (wj_status j \<in> {WJPending, WJRetry} \<and> wj_availableAt j \<le> now)
   \<or> (wj_status j = WJProcessing \<and> (case wj_leasedUntil j of Some t \<Rightarrow> t < now | None \<Rightarrow> False))"

definition lease_job :: "time \<Rightarrow> ident \<Rightarrow> wallet_job \<Rightarrow> wallet_job" where
  "lease_job until token j = j\<lparr>wj_status := WJProcessing, wj_leaseToken := Some token,
     wj_leasedUntil := Some until, wj_attempts := wj_attempts j + 1\<rparr>"

definition start_attempt :: "time \<Rightarrow> wallet \<Rightarrow> wallet" where
  "start_attempt now w = w\<lparr>w_status := WProvisioning, w_attemptCount := w_attemptCount w + 1,
     w_statusChangedAt := now\<rparr>"

text \<open>
  The wallet that is returned is the one read with the job, before it is updated, with its status
  overwritten.
\<close>

definition claimCandidate ::
    "time \<Rightarrow> ident \<Rightarrow> int \<Rightarrow> ident \<Rightarrow> wallet_db \<Rightarrow> claimed_wallet option \<times> wallet_db" where
  "claimCandidate now token leaseMs jobId db =
     (let guard = (\<lambda>j. wj_id j = jobId \<and> claimableWhere now j) in
      if count_where guard (wallet_jobs db) \<noteq> 1 then (None, db)
      else
        (let db1 = db\<lparr>wallet_jobs := update_where guard (lease_job (now + leaseMs) token) (wallet_jobs db)\<rparr> in
         case List.find (\<lambda>j. wj_id j = jobId) (wallet_jobs db1) of
           None \<Rightarrow> (None, db)
         | Some job \<Rightarrow>
             (case List.find (\<lambda>w. w_id w = wj_walletId job) (wallets db1) of
                None \<Rightarrow> (None, db)
              | Some w \<Rightarrow>
                  (let db2 = db1\<lparr>wallets := update_where (\<lambda>x. w_id x = wj_walletId job) (start_attempt now)
                                             (wallets db1)\<rparr>;
                       db3 = wallet_log_entry (w_userId w) ''WALLET_PROVISIONING_ATTEMPTED''
                               [(''walletId'', JStr (wj_walletId job)), (''attempt'', JNum (int (wj_attempts job)))] db2
                   in (Some \<lparr>cl_job = job\<lparr>wj_leaseToken := Some token\<rparr>,
                             cl_wallet = w\<lparr>w_status := WProvisioning\<rparr>\<rparr>, db3)))))"

fun claim_first ::
    "time \<Rightarrow> ident \<Rightarrow> int \<Rightarrow> ident list \<Rightarrow> wallet_db \<Rightarrow> claimed_wallet option \<times> wallet_db" where
  "claim_first now token leaseMs [] db = (None, db)"
| "claim_first now token leaseMs (i # is) db =
     (case claimCandidate now token leaseMs i db of
        (Some c, db') \<Rightarrow> (Some c, db')
      | (None, db') \<Rightarrow> claim_first now token leaseMs is db')"

definition claimNext :: "time \<Rightarrow> ident \<Rightarrow> int \<Rightarrow> wallet_db \<Rightarrow> claimed_wallet option \<times> wallet_db" where
  "claimNext now token leaseMs db =
     claim_first now token leaseMs
       (map wj_id (take 10 (sort_key wj_availableAt (sort_key wj_createdAt
          (filter (claimableWhere now) (wallet_jobs db)))))) db"

definition claimByWalletId ::
    "time \<Rightarrow> ident \<Rightarrow> int \<Rightarrow> ident \<Rightarrow> wallet_db \<Rightarrow> claimed_wallet option \<times> wallet_db" where
  "claimByWalletId now token leaseMs walletId db =
     (case List.find (\<lambda>j. wj_walletId j = walletId \<and> claimableWhere now j) (wallet_jobs db) of
        None \<Rightarrow> (None, db)
      | Some j \<Rightarrow> claimCandidate now token leaseMs (wj_id j) db)"

section \<open>Finishing an attempt\<close>

definition holds_wallet_lease :: "ident \<Rightarrow> wallet_job \<Rightarrow> bool" where
  "holds_wallet_lease token j \<longleftrightarrow> wj_status j = WJProcessing \<and> wj_leaseToken j = Some token"

definition activate_wallet :: "time \<Rightarrow> stored_key \<Rightarrow> ident \<Rightarrow> wallet \<Rightarrow> wallet" where
  "activate_wallet now m keyId w = w\<lparr>w_publicKey := Some (sk_publicKey m), w_managedKeyReferenceId := Some keyId,
     w_status := WActive, w_failureCode := None, w_provisionedAt := Some now, w_statusChangedAt := now\<rparr>"

definition finish_job :: "time \<Rightarrow> wallet_job \<Rightarrow> wallet_job" where
  "finish_job now j = j\<lparr>wj_status := WJCompleted, wj_leaseToken := None, wj_leasedUntil := None,
     wj_lastFailureCode := None, wj_completedAt := Some now\<rparr>"

text \<open>\<open>managedKeyReference.upsert\<close>: the identifier of the row and the rows after it.\<close>

definition upsert_key :: "ident \<Rightarrow> stored_key \<Rightarrow> managed_key list \<Rightarrow> ident \<times> managed_key list" where
  "upsert_key keyId m ks =
     (case List.find (\<lambda>k. mk_opaqueReference k = sk_opaqueReference m) ks of
        Some k \<Rightarrow> (mk_id k,
          update_where (\<lambda>x. mk_opaqueReference x = sk_opaqueReference m)
            (\<lambda>x. x\<lparr>mk_provider := sk_provider m, mk_keyVersion := sk_keyVersion m\<rparr>) ks)
      | None \<Rightarrow> (keyId, ks @ [\<lparr>mk_id = keyId, mk_provider = sk_provider m,
          mk_opaqueReference = sk_opaqueReference m, mk_keyVersion = sk_keyVersion m\<rparr>]))"

text \<open>The unique columns the three updates write: the public key and the key reference of a
  wallet, the wallet address of a user.\<close>

definition wallet_columns_free :: "wallet \<Rightarrow> string \<Rightarrow> ident \<Rightarrow> wallet_db \<Rightarrow> bool" where
  "wallet_columns_free w publicKey keyId db \<longleftrightarrow>
     (\<forall>x \<in> set (wallets db). w_id x \<noteq> w_id w \<longrightarrow>
        w_publicKey x \<noteq> Some publicKey \<and> w_managedKeyReferenceId x \<noteq> Some keyId)
     \<and> (\<forall>u \<in> set (wallet_users db). wu_id u \<noteq> w_userId w \<longrightarrow> wu_walletAddress u \<noteq> Some publicKey)"

definition complete_wallet_in_tx ::
    "ident \<Rightarrow> ident \<Rightarrow> ident \<Rightarrow> stored_key \<Rightarrow> time \<Rightarrow> (wallet_db, wallet_error, wallet) step" where
  "complete_wallet_in_tx keyId walletId token m now db =
     (case List.find (\<lambda>j. wj_walletId j = walletId) (wallet_jobs db) of
        None \<Rightarrow> (Inl WalletNotFound, db)
      | Some job \<Rightarrow>
          (case List.find (\<lambda>w. w_id w = walletId) (wallets db) of
             None \<Rightarrow> (Inl WalletNotFound, db)
           | Some w \<Rightarrow>
               if w_status w = WActive then (Inr w, db)
               else if \<not> holds_wallet_lease token job then (Inl LeaseLost, db)
               else
                 (let (kid, keys) = upsert_key keyId m (managed_keys db) in
                  if \<not> wallet_columns_free w (sk_publicKey m) kid db then (Inl WalletUniqueViolation, db)
                  else
                    (let db1 = db\<lparr>managed_keys := keys,
                           wallets := update_where (\<lambda>x. w_id x = walletId) (activate_wallet now m kid) (wallets db),
                           wallet_users := update_where (\<lambda>u. wu_id u = w_userId w)
                             (\<lambda>u. u\<lparr>wu_walletAddress := Some (sk_publicKey m)\<rparr>) (wallet_users db),
                           wallet_jobs := update_where (\<lambda>j. wj_walletId j = walletId) (finish_job now)
                             (wallet_jobs db)\<rparr>;
                         db2 = wallet_log_entry (w_userId w) ''WALLET_PROVISIONING_COMPLETED''
                                 [(''walletId'', JStr walletId), (''publicKey'', JStr (sk_publicKey m)),
                                  (''kmsProvider'', JStr (sk_provider m))] db1
                     in (Inr (activate_wallet now m kid w), db2)))))"

definition complete_wallet ::
    "ident \<Rightarrow> ident \<Rightarrow> ident \<Rightarrow> stored_key \<Rightarrow> time \<Rightarrow> (wallet_db, wallet_error, wallet) step" where
  "complete_wallet keyId walletId token m now = transaction (complete_wallet_in_tx keyId walletId token m now)"

definition fail_wallet :: "wallet_failure \<Rightarrow> bool \<Rightarrow> time \<Rightarrow> wallet \<Rightarrow> wallet" where
  "fail_wallet code terminal now w = w\<lparr>w_status := if terminal then WFailed else WRetryable,
     w_failureCode := Some code, w_statusChangedAt := now\<rparr>"

definition fail_wallet_job :: "wallet_failure \<Rightarrow> time option \<Rightarrow> time \<Rightarrow> wallet_job \<Rightarrow> wallet_job" where
  "fail_wallet_job code retryAt now j = j\<lparr>wj_status := if retryAt = None then WJDeadLetter else WJRetry,
     wj_availableAt := or_default now retryAt, wj_leaseToken := None, wj_leasedUntil := None,
     wj_lastFailureCode := Some code\<rparr>"

definition recordFailure_in_tx ::
    "ident \<Rightarrow> ident \<Rightarrow> wallet_failure \<Rightarrow> time option \<Rightarrow> time \<Rightarrow> (wallet_db, wallet_error, unit) step" where
  "recordFailure_in_tx walletId token code retryAt now db =
     (case List.find (\<lambda>j. wj_walletId j = walletId) (wallet_jobs db) of
        None \<Rightarrow> (Inl WalletNotFound, db)
      | Some job \<Rightarrow>
          (case List.find (\<lambda>w. w_id w = walletId) (wallets db) of
             None \<Rightarrow> (Inl WalletNotFound, db)
           | Some w \<Rightarrow>
               if \<not> holds_wallet_lease token job then (Inr (), db)
               else
                 (let terminal = (retryAt = None);
                      db1 = db\<lparr>wallets := update_where (\<lambda>x. w_id x = walletId) (fail_wallet code terminal now)
                                           (wallets db),
                               wallet_jobs := update_where (\<lambda>j. wj_walletId j = walletId)
                                           (fail_wallet_job code retryAt now) (wallet_jobs db)\<rparr>
                  in (Inr (), wallet_log_entry (w_userId w)
                       (if terminal then ''WALLET_PROVISIONING_FAILED''
                        else ''WALLET_PROVISIONING_RETRY_SCHEDULED'')
                       [(''walletId'', JStr walletId), (''failureCode'', JStr (failure_name code)),
                        (''attempt'', JNum (int (wj_attempts job)))] db1))))"

definition recordFailure ::
    "ident \<Rightarrow> ident \<Rightarrow> wallet_failure \<Rightarrow> time option \<Rightarrow> time \<Rightarrow> (wallet_db, wallet_error, unit) step" where
  "recordFailure walletId token code retryAt now = transaction (recordFailure_in_tx walletId token code retryAt now)"

section \<open>The worker\<close>

datatype wallet_result =
    WalletIdle
  | WalletCompleted ident string
  | WalletRetryScheduled ident wallet_failure
  | WalletDeadLetter ident wallet_failure

record wallet_options =
  wo_leaseMs :: int
  wo_baseRetryMs :: int

definition default_wallet_options :: wallet_options where
  "default_wallet_options = \<lparr>wo_leaseMs = 60000, wo_baseRetryMs = 1000\<rparr>"

text \<open>What one run meets: the key pair it generates (\<open>None\<close> when the generator throws), the
  failures of the key store and of the database, and its readings of the clock.\<close>

record wallet_env =
  we_lookupFails :: bool
  we_keypair :: "(string \<times> string) option"
  we_store :: store_call
  we_relookupFails :: bool
  we_keyId :: ident
  we_completeFails :: bool
  we_completeAt :: time
  we_recordFails :: bool
  we_retryFrom :: time
  we_failedAt :: time

type_synonym wallet_world = "wallet_db \<times> kms"

definition lease_of :: "claimed_wallet \<Rightarrow> ident option" where
  "lease_of c = (case wj_leaseToken (cl_job c) of Some t \<Rightarrow> if t = [] then None else Some t | None \<Rightarrow> None)"

definition retry_time :: "wallet_options \<Rightarrow> time \<Rightarrow> wallet_job \<Rightarrow> time option" where
  "retry_time opts now j =
     (if wj_attempts j \<ge> wj_maxAttempts j then None
      else Some (now + wo_baseRetryMs opts * 2 ^ (wj_attempts j - 1)))"

definition wallet_fail ::
    "wallet_options \<Rightarrow> wallet_env \<Rightarrow> claimed_wallet \<Rightarrow> wallet_failure \<Rightarrow> wallet_world \<Rightarrow> wallet_result \<times> wallet_world" where
  "wallet_fail opts env c code s =
     (let terminal = wj_attempts (cl_job c) \<ge> wj_maxAttempts (cl_job c);
          retryAt = retry_time opts (we_retryFrom env) (cl_job c);
          db' = (case lease_of c of
                   None \<Rightarrow> fst s
                 | Some token \<Rightarrow>
                     if we_recordFails env then fst s
                     else snd (recordFailure (w_id (cl_wallet c)) token code retryAt (we_failedAt env) (fst s)))
      in (if terminal then WalletDeadLetter (w_id (cl_wallet c)) code
          else WalletRetryScheduled (w_id (cl_wallet c)) code, (db', snd s)))"

definition wallet_finalize ::
    "wallet_options \<Rightarrow> wallet_env \<Rightarrow> claimed_wallet \<Rightarrow> ident \<Rightarrow> stored_key \<Rightarrow> wallet_world \<Rightarrow>
     wallet_result \<times> wallet_world" where
  "wallet_finalize opts env c token m s =
     (if we_completeFails env then wallet_fail opts env c DATABASE_FINALIZATION_FAILED s
      else
        (case complete_wallet (we_keyId env) (w_id (cl_wallet c)) token m (we_completeAt env) (fst s) of
           (Inr w, db') \<Rightarrow> (WalletCompleted (w_id w) (sk_publicKey m), (db', snd s))
         | (Inl _, db') \<Rightarrow> wallet_fail opts env c DATABASE_FINALIZATION_FAILED (db', snd s)))"

definition wallet_store_input :: "claimed_wallet \<Rightarrow> string \<times> string \<Rightarrow> store_input" where
  "wallet_store_input c kp = \<lparr>si_idempotencyKey = w_id (cl_wallet c), si_publicKey = fst kp,
     si_secret = SensitiveValue (snd kp)\<rparr>"

definition handleClaimed ::
    "wallet_options \<Rightarrow> aead \<Rightarrow> wallet_env \<Rightarrow> claimed_wallet option \<Rightarrow> wallet_world \<Rightarrow>
     wallet_result \<times> wallet_world" where
  "handleClaimed opts ae env claimed s =
     (case claimed of
        None \<Rightarrow> (WalletIdle, s)
      | Some c \<Rightarrow>
          (case lease_of c of
             None \<Rightarrow> wallet_fail opts env c DATABASE_FINALIZATION_FAILED s
           | Some token \<Rightarrow>
               (case findByIdempotencyKey (we_lookupFails env) (w_id (cl_wallet c)) (snd s) of
                  Inl _ \<Rightarrow> wallet_fail opts env c KMS_UNAVAILABLE s
                | Inr (Some m) \<Rightarrow> wallet_finalize opts env c token m s
                | Inr None \<Rightarrow>
                    (case we_keypair env of
                       None \<Rightarrow> wallet_fail opts env c KEY_GENERATION_FAILED s
                     | Some kp \<Rightarrow>
                         (case storeStellarSecret ae (we_store env) (wallet_store_input c kp) (snd s) of
                            (Inr m, k') \<Rightarrow> wallet_finalize opts env c token m (fst s, k')
                          | (Inl _, k') \<Rightarrow>
                              (case findByIdempotencyKey (we_relookupFails env) (w_id (cl_wallet c)) k' of
                                 Inr (Some m) \<Rightarrow> wallet_finalize opts env c token m (fst s, k')
                               | _ \<Rightarrow> wallet_fail opts env c KMS_STORE_UNCERTAIN (fst s, k')))))))"

definition handleNext ::
    "wallet_options \<Rightarrow> aead \<Rightarrow> wallet_env \<Rightarrow> time \<Rightarrow> ident \<Rightarrow> wallet_world \<Rightarrow> wallet_result \<times> wallet_world" where
  "handleNext opts ae env now token s =
     (case claimNext now token (wo_leaseMs opts) (fst s) of
        (claimed, db') \<Rightarrow> handleClaimed opts ae env claimed (db', snd s))"

definition handleWallet ::
    "wallet_options \<Rightarrow> aead \<Rightarrow> wallet_env \<Rightarrow> time \<Rightarrow> ident \<Rightarrow> ident \<Rightarrow> wallet_world \<Rightarrow> wallet_result \<times> wallet_world" where
  "handleWallet opts ae env now token walletId s =
     (case claimByWalletId now token (wo_leaseMs opts) walletId (fst s) of
        (claimed, db') \<Rightarrow> handleClaimed opts ae env claimed (db', snd s))"

section \<open>The outbox handlers\<close>

definition json_string :: "json \<Rightarrow> string \<Rightarrow> string" where
  "json_string v k = (case json_field v k of Some (JStr t) \<Rightarrow> t | _ \<Rightarrow> [])"

definition result_json :: "wallet_result \<Rightarrow> json" where
  "result_json r = JObj (case r of
      WalletIdle \<Rightarrow> [(''kind'', JStr ''idle'')]
    | WalletCompleted i p \<Rightarrow> [(''kind'', JStr ''completed''), (''walletId'', JStr i), (''publicKey'', JStr p)]
    | WalletRetryScheduled i f \<Rightarrow>
        [(''kind'', JStr ''retry-scheduled''), (''walletId'', JStr i), (''failureCode'', JStr (failure_name f))]
    | WalletDeadLetter i f \<Rightarrow>
        [(''kind'', JStr ''dead-letter''), (''walletId'', JStr i), (''failureCode'', JStr (failure_name f))])"

definition wallet_requested_name :: string where
  "wallet_requested_name = ''wallet.provision''"

text \<open>\<open>WalletProvisioningRequestedHandler.handle\<close>.\<close>

definition wallet_requested_handle ::
    "wallet_options \<Rightarrow> aead \<Rightarrow> wallet_env \<Rightarrow> time \<Rightarrow> ident \<Rightarrow> handler_context \<Rightarrow>
     (wallet_world, string, handler_result option) step" where
  "wallet_requested_handle opts ae env now token ctx s =
     (let walletId = json_string (ctx_payload ctx) ''walletId'' in
      case handleWallet opts ae env now token walletId s of
        (WalletRetryScheduled _ code, s') \<Rightarrow>
          (Inl (''Wallet '' @ walletId @ '' provisioning failed with '' @ failure_name code), s')
      | (result, s') \<Rightarrow>
          (Inr (Some \<lparr>hr_idempotencyKey = Some (ctx_eventId ctx @ '':'' @ wallet_requested_name),
                      hr_result = Some (result_json result)\<rparr>), s'))"

text \<open>
  \<open>UserCreatedHandler.handle\<close> on the wallet tables and the outbox: reserving commits before the
  event is created.
\<close>

datatype user_created_error = NotEligible wallet_error | EventNotCreated outbox_error

definition already_requested :: "ident \<Rightarrow> ident \<Rightarrow> outbox_db \<Rightarrow> bool" where
  "already_requested walletId eventId ob \<longleftrightarrow>
     (\<exists>e \<in> set (events ob). oe_aggregateId e = walletId
        \<and> oe_eventType e = ''WalletProvisioningRequested'' \<and> oe_causedBy e = Some eventId)"

definition user_created_handle ::
    "string \<Rightarrow> time \<Rightarrow> ident \<Rightarrow> ident \<Rightarrow> string \<Rightarrow> handler_context \<Rightarrow>
     (wallet_db \<times> outbox_db, user_created_error, handler_result) step" where
  "user_created_handle network now walletId jobId rnd ctx s =
     (let userId = json_string (ctx_payload ctx) ''userId'' in
      case reserveEligibleWallet now walletId jobId userId network (fst s) of
        (Inl e, db') \<Rightarrow> (Inl (NotEligible e), (db', snd s))
      | (Inr w, db') \<Rightarrow>
          (let requested = already_requested (w_id w) (ctx_eventId ctx) (snd s);
               result = \<lparr>hr_idempotencyKey = Some (ctx_eventId ctx @ '':'' @ ''wallet.reserve-on-user-created''),
                         hr_result = Some (JObj [(''walletId'', JStr (w_id w)), (''requested'', JBool (\<not> requested))])\<rparr>
           in if requested then (Inr result, (db', snd s))
              else
                (case transaction (createEvent now rnd
                        \<lparr>ceo_aggregateId = w_id w, ceo_aggregateType = ''Wallet'',
                         ceo_eventType = ''WalletProvisioningRequested'', ceo_eventVersion = 1,
                         ceo_payload = JObj [(''walletId'', JStr (w_id w)), (''userId'', JStr userId),
                                             (''network'', JStr network)],
                         ceo_source = Some ''relay.user-created'', ceo_causedBy = Some (ctx_eventId ctx)\<rparr>) (snd s) of
                   (Inl e, ob') \<Rightarrow> (Inl (EventNotCreated e), (db', ob'))
                 | (Inr _, ob') \<Rightarrow> (Inr result, (db', ob')))))"

end
