(* ===== verification/WalletProps.thy ===== *)
theory WalletProps
  imports Wallets
begin

text \<open>
  What the provisioning of wallets keeps under every interleaving of its workers, their crashes,
  the expiry of leases and new requests for the same wallet.
\<close>

section \<open>The worker, one \<open>await\<close> at a time\<close>

datatype wallet_phase = Looking | Storing string string | Relooking | Finalizing stored_key | Failing wallet_failure

datatype wallet_progress = Continue wallet_phase | Finished wallet_result

definition looked_up :: "wallet_env \<Rightarrow> claimed_wallet \<Rightarrow> kms \<Rightarrow> wallet_phase" where
  "looked_up env c k =
     (if lease_of c = None then Failing DATABASE_FINALIZATION_FAILED
      else
        (case findByIdempotencyKey (we_lookupFails env) (w_id (cl_wallet c)) k of
           Inl _ \<Rightarrow> Failing KMS_UNAVAILABLE
         | Inr (Some m) \<Rightarrow> Finalizing m
         | Inr None \<Rightarrow>
             (case we_keypair env of None \<Rightarrow> Failing KEY_GENERATION_FAILED | Some (p, s) \<Rightarrow> Storing p s)))"

definition relooked_up :: "wallet_env \<Rightarrow> claimed_wallet \<Rightarrow> kms \<Rightarrow> wallet_phase" where
  "relooked_up env c k =
     (case findByIdempotencyKey (we_relookupFails env) (w_id (cl_wallet c)) k of
        Inr (Some m) \<Rightarrow> Finalizing m | _ \<Rightarrow> Failing KMS_STORE_UNCERTAIN)"

definition try_complete ::
    "wallet_env \<Rightarrow> claimed_wallet \<Rightarrow> stored_key \<Rightarrow> wallet_db \<Rightarrow> wallet_progress \<times> wallet_db" where
  "try_complete env c m db =
     (case lease_of c of
        None \<Rightarrow> (Continue (Failing DATABASE_FINALIZATION_FAILED), db)
      | Some token \<Rightarrow>
          if we_completeFails env then (Continue (Failing DATABASE_FINALIZATION_FAILED), db)
          else
            (case complete_wallet (we_keyId env) (w_id (cl_wallet c)) token m (we_completeAt env) db of
               (Inr w, db') \<Rightarrow> (Finished (WalletCompleted (w_id w) (sk_publicKey m)), db')
             | (Inl _, db') \<Rightarrow> (Continue (Failing DATABASE_FINALIZATION_FAILED), db')))"

fun worker_step ::
    "wallet_options \<Rightarrow> aead \<Rightarrow> wallet_env \<Rightarrow> claimed_wallet \<Rightarrow> wallet_phase \<Rightarrow> wallet_world \<Rightarrow>
     wallet_progress \<times> wallet_world" where
  "worker_step opts ae env c Looking (db, k) = (Continue (looked_up env c k), (db, k))"
| "worker_step opts ae env c (Storing p x) (db, k) =
     (case storeStellarSecret ae (we_store env) (wallet_store_input c (p, x)) k of
        (Inr m, k') \<Rightarrow> (Continue (Finalizing m), (db, k'))
      | (Inl _, k') \<Rightarrow> (Continue Relooking, (db, k')))"
| "worker_step opts ae env c Relooking (db, k) = (Continue (relooked_up env c k), (db, k))"
| "worker_step opts ae env c (Finalizing m) (db, k) =
     (case try_complete env c m db of (r, db') \<Rightarrow> (r, (db', k)))"
| "worker_step opts ae env c (Failing code) (db, k) =
     (case wallet_fail opts env c code (db, k) of (r, s') \<Rightarrow> (Finished r, s'))"

fun run_worker ::
    "wallet_options \<Rightarrow> aead \<Rightarrow> wallet_env \<Rightarrow> claimed_wallet \<Rightarrow> nat \<Rightarrow> wallet_phase \<Rightarrow> wallet_world \<Rightarrow>
     wallet_result option \<times> wallet_world" where
  "run_worker opts ae env c 0 p s = (None, s)"
| "run_worker opts ae env c (Suc n) p s =
     (case worker_step opts ae env c p s of
        (Finished r, s') \<Rightarrow> (Some r, s')
      | (Continue p', s') \<Rightarrow> run_worker opts ae env c n p' s')"

text \<open>Five steps are the whole handler.\<close>

lemma run_failing: "run_worker opts ae env c (Suc n) (Failing code) (db, k) =
    (case wallet_fail opts env c code (db, k) of (r, s') \<Rightarrow> (Some r, s'))"
  by (simp split: prod.split)

lemma run_finalizing:
  assumes "lease_of c = Some token"
  shows "run_worker opts ae env c (Suc (Suc n)) (Finalizing m) (db, k) =
    (case wallet_finalize opts env c token m (db, k) of (r, s') \<Rightarrow> (Some r, s'))"
  using assms by (auto simp: try_complete_def wallet_finalize_def split: prod.splits sum.splits)

lemma handleClaimed_runs:
  "run_worker opts ae env c 5 Looking (db, k) =
     (case handleClaimed opts ae env (Some c) (db, k) of (r, s') \<Rightarrow> (Some r, s'))"
proof (cases "lease_of c")
  case None
  then show ?thesis
    by (simp add: numeral_eq_Suc looked_up_def handleClaimed_def split: prod.split)
next
  case (Some token)
  have two: "run_worker opts ae env c (Suc (Suc (Suc n))) Relooking (db, k') =
      (case findByIdempotencyKey (we_relookupFails env) (w_id (cl_wallet c)) k' of
         Inr (Some m) \<Rightarrow> (case wallet_finalize opts env c token m (db, k') of (r, s') \<Rightarrow> (Some r, s'))
       | _ \<Rightarrow> (case wallet_fail opts env c KMS_STORE_UNCERTAIN (db, k') of (r, s') \<Rightarrow> (Some r, s')))" for k' n
    by (subst run_worker.simps)
      (auto simp: relooked_up_def run_finalizing [OF Some] run_failing simp del: run_worker.simps
        split: sum.split option.split)
  have three: "run_worker opts ae env c (Suc (Suc (Suc (Suc 0)))) (Storing p x) (db, k) =
      (case storeStellarSecret ae (we_store env) (wallet_store_input c (p, x)) k of
         (Inr m, k') \<Rightarrow> (case wallet_finalize opts env c token m (db, k') of (r, s') \<Rightarrow> (Some r, s'))
       | (Inl _, k') \<Rightarrow> run_worker opts ae env c (Suc (Suc (Suc 0))) Relooking (db, k'))" for p x
    by (subst run_worker.simps)
      (auto simp: run_finalizing [OF Some] simp del: run_worker.simps split: sum.split prod.split)
  have five: "(5::nat) = Suc (Suc (Suc (Suc (Suc 0))))" by simp
  show ?thesis
    unfolding five
    by (subst run_worker.simps)
      (auto simp: looked_up_def handleClaimed_def Some run_finalizing [OF Some] run_failing two three
        simp del: run_worker.simps split: sum.split option.split prod.split)
qed

section \<open>The system\<close>

record wallet_system =
  sy_db :: wallet_db
  sy_kms :: kms
  sy_workers :: "(claimed_wallet \<times> wallet_phase) list"

definition env_ok :: "(string \<Rightarrow> string \<Rightarrow> bool) \<Rightarrow> wallet_env \<Rightarrow> wallet_system \<Rightarrow> bool" where
  "env_ok keypair env s \<longleftrightarrow>
     (case we_keypair env of None \<Rightarrow> True | Some (p, x) \<Rightarrow> keypair p x)
     \<and> ''kms-memory://'' @ sc_uuid (we_store env) \<notin> set (references (sy_kms s))
     \<and> we_keyId env \<notin> mk_id ` set (managed_keys (sy_db s))"

definition put_worker ::
    "claimed_wallet \<Rightarrow> wallet_progress \<Rightarrow> (claimed_wallet \<times> wallet_phase) list \<Rightarrow>
     (claimed_wallet \<times> wallet_phase) list" where
  "put_worker c r ws = (case r of Continue p \<Rightarrow> (c, p) # ws | Finished _ \<Rightarrow> ws)"

text \<open>
  A request reserves a wallet (identifiers are fresh), a worker claims a job, takes a step or
  crashes, and the other services verify users and record consents as they like.
\<close>

inductive wallet_next ::
    "wallet_options \<Rightarrow> aead \<Rightarrow> (string \<Rightarrow> string \<Rightarrow> bool) \<Rightarrow> wallet_system \<Rightarrow> wallet_system \<Rightarrow> bool"
  for opts ae keypair where
  next_reserve: "wallet_next opts ae keypair s (s\<lparr>sy_db := db'\<rparr>)"
    if "reserveEligibleWallet now walletId jobId userId network (sy_db s) = (r, db')"
      and "walletId \<notin> w_id ` set (wallets (sy_db s))" and "jobId \<notin> wj_id ` set (wallet_jobs (sy_db s))"
| next_claim: "wallet_next opts ae keypair s (s\<lparr>sy_db := db', sy_workers := (c, Looking) # sy_workers s\<rparr>)"
    if "claimCandidate now token (wo_leaseMs opts) jobId (sy_db s) = (Some c, db')"
| next_work: "wallet_next opts ae keypair s
      (s\<lparr>sy_db := db', sy_kms := k', sy_workers := put_worker c r (remove1 (c, p) (sy_workers s))\<rparr>)"
    if "(c, p) \<in> set (sy_workers s)" and "env_ok keypair env s"
      and "worker_step opts ae env c p (sy_db s, sy_kms s) = (r, (db', k'))"
| next_crash: "wallet_next opts ae keypair s (s\<lparr>sy_workers := remove1 w (sy_workers s)\<rparr>)"
| next_others: "wallet_next opts ae keypair s
      (s\<lparr>sy_db := (sy_db s)\<lparr>wallet_users := us, wallet_consents := cs\<rparr>\<rparr>)"

section \<open>The invariant\<close>

definition wallet_signed :: "kms \<Rightarrow> managed_key list \<Rightarrow> wallet \<Rightarrow> bool" where
  "wallet_signed k keys w \<longleftrightarrow>
     (\<exists>m. kms_lookup k (w_id w) = Some m \<and> w_publicKey w = Some (sk_publicKey m)
        \<and> (\<exists>mk \<in> set keys. w_managedKeyReferenceId w = Some (mk_id mk)
             \<and> mk_opaqueReference mk = sk_opaqueReference m))"

definition worker_ok :: "(string \<Rightarrow> string \<Rightarrow> bool) \<Rightarrow> kms \<Rightarrow> claimed_wallet \<times> wallet_phase \<Rightarrow> bool" where
  "worker_ok keypair k cp =
     (case snd cp of
        Storing p x \<Rightarrow> keypair p x
      | Finalizing m \<Rightarrow> kms_lookup k (w_id (cl_wallet (fst cp))) = Some m
      | _ \<Rightarrow> True)"

definition tables_ok :: "kms \<Rightarrow> wallet_db \<Rightarrow> bool" where
  "tables_ok k db \<longleftrightarrow> distinct (map w_id (wallets db)) \<and> distinct (map mk_id (managed_keys db))
     \<and> distinct (map wj_id (wallet_jobs db)) \<and> distinct (map wj_walletId (wallet_jobs db))
     \<and> (\<forall>j \<in> set (wallet_jobs db). wj_walletId j \<in> w_id ` set (wallets db))
     \<and> (\<forall>w \<in> set (wallets db). w_status w = WActive \<longrightarrow> wallet_signed k (managed_keys db) w
          \<and> (\<forall>j \<in> set (wallet_jobs db). wj_walletId j = w_id w \<longrightarrow> wj_status j = WJCompleted))"

definition wallet_inv :: "aead \<Rightarrow> (string \<Rightarrow> string \<Rightarrow> bool) \<Rightarrow> wallet_system \<Rightarrow> bool" where
  "wallet_inv ae keypair s \<longleftrightarrow> kms_ok ae keypair (sy_kms s) \<and> tables_ok (sy_kms s) (sy_db s)
     \<and> (\<forall>cp \<in> set (sy_workers s). worker_ok keypair (sy_kms s) cp)"

lemma wallet_log_entry_simps [simp]:
  "wallets (wallet_log_entry u a m db) = wallets db"
  "wallet_jobs (wallet_log_entry u a m db) = wallet_jobs db"
  "managed_keys (wallet_log_entry u a m db) = managed_keys db"
  "wallet_users (wallet_log_entry u a m db) = wallet_users db"
  by (simp_all add: wallet_log_entry_def)

definition keys_kept :: "managed_key list \<Rightarrow> managed_key list \<Rightarrow> bool" where
  "keys_kept ks ks' \<longleftrightarrow> distinct (map mk_id ks')
     \<and> (\<forall>mk \<in> set ks. \<exists>mk' \<in> set ks'. mk_id mk' = mk_id mk \<and> mk_opaqueReference mk' = mk_opaqueReference mk)"

lemma signed_keys_kept: "wallet_signed k ks w \<Longrightarrow> keys_kept ks ks' \<Longrightarrow> wallet_signed k ks' w"
  unfolding wallet_signed_def keys_kept_def by metis

lemma tables_ok_update:
  assumes ok: "tables_ok k db"
    and ws: "wallets db' = update_where (\<lambda>w. w_id w = i) f (wallets db)"
    and js: "wallet_jobs db' = update_where q g (wallet_jobs db)"
    and keys: "keys_kept (managed_keys db) (managed_keys db')"
    and f: "\<And>w. w_id (f w) = w_id w" and g: "\<And>j. wj_walletId (g j) = wj_walletId j" "\<And>j. wj_id (g j) = wj_id j"
    and q: "\<And>j. j \<in> set (wallet_jobs db) \<Longrightarrow> q j \<Longrightarrow> wj_walletId j = i"
    and active: "\<And>w. w \<in> set (wallets db) \<Longrightarrow> w_id w = i \<Longrightarrow> w_status (f w) = WActive \<Longrightarrow>
          wallet_signed k (managed_keys db') (f w)
          \<and> (\<forall>j \<in> set (wallet_jobs db). wj_walletId j = i \<longrightarrow> wj_status (if q j then g j else j) = WJCompleted)"
  shows "tables_ok k db'"
proof -
  have "map w_id (wallets db') = map w_id (wallets db)" and
    ids: "w_id ` set (wallets db') = w_id ` set (wallets db)"
    unfolding ws by (rule map_update_where image_update_where, rule f)+
  then have 1: "distinct (map w_id (wallets db'))" using ok by (simp add: tables_ok_def)
  have 2: "wj_walletId j \<in> w_id ` set (wallets db')" if "j \<in> set (wallet_jobs db')" for j
    using that ok unfolding ids js by (auto simp: tables_ok_def set_update_where g split: if_splits)
  have 3: "wallet_signed k (managed_keys db') w \<and>
      (\<forall>j \<in> set (wallet_jobs db'). wj_walletId j = w_id w \<longrightarrow> wj_status j = WJCompleted)"
    if w: "w \<in> set (wallets db')" "w_status w = WActive" for w
  proof -
    from w(1) obtain w0 where w0: "w0 \<in> set (wallets db)" "w = (if w_id w0 = i then f w0 else w0)"
      by (auto simp: ws set_update_where)
    show ?thesis
    proof (cases "w_id w0 = i")
      case True
      with w0 w(2) active [of w0] show ?thesis
        by (auto simp: js set_update_where f g split: if_splits)
    next
      case False
      with w0 w(2) ok have "wallet_signed k (managed_keys db) w"
        "\<forall>j \<in> set (wallet_jobs db). wj_walletId j = w_id w \<longrightarrow> wj_status j = WJCompleted"
        by (auto simp: tables_ok_def)
      with False w0 keys q show ?thesis
        by (auto simp: js set_update_where g intro: signed_keys_kept split: if_splits)
    qed
  qed
  have "map wj_id (wallet_jobs db') = map wj_id (wallet_jobs db)"
    unfolding js by (rule map_update_where) (rule g)
  moreover have "map wj_walletId (wallet_jobs db') = map wj_walletId (wallet_jobs db)"
    unfolding js by (rule map_update_where) (rule g)
  ultimately have 4: "distinct (map wj_id (wallet_jobs db'))" "distinct (map wj_walletId (wallet_jobs db'))"
    using ok by (simp_all add: tables_ok_def)
  from keys have "distinct (map mk_id (managed_keys db'))" by (simp add: keys_kept_def)
  with 1 2 3 4 show ?thesis by (simp add: tables_ok_def)
qed

lemma keys_kept_refl: "tables_ok k db \<Longrightarrow> keys_kept (managed_keys db) (managed_keys db)"
  by (auto simp: tables_ok_def keys_kept_def)

lemma active_job_completed:
  "tables_ok k db \<Longrightarrow> w \<in> set (wallets db) \<Longrightarrow> w_status w = WActive \<Longrightarrow> j \<in> set (wallet_jobs db) \<Longrightarrow>
   wj_walletId j = w_id w \<Longrightarrow> wj_status j = WJCompleted"
  by (auto simp: tables_ok_def)

lemma wallet_of_id:
  "tables_ok k db \<Longrightarrow> w \<in> set (wallets db) \<Longrightarrow> x \<in> set (wallets db) \<Longrightarrow> w_id x = w_id w \<Longrightarrow> x = w"
  by (auto simp: tables_ok_def distinct_map inj_on_def)

lemma claim_tables_ok:
  assumes ok: "tables_ok k db" and claim: "claimCandidate now token leaseMs i db = (c, db')"
  shows "tables_ok k db'"
proof (cases c)
  case None
  with claim ok show ?thesis
    by (auto simp: claimCandidate_def Let_def split: if_splits option.splits)
next
  case (Some c')
  let ?q = "\<lambda>j. wj_id j = i \<and> claimableWhere now j"
  let ?g = "lease_job (now + leaseMs) token"
  from claim Some obtain job where one: "count_where ?q (wallet_jobs db) = 1"
    and job: "List.find (\<lambda>j. wj_id j = i) (update_where ?q ?g (wallet_jobs db)) = Some job"
    and db': "wallets db' = update_where (\<lambda>w. w_id w = wj_walletId job) (start_attempt now) (wallets db)"
      "wallet_jobs db' = update_where ?q ?g (wallet_jobs db)" "managed_keys db' = managed_keys db"
    by (auto simp: claimCandidate_def Let_def split: if_splits option.splits)
  from one have "count_where ?q (wallet_jobs db) \<noteq> 0" by simp
  then obtain j where j: "j \<in> set (wallet_jobs db)" "wj_id j = i" "claimableWhere now j"
    unfolding count_where_0 by blast
  have dist: "distinct (map wj_id (wallet_jobs db))" using ok by (simp add: tables_ok_def)
  have "wj_walletId job = wj_walletId j"
  proof -
    from find_Some [OF job] obtain j0 where "j0 \<in> set (wallet_jobs db)" "job = (if ?q j0 then ?g j0 else j0)" "wj_id job = i"
      by (auto simp: set_update_where)
    with j dist show ?thesis by (auto simp: lease_job_def distinct_map inj_on_def split: if_splits)
  qed
  with dist j have q: "wj_walletId j' = wj_walletId job" if "j' \<in> set (wallet_jobs db)" "?q j'" for j'
    using that by (auto simp: distinct_map inj_on_def)
  show ?thesis
  proof (rule tables_ok_update [OF ok db'(1,2)])
    show "keys_kept (managed_keys db) (managed_keys db')" using keys_kept_refl [OF ok] db'(3) by simp
    show "\<And>j. j \<in> set (wallet_jobs db) \<Longrightarrow> ?q j \<Longrightarrow> wj_walletId j = wj_walletId job" by (rule q)
  qed (simp_all add: start_attempt_def lease_job_def)
qed

lemma upsert_key_kept:
  assumes "upsert_key keyId m ks = (kid, ks')" and "distinct (map mk_id ks)" and "keyId \<notin> mk_id ` set ks"
  shows "keys_kept ks ks' \<and> (\<exists>mk \<in> set ks'. mk_id mk = kid \<and> mk_opaqueReference mk = sk_opaqueReference m)"
proof (cases "List.find (\<lambda>k. mk_opaqueReference k = sk_opaqueReference m) ks")
  case None
  with assms show ?thesis by (auto simp: upsert_key_def keys_kept_def)
next
  case (Some mk)
  let ?f = "\<lambda>x. x\<lparr>mk_provider := sk_provider m, mk_keyVersion := sk_keyVersion m\<rparr>"
  let ?p = "\<lambda>x. mk_opaqueReference x = sk_opaqueReference m"
  from assms(1) Some have ks': "kid = mk_id mk" "ks' = update_where ?p ?f ks" by (auto simp: upsert_key_def)
  have "map mk_id ks' = map mk_id ks" unfolding ks' by (rule map_update_where) simp
  moreover have "\<exists>y \<in> set ks'. mk_id y = mk_id x \<and> mk_opaqueReference y = mk_opaqueReference x"
    if "x \<in> set ks" for x
    unfolding ks' bex_update_where using that by (auto intro!: bexI [of _ x])
  moreover from this find_Some [OF Some] have "\<exists>y \<in> set ks'. mk_id y = kid \<and> mk_opaqueReference y = sk_opaqueReference m"
    using ks'(1) by metis
  ultimately show ?thesis using assms(2) by (simp add: keys_kept_def)
qed

lemma complete_tables_ok:
  assumes ok: "tables_ok k db" and "keyId \<notin> mk_id ` set (managed_keys db)"
    and m: "kms_lookup k walletId = Some m"
    and run: "complete_wallet keyId walletId token m now db = (r, db')"
  shows "tables_ok k db'"
proof (cases "db' = db")
  case True
  with ok show ?thesis by simp
next
  case False
  with transaction_state [OF run [unfolded complete_wallet_def]]
  have "complete_wallet_in_tx keyId walletId token m now db = (r, db')" by simp
  with False obtain w kid where
    w: "List.find (\<lambda>w. w_id w = walletId) (wallets db) = Some w"
    and keys: "upsert_key keyId m (managed_keys db) = (kid, managed_keys db')"
    and ws: "wallets db' = update_where (\<lambda>x. w_id x = walletId) (activate_wallet now m kid) (wallets db)"
    and js: "wallet_jobs db' = update_where (\<lambda>j. wj_walletId j = walletId) (finish_job now) (wallet_jobs db)"
    by (auto simp: complete_wallet_in_tx_def Let_def split: option.splits if_splits prod.splits)
  have kept: "keys_kept (managed_keys db) (managed_keys db')"
    and mk: "\<exists>mk \<in> set (managed_keys db'). mk_id mk = kid \<and> mk_opaqueReference mk = sk_opaqueReference m"
    using upsert_key_kept [OF keys _ assms(2)] ok by (auto simp: tables_ok_def)
  show ?thesis
  proof (rule tables_ok_update [OF ok ws js kept])
    fix w' :: wallet assume "w_id w' = walletId"
    then have "wallet_signed k (managed_keys db') (activate_wallet now m kid w')"
      using m mk by (auto simp: activate_wallet_def wallet_signed_def)
    then show "wallet_signed k (managed_keys db') (activate_wallet now m kid w')
        \<and> (\<forall>j \<in> set (wallet_jobs db). wj_walletId j = walletId \<longrightarrow>
             wj_status (if wj_walletId j = walletId then finish_job now j else j) = WJCompleted)"
      by (simp add: finish_job_def)
  qed (simp_all add: activate_wallet_def finish_job_def)
qed

lemma recordFailure_tables_ok:
  assumes ok: "tables_ok k db" and run: "recordFailure walletId token code retryAt now db = (r, db')"
  shows "tables_ok k db'"
proof (cases "db' = db")
  case True
  with ok show ?thesis by simp
next
  case False
  with transaction_state [OF run [unfolded recordFailure_def]]
  have "recordFailure_in_tx walletId token code retryAt now db = (r, db')" by simp
  with False have
    ws: "wallets db' = update_where (\<lambda>x. w_id x = walletId) (fail_wallet code (retryAt = None) now) (wallets db)"
    and js: "wallet_jobs db' = update_where (\<lambda>j. wj_walletId j = walletId) (fail_wallet_job code retryAt now)
           (wallet_jobs db)" and keys: "managed_keys db' = managed_keys db"
    by (auto simp: recordFailure_in_tx_def Let_def split: option.splits if_splits)
  show ?thesis
  proof (rule tables_ok_update [OF ok ws js])
    show "keys_kept (managed_keys db) (managed_keys db')" using keys_kept_refl [OF ok] keys by simp
  qed (simp_all add: fail_wallet_def fail_wallet_job_def split: if_splits)
qed

lemma update_with_id: "update_where p id rows = rows"
  by (induction rows) auto

text \<open>Reserving: the row is new, or found; an active wallet is left alone.\<close>

lemma tables_ok_new_wallet:
  assumes "tables_ok k db" and "walletId \<notin> w_id ` set (wallets db)"
  shows "tables_ok k (db\<lparr>wallets := wallets db @ [new_wallet now walletId userId network]\<rparr>)"
  using assms by (auto simp: tables_ok_def new_wallet_def wallet_signed_def)

lemma tables_ok_new_job:
  assumes "tables_ok k db" and "jobId \<notin> wj_id ` set (wallet_jobs db)"
    and "w \<in> set (wallets db)" and "w_status w \<noteq> WActive" and "w_id w \<notin> wj_walletId ` set (wallet_jobs db)"
  shows "tables_ok k (db\<lparr>wallet_jobs := wallet_jobs db @ [new_wallet_job now jobId (w_id w)]\<rparr>)"
proof -
  have "w_id x \<noteq> w_id w" if "x \<in> set (wallets db)" "w_status x = WActive" for x
    using that wallet_of_id [OF assms(1,3), of x] assms(4) by auto
  with assms show ?thesis unfolding tables_ok_def new_wallet_job_def by simp metis
qed

lemma tables_ok_requeue:
  assumes ok: "tables_ok k db" and w: "w \<in> set (wallets db)" "w_status w \<noteq> WActive"
  shows "tables_ok k (db\<lparr>wallet_jobs := update_where (\<lambda>j. wj_walletId j = w_id w) (requeue_job now) (wallet_jobs db)\<rparr>)"
    (is "tables_ok k ?db'")
proof (rule tables_ok_update [OF ok])
  show "wallets ?db' = update_where (\<lambda>x. w_id x = w_id w) id (wallets db)"
    by (simp add: update_with_id)
  show "wallet_jobs ?db' = update_where (\<lambda>j. wj_walletId j = w_id w) (requeue_job now) (wallet_jobs db)"
    by simp
  show "keys_kept (managed_keys db) (managed_keys ?db')" using keys_kept_refl [OF ok] by simp
  fix x assume "x \<in> set (wallets db)" "w_id x = w_id w" "w_status (id x) = WActive"
  with wallet_of_id [OF ok w(1)] w(2) have False by auto
  then show "wallet_signed k (managed_keys ?db') (id x) \<and> (\<forall>j \<in> set (wallet_jobs db). wj_walletId j = w_id w \<longrightarrow>
      wj_status (if wj_walletId j = w_id w then requeue_job now j else j) = WJCompleted)" ..
qed (simp_all add: requeue_job_def)

lemma tables_ok_reset:
  assumes ok: "tables_ok k db"
  shows "tables_ok k (db\<lparr>wallets := update_where (\<lambda>x. w_id x = i) (reset_failed now) (wallets db)\<rparr>)"
    (is "tables_ok k ?db'")
proof (rule tables_ok_update [OF ok])
  show "wallets ?db' = update_where (\<lambda>x. w_id x = i) (reset_failed now) (wallets db)" by simp
  show "wallet_jobs ?db' = update_where (\<lambda>_. False) id (wallet_jobs db)"
    by (simp add: update_with_id)
  show "keys_kept (managed_keys db) (managed_keys ?db')" using keys_kept_refl [OF ok] by simp
  fix w :: wallet assume w: "w \<in> set (wallets db)" "w_id w = i" "w_status (reset_failed now w) = WActive"
  then have "reset_failed now w = w" "w_status w = WActive"
    by (auto simp: reset_failed_def split: if_splits)
  with w ok show "wallet_signed k (managed_keys ?db') (reset_failed now w) \<and> (\<forall>j \<in> set (wallet_jobs db).
      wj_walletId j = i \<longrightarrow> wj_status (if False then id j else j) = WJCompleted)"
    by (simp add: tables_ok_def)
qed (simp_all add: reset_failed_def)

lemma tables_ok_upsert_job:
  assumes "tables_ok k db" and "jobId \<notin> wj_id ` set (wallet_jobs db)"
    and "w \<in> set (wallets db)" and "w_status w \<noteq> WActive"
  shows "tables_ok k (db\<lparr>wallet_jobs := upsert_wallet_job now jobId (w_id w) (wallet_jobs db)\<rparr>)"
  using tables_ok_new_job [OF assms] tables_ok_requeue [OF assms(1,3,4)] by (simp add: upsert_wallet_job_def)

lemma tables_ok_log [simp]: "tables_ok k (wallet_log_entry u a m db) = tables_ok k db"
  by (simp add: tables_ok_def)

lemma reset_mem:
  "w \<in> set ws \<Longrightarrow> reset_failed now w \<in> set (update_where (\<lambda>x. w_id x = w_id (reset_failed now w)) (reset_failed now) ws)"
  by (auto simp: set_update_where reset_failed_def intro!: rev_image_eqI [of w])

lemma reserve_tables_ok:
  assumes ok: "tables_ok k db" and new: "walletId \<notin> w_id ` set (wallets db)" "jobId \<notin> wj_id ` set (wallet_jobs db)"
    and run: "reserveEligibleWallet now walletId jobId userId network db = (r, db')"
  shows "tables_ok k db'"
proof -
  let ?db1 = "\<lambda>before. case before of Some _ \<Rightarrow> db
      | None \<Rightarrow> db\<lparr>wallets := wallets db @ [new_wallet now walletId userId network]\<rparr>"
  let ?before = "List.find (\<lambda>w. w_userId w = userId) (wallets db)"
  let ?up = "case ?before of Some w \<Rightarrow> w | None \<Rightarrow> new_wallet now walletId userId network"
  let ?w = "reset_failed now ?up"
  let ?db2 = "(?db1 ?before)\<lparr>wallets := update_where (\<lambda>x. w_id x = w_id ?w) (reset_failed now) (wallets (?db1 ?before))\<rparr>"
  have db1: "tables_ok k (?db1 ?before)" using ok tables_ok_new_wallet [OF ok new(1)] by (auto split: option.split)
  then have db2: "tables_ok k ?db2" by (rule tables_ok_reset)
  have "?up \<in> set (wallets (?db1 ?before))" using find_Some by (fastforce split: option.split)
  then have w: "?w \<in> set (wallets ?db2)" using reset_mem by simp
  have jobs: "wallet_jobs ?db2 = wallet_jobs db" by (auto split: option.split)
  have "tables_ok k (?db2\<lparr>wallet_jobs := upsert_wallet_job now jobId (w_id ?w) (wallet_jobs ?db2)\<rparr>)" if "w_status ?w \<noteq> WActive"
    using tables_ok_upsert_job [OF db2 _ w that] new(2) jobs by simp
  with db2 have "tables_ok k (snd (reserve_in_tx now walletId jobId userId network db))"
    using ok by (auto simp: reserve_in_tx_def Let_def split: sum.split)
  with ok transaction_state [OF run [unfolded reserveEligibleWallet_def]] show ?thesis by auto
qed

section \<open>Every step keeps the invariant\<close>

definition cipher_law :: "aead \<Rightarrow> bool" where
  "cipher_law ae \<longleftrightarrow>
     (\<forall>iv s. ae_decrypt ae iv (fst (ae_encrypt ae iv s)) (snd (ae_encrypt ae iv s)) = Some s)"

definition kms_grows :: "kms \<Rightarrow> kms \<Rightarrow> bool" where
  "kms_grows k k' \<longleftrightarrow> (\<forall>key m. kms_lookup k key = Some m \<longrightarrow> kms_lookup k' key = Some m)"

lemma kms_grows_refl [simp]: "kms_grows k k"
  by (simp add: kms_grows_def)

lemma kms_grows_trans: "kms_grows k k' \<Longrightarrow> kms_grows k' k'' \<Longrightarrow> kms_grows k k''"
  by (simp add: kms_grows_def)

lemma store_grows: "kms_grows k (snd (storeStellarSecret ae call i k))"
  using memory_kms.never_replaced by (simp add: kms_grows_def)

lemma signed_grows: "wallet_signed k keys w \<Longrightarrow> kms_grows k k' \<Longrightarrow> wallet_signed k' keys w"
  unfolding wallet_signed_def kms_grows_def by blast

lemma tables_ok_grows: "tables_ok k db \<Longrightarrow> kms_grows k k' \<Longrightarrow> tables_ok k' db"
  by (auto simp: tables_ok_def intro: signed_grows)

lemma worker_ok_grows: "worker_ok keypair k cp \<Longrightarrow> kms_grows k k' \<Longrightarrow> worker_ok keypair k' cp"
  by (auto simp: worker_ok_def kms_grows_def split: wallet_phase.splits)

lemma wallet_fail_tables_ok:
  assumes "tables_ok k (fst s)" and "wallet_fail opts env c code s = (r, s')"
  shows "tables_ok k (fst s') \<and> snd s' = snd s"
proof -
  have "tables_ok k (snd (recordFailure i token code retryAt now (fst s)))" for i token retryAt now
    using recordFailure_tables_ok [OF assms(1)] by (metis prod.collapse)
  with assms show ?thesis by (auto simp: wallet_fail_def Let_def split: option.splits if_splits)
qed

text \<open>One step of a worker: the tables stay right, the key store grows, and what the worker
  remembers is true.\<close>

lemma worker_step_ok:
  assumes inv: "wallet_inv ae keypair s" and law: "cipher_law ae" and env: "env_ok keypair env s"
    and c: "worker_ok keypair (sy_kms s) (c, p)"
    and step: "worker_step opts ae env c p (sy_db s, sy_kms s) = (r, (db', k'))"
  shows "kms_grows (sy_kms s) k' \<and> kms_ok ae keypair k' \<and> tables_ok k' db'
    \<and> (\<forall>p'. r = Continue p' \<longrightarrow> worker_ok keypair k' (c, p'))"
proof (cases p)
  case Looking
  with step inv env show ?thesis
    by (auto simp: wallet_inv_def looked_up_def findByIdempotencyKey_def worker_ok_def env_ok_def
        split: option.splits sum.splits prod.splits if_splits)
next
  case (Storing pk x)
  let ?i = "wallet_store_input c (pk, x)"
  from c Storing have kp: "keypair (si_publicKey ?i) x" "si_secret ?i = SensitiveValue x"
    by (simp_all add: worker_ok_def wallet_store_input_def)
  have ok: "kms_ok ae keypair (snd (storeStellarSecret ae (we_store env) ?i (sy_kms s)))"
    using inv law env kp by (intro store_ok [where s = x]) (auto simp: wallet_inv_def cipher_law_def env_ok_def)
  have grows: "kms_grows (sy_kms s) (snd (storeStellarSecret ae (we_store env) ?i (sy_kms s)))"
    by (rule store_grows)
  have found: "kms_lookup k' (w_id (cl_wallet c)) = Some m"
    if "storeStellarSecret ae (we_store env) ?i (sy_kms s) = (Inr m, k')" for m
    using memory_kms.store_found [OF that] by (simp add: wallet_store_input_def)
  from step Storing ok grows found inv show ?thesis
    by (auto simp: wallet_inv_def worker_ok_def intro: tables_ok_grows split: prod.splits sum.splits)
next
  case Relooking
  with step inv show ?thesis
    by (auto simp: wallet_inv_def relooked_up_def findByIdempotencyKey_def worker_ok_def
        split: option.splits sum.splits if_splits)
next
  case (Finalizing m)
  then have m: "kms_lookup (sy_kms s) (w_id (cl_wallet c)) = Some m" using c by (simp add: worker_ok_def)
  have k': "k' = sy_kms s" and tc: "try_complete env c m (sy_db s) = (r, db')"
    using step Finalizing by (auto split: prod.splits)
  have "tables_ok (sy_kms s) db'"
    using tc inv env complete_tables_ok [OF _ _ m]
    by (auto simp: wallet_inv_def try_complete_def env_ok_def split: option.splits if_splits prod.splits sum.splits)
  with tc inv k' show ?thesis
    by (auto simp: wallet_inv_def try_complete_def worker_ok_def
        split: option.splits if_splits prod.splits sum.splits)
next
  case (Failing code)
  with step obtain r' where "wallet_fail opts env c code (sy_db s, sy_kms s) = (r', (db', k'))" "r = Finished r'"
    by (auto split: prod.splits)
  with inv wallet_fail_tables_ok [of "sy_kms s" "(sy_db s, sy_kms s)" opts env c code r' "(db', k')"] show ?thesis
    by (auto simp: wallet_inv_def)
qed

lemma wallet_inv_next:
  assumes "wallet_next opts ae keypair s t" and law: "cipher_law ae"
  shows "wallet_inv ae keypair s \<Longrightarrow> wallet_inv ae keypair t \<and> kms_grows (sy_kms s) (sy_kms t)"
  using assms(1)
proof (induction rule: wallet_next.induct)
  case (next_reserve now walletId jobId userId network s r db')
  with reserve_tables_ok [of "sy_kms s" "sy_db s"] show ?case by (auto simp: wallet_inv_def)
next
  case (next_claim now token jobId s c db')
  with claim_tables_ok [of "sy_kms s" "sy_db s"] show ?case by (auto simp: wallet_inv_def worker_ok_def)
next
  case (next_work c p s env r db' k')
  then have cp: "worker_ok keypair (sy_kms s) (c, p)" by (auto simp: wallet_inv_def)
  have step: "kms_grows (sy_kms s) k' \<and> kms_ok ae keypair k' \<and> tables_ok k' db'
    \<and> (\<forall>p'. r = Continue p' \<longrightarrow> worker_ok keypair k' (c, p'))"
    using worker_step_ok [OF next_work(4) law next_work(2) cp next_work(3)] .
  have "worker_ok keypair k' x" if "x \<in> set (remove1 (c, p) (sy_workers s))" for x
    using that next_work(4) step by (auto simp: wallet_inv_def intro: worker_ok_grows dest: notin_set_remove1)
  with step show ?case by (cases r) (auto simp: wallet_inv_def put_worker_def)
next
  case (next_crash s w)
  then show ?case by (auto simp: wallet_inv_def dest: notin_set_remove1)
next
  case (next_others s us cs)
  then show ?case by (auto simp: wallet_inv_def tables_ok_def)
qed

definition wallet_init :: "wallet_system \<Rightarrow> bool" where
  "wallet_init s \<longleftrightarrow> wallets (sy_db s) = [] \<and> wallet_jobs (sy_db s) = [] \<and> managed_keys (sy_db s) = []
     \<and> sy_kms s = [] \<and> sy_workers s = []"

text \<open>With a cipher that does not decrypt, nothing is claimed: the invariant is guarded by the law.\<close>

interpretation wallet_system: invariant_system wallet_init "wallet_next opts ae keypair"
    "\<lambda>s. cipher_law ae \<longrightarrow> wallet_inv ae keypair s"
proof (unfold_locales, goal_cases)
  case (1 s)
  then show ?case by (simp add: wallet_init_def wallet_inv_def tables_ok_def kms_ok_def references_def)
next
  case (2 s t)
  then show ?case using wallet_inv_next by blast
qed

end
