(* ===== verification/WalletGuarantees.thy ===== *)
theory WalletGuarantees
  imports WalletProps
begin

text \<open>
  What the provisioning of wallets promises, and where it does not keep it.
\<close>

section \<open>Keys\<close>

lemma wallet_inv_reachable:
  "cipher_law ae \<Longrightarrow> wallet_init s0 \<Longrightarrow> reaches (wallet_next opts ae keypair) s0 s \<Longrightarrow> wallet_inv ae keypair s"
  using wallet_system.inv_reachable by blast

lemma signed_loads:
  assumes inv: "wallet_inv ae keypair s" and w: "w \<in> set (wallets (sy_db s))" "w_status w = WActive"
  shows "\<exists>pk mk x. w_publicKey w = Some pk
    \<and> List.find (\<lambda>k. w_managedKeyReferenceId w = Some (mk_id k)) (managed_keys (sy_db s)) = Some mk
    \<and> loadStellarSecret ae False (mk_opaqueReference mk) (sy_kms s) = Inr (Some (SensitiveValue x))
    \<and> keypair pk x"
proof -
  from inv w have "wallet_signed (sy_kms s) (managed_keys (sy_db s)) w"
    by (auto simp: wallet_inv_def tables_ok_def)
  then obtain m mk where m: "kms_lookup (sy_kms s) (w_id w) = Some m" "w_publicKey w = Some (sk_publicKey m)"
    and mk: "mk \<in> set (managed_keys (sy_db s))" "w_managedKeyReferenceId w = Some (mk_id mk)"
      "mk_opaqueReference mk = sk_opaqueReference m"
    by (auto simp: wallet_signed_def)
  from m obtain e where "(w_id w, e) \<in> set (sy_kms s)" "en_material e = m"
    by (auto simp: kms_lookup_def dest: map_of_SomeD)
  with inv mk load_sound [of ae keypair "sy_kms s" "w_id w" e] obtain x where
    "loadStellarSecret ae False (mk_opaqueReference mk) (sy_kms s) = Inr (Some (SensitiveValue x))"
    "keypair (sk_publicKey m) x"
    by (auto simp: wallet_inv_def)
  moreover have "List.find (\<lambda>k. w_managedKeyReferenceId w = Some (mk_id k)) (managed_keys (sy_db s)) = Some mk"
    using find_key_unique [of mk_id "managed_keys (sy_db s)" mk] inv mk
    by (simp add: wallet_inv_def tables_ok_def eq_commute)
  ultimately show ?thesis using m(2) by blast
qed


abbreviation demo_aead :: aead where
  "demo_aead \<equiv> \<lparr>ae_encrypt = (\<lambda>iv s. (rev s, iv)), ae_decrypt = (\<lambda>iv c t. Some (rev c))\<rparr>"

abbreviation demo_keypair :: "string \<Rightarrow> string \<Rightarrow> bool" where
  "demo_keypair p x \<equiv> x = CHR ''S'' # p"

abbreviation demo_wallet_db :: wallet_db where
  "demo_wallet_db \<equiv> \<lparr>wallets = [], wallet_jobs = [], managed_keys = [],
     wallet_users = [\<lparr>wu_id = ''u'', wu_isVerified = True, wu_walletAddress = None\<rparr>],
     wallet_consents = [\<lparr>wc_userId = ''u'', wc_purpose = ''custodial_wallet'', wc_status = ''granted'', wc_createdAt = 0\<rparr>],
     wallet_log = []\<rparr>"

abbreviation demo_env :: wallet_env where
  "demo_env \<equiv> \<lparr>we_lookupFails = False, we_keypair = Some (''G'', ''SG''),
     we_store = \<lparr>sc_beforeStoreFails = False, sc_afterStoreFails = False, sc_uuid = ''r'', sc_iv = ''i''\<rparr>,
     we_relookupFails = False, we_keyId = ''k'', we_completeFails = False, we_completeAt = 20,
     we_recordFails = False, we_retryFrom = 20, we_failedAt = 20\<rparr>"

lemma new_wallet_id [simp]: "w_id (new_wallet now i u n) = i"
  by (simp add: new_wallet_def)

definition demo_reserved :: wallet_db where
  "demo_reserved = snd (reserveEligibleWallet 10 ''w'' ''j'' ''u'' ''TESTNET'' demo_wallet_db)"

lemma demo_reserved_eq:
  "demo_reserved = demo_wallet_db\<lparr>wallets := [new_wallet 10 ''w'' ''u'' ''TESTNET''],
     wallet_jobs := [new_wallet_job 10 ''j'' ''w''],
     wallet_log := [\<lparr>wa_userId = ''u'', wa_action = ''WALLET_PROVISIONING_RESERVED'',
       wa_metadata = JObj [(''walletId'', JStr ''w''), (''network'', JStr ''TESTNET'')]\<rparr>]\<rparr>"
  by (simp add: demo_reserved_def reserveEligibleWallet_def transaction_def reserve_in_tx_def assertEligible_def
      first_by_def CUSTODIAL_WALLET_CONSENT_PURPOSE_def new_wallet_def new_wallet_job_def reset_failed_def
      upsert_wallet_job_def wallet_log_entry_def Let_def)

definition demo_claim :: "claimed_wallet option \<times> wallet_db" where
  "demo_claim = claimCandidate 10 ''t'' 60000 ''j'' demo_reserved"

lemma demo_claim_eq:
  "demo_claim =
    (Some \<lparr>cl_job = lease_job 60010 ''t'' (new_wallet_job 10 ''j'' ''w''),
           cl_wallet = (new_wallet 10 ''w'' ''u'' ''TESTNET'')\<lparr>w_status := WProvisioning\<rparr>\<rparr>,
     demo_reserved\<lparr>wallets := [start_attempt 10 (new_wallet 10 ''w'' ''u'' ''TESTNET'')],
       wallet_jobs := [lease_job 60010 ''t'' (new_wallet_job 10 ''j'' ''w'')],
       wallet_log := wallet_log demo_reserved @ [\<lparr>wa_userId = ''u'', wa_action = ''WALLET_PROVISIONING_ATTEMPTED'',
         wa_metadata = JObj [(''walletId'', JStr ''w''), (''attempt'', JNum 1)]\<rparr>]\<rparr>)"
  by (simp add: demo_claim_def claimCandidate_def demo_reserved_eq claimableWhere_def lease_job_def start_attempt_def
      new_wallet_def new_wallet_job_def wallet_log_entry_def Let_def)

abbreviation demo_claimed :: claimed_wallet where
  "demo_claimed \<equiv> \<lparr>cl_job = lease_job 60010 ''t'' (new_wallet_job 10 ''j'' ''w''),
           cl_wallet = (new_wallet 10 ''w'' ''u'' ''TESTNET'')\<lparr>w_status := WProvisioning\<rparr>\<rparr>"

abbreviation demo_stored :: stored_key where
  "demo_stored \<equiv> \<lparr>sk_provider = ''in-memory-envelope-kms'', sk_opaqueReference = ''kms-memory://r'',
     sk_keyVersion = Some ''1'', sk_publicKey = ''G''\<rparr>"

abbreviation demo_kms :: kms where
  "demo_kms \<equiv> [(''w'', \<lparr>en_material = demo_stored, en_ciphertext = ''GS'', en_iv = ''i'', en_authTag = ''i''\<rparr>)]"

definition demo_done :: wallet_db where
  "demo_done = snd (complete_wallet ''k'' ''w'' ''t'' demo_stored 20 (snd demo_claim))"

lemma demo_complete:
  "complete_wallet ''k'' ''w'' ''t'' demo_stored 20 (snd demo_claim) =
     (Inr (activate_wallet 20 demo_stored ''k'' (start_attempt 10 (new_wallet 10 ''w'' ''u'' ''TESTNET''))), demo_done)"
  "wallets demo_done = [activate_wallet 20 demo_stored ''k'' (start_attempt 10 (new_wallet 10 ''w'' ''u'' ''TESTNET''))]"
  "managed_keys demo_done = [\<lparr>mk_id = ''k'', mk_provider = ''in-memory-envelope-kms'',
     mk_opaqueReference = ''kms-memory://r'', mk_keyVersion = Some ''1''\<rparr>]"
  by (simp_all add: demo_done_def demo_claim_eq complete_wallet_def transaction_def complete_wallet_in_tx_def
      demo_reserved_eq new_wallet_def new_wallet_job_def lease_job_def start_attempt_def holds_wallet_lease_def
      upsert_key_def wallet_columns_free_def wallet_log_entry_def Let_def)

abbreviation demo_wallet_system :: wallet_system where
  "demo_wallet_system \<equiv> \<lparr>sy_db = demo_wallet_db, sy_kms = [], sy_workers = []\<rparr>"

lemma demo_wallet_run:
  "reaches (wallet_next default_wallet_options demo_aead demo_keypair) demo_wallet_system
     \<lparr>sy_db = demo_done, sy_kms = demo_kms, sy_workers = []\<rparr>"
  (is "reaches ?R _ _")
proof -
  have lease: "lease_of demo_claimed = Some ''t''" "w_id (cl_wallet demo_claimed) = ''w''"
    by (simp_all add: lease_of_def lease_job_def new_wallet_def)
  have env: "env_ok demo_keypair demo_env \<lparr>sy_db = snd demo_claim, sy_kms = [], sy_workers = ws\<rparr>" for ws
    by (simp add: env_ok_def demo_claim_eq demo_reserved_eq references_def)
  have env': "env_ok demo_keypair (demo_env\<lparr>we_store := (we_store demo_env)\<lparr>sc_uuid := ''q''\<rparr>\<rparr>)
      \<lparr>sy_db = snd demo_claim, sy_kms = demo_kms, sy_workers = ws\<rparr>" for ws
    by (simp add: env_ok_def demo_claim_eq demo_reserved_eq references_def)
  have 1: "?R demo_wallet_system \<lparr>sy_db = demo_reserved, sy_kms = [], sy_workers = []\<rparr>"
    using next_reserve [of 10 "''w''" "''j''" "''u''" "''TESTNET''" demo_wallet_system "fst (reserveEligibleWallet 10 ''w'' ''j'' ''u'' ''TESTNET'' demo_wallet_db)"
        demo_reserved] by (simp add: demo_reserved_def)
  have 2: "?R \<lparr>sy_db = demo_reserved, sy_kms = [], sy_workers = []\<rparr>
      \<lparr>sy_db = snd demo_claim, sy_kms = [], sy_workers = [(demo_claimed, Looking)]\<rparr>"
    using next_claim [of 10 "''t''" default_wallet_options "''j''" "\<lparr>sy_db = demo_reserved, sy_kms = [], sy_workers = []\<rparr>"
        demo_claimed "snd demo_claim"]
    by (simp add: demo_claim_eq [unfolded demo_claim_def] demo_claim_def default_wallet_options_def)
  have 3: "?R \<lparr>sy_db = snd demo_claim, sy_kms = [], sy_workers = [(demo_claimed, Looking)]\<rparr>
      \<lparr>sy_db = snd demo_claim, sy_kms = [], sy_workers = [(demo_claimed, Storing ''G'' ''SG'')]\<rparr>"
    using next_work [OF _ env, of demo_claimed Looking "[(demo_claimed, Looking)]" default_wallet_options demo_aead]
    by (simp add: put_worker_def looked_up_def lease findByIdempotencyKey_def kms_lookup_def)
  have 4: "?R \<lparr>sy_db = snd demo_claim, sy_kms = [], sy_workers = [(demo_claimed, Storing ''G'' ''SG'')]\<rparr>
      \<lparr>sy_db = snd demo_claim, sy_kms = demo_kms, sy_workers = [(demo_claimed, Finalizing demo_stored)]\<rparr>"
    using next_work [OF _ env, of demo_claimed "Storing ''G'' ''SG''" "[(demo_claimed, Storing ''G'' ''SG'')]"
        default_wallet_options demo_aead]
    by (simp add: put_worker_def storeStellarSecret_def wallet_store_input_def lease Let_def)
  have 5: "?R \<lparr>sy_db = snd demo_claim, sy_kms = demo_kms, sy_workers = [(demo_claimed, Finalizing demo_stored)]\<rparr>
      \<lparr>sy_db = demo_done, sy_kms = demo_kms, sy_workers = []\<rparr>"
    using next_work [OF _ env', of demo_claimed "Finalizing demo_stored" "[(demo_claimed, Finalizing demo_stored)]"
        default_wallet_options demo_aead]
    by (simp add: put_worker_def try_complete_def lease demo_complete(1))
  show ?thesis
    by (intro reaches_step [of ?R, OF _ 5] reaches_step [of ?R, OF _ 4] reaches_step [of ?R, OF _ 3]
        reaches_step [of ?R, OF _ 2] reaches_one [of ?R, OF 1])
qed

lemma demo_wallet_init: "wallet_init demo_wallet_system" "cipher_law demo_aead"
  by (simp_all add: wallet_init_def cipher_law_def)


section \<open>One key pair per wallet\<close>

lemma store_grows_result: "storeStellarSecret ae call i k = (r, k') \<Longrightarrow> kms_grows k k'"
  by (metis store_grows snd_conv)

lemma wallet_next_grows: "wallet_next opts ae keypair s t \<Longrightarrow> kms_grows (sy_kms s) (sy_kms t)"
proof (induction rule: wallet_next.induct)
  case (next_work c p s env r db' k')
  then show ?case
    by (cases p) (auto simp: wallet_fail_def Let_def split: prod.splits sum.splits dest: store_grows_result)
qed simp_all

lemma wallet_run_grows: "reaches (wallet_next opts ae keypair) s t \<Longrightarrow> kms_grows (sy_kms s) (sy_kms t)"
  by (induction rule: reaches.induct) (auto intro: kms_grows_trans wallet_next_grows)

lemma wallet_fail_kms: "wallet_fail opts env c code s = (r, (db', k')) \<Longrightarrow>
    k' = snd s \<and> (\<forall>i p. r \<noteq> WalletCompleted i p)"
  by (auto simp: wallet_fail_def Let_def split: if_splits)

lemma wallet_finalize_kms: "wallet_finalize opts env c token m s = (r, (db', k')) \<Longrightarrow>
    k' = snd s \<and> (\<forall>i p. r = WalletCompleted i p \<longrightarrow> p = sk_publicKey m)"
  by (auto simp: wallet_finalize_def split: if_splits prod.splits sum.splits dest: wallet_fail_kms)

lemma handleClaimed_found:
  assumes "kms_lookup (snd s) (w_id (cl_wallet c)) = Some m"
    and "handleClaimed opts ae env (Some c) s = (r, (db', k'))"
  shows "k' = snd s \<and> (\<forall>i p. r = WalletCompleted i p \<longrightarrow> p = sk_publicKey m)"
  using assms
  by (auto simp: handleClaimed_def findByIdempotencyKey_def split: option.splits if_splits
      dest: wallet_fail_kms wallet_finalize_kms)

text \<open>
  Once a key of a wallet is in the key store - also when the answer was lost, the worker
  crashed before it could record it, or the attempt failed - every later attempt, whatever happened in between
  and whatever pair its generator would offer, leaves the key store as it is and can
  only activate the wallet with that first public key.
\<close>

theorem retry_reuses_key:
  assumes "reaches (wallet_next opts ae keypair) s t"
    and "kms_lookup (sy_kms s) (w_id (cl_wallet c)) = Some m"
    and "handleClaimed opts ae env (Some c) (sy_db t, sy_kms t) = (r, (db', k'))"
  shows "k' = sy_kms t \<and> kms_lookup k' (w_id (cl_wallet c)) = Some m
    \<and> (\<forall>i p. r = WalletCompleted i p \<longrightarrow> p = sk_publicKey m)"
proof -
  have found: "kms_lookup (sy_kms t) (w_id (cl_wallet c)) = Some m"
    using wallet_run_grows [OF assms(1)] assms(2) by (simp add: kms_grows_def)
  with handleClaimed_found [OF _ assms(3)] show ?thesis by simp
qed

text \<open>The pair \<open>H\<close>, \<open>SH\<close> is generated after a store of \<open>G\<close> whose answer was lost.\<close>

theorem retry_reuses_key_witness:
  "fst (handleClaimed default_wallet_options demo_aead (demo_env\<lparr>we_keypair := Some (''H'', ''SH'')\<rparr>)
          (Some demo_claimed) (snd demo_claim, demo_kms)) = WalletCompleted ''w'' ''G''
   \<and> snd (snd (handleClaimed default_wallet_options demo_aead (demo_env\<lparr>we_keypair := Some (''H'', ''SH'')\<rparr>)
          (Some demo_claimed) (snd demo_claim, demo_kms))) = demo_kms"
proof -
  let ?env = "demo_env\<lparr>we_keypair := Some (''H'', ''SH'')\<rparr>"
  have lease: "lease_of demo_claimed = Some ''t''" by (simp add: lease_of_def lease_job_def)
  have run: "handleClaimed default_wallet_options demo_aead ?env (Some demo_claimed) (snd demo_claim, demo_kms)
      = (WalletCompleted ''w'' ''G'', (demo_done, demo_kms))"
    by (simp add: handleClaimed_def lease findByIdempotencyKey_def kms_lookup_def wallet_finalize_def
        demo_complete(1)) (simp add: activate_wallet_def start_attempt_def)
  let ?s = "\<lparr>sy_db = snd demo_claim, sy_kms = demo_kms, sy_workers = []\<rparr>"
  have run': "handleClaimed default_wallet_options demo_aead ?env (Some demo_claimed) (sy_db ?s, sy_kms ?s)
      = (WalletCompleted ''w'' ''G'', (demo_done, demo_kms))"
    using run by simp
  have "kms_lookup (sy_kms ?s) (w_id (cl_wallet demo_claimed)) = Some demo_stored"
    by (simp add: kms_lookup_def)
  from retry_reuses_key [OF reaches_refl this run'] show ?thesis unfolding run by simp
qed

section \<open>Attempts\<close>

lemma job_unique:
  "tables_ok k db \<Longrightarrow> j \<in> set (wallet_jobs db) \<Longrightarrow> x \<in> set (wallet_jobs db) \<Longrightarrow>
   wj_id x = wj_id j \<or> wj_walletId x = wj_walletId j \<Longrightarrow> x = j"
  by (auto simp: tables_ok_def distinct_map inj_on_def)

lemma count_one:
  "distinct (map key rows) \<Longrightarrow> r \<in> set rows \<Longrightarrow> p r \<Longrightarrow> count_where (\<lambda>x. key x = key r \<and> p x) rows = 1"
  by (induction rows) (auto simp: count_where_0 intro: rev_image_eqI)

lemma find_job_lease:
  assumes "distinct (map wj_id js)" and "j \<in> set js" and "p j" and "\<And>x. wj_id (g x) = wj_id x"
  shows "List.find (\<lambda>x. wj_id x = wj_id j) (update_where (\<lambda>x. wj_id x = wj_id j \<and> p x) g js) = Some (g j)"
  using find_update_where [of wj_id g "wj_id j" "\<lambda>x. wj_id x = wj_id j \<and> p x" js]
    find_key_unique [OF assms(1,2)] assms(3,4) by simp

text \<open>A claimable job is claimed: its job row, its wallet row, and what the worker is given.\<close>

lemma claimCandidate_claims:
  assumes ok: "tables_ok k db" and j: "j \<in> set (wallet_jobs db)" "claimableWhere now j"
  shows "\<exists>w db'. claimCandidate now token leaseMs (wj_id j) db =
        (Some \<lparr>cl_job = lease_job (now + leaseMs) token j, cl_wallet = w\<lparr>w_status := WProvisioning\<rparr>\<rparr>, db')
    \<and> w \<in> set (wallets db) \<and> w_id w = wj_walletId j
    \<and> List.find (\<lambda>x. w_id x = wj_walletId j) (wallets db') = Some (start_attempt now w)
    \<and> List.find (\<lambda>x. wj_walletId x = wj_walletId j) (wallet_jobs db') = Some (lease_job (now + leaseMs) token j)"
proof -
  let ?p = "\<lambda>x. wj_id x = wj_id j \<and> claimableWhere now x" and ?g = "lease_job (now + leaseMs) token"
  have dist: "distinct (map wj_id (wallet_jobs db))" "distinct (map wj_walletId (wallet_jobs db))"
    "distinct (map w_id (wallets db))" using ok by (auto simp: tables_ok_def)
  have g: "wj_id (?g x) = wj_id x" "wj_walletId (?g x) = wj_walletId x" for x
    by (simp_all add: lease_job_def)
  from ok j(1) obtain w where w: "w \<in> set (wallets db)" "w_id w = wj_walletId j"
    by (auto simp: tables_ok_def)
  have fw: "List.find (\<lambda>x. w_id x = wj_walletId j) (wallets db) = Some w"
    using find_key_unique [OF dist(3) w(1)] w(2) by simp
  have fw': "List.find (\<lambda>x. w_id x = wj_walletId j)
      (update_where (\<lambda>x. w_id x = wj_walletId j) (start_attempt now) (wallets db)) = Some (start_attempt now w)"
    by (rule find_update_where_key [OF _ fw]) (simp add: start_attempt_def)
  have fj: "List.find (\<lambda>x. wj_walletId x = wj_walletId j) (update_where ?p ?g (wallet_jobs db)) = Some (?g j)"
    using find_update_where [of wj_walletId ?g "wj_walletId j" ?p "wallet_jobs db"] g j(2)
      find_key_unique [OF dist(2) j(1)] by simp
  have upd: "(?g j)\<lparr>wj_leaseToken := Some token\<rparr> = ?g j" by (simp add: lease_job_def)
  show ?thesis
    using find_job_lease [OF dist(1) j(1), of "claimableWhere now" ?g] count_one [of wj_id, OF dist(1) j(1), of "claimableWhere now"] g j(2) fw fw' fj upd w
    by (intro exI [of _ w]) (simp add: claimCandidate_def Let_def)
qed

lemma claimByWalletId_claims:
  assumes ok: "tables_ok k db" and j: "j \<in> set (wallet_jobs db)" "claimableWhere now j"
  shows "claimByWalletId now token leaseMs (wj_walletId j) db = claimCandidate now token leaseMs (wj_id j) db"
proof -
  have "List.find (\<lambda>x. wj_walletId x = wj_walletId j \<and> claimableWhere now x) (wallet_jobs db) = Some j"
  proof (cases "List.find (\<lambda>x. wj_walletId x = wj_walletId j \<and> claimableWhere now x) (wallet_jobs db)")
    case None
    with j show ?thesis by (auto simp: find_None)
  next
    case (Some x)
    with find_Some [OF Some] job_unique [OF ok j(1), of x] show ?thesis by auto
  qed
  then show ?thesis by (simp add: claimByWalletId_def)
qed

lemma claimByWalletId_Some:
  assumes "claimByWalletId now token leaseMs walletId db = (Some c, db')"
  shows "\<exists>j \<in> set (wallet_jobs db). wj_walletId j = walletId \<and> claimableWhere now j"
  using assms by (auto simp: claimByWalletId_def split: option.splits dest: find_Some)

text \<open>What a worker holds after it has claimed a wallet.\<close>

lemma claimed_wallet:
  assumes "tables_ok k db" and "claimByWalletId now token leaseMs walletId db = (Some c, db')"
  shows "\<exists>j w. j \<in> set (wallet_jobs db) \<and> wj_walletId j = walletId
    \<and> cl_job c = lease_job (now + leaseMs) token j \<and> w_id (cl_wallet c) = walletId
    \<and> List.find (\<lambda>x. w_id x = walletId) (wallets db') = Some (start_attempt now w)
    \<and> List.find (\<lambda>x. wj_walletId x = walletId) (wallet_jobs db') = Some (lease_job (now + leaseMs) token j)"
proof -
  from claimByWalletId_Some [OF assms(2)] obtain j where
    j: "j \<in> set (wallet_jobs db)" "wj_walletId j = walletId" "claimableWhere now j" by blast
  from claimCandidate_claims [OF assms(1) j(1,3), of token leaseMs]
    claimByWalletId_claims [OF assms(1) j(1,3), of token leaseMs] assms(2) j
  obtain w where "c = \<lparr>cl_job = lease_job (now + leaseMs) token j, cl_wallet = w\<lparr>w_status := WProvisioning\<rparr>\<rparr>"
    "w_id w = walletId" "List.find (\<lambda>x. w_id x = walletId) (wallets db') = Some (start_attempt now w)"
    "List.find (\<lambda>x. wj_walletId x = walletId) (wallet_jobs db') = Some (lease_job (now + leaseMs) token j)"
    by auto
  with j show ?thesis by (intro exI [of _ j] exI [of _ w]) simp
qed

text \<open>Settling a claimed wallet.\<close>

definition wallet_row :: "ident \<Rightarrow> wallet_db \<Rightarrow> wallet option" where
  "wallet_row i db = List.find (\<lambda>w. w_id w = i) (wallets db)"

definition wallet_job_row :: "ident \<Rightarrow> wallet_db \<Rightarrow> wallet_job option" where
  "wallet_job_row i db = List.find (\<lambda>j. wj_walletId j = i) (wallet_jobs db)"

lemma recordFailure_rows:
  assumes "wallet_row i db = Some w" and "wallet_job_row i db = Some j" and "holds_wallet_lease token j"
  shows "\<exists>db'. recordFailure i token code retryAt now db = (Inr (), db')
    \<and> wallet_row i db' = Some (fail_wallet code (retryAt = None) now w)
    \<and> wallet_job_row i db' = Some (fail_wallet_job code retryAt now j)"
proof -
  have "List.find (\<lambda>x. w_id x = i) (update_where (\<lambda>x. w_id x = i) (fail_wallet code (retryAt = None) now) (wallets db))
      = Some (fail_wallet code (retryAt = None) now w)"
    by (rule find_update_where_key) (use assms in \<open>simp_all add: wallet_row_def fail_wallet_def\<close>)
  moreover have "List.find (\<lambda>x. wj_walletId x = i) (update_where (\<lambda>x. wj_walletId x = i)
      (fail_wallet_job code retryAt now) (wallet_jobs db)) = Some (fail_wallet_job code retryAt now j)"
    by (rule find_update_where_key) (use assms in \<open>simp_all add: wallet_job_row_def fail_wallet_job_def\<close>)
  ultimately show ?thesis
    using assms by (simp add: recordFailure_def transaction_def recordFailure_in_tx_def wallet_row_def
        wallet_job_row_def Let_def)
qed

lemma complete_rows:
  assumes "wallet_row i db = Some w" and "wallet_job_row i db = Some j" and "holds_wallet_lease token j"
    and "w_status w \<noteq> WActive"
    and run: "complete_wallet keyId i token m now db = (Inr w', db')"
  shows "\<exists>kid. w' = activate_wallet now m kid w
    \<and> wallet_row i db' = Some w' \<and> wallet_job_row i db' = Some (finish_job now j)"
proof -
  obtain kid keys where kid: "upsert_key keyId m (managed_keys db) = (kid, keys)" by (cases "upsert_key keyId m (managed_keys db)")
  have "List.find (\<lambda>x. w_id x = i) (update_where (\<lambda>x. w_id x = i) (activate_wallet now m kid) (wallets db))
      = Some (activate_wallet now m kid w)"
    by (rule find_update_where_key) (use assms in \<open>simp_all add: wallet_row_def activate_wallet_def\<close>)
  moreover have "List.find (\<lambda>x. wj_walletId x = i) (update_where (\<lambda>x. wj_walletId x = i)
      (finish_job now) (wallet_jobs db)) = Some (finish_job now j)"
    by (rule find_update_where_key) (use assms in \<open>simp_all add: wallet_job_row_def finish_job_def\<close>)
  moreover have "complete_wallet_in_tx keyId i token m now db = (Inr w', db')"
    using transaction_atomic [OF run [unfolded complete_wallet_def]] by simp
  ultimately show ?thesis
    using assms(1-4) kid
    by (auto simp: complete_wallet_in_tx_def wallet_row_def wallet_job_row_def Let_def split: if_splits)
qed

lemma complete_failed: "complete_wallet keyId i token m now db = (Inl e, db') \<Longrightarrow> db' = db"
  using transaction_atomic [of "complete_wallet_in_tx keyId i token m now"] by (fastforce simp: complete_wallet_def)

text \<open>The three ends of an attempt.\<close>

fun settled :: "wallet_options \<Rightarrow> wallet_env \<Rightarrow> ident \<Rightarrow> nat \<Rightarrow> nat \<Rightarrow> wallet_result \<Rightarrow> wallet \<Rightarrow> wallet_job \<Rightarrow> bool" where
  "settled opts env i tries limit WalletIdle w j \<longleftrightarrow> False"
| "settled opts env i tries limit (WalletCompleted i' p) w j \<longleftrightarrow>
     i' = i \<and> w_status w = WActive \<and> w_publicKey w = Some p \<and> wj_status j = WJCompleted"
| "settled opts env i tries limit (WalletRetryScheduled i' code) w j \<longleftrightarrow>
     i' = i \<and> tries < limit \<and> w_status w = WRetryable \<and> w_failureCode w = Some code \<and> wj_status j = WJRetry
     \<and> wj_availableAt j = we_retryFrom env + wo_baseRetryMs opts * 2 ^ (tries - 1)"
| "settled opts env i tries limit (WalletDeadLetter i' code) w j \<longleftrightarrow>
     i' = i \<and> limit \<le> tries \<and> w_status w = WFailed \<and> w_failureCode w = Some code \<and> wj_status j = WJDeadLetter"

definition in_hand :: "ident \<Rightarrow> ident \<Rightarrow> claimed_wallet \<Rightarrow> wallet_db \<Rightarrow> bool" where
  "in_hand i token c db \<longleftrightarrow> w_id (cl_wallet c) = i \<and> lease_of c = Some token
     \<and> wallet_job_row i db = Some (cl_job c) \<and> holds_wallet_lease token (cl_job c)
     \<and> (\<exists>w. wallet_row i db = Some w \<and> w_status w = WProvisioning)"

definition settles :: "wallet_options \<Rightarrow> wallet_env \<Rightarrow> claimed_wallet \<Rightarrow> wallet_result \<Rightarrow> wallet_db \<Rightarrow> bool" where
  "settles opts env c r db \<longleftrightarrow> (\<exists>w j. wallet_row (w_id (cl_wallet c)) db = Some w
     \<and> wallet_job_row (w_id (cl_wallet c)) db = Some j \<and> wj_leaseToken j = None \<and> wj_leasedUntil j = None
     \<and> settled opts env (w_id (cl_wallet c)) (wj_attempts (cl_job c)) (wj_maxAttempts (cl_job c)) r w j)"

lemma wallet_fail_settles:
  assumes hand: "in_hand i token c (fst s)" and up: "\<not> we_recordFails env"
    and run: "wallet_fail opts env c code s = (r, s')"
  shows "settles opts env c r (fst s')"
proof -
  let ?at = "retry_time opts (we_retryFrom env) (cl_job c)"
  from hand obtain w where w: "wallet_row i (fst s) = Some w" by (auto simp: in_hand_def)
  with hand recordFailure_rows [of i "fst s" w "cl_job c" token code ?at "we_failedAt env"]
  obtain db' where db': "recordFailure i token code ?at (we_failedAt env) (fst s) = (Inr (), db')"
    "wallet_row i db' = Some (fail_wallet code (?at = None) (we_failedAt env) w)"
    "wallet_job_row i db' = Some (fail_wallet_job code ?at (we_failedAt env) (cl_job c))"
    by (auto simp: in_hand_def)
  with run up hand show ?thesis
    by (auto simp: wallet_fail_def Let_def in_hand_def settles_def retry_time_def fail_wallet_def
        fail_wallet_job_def or_default_def split: if_splits)
qed

lemma wallet_finalize_settles:
  assumes hand: "in_hand i token c (fst s)" and up: "\<not> we_recordFails env"
    and run: "wallet_finalize opts env c token m s = (r, s')"
  shows "settles opts env c r (fst s')"
proof (cases "\<not> we_completeFails env \<and> (\<exists>w db'. complete_wallet (we_keyId env) i token m (we_completeAt env) (fst s) = (Inr w, db'))")
  case True
  then obtain w' db' where fin: "complete_wallet (we_keyId env) i token m (we_completeAt env) (fst s) = (Inr w', db')"
    by blast
  from hand obtain w where w: "wallet_row i (fst s) = Some w" "w_status w \<noteq> WActive" by (auto simp: in_hand_def)
  have id: "w_id w = i" using w(1) by (auto simp: wallet_row_def dest: find_Some)
  from complete_rows [OF w(1) _ _ w(2) fin] hand obtain kid where
    "w' = activate_wallet (we_completeAt env) m kid w" "wallet_row i db' = Some w'"
    "wallet_job_row i db' = Some (finish_job (we_completeAt env) (cl_job c))"
    by (auto simp: in_hand_def)
  with run fin True hand id show ?thesis
    by (auto simp: wallet_finalize_def in_hand_def settles_def activate_wallet_def finish_job_def)
next
  case False
  then have "\<exists>code. wallet_fail opts env c code s = (r, s')"
    using run hand by (cases s) (auto simp: wallet_finalize_def in_hand_def split: if_splits prod.splits sum.splits
        dest: complete_failed)
  with wallet_fail_settles [OF hand up] show ?thesis by blast
qed

lemma handleClaimed_settles:
  assumes hand: "in_hand i token c (fst s)" and up: "\<not> we_recordFails env"
    and run: "handleClaimed opts ae env (Some c) s = (r, s')"
  shows "settles opts env c r (fst s')"
proof -
  have lease: "lease_of c = Some token" using hand by (simp add: in_hand_def)
  consider (fails) code k where "wallet_fail opts env c code (fst s, k) = (r, s')"
    | (finishes) m k where "wallet_finalize opts env c token m (fst s, k) = (r, s')"
    using run lease
    by (cases s) (auto simp: handleClaimed_def split: sum.splits option.splits prod.splits; blast)
  then show ?thesis
  proof cases
    case fails
    with wallet_fail_settles [of i token c "(fst s, k)" env opts code r s'] hand up show ?thesis by simp
  next
    case finishes
    with wallet_finalize_settles [of i token c "(fst s, k)" env opts m r s'] hand up show ?thesis by simp
  qed
qed

lemma claimed_in_hand:
  assumes "tables_ok k db" and "claimByWalletId now token leaseMs walletId db = (Some c, db')" and "token \<noteq> []"
  shows "in_hand walletId token c db'"
proof -
  from claimed_wallet [OF assms(1,2)] obtain j w where
    "cl_job c = lease_job (now + leaseMs) token j" "w_id (cl_wallet c) = walletId"
    "List.find (\<lambda>x. w_id x = walletId) (wallets db') = Some (start_attempt now w)"
    "List.find (\<lambda>x. wj_walletId x = walletId) (wallet_jobs db') = Some (lease_job (now + leaseMs) token j)"
    by blast
  with assms(3) show ?thesis
    by (simp add: in_hand_def lease_of_def lease_job_def holds_wallet_lease_def wallet_row_def
        wallet_job_row_def start_attempt_def)
qed

text \<open>
  C32. A worker that claims a wallet settles it, whichever of its calls fail, as long as the database
  takes its report: the wallet is active with the stored key and its job completed; or the
  wallet is retryable and the job due again after the base delay doubled once per earlier attempt;
  or, exactly when the attempts allowed are used up, the wallet is failed and the job a
  dead letter. In each case the lease is given back.
\<close>

theorem provisioning_settles:
  assumes "tables_ok k db" and "claimByWalletId now token (wo_leaseMs opts) walletId db = (Some c, db1)"
    and "token \<noteq> []" and "\<not> we_recordFails env"
    and "handleWallet opts ae env now token walletId (db, k) = (r, (db', k'))"
  shows "settles opts env c r db' \<and> wallet_job_row walletId db' \<noteq> None"
proof -
  have hand: "in_hand walletId token c db1" using claimed_in_hand [OF assms(1-3)] .
  moreover have "handleClaimed opts ae env (Some c) (db1, k) = (r, (db', k'))"
    using assms(2,5) by (simp add: handleWallet_def)
  ultimately have "settles opts env c r db'" using handleClaimed_settles [of walletId token c "(db1, k)" env opts ae r "(db', k')"] assms(4) by simp
  moreover from this hand have "wallet_job_row walletId db' \<noteq> None" by (auto simp: settles_def in_hand_def)
  ultimately show ?thesis by blast
qed

lemma demo_tables_ok: "tables_ok [] demo_reserved"
  by (simp add: tables_ok_def demo_reserved_eq new_wallet_def new_wallet_job_def)

lemma demo_claim_by: "claimByWalletId 10 ''t'' 60000 ''w'' demo_reserved = (Some demo_claimed, snd demo_claim)"
proof -
  have "claimByWalletId 10 ''t'' 60000 ''w'' demo_reserved = demo_claim"
    by (simp add: claimByWalletId_def demo_claim_def)
      (simp add: demo_reserved_eq claimableWhere_def new_wallet_job_def)
  then show ?thesis by (simp add: demo_claim_eq)
qed

theorem provisioning_settles_witness:
  "let s' = snd (handleWallet default_wallet_options demo_aead (demo_env\<lparr>we_lookupFails := True\<rparr>) 10 ''t'' ''w'' (demo_reserved, []))
   in settles default_wallet_options (demo_env\<lparr>we_lookupFails := True\<rparr>) demo_claimed
        (WalletRetryScheduled ''w'' KMS_UNAVAILABLE) (fst s')"
proof -
  let ?env = "demo_env\<lparr>we_lookupFails := True\<rparr>"
  let ?run = "handleWallet default_wallet_options demo_aead ?env 10 ''t'' ''w'' (demo_reserved, [])"
  have lease: "lease_of demo_claimed = Some ''t''" by (simp add: lease_of_def lease_job_def)
  have claim: "claimByWalletId 10 ''t'' (wo_leaseMs default_wallet_options) ''w'' demo_reserved = (Some demo_claimed, snd demo_claim)"
    by (simp add: default_wallet_options_def demo_claim_by)
  have "fst ?run = WalletRetryScheduled ''w'' KMS_UNAVAILABLE"
    by (simp add: handleWallet_def claim handleClaimed_def lease findByIdempotencyKey_def wallet_fail_def Let_def)
      (simp add: lease_job_def new_wallet_job_def)
  then have "?run = (WalletRetryScheduled ''w'' KMS_UNAVAILABLE, (fst (snd ?run), snd (snd ?run)))"
    by (simp add: prod_eq_iff)
  from provisioning_settles [OF demo_tables_ok claim _ _ this] show ?thesis
    by (simp add: Let_def)
qed

section \<open>A crashed attempt is taken for a finished one\<close>

text \<open>\<open>WalletProvisioningRequestedHandler\<close> as the relay sees it: the wallet tables are not the
  outbox tables, so the outbox is left alone.\<close>

definition wallet_requested_handler ::
    "wallet_options \<Rightarrow> aead \<Rightarrow> wallet_env \<Rightarrow> time \<Rightarrow> ident \<Rightarrow> wallet_world \<Rightarrow> outbox_handler" where
  "wallet_requested_handler opts ae env now token s =
     \<lparr>oh_name = wallet_requested_name, oh_eventType = ''WalletProvisioningRequested'', oh_eventVersion = 1,
      oh_maxAttempts = Some 5, oh_backoffBaseMs = None, oh_backoffMultiplier = None,
      oh_handle = (\<lambda>ctx ob. (fst (wallet_requested_handle opts ae env now token ctx s), ob))\<rparr>"

lemma leased_wallet_idle:
  assumes ok: "tables_ok k db" and claim: "claimByWalletId t0 token (wo_leaseMs opts) walletId db = (Some c, db1)"
    and now: "now \<le> t0 + wo_leaseMs opts"
  shows "handleWallet opts ae env now token' walletId (db1, kms) = (WalletIdle, (db1, kms))"
proof -
  from claim have claimed: "tables_ok k db1"
    using claim_tables_ok [OF ok] ok by (auto simp: claimByWalletId_def split: option.splits)
  from claimed_wallet [OF ok claim] obtain j where
    row: "List.find (\<lambda>x. wj_walletId x = walletId) (wallet_jobs db1) = Some (lease_job (t0 + wo_leaseMs opts) token j)"
    by blast
  have "\<not> claimableWhere now x" if "x \<in> set (wallet_jobs db1)" "wj_walletId x = walletId" for x
  proof -
    have "x = lease_job (t0 + wo_leaseMs opts) token j"
      using job_unique [OF claimed _ that(1), of "lease_job (t0 + wo_leaseMs opts) token j"] find_Some [OF row] that(2)
      by simp
    with now show ?thesis by (simp add: claimableWhere_def lease_job_def)
  qed
  then have "List.find (\<lambda>j. wj_walletId j = walletId \<and> claimableWhere now j) (wallet_jobs db1) = None"
    by (auto simp: find_None)
  then show ?thesis by (simp add: handleWallet_def claimByWalletId_def handleClaimed_def)
qed

text \<open>
  A worker claims a wallet and crashes. When the relay dispatches the event again before the wallet's lease
  has run out (the lease of the outbox job is the shorter one), the handler finds nothing to claim
  and reports success: the relay completes the job, the wallet stays in provisioning and
  nothing is left that would take it up again.
\<close>

theorem crashed_provisioning_reported_done:
  assumes "tables_ok k db" and "claimByWalletId t0 token (wo_leaseMs opts) walletId db = (Some c, db1)"
    and "now \<le> t0 + wo_leaseMs opts" and "json_string (lr_payload lease) ''walletId'' = walletId"
    and "validate_event (cfg_zod cfg) (cfg_schemas cfg) (oe_eventType e) (oe_eventVersion e) (lr_payload lease) = Inr ()"
  shows "run_handler cfg now (wallet_requested_handler opts ae env now token' (db1, kms)) e lease ob =
       completeJob now (lr_jobId lease) (lr_leaseToken lease)
         \<lparr>hr_idempotencyKey = Some (oe_id e @ '':wallet.provision''),
          hr_result = Some (JObj [(''kind'', JStr ''idle'')])\<rparr> ob
     \<and> snd (handleWallet opts ae env now token' walletId (db1, kms)) = (db1, kms)
     \<and> map_option w_status (wallet_row walletId db1) = Some WProvisioning"
proof -
  note idle = leased_wallet_idle [OF assms(1-3)]
  from claimed_wallet [OF assms(1,2)] have "map_option w_status (wallet_row walletId db1) = Some WProvisioning"
    by (auto simp: wallet_row_def start_attempt_def)
  with idle assms(4,5) show ?thesis
    by (simp add: run_handler_def wallet_requested_handler_def wallet_requested_handle_def result_json_def
        wallet_requested_name_def or_default_def Let_def)
qed

abbreviation demo_relay :: relay_config where
  "demo_relay \<equiv> \<lparr>cfg_handlers = empty_handlers, cfg_schemas = registerBuiltInSchemas (\<lambda>_. None),
     cfg_zod = (\<lambda>_ v. v \<noteq> None), cfg_batchSize = 25, cfg_leaseMs = 30000, cfg_uuid = (\<lambda>_. ''q'')\<rparr>"

abbreviation demo_request :: outbox_event where
  "demo_request \<equiv> \<lparr>oe_id = ''e'', oe_aggregateId = ''w'', oe_aggregateType = ''Wallet'',
     oe_eventType = ''WalletProvisioningRequested'', oe_eventVersion = 1, oe_payload = JsonText JNull,
     oe_status = EvPending, oe_publishedAt = None, oe_source = None, oe_causedBy = None, oe_createdAt = 0\<rparr>"

abbreviation demo_job_lease :: lease_result where
  "demo_job_lease \<equiv> \<lparr>lr_jobId = ''o'', lr_leaseToken = ''q'', lr_leasedUntil = 60020, lr_attempt = 0,
     lr_payload = JObj [(''walletId'', JStr ''w''), (''userId'', JStr ''u''), (''network'', JStr ''TESTNET'')]\<rparr>"

text \<open>The wallet is claimed at 10 for a minute; the outbox job is dispatched again 30 seconds later.\<close>

theorem crashed_provisioning_reported_done_witness:
  "run_handler demo_relay 30020 (wallet_requested_handler default_wallet_options demo_aead demo_env 30020 ''t2''
       (snd demo_claim, [])) demo_request demo_job_lease \<lparr>events = [], jobs = [], rolledBack = []\<rparr> =
     completeJob 30020 ''o'' ''q'' \<lparr>hr_idempotencyKey = Some ''e:wallet.provision'',
       hr_result = Some (JObj [(''kind'', JStr ''idle'')])\<rparr>
       \<lparr>events = [], jobs = [], rolledBack = []\<rparr>"
proof -
  have claim: "claimByWalletId 10 ''t'' (wo_leaseMs default_wallet_options) ''w'' demo_reserved = (Some demo_claimed, snd demo_claim)"
    by (simp add: default_wallet_options_def demo_claim_by)
  have "json_string (lr_payload demo_job_lease) ''walletId'' = ''w''"
    by (simp add: json_string_def json_field_def)
  moreover have "validate_event (cfg_zod demo_relay) (cfg_schemas demo_relay) (oe_eventType demo_request)
      (oe_eventVersion demo_request) (lr_payload demo_job_lease) = Inr ()"
    by (simp add: validate_event_def registerBuiltInSchemas_def builtInSchemas_def register_schema_def keyOf_def
        show_int_def show_nat.simps digit_char_def schema_accepts_def json_field_def)
  ultimately show ?thesis
    using crashed_provisioning_reported_done [OF demo_tables_ok claim, of 30020 "demo_job_lease" demo_relay demo_request demo_aead demo_env "''t2''" "[]"
        "\<lparr>events = [], jobs = [], rolledBack = []\<rparr>"]
    by (simp add: default_wallet_options_def)
qed

end
