(* ===== verification/WalletLimits.thy ===== *)
theory WalletLimits
  imports WalletGuarantees
begin

text \<open>
  Where the provisioning of wallets leaves its own life cycle (\<open>WALLET_TRANSITIONS\<close>), and when it never
  starts.
\<close>

section \<open>A retired wallet is provisioned again\<close>

lemma upserted_job:
  assumes "distinct (map wj_walletId js)"
  shows "\<exists>j \<in> set (upsert_wallet_job now jobId i js). wj_walletId j = i \<and> wj_status j = WJPending \<and> wj_availableAt j = now"
proof (cases "i \<in> wj_walletId ` set js")
  case True
  then show ?thesis by (auto simp: upsert_wallet_job_def bex_update_where requeue_job_def)
next
  case False
  then show ?thesis by (simp add: upsert_wallet_job_def new_wallet_job_def)
qed

lemma reserve_found:
  assumes "assertEligible userId db = Inr ()" and "getByUserId userId db = Some w"
    and "w_status w \<noteq> WFailed" and "w_status w \<noteq> WActive"
  shows "reserveEligibleWallet now walletId jobId userId network db =
    (Inr w, db\<lparr>wallets := update_where (\<lambda>x. w_id x = w_id w) (reset_failed now) (wallets db),
               wallet_jobs := upsert_wallet_job now jobId (w_id w) (wallet_jobs db)\<rparr>)"
  using assms
  by (simp add: reserveEligibleWallet_def transaction_def reserve_in_tx_def getByUserId_def reset_failed_def Let_def)

text \<open>
  A request for a wallet that was migrated to self custody, disabled, or is being exported
  queues a provisioning job for it, and the next worker moves the wallet to \<open>PROVISIONING\<close>,
  a transition \<open>WALLET_TRANSITIONS\<close> does not have: nothing on this path consults it.
\<close>

theorem retired_wallet_is_revived:
  assumes ok: "tables_ok k db" and "assertEligible userId db = Inr ()" and "getByUserId userId db = Some w"
    and "w_status w \<in> {WMigrated, WDisabled, WExporting}" and "jobId \<notin> wj_id ` set (wallet_jobs db)"
    and "walletId \<notin> w_id ` set (wallets db)" and "now \<le> later"
  shows "let (r, db1) = reserveEligibleWallet now walletId jobId userId network db;
             (c, db2) = claimByWalletId later token leaseMs (w_id w) db1
         in r = Inr w \<and> c \<noteq> None \<and> map_option w_status (wallet_row (w_id w) db2) = Some WProvisioning
          \<and> assertValidWalletTransition (w_status w) WProvisioning
              = Inl (InvalidWalletTransition (w_status w) WProvisioning)"
proof -
  let ?db1 = "db\<lparr>wallets := update_where (\<lambda>x. w_id x = w_id w) (reset_failed now) (wallets db),
               wallet_jobs := upsert_wallet_job now jobId (w_id w) (wallet_jobs db)\<rparr>"
  have res: "reserveEligibleWallet now walletId jobId userId network db = (Inr w, ?db1)"
    using reserve_found [OF assms(2,3)] assms(4) by auto
  have ok1: "tables_ok k ?db1" using reserve_tables_ok [OF ok assms(6,5) res] .
  from upserted_job [of "wallet_jobs db" now jobId "w_id w"] ok obtain j where
    j: "j \<in> set (wallet_jobs ?db1)" "wj_walletId j = w_id w" "wj_status j = WJPending" "wj_availableAt j = now"
    by (auto simp: tables_ok_def)
  then have due: "claimableWhere later j" using assms(7) by (simp add: claimableWhere_def)
  from claimCandidate_claims [OF ok1 j(1) due, of token leaseMs]
    claimByWalletId_claims [OF ok1 j(1) due, of token leaseMs] j(2)
  obtain w' c db2 where claim: "claimByWalletId later token leaseMs (w_id w) ?db1 = (Some c, db2)"
    "List.find (\<lambda>x. w_id x = w_id w) (wallets db2) = Some (start_attempt later w')"
    by auto
  from assms(4) have "\<not> canTransitionWallet (w_status w) WProvisioning"
    by (auto simp: canTransitionWallet_def canTransition_def)
  with res claim show ?thesis
    by (simp add: Let_def wallet_row_def start_attempt_def assertValidWalletTransition_def)
qed

abbreviation migrated_wallet :: wallet where
  "migrated_wallet \<equiv> \<lparr>w_id = ''w'', w_userId = ''u'', w_network = ''TESTNET'', w_custody = ''SELF'',
     w_publicKey = Some ''G'', w_status = WMigrated, w_managedKeyReferenceId = None, w_failureCode = None,
     w_attemptCount = 1, w_provisionedAt = Some 5, w_statusChangedAt = 6\<rparr>"

theorem retired_wallet_is_revived_witness:
  "let (r, db1) = reserveEligibleWallet 10 ''x'' ''j'' ''u'' ''TESTNET'' (demo_wallet_db\<lparr>wallets := [migrated_wallet]\<rparr>);
       (c, db2) = claimByWalletId 20 ''t'' 60000 ''w'' db1
   in r = Inr migrated_wallet \<and> c \<noteq> None \<and> map_option w_status (wallet_row ''w'' db2) = Some WProvisioning
    \<and> assertValidWalletTransition WMigrated WProvisioning = Inl (InvalidWalletTransition WMigrated WProvisioning)"
proof -
  let ?db = "demo_wallet_db\<lparr>wallets := [migrated_wallet]\<rparr>"
  have 1: "tables_ok [] ?db" by (simp add: tables_ok_def)
  have 2: "assertEligible ''u'' ?db = Inr ()"
    by (simp add: assertEligible_def first_by_def CUSTODIAL_WALLET_CONSENT_PURPOSE_def)
  have 3: "getByUserId ''u'' ?db = Some migrated_wallet" by (simp add: getByUserId_def)
  show ?thesis
    using retired_wallet_is_revived [OF 1 2 3, of "''j''" "''x''" 10 20 "''TESTNET''" "''t''" 60000] by simp
qed

section \<open>A registration never reserves a wallet\<close>

definition user_created_name :: string where
  "user_created_name = ''wallet.reserve-on-user-created''"

fun wallet_error_message :: "wallet_error \<Rightarrow> string" where
  "wallet_error_message USER_NOT_FOUND = ''USER_NOT_FOUND''"
| "wallet_error_message USER_NOT_VERIFIED = ''USER_NOT_VERIFIED''"
| "wallet_error_message CUSTODIAL_CONSENT_REQUIRED = ''CUSTODIAL_CONSENT_REQUIRED''"
| "wallet_error_message LeaseLost = ''WALLET_PROVISIONING_LEASE_LOST''"
| "wallet_error_message _ = ''error''"

definition user_created_message :: "user_created_error \<Rightarrow> string" where
  "user_created_message e = (case e of NotEligible w \<Rightarrow> wallet_error_message w | EventNotCreated x \<Rightarrow> error_message x)"

text \<open>\<open>UserCreatedHandler\<close> as the relay sees it, with the wallet tables it finds.\<close>

definition user_created_handler ::
    "string \<Rightarrow> time \<Rightarrow> ident \<Rightarrow> ident \<Rightarrow> string \<Rightarrow> wallet_db \<Rightarrow> outbox_handler" where
  "user_created_handler network now walletId jobId rnd wdb =
     \<lparr>oh_name = user_created_name, oh_eventType = ''UserCreated'', oh_eventVersion = 1,
      oh_maxAttempts = Some 5, oh_backoffBaseMs = None, oh_backoffMultiplier = None,
      oh_handle = (\<lambda>ctx ob. case user_created_handle network now walletId jobId rnd ctx (wdb, ob) of
          (Inl e, s') \<Rightarrow> (Inl (user_created_message e), snd s')
        | (Inr r, s') \<Rightarrow> (Inr (Some r), snd s'))\<rparr>"

lemma not_eligible_fails:
  assumes "assertEligible (json_string (ctx_payload ctx) ''userId'') wdb = Inl err"
  shows "user_created_handle network now walletId jobId rnd ctx (wdb, ob) = (Inl (NotEligible err), (wdb, ob))"
  using assms
  by (simp add: user_created_handle_def reserveEligibleWallet_def transaction_def reserve_in_tx_def Let_def)

text \<open>A relay that registered the handler, at one of its ticks.\<close>

definition relays_user_created :: "relay_config \<Rightarrow> wallet_db \<Rightarrow> bool" where
  "relays_user_created cfg wdb \<longleftrightarrow>
     (\<exists>network now walletId jobId rnd. handlerByName (cfg_handlers cfg) user_created_name
        = Some (user_created_handler network now walletId jobId rnd wdb))"

definition dead_or_due :: "nat \<Rightarrow> time \<Rightarrow> outbox_event \<Rightarrow> job_attempt \<Rightarrow> outbox_db \<Rightarrow> bool" where
  "dead_or_due n t e j ob \<longleftrightarrow> events ob = [e] \<and> (\<exists>x. jobs ob = [x] \<and> ja_id x = ja_id j
     \<and> ja_outboxEventId x = ja_outboxEventId j \<and> ja_jobType x = ja_jobType j \<and> ja_status x = JobPending
     \<and> ja_attempt x = n \<and> ja_maxAttempts x = ja_maxAttempts j \<and> ja_availableAt x = t
     \<and> ja_backoffMultiplier x = ja_backoffMultiplier j \<and> ja_backoffBaseMs x = ja_backoffBaseMs j)"

lemma lease_single:
  assumes "ja_jobType x = ty" and "ja_status x = JobPending" and "ja_availableAt x \<le> t"
  shows "lease_candidate t ty \<lparr>events = es, jobs = [x], rolledBack = rb\<rparr> = Some x"
  using assms by (simp add: lease_candidate_def first_by_def)

lemma dispatch_not_eligible:
  assumes ob: "dead_or_due n t e j ob" and e: "oe_id e = ja_outboxEventId j" "oe_payload e = JsonText p"
    and ty: "ja_jobType j = user_created_name"
    and cfg: "relays_user_created cfg wdb" and no: "assertEligible (json_string p ''userId'') wdb = Inl err"
  shows "\<exists>ob'. dispatchOne cfg t user_created_name u ob = (Inr OutcomeFailed, ob')
    \<and> (if n + 1 \<ge> ja_maxAttempts j
       then events ob' = [e\<lparr>oe_status := EvDeadLetter\<rparr>] \<and> map ja_status (jobs ob') = [JobDeadLetter]
       else dead_or_due (n + 1) (t + retry_delay (ja_backoffBaseMs j) (ja_backoffMultiplier j) (n + 1)) e j ob')"
proof -
  from ob obtain x rb where x: "ob = \<lparr>events = [e], jobs = [x], rolledBack = rb\<rparr>" "ja_id x = ja_id j"
    "ja_outboxEventId x = ja_outboxEventId j" "ja_jobType x = ja_jobType j" "ja_status x = JobPending"
    "ja_attempt x = n" "ja_maxAttempts x = ja_maxAttempts j" "ja_availableAt x = t"
    "ja_backoffMultiplier x = ja_backoffMultiplier j" "ja_backoffBaseMs x = ja_backoffBaseMs j"
    by (cases ob) (auto simp: dead_or_due_def)
  let ?x1 = "take_lease t (cfg_uuid cfg u) (t + cfg_leaseMs cfg) x"
  let ?ob1 = "\<lparr>events = [e], jobs = [?x1], rolledBack = rb\<rparr>"
  let ?lease = "\<lparr>lr_jobId = ja_id x, lr_leaseToken = cfg_uuid cfg u, lr_leasedUntil = t + cfg_leaseMs cfg,
                 lr_attempt = ja_attempt x, lr_payload = p\<rparr>"
  from cfg obtain network now walletId jobId rnd where
    h: "handlerByName (cfg_handlers cfg) user_created_name = Some (user_created_handler network now walletId jobId rnd wdb)"
    (is "_ = Some ?h")
    by (auto simp: relays_user_created_def)
  have x1: "ja_id ?x1 = ja_id x" "ja_outboxEventId ?x1 = oe_id e" "ja_leaseToken ?x1 = Some (cfg_uuid cfg u)"
    "ja_attempt ?x1 = n" "ja_maxAttempts ?x1 = ja_maxAttempts j"
    "ja_backoffMultiplier ?x1 = ja_backoffMultiplier j" "ja_backoffBaseMs ?x1 = ja_backoffBaseMs j"
    by (simp_all add: take_lease_def x e)
  have leased: "leaseJob t (cfg_uuid cfg u) user_created_name (Some (cfg_leaseMs cfg)) ob = (Inr (Some ?lease), ?ob1)"
    using lease_single [of x user_created_name t "[e]" rb] x e ty
    by (simp add: leaseJob_def or_default_def update_job_def find_event_def Let_def)
  have "\<exists>er. run_handler cfg t ?h e ?lease ?ob1 = (Inl er, ?ob1)"
    using not_eligible_fails [of _ wdb err network now walletId jobId rnd] no
    by (auto simp: run_handler_def user_created_handler_def split: sum.split)
  then obtain er where run: "run_handler cfg t ?h e ?lease ?ob1 = (Inl er, ?ob1)" by blast
  have job: "find_job (ja_id x) ?ob1 = Some ?x1" by (simp add: find_job_def x1)
  have event: "find_event (oe_id e) ?ob1 = Some e" by (simp add: find_event_def)
  show ?thesis
  proof (cases "n + 1 \<ge> ja_maxAttempts j")
    case True
    then have "failJob t (ja_id x) (cfg_uuid cfg u) (error_message er) ?ob1 =
        (Inr (), \<lparr>events = [e\<lparr>oe_status := EvDeadLetter\<rparr>], jobs = [mark_dead (error_message er) ?x1], rolledBack = rb\<rparr>)"
      using x1 job by (simp add: failJob_def transaction_def fail_in_tx_def Let_def markDeadLetter_def
          find_event_def set_event_status_def update_event_def update_job_def)
    with True leased run job event x1 h show ?thesis by (simp add: dispatchOne_def mark_dead_def)
  next
    case False
    then have "failJob t (ja_id x) (cfg_uuid cfg u) (error_message er) ?ob1 =
        (Inr (), \<lparr>events = [e], jobs = [mark_retry (t + retry_delay (ja_backoffBaseMs j) (ja_backoffMultiplier j) (n + 1))
           (n + 1) (error_message er) ?x1], rolledBack = rb\<rparr>)"
      using x1 job by (simp add: failJob_def transaction_def fail_in_tx_def Let_def update_job_def)
    with False leased run job event x1 h x show ?thesis
      by (simp add: dispatchOne_def dead_or_due_def mark_retry_def take_lease_def)
  qed
qed

lemma retry_delay_default: "retry_delay 1000 2 n = 1000 * 2 ^ n"
proof -
  have "of_int 1000 * (2 :: rat) ^ n = of_int (1000 * 2 ^ n)" by simp
  then show ?thesis unfolding retry_delay_def by (simp only: floor_of_int)
qed

definition registration_job :: "ident \<Rightarrow> ident \<Rightarrow> time \<Rightarrow> job_attempt" where
  "registration_job jid eid t0 = new_job jid eid user_created_name (''UserCreated -> '' @ user_created_name)
     (Some 5) None None t0"

text \<open>
  The account is created together with its \<open>UserCreated\<close> event, before the mail address can be
  verified or custody consented to. If the user is still not eligible at each of the five
  attempts, which the relay makes as soon as they are due, the event is a dead letter 30 seconds after
  the first; no attempt has touched the wallet tables.
\<close>

theorem registration_dead_letters:
  assumes p: "oe_payload e = JsonText p" and cfg: "\<And>n. relays_user_created (cfg n) (wdb n)"
    and no: "\<And>n. assertEligible (json_string p ''userId'') (wdb n) = Inl (err n)"
  shows "events (foldl (\<lambda>ob n. snd (dispatchOne (cfg n) (t0 + 1000 * (2 ^ (n + 1) - 2)) user_created_name (u n) ob))
            \<lparr>events = [e], jobs = [registration_job jid (oe_id e) t0], rolledBack = []\<rparr> [0..<5])
         = [e\<lparr>oe_status := EvDeadLetter\<rparr>]
       \<and> (\<forall>n network now walletId jobId rnd ctx ob. ctx_payload ctx = p \<longrightarrow>
            snd (user_created_handle network now walletId jobId rnd ctx (wdb n, ob)) = (wdb n, ob))"
proof -
  let ?j = "registration_job jid (oe_id e) t0"
  let ?t = "\<lambda>n. t0 + 1000 * (2 ^ (n + 1) - 2)"
  let ?run = "\<lambda>n ob. snd (dispatchOne (cfg n) (?t n) user_created_name (u n) ob)"
  let ?start = "\<lparr>events = [e], jobs = [?j], rolledBack = []\<rparr>"
  have j: "oe_id e = ja_outboxEventId ?j" "ja_jobType ?j = user_created_name" "ja_maxAttempts ?j = 5"
    "ja_backoffBaseMs ?j = 1000" "ja_backoffMultiplier ?j = 2"
    by (simp_all add: registration_job_def new_job_def or_default_def)
  have delay: "?t n + retry_delay 1000 2 (n + 1) = ?t (n + 1)" for n
    by (simp add: retry_delay_default)
  have step: "dead_or_due (n + 1) (?t (n + 1)) e ?j (?run n ob)" if "dead_or_due n (?t n) e ?j ob" "n < 4" for n ob
    using dispatch_not_eligible [OF that(1) j(1) p j(2) cfg [of n] no [of n], of "u n"] that(2) j delay by (auto simp: algebra_simps)
  have last: "events (?run n ob) = [e\<lparr>oe_status := EvDeadLetter\<rparr>]" if "dead_or_due n (?t n) e ?j ob" "n = 4" for n ob
    using dispatch_not_eligible [OF that(1) j(1) p j(2) cfg [of n] no [of n], of "u n"] that(2) j by auto
  have due: "dead_or_due n (?t n) e ?j (foldl (\<lambda>ob n. ?run n ob) ?start [0..<n])" if "n \<le> 4" for n
    using that
  proof (induction n)
    case 0
    show ?case by (simp add: dead_or_due_def registration_job_def new_job_def)
  next
    case (Suc n)
    then show ?case using step [of n "foldl (\<lambda>ob n. ?run n ob) ?start [0..<n]"] by simp
  qed
  have "[0..<5] = [0..<4] @ [4]" by (simp add: upt_rec)
  with last [OF due [of 4]] have
    "events (foldl (\<lambda>ob n. ?run n ob) ?start [0..<5]) = [e\<lparr>oe_status := EvDeadLetter\<rparr>]"
    by simp
  with no show ?thesis by (simp add: not_eligible_fails)
qed

abbreviation demo_registration :: outbox_event where
  "demo_registration \<equiv> \<lparr>oe_id = ''e'', oe_aggregateId = ''u'', oe_aggregateType = ''User'',
     oe_eventType = ''UserCreated'', oe_eventVersion = 1,
     oe_payload = JsonText (JObj [(''userId'', JStr ''u''), (''email'', JStr ''a''), (''role'', JStr ''LEARNER'')]),
     oe_status = EvPending, oe_publishedAt = None, oe_source = None, oe_causedBy = None, oe_createdAt = 0\<rparr>"

abbreviation unverified_db :: wallet_db where
  "unverified_db \<equiv> demo_wallet_db\<lparr>wallet_users := [\<lparr>wu_id = ''u'', wu_isVerified = False, wu_walletAddress = None\<rparr>]\<rparr>"

abbreviation registered_relay :: relay_config where
  "registered_relay \<equiv> demo_relay\<lparr>cfg_handlers := \<lparr>byEvent = (\<lambda>_. None),
     byName = [(user_created_name, user_created_handler ''TESTNET'' 0 ''w'' ''j'' ''r'' unverified_db)]\<rparr>\<rparr>"

theorem registration_dead_letters_witness:
  "events (foldl (\<lambda>ob n. snd (dispatchOne registered_relay (10 + 1000 * (2 ^ (n + 1) - 2)) user_created_name 0 ob))
      \<lparr>events = [demo_registration], jobs = [registration_job ''o'' ''e'' 10], rolledBack = []\<rparr> [0..<5])
    = [demo_registration\<lparr>oe_status := EvDeadLetter\<rparr>]"
proof -
  let ?p = "JObj [(''userId'', JStr ''u''), (''email'', JStr ''a''), (''role'', JStr ''LEARNER'')]"
  have reg: "relays_user_created registered_relay unverified_db"
    unfolding relays_user_created_def handlerByName_def
    by (intro exI [of _ "''TESTNET''"] exI [of _ 0] exI [of _ "''w''"] exI [of _ "''j''"] exI [of _ "''r''"]) simp
  have no: "assertEligible (json_string ?p ''userId'') unverified_db = Inl USER_NOT_VERIFIED"
    by (simp add: json_string_def json_field_def assertEligible_def)
  have "oe_payload demo_registration = JsonText ?p" by simp
  from conjunct1 [OF registration_dead_letters [OF this, of "\<lambda>_. registered_relay" "\<lambda>_. unverified_db" "\<lambda>_. USER_NOT_VERIFIED"
      10 "\<lambda>_. 0" "''o''", OF reg no]]
  show ?thesis by simp
qed

end
