(* ===== verification/WalletExport.thy ===== *)
theory WalletExport
  imports Wallets
begin

text \<open>
  What an owner sees of a wallet, and how it leaves custody:
  \<open>src/src/services/wallet-self-custody-export.service.ts\<close> with its controller
  (\<open>controllers/wallet-self-custody-export.controller.ts\<close>) and \<open>services/wallet-status.service.ts\<close>.

  The authorization repository, the step-up check and the audit sink of an export have no
  implementation under \<open>src/\<close>: they are the arguments \<open>export_env\<close>, over a state \<open>'r\<close> of their
  own, and every call of them may throw (\<open>None\<close>). The key store is the model of \<open>Kms\<close>; SHA-256 is
  the argument \<open>xe_digest\<close>, \<open>randomBytes\<close> and \<open>randomUUID\<close> are arguments of a call.
\<close>

section \<open>The self-custody export\<close>

datatype export_error =
    ACKNOWLEDGEMENT_REQUIRED | STEP_UP_FAILED | WALLET_NOT_ELIGIBLE | AUTHORIZATION_INVALID
  | KMS_SECRET_UNAVAILABLE | CUSTODY_TRANSITION_FAILED | KMS_DELETE_FAILED
  | Unexpected

datatype export_action =
    WALLET_EXPORT_AUTHORIZED | WALLET_EXPORT_AUTHORIZATION_FAILED
  | WALLET_EXPORT_COMPLETED | WALLET_EXPORT_FAILED

record export_candidate =
  xc_walletId :: ident
  xc_userId :: ident
  xc_opaqueReference :: string
  xc_publicKey :: string

record export_claim = export_candidate +
  xc_authorizationId :: ident

record export_authorization =
  xa_id :: ident
  xa_walletId :: ident
  xa_userId :: ident
  xa_sessionId :: ident
  xa_tokenDigest :: string
  xa_acknowledgementVersion :: string
  xa_createdAt :: time
  xa_expiresAt :: time

record export_audit =
  xu_userId :: ident
  xu_action :: export_action
  xu_metadata :: json

record 'r export_env =
  xe_findEligibleWallet :: "ident \<Rightarrow> 'r \<Rightarrow> export_candidate option option"
  xe_saveAuthorization :: "export_authorization \<Rightarrow> 'r \<Rightarrow> 'r option"
  xe_claimAuthorization :: "string \<Rightarrow> ident \<Rightarrow> ident \<Rightarrow> time \<Rightarrow> 'r \<Rightarrow> (export_claim option \<times> 'r) option"
  xe_completeMigration :: "ident \<Rightarrow> time \<Rightarrow> 'r \<Rightarrow> (bool \<times> 'r) option"
  xe_releaseClaim :: "ident \<Rightarrow> 'r \<Rightarrow> 'r option"
  xe_verifyPassword :: "ident \<Rightarrow> string \<Rightarrow> bool option"
  xe_audit :: "export_audit \<Rightarrow> 'r \<Rightarrow> 'r option"
  xe_digest :: "string \<Rightarrow> string"

definition WALLET_EXPORT_ACKNOWLEDGEMENT_VERSION :: string where
  "WALLET_EXPORT_ACKNOWLEDGEMENT_VERSION = ''self-custody-v1''"

definition DEFAULT_AUTHORIZATION_TTL_MS :: int where
  "DEFAULT_AUTHORIZATION_TTL_MS = 5 * 60 * 1000"

definition export_record_failure :: "'r export_env \<Rightarrow> ident \<Rightarrow> ident \<Rightarrow> string \<Rightarrow> 'r \<Rightarrow> 'r option" where
  "export_record_failure env userId walletId reason =
     xe_audit env \<lparr>xu_userId = userId, xu_action = WALLET_EXPORT_FAILED,
       xu_metadata = JObj [(''walletId'', JStr walletId), (''reason'', JStr reason)]\<rparr>"

text \<open>Going on after a call that may throw: the state a failed call leaves is the one before it.\<close>

definition or_throw :: "'r \<Rightarrow> 'r option \<Rightarrow> ('r \<Rightarrow> (export_error + 'a) \<times> 'r) \<Rightarrow> (export_error + 'a) \<times> 'r" where
  "or_throw r x k = (case x of None \<Rightarrow> (Inl Unexpected, r) | Some r' \<Rightarrow> k r')"

definition export_authorize ::
    "'r export_env \<Rightarrow> int option \<Rightarrow> time \<Rightarrow> string \<Rightarrow> ident \<Rightarrow> ident \<Rightarrow> ident \<Rightarrow> string \<Rightarrow> bool \<Rightarrow>
     ('r, export_error, string \<times> time) step" where
  "export_authorize env ttl now token authId userId sessionId password acknowledgement r =
     (if \<not> acknowledgement then (Inl ACKNOWLEDGEMENT_REQUIRED, r)
      else
        (case xe_verifyPassword env userId password of
           None \<Rightarrow> (Inl Unexpected, r)
         | Some False \<Rightarrow>
             or_throw r (xe_audit env \<lparr>xu_userId = userId, xu_action = WALLET_EXPORT_AUTHORIZATION_FAILED,
                           xu_metadata = JObj [(''reason'', JStr ''step_up_failed'')]\<rparr> r)
               (\<lambda>r1. (Inl STEP_UP_FAILED, r1))
         | Some True \<Rightarrow>
             (case xe_findEligibleWallet env userId r of
                None \<Rightarrow> (Inl Unexpected, r)
              | Some None \<Rightarrow> (Inl WALLET_NOT_ELIGIBLE, r)
              | Some (Some w) \<Rightarrow>
                  (let expiresAt = now + or_default DEFAULT_AUTHORIZATION_TTL_MS ttl in
                   or_throw r (xe_saveAuthorization env
                       \<lparr>xa_id = authId, xa_walletId = xc_walletId w, xa_userId = userId, xa_sessionId = sessionId,
                        xa_tokenDigest = xe_digest env token,
                        xa_acknowledgementVersion = WALLET_EXPORT_ACKNOWLEDGEMENT_VERSION,
                        xa_createdAt = now, xa_expiresAt = expiresAt\<rparr> r)
                     (\<lambda>r1. or_throw r1 (xe_audit env
                         \<lparr>xu_userId = userId, xu_action = WALLET_EXPORT_AUTHORIZED,
                          xu_metadata = JObj [(''walletId'', JStr (xc_walletId w)),
                            (''acknowledgementVersion'', JStr WALLET_EXPORT_ACKNOWLEDGEMENT_VERSION),
                            (''expiresAt'', JNum expiresAt)]\<rparr> r1)
                       (\<lambda>r2. (Inr (token, expiresAt), r2)))))))"

text \<open>\<open>exportOnce\<close>: the state is that of the collaborators and the key store; \<open>loadFails\<close> and
  \<open>deleteFails\<close> say whether the calls of the key store throw.\<close>

definition export_once ::
    "'r export_env \<Rightarrow> aead \<Rightarrow> bool \<Rightarrow> bool \<Rightarrow> time \<Rightarrow> time \<Rightarrow> ident \<Rightarrow> ident \<Rightarrow> string \<Rightarrow>
     ('r \<times> kms, export_error, sensitive_value) step" where
  "export_once env ae loadFails deleteFails claimedAt completedAt userId sessionId token s =
     (let k = snd s in
      case xe_claimAuthorization env (xe_digest env token) userId sessionId claimedAt (fst s) of
        None \<Rightarrow> (Inl Unexpected, s)
      | Some (None, r1) \<Rightarrow> (Inl AUTHORIZATION_INVALID, (r1, k))
      | Some (Some claim, r1) \<Rightarrow>
          (let failed = (\<lambda>reason code r. case or_throw r (xe_releaseClaim env (xc_authorizationId claim) r)
                           (\<lambda>r'. or_throw r' (export_record_failure env userId (xc_walletId claim) reason r')
                              (\<lambda>r''. (Inl code, r''))) of (e, r') \<Rightarrow> (e, (r', k)))
           in case loadStellarSecret ae loadFails (xc_opaqueReference claim) k of
                Inr (Some secret) \<Rightarrow>
                  (case xe_completeMigration env (xc_authorizationId claim) completedAt r1 of
                     None \<Rightarrow> (Inl Unexpected, (r1, k))
                   | Some (False, r2) \<Rightarrow> failed ''transition_failed'' CUSTODY_TRANSITION_FAILED r2
                   | Some (True, r2) \<Rightarrow>
                       (case deleteStellarSecret deleteFails (xc_opaqueReference claim) k of
                          (Inl _, k') \<Rightarrow>
                            (case or_throw r2 (export_record_failure env userId (xc_walletId claim) ''kms_delete_failed'' r2)
                                    (\<lambda>r3. (Inl KMS_DELETE_FAILED, r3)) of (e, r3) \<Rightarrow> (e, (r3, k')))
                        | (Inr _, k') \<Rightarrow>
                            (case or_throw r2 (xe_audit env \<lparr>xu_userId = userId, xu_action = WALLET_EXPORT_COMPLETED,
                                      xu_metadata = JObj [(''walletId'', JStr (xc_walletId claim)),
                                        (''publicKey'', JStr (xc_publicKey claim))]\<rparr> r2)
                                    (\<lambda>r3. (Inr secret, r3)) of (e, r3) \<Rightarrow> (e, (r3, k')))))
              | _ \<Rightarrow> failed ''kms_unavailable'' KMS_SECRET_UNAVAILABLE r1))"

text \<open>The status codes of the controller.\<close>

fun export_status :: "export_error \<Rightarrow> nat" where
  "export_status ACKNOWLEDGEMENT_REQUIRED = 400"
| "export_status STEP_UP_FAILED = 401"
| "export_status WALLET_NOT_ELIGIBLE = 409"
| "export_status AUTHORIZATION_INVALID = 401"
| "export_status KMS_SECRET_UNAVAILABLE = 503"
| "export_status CUSTODY_TRANSITION_FAILED = 409"
| "export_status KMS_DELETE_FAILED = 503"
| "export_status Unexpected = 500"

section \<open>Who has the secret\<close>

lemma deleted_reference:
  assumes "deleteStellarSecret fails ref k = (Inr (), k')" and "distinct (references k)"
  shows "ref \<notin> set (references k')"
proof -
  from assms(1) obtain key e where e: "List.find (has_reference ref) k = Some (key, e)"
    and k': "k' = filter (\<lambda>x. fst x \<noteq> key) k"
    by (auto simp: deleteStellarSecret_def split: if_splits option.splits)
  from find_Some [OF e] have mem: "(key, e) \<in> set k" "sk_opaqueReference (en_material e) = ref"
    by (simp_all add: has_reference_def)
  have "x = (key, e)" if "x \<in> set k" "sk_opaqueReference (en_material (snd x)) = ref" for x
    using that mem assms(2) by (auto simp: references_def distinct_map inj_on_def)
  with k' show ?thesis by (fastforce simp: references_def)
qed

lemma load_none: "ref \<notin> set (references k) \<Longrightarrow> loadStellarSecret ae False ref k = Inr None"
proof -
  assume "ref \<notin> set (references k)"
  then have "List.find (has_reference ref) k = None"
    by (auto simp: find_None has_reference_def references_def)
  then show ?thesis by (simp add: loadStellarSecret_def)
qed

text \<open>The claim an export works on.\<close>

definition export_claimed ::
    "'r export_env \<Rightarrow> time \<Rightarrow> ident \<Rightarrow> ident \<Rightarrow> string \<Rightarrow> 'r \<Rightarrow> export_claim option" where
  "export_claimed env now userId sessionId token r =
     (case xe_claimAuthorization env (xe_digest env token) userId sessionId now r of
        Some (c, _) \<Rightarrow> c | None \<Rightarrow> None)"

lemma delete_failed: "deleteStellarSecret fails ref k = (Inl e, k') \<Longrightarrow> k' = k"
  by (auto simp: deleteStellarSecret_def split: if_splits option.splits)

lemma load_succeeds: "loadStellarSecret ae fails ref k = Inr (Some x) \<Longrightarrow> loadStellarSecret ae False ref k = Inr (Some x)"
  by (simp add: loadStellarSecret_def split: if_splits)

lemma or_throw_kms:
  "(case or_throw r x f of (e, r') \<Rightarrow> (e, (r', k))) = (res, (r2, k2)) \<Longrightarrow> k2 = k \<and> or_throw r x f = (res, r2)"
  by (auto split: prod.splits)

lemma or_throw_Inr: "or_throw r x f = (Inr a, r') \<Longrightarrow> \<exists>r1. x = Some r1 \<and> f r1 = (Inr a, r')"
  by (auto simp: or_throw_def split: option.splits)

text \<open>An export that hands out a secret has gone through all its steps.\<close>

lemma export_succeeds:
  assumes "export_once env ae lf df t1 t2 userId sessionId token s = (Inr secret, (r', k'))"
  shows "\<exists>c. export_claimed env t1 userId sessionId token (fst s) = Some c
    \<and> loadStellarSecret ae lf (xc_opaqueReference c) (snd s) = Inr (Some secret)
    \<and> deleteStellarSecret df (xc_opaqueReference c) (snd s) = (Inr (), k')"
  using assms
  by (auto simp: export_once_def export_claimed_def Let_def split: option.splits prod.splits sum.splits bool.splits
      dest!: or_throw_kms or_throw_Inr)

lemma export_fails:
  assumes "export_once env ae lf df t1 t2 userId sessionId token s = (Inl code, (r', k'))"
  shows "k' = snd s \<or> code = Unexpected"
  using assms
  by (auto simp: export_once_def Let_def or_throw_def split: option.splits prod.splits sum.splits bool.splits
      dest: delete_failed)

text \<open>
  C31. The secret of a wallet has one custodian: an export hands out exactly the secret the key store
  held under the reference of its claim, and then the store no longer has it; an export that reports one
  of its error codes has left the key store as it was.
\<close>

theorem export_one_custodian:
  assumes "distinct (references (snd s))"
    and "export_once env ae lf df t1 t2 userId sessionId token s = (res, (r', k'))"
  shows "case res of
      Inr secret \<Rightarrow> \<exists>c. export_claimed env t1 userId sessionId token (fst s) = Some c
        \<and> loadStellarSecret ae False (xc_opaqueReference c) (snd s) = Inr (Some secret)
        \<and> loadStellarSecret ae False (xc_opaqueReference c) k' = Inr None
    | Inl code \<Rightarrow> k' = snd s \<or> code = Unexpected"
proof (cases res)
  case (Inl code)
  with export_fails [of env ae lf df t1 t2 userId sessionId token s code r' k'] assms(2) show ?thesis by simp
next
  case (Inr secret)
  from export_succeeds [of env ae lf df t1 t2 userId sessionId token s secret r' k'] assms(2) Inr
  obtain c where c: "export_claimed env t1 userId sessionId token (fst s) = Some c"
    "loadStellarSecret ae lf (xc_opaqueReference c) (snd s) = Inr (Some secret)"
    "deleteStellarSecret df (xc_opaqueReference c) (snd s) = (Inr (), k')" by blast
  with Inr load_succeeds [OF c(2)] load_none [OF deleted_reference [OF c(3) assms(1)]] show ?thesis by auto
qed

abbreviation export_demo_claim :: export_claim where
  "export_demo_claim \<equiv> \<lparr>xc_walletId = ''w'', xc_userId = ''u'', xc_opaqueReference = ''kms-memory://r'', xc_publicKey = ''G'',
     xc_authorizationId = ''a''\<rparr>"

text \<open>Collaborators that accept one token; \<open>audited\<close> says whether the audit sink is up.\<close>

abbreviation export_demo_env :: "bool \<Rightarrow> nat export_env" where
  "export_demo_env audited \<equiv> \<lparr>xe_findEligibleWallet = (\<lambda>_ _. Some None), xe_saveAuthorization = (\<lambda>_ r. Some r),
     xe_claimAuthorization = (\<lambda>d _ _ _ r. Some (if d = ''token'' then Some export_demo_claim else None, r)),
     xe_completeMigration = (\<lambda>_ _ r. Some (True, r + 1)), xe_releaseClaim = (\<lambda>_ r. Some r),
     xe_verifyPassword = (\<lambda>_ _. Some True), xe_audit = (\<lambda>_ r. if audited then Some r else None),
     xe_digest = (\<lambda>t. t)\<rparr>"

abbreviation export_demo_aead :: aead where
  "export_demo_aead \<equiv> \<lparr>ae_encrypt = (\<lambda>iv s. (rev s, iv)), ae_decrypt = (\<lambda>iv c t. Some (rev c))\<rparr>"

abbreviation export_demo_kms :: kms where
  "export_demo_kms \<equiv> [(''w'', \<lparr>en_material = \<lparr>sk_provider = ''p'', sk_opaqueReference = ''kms-memory://r'',
     sk_keyVersion = None, sk_publicKey = ''G''\<rparr>, en_ciphertext = ''GS'', en_iv = ''i'', en_authTag = ''t''\<rparr>)]"

theorem export_one_custodian_witness:
  "export_once (export_demo_env True) export_demo_aead False False 1 2 ''u'' ''s'' ''token'' (0, export_demo_kms)
     = (Inr (SensitiveValue ''SG''), (1, []))
   \<and> (\<exists>c. export_claimed (export_demo_env True) 1 ''u'' ''s'' ''token'' 0 = Some c
        \<and> loadStellarSecret export_demo_aead False (xc_opaqueReference c) export_demo_kms = Inr (Some (SensitiveValue ''SG''))
        \<and> loadStellarSecret export_demo_aead False (xc_opaqueReference c) [] = Inr None)"
proof -
  have run: "export_once (export_demo_env True) export_demo_aead False False 1 2 ''u'' ''s'' ''token'' (0, export_demo_kms)
     = (Inr (SensitiveValue ''SG''), (1, []))"
    by (simp add: export_once_def loadStellarSecret_def deleteStellarSecret_def has_reference_def or_throw_def Let_def)
  have "distinct (references (snd (0 :: nat, export_demo_kms)))" by (simp add: references_def)
  from export_one_custodian [OF this run] run show ?thesis by simp
qed

text \<open>
  The order of the last two steps loses a wallet: when the audit sink fails after the custody
  transition and the deletion have gone through, the caller gets an error instead of the secret, the
  key store no longer has it, and the authorization is spent.
\<close>

theorem audit_outage_loses_secret:
  assumes "distinct (references (snd s))"
    and "xe_claimAuthorization env (xe_digest env token) userId sessionId t1 (fst s) = Some (Some c, r1)"
    and "loadStellarSecret ae False (xc_opaqueReference c) (snd s) = Inr (Some secret)"
    and "xe_completeMigration env (xc_authorizationId c) t2 r1 = Some (True, r2)"
    and "\<And>entry. xu_action entry = WALLET_EXPORT_COMPLETED \<Longrightarrow> xe_audit env entry r2 = None"
  shows "\<exists>k'. export_once env ae False False t1 t2 userId sessionId token s = (Inl Unexpected, (r2, k'))
    \<and> loadStellarSecret ae False (xc_opaqueReference c) k' = Inr None"
proof -
  from assms(3) obtain key e where e: "List.find (has_reference (xc_opaqueReference c)) (snd s) = Some (key, e)"
    by (auto simp: loadStellarSecret_def split: option.splits)
  then obtain k' where k': "deleteStellarSecret False (xc_opaqueReference c) (snd s) = (Inr (), k')"
    by (simp add: deleteStellarSecret_def)
  with assms load_none [OF deleted_reference [OF k' assms(1)]] show ?thesis
    by (simp add: export_once_def or_throw_def Let_def)
qed

theorem audit_outage_loses_secret_witness:
  "export_once (export_demo_env False) export_demo_aead False False 1 2 ''u'' ''s'' ''token'' (0, export_demo_kms)
     = (Inl Unexpected, (1, []))"
proof -
  let ?s = "(0 :: nat, export_demo_kms)"
  have "distinct (references (snd ?s))" by (simp add: references_def)
  then have "\<exists>k'. export_once (export_demo_env False) export_demo_aead False False 1 2 ''u'' ''s'' ''token'' ?s
      = (Inl Unexpected, (1, k')) \<and> loadStellarSecret export_demo_aead False (xc_opaqueReference export_demo_claim) k' = Inr None"
    by (rule audit_outage_loses_secret [where secret = "SensitiveValue ''SG''" and ?r1.0 = 0])
      (simp_all add: loadStellarSecret_def has_reference_def)
  moreover have "snd (snd (export_once (export_demo_env False) export_demo_aead False False 1 2 ''u'' ''s'' ''token'' ?s)) = []"
    by (simp add: export_once_def loadStellarSecret_def deleteStellarSecret_def has_reference_def or_throw_def Let_def)
  ultimately show ?thesis by auto
qed

end
