(* ===== verification/Stellar.thy ===== *)
theory Stellar
  imports Outbox
begin

text \<open>
  \<open>src/src/services/stellar.service.ts\<close>: balances, payment history, payments and credentials on
  the Stellar network. Horizon, the Soroban RPC server and the SDK are the argument
  \<open>stellar_sdk\<close>; a call that throws gives the \<open>horizon_error\<close> it throws. Whether two calls of
  \<open>Asset.native()\<close> are the same object, which \<open>sendPayment\<close> compares with \<open>===\<close>, is an argument too.
  Records of Horizon are JSON objects.
\<close>

section \<open>Errors\<close>

text \<open>What the two predicates on an error of Horizon look at.\<close>

record horizon_error =
  he_status :: "int option"
  he_code :: "string option"
  he_name :: "string option"
  he_message :: "string option"

definition lower_char :: "char \<Rightarrow> char" where
  "lower_char c = (let n = of_char c :: nat in if 65 \<le> n \<and> n \<le> 90 then char_of (n + 32) else c)"

definition toLowerCase :: "string \<Rightarrow> string" where
  "toLowerCase s = map lower_char s"

fun includes_str :: "string \<Rightarrow> string \<Rightarrow> bool" where
  "includes_str needle [] \<longleftrightarrow> needle = []"
| "includes_str needle (c # s) \<longleftrightarrow> take (length needle) (c # s) = needle \<or> includes_str needle s"

definition isHorizonNotFound :: "horizon_error \<Rightarrow> bool" where
  "isHorizonNotFound e \<longleftrightarrow> he_status e = Some 404"

definition isHorizonTimeout :: "horizon_error \<Rightarrow> bool" where
  "isHorizonTimeout e \<longleftrightarrow> he_code e = Some ''ETIMEDOUT'' \<or> he_code e = Some ''ECONNABORTED''
     \<or> he_name e = Some ''TimeoutError''
     \<or> (case he_message e of None \<Rightarrow> False | Some m \<Rightarrow> includes_str ''timeout'' (toLowerCase m))"

text \<open>\<open>StellarServiceError\<close>, by its code.\<close>

datatype stellar_code =
    WALLET_GENERATION_ERROR | INVALID_NETWORK | FRIENDBOT_ERROR | BALANCE_FETCH_ERROR
  | HORIZON_TIMEOUT | HORIZON_UNAVAILABLE | PAYMENT_ERROR | TRANSACTION_TIMEOUT | TRANSACTION_VERIFY_ERROR
  | CONTRACT_NOT_CONFIGURED | CREDENTIAL_ISSUANCE_ERROR | CREDENTIAL_VERIFICATION_ERROR

definition horizon_failure :: "horizon_error \<Rightarrow> stellar_code" where
  "horizon_failure e = (if isHorizonTimeout e then HORIZON_TIMEOUT else HORIZON_UNAVAILABLE)"

section \<open>The SDK\<close>

datatype horizon_balance =
    NativeBalance string
  | IssuedBalance string string string string string

record horizon_account =
  ha_balances :: "horizon_balance list"
  ha_last_modified_time :: "string option"

datatype tx_status = TxNotFound | TxSuccess | TxFailed

record tx_result =
  tx_state :: tx_status
  tx_ledger :: "int option"
  tx_returnValue :: "string option"

record submit_response =
  sr_hash :: string
  sr_successful :: bool
  sr_ledger :: "int option"

datatype operation = CreateAccount string string | Payment string string string

record transaction_request =
  tr_source :: string
  tr_operation :: operation
  tr_memo :: "string option"

datatype simulation = SimError string | SimSuccess "json option" | SimOther

record stellar_sdk =
  sd_network :: string
  sd_contractId :: string
  sd_nativeSame :: bool
  sd_random :: "(string \<times> string) option"
  sd_friendbot :: "string \<Rightarrow> bool option"
  sd_publicKey :: "string \<Rightarrow> string option"
  sd_loadAccount :: "string \<Rightarrow> horizon_error + horizon_account"
  sd_payments :: "string \<Rightarrow> string option \<Rightarrow> nat \<Rightarrow> bool \<Rightarrow> horizon_error + json list"
  sd_submit :: "transaction_request \<Rightarrow> submit_response option"
  sd_getTransaction :: "string \<Rightarrow> nat \<Rightarrow> tx_result option"
  sd_simulate :: "string \<Rightarrow> json list \<Rightarrow> simulation option"
  sd_sendInvocation :: "string \<Rightarrow> json list \<Rightarrow> string option"

section \<open>Wallets and balances\<close>

definition generateWallet :: "stellar_sdk \<Rightarrow> stellar_code + (string \<times> string)" where
  "generateWallet sdk = (case sd_random sdk of None \<Rightarrow> Inl WALLET_GENERATION_ERROR | Some kp \<Rightarrow> Inr kp)"

definition fundTestnetAccount :: "stellar_sdk \<Rightarrow> string \<Rightarrow> stellar_code + unit" where
  "fundTestnetAccount sdk publicKey =
     (if sd_network sdk \<noteq> ''testnet'' then Inl INVALID_NETWORK
      else (case sd_friendbot sdk publicKey of Some True \<Rightarrow> Inr () | _ \<Rightarrow> Inl FRIENDBOT_ERROR))"

record account_balance =
  ab_asset :: string
  ab_balance :: string
  ab_limit :: "string option"

fun to_balance :: "horizon_balance \<Rightarrow> account_balance" where
  "to_balance (NativeBalance b) = \<lparr>ab_asset = ''XLM'', ab_balance = b, ab_limit = None\<rparr>"
| "to_balance (IssuedBalance ty code issuer b limit) =
     \<lparr>ab_asset = code @ '':'' @ issuer, ab_balance = b, ab_limit = Some limit\<rparr>"

definition stellar_getBalances :: "stellar_sdk \<Rightarrow> string \<Rightarrow> stellar_code + account_balance list" where
  "stellar_getBalances sdk publicKey =
     (case sd_loadAccount sdk publicKey of
        Inl _ \<Rightarrow> Inl BALANCE_FETCH_ERROR
      | Inr account \<Rightarrow> Inr (map to_balance (ha_balances account)))"

definition getNativeBalance :: "stellar_sdk \<Rightarrow> string \<Rightarrow> stellar_code + string" where
  "getNativeBalance sdk publicKey =
     (case stellar_getBalances sdk publicKey of
        Inl e \<Rightarrow> Inl e
      | Inr bs \<Rightarrow> Inr (case List.find (\<lambda>b. ab_asset b = ''XLM'') bs of Some b \<Rightarrow> ab_balance b | None \<Rightarrow> ''0''))"

record balance_detail =
  bd_assetType :: string
  bd_assetCode :: string
  bd_issuer :: "string option"
  bd_amount :: string

record account_snapshot =
  as_found :: bool
  as_lastModifiedTime :: "string option"
  as_balances :: "balance_detail list"

fun to_detail :: "horizon_balance \<Rightarrow> balance_detail" where
  "to_detail (NativeBalance b) =
     \<lparr>bd_assetType = ''native'', bd_assetCode = ''XLM'', bd_issuer = None, bd_amount = b\<rparr>"
| "to_detail (IssuedBalance ty code issuer b limit) =
     \<lparr>bd_assetType = ty, bd_assetCode = code, bd_issuer = Some issuer, bd_amount = b\<rparr>"

definition getAccountSnapshot :: "stellar_sdk \<Rightarrow> string \<Rightarrow> stellar_code + account_snapshot" where
  "getAccountSnapshot sdk publicKey =
     (case sd_loadAccount sdk publicKey of
        Inr account \<Rightarrow> Inr \<lparr>as_found = True, as_lastModifiedTime = ha_last_modified_time account,
                            as_balances = map to_detail (ha_balances account)\<rparr>
      | Inl e \<Rightarrow>
          if isHorizonNotFound e then Inr \<lparr>as_found = False, as_lastModifiedTime = None, as_balances = []\<rparr>
          else Inl (horizon_failure e))"

section \<open>Payment history\<close>

record payment_record =
  pr_id :: string
  pr_pagingToken :: string
  pr_createdAt :: string
  pr_transactionHash :: string
  pr_transactionSuccessful :: bool
  pr_ledger :: "int option"
  pr_type :: string
  pr_from :: "string option"
  pr_to :: "string option"
  pr_assetType :: string
  pr_assetCode :: string
  pr_issuer :: "string option"
  pr_amount :: "string option"
  pr_memo :: "string option"
  pr_memoType :: "string option"

record history_page =
  hp_records :: "payment_record list"
  hp_nextCursor :: "string option"

definition HISTORY_OPERATION_TYPES :: "string list" where
  "HISTORY_OPERATION_TYPES =
     [''payment'', ''create_account'', ''path_payment_strict_receive'', ''path_payment_strict_send'']"

definition MAX_MEMO_LENGTH :: nat where "MAX_MEMO_LENGTH = 256"

definition is_control :: "char \<Rightarrow> bool" where
  "is_control c \<longleftrightarrow> (of_char c :: nat) < 32 \<or> (of_char c :: nat) = 127"

definition applyMemoPolicy :: "string option \<Rightarrow> string option \<Rightarrow> string option" where
  "applyMemoPolicy memoType memo =
     (case memo of
        None \<Rightarrow> None
      | Some m \<Rightarrow>
          if m = [] then None
          else if memoType = Some ''text'' then
            (let sanitized = take MAX_MEMO_LENGTH (filter (\<lambda>c. \<not> is_control c) m)
             in if sanitized = [] then None else Some sanitized)
          else Some m)"

text \<open>\<open>String(v)\<close> of the values Horizon sends, and a nullish string field.\<close>

definition json_to_string :: "json option \<Rightarrow> string" where
  "json_to_string v = (case v of None \<Rightarrow> ''undefined'' | Some JNull \<Rightarrow> ''null'' | Some (JStr s) \<Rightarrow> s
     | Some (JNum n) \<Rightarrow> show_int n | Some (JBool b) \<Rightarrow> if b then ''true'' else ''false'' | Some _ \<Rightarrow> ''[object Object]'')"

definition json_str_opt :: "json \<Rightarrow> string \<Rightarrow> string option" where
  "json_str_opt r k = (case json_field r k of Some (JStr s) \<Rightarrow> Some s | _ \<Rightarrow> None)"

definition or_else :: "'a option \<Rightarrow> 'a option \<Rightarrow> 'a option" where
  "or_else a b = (case a of Some x \<Rightarrow> Some x | None \<Rightarrow> b)"

definition toPaymentHistoryRecord :: "json \<Rightarrow> payment_record" where
  "toPaymentHistoryRecord r =
     (let transaction = (case json_field r ''transaction'' of Some t \<Rightarrow> t | None \<Rightarrow> JNull);
          memoType = json_str_opt transaction ''memo_type'';
          rawMemo = json_str_opt transaction ''memo'';
          assetType = or_default ''native'' (json_str_opt r ''asset_type'')
      in \<lparr>pr_id = json_to_string (json_field r ''id''),
          pr_pagingToken = json_to_string (json_field r ''paging_token''),
          pr_createdAt = json_to_string (json_field r ''created_at''),
          pr_transactionHash = json_to_string (json_field r ''transaction_hash''),
          pr_transactionSuccessful = (json_field r ''transaction_successful'' \<noteq> Some (JBool False)),
          pr_ledger = (case json_field transaction ''ledger_attr'' of Some (JNum n) \<Rightarrow> Some n | _ \<Rightarrow> None),
          pr_type = json_to_string (json_field r ''type''),
          pr_from = or_else (json_str_opt r ''from'') (json_str_opt r ''funder''),
          pr_to = or_else (json_str_opt r ''to'') (json_str_opt r ''account''),
          pr_assetType = assetType,
          pr_assetCode = (if assetType = ''native'' then ''XLM''
                          else case json_field r ''asset_code'' of None \<Rightarrow> [] | Some JNull \<Rightarrow> [] | v \<Rightarrow> json_to_string v),
          pr_issuer = json_str_opt r ''asset_issuer'',
          pr_amount = or_else (json_str_opt r ''amount'') (json_str_opt r ''starting_balance''),
          pr_memo = applyMemoPolicy memoType rawMemo,
          pr_memoType = memoType\<rparr>)"

definition history_relevant :: "json \<Rightarrow> bool" where
  "history_relevant r \<longleftrightarrow> (case json_field r ''type'' of Some (JStr t) \<Rightarrow> t \<in> set HISTORY_OPERATION_TYPES | _ \<Rightarrow> False)"

definition getPaymentHistory ::
    "stellar_sdk \<Rightarrow> string \<Rightarrow> string option \<Rightarrow> nat option \<Rightarrow> bool option \<Rightarrow> stellar_code + history_page" where
  "getPaymentHistory sdk publicKey cursor limit desc =
     (case sd_payments sdk publicKey (case cursor of Some c \<Rightarrow> if c = [] then None else Some c | None \<Rightarrow> None)
             (or_default 20 limit) (or_default True desc) of
        Inr page \<Rightarrow>
          Inr \<lparr>hp_records = map toPaymentHistoryRecord (filter history_relevant page),
               hp_nextCursor = (if page = [] then None else json_str_opt (last page) ''paging_token'')\<rparr>
      | Inl e \<Rightarrow>
          if isHorizonNotFound e then Inr \<lparr>hp_records = [], hp_nextCursor = None\<rparr>
          else Inl (horizon_failure e))"

section \<open>Payments\<close>

text \<open>\<open>waitForTransaction\<close>: \<open>i\<close> counts the polls made; the sleeps in between are left out.\<close>

datatype wait_result = Confirmed tx_result | TimedOut | PollFailed

function wait_from :: "stellar_sdk \<Rightarrow> string \<Rightarrow> nat \<Rightarrow> nat \<Rightarrow> wait_result" where
  "wait_from sdk hash maxAttempts i =
     (if i < maxAttempts then
        (case sd_getTransaction sdk hash i of
           None \<Rightarrow> PollFailed
         | Some r \<Rightarrow> if tx_state r \<noteq> TxNotFound then Confirmed r else wait_from sdk hash maxAttempts (i + 1))
      else TimedOut)"
  by pat_completeness auto

termination by (relation "measure (\<lambda>(_, _, n, i). n - i)") auto

declare wait_from.simps [simp del]

definition waitForTransaction :: "stellar_sdk \<Rightarrow> string \<Rightarrow> wait_result" where
  "waitForTransaction sdk hash = wait_from sdk hash 20 0"

record payment_options =
  po_sourceSecret :: string
  po_destination :: string
  po_amount :: string
  po_asset :: "string option"
  po_memo :: "string option"

record payment_result =
  py_hash :: string
  py_ledger :: int
  py_successful :: bool

text \<open>The operation that is built: \<open>asset === Asset.native()\<close> compares objects, so for the default asset
  it asks whether two calls of \<open>Asset.native()\<close> give the same object.\<close>

definition payment_operation :: "stellar_sdk \<Rightarrow> payment_options \<Rightarrow> operation" where
  "payment_operation sdk opts =
     (let destinationExists = (case sd_loadAccount sdk (po_destination opts) of Inr _ \<Rightarrow> True | Inl _ \<Rightarrow> False) in
      if \<not> destinationExists \<and> po_asset opts = None \<and> sd_nativeSame sdk
      then CreateAccount (po_destination opts) (po_amount opts)
      else Payment (po_destination opts) (or_default ''native'' (po_asset opts)) (po_amount opts))"

text \<open>The second wait of the code, when the response has no ledger, meets the transaction as the first
  one found it; its own failure falls back to ledger 0.\<close>

definition payment_ledger :: "stellar_sdk \<Rightarrow> submit_response \<Rightarrow> int" where
  "payment_ledger sdk response =
     (case sr_ledger response of
        Some l \<Rightarrow> if l \<noteq> 0 then l
                  else (case waitForTransaction sdk (sr_hash response) of
                          Confirmed r \<Rightarrow> or_default 0 (tx_ledger r) | _ \<Rightarrow> 0)
      | None \<Rightarrow> (case waitForTransaction sdk (sr_hash response) of
                   Confirmed r \<Rightarrow> or_default 0 (tx_ledger r) | _ \<Rightarrow> 0))"

definition sendPayment :: "stellar_sdk \<Rightarrow> payment_options \<Rightarrow> stellar_code + payment_result" where
  "sendPayment sdk opts =
     (case sd_publicKey sdk (po_sourceSecret opts) of
        None \<Rightarrow> Inl PAYMENT_ERROR
      | Some source \<Rightarrow>
          (case sd_loadAccount sdk source of
             Inl _ \<Rightarrow> Inl PAYMENT_ERROR
           | Inr _ \<Rightarrow>
               (case sd_submit sdk \<lparr>tr_source = source, tr_operation = payment_operation sdk opts,
                       tr_memo = (case po_memo opts of Some m \<Rightarrow> if m = [] then None else Some m | None \<Rightarrow> None)\<rparr> of
                  None \<Rightarrow> Inl PAYMENT_ERROR
                | Some response \<Rightarrow>
                    if \<not> sr_successful response then Inl PAYMENT_ERROR
                    else
                      (case waitForTransaction sdk (sr_hash response) of
                         TimedOut \<Rightarrow> Inl TRANSACTION_TIMEOUT
                       | PollFailed \<Rightarrow> Inl PAYMENT_ERROR
                       | Confirmed _ \<Rightarrow>
                           Inr \<lparr>py_hash = sr_hash response, py_ledger = payment_ledger sdk response,
                                py_successful = sr_successful response\<rparr>))))"

definition verifyTransaction :: "stellar_sdk \<Rightarrow> string \<Rightarrow> stellar_code + bool" where
  "verifyTransaction sdk hash =
     (case sd_getTransaction sdk hash 0 of
        None \<Rightarrow> Inl TRANSACTION_VERIFY_ERROR
      | Some r \<Rightarrow> Inr (tx_state r = TxSuccess))"

section \<open>Credentials\<close>

record credential_data =
  cd_recipientPublicKey :: string
  cd_credentialType :: string
  cd_data :: json
  cd_expiresAt :: "int option"

record credential_result =
  cr_contractId :: string
  cr_transactionHash :: string
  cr_credentialId :: string

record verification_result =
  vr_isValid :: bool
  vr_credentialId :: string
  vr_issuer :: string
  vr_recipient :: string
  vr_credentialType :: string
  vr_issuedAt :: int
  vr_expiresAt :: "int option"
  vr_data :: json

definition extractReturnValue :: "time \<Rightarrow> tx_result \<Rightarrow> string" where
  "extractReturnValue now r =
     (case (tx_state r, tx_returnValue r) of
        (TxSuccess, Some v) \<Rightarrow> v
      | _ \<Rightarrow> ''cred_'' @ show_int now)"

text \<open>\<open>json_text\<close> stands for the text \<open>JSON.stringify\<close> gives and \<open>JSON.parse\<close> reads: \<open>data\<close> is passed
  and returned as the value it encodes.\<close>

definition issueCredential ::
    "stellar_sdk \<Rightarrow> time \<Rightarrow> string \<Rightarrow> credential_data \<Rightarrow> stellar_code + credential_result" where
  "issueCredential sdk now issuerSecret c =
     (if sd_contractId sdk = [] then Inl CONTRACT_NOT_CONFIGURED
      else
        (case sd_publicKey sdk issuerSecret of
           None \<Rightarrow> Inl CREDENTIAL_ISSUANCE_ERROR
         | Some issuer \<Rightarrow>
             (case sd_loadAccount sdk issuer of
                Inl _ \<Rightarrow> Inl CREDENTIAL_ISSUANCE_ERROR
              | Inr _ \<Rightarrow>
                  (let args = [JStr (cd_recipientPublicKey c), JStr (cd_credentialType c), cd_data c,
                               JNum (or_default 0 (cd_expiresAt c))] in
                   case sd_simulate sdk ''issue_credential'' args of
                     None \<Rightarrow> Inl CREDENTIAL_ISSUANCE_ERROR
                   | Some (SimError _) \<Rightarrow> Inl CREDENTIAL_ISSUANCE_ERROR
                   | Some _ \<Rightarrow>
                       (case sd_sendInvocation sdk ''issue_credential'' args of
                          None \<Rightarrow> Inl CREDENTIAL_ISSUANCE_ERROR
                        | Some hash \<Rightarrow>
                            (case waitForTransaction sdk hash of
                               TimedOut \<Rightarrow> Inl TRANSACTION_TIMEOUT
                             | PollFailed \<Rightarrow> Inl CREDENTIAL_ISSUANCE_ERROR
                             | Confirmed r \<Rightarrow>
                                 Inr \<lparr>cr_contractId = sd_contractId sdk, cr_transactionHash = hash,
                                      cr_credentialId = extractReturnValue now r\<rparr>))))))"

definition json_int_or :: "int \<Rightarrow> json option \<Rightarrow> int" where
  "json_int_or d v = (case v of Some (JNum n) \<Rightarrow> n | _ \<Rightarrow> d)"

definition json_str_or_empty :: "json option \<Rightarrow> string" where
  "json_str_or_empty v = (case v of None \<Rightarrow> [] | Some JNull \<Rightarrow> [] | Some w \<Rightarrow> json_to_string (Some w))"

definition DUMMY_ACCOUNT :: string where
  "DUMMY_ACCOUNT = ''GAAZI4TCR3TY5OJHCTJC2A4QSY6CJWJH5IAJTGKIN2ER7LBNVKOCCWN''"

definition verifyCredential :: "stellar_sdk \<Rightarrow> string \<Rightarrow> stellar_code + verification_result" where
  "verifyCredential sdk credentialId =
     (if sd_contractId sdk = [] then Inl CONTRACT_NOT_CONFIGURED
      else
        (case sd_loadAccount sdk DUMMY_ACCOUNT of
           Inl _ \<Rightarrow> Inl CREDENTIAL_VERIFICATION_ERROR
         | Inr _ \<Rightarrow>
             (case sd_simulate sdk ''verify_credential'' [JStr credentialId] of
                None \<Rightarrow> Inl CREDENTIAL_VERIFICATION_ERROR
              | Some (SimError _) \<Rightarrow> Inl CREDENTIAL_VERIFICATION_ERROR
              | Some sim \<Rightarrow>
                  (case (case sim of SimSuccess (Some v) \<Rightarrow> if json_truthy v then Some v else None | _ \<Rightarrow> None) of
                     None \<Rightarrow> Inr \<lparr>vr_isValid = False, vr_credentialId = credentialId, vr_issuer = [], vr_recipient = [],
                                vr_credentialType = [], vr_issuedAt = 0, vr_expiresAt = None, vr_data = JObj []\<rparr>
                   | Some parsed \<Rightarrow>
                       Inr \<lparr>vr_isValid = True, vr_credentialId = credentialId,
                            vr_issuer = json_str_or_empty (json_field parsed ''issuer''),
                            vr_recipient = json_str_or_empty (json_field parsed ''recipient''),
                            vr_credentialType = json_str_or_empty (json_field parsed ''credential_type''),
                            vr_issuedAt = json_int_or 0 (json_field parsed ''issued_at''),
                            vr_expiresAt = (case json_field parsed ''expires_at'' of
                                              Some (JNum n) \<Rightarrow> if n = 0 then None else Some n | _ \<Rightarrow> None),
                            vr_data = (case json_field parsed ''data'' of
                                         Some d \<Rightarrow> if json_truthy d then d else JObj [] | None \<Rightarrow> JObj [])\<rparr>))))"

section \<open>Polling\<close>

definition unconfirmed :: "stellar_sdk \<Rightarrow> string \<Rightarrow> nat \<Rightarrow> bool" where
  "unconfirmed sdk hash i \<longleftrightarrow> (\<exists>r. sd_getTransaction sdk hash i = Some r \<and> tx_state r = TxNotFound)"

definition poll_outcome :: "stellar_sdk \<Rightarrow> string \<Rightarrow> nat \<Rightarrow> wait_result" where
  "poll_outcome sdk hash i = (case sd_getTransaction sdk hash i of None \<Rightarrow> PollFailed | Some r \<Rightarrow> Confirmed r)"

text \<open>The first poll that is not \<open>NOT_FOUND\<close> decides; without one the wait times out.\<close>

lemma wait_from_timeout:
  "i \<le> n \<Longrightarrow> (\<And>j. i \<le> j \<Longrightarrow> j < n \<Longrightarrow> unconfirmed sdk hash j) \<Longrightarrow> wait_from sdk hash n i = TimedOut"
proof (induction sdk hash n i rule: wait_from.induct)
  case (1 sdk hash n i)
  show ?case
  proof (cases "i < n")
    case True
    with "1.prems"(2) obtain r where r: "sd_getTransaction sdk hash i = Some r" "\<not> tx_state r \<noteq> TxNotFound"
      by (auto simp: unconfirmed_def)
    from "1.IH" [OF True r] "1.prems"(2) True have "wait_from sdk hash n (i + 1) = TimedOut" by simp
    with True r show ?thesis by (simp add: wait_from.simps [of sdk hash n i])
  next
    case False
    then show ?thesis by (simp add: wait_from.simps)
  qed
qed

lemma wait_from_decided:
  "i \<le> k \<Longrightarrow> k < n \<Longrightarrow> (\<And>j. i \<le> j \<Longrightarrow> j < k \<Longrightarrow> unconfirmed sdk hash j) \<Longrightarrow> \<not> unconfirmed sdk hash k \<Longrightarrow>
   wait_from sdk hash n i = poll_outcome sdk hash k"
proof (induction sdk hash n i rule: wait_from.induct)
  case (1 sdk hash n i)
  show ?case
  proof (cases "i = k")
    case True
    with "1.prems"(2,4) show ?thesis
      by (subst wait_from.simps) (auto simp: poll_outcome_def unconfirmed_def split: option.split)
  next
    case False
    then have i: "i < k" "i < n" using "1.prems" by simp_all
    with "1.prems"(3) obtain r where r: "sd_getTransaction sdk hash i = Some r" "\<not> tx_state r \<noteq> TxNotFound"
      by (auto simp: unconfirmed_def)
    from "1.IH" [OF i(2) r] "1.prems" i have "wait_from sdk hash n (i + 1) = poll_outcome sdk hash k" by simp
    with i r show ?thesis by (simp add: wait_from.simps [of sdk hash n i])
  qed
qed

definition first_answer :: "stellar_sdk \<Rightarrow> string \<Rightarrow> nat option" where
  "first_answer sdk hash = List.find (\<lambda>i. \<not> unconfirmed sdk hash i) [0..<20]"

lemma wait_outcome:
  "waitForTransaction sdk hash =
     (case first_answer sdk hash of None \<Rightarrow> TimedOut | Some i \<Rightarrow> poll_outcome sdk hash i)"
proof (cases "first_answer sdk hash")
  case None
  then have "unconfirmed sdk hash j" if "j < 20" for j
    using that by (auto simp: first_answer_def find_None)
  with None wait_from_timeout [of 0 20 sdk hash] show ?thesis by (simp add: waitForTransaction_def)
next
  case (Some k)
  then have "k < 20" "\<not> unconfirmed sdk hash k" "\<And>j. j < k \<Longrightarrow> unconfirmed sdk hash j"
    by (auto simp: first_answer_def find_Some_iff)
  with Some wait_from_decided [of 0 k 20 sdk hash] show ?thesis by (simp add: waitForTransaction_def)
qed

definition accepted :: "stellar_sdk \<Rightarrow> payment_options \<Rightarrow> submit_response option" where
  "accepted sdk opts =
     (case sd_publicKey sdk (po_sourceSecret opts) of
        None \<Rightarrow> None
      | Some source \<Rightarrow>
          (case sd_loadAccount sdk source of
             Inl _ \<Rightarrow> None
           | Inr _ \<Rightarrow>
               (case sd_submit sdk \<lparr>tr_source = source, tr_operation = payment_operation sdk opts,
                       tr_memo = (case po_memo opts of Some m \<Rightarrow> if m = [] then None else Some m | None \<Rightarrow> None)\<rparr> of
                  None \<Rightarrow> None
                | Some response \<Rightarrow> if sr_successful response then Some response else None)))"

text \<open>
  A payment always returns, after at most twenty polls: the first poll that does not answer
  \<open>NOT_FOUND\<close> decides, and it succeeds when that poll finds the transaction, whatever its status there.
  \<open>TRANSACTION_TIMEOUT\<close> is reported exactly when Horizon has accepted the payment and
  none of the twenty polls saw it: the money has been sent.
\<close>

theorem payment_outcome:
  "sendPayment sdk opts =
     (case accepted sdk opts of
        None \<Rightarrow> Inl PAYMENT_ERROR
      | Some response \<Rightarrow>
          (case first_answer sdk (sr_hash response) of
             None \<Rightarrow> Inl TRANSACTION_TIMEOUT
           | Some i \<Rightarrow>
               (case sd_getTransaction sdk (sr_hash response) i of
                  None \<Rightarrow> Inl PAYMENT_ERROR
                | Some r \<Rightarrow> Inr \<lparr>py_hash = sr_hash response, py_ledger = payment_ledger sdk response,
                                 py_successful = True\<rparr>)))"
  by (auto simp: sendPayment_def accepted_def wait_outcome poll_outcome_def split: option.split sum.split)

end
