(* ===== verification/WalletStatus.thy ===== *)
theory WalletStatus
  imports Wallets Stellar
begin

text \<open>
  \<open>src/src/services/wallet-status.service.ts\<close>: the status, balances and payment history a user
  sees of their own wallet. The Stellar service is the model of \<open>Stellar\<close>, whose error codes
  stand for the errors it throws.
\<close>

datatype wallet_status_value = NOT_PROVISIONED | PENDING | ACTIVE | UNAVAILABLE

record wallet_status_view =
  sv_status :: wallet_status_value
  sv_network :: "string option"
  sv_custody :: "string option"
  sv_publicKey :: "string option"
  sv_provisionedAt :: "time option"

definition toStatusValue :: "wallet_status \<Rightarrow> wallet_status_value" where
  "toStatusValue s = (if s = WActive then ACTIVE else if s = WDisabled \<or> s = WFailed then UNAVAILABLE else PENDING)"

definition getStatus :: "ident \<Rightarrow> wallet_db \<Rightarrow> wallet_status_view" where
  "getStatus userId db =
     (case getByUserId userId db of
        None \<Rightarrow> \<lparr>sv_status = NOT_PROVISIONED, sv_network = None, sv_custody = None, sv_publicKey = None,
                 sv_provisionedAt = None\<rparr>
      | Some w \<Rightarrow> \<lparr>sv_status = toStatusValue (w_status w), sv_network = Some (w_network w),
                   sv_custody = Some (w_custody w),
                   sv_publicKey = (if w_status w = WActive then w_publicKey w else None),
                   sv_provisionedAt = w_provisionedAt w\<rparr>)"

datatype wallet_view_error = WALLET_NOT_FOUND | ProviderError stellar_code | ThrownOn stellar_code

text \<open>\<open>wrapProviderErrors\<close>: two codes of the Stellar service become errors of this one, the others are
  thrown on.\<close>

definition wrapProviderErrors :: "stellar_code + 'a \<Rightarrow> wallet_view_error + 'a" where
  "wrapProviderErrors r =
     (case r of
        Inr a \<Rightarrow> Inr a
      | Inl code \<Rightarrow> if code = HORIZON_TIMEOUT \<or> code = HORIZON_UNAVAILABLE then Inl (ProviderError code)
                    else Inl (ThrownOn code))"

definition requireActiveWallet :: "ident \<Rightarrow> wallet_db \<Rightarrow> wallet_view_error + wallet \<times> string" where
  "requireActiveWallet userId db =
     (case getByUserId userId db of
        None \<Rightarrow> Inl WALLET_NOT_FOUND
      | Some w \<Rightarrow>
          (case w_publicKey w of
             None \<Rightarrow> Inl WALLET_NOT_FOUND
           | Some pk \<Rightarrow> if w_status w \<noteq> WActive \<or> pk = [] then Inl WALLET_NOT_FOUND else Inr (w, pk)))"

record balances_view =
  bv_publicKey :: string
  bv_sourceTime :: "string option"
  bv_balances :: "balance_detail list"

definition wallet_getBalances :: "stellar_sdk \<Rightarrow> ident \<Rightarrow> wallet_db \<Rightarrow> wallet_view_error + balances_view" where
  "wallet_getBalances sdk userId db =
     (case requireActiveWallet userId db of
        Inl e \<Rightarrow> Inl e
      | Inr (w, pk) \<Rightarrow>
          (case wrapProviderErrors (getAccountSnapshot sdk pk) of
             Inl e \<Rightarrow> Inl e
           | Inr snapshot \<Rightarrow> Inr \<lparr>bv_publicKey = pk, bv_sourceTime = as_lastModifiedTime snapshot,
                                  bv_balances = as_balances snapshot\<rparr>))"

datatype history_direction = Incoming | Outgoing

record history_entry =
  he_id :: string
  he_direction :: history_direction
  he_success :: bool
  he_assetType :: string
  he_assetCode :: string
  he_issuer :: "string option"
  he_amount :: "string option"
  he_transactionHash :: string
  he_ledger :: "int option"
  he_createdAt :: string
  he_memo :: "string option"
  he_memoType :: "string option"

definition DEFAULT_HISTORY_LIMIT :: nat where "DEFAULT_HISTORY_LIMIT = 20"

definition to_history_entry :: "string \<Rightarrow> payment_record \<Rightarrow> history_entry" where
  "to_history_entry pk r =
     \<lparr>he_id = pr_id r, he_direction = (if pr_to r = Some pk then Incoming else Outgoing),
      he_success = pr_transactionSuccessful r, he_assetType = pr_assetType r, he_assetCode = pr_assetCode r,
      he_issuer = pr_issuer r, he_amount = pr_amount r, he_transactionHash = pr_transactionHash r,
      he_ledger = pr_ledger r, he_createdAt = pr_createdAt r, he_memo = pr_memo r, he_memoType = pr_memoType r\<rparr>"

text \<open>A direction of \<open>None\<close> is \<open>'all'\<close>.\<close>

definition getHistory ::
    "stellar_sdk \<Rightarrow> ident \<Rightarrow> string option \<Rightarrow> nat option \<Rightarrow> history_direction option \<Rightarrow> wallet_db \<Rightarrow>
     wallet_view_error + history_entry list \<times> string option" where
  "getHistory sdk userId cursor limit direction db =
     (case requireActiveWallet userId db of
        Inl e \<Rightarrow> Inl e
      | Inr (w, pk) \<Rightarrow>
          (case wrapProviderErrors (getPaymentHistory sdk pk cursor (Some (or_default DEFAULT_HISTORY_LIMIT limit)) None) of
             Inl e \<Rightarrow> Inl e
           | Inr page \<Rightarrow>
               Inr (filter (\<lambda>e. direction = None \<or> direction = Some (he_direction e))
                      (map (to_history_entry pk) (hp_records page)), hp_nextCursor page)))"

text \<open>A public key is shown for an active wallet only, and a wallet without one is not read on the ledger.\<close>

lemma getStatus_key: "sv_publicKey (getStatus userId db) = Some pk \<Longrightarrow>
    sv_status (getStatus userId db) = ACTIVE"
  by (auto simp: getStatus_def toStatusValue_def split: option.splits if_splits)

lemma getHistory_direction:
  "getHistory sdk userId cursor limit (Some d) db = Inr (es, next) \<Longrightarrow> e \<in> set es \<Longrightarrow> he_direction e = d"
  by (auto simp: getHistory_def split: sum.splits prod.splits)

end
