(* ===== verification/Redaction.thy ===== *)
theory Redaction
  imports Stellar
begin

text \<open>
  \<open>src/src/audit/redaction.ts\<close>: the filter that audit metadata passes before it is stored.

  A value of type \<open>unknown\<close> is a \<open>js\<close>: objects and arrays are references into a heap, so that sharing and
  cycles are what they are in the language. Numbers are integers. The regular expressions of
  the code are terms of \<open>re\<close>, with the ends of their matches computed from every start;
  \<open>Date.toISOString\<close> is the argument \<open>fmt\<close> (it throws for an invalid date), and \<open>JSON.stringify\<close> is
  \<open>json_show\<close>.
\<close>

section \<open>Regular expressions\<close>

datatype re =
    RChar "char \<Rightarrow> bool"
  | RSeq re re
  | RAlt re re
  | RRep re nat "nat option"
  | RWordBoundary
  | RStart
  | REnd
  | RAhead re

definition is_word :: "char \<Rightarrow> bool" where
  "is_word c \<longleftrightarrow> (let n = of_char c :: nat in
     48 \<le> n \<and> n \<le> 57 \<or> 65 \<le> n \<and> n \<le> 90 \<or> 97 \<le> n \<and> n \<le> 122 \<or> n = 95)"

definition word_at :: "string \<Rightarrow> nat \<Rightarrow> bool" where
  "word_at s i \<longleftrightarrow> i < length s \<and> is_word (s ! i)"

fun reps :: "(nat \<Rightarrow> nat list) \<Rightarrow> nat \<Rightarrow> nat \<Rightarrow> nat \<Rightarrow> nat list" where
  "reps f (Suc m) x i = concat (map (reps f m x) (f i))"
| "reps f 0 (Suc x) i = i # concat (map (reps f 0 x) (f i))"
| "reps f 0 0 i = [i]"

text \<open>The positions where a match that starts at a position can end.\<close>

primrec ends :: "re \<Rightarrow> string \<Rightarrow> nat \<Rightarrow> nat list" where
  "ends (RChar p) s i = (if i < length s \<and> p (s ! i) then [i + 1] else [])"
| "ends (RSeq a b) s i = concat (map (ends b s) (ends a s i))"
| "ends (RAlt a b) s i = ends a s i @ ends b s i"
| "ends (RRep a m n) s i = reps (ends a s) m (case n of None \<Rightarrow> length s | Some k \<Rightarrow> k - m) i"
| "ends RWordBoundary s i = (if (0 < i \<and> word_at s (i - 1)) \<noteq> word_at s i then [i] else [])"
| "ends RStart s i = (if i = 0 then [i] else [])"
| "ends REnd s i = (if i = length s then [i] else [])"
| "ends (RAhead a) s i = (if ends a s i = [] then [] else [i])"

definition re_test :: "re \<Rightarrow> string \<Rightarrow> bool" where
  "re_test r s \<longleftrightarrow> list_ex (\<lambda>i. ends r s i \<noteq> []) [0..<length s + 1]"

definition in_range :: "char \<Rightarrow> char \<Rightarrow> char \<Rightarrow> bool" where
  "in_range a b c \<longleftrightarrow> (of_char a :: nat) \<le> of_char c \<and> (of_char c :: nat) \<le> of_char b"

fun re_lit :: "string \<Rightarrow> re" where
  "re_lit [] = RRep (RChar (\<lambda>_. False)) 0 (Some 0)"
| "re_lit (c # s) = RSeq (RChar (\<lambda>x. x = c)) (re_lit s)"

text \<open>A literal under the flag \<open>i\<close>.\<close>

fun re_lit_i :: "string \<Rightarrow> re" where
  "re_lit_i [] = RRep (RChar (\<lambda>_. False)) 0 (Some 0)"
| "re_lit_i (c # s) = RSeq (RChar (\<lambda>x. lower_char x = lower_char c)) (re_lit_i s)"

fun re_seq :: "re list \<Rightarrow> re" where
  "re_seq [] = re_lit []"
| "re_seq (r # rs) = RSeq r (re_seq rs)"

definition base32_char :: "char \<Rightarrow> bool" where
  "base32_char c \<longleftrightarrow> in_range (CHR ''A'') (CHR ''Z'') c \<or> in_range (CHR ''2'') (CHR ''7'') c"

definition jwt_char :: "char \<Rightarrow> bool" where
  "jwt_char c \<longleftrightarrow> is_word c \<or> c = CHR ''-''"

definition bearer_char :: "char \<Rightarrow> bool" where
  "bearer_char c \<longleftrightarrow> (is_word c \<and> c \<noteq> CHR ''_'') \<or> c \<in> set ''._~+/=-''"

definition hex_char :: "char \<Rightarrow> bool" where
  "hex_char c \<longleftrightarrow> is_digit c \<or> in_range (CHR ''a'') (CHR ''f'') (lower_char c)"

definition DENIED_VALUE_PATTERNS :: "re list" where
  "DENIED_VALUE_PATTERNS =
    [re_seq [RWordBoundary, RChar (\<lambda>c. c = CHR ''S''), RRep (RChar base32_char) 55 (Some 55), RWordBoundary],
     re_seq [RWordBoundary, RChar (\<lambda>c. c = CHR ''G''), RRep (RChar base32_char) 55 (Some 55), RWordBoundary],
     re_seq [RWordBoundary, re_lit ''eyJ'', RRep (RChar jwt_char) 8 None, re_lit ''.'',
             RRep (RChar jwt_char) 8 None, re_lit ''.'', RRep (RChar jwt_char) 0 None],
     re_seq [RWordBoundary, RAlt (re_lit_i ''bearer'') (re_lit_i ''basic''), RRep (RChar is_space) 1 None,
             RRep (RChar bearer_char) 12 None],
     re_seq [RRep (RChar (\<lambda>c. is_word c \<or> c \<in> set ''.+-'')) 1 None, re_lit ''@'',
             RRep (RChar (\<lambda>c. is_word c \<or> c = CHR ''-'')) 1 None, re_lit ''.'',
             RRep (RChar (\<lambda>c. is_word c \<or> c \<in> set ''.-'')) 1 None],
     re_seq [RAlt RStart (RChar is_space), re_lit ''+'', RChar (in_range (CHR ''1'') (CHR ''9'')),
             RRep (RChar is_digit) 7 (Some 14), RAhead (RAlt REnd (RChar is_space))],
     re_seq [RWordBoundary, RRep (re_seq [RRep (RChar is_digit) 1 (Some 3), re_lit ''.'']) 3 (Some 3),
             RRep (RChar is_digit) 1 (Some 3), RWordBoundary],
     re_seq [RWordBoundary, RRep (RChar hex_char) 40 None, RWordBoundary],
     re_seq [re_lit ''-----BEGIN '', RRep (RChar (\<lambda>c. in_range (CHR ''A'') (CHR ''Z'') c \<or> c = CHR '' '')) 0 None,
             re_lit ''PRIVATE KEY-----'']]"

definition isDeniedValue :: "string \<Rightarrow> bool" where
  "isDeniedValue value \<longleftrightarrow> list_ex (\<lambda>pattern. re_test pattern value) DENIED_VALUE_PATTERNS"

section \<open>Denied keys\<close>

definition DENIED_KEYS :: "string list" where
  "DENIED_KEYS =
    [''password'', ''passwordhash'', ''newpassword'', ''currentpassword'', ''confirmpassword'', ''pin'', ''otp'',
     ''otpcode'', ''codehash'', ''verificationcode'', ''resetcode'', ''salt'', ''signature'', ''sig'', ''nonce'',
     ''email'', ''emailaddress'', ''recipient'', ''phone'', ''phonenumber'', ''msisdn'', ''username'', ''fullname'',
     ''firstname'', ''lastname'', ''middlename'', ''displayname'', ''dob'', ''dateofbirth'', ''birthdate'',
     ''address'', ''street'', ''postcode'', ''zip'', ''ssn'', ''nin'', ''bvn'', ''taxid'', ''passportnumber'',
     ''cvv'', ''pan'', ''cardnumber'', ''iban'', ''accountnumber'', ''routingnumber'',
     ''ip'', ''ipaddress'', ''useragent'', ''fingerprint'', ''latitude'', ''longitude'', ''geo'',
     ''body'', ''html'', ''text'', ''payload'', ''artifact'']"

definition DENIED_KEY_PATTERNS :: "string list" where
  "DENIED_KEY_PATTERNS =
    [''password'', ''passphrase'', ''secret'', ''token'', ''apikey'', ''authorization'', ''credential'',
     ''privatekey'', ''publickeyseed'', ''seedphrase'', ''mnemonic'', ''cookie'', ''bearer'', ''jwt'']"

definition normalizeKey :: "string \<Rightarrow> string" where
  "normalizeKey key =
     filter (\<lambda>c. in_range (CHR ''a'') (CHR ''z'') c \<or> is_digit c) (toLowerCase key)"

definition isDeniedKey :: "string \<Rightarrow> bool" where
  "isDeniedKey key \<longleftrightarrow>
     (let normalized = normalizeKey key in
      normalized \<in> set DENIED_KEYS \<or> list_ex (\<lambda>pattern. includes_str pattern normalized) DENIED_KEY_PATTERNS)"

section \<open>The walk\<close>

datatype js =
    JsUndefined | JsNull | JsNum int | JsNonFinite | JsBool bool | JsBigInt int | JsString string
  | JsFunction | JsSymbol | JsDate "time option" | JsError string string | JsRef nat

datatype js_object = JsArray "js list" | JsObject "(string \<times> js) list"

type_synonym js_heap = "nat \<Rightarrow> js_object"

definition REDACTED :: string where "REDACTED = ''[REDACTED]''"
definition TRUNCATED :: string where "TRUNCATED = ''[TRUNCATED]''"

definition maxDepth :: nat where "maxDepth = 4"
definition maxArrayLength :: nat where "maxArrayLength = 20"
definition maxKeys :: nat where "maxKeys = 32"
definition maxStringLength :: nat where "maxStringLength = 256"
definition maxSerializedBytes :: nat where "maxSerializedBytes = 4096"

record redaction_state =
  rs_redactedPaths :: "string list"
  rs_truncated :: bool
  rs_seen :: "nat list"

definition add_path :: "string \<Rightarrow> redaction_state \<Rightarrow> redaction_state" where
  "add_path p s = s\<lparr>rs_redactedPaths := rs_redactedPaths s @ [p]\<rparr>"

definition mark_truncated :: "bool \<Rightarrow> redaction_state \<Rightarrow> redaction_state" where
  "mark_truncated b s = s\<lparr>rs_truncated := rs_truncated s \<or> b\<rparr>"

definition walk_string :: "string \<Rightarrow> string \<Rightarrow> redaction_state \<Rightarrow> json \<times> redaction_state" where
  "walk_string value path s =
     (if isDeniedValue value then (JStr REDACTED, add_path path s)
      else if length value > maxStringLength
      then (JStr (take maxStringLength value @ TRUNCATED), mark_truncated True s)
      else (JStr value, s))"

definition child_path :: "string \<Rightarrow> string \<Rightarrow> string" where
  "child_path path key = (if path = [] then key else path @ ''.'' @ key)"

text \<open>\<open>None\<close> is a thrown \<open>RangeError\<close>.\<close>

function walk :: "(time \<Rightarrow> string) \<Rightarrow> js_heap \<Rightarrow> js \<Rightarrow> string \<Rightarrow> nat \<Rightarrow> redaction_state \<Rightarrow> json option \<times> redaction_state"
  and walk_array :: "(time \<Rightarrow> string) \<Rightarrow> js_heap \<Rightarrow> js list \<Rightarrow> string \<Rightarrow> nat \<Rightarrow> nat \<Rightarrow> redaction_state \<Rightarrow>
        json list option \<times> redaction_state"
  and walk_entries :: "(time \<Rightarrow> string) \<Rightarrow> js_heap \<Rightarrow> (string \<times> js) list \<Rightarrow> string \<Rightarrow> nat \<Rightarrow> redaction_state \<Rightarrow>
        (string \<times> json) list option \<times> redaction_state" where
  "walk fmt h value path depth s =
     (if value = JsNull \<or> value = JsUndefined then (Some JNull, s)
      else if depth > maxDepth then (Some (JStr TRUNCATED), mark_truncated True s)
      else
        (case value of
           JsString v \<Rightarrow> (case walk_string v path s of (j, s') \<Rightarrow> (Some j, s'))
         | JsNum n \<Rightarrow> (Some (JNum n), s)
         | JsNonFinite \<Rightarrow> (Some JNull, s)
         | JsBool b \<Rightarrow> (Some (JBool b), s)
         | JsBigInt n \<Rightarrow> (Some (JStr (show_int n)), s)
         | JsFunction \<Rightarrow> (Some (JStr REDACTED), add_path path s)
         | JsSymbol \<Rightarrow> (Some (JStr REDACTED), add_path path s)
         | JsDate None \<Rightarrow> (None, s)
         | JsDate (Some t) \<Rightarrow> (Some (JStr (fmt t)), s)
         | JsError name message \<Rightarrow>
             (case (if depth + 1 > maxDepth then (JStr TRUNCATED, mark_truncated True s)
                    else walk_string message (path @ ''.message'') s) of
                (m, s') \<Rightarrow> (Some (JObj [(''name'', JStr name), (''message'', m)]), s'))
         | JsRef a \<Rightarrow>
             if a \<in> set (rs_seen s) then (Some (JStr TRUNCATED), mark_truncated True s)
             else
               (case h a of
                  JsArray xs \<Rightarrow>
                    (case walk_array fmt h (take maxArrayLength xs) path 0 (depth + 1)
                            (mark_truncated (length xs > maxArrayLength) (s\<lparr>rs_seen := a # rs_seen s\<rparr>)) of
                       (r, s') \<Rightarrow> (map_option JArr r, s'))
                | JsObject fs \<Rightarrow>
                    (case walk_entries fmt h (take maxKeys fs) path (depth + 1)
                            (mark_truncated (length fs > maxKeys) (s\<lparr>rs_seen := a # rs_seen s\<rparr>)) of
                       (r, s') \<Rightarrow> (map_option JObj r, s')))
         | _ \<Rightarrow> (Some JNull, s)))"
| "walk_array fmt h [] path i depth s = (Some [], s)"
| "walk_array fmt h (x # xs) path i depth s =
     (case walk fmt h x (path @ ''['' @ show_nat i @ '']'') depth s of
        (None, s1) \<Rightarrow> (None, s1)
      | (Some j, s1) \<Rightarrow>
          (case walk_array fmt h xs path (Suc i) depth s1 of (r, s2) \<Rightarrow> (map_option ((#) j) r, s2)))"
| "walk_entries fmt h [] path depth s = (Some [], s)"
| "walk_entries fmt h ((key, entry) # fs) path depth s =
     (if isDeniedKey key then
        (case walk_entries fmt h fs path depth (add_path (child_path path key) s) of
           (r, s2) \<Rightarrow> (map_option ((#) (key, JStr REDACTED)) r, s2))
      else
        (case walk fmt h entry (child_path path key) depth s of
           (None, s1) \<Rightarrow> (None, s1)
         | (Some j, s1) \<Rightarrow>
             (case walk_entries fmt h fs path depth s1 of (r, s2) \<Rightarrow> (map_option ((#) (key, j)) r, s2))))"
  by pat_completeness auto

termination
  by (relation "measures
        [\<lambda>x. case x of Inl (_, _, _, _, d, _) \<Rightarrow> 6 - d
           | Inr (Inl (_, _, _, _, _, d, _)) \<Rightarrow> 6 - d
           | Inr (Inr (_, _, _, _, d, _)) \<Rightarrow> 6 - d,
         \<lambda>x. case x of Inl _ \<Rightarrow> 0
           | Inr (Inl (_, _, xs, _)) \<Rightarrow> Suc (length xs)
           | Inr (Inr (_, _, fs, _)) \<Rightarrow> Suc (length fs)]")
    (auto simp: maxDepth_def)

declare walk.simps [simp del]

section \<open>Redacting and serializing\<close>

record redaction_result =
  rr_value :: "(string \<times> json) list option"
  rr_redactedPaths :: "string list"
  rr_truncated :: bool

text \<open>An assignment to a property: in place when the key exists.\<close>

fun set_field :: "string \<Rightarrow> json \<Rightarrow> (string \<times> json) list \<Rightarrow> (string \<times> json) list" where
  "set_field k v [] = [(k, v)]"
| "set_field k v ((k', v') # fs) = (if k' = k then (k, v) # fs else (k', v') # set_field k v fs)"

text \<open>The input is a reference to an object; \<open>None\<close> is the error a walk threw.\<close>

definition redactMetadata :: "(time \<Rightarrow> string) \<Rightarrow> js_heap \<Rightarrow> nat option \<Rightarrow> redaction_result option" where
  "redactMetadata fmt h input =
     (case input of
        None \<Rightarrow> Some \<lparr>rr_value = None, rr_redactedPaths = [], rr_truncated = False\<rparr>
      | Some a \<Rightarrow>
          (case walk fmt h (JsRef a) [] 0 \<lparr>rs_redactedPaths = [], rs_truncated = False, rs_seen = []\<rparr> of
             (Some (JObj safe), s) \<Rightarrow>
               Some \<lparr>rr_value = Some (if rs_redactedPaths s \<noteq> []
                                      then set_field ''_redacted'' (JArr (map JStr (rs_redactedPaths s))) safe
                                      else safe),
                     rr_redactedPaths = rs_redactedPaths s, rr_truncated = rs_truncated s\<rparr>
           | _ \<Rightarrow> None))"

definition hex_digit :: "nat \<Rightarrow> char" where
  "hex_digit n = (if n < 10 then char_of (48 + n) else char_of (87 + n))"

definition esc_char :: "char \<Rightarrow> string" where
  "esc_char c = (let n = of_char c :: nat in
     if n = 34 then [char_of (92 :: nat), c] else if n = 92 then [c, c]
     else if n = 8 then [char_of (92 :: nat), CHR ''b''] else if n = 12 then [char_of (92 :: nat), CHR ''f'']
     else if n = 10 then [char_of (92 :: nat), CHR ''n''] else if n = 13 then [char_of (92 :: nat), CHR ''r'']
     else if n = 9 then [char_of (92 :: nat), CHR ''t'']
     else if n < 32 then [char_of (92 :: nat)] @ ''u00'' @ [hex_digit (n div 16), hex_digit (n mod 16)]
     else [c])"

definition show_str :: "string \<Rightarrow> string" where
  "show_str s = [char_of (34 :: nat)] @ concat (map esc_char s) @ [char_of (34 :: nat)]"

fun commas :: "string list \<Rightarrow> string" where
  "commas [] = []"
| "commas [x] = x"
| "commas (x # y # ys) = x @ '','' @ commas (y # ys)"

fun json_show :: "json \<Rightarrow> string" where
  "json_show JNull = ''null''"
| "json_show (JBool b) = (if b then ''true'' else ''false'')"
| "json_show (JNum n) = show_int n"
| "json_show (JStr s) = show_str s"
| "json_show (JArr xs) = ''['' @ commas (map json_show xs) @ '']''"
| "json_show (JObj fs) = ''{'' @ commas (map (\<lambda>(k, v). show_str k @ '':'' @ json_show v) fs) @ ''}''"

text \<open>\<open>Buffer.byteLength(s, 'utf8')\<close> of code units below 256.\<close>

definition utf8_length :: "string \<Rightarrow> nat" where
  "utf8_length s = sum_list (map (\<lambda>c. if (of_char c :: nat) < 128 then 1 else 2) s)"

definition serializeMetadata :: "(time \<Rightarrow> string) \<Rightarrow> js_heap \<Rightarrow> nat option \<Rightarrow> string option option" where
  "serializeMetadata fmt h input =
     (case redactMetadata fmt h input of
        None \<Rightarrow> None
      | Some r \<Rightarrow>
          (case rr_value r of
             None \<Rightarrow> Some None
           | Some value \<Rightarrow>
               if value = [] then Some None
               else if utf8_length (json_show (JObj value)) > maxSerializedBytes
               then Some (Some (json_show (JObj
                      [(''_truncated'', JBool True), (''_reason'', JStr ''metadata exceeded size limit''),
                       (''_keys'', JArr (map (\<lambda>(k, v). JStr k) (take maxKeys value)))])))
               else if rr_truncated r
               then Some (Some (json_show (JObj (set_field ''_truncated'' (JBool True) value))))
               else Some (Some (json_show (JObj value)))))"

definition hashIpAddress :: "(string \<Rightarrow> string \<Rightarrow> string) \<Rightarrow> string option \<Rightarrow> string \<Rightarrow> string option" where
  "hashIpAddress hmac ipAddress secret =
     (case ipAddress of
        None \<Rightarrow> None
      | Some ip \<Rightarrow> if ip = [] then None else Some (take 32 (hmac secret (trim ip))))"

definition UA_FAMILIES :: "(string \<times> string) list" where
  "UA_FAMILIES =
    [(''edg/'', ''Edge''), (''opr/'', ''Opera''), (''firefox/'', ''Firefox''), (''chrome/'', ''Chrome''),
     (''safari/'', ''Safari''), (''okhttp'', ''Android''), (''cfnetwork'', ''iOS''), (''dart:io'', ''Flutter''),
     (''curl/'', ''curl''), (''postman'', ''Postman''), (''node'', ''Node''), (''axios'', ''Node''),
     (''bot'', ''Bot''), (''spider'', ''Bot'')]"

definition userAgentFamily :: "string option \<Rightarrow> string option" where
  "userAgentFamily userAgent =
     (case userAgent of
        None \<Rightarrow> None
      | Some u \<Rightarrow>
          if u = [] then None
          else
            (case List.find (\<lambda>(needle, family). includes_str needle (toLowerCase u)) UA_FAMILIES of
               Some (needle, family) \<Rightarrow> Some family
             | None \<Rightarrow> Some ''Other''))"

section \<open>What comes out of a walk\<close>

text \<open>A string that may be stored: a marker, a string that looks harmless, a harmless one that was cut, or a
  number or date that the walk itself has printed.\<close>

definition storable :: "(time \<Rightarrow> string) \<Rightarrow> string \<Rightarrow> bool" where
  "storable fmt t \<longleftrightarrow> t = REDACTED \<or> t = TRUNCATED
     \<or> (\<not> isDeniedValue t \<and> length t \<le> maxStringLength)
     \<or> (\<exists>v. \<not> isDeniedValue v \<and> length v > maxStringLength \<and> t = take maxStringLength v @ TRUNCATED)
     \<or> (\<exists>n. t = show_int n) \<or> (\<exists>d. t = fmt d)"

fun clean :: "(time \<Rightarrow> string) \<Rightarrow> json \<Rightarrow> bool" where
  "clean fmt (JStr t) \<longleftrightarrow> storable fmt t"
| "clean fmt (JArr xs) \<longleftrightarrow> length xs \<le> maxArrayLength \<and> list_all (clean fmt) xs"
| "clean fmt (JObj fs) \<longleftrightarrow> length fs \<le> maxKeys
     \<and> list_all (\<lambda>(k, v). if isDeniedKey k then v = JStr REDACTED else clean fmt v) fs"
| "clean fmt _ \<longleftrightarrow> True"

fun json_depth :: "json \<Rightarrow> nat" where
  "json_depth (JArr xs) = Suc (fold max (map json_depth xs) 0)"
| "json_depth (JObj fs) = Suc (fold max (map (\<lambda>(k, v). json_depth v) fs) 0)"
| "json_depth _ = 0"

end
