(* ===== verification/RedactionProps.thy ===== *)
theory RedactionProps
  imports Redaction
begin

text \<open>
  What the redaction filter lets through. The names of error objects are the one text the walk copies
  unseen; the lemmas assume them harmless.
\<close>

definition error_name_ok :: "(time \<Rightarrow> string) \<Rightarrow> js \<Rightarrow> bool" where
  "error_name_ok fmt v = (case v of JsError name _ \<Rightarrow> storable fmt name | _ \<Rightarrow> True)"

definition names_ok :: "(time \<Rightarrow> string) \<Rightarrow> js_heap \<Rightarrow> bool" where
  "names_ok fmt h \<longleftrightarrow> (\<forall>a. case h a of JsArray xs \<Rightarrow> list_all (error_name_ok fmt) xs
     | JsObject fs \<Rightarrow> list_all (\<lambda>(k, v). error_name_ok fmt v) fs)"

lemma plain_keys: "\<not> isDeniedKey ''name''" "\<not> isDeniedKey ''message''"
  by code_simp+

lemma storable_markers [simp]: "storable fmt REDACTED" "storable fmt TRUNCATED"
  by (simp_all add: storable_def)

lemma walk_string_clean: "walk_string v path s = (j, s') \<Longrightarrow> clean fmt j \<and> json_depth j = 0"
  by (auto simp: walk_string_def storable_def split: if_splits)

lemma fold_max_le: "fold max ns (m :: nat) \<le> b \<longleftrightarrow> m \<le> b \<and> (\<forall>n \<in> set ns. n \<le> b)"
  by (induction ns arbitrary: m) auto

lemma arr_depth: "json_depth (JArr xs) \<le> Suc b \<longleftrightarrow> (\<forall>x \<in> set xs. json_depth x \<le> b)"
  by (simp add: fold_max_le)

lemma obj_depth: "json_depth (JObj fs) \<le> Suc b \<longleftrightarrow> (\<forall>f \<in> set fs. json_depth (snd f) \<le> b)"
  by (auto simp: fold_max_le)

declare json_depth.simps(1,2) [simp del]

text \<open>The walk of a reference, of an error, and of everything else.\<close>

lemma walk_shallow:
  assumes "\<And>a. w \<noteq> JsRef a" and "error_name_ok fmt w" and "walk fmt h w path depth s = (Some j, s')"
  shows "clean fmt j \<and> json_depth j \<le> 5 - depth"
proof (cases w)
  case (JsError name message)
  show ?thesis
  proof (cases "depth > maxDepth")
    case True
    with assms(3) JsError show ?thesis by (auto simp: walk.simps)
  next
    case False
    with assms(3) JsError obtain m s1 where
      m: "(if depth + 1 > maxDepth then (JStr TRUNCATED, mark_truncated True s)
           else walk_string message (path @ ''.message'') s) = (m, s1)"
      and j: "j = JObj [(''name'', JStr name), (''message'', m)]"
      by (auto simp: walk.simps split: prod.splits)
    from m have "clean fmt m \<and> json_depth m = 0"
      using walk_string_clean [of message "path @ ''.message''" s m s1 fmt] by (auto split: if_splits)
    moreover have "json_depth j \<le> Suc 0" unfolding j obj_depth using calculation by simp
    moreover from False have "Suc 0 \<le> 5 - depth" by (simp add: maxDepth_def)
    ultimately show ?thesis
      using assms(2) JsError j plain_keys by (simp add: error_name_ok_def maxKeys_def)
  qed
next
  case (JsString v)
  with assms(3) show ?thesis
    using walk_string_clean [of v path s j s' fmt]
    by (auto simp: walk.simps split: if_splits prod.splits)
next
  case (JsDate d)
  with assms(3) show ?thesis by (auto simp: walk.simps storable_def split: if_splits option.splits)
next
  case (JsBigInt n)
  with assms(3) show ?thesis by (auto simp: walk.simps storable_def split: if_splits)
next
  case (JsRef a)
  with assms(1) show ?thesis by blast
qed (use assms(3) in \<open>auto simp: walk.simps split: if_splits\<close>)

text \<open>All three walks, together.\<close>

definition entry_clean :: "(time \<Rightarrow> string) \<Rightarrow> string \<times> json \<Rightarrow> bool" where
  "entry_clean fmt e \<longleftrightarrow> (if isDeniedKey (fst e) then snd e = JStr REDACTED else clean fmt (snd e))"

lemma clean_obj: "clean fmt (JObj fs) \<longleftrightarrow> length fs \<le> maxKeys \<and> (\<forall>e \<in> set fs. entry_clean fmt e)"
  by (simp add: entry_clean_def list_all_iff case_prod_beta)

lemma clean_arr: "clean fmt (JArr xs) \<longleftrightarrow> length xs \<le> maxArrayLength \<and> (\<forall>x \<in> set xs. clean fmt x)"
  by (simp add: list_all_iff)

declare clean.simps(2,3) [simp del]

lemma take_names:
  assumes "names_ok fmt h"
  shows "h a = JsArray xs \<Longrightarrow> list_all (error_name_ok fmt) (take n xs)"
    and "h a = JsObject fs \<Longrightarrow> list_all (\<lambda>(k, v). error_name_ok fmt v) (take n fs)"
  using assms [unfolded names_ok_def, rule_format, of a]
  by (auto simp: list_all_iff dest: in_set_takeD)

lemma walk_ref:
  "walk fmt h (JsRef a) path depth s = (Some j, s') \<Longrightarrow>
     j = JStr TRUNCATED
   \<or> depth \<le> maxDepth \<and> a \<notin> set (rs_seen s) \<and>
     (case h a of
        JsArray xs \<Rightarrow> \<exists>js. j = JArr js \<and>
          walk_array fmt h (take maxArrayLength xs) path 0 (depth + 1)
            (mark_truncated (length xs > maxArrayLength) (s\<lparr>rs_seen := a # rs_seen s\<rparr>)) = (Some js, s')
      | JsObject fs \<Rightarrow> \<exists>fs'. j = JObj fs' \<and>
          walk_entries fmt h (take maxKeys fs) path (depth + 1)
            (mark_truncated (length fs > maxKeys) (s\<lparr>rs_seen := a # rs_seen s\<rparr>)) = (Some fs', s'))"
  by (auto simp: walk.simps [of fmt h "JsRef a"] split: if_splits js_object.splits prod.splits)

lemma walk_clean:
  "\<lbrakk>walk fmt h v path depth s = (Some j, s'); error_name_ok fmt v; names_ok fmt h\<rbrakk> \<Longrightarrow>
     clean fmt j \<and> json_depth j \<le> 5 - depth"
  "\<lbrakk>walk_array fmt h xs path i depth s = (Some js, s'); list_all (error_name_ok fmt) xs; names_ok fmt h\<rbrakk> \<Longrightarrow>
     length js = length xs \<and> (\<forall>j \<in> set js. clean fmt j \<and> json_depth j \<le> 5 - depth)"
  "\<lbrakk>walk_entries fmt h fs path depth s = (Some es, s'); list_all (\<lambda>(k, v). error_name_ok fmt v) fs; names_ok fmt h\<rbrakk> \<Longrightarrow>
     length es = length fs \<and> (\<forall>e \<in> set es. entry_clean fmt e \<and> json_depth (snd e) \<le> 5 - depth)"
proof (induction fmt h v path depth s and fmt h xs path i depth s and fmt h fs path depth s
    arbitrary: j s' and js s' and es s' rule: walk_walk_array_walk_entries.induct)
  case (1 fmt h v path depth s)
  show ?case
  proof (cases "\<exists>a. v = JsRef a")
    case False
    then show ?thesis using walk_shallow [OF _ "1.prems"(2) "1.prems"(1)] by blast
  next
    case True
    then obtain a where v: "v = JsRef a" by blast
    have depth: "\<And>n. depth \<le> maxDepth \<Longrightarrow> n \<le> Suc (5 - (depth + 1)) \<longleftrightarrow> n \<le> 5 - depth"
      by (auto simp: maxDepth_def)
    from walk_ref [OF "1.prems"(1) [unfolded v]] show ?thesis
    proof (elim disjE conjE)
      assume "j = JStr TRUNCATED" then show ?thesis by simp
    next
      assume d: "depth \<le> maxDepth" and a: "a \<notin> set (rs_seen s)"
      assume body: "case h a of
        JsArray xs \<Rightarrow> \<exists>js. j = JArr js \<and>
          walk_array fmt h (take maxArrayLength xs) path 0 (depth + 1)
            (mark_truncated (length xs > maxArrayLength) (s\<lparr>rs_seen := a # rs_seen s\<rparr>)) = (Some js, s')
      | JsObject fs \<Rightarrow> \<exists>fs'. j = JObj fs' \<and>
          walk_entries fmt h (take maxKeys fs) path (depth + 1)
            (mark_truncated (length fs > maxKeys) (s\<lparr>rs_seen := a # rs_seen s\<rparr>)) = (Some fs', s')"
      show ?thesis
      proof (cases "h a")
        case (JsArray xs)
        with body obtain js where j: "j = JArr js" and
          w: "walk_array fmt h (take maxArrayLength xs) path 0 (depth + 1)
            (mark_truncated (length xs > maxArrayLength) (s\<lparr>rs_seen := a # rs_seen s\<rparr>)) = (Some js, s')" by auto
        have "length js = length (take maxArrayLength xs) \<and>
              (\<forall>j \<in> set js. clean fmt j \<and> json_depth j \<le> 5 - (depth + 1))"
          by (rule "1.IH"(1) [OF _ _ v a JsArray w take_names(1) [OF "1.prems"(3) JsArray] "1.prems"(3)])
            (use d v in auto)
        then show ?thesis
          unfolding j clean_arr depth [OF d, symmetric] arr_depth by auto
      next
        case (JsObject fs)
        with body obtain es where j: "j = JObj es" and
          w: "walk_entries fmt h (take maxKeys fs) path (depth + 1)
            (mark_truncated (length fs > maxKeys) (s\<lparr>rs_seen := a # rs_seen s\<rparr>)) = (Some es, s')" by auto
        have "length es = length (take maxKeys fs) \<and>
              (\<forall>e \<in> set es. entry_clean fmt e \<and> json_depth (snd e) \<le> 5 - (depth + 1))"
          by (rule "1.IH"(2) [OF _ _ v a JsObject w take_names(2) [OF "1.prems"(3) JsObject] "1.prems"(3)])
            (use d v in auto)
        then show ?thesis
          unfolding j clean_obj depth [OF d, symmetric] obj_depth by auto
      qed
    qed
  qed
next
  case (3 fmt h x xs path i depth s)
  then show ?case by (auto split: prod.splits option.splits)
next
  case (5 fmt h key entry fs path depth s)
  show ?case
  proof (cases "isDeniedKey key")
    case True
    with "5.prems"(1) obtain es1 where es: "es = (key, JStr REDACTED) # es1"
      and w: "walk_entries fmt h fs path depth (add_path (child_path path key) s) = (Some es1, s')"
      by (auto split: prod.splits)
    from "5.IH"(1) [OF True w] "5.prems"(2,3) True es show ?thesis by (auto simp: entry_clean_def)
  next
    case False
    with "5.prems"(1) obtain j1 es1 s1 where es: "es = (key, j1) # es1"
      and j1: "walk fmt h entry (child_path path key) depth s = (Some j1, s1)"
      and w: "walk_entries fmt h fs path depth s1 = (Some es1, s')"
      by (auto split: prod.splits option.splits)
    from "5.IH"(2) [OF False j1] "5.prems"(2,3) "5.IH"(3) [OF False j1 [symmetric] refl w] False es
    show ?thesis by (auto simp: entry_clean_def)
  qed
qed simp_all

text \<open>Only an invalid date makes a walk throw.\<close>

definition valid_date :: "js \<Rightarrow> bool" where
  "valid_date v \<longleftrightarrow> v \<noteq> JsDate None"

definition dates_ok :: "js_heap \<Rightarrow> bool" where
  "dates_ok h \<longleftrightarrow> (\<forall>a. case h a of JsArray xs \<Rightarrow> list_all valid_date xs
     | JsObject fs \<Rightarrow> list_all (\<lambda>(k, v). valid_date v) fs)"

lemma take_dates:
  assumes "dates_ok h"
  shows "h a = JsArray xs \<Longrightarrow> list_all valid_date (take n xs)"
    and "h a = JsObject fs \<Longrightarrow> list_all (\<lambda>(k, v). valid_date v) (take n fs)"
  using assms [unfolded dates_ok_def, rule_format, of a]
  by (auto simp: list_all_iff dest: in_set_takeD)

lemma walk_returns:
  "valid_date v \<Longrightarrow> dates_ok h \<Longrightarrow> \<exists>j s'. walk fmt h v path depth s = (Some j, s')"
  "list_all valid_date xs \<Longrightarrow> dates_ok h \<Longrightarrow> \<exists>js s'. walk_array fmt h xs path i depth s = (Some js, s')"
  "list_all (\<lambda>(k, v). valid_date v) fs \<Longrightarrow> dates_ok h \<Longrightarrow>
     \<exists>es s'. walk_entries fmt h fs path depth s = (Some es, s')"
proof (induction fmt h v path depth s and fmt h xs path i depth s and fmt h fs path depth s
    rule: walk_walk_array_walk_entries.induct)
  case (1 fmt h v path depth s)
  show ?case
  proof (cases "\<exists>a. v = JsRef a \<and> \<not> depth > maxDepth \<and> a \<notin> set (rs_seen s)")
    case False
    with "1.prems"(1) show ?thesis
      by (cases v) (auto simp: walk.simps valid_date_def split: prod.splits option.splits)
  next
    case True
    then obtain a where v: "v = JsRef a" "\<not> depth > maxDepth" "a \<notin> set (rs_seen s)" by blast
    show ?thesis
    proof (cases "h a")
      case (JsArray xs)
      from "1.IH"(1) [OF _ v(2) v(1) v(3) JsArray take_dates(1) [OF "1.prems"(2) JsArray] "1.prems"(2)] v JsArray
      show ?thesis by (auto simp: walk.simps)
    next
      case (JsObject fs)
      from "1.IH"(2) [OF _ v(2) v(1) v(3) JsObject take_dates(2) [OF "1.prems"(2) JsObject] "1.prems"(2)] v JsObject
      show ?thesis by (auto simp: walk.simps)
    qed
  qed
next
  case (3 fmt h x xs path i depth s)
  then show ?case by (fastforce split: prod.splits option.splits)
next
  case (5 fmt h key entry fs path depth s)
  then show ?case by (fastforce split: prod.splits option.splits)
qed simp_all

lemma redact_object:
  assumes "names_ok fmt h" and "dates_ok h" and "h a = JsObject fs"
  shows "\<exists>safe s. walk fmt h (JsRef a) [] 0 \<lparr>rs_redactedPaths = [], rs_truncated = False, rs_seen = []\<rparr> = (Some (JObj safe), s)
     \<and> clean fmt (JObj safe) \<and> json_depth (JObj safe) \<le> 5"
proof -
  let ?s = "\<lparr>rs_redactedPaths = [], rs_truncated = False, rs_seen = []\<rparr>"
  from walk_returns(1) [of "JsRef a" h fmt "[]" 0 ?s] assms(2)
  obtain j s' where w: "walk fmt h (JsRef a) [] 0 ?s = (Some j, s')" by (auto simp: valid_date_def)
  from walk_clean(1) [OF w _ assms(1)] have "clean fmt j \<and> json_depth j \<le> 5" by (simp add: error_name_ok_def)
  moreover obtain safe where "j = JObj safe"
    using w assms(3) by (auto simp: walk.simps maxDepth_def split: prod.splits)
  ultimately show ?thesis using w by blast
qed


definition cyclic_heap :: js_heap where
  "cyclic_heap = (\<lambda>_. JsObject [(''self'', JsRef 0), (''accessToken'', JsString ''abc''), (''status'', JsString ''sent'')])"


text \<open>What the walk of that cyclic object is, and two things the filter does not catch: a field name
  is stored as it is, whatever it spells, and an invalid date makes redaction throw.\<close>

theorem cyclic_object_redacted:
  "map_option rr_value (redactMetadata show_int cyclic_heap (Some 0)) =
     Some (Some [(''self'', JStr TRUNCATED), (''accessToken'', JStr REDACTED), (''status'', JStr ''sent''),
                 (''_redacted'', JArr [JStr ''accessToken''])])"
  by code_simp

theorem personal_field_name_is_stored:
  "isDeniedValue ''ada@x.io'' \<and>
   map_option rr_value (redactMetadata show_int (\<lambda>_. JsObject [(''ada@x.io'', JsNum 1)]) (Some 0)) =
     Some (Some [(''ada@x.io'', JNum 1)])"
  by code_simp

theorem invalid_date_throws:
  "redactMetadata show_int (\<lambda>_. JsObject [(''at'', JsDate None)]) (Some 0) = None"
  by code_simp

end
