(* ===== verification/Lifecycle.thy ===== *)
theory Lifecycle
  imports Redaction
begin

text \<open>
  The data lifecycle policy: \<open>src/src/audit/classification.ts\<close> (with the types of \<open>audit/types.ts\<close>) and
  \<open>audit/archive.ts\<close>. The matrix of rules is data and stands here as it is in the code, without its
  notes for reviewers.

  A Prisma \<open>where\<close> clause is an object the code inspects and copies before Prisma sees it: the
  datatype \<open>clause\<close>, in which \<open>undefined\<close> is a value, since a field that is present and undefined is
  how a caller opts out. Prisma itself is the argument \<open>query\<close>.
\<close>

section \<open>The matrix\<close>

datatype record_class = ClassMutable | ClassArchivable | ClassDeletable | ClassImmutable

datatype data_category =
  CatIdentity | CatMoney | CatCredential | CatSecurity | CatConsent | CatContent | CatOperational

datatype erasure_action = EraseDelete | EraseAnonymize | EraseRetain | EraseCascade

record lifecycle_rule =
  lr_model :: string
  lr_table :: string
  lr_recordClass :: record_class
  lr_category :: data_category
  lr_retentionDays :: "nat option"
  lr_retentionAnchor :: "string option"
  lr_onErasure :: erasure_action
  lr_audited :: bool

definition SEVEN_YEARS :: "nat option" where "SEVEN_YEARS = Some 2555"
definition TWO_YEARS :: "nat option" where "TWO_YEARS = Some 730"
definition ONE_YEAR :: "nat option" where "ONE_YEAR = Some 365"
definition NINETY_DAYS :: "nat option" where "NINETY_DAYS = Some 90"
definition THIRTY_DAYS :: "nat option" where "THIRTY_DAYS = Some 30"
definition SEVEN_DAYS :: "nat option" where "SEVEN_DAYS = Some 7"
definition INDEFINITE :: "nat option" where "INDEFINITE = None"

lemmas retention_defs = SEVEN_YEARS_def TWO_YEARS_def ONE_YEAR_def NINETY_DAYS_def THIRTY_DAYS_def
  SEVEN_DAYS_def INDEFINITE_def

definition rule :: "string \<Rightarrow> string \<Rightarrow> record_class \<Rightarrow> data_category \<Rightarrow> nat option \<Rightarrow> string option \<Rightarrow>
    erasure_action \<Rightarrow> bool \<Rightarrow> lifecycle_rule" where
  "rule model tbl cls category days anchor onErasure audited =
     \<lparr>lr_model = model, lr_table = tbl, lr_recordClass = cls, lr_category = category, lr_retentionDays = days,
      lr_retentionAnchor = anchor, lr_onErasure = onErasure, lr_audited = audited\<rparr>"

text \<open>The matrix, by the sections it has in the source.\<close>

definition IDENTITY_RULES :: "lifecycle_rule list" where
  "IDENTITY_RULES =
    [rule ''User'' ''users'' ClassMutable CatIdentity INDEFINITE None EraseAnonymize True,
     rule ''LearnerPreference'' ''learner_preferences'' ClassMutable CatIdentity INDEFINITE None EraseCascade True,
     rule ''LearnerProfile'' ''learner_profiles'' ClassArchivable CatIdentity ONE_YEAR (Some ''archivedAt'') EraseCascade True,
     rule ''OnboardingProgress'' ''onboarding_progress'' ClassMutable CatIdentity INDEFINITE None EraseCascade False,
     rule ''Avatar'' ''avatars'' ClassArchivable CatContent ONE_YEAR (Some ''archivedAt'') EraseCascade True,
     rule ''AvatarVariant'' ''avatar_variants'' ClassImmutable CatContent ONE_YEAR (Some ''createdAt'') EraseCascade False]"

definition CONSENT_RULES :: "lifecycle_rule list" where
  "CONSENT_RULES =
    [rule ''ConsentRecord'' ''consent_records'' ClassImmutable CatConsent SEVEN_YEARS (Some ''createdAt'') EraseRetain True,
     rule ''PreferenceAuditLog'' ''preference_audit_logs'' ClassImmutable CatConsent SEVEN_YEARS (Some ''createdAt'') EraseRetain False]"

definition SECURITY_RULES :: "lifecycle_rule list" where
  "SECURITY_RULES =
    [rule ''AuditEvent'' ''audit_events'' ClassImmutable CatSecurity SEVEN_YEARS (Some ''occurredAt'') EraseRetain False,
     rule ''AuditLog'' ''audit_logs'' ClassImmutable CatSecurity TWO_YEARS (Some ''createdAt'') EraseAnonymize False,
     rule ''Session'' ''sessions'' ClassMutable CatSecurity NINETY_DAYS (Some ''updatedAt'') EraseDelete True,
     rule ''RefreshToken'' ''refresh_tokens'' ClassMutable CatSecurity NINETY_DAYS (Some ''updatedAt'') EraseCascade True,
     rule ''VerificationToken'' ''verification_tokens'' ClassMutable CatSecurity THIRTY_DAYS (Some ''createdAt'') EraseDelete True,
     rule ''OtpChallenge'' ''otp_challenges'' ClassMutable CatSecurity THIRTY_DAYS (Some ''createdAt'') EraseDelete True,
     rule ''ManagedKeyReference'' ''managed_key_references'' ClassImmutable CatSecurity INDEFINITE None EraseRetain True]"

definition MONEY_RULES :: "lifecycle_rule list" where
  "MONEY_RULES =
    [rule ''Transaction'' ''Transaction'' ClassImmutable CatMoney SEVEN_YEARS (Some ''createdAt'') EraseRetain True,
     rule ''Wallet'' ''wallets'' ClassMutable CatMoney INDEFINITE None EraseRetain True,
     rule ''WalletProvisioningJob'' ''wallet_provisioning_jobs'' ClassMutable CatOperational NINETY_DAYS (Some ''updatedAt'') EraseCascade False,
     rule ''StellarFunding'' ''stellar_fundings'' ClassMutable CatMoney SEVEN_YEARS (Some ''createdAt'') EraseRetain True,
     rule ''ReferralCode'' ''referral_codes'' ClassArchivable CatMoney ONE_YEAR (Some ''archivedAt'') EraseCascade True,
     rule ''Referral'' ''referrals'' ClassImmutable CatMoney SEVEN_YEARS (Some ''createdAt'') EraseRetain True]"

definition CREDENTIAL_RULES :: "lifecycle_rule list" where
  "CREDENTIAL_RULES =
    [rule ''Credential'' ''Credential'' ClassImmutable CatCredential INDEFINITE None EraseRetain True,
     rule ''Completion'' ''Completion'' ClassImmutable CatCredential INDEFINITE None EraseDelete True]"

definition CONTENT_RULES :: "lifecycle_rule list" where
  "CONTENT_RULES =
    [rule ''Module'' ''Module'' ClassArchivable CatContent INDEFINITE (Some ''archivedAt'') EraseRetain True]"

definition OPERATIONAL_RULES :: "lifecycle_rule list" where
  "OPERATIONAL_RULES =
    [rule ''SyncEvent'' ''sync_events'' ClassImmutable CatOperational NINETY_DAYS (Some ''createdAt'') EraseDelete False,
     rule ''EmailDelivery'' ''email_deliveries'' ClassMutable CatOperational THIRTY_DAYS (Some ''createdAt'') EraseDelete False,
     rule ''NotificationLog'' ''NotificationLog'' ClassMutable CatOperational THIRTY_DAYS (Some ''createdAt'') EraseDelete False,
     rule ''NotificationPreference'' ''NotificationPreference'' ClassMutable CatIdentity INDEFINITE None EraseCascade False,
     rule ''DeviceToken'' ''DeviceToken'' ClassDeletable CatOperational NINETY_DAYS (Some ''updatedAt'') EraseDelete False,
     rule ''WebhookEndpoint'' ''WebhookEndpoint'' ClassArchivable CatOperational ONE_YEAR (Some ''archivedAt'') EraseRetain True,
     rule ''WebhookDelivery'' ''WebhookDelivery'' ClassMutable CatOperational THIRTY_DAYS (Some ''createdAt'') EraseRetain False,
     rule ''DataExportRequest'' ''data_export_requests'' ClassDeletable CatIdentity SEVEN_DAYS (Some ''completedAt'') EraseDelete True,
     rule ''AccountDeletionRequest'' ''account_deletion_requests'' ClassMutable CatIdentity SEVEN_YEARS (Some ''createdAt'') EraseRetain True,
     rule ''OutboxEvent'' ''outbox_events'' ClassMutable CatOperational THIRTY_DAYS (Some ''createdAt'') EraseRetain False,
     rule ''JobAttempt'' ''job_attempts'' ClassMutable CatOperational THIRTY_DAYS (Some ''createdAt'') EraseCascade False,
     rule ''RolledBackRecord'' ''rolled_back_records'' ClassImmutable CatOperational THIRTY_DAYS (Some ''createdAt'') EraseRetain False,
     rule ''QueueLease'' ''queue_leases'' ClassMutable CatOperational INDEFINITE None EraseRetain False]"

definition RULES :: "lifecycle_rule list" where
  "RULES = IDENTITY_RULES @ CONSENT_RULES @ SECURITY_RULES @ MONEY_RULES @ CREDENTIAL_RULES @ CONTENT_RULES @ OPERATIONAL_RULES"

lemmas rule_tables = RULES_def IDENTITY_RULES_def CONSENT_RULES_def SECURITY_RULES_def MONEY_RULES_def CREDENTIAL_RULES_def CONTENT_RULES_def OPERATIONAL_RULES_def

definition lifecycleRules :: "lifecycle_rule list" where
  "lifecycleRules = RULES"

text \<open>A map built from a list of pairs keeps the last pair of a key.\<close>

definition lifecycleRuleFor :: "string \<Rightarrow> lifecycle_rule option" where
  "lifecycleRuleFor model = map_of (rev (map (\<lambda>r. (lr_model r, r)) RULES)) model"

definition recordClassFor :: "string \<Rightarrow> record_class" where
  "recordClassFor model = (case lifecycleRuleFor model of Some r \<Rightarrow> lr_recordClass r | None \<Rightarrow> ClassMutable)"

definition auditedModels :: "string list" where
  "auditedModels = map lr_model (filter lr_audited RULES)"

definition requiresAudit :: "string \<Rightarrow> bool" where
  "requiresAudit model = (case lifecycleRuleFor model of Some r \<Rightarrow> lr_audited r | None \<Rightarrow> False)"

definition modelsInClass :: "record_class \<Rightarrow> string list" where
  "modelsInClass c = map lr_model (filter (\<lambda>r. lr_recordClass r = c) RULES)"

definition day_ms :: int where "day_ms = 24 * 60 * 60000"

definition retentionCutoff :: "string \<Rightarrow> time \<Rightarrow> time option" where
  "retentionCutoff model now =
     (case lifecycleRuleFor model of
        None \<Rightarrow> None
      | Some r \<Rightarrow> (case lr_retentionDays r of None \<Rightarrow> None | Some d \<Rightarrow> Some (now - int d * day_ms)))"

section \<open>Archived records\<close>

definition ARCHIVABLE_MODELS :: "string list" where
  "ARCHIVABLE_MODELS = modelsInClass ClassArchivable"

definition FILTERED_OPERATIONS :: "string list" where
  "FILTERED_OPERATIONS = [''findFirst'', ''findFirstOrThrow'', ''findMany'', ''count'', ''aggregate'', ''groupBy'']"

record archive_columns =
  ar_archivedAt :: "time option"
  ar_archivedById :: "ident option"
  ar_archivedReason :: "string option"

datatype clause = CUndefined | CNull | CAtom json | CList "clause list" | CObj "(string \<times> clause) list"

text \<open>The value of a field, as the property access reads it.\<close>

fun mentionsArchivedAt :: "clause \<Rightarrow> bool" where
  "mentionsArchivedAt (CList cs) = list_ex mentionsArchivedAt cs"
| "mentionsArchivedAt (CObj fs) =
     (''archivedAt'' \<in> fst ` set fs
      \<or> list_ex (\<lambda>(k, c). k \<in> {''AND'', ''OR'', ''NOT''} \<and> mentionsArchivedAt c) fs)"
| "mentionsArchivedAt _ = False"

fun set_clause :: "string \<Rightarrow> clause \<Rightarrow> (string \<times> clause) list \<Rightarrow> (string \<times> clause) list" where
  "set_clause k v [] = [(k, v)]"
| "set_clause k v ((k', v') # fs) = (if k' = k then (k, v) # fs else (k', v') # set_clause k v fs)"

text \<open>The fields a spread copies: \<open>{ ...(c ?? {}) }\<close>.\<close>

fun spread :: "clause \<Rightarrow> (string \<times> clause) list" where
  "spread (CObj fs) = fs"
| "spread _ = []"

definition arg_field :: "clause \<Rightarrow> string \<Rightarrow> clause" where
  "arg_field c k = (case map_of (spread c) k of Some v \<Rightarrow> v | None \<Rightarrow> CUndefined)"

definition excludeArchivedFromReads :: "string option \<Rightarrow> string \<Rightarrow> clause \<Rightarrow> (clause \<Rightarrow> 'r) \<Rightarrow> 'r" where
  "excludeArchivedFromReads model operation args query =
     (case model of
        None \<Rightarrow> query args
      | Some m \<Rightarrow>
          if m = [] \<or> m \<notin> set ARCHIVABLE_MODELS \<or> operation \<notin> set FILTERED_OPERATIONS then query args
          else if mentionsArchivedAt (arg_field args ''where'') then query args
          else query (CObj (set_clause ''where''
                 (CObj (set_clause ''archivedAt'' CNull (spread (arg_field args ''where'')))) (spread args))))"

definition activeOnly :: "clause \<Rightarrow> clause" where
  "activeOnly w = CObj (set_clause ''archivedAt'' CNull (spread w))"

definition archivedOnly :: "clause \<Rightarrow> clause" where
  "archivedOnly w = CObj (set_clause ''archivedAt'' (CObj [(''not'', CNull)]) (spread w))"

definition includeArchived :: "clause \<Rightarrow> clause" where
  "includeArchived w = CObj (set_clause ''archivedAt'' CUndefined (spread w))"

definition archivePatch :: "string \<Rightarrow> ident option \<Rightarrow> time \<Rightarrow> archive_columns" where
  "archivePatch reason archivedById now =
     \<lparr>ar_archivedAt = Some now, ar_archivedById = archivedById, ar_archivedReason = Some reason\<rparr>"

definition restorePatch :: archive_columns where
  "restorePatch = \<lparr>ar_archivedAt = None, ar_archivedById = None, ar_archivedReason = None\<rparr>"

text \<open>The record of a point lookup is a row, seen through its archive column.\<close>

definition isArchived :: "('r \<Rightarrow> time option) \<Rightarrow> 'r option \<Rightarrow> bool" where
  "isArchived archivedAt r = (case r of None \<Rightarrow> False | Some x \<Rightarrow> archivedAt x \<noteq> None)"

definition assertActive :: "('r \<Rightarrow> time option) \<Rightarrow> 'r option \<Rightarrow> 'r option" where
  "assertActive archivedAt r = (if r \<noteq> None \<and> \<not> isArchived archivedAt r then r else None)"

definition archivedPurgeCutoff :: "nat option \<Rightarrow> time \<Rightarrow> time option" where
  "archivedPurgeCutoff retentionDays now =
     (case retentionDays of None \<Rightarrow> None | Some d \<Rightarrow> Some (now - int d * day_ms))"

end
