(* ===== verification/LifecycleProps.thy ===== *)
theory LifecycleProps
  imports Lifecycle Accounts
begin

text \<open>
  The lifecycle policy at work: the exclusion of archived rows from reads, and the erasure of an account
  (\<open>Accounts\<close>) held against the matrix.
\<close>

section \<open>Reading live rows\<close>

lemma set_clause_new: "k \<notin> fst ` set fs \<Longrightarrow> set_clause k v fs = fs @ [(k, v)]"
  by (induction fs) auto

lemma set_clause_mentions: "''archivedAt'' \<in> fst ` set (set_clause ''archivedAt'' v fs)"
proof (induction fs)
  case (Cons f fs)
  then show ?case by (cases f) simp
qed simp

lemma map_of_set_clause: "map_of (set_clause k v fs) k = Some v"
  by (induction fs) auto

lemma helpers_opt_out:
  "mentionsArchivedAt (activeOnly w)" "mentionsArchivedAt (archivedOnly w)" "mentionsArchivedAt (includeArchived w)"
  by (simp_all add: activeOnly_def archivedOnly_def includeArchived_def set_clause_mentions)

lemma archivable_models [simp]:
  "ARCHIVABLE_MODELS = [''LearnerProfile'', ''Avatar'', ''ReferralCode'', ''Module'', ''WebhookEndpoint'']"
  by code_simp

lemma arg_where_set: "arg_field (CObj (set_clause ''where'' w fs)) ''where'' = w"
  by (simp add: arg_field_def map_of_set_clause)


definition demo_matches :: "clause \<Rightarrow> time option \<Rightarrow> bool" where
  "demo_matches c r = list_all (\<lambda>(k, v). k = ''archivedAt'' \<and> v = CNull \<and> r = None) (spread c)"


section \<open>Erasing an account\<close>

fun model_of :: "owned_table \<Rightarrow> string" where
  "model_of TVerificationToken = ''VerificationToken''" | "model_of TDeviceToken = ''DeviceToken''"
| "model_of TSyncEvent = ''SyncEvent''" | "model_of TNotificationLog = ''NotificationLog''"
| "model_of TNotificationPreference = ''NotificationPreference''" | "model_of TEmailDelivery = ''EmailDelivery''"
| "model_of TCompletion = ''Completion''" | "model_of TReferralCode = ''ReferralCode''"
| "model_of TDataExportRequest = ''DataExportRequest''" | "model_of TTransaction = ''Transaction''"
| "model_of TCredential = ''Credential''" | "model_of TReferral = ''Referral''"
| "model_of TLearnerProfile = ''LearnerProfile''" | "model_of TLearnerPreference = ''LearnerPreference''"
| "model_of TOnboardingProgress = ''OnboardingProgress''" | "model_of TConsentRecord = ''ConsentRecord''"
| "model_of TPreferenceAuditLog = ''PreferenceAuditLog''" | "model_of TOtpChallenge = ''OtpChallenge''"
| "model_of TAvatar = ''Avatar''" | "model_of TWallet = ''Wallet''"

definition erased_by_policy :: "owned_table \<Rightarrow> bool" where
  "erased_by_policy t \<longleftrightarrow> map_option lr_onErasure (lifecycleRuleFor (model_of t)) = Some EraseDelete"

lemma erased_by_policy_cases: "erased_by_policy t \<longleftrightarrow>
    t \<in> {TVerificationToken, TDeviceToken, TSyncEvent, TNotificationLog, TEmailDelivery, TCompletion,
          TDataExportRequest, TOtpChallenge}"
  by (cases t) (simp_all add: erased_by_policy_def lifecycleRuleFor_def rule_tables rule_def)

text \<open>
  The finalization of a deletion, held against the lifecycle matrix: of the tables a user owns it
  deletes the user's rows from exactly those the matrix marks DELETE - all of them but the one-time code
  challenges, which hold a phone number - and from two of the tables marked CASCADE. Every other table,
  and with it every table marked RETAIN, is left as it is; the remaining CASCADE tables (profile,
  preferences, onboarding, avatars) keep the user's rows, because the user row they would go with is
  anonymized and not deleted.
\<close>
theorem erasure_against_matrix:
  "ac_tables (finalizeDeletion now hex requestId userId db) =
     (\<lambda>t. if (erased_by_policy t \<and> t \<noteq> TOtpChallenge) \<or> t \<in> {TNotificationPreference, TReferralCode}
          then delete_where (\<lambda>r. ow_userId r = userId) (ac_tables db t) else ac_tables db t)"
  by (rule ext) (auto simp: finalizeDeletion_def account_op_def deleted_tables_def erased_by_policy_cases)

end
