(* ===== verification/AuditTrail.thy ===== *)
theory AuditTrail
  imports Lifecycle
begin

text \<open>
  The audit trail: \<open>src/src/audit/audit-event.service.ts\<close>, \<open>audit/audited-mutation.ts\<close> and the types of
  \<open>audit/types.ts\<close>.

  The environment of a call is \<open>audit_env\<close>: the heap its metadata lives in, the platform's HMAC and date
  format, the settings, and whether the database rejects the row. A mutation is any step on a state
  \<open>'s\<close>; the world is that state and the table of events. Metadata that a mutation merges is a new
  object, at the address \<open>av_fresh\<close>.
\<close>

section \<open>Events\<close>

datatype actor_type = ActorUser | ActorAdmin | ActorSystem | ActorWorker | ActorAnonymous

record audit_actor =
  at_type :: actor_type
  at_id :: "ident option"
  at_role :: "string option"

record audit_target =
  tg_type :: string
  tg_id :: "ident option"

record audit_input =
  ei_action :: string
  ei_actor :: audit_actor
  ei_target :: audit_target
  ei_reason :: "string option"
  ei_requestId :: "string option"
  ei_correlationId :: "string option"
  ei_source :: "string option"
  ei_metadata :: "nat option"
  ei_ipAddress :: "string option"
  ei_userAgent :: "string option"
  ei_recordClass :: "record_class option"

record audit_row =
  ev_actorType :: actor_type
  ev_actorId :: "ident option"
  ev_actorRole :: "string option"
  ev_action :: string
  ev_recordClass :: record_class
  ev_targetType :: string
  ev_targetId :: "ident option"
  ev_reason :: "string option"
  ev_requestId :: "string option"
  ev_correlationId :: "string option"
  ev_source :: "string option"
  ev_metadata :: "string option"
  ev_actorIpHash :: "string option"
  ev_userAgentFamily :: "string option"

record audit_event = audit_row +
  ev_id :: ident
  ev_occurredAt :: time

record audit_env =
  av_heap :: js_heap
  av_fresh :: nat
  av_format :: "time \<Rightarrow> string"
  av_hmac :: "string \<Rightarrow> string \<Rightarrow> string"
  av_secret :: string
  av_production :: bool
  av_createFails :: bool

definition DEV_IP_HASH_SECRET :: string where
  "DEV_IP_HASH_SECRET = ''learnault-dev-audit-ip-hash''"

definition DEFAULT_PAGE_SIZE :: int where "DEFAULT_PAGE_SIZE = 50"
definition MAX_PAGE_SIZE :: int where "MAX_PAGE_SIZE = 200"

definition ipHashSecret :: "audit_env \<Rightarrow> string" where
  "ipHashSecret env = (if av_secret env \<noteq> [] then av_secret env
     else if av_production env then [] else DEV_IP_HASH_SECRET)"

text \<open>\<open>None\<close> is an error that redaction threw.\<close>

definition toRow :: "audit_env \<Rightarrow> audit_input \<Rightarrow> audit_row option" where
  "toRow env i =
     (let secret = ipHashSecret env in
      case serializeMetadata (av_format env) (av_heap env) (ei_metadata i) of
        None \<Rightarrow> None
      | Some metadata \<Rightarrow> Some
          \<lparr>ev_actorType = at_type (ei_actor i), ev_actorId = at_id (ei_actor i), ev_actorRole = at_role (ei_actor i),
           ev_action = ei_action i,
           ev_recordClass = (case ei_recordClass i of Some c \<Rightarrow> c | None \<Rightarrow> recordClassFor (tg_type (ei_target i))),
           ev_targetType = tg_type (ei_target i), ev_targetId = tg_id (ei_target i), ev_reason = ei_reason i,
           ev_requestId = ei_requestId i, ev_correlationId = ei_correlationId i, ev_source = ei_source i,
           ev_metadata = metadata,
           ev_actorIpHash = (if secret \<noteq> [] then hashIpAddress (av_hmac env) (ei_ipAddress i) secret else None),
           ev_userAgentFamily = userAgentFamily (ei_userAgent i)\<rparr>)"

definition stored :: "ident \<Rightarrow> time \<Rightarrow> audit_row \<Rightarrow> audit_event" where
  "stored i now r = audit_row.extend r \<lparr>ev_id = i, ev_occurredAt = now\<rparr>"

text \<open>\<open>auditEvent.create\<close>: the database gives the row its id and time, or rejects it.\<close>

definition recordWithin ::
    "audit_env \<Rightarrow> ident \<Rightarrow> time \<Rightarrow> audit_input \<Rightarrow> audit_event list \<Rightarrow> audit_event list option" where
  "recordWithin env i now input es =
     (case toRow env input of
        None \<Rightarrow> None
      | Some row \<Rightarrow> if av_createFails env then None else Some (es @ [stored i now row]))"

definition audit_record ::
    "audit_env \<Rightarrow> ident \<Rightarrow> time \<Rightarrow> audit_input \<Rightarrow> audit_event list \<Rightarrow> audit_event list" where
  "audit_record env i now input es = (case recordWithin env i now input es of None \<Rightarrow> es | Some es' \<Rightarrow> es')"

section \<open>Reading\<close>

record audit_query =
  aq_actorId :: "ident option"
  aq_actorType :: "actor_type option"
  aq_action :: "string option"
  aq_targetType :: "string option"
  aq_targetId :: "ident option"
  aq_requestId :: "string option"
  aq_from :: "time option"
  aq_to :: "time option"
  aq_take :: "int option"
  aq_skip :: "nat option"

text \<open>A string filter that is missing or empty filters nothing.\<close>

definition filter_str :: "string option \<Rightarrow> string option \<Rightarrow> bool" where
  "filter_str q v = (case q of None \<Rightarrow> True | Some [] \<Rightarrow> True | Some s \<Rightarrow> v = Some s)"

definition query_where :: "audit_query \<Rightarrow> audit_event \<Rightarrow> bool" where
  "query_where q e \<longleftrightarrow>
     filter_str (aq_actorId q) (ev_actorId e)
     \<and> (case aq_actorType q of None \<Rightarrow> True | Some t \<Rightarrow> ev_actorType e = t)
     \<and> filter_str (aq_action q) (Some (ev_action e))
     \<and> filter_str (aq_targetType q) (Some (ev_targetType e))
     \<and> filter_str (aq_targetId q) (ev_targetId e)
     \<and> filter_str (aq_requestId q) (ev_requestId e)
     \<and> (case aq_from q of None \<Rightarrow> True | Some t \<Rightarrow> t \<le> ev_occurredAt e)
     \<and> (case aq_to q of None \<Rightarrow> True | Some t \<Rightarrow> ev_occurredAt e \<le> t)"

definition page_size :: "int \<Rightarrow> nat" where
  "page_size n = nat (min (max n 1) MAX_PAGE_SIZE)"

definition audit_list :: "audit_query \<Rightarrow> audit_event list \<Rightarrow> audit_event list" where
  "audit_list q es =
     take (page_size (case aq_take q of None \<Rightarrow> DEFAULT_PAGE_SIZE | Some n \<Rightarrow> n))
       (drop (case aq_skip q of None \<Rightarrow> 0 | Some n \<Rightarrow> n)
         (sort_key (\<lambda>e. - ev_occurredAt e) (filter (query_where q) es)))"

definition historyFor :: "string \<Rightarrow> ident \<Rightarrow> int \<Rightarrow> audit_event list \<Rightarrow> audit_event list" where
  "historyFor targetType targetId n es =
     take (page_size n)
       (sort_key ev_occurredAt (filter (\<lambda>e. ev_targetType e = targetType \<and> ev_targetId e = Some targetId) es))"

text \<open>The purge: \<open>fails\<close> says whether its transaction does.\<close>

definition purgeExpired :: "bool \<Rightarrow> time \<Rightarrow> audit_event list \<Rightarrow> nat \<times> audit_event list" where
  "purgeExpired fails now es =
     (case retentionCutoff ''AuditEvent'' now of
        None \<Rightarrow> (0, es)
      | Some cutoff \<Rightarrow>
          if fails then (0, es)
          else (count_where (\<lambda>e. ev_occurredAt e < cutoff) es, delete_where (\<lambda>e. ev_occurredAt e < cutoff) es))"

section \<open>Audited mutations\<close>

datatype policy_error =
    ActionRequired | TargetTypeRequired | ReasonRequired | ActorIdRequired
  | NoLifecycleRule | NotArchivable record_class | ArchiveReasonRequired

datatype 'e audit_failure = PolicyViolated policy_error | MutationFailed 'e | AuditWriteFailed

record ('s, 'e, 'a) mutation_spec =
  ms_action :: string
  ms_actor :: audit_actor
  ms_target :: audit_target
  ms_reason :: "string option"
  ms_requestId :: "string option"
  ms_correlationId :: "string option"
  ms_source :: "string option"
  ms_metadata :: "(string \<times> js) list option"
  ms_ipAddress :: "string option"
  ms_userAgent :: "string option"
  ms_mutate :: "('s, 'e, 'a) step"
  ms_resolveTargetId :: "'a \<Rightarrow> ident option"
  ms_resolveMetadata :: "'a \<Rightarrow> (string \<times> js) list option"

definition blank :: "string option \<Rightarrow> bool" where
  "blank s = (case s of None \<Rightarrow> True | Some t \<Rightarrow> trim t = [])"

definition empty_id :: "ident option \<Rightarrow> bool" where
  "empty_id i \<longleftrightarrow> i = None \<or> i = Some []"

definition assertPolicy :: "('s, 'e, 'a) mutation_spec \<Rightarrow> policy_error + unit" where
  "assertPolicy spec =
     (if trim (ms_action spec) = [] then Inl ActionRequired
      else if trim (tg_type (ms_target spec)) = [] then Inl TargetTypeRequired
      else if at_type (ms_actor spec) = ActorAdmin \<and> blank (ms_reason spec) then Inl ReasonRequired
      else if (at_type (ms_actor spec) = ActorUser \<or> at_type (ms_actor spec) = ActorAdmin)
              \<and> empty_id (at_id (ms_actor spec)) then Inl ActorIdRequired
      else Inr ())"

fun put_field :: "string \<Rightarrow> 'v \<Rightarrow> (string \<times> 'v) list \<Rightarrow> (string \<times> 'v) list" where
  "put_field k v [] = [(k, v)]"
| "put_field k v ((k', v') # fs) = (if k' = k then (k, v) # fs else (k', v') # put_field k v fs)"

text \<open>\<open>{ ...a, ...b }\<close>.\<close>

definition merge_fields :: "(string \<times> 'v) list \<Rightarrow> (string \<times> 'v) list \<Rightarrow> (string \<times> 'v) list" where
  "merge_fields a b = foldl (\<lambda>fs (k, v). put_field k v fs) a b"

definition object_fields :: "(string \<times> js) list option \<Rightarrow> (string \<times> js) list" where
  "object_fields m = (case m of None \<Rightarrow> [] | Some fs \<Rightarrow> fs)"

definition mutation_event :: "('s, 'e, 'a) mutation_spec \<Rightarrow> 'a \<Rightarrow> nat \<Rightarrow> audit_input" where
  "mutation_event spec result addr =
     \<lparr>ei_action = ms_action spec, ei_actor = ms_actor spec,
      ei_target = \<lparr>tg_type = tg_type (ms_target spec),
                   tg_id = or_else (tg_id (ms_target spec)) (ms_resolveTargetId spec result)\<rparr>,
      ei_reason = ms_reason spec, ei_requestId = ms_requestId spec, ei_correlationId = ms_correlationId spec,
      ei_source = ms_source spec,
      ei_metadata = (if ms_metadata spec \<noteq> None \<or> ms_resolveMetadata spec result \<noteq> None then Some addr else None),
      ei_ipAddress = ms_ipAddress spec, ei_userAgent = ms_userAgent spec, ei_recordClass = None\<rparr>"

definition mutation_env :: "('s, 'e, 'a) mutation_spec \<Rightarrow> 'a \<Rightarrow> audit_env \<Rightarrow> audit_env" where
  "mutation_env spec result env =
     env\<lparr>av_heap := (av_heap env)(av_fresh env :=
        JsObject (merge_fields (object_fields (ms_metadata spec)) (object_fields (ms_resolveMetadata spec result))))\<rparr>"

definition mutate_and_record ::
    "audit_env \<Rightarrow> ident \<Rightarrow> time \<Rightarrow> ('s, 'e, 'a) mutation_spec \<Rightarrow>
     ('s \<times> audit_event list, 'e audit_failure, 'a) step" where
  "mutate_and_record env i now spec w =
     (case ms_mutate spec (fst w) of
        (Inl e, s) \<Rightarrow> (Inl (MutationFailed e), (s, snd w))
      | (Inr result, s) \<Rightarrow>
          (case recordWithin (mutation_env spec result env) i now
                  (mutation_event spec result (av_fresh env)) (snd w) of
             None \<Rightarrow> (Inl AuditWriteFailed, (s, snd w))
           | Some es \<Rightarrow> (Inr result, (s, es))))"

definition auditedMutation ::
    "audit_env \<Rightarrow> ident \<Rightarrow> time \<Rightarrow> ('s, 'e, 'a) mutation_spec \<Rightarrow>
     ('s \<times> audit_event list, 'e audit_failure, 'a) step" where
  "auditedMutation env i now spec w =
     (case assertPolicy spec of
        Inl e \<Rightarrow> (Inl (PolicyViolated e), w)
      | Inr _ \<Rightarrow> transaction (mutate_and_record env i now spec) w)"

definition assertArchivable :: "string \<Rightarrow> policy_error + unit" where
  "assertArchivable model =
     (case lifecycleRuleFor model of
        None \<Rightarrow> Inl NoLifecycleRule
      | Some r \<Rightarrow> if lr_recordClass r \<noteq> ClassArchivable then Inl (NotArchivable (lr_recordClass r)) else Inr ())"

fun snake :: "string \<Rightarrow> string" where
  "snake (a # b # s) =
     (if (in_range (CHR ''a'') (CHR ''z'') a \<or> is_digit a) \<and> in_range (CHR ''A'') (CHR ''Z'') b
      then a # CHR ''_'' # b # snake s else a # snake (b # s))"
| "snake s = s"

definition camelToSnake :: "string \<Rightarrow> string" where
  "camelToSnake model = toLowerCase (snake model)"

record archive_input =
  ai_model :: string
  ai_id :: ident
  ai_reason :: string
  ai_actor :: audit_actor
  ai_requestId :: "string option"
  ai_ipAddress :: "string option"
  ai_userAgent :: "string option"
  ai_correlationId :: "string option"
  ai_source :: "string option"
  ai_metadata :: "(string \<times> js) list option"

definition archive_spec ::
    "archive_input \<Rightarrow> string \<Rightarrow> (string \<times> js) list option \<Rightarrow> ('s, 'e, 'a) step \<Rightarrow> ('s, 'e, 'a) mutation_spec" where
  "archive_spec i suffix metadata mutate =
     \<lparr>ms_action = camelToSnake (ai_model i) @ suffix, ms_actor = ai_actor i,
      ms_target = \<lparr>tg_type = ai_model i, tg_id = Some (ai_id i)\<rparr>, ms_reason = Some (ai_reason i),
      ms_requestId = ai_requestId i, ms_correlationId = ai_correlationId i, ms_source = ai_source i,
      ms_metadata = metadata, ms_ipAddress = ai_ipAddress i, ms_userAgent = ai_userAgent i,
      ms_mutate = mutate, ms_resolveTargetId = (\<lambda>_. None), ms_resolveMetadata = (\<lambda>_. None)\<rparr>"

definition auditedArchive ::
    "audit_env \<Rightarrow> ident \<Rightarrow> time \<Rightarrow> archive_input \<Rightarrow> (archive_columns \<Rightarrow> ('s, 'e, 'a) step) \<Rightarrow>
     ('s \<times> audit_event list, 'e audit_failure, 'a) step" where
  "auditedArchive env i now input archive w =
     (case assertArchivable (ai_model input) of
        Inl e \<Rightarrow> (Inl (PolicyViolated e), w)
      | Inr _ \<Rightarrow>
          if trim (ai_reason input) = [] then (Inl (PolicyViolated ArchiveReasonRequired), w)
          else auditedMutation env i now
                 (archive_spec input ''.archived''
                   (Some (put_field ''archivedAt'' (JsDate (Some now)) (object_fields (ai_metadata input))))
                   (archive (archivePatch (ai_reason input) (at_id (ai_actor input)) now))) w)"

definition auditedRestore ::
    "audit_env \<Rightarrow> ident \<Rightarrow> time \<Rightarrow> archive_input \<Rightarrow> (archive_columns \<Rightarrow> ('s, 'e, 'a) step) \<Rightarrow>
     ('s \<times> audit_event list, 'e audit_failure, 'a) step" where
  "auditedRestore env i now input restore w =
     (case assertArchivable (ai_model input) of
        Inl e \<Rightarrow> (Inl (PolicyViolated e), w)
      | Inr _ \<Rightarrow> auditedMutation env i now
          (archive_spec input ''.restored'' (ai_metadata input) (restore restorePatch)) w)"

section \<open>Actors\<close>

record audit_request =
  ar_actor :: "(ident \<times> string) option"
  ar_requestId :: "string option"
  ar_ip :: "string option"
  ar_userAgentHeader :: "json option"

record audit_context =
  ac_actor :: audit_actor
  ac_requestId :: "string option"
  ac_ipAddress :: "string option"
  ac_userAgent :: "string option"

definition actorFromRequest :: "audit_request \<Rightarrow> audit_context" where
  "actorFromRequest req =
     \<lparr>ac_actor = (case ar_actor req of
         Some (i, role) \<Rightarrow> \<lparr>at_type = (if role = ''ADMIN'' then ActorAdmin else ActorUser), at_id = Some i, at_role = Some role\<rparr>
       | None \<Rightarrow> \<lparr>at_type = ActorAnonymous, at_id = None, at_role = None\<rparr>),
      ac_requestId = ar_requestId req, ac_ipAddress = ar_ip req,
      ac_userAgent = (case ar_userAgentHeader req of Some (JStr s) \<Rightarrow> Some s | _ \<Rightarrow> None)\<rparr>"

definition systemActor :: "string \<Rightarrow> audit_actor" where
  "systemActor component = \<lparr>at_type = ActorSystem, at_id = Some component, at_role = None\<rparr>"

definition workerActor :: "string \<Rightarrow> audit_actor" where
  "workerActor worker = \<lparr>at_type = ActorWorker, at_id = Some worker, at_role = None\<rparr>"

end
