(* ===== verification/AuditProps.thy ===== *)
theory AuditProps
  imports AuditTrail
begin

text \<open>
  What the audit trail guarantees: a mutation and its event commit together, and an event stays until its
  retention period is over.
\<close>

section \<open>One event per mutation\<close>

lemma recordWithin_appends:
  "recordWithin env i now input es = Some es' \<Longrightarrow>
     \<exists>row. toRow env input = Some row \<and> es' = es @ [stored i now row] \<and> \<not> av_createFails env"
  by (auto simp: recordWithin_def split: option.splits if_splits)

lemma toRow_attribution:
  "toRow env input = Some row \<Longrightarrow>
     ev_action row = ei_action input \<and> ev_actorType row = at_type (ei_actor input)
     \<and> ev_actorId row = at_id (ei_actor input) \<and> ev_actorRole row = at_role (ei_actor input)
     \<and> ev_reason row = ei_reason input \<and> ev_targetType row = tg_type (ei_target input)
     \<and> ev_targetId row = tg_id (ei_target input) \<and> ev_requestId row = ei_requestId input"
  by (auto simp: toRow_def Let_def split: option.splits)

lemma stored_simps [simp]:
  "ev_action (stored i now r) = ev_action r" "ev_actorType (stored i now r) = ev_actorType r"
  "ev_actorId (stored i now r) = ev_actorId r" "ev_reason (stored i now r) = ev_reason r"
  "ev_targetType (stored i now r) = ev_targetType r" "ev_targetId (stored i now r) = ev_targetId r"
  "ev_id (stored i now r) = i" "ev_occurredAt (stored i now r) = now"
  "ev_requestId (stored i now r) = ev_requestId r" "ev_actorRole (stored i now r) = ev_actorRole r"
  by (simp_all add: stored_def audit_row.extend_def)

lemma assertPolicy_ok:
  "assertPolicy spec = Inr u \<Longrightarrow>
     trim (ms_action spec) \<noteq> [] \<and> trim (tg_type (ms_target spec)) \<noteq> []
     \<and> (at_type (ms_actor spec) = ActorAdmin \<longrightarrow> \<not> blank (ms_reason spec))
     \<and> (at_type (ms_actor spec) \<in> {ActorUser, ActorAdmin} \<longrightarrow> \<not> empty_id (at_id (ms_actor spec)))"
  by (auto simp: assertPolicy_def split: if_splits)

text \<open>The event a mutation leaves, by whom, on what and why.\<close>

definition attributed :: "('s, 'e, 'a) mutation_spec \<Rightarrow> 'a \<Rightarrow> time \<Rightarrow> audit_event \<Rightarrow> bool" where
  "attributed spec result now e \<longleftrightarrow>
     ev_action e = ms_action spec \<and> ev_actorType e = at_type (ms_actor spec) \<and> ev_actorId e = at_id (ms_actor spec)
     \<and> ev_reason e = ms_reason spec \<and> ev_targetType e = tg_type (ms_target spec)
     \<and> ev_targetId e = or_else (tg_id (ms_target spec)) (ms_resolveTargetId spec result)
     \<and> ev_requestId e = ms_requestId spec \<and> ev_occurredAt e = now"

lemma mutate_and_record_ok:
  assumes "mutate_and_record env i now spec w = (Inr result, w')"
  shows "\<exists>s' e. ms_mutate spec (fst w) = (Inr result, s') \<and> w' = (s', snd w @ [e]) \<and> attributed spec result now e"
  using assms
  by (auto simp: mutate_and_record_def attributed_def mutation_event_def
      split: prod.splits sum.splits option.splits dest!: recordWithin_appends toRow_attribution)

lemma auditedMutation_ok:
  assumes "auditedMutation env i now spec w = (Inr result, w')"
  shows "mutate_and_record env i now spec w = (Inr result, w') \<and> assertPolicy spec = Inr ()"
  using assms
  by (auto simp: auditedMutation_def transaction_def split: sum.splits prod.splits)

lemma auditedMutation_error:
  assumes "auditedMutation env i now spec w = (Inl e, w')"
  shows "w' = w"
  using assms
  by (auto simp: auditedMutation_def transaction_def split: sum.splits prod.splits)

lemma audited_mutation_kept:
  "auditedMutation env i now spec w = (r, w') \<Longrightarrow> set (snd w) \<subseteq> set (snd w')"
proof (cases r)
  case (Inl e)
  moreover assume "auditedMutation env i now spec w = (r, w')"
  ultimately show ?thesis using auditedMutation_error by fastforce
next
  case (Inr result)
  moreover assume "auditedMutation env i now spec w = (r, w')"
  ultimately have "mutate_and_record env i now spec w = (Inr result, w')"
    using auditedMutation_ok [of env i now spec w result w'] by simp
  from mutate_and_record_ok [OF this] show ?thesis by auto
qed

text \<open>
  C8. A change and its audit event commit together or not at all. When an audited mutation returns a
  result, its body has run and the trail has exactly one event more, which names the action, the actor, the
  target (or the one the result gave) and the reason; an administrator has given a reason that is not
  blank, and neither they nor a user are anonymous. When it fails - the policy, the body, the
  redaction or the insert - nothing has changed, in the data or in the trail.
\<close>
theorem audited_mutation_atomic:
  assumes "auditedMutation env i now spec w = (r, w')"
  shows "case r of
      Inl _ \<Rightarrow> w' = w
    | Inr result \<Rightarrow> \<exists>s' e. ms_mutate spec (fst w) = (Inr result, s') \<and> w' = (s', snd w @ [e])
        \<and> attributed spec result now e
        \<and> (ev_actorType e = ActorAdmin \<longrightarrow> \<not> blank (ev_reason e))
        \<and> (ev_actorType e \<in> {ActorUser, ActorAdmin} \<longrightarrow> \<not> empty_id (ev_actorId e))"
proof (cases r)
  case (Inl e)
  with assms auditedMutation_error show ?thesis by fastforce
next
  case (Inr result)
  with assms have ok: "mutate_and_record env i now spec w = (Inr result, w')" "assertPolicy spec = Inr ()"
    using auditedMutation_ok [of env i now spec w result w'] by auto
  from mutate_and_record_ok [OF ok(1)] assertPolicy_ok [OF ok(2)] Inr show ?thesis
    by (fastforce simp: attributed_def)
qed

abbreviation demo_spec :: "(int, unit, int) mutation_spec" where
  "demo_spec \<equiv> \<lparr>ms_action = ''user.role_changed'', ms_actor = \<lparr>at_type = ActorAdmin, at_id = Some ''a-1'', at_role = Some ''ADMIN''\<rparr>,
     ms_target = \<lparr>tg_type = ''User'', tg_id = Some ''u-7''\<rparr>, ms_reason = Some ''ticket 12'', ms_requestId = None,
     ms_correlationId = None, ms_source = None, ms_metadata = None, ms_ipAddress = None, ms_userAgent = None,
     ms_mutate = (\<lambda>s. (Inr (s + 1), s + 1)), ms_resolveTargetId = (\<lambda>_. None), ms_resolveMetadata = (\<lambda>_. None)\<rparr>"

abbreviation demo_env :: audit_env where
  "demo_env \<equiv> \<lparr>av_heap = (\<lambda>_. JsObject []), av_fresh = 0, av_format = show_int, av_hmac = (\<lambda>k s. s),
     av_secret = [], av_production = True, av_createFails = False\<rparr>"

theorem audited_mutation_atomic_witness:
  "fst (auditedMutation demo_env ''e-1'' 5 demo_spec (7, [])) = Inr 8
   \<and> (\<exists>e. snd (auditedMutation demo_env ''e-1'' 5 demo_spec (7, [])) = (8, [e]) \<and> attributed demo_spec 8 5 e)"
proof -
  have run: "fst (auditedMutation demo_env ''e-1'' 5 demo_spec (7, [])) = Inr 8" by code_simp
  define w' where "w' = snd (auditedMutation demo_env ''e-1'' 5 demo_spec (7, []))"
  have w': "auditedMutation demo_env ''e-1'' 5 demo_spec (7, []) = (Inr 8, w')"
    unfolding w'_def by (rule prod_eqI) (simp_all only: run fst_conv snd_conv)
  from audited_mutation_atomic [OF w', unfolded sum.case] obtain s' e
    where mut: "ms_mutate demo_spec (fst (7, [] :: audit_event list)) = (Inr 8, s')"
      and after: "w' = (s', snd (7 :: int, []) @ [e])" and att: "attributed demo_spec 8 5 e"
    by blast
  from mut have "s' = 8" by simp
  with after w' have "snd (auditedMutation demo_env ''e-1'' 5 demo_spec (7, [])) = (8, [e])"
    by (simp only: snd_conv append.simps)
  with att run show ?thesis by blast
qed

section \<open>Retention\<close>

text \<open>What happens to the table of events up to a time \<open>T\<close>: events are recorded, mutations are audited, the
  purge runs. The types of a mutation's state and result do not matter; they are fixed to JSON.\<close>

inductive trail_next :: "time \<Rightarrow> audit_event list \<Rightarrow> audit_event list \<Rightarrow> bool" for T where
  trail_record: "trail_next T es (audit_record env i now input es)"
| trail_mutation: "trail_next T es
    (snd (snd (auditedMutation env i now (spec :: (json, json, json) mutation_spec) (s, es))))"
| trail_purge: "now \<le> T \<Longrightarrow> trail_next T es (snd (purgeExpired fails now es))"

lemma audit_event_cutoff: "retentionCutoff ''AuditEvent'' now = Some (now - 2555 * day_ms)"
  by (simp add: retentionCutoff_def lifecycleRuleFor_def rule_tables rule_def SEVEN_YEARS_def)

lemma audit_record_keeps: "set es \<subseteq> set (audit_record env i now input es)"
  by (auto simp: audit_record_def split: option.splits dest: recordWithin_appends)

lemma auditedMutation_keeps: "set (snd w) \<subseteq> set (snd (snd (auditedMutation env i now spec w)))"
proof -
  obtain r w' where "auditedMutation env i now spec w = (r, w')" by (rule prod.exhaust)
  with audited_mutation_kept [OF this] show ?thesis by simp
qed

definition kept :: "audit_event \<Rightarrow> time \<Rightarrow> audit_event list \<Rightarrow> bool" where
  "kept e T es \<longleftrightarrow> e \<in> set es \<and> T - 2555 * day_ms \<le> ev_occurredAt e"

lemma kept_next: "kept e T es \<Longrightarrow> trail_next T es es' \<Longrightarrow> kept e T es'"
proof (erule trail_next.cases)
  fix now esa fails
  assume "kept e T es" "es = esa" "es' = snd (purgeExpired fails now esa)" "now \<le> T"
  then show "kept e T es'" by (auto simp: purgeExpired_def audit_event_cutoff kept_def delete_where_def)
next
  fix esa env i now spec s
  assume "kept e T es" "es = esa" "es' = snd (snd (auditedMutation env i now (spec :: (json, json, json) mutation_spec) (s, esa)))"
  then show "kept e T es'" using auditedMutation_keeps [of "(s, esa)" env i now spec] by (auto simp: kept_def)
next
  fix esa env i now input
  assume "kept e T es" "es = esa" "es' = audit_record env i now input esa"
  then show "kept e T es'" using audit_record_keeps [of esa env i now input] by (auto simp: kept_def)
qed

interpretation trail: invariant_system "kept e T" "trail_next T" "kept e T" for e T
  by unfold_locales (auto intro: kept_next)

text \<open>
  An event of the trail is not lost before its time: whatever is recorded, mutated and purged up to a
  time \<open>T\<close>, an event that occurred within the last 2555 days before \<open>T\<close> is still there, unchanged.
\<close>
theorem audit_events_retained:
  assumes "reaches (trail_next T) es es'" and "e \<in> set es" and "T - 2555 * day_ms \<le> ev_occurredAt e"
  shows "e \<in> set es'"
  using trail.inv_reaches [OF assms(1), of e] assms(2,3) by (simp add: kept_def)

abbreviation demo_event :: audit_event where
  "demo_event \<equiv> \<lparr>ev_actorType = ActorSystem, ev_actorId = None, ev_actorRole = None, ev_action = ''a'',
     ev_recordClass = ClassMutable, ev_targetType = ''User'', ev_targetId = None, ev_reason = None, ev_requestId = None,
     ev_correlationId = None, ev_source = None, ev_metadata = None, ev_actorIpHash = None, ev_userAgentFamily = None,
     ev_id = ''e-1'', ev_occurredAt = 0\<rparr>"

theorem audit_events_retained_witness:
  "demo_event \<in> set (snd (purgeExpired False 100 [demo_event]))"
  by (rule audit_events_retained [OF reaches_one [of "trail_next 100"], OF trail_purge [of 100 100]])
    (simp_all add: day_ms_def)

end
