(* ===== verification/Http.thy ===== *)
theory Http
  imports Prelude
begin

text \<open>
  What the controllers of \<open>src/src/controllers\<close> answer. A reply is its status with a JSON body: an error
  text, an error with data beside it, a message, or data with an optional message. A controller runs in a
  \<open>try\<close> whose \<open>catch\<close> answers 500; a service call that throws is \<open>None\<close>. The parsers of the request
  schemas (zod) are arguments: they return the details of a failure or the parsed data.
\<close>

datatype 'd reply =
    ErrorReply nat string
  | ErrorDetails nat string json
  | ErrorData nat string 'd
  | OkReply nat "string option" 'd
  | MessageReply nat string
  | EmptyReply nat

fun reply_status :: "'d reply \<Rightarrow> nat" where
  "reply_status (ErrorReply n _) = n"
| "reply_status (ErrorDetails n _ _) = n"
| "reply_status (ErrorData n _ _) = n"
| "reply_status (OkReply n _ _) = n"
| "reply_status (MessageReply n _) = n"
| "reply_status (EmptyReply n) = n"

record auth_user =
  au_id :: ident
  au_role :: string
  au_email :: string

text \<open>\<open>req.user?.id\<close>, missing when empty.\<close>

definition user_id :: "auth_user option \<Rightarrow> ident option" where
  "user_id u = (case u of None \<Rightarrow> None | Some v \<Rightarrow> if au_id v = [] then None else Some (au_id v))"

definition unauthorized :: "'d reply" where
  "unauthorized = ErrorReply 401 ''Unauthorized''"

definition internal_error :: "'d reply" where
  "internal_error = ErrorReply 500 ''Internal server error''"

definition validation_failed :: "json \<Rightarrow> 'd reply" where
  "validation_failed details = ErrorDetails 400 ''Validation failed'' details"

text \<open>The frame of most handlers: an authenticated user, then the body.\<close>

definition authenticated :: "auth_user option \<Rightarrow> 's \<Rightarrow> (ident \<Rightarrow> 'd reply \<times> 's) \<Rightarrow> 'd reply \<times> 's" where
  "authenticated u s body = (case user_id u of None \<Rightarrow> (unauthorized, s) | Some i \<Rightarrow> body i)"

definition validated :: "json + 'a \<Rightarrow> 's \<Rightarrow> ('a \<Rightarrow> 'd reply \<times> 's) \<Rightarrow> 'd reply \<times> 's" where
  "validated v s body = (case v of Inl details \<Rightarrow> (validation_failed details, s) | Inr a \<Rightarrow> body a)"

lemma authenticated_some [simp]: "user_id u = Some i \<Longrightarrow> authenticated u s body = body i"
  by (simp add: authenticated_def)

lemma authenticated_none [simp]: "user_id u = None \<Longrightarrow> authenticated u s body = (unauthorized, s)"
  by (simp add: authenticated_def)

lemma validated_simps [simp]:
  "validated (Inl d) s body = (validation_failed d, s)" "validated (Inr a) s body = body a"
  by (simp_all add: validated_def)

end
