(* ===== verification/Learner.thy ===== *)
theory Learner
  imports Wallets Http
begin

text \<open>
  A learner's consents (\<open>src/src/services/consent.service.ts\<close>, \<open>types/consent.types.ts\<close>), onboarding
  (\<open>services/onboarding.service.ts\<close>, \<open>types/onboarding.types.ts\<close>) and preferences
  (\<open>services/preference.service.ts\<close>, \<open>types/preference.types.ts\<close>), with their controllers.

  The tables are one record. \<open>saveStep\<close> reads the progress and writes it in two statements with
  an \<open>await\<close> between: \<open>save_read\<close> and \<open>save_write\<close> are the two.
\<close>

section \<open>Consent\<close>

definition CONSENT_PURPOSES :: "string list" where
  "CONSENT_PURPOSES = [''terms_of_service'', ''privacy_policy'', ''marketing_emails'', ''analytics'',
     ''data_sharing'', ''custodial_wallet'']"

definition REQUIRED_CONSENT_PURPOSES :: "string list" where
  "REQUIRED_CONSENT_PURPOSES = [''terms_of_service'', ''privacy_policy'']"

datatype consent_status = Granted | Withdrawn

fun CONSENT_TRANSITIONS :: "consent_status \<Rightarrow> consent_status list" where
  "CONSENT_TRANSITIONS Granted = [Withdrawn]"
| "CONSENT_TRANSITIONS Withdrawn = [Granted]"

record consent_record =
  cr_id :: ident
  cr_userId :: ident
  cr_purpose :: string
  cr_required :: bool
  cr_policyVersion :: string
  cr_status :: consent_status
  cr_source :: string
  cr_grantedAt :: "time option"
  cr_withdrawnAt :: "time option"
  cr_createdAt :: time

record grant_data =
  gd_purpose :: string
  gd_policyVersion :: string
  gd_source :: string

record withdraw_data =
  wd_purpose :: string
  wd_source :: string

datatype onboarding_status = InProgress | Completed

record onboarding =
  ob_id :: ident
  ob_userId :: ident
  ob_version :: string
  ob_currentStep :: string
  ob_completedSteps :: "string list"
  ob_status :: onboarding_status
  ob_startedAt :: time
  ob_completedAt :: "time option"

record preferences =
  lq_id :: ident
  lq_userId :: ident
  lq_fields :: "(string \<times> json) list"

record preference_audit =
  pa_userId :: ident
  pa_field :: string
  pa_oldValue :: "string option"
  pa_newValue :: string

record learner_db =
  consents :: "consent_record list"
  onboardings :: "onboarding list"
  preference_rows :: "preferences list"
  preference_log :: "preference_audit list"

definition grant :: "time \<Rightarrow> ident \<Rightarrow> ident \<Rightarrow> grant_data \<Rightarrow> learner_db \<Rightarrow> consent_record \<times> learner_db" where
  "grant now i userId d db =
     (let r = \<lparr>cr_id = i, cr_userId = userId, cr_purpose = gd_purpose d,
               cr_required = (gd_purpose d \<in> set REQUIRED_CONSENT_PURPOSES), cr_policyVersion = gd_policyVersion d,
               cr_status = Granted, cr_source = gd_source d, cr_grantedAt = Some now, cr_withdrawnAt = None,
               cr_createdAt = now\<rparr>
      in (r, db\<lparr>consents := consents db @ [r]\<rparr>))"

definition getCurrentForPurpose :: "ident \<Rightarrow> string \<Rightarrow> learner_db \<Rightarrow> consent_record option" where
  "getCurrentForPurpose userId purpose db =
     first_by (\<lambda>r. - cr_createdAt r) (\<lambda>r. cr_userId r = userId \<and> cr_purpose r = purpose) (consents db)"

datatype withdraw_result = ConsentWithdrawn consent_record | NotGranted | RequiredCannotWithdraw

definition withdraw ::
    "time \<Rightarrow> ident \<Rightarrow> ident \<Rightarrow> withdraw_data \<Rightarrow> learner_db \<Rightarrow> withdraw_result \<times> learner_db" where
  "withdraw now i userId d db =
     (case getCurrentForPurpose userId (wd_purpose d) db of
        None \<Rightarrow> (NotGranted, db)
      | Some latest \<Rightarrow>
          if \<not> canTransition CONSENT_TRANSITIONS (cr_status latest) Withdrawn then (NotGranted, db)
          else if cr_required latest then (RequiredCannotWithdraw, db)
          else
            (let r = \<lparr>cr_id = i, cr_userId = userId, cr_purpose = wd_purpose d, cr_required = cr_required latest,
                      cr_policyVersion = cr_policyVersion latest, cr_status = Withdrawn, cr_source = wd_source d,
                      cr_grantedAt = None, cr_withdrawnAt = Some now, cr_createdAt = now\<rparr>
             in (ConsentWithdrawn r, db\<lparr>consents := consents db @ [r]\<rparr>)))"

text \<open>\<open>distinct\<close> of a query: the first row of every value.\<close>

fun distinct_by :: "('r \<Rightarrow> 'k) \<Rightarrow> 'r list \<Rightarrow> 'r list" where
  "distinct_by key [] = []"
| "distinct_by key (r # rs) = r # distinct_by key (filter (\<lambda>x. key x \<noteq> key r) rs)"

definition getCurrent :: "ident \<Rightarrow> learner_db \<Rightarrow> consent_record list" where
  "getCurrent userId db =
     distinct_by cr_purpose (sort_key (\<lambda>r. - cr_createdAt r) (filter (\<lambda>r. cr_userId r = userId) (consents db)))"

definition consent_getHistory :: "ident \<Rightarrow> string option \<Rightarrow> learner_db \<Rightarrow> consent_record list" where
  "consent_getHistory userId purpose db =
     sort_key cr_createdAt
       (filter (\<lambda>r. cr_userId r = userId
          \<and> (case purpose of None \<Rightarrow> True | Some p \<Rightarrow> p = [] \<or> cr_purpose r = p)) (consents db))"

text \<open>A map from the pairs of the current consents; a later pair would replace an earlier one.\<close>

definition hasAllRequiredGranted :: "ident \<Rightarrow> learner_db \<Rightarrow> bool" where
  "hasAllRequiredGranted userId db =
     (let byPurpose = map_of (rev (map (\<lambda>r. (cr_purpose r, r)) (getCurrent userId db))) in
      list_all (\<lambda>p. map_option cr_status (byPurpose p) = Some Granted) REQUIRED_CONSENT_PURPOSES)"

section \<open>Onboarding\<close>

definition ONBOARDING_STEPS :: "string list" where
  "ONBOARDING_STEPS = [''profile_basics'', ''consent'', ''preferences'']"

definition REQUIRED_ONBOARDING_STEPS :: "string list" where
  "REQUIRED_ONBOARDING_STEPS = [''profile_basics'', ''consent'']"

fun ONBOARDING_TRANSITIONS :: "onboarding_status \<Rightarrow> onboarding_status list" where
  "ONBOARDING_TRANSITIONS InProgress = [Completed]"
| "ONBOARDING_TRANSITIONS Completed = []"

definition CURRENT_ONBOARDING_VERSION :: string where
  "CURRENT_ONBOARDING_VERSION = ''v1''"

definition progress_of :: "ident \<Rightarrow> learner_db \<Rightarrow> onboarding option" where
  "progress_of userId db = List.find (\<lambda>p. ob_userId p = userId) (onboardings db)"

definition new_progress :: "time \<Rightarrow> ident \<Rightarrow> ident \<Rightarrow> string \<Rightarrow> string list \<Rightarrow> onboarding" where
  "new_progress now i userId step steps =
     \<lparr>ob_id = i, ob_userId = userId, ob_version = CURRENT_ONBOARDING_VERSION, ob_currentStep = step,
      ob_completedSteps = steps, ob_status = InProgress, ob_startedAt = now, ob_completedAt = None\<rparr>"

definition onboarding_getOrCreate :: "time \<Rightarrow> ident \<Rightarrow> ident \<Rightarrow> learner_db \<Rightarrow> onboarding \<times> learner_db" where
  "onboarding_getOrCreate now i userId db =
     (case progress_of userId db of
        Some p \<Rightarrow> (p, db)
      | None \<Rightarrow> (let p = new_progress now i userId (hd ONBOARDING_STEPS) [] in
                 (p, db\<lparr>onboardings := onboardings db @ [p]\<rparr>)))"

datatype save_step_result = StepSaved onboarding | StepAlreadyCompleted onboarding

text \<open>\<open>Array.from(new Set([...xs, step]))\<close>.\<close>

fun unique :: "string list \<Rightarrow> string list" where
  "unique [] = []"
| "unique (x # xs) = x # unique (filter (\<lambda>y. y \<noteq> x) xs)"

definition save_read :: "ident \<Rightarrow> learner_db \<Rightarrow> onboarding option" where
  "save_read userId db = progress_of userId db"

definition save_write ::
    "time \<Rightarrow> ident \<Rightarrow> ident \<Rightarrow> string \<Rightarrow> onboarding option \<Rightarrow> learner_db \<Rightarrow> save_step_result \<times> learner_db" where
  "save_write now i userId step existing db =
     (case existing of
        Some p \<Rightarrow> if ob_status p = Completed then (StepAlreadyCompleted p, db) else
          (let steps = unique (ob_completedSteps p @ [step]);
               f = (\<lambda>p. p\<lparr>ob_currentStep := step, ob_completedSteps := steps\<rparr>) in
           case progress_of userId db of
             Some q \<Rightarrow> (StepSaved (f q), db\<lparr>onboardings := update_where (\<lambda>p. ob_userId p = userId) f (onboardings db)\<rparr>)
           | None \<Rightarrow> (StepSaved (new_progress now i userId step steps),
                db\<lparr>onboardings := onboardings db @ [new_progress now i userId step steps]\<rparr>))
      | None \<Rightarrow>
          (let f = (\<lambda>p. p\<lparr>ob_currentStep := step, ob_completedSteps := [step]\<rparr>) in
           case progress_of userId db of
             Some q \<Rightarrow> (StepSaved (f q), db\<lparr>onboardings := update_where (\<lambda>p. ob_userId p = userId) f (onboardings db)\<rparr>)
           | None \<Rightarrow> (StepSaved (new_progress now i userId step [step]),
                db\<lparr>onboardings := onboardings db @ [new_progress now i userId step [step]]\<rparr>)))"

definition saveStep ::
    "time \<Rightarrow> ident \<Rightarrow> ident \<Rightarrow> string \<Rightarrow> learner_db \<Rightarrow> save_step_result \<times> learner_db" where
  "saveStep now i userId step db = save_write now i userId step (save_read userId db) db"

datatype complete_result =
    OnboardingCompleted onboarding | OnboardingAlreadyCompleted onboarding
  | IncompleteSteps "string list" | MissingRequiredConsent

definition complete_onboarding ::
    "time \<Rightarrow> ident \<Rightarrow> ident \<Rightarrow> learner_db \<Rightarrow> complete_result \<times> learner_db" where
  "complete_onboarding now i userId db =
     (case onboarding_getOrCreate now i userId db of
        (p, db1) \<Rightarrow>
          if ob_status p = Completed then (OnboardingAlreadyCompleted p, db1)
          else
            (let missing = filter (\<lambda>s. s \<notin> set (ob_completedSteps p)) REQUIRED_ONBOARDING_STEPS in
             if missing \<noteq> [] then (IncompleteSteps missing, db1)
             else if \<not> hasAllRequiredGranted userId db1 then (MissingRequiredConsent, db1)
             else
               (let f = (\<lambda>p. p\<lparr>ob_status := Completed, ob_completedAt := Some now\<rparr>) in
                (OnboardingCompleted (f p),
                 db1\<lparr>onboardings := update_where (\<lambda>q. ob_userId q = userId) f (onboardings db1)\<rparr>))))"

section \<open>Preferences\<close>

text \<open>A row of preferences is its columns by name; an update is the object of the fields it sets.\<close>

definition PREFERENCE_DEFAULTS :: "(string \<times> json) list" where
  "PREFERENCE_DEFAULTS =
    [(''locale'', JStr ''en-US''), (''timezone'', JStr ''UTC''), (''lowDataMode'', JBool False),
     (''highContrast'', JBool False), (''reduceMotion'', JBool False), (''screenReaderOptimized'', JBool False),
     (''textSize'', JStr ''medium''), (''preferredDifficulty'', JStr ''beginner''), (''preferredCategories'', JArr []),
     (''profileVisibility'', JStr ''public''), (''analyticsConsent'', JBool False), (''dataSharingConsent'', JBool False)]"

definition PRIVACY_IMPACTING_FIELDS :: "string list" where
  "PRIVACY_IMPACTING_FIELDS = [''profileVisibility'', ''analyticsConsent'', ''dataSharingConsent'']"

definition preferences_of :: "ident \<Rightarrow> learner_db \<Rightarrow> preferences option" where
  "preferences_of userId db = List.find (\<lambda>p. lq_userId p = userId) (preference_rows db)"

definition assign_columns :: "(string \<times> json) list \<Rightarrow> (string \<times> json) list \<Rightarrow> (string \<times> json) list" where
  "assign_columns d cols = map (\<lambda>(k, v). (k, case map_of d k of Some v' \<Rightarrow> v' | None \<Rightarrow> v)) cols"

definition getPreferences :: "ident \<Rightarrow> ident \<Rightarrow> learner_db \<Rightarrow> preferences \<times> learner_db" where
  "getPreferences i userId db =
     (case preferences_of userId db of
        Some p \<Rightarrow> (p, db)
      | None \<Rightarrow> (let p = \<lparr>lq_id = i, lq_userId = userId, lq_fields = PREFERENCE_DEFAULTS\<rparr> in
                 (p, db\<lparr>preference_rows := preference_rows db @ [p]\<rparr>)))"

text \<open>\<open>String(v)\<close> of a preference column.\<close>

fun column_string :: "json \<Rightarrow> string" where
  "column_string JNull = ''null''"
| "column_string (JBool b) = (if b then ''true'' else ''false'')"
| "column_string (JNum n) = show_int n"
| "column_string (JStr s) = s"
| "column_string _ = ''[object Object]''"

definition column :: "preferences \<Rightarrow> string \<Rightarrow> string" where
  "column p k = (case map_of (lq_fields p) k of Some v \<Rightarrow> column_string v | None \<Rightarrow> ''undefined'')"

definition privacy_changes ::
    "ident \<Rightarrow> preferences option \<Rightarrow> preferences \<Rightarrow> (string \<times> json) list \<Rightarrow> preference_audit list" where
  "privacy_changes userId before after d =
     filter (\<lambda>e. pa_oldValue e \<noteq> Some (pa_newValue e))
       (map (\<lambda>f. \<lparr>pa_userId = userId, pa_field = f, pa_oldValue = map_option (\<lambda>b. column b f) before,
                  pa_newValue = column after f\<rparr>)
         (filter (\<lambda>f. f \<in> fst ` set d) PRIVACY_IMPACTING_FIELDS))"

text \<open>The row is written before the audit entries; \<open>auditFails\<close> says that writing those throws
  (\<open>None\<close>).\<close>

definition updatePreferences ::
    "bool \<Rightarrow> ident \<Rightarrow> ident \<Rightarrow> (string \<times> json) list \<Rightarrow> learner_db \<Rightarrow> preferences option \<times> learner_db" where
  "updatePreferences auditFails i userId d db =
     (let before = preferences_of userId db;
          f = (\<lambda>p. p\<lparr>lq_fields := assign_columns d (lq_fields p)\<rparr>);
          after = (case before of Some p \<Rightarrow> f p
                   | None \<Rightarrow> \<lparr>lq_id = i, lq_userId = userId, lq_fields = assign_columns d PREFERENCE_DEFAULTS\<rparr>);
          db1 = (case before of
                   Some p \<Rightarrow> db\<lparr>preference_rows := update_where (\<lambda>p. lq_userId p = userId) f (preference_rows db)\<rparr>
                 | None \<Rightarrow> db\<lparr>preference_rows := preference_rows db @ [after]\<rparr>);
          entries = privacy_changes userId before after d
      in if entries = [] then (Some after, db1)
         else if auditFails then (None, db1)
         else (Some after, db1\<lparr>preference_log := preference_log db1 @ entries\<rparr>))"

section \<open>Controllers\<close>

text \<open>\<open>down\<close> says that the database throws at the first statement of the service. The parsed body of a
  request, or the details of what is wrong with it, is an argument.\<close>

datatype learner_data =
    ConsentList "consent_record list" | ConsentRow consent_record | ProgressData onboarding
  | MissingSteps "string list" | PreferenceData preferences

definition guarded :: "bool \<Rightarrow> 's \<Rightarrow> 'd reply \<times> 's \<Rightarrow> 'd reply \<times> 's" where
  "guarded down s r = (if down then (internal_error, s) else r)"

definition consents_getCurrent ::
    "auth_user option \<Rightarrow> bool \<Rightarrow> learner_db \<Rightarrow> learner_data reply \<times> learner_db" where
  "consents_getCurrent u down db = authenticated u db (\<lambda>i.
     guarded down db (OkReply 200 None (ConsentList (getCurrent i db)), db))"

definition consents_getHistory ::
    "auth_user option \<Rightarrow> bool \<Rightarrow> json + string option \<Rightarrow> learner_db \<Rightarrow> learner_data reply \<times> learner_db" where
  "consents_getHistory u down query db = authenticated u db (\<lambda>i. validated query db (\<lambda>purpose.
     guarded down db (OkReply 200 None (ConsentList (consent_getHistory i purpose db)), db)))"

definition consents_grant ::
    "auth_user option \<Rightarrow> bool \<Rightarrow> json + grant_data \<Rightarrow> time \<Rightarrow> ident \<Rightarrow> learner_db \<Rightarrow> learner_data reply \<times> learner_db" where
  "consents_grant u down body now newId db = authenticated u db (\<lambda>i. validated body db (\<lambda>d.
     guarded down db (case grant now newId i d db of
       (r, db') \<Rightarrow> (OkReply 200 (Some ''Consent granted successfully'') (ConsentRow r), db'))))"

definition consents_withdraw ::
    "auth_user option \<Rightarrow> bool \<Rightarrow> json + withdraw_data \<Rightarrow> time \<Rightarrow> ident \<Rightarrow> learner_db \<Rightarrow> learner_data reply \<times> learner_db" where
  "consents_withdraw u down body now newId db = authenticated u db (\<lambda>i. validated body db (\<lambda>d.
     guarded down db (case withdraw now newId i d db of
       (NotGranted, db') \<Rightarrow> (ErrorReply 409 ''Consent was never granted'', db')
     | (RequiredCannotWithdraw, db') \<Rightarrow> (ErrorReply 409 ''Required consent cannot be withdrawn'', db')
     | (ConsentWithdrawn r, db') \<Rightarrow> (OkReply 200 (Some ''Consent withdrawn successfully'') (ConsentRow r), db'))))"

definition onboarding_getProgress ::
    "auth_user option \<Rightarrow> bool \<Rightarrow> time \<Rightarrow> ident \<Rightarrow> learner_db \<Rightarrow> learner_data reply \<times> learner_db" where
  "onboarding_getProgress u down now newId db = authenticated u db (\<lambda>i.
     guarded down db (case onboarding_getOrCreate now newId i db of
       (p, db') \<Rightarrow> (OkReply 200 None (ProgressData p), db')))"

definition onboarding_saveStep ::
    "auth_user option \<Rightarrow> bool \<Rightarrow> json + string \<Rightarrow> time \<Rightarrow> ident \<Rightarrow> learner_db \<Rightarrow> learner_data reply \<times> learner_db" where
  "onboarding_saveStep u down body now newId db = authenticated u db (\<lambda>i. validated body db (\<lambda>step.
     guarded down db (case saveStep now newId i step db of
       (StepAlreadyCompleted p, db') \<Rightarrow> (ErrorData 409 ''Onboarding is already completed'' (ProgressData p), db')
     | (StepSaved p, db') \<Rightarrow> (OkReply 200 (Some ''Step saved successfully'') (ProgressData p), db'))))"

definition onboarding_complete ::
    "auth_user option \<Rightarrow> bool \<Rightarrow> time \<Rightarrow> ident \<Rightarrow> learner_db \<Rightarrow> learner_data reply \<times> learner_db" where
  "onboarding_complete u down now newId db = authenticated u db (\<lambda>i.
     guarded down db (case complete_onboarding now newId i db of
       (IncompleteSteps steps, db') \<Rightarrow>
         (ErrorData 409 ''Required onboarding steps are missing'' (MissingSteps steps), db')
     | (MissingRequiredConsent, db') \<Rightarrow> (ErrorReply 409 ''Required consent has not been granted'', db')
     | (OnboardingCompleted p, db') \<Rightarrow> (OkReply 200 (Some ''Onboarding completed successfully'') (ProgressData p), db')
     | (OnboardingAlreadyCompleted p, db') \<Rightarrow>
         (OkReply 200 (Some ''Onboarding completed successfully'') (ProgressData p), db')))"

definition preferences_get ::
    "auth_user option \<Rightarrow> bool \<Rightarrow> ident \<Rightarrow> learner_db \<Rightarrow> learner_data reply \<times> learner_db" where
  "preferences_get u down newId db = authenticated u db (\<lambda>i.
     guarded down db (case getPreferences newId i db of (p, db') \<Rightarrow> (OkReply 200 None (PreferenceData p), db')))"

definition preferences_update ::
    "auth_user option \<Rightarrow> bool \<Rightarrow> bool \<Rightarrow> json + (string \<times> json) list \<Rightarrow> ident \<Rightarrow> learner_db \<Rightarrow>
     learner_data reply \<times> learner_db" where
  "preferences_update u down auditFails body newId db = authenticated u db (\<lambda>i. validated body db (\<lambda>d.
     guarded down db (case updatePreferences auditFails newId i d db of
       (None, db') \<Rightarrow> (internal_error, db')
     | (Some p, db') \<Rightarrow> (OkReply 200 (Some ''Preferences updated successfully'') (PreferenceData p), db'))))"

end
