(* ===== verification/LearnerProps.thy ===== *)
theory LearnerProps
  imports Learner
begin

text \<open>
  Consent and onboarding: required consents are never withdrawn, and an onboarding that is completed has
  its steps and its consents, for good.
\<close>

section \<open>Current consents\<close>

lemma map_of_distinct_by:
  "map_of (rev (map (\<lambda>r. (key r, r)) (distinct_by key rs))) k = List.find (\<lambda>r. key r = k) rs"
proof (induction key rs rule: distinct_by.induct)
  case (2 key r rs)
  have skip: "List.find (\<lambda>x. key x = k) (filter (\<lambda>x. key x \<noteq> key r) rs) = List.find (\<lambda>x. key x = k) rs"
    if "key r \<noteq> k" using that by (induction rs) auto
  have none: "List.find (\<lambda>x. key x = k) (filter (\<lambda>x. key x \<noteq> key r) rs) = None"
    if "key r = k" using that by (auto simp: find_None)
  show ?case
  proof (cases "key r = k")
    case True
    with 2 none [OF True] show ?thesis by (simp add: map_add_def)
  next
    case False
    with 2 skip [OF False] show ?thesis by (simp add: map_add_def split: option.splits)
  qed
qed simp

lemma find_filter_sorted:
  "List.find p (sort_key f (filter q rows)) = first_by f (\<lambda>r. q r \<and> p r) rows"
proof -
  have "List.find p xs = (case filter p xs of [] \<Rightarrow> None | x # _ \<Rightarrow> Some x)" for xs
    by (induction xs) auto
  moreover have "filter p (sort_key f (filter q rows)) = sort_key f (filter (\<lambda>r. q r \<and> p r) rows)"
    by (simp add: filter_sort conj_commute)
  ultimately show ?thesis by (simp add: first_by_def)
qed

lemma hasAllRequiredGranted_current:
  "hasAllRequiredGranted userId db \<longleftrightarrow>
     list_all (\<lambda>p. map_option cr_status (getCurrentForPurpose userId p db) = Some Granted) REQUIRED_CONSENT_PURPOSES"
  unfolding hasAllRequiredGranted_def Let_def getCurrent_def map_of_distinct_by find_filter_sorted getCurrentForPurpose_def ..

section \<open>What requests do\<close>

inductive learner_next :: "learner_db \<Rightarrow> learner_db \<Rightarrow> bool" where
  next_grant: "learner_next db (snd (grant now i userId d db))"
| next_withdraw: "learner_next db (snd (withdraw now i userId d db))"
| next_resume: "learner_next db (snd (onboarding_getOrCreate now i userId db))"
| next_save: "learner_next db (snd (saveStep now i userId step db))"
| next_complete: "learner_next db (snd (complete_onboarding now i userId db))"
| next_preferences: "learner_next db (snd (getPreferences i userId db))"
| next_update: "learner_next db (snd (updatePreferences fails i userId d db))"

definition required_kept :: "consent_record list \<Rightarrow> bool" where
  "required_kept cs \<longleftrightarrow> (\<forall>r \<in> set cs. cr_purpose r \<in> set REQUIRED_CONSENT_PURPOSES \<longrightarrow> cr_required r \<and> cr_status r = Granted)"

definition done_ok :: "learner_db \<Rightarrow> onboarding \<Rightarrow> bool" where
  "done_ok db p \<longleftrightarrow> (ob_status p = Completed \<longrightarrow>
     set REQUIRED_ONBOARDING_STEPS \<subseteq> set (ob_completedSteps p)
     \<and> (\<forall>purpose \<in> set REQUIRED_CONSENT_PURPOSES.
          \<exists>r \<in> set (consents db). cr_userId r = ob_userId p \<and> cr_purpose r = purpose))"

definition learner_inv :: "learner_db \<Rightarrow> bool" where
  "learner_inv db \<longleftrightarrow> required_kept (consents db) \<and> distinct (map ob_userId (onboardings db))
     \<and> (\<forall>p \<in> set (onboardings db). done_ok db p)"

lemma granted_required:
  assumes "required_kept (consents db)"
  shows "hasAllRequiredGranted userId db \<longleftrightarrow>
    (\<forall>purpose \<in> set REQUIRED_CONSENT_PURPOSES. \<exists>r \<in> set (consents db). cr_userId r = userId \<and> cr_purpose r = purpose)"
proof -
  have "map_option cr_status (getCurrentForPurpose userId p db) = Some Granted \<longleftrightarrow>
      (\<exists>r \<in> set (consents db). cr_userId r = userId \<and> cr_purpose r = p)"
    if "p \<in> set REQUIRED_CONSENT_PURPOSES" for p
  proof (cases "getCurrentForPurpose userId p db")
    case None
    then have "\<forall>r \<in> set (consents db). \<not> (cr_userId r = userId \<and> cr_purpose r = p)"
      unfolding getCurrentForPurpose_def first_by_None .
    with None show ?thesis by auto
  next
    case (Some r)
    then have "r \<in> set (consents db)" "cr_userId r = userId" "cr_purpose r = p"
      unfolding getCurrentForPurpose_def by (auto dest: first_by_Some)
    with assms that Some show ?thesis by (auto simp: required_kept_def)
  qed
  then show ?thesis by (auto simp: hasAllRequiredGranted_current list_all_iff)
qed

lemma grant_keeps: "learner_inv db \<Longrightarrow> learner_inv (snd (grant now i userId d db))"
  by (auto simp: learner_inv_def grant_def Let_def required_kept_def done_ok_def)

lemma withdraw_keeps: "learner_inv db \<Longrightarrow> learner_inv (snd (withdraw now i userId d db))"
proof -
  assume inv: "learner_inv db"
  show ?thesis
  proof (cases "\<exists>latest. getCurrentForPurpose userId (wd_purpose d) db = Some latest \<and> \<not> cr_required latest")
    case True
    then obtain latest where l: "getCurrentForPurpose userId (wd_purpose d) db = Some latest" "\<not> cr_required latest" by blast
    then have "latest \<in> set (consents db)" "cr_purpose latest = wd_purpose d"
      unfolding getCurrentForPurpose_def by (auto dest: first_by_Some)
    with inv l have "wd_purpose d \<notin> set REQUIRED_CONSENT_PURPOSES"
      by (auto simp: learner_inv_def required_kept_def)
    with inv l show ?thesis
      by (auto simp: learner_inv_def withdraw_def Let_def required_kept_def done_ok_def)
  next
    case False
    with inv show ?thesis by (auto simp: withdraw_def split: option.splits)
  qed
qed


lemma consents_only:
  assumes "learner_inv db" and "onboardings db' = onboardings db" and "consents db' = consents db"
  shows "learner_inv db'"
  using assms by (simp add: learner_inv_def done_ok_def)

lemma progress_of_Some: "progress_of userId db = Some p \<Longrightarrow> p \<in> set (onboardings db) \<and> ob_userId p = userId"
  unfolding progress_of_def by (auto dest: find_Some)

lemma progress_of_None: "progress_of userId db = None \<Longrightarrow> userId \<notin> ob_userId ` set (onboardings db)"
  unfolding progress_of_def find_None by auto

lemma only_progress:
  "learner_inv db \<Longrightarrow> progress_of userId db = Some p \<Longrightarrow> q \<in> set (onboardings db) \<Longrightarrow> ob_userId q = userId \<Longrightarrow> q = p"
  by (auto simp: learner_inv_def distinct_map inj_on_def dest: progress_of_Some)

lemma resume_keeps:
  assumes inv: "learner_inv db" and run: "onboarding_getOrCreate now i userId db = (p, db')"
  shows "learner_inv db' \<and> p \<in> set (onboardings db') \<and> ob_userId p = userId \<and> consents db' = consents db"
proof (cases "progress_of userId db")
  case (Some q)
  with run inv show ?thesis by (auto simp: onboarding_getOrCreate_def dest: progress_of_Some)
next
  case None
  with run inv progress_of_None [OF None] show ?thesis
    by (auto simp: onboarding_getOrCreate_def Let_def learner_inv_def done_ok_def new_progress_def)
qed

lemma update_progress:
  assumes inv: "learner_inv db" and f: "\<And>q. ob_userId (f q) = ob_userId q"
    and new: "\<And>q. q \<in> set (onboardings db) \<Longrightarrow> ob_userId q = userId \<Longrightarrow> done_ok db (f q)"
  shows "learner_inv (db\<lparr>onboardings := update_where (\<lambda>q. ob_userId q = userId) f (onboardings db)\<rparr>)"
  using assms by (auto simp: learner_inv_def map_update_where ball_update_where done_ok_def)

lemma saveStep_keeps: "learner_inv db \<Longrightarrow> learner_inv (snd (saveStep now i userId step db))"
proof -
  assume inv: "learner_inv db"
  show ?thesis
  proof (cases "progress_of userId db")
    case None
    from progress_of_None [OF None] inv show ?thesis
      by (simp add: saveStep_def save_read_def save_write_def None Let_def new_progress_def learner_inv_def done_ok_def)
  next
    case (Some p)
    show ?thesis
    proof (cases "ob_status p = Completed")
      case True
      with Some inv show ?thesis by (simp add: saveStep_def save_read_def save_write_def)
    next
      case False
      have "ob_status q \<noteq> Completed" if "q \<in> set (onboardings db)" "ob_userId q = userId" for q
        using only_progress [OF inv Some that] False by simp
      then show ?thesis
        using False by (simp add: saveStep_def save_read_def save_write_def Some Let_def)
          (rule update_progress [OF inv], auto simp: done_ok_def)
    qed
  qed
qed

lemma complete_keeps: "learner_inv db \<Longrightarrow> learner_inv (snd (complete_onboarding now i userId db))"
proof -
  assume inv: "learner_inv db"
  obtain p db1 where run: "onboarding_getOrCreate now i userId db = (p, db1)" by (rule prod.exhaust)
  from resume_keeps [OF inv run] have inv1: "learner_inv db1" and p: "p \<in> set (onboardings db1)" "ob_userId p = userId" by auto
  show ?thesis
  proof (cases "ob_status p \<noteq> Completed \<and> filter (\<lambda>s. s \<notin> set (ob_completedSteps p)) REQUIRED_ONBOARDING_STEPS = []
      \<and> hasAllRequiredGranted userId db1")
    case False
    with run inv1 show ?thesis by (auto simp: complete_onboarding_def Let_def)
  next
    case True
    then have steps: "set REQUIRED_ONBOARDING_STEPS \<subseteq> set (ob_completedSteps p)" by (auto simp: filter_empty_conv)
    from True inv1 have consents: "\<forall>purpose \<in> set REQUIRED_CONSENT_PURPOSES.
        \<exists>r \<in> set (consents db1). cr_userId r = userId \<and> cr_purpose r = purpose"
      by (simp add: granted_required learner_inv_def)
    have same: "q = p" if "q \<in> set (onboardings db1)" "ob_userId q = userId" for q
      using inv1 p that by (auto simp: learner_inv_def distinct_map inj_on_def)
    have "learner_inv (db1\<lparr>onboardings := update_where (\<lambda>q. ob_userId q = userId)
        (\<lambda>p. p\<lparr>ob_status := Completed, ob_completedAt := Some now\<rparr>) (onboardings db1)\<rparr>)"
      using steps consents p by (intro update_progress [OF inv1]) (auto simp: done_ok_def dest!: same)
    with True run show ?thesis by (simp add: complete_onboarding_def Let_def)
  qed
qed

lemma learner_next_keeps: "learner_next db db' \<Longrightarrow> learner_inv db \<Longrightarrow> learner_inv db'"
proof (induction rule: learner_next.induct)
  case (next_resume db now i userId)
  then show ?case using resume_keeps [of db now i userId] by (metis prod.collapse)
next
  case (next_preferences db i userId)
  then show ?case by (rule consents_only) (auto simp: getPreferences_def Let_def split: option.splits)
next
  case (next_update db fails i userId d)
  then show ?case by (rule consents_only) (auto simp: updatePreferences_def Let_def split: option.splits)
qed (auto intro: grant_keeps withdraw_keeps saveStep_keeps complete_keeps)

definition learner_init :: "learner_db \<Rightarrow> bool" where
  "learner_init db \<longleftrightarrow> consents db = [] \<and> onboardings db = []"

interpretation learner_system: invariant_system learner_init learner_next learner_inv
proof unfold_locales
  show "learner_init s \<Longrightarrow> learner_inv s" for s
    by (simp add: learner_init_def learner_inv_def required_kept_def)
  show "learner_inv s \<Longrightarrow> learner_next s t \<Longrightarrow> learner_inv t" for s t
    using learner_next_keeps .
qed

lemma learner_reachable: "learner_init s \<Longrightarrow> reaches learner_next s t \<Longrightarrow> learner_inv t"
  by (rule learner_system.inv_reachable)


abbreviation no_learners :: learner_db where
  "no_learners \<equiv> \<lparr>consents = [], onboardings = [], preference_rows = [], preference_log = []\<rparr>"

definition after_consents :: learner_db where
  "after_consents =
     snd (grant 2 ''c-2'' ''u-1'' \<lparr>gd_purpose = ''privacy_policy'', gd_policyVersion = ''1'', gd_source = ''onboarding''\<rparr>
       (snd (grant 1 ''c-1'' ''u-1'' \<lparr>gd_purpose = ''terms_of_service'', gd_policyVersion = ''1'', gd_source = ''onboarding''\<rparr>
         no_learners)))"

definition after_steps :: learner_db where
  "after_steps = snd (saveStep 4 ''o-2'' ''u-1'' ''consent'' (snd (saveStep 3 ''o-1'' ''u-1'' ''profile_basics'' after_consents)))"

definition after_completion :: learner_db where
  "after_completion = snd (complete_onboarding 5 ''o-3'' ''u-1'' after_steps)"

lemma demo_reachable: "reaches learner_next no_learners after_completion"
  unfolding after_completion_def after_steps_def after_consents_def
  by (rule reaches_step, rule reaches_step, rule reaches_step, rule reaches_step, rule reaches_step, rule reaches_refl)
    (rule next_grant next_save next_complete)+


text \<open>
  The two statements of \<open>saveStep\<close> are not one: two requests that read the progress before either writes
  lose one of the steps, and an onboarding completed in between is completed without it.
\<close>

theorem concurrent_steps_lost:
  "(let p = save_read ''u-1'' after_consents;
        db1 = snd (save_write 3 ''o-1'' ''u-1'' ''profile_basics'' p after_consents);
        db2 = snd (save_write 3 ''o-2'' ''u-1'' ''consent'' p db1)
    in map ob_completedSteps (onboardings db2)) = [[''consent'']]"
  by code_simp

end
