(* ===== verification/Credentials.thy ===== *)
theory Credentials
  imports Accounts Redaction Http
begin

text \<open>
  Who a request is from, and whether it may pass: passwords (\<open>src/src/utils/password.ts\<close>), the keys of access
  tokens (\<open>config/jwt.ts\<close>), cookies (\<open>utils/cookies.ts\<close>), the gates of
  \<open>middleware/auth.middleware.ts\<close>, the rate limiter of \<open>middleware/rate-limit.middleware.ts\<close> and the
  mapping of errors (\<open>utils/errors.ts\<close>, \<open>middleware/error.middleware.ts\<close>).

  bcrypt, jsonwebtoken and base64 are arguments. The role of a user is the column \<open>role\<close> of
  \<open>prisma/schema.prisma\<close>, an enumeration of three values; a token's claim is any text.
\<close>

section \<open>Passwords\<close>

definition getConfiguredSaltRounds :: "string option \<Rightarrow> int" where
  "getConfiguredSaltRounds env =
     (case parseInt10 (or_default [] env) of
        None \<Rightarrow> 12
      | Some n \<Rightarrow> if 10 \<le> n \<and> n \<le> 15 then n else 12)"

definition isStrongPassword :: "string \<Rightarrow> bool" where
  "isStrongPassword p \<longleftrightarrow> 8 \<le> length p
     \<and> list_ex (in_range (CHR ''A'') (CHR ''Z'')) p
     \<and> list_ex (in_range (CHR ''a'') (CHR ''z'')) p
     \<and> list_ex is_digit p
     \<and> list_ex (\<lambda>c. \<not> (in_range (CHR ''A'') (CHR ''Z'') c \<or> in_range (CHR ''a'') (CHR ''z'') c \<or> is_digit c)) p"

text \<open>\<open>/^\\$2[aby]?\\$(\\d{2})\\$/\<close>.\<close>

definition currentHashCost :: "string \<Rightarrow> int option" where
  "currentHashCost h =
     (let rest = (\<lambda>s. case s of
          x # a # b # y # _ \<Rightarrow> if x = CHR ''$'' \<and> y = CHR ''$'' \<and> is_digit a \<and> is_digit b
            then Some (int (parse_nat [a, b])) else None
        | _ \<Rightarrow> None)
      in case h of
           d # v # t \<Rightarrow> if d = CHR ''$'' \<and> v = CHR ''2''
             then (case t of c # t' \<Rightarrow> if c \<in> set ''aby'' then rest t' else rest t | [] \<Rightarrow> None) else None
         | _ \<Rightarrow> None)"

definition needsRehash :: "string option \<Rightarrow> string \<Rightarrow> bool" where
  "needsRehash env h = (case currentHashCost h of None \<Rightarrow> True | Some cost \<Rightarrow> cost < getConfiguredSaltRounds env)"

section \<open>Access tokens\<close>

record jwt_config =
  jc_secret :: "string option"
  jc_test :: bool
  jc_previousKeys :: "string option"
  jc_keyId :: string

definition loadActiveSecret :: "jwt_config \<Rightarrow> string option" where
  "loadActiveSecret cfg =
     (case jc_secret cfg of
        Some s \<Rightarrow> if s \<noteq> [] \<and> trim s \<noteq> [] then Some s
                  else if jc_test cfg then Some ''test-only-insecure-secret-do-not-use-in-prod'' else None
      | None \<Rightarrow> if jc_test cfg then Some ''test-only-insecure-secret-do-not-use-in-prod'' else None)"

definition retired_entry :: "string \<Rightarrow> (string \<times> string) option" where
  "retired_entry entry =
     (case map trim (split_on (CHR '':'') entry) of
        kid # secret # _ \<Rightarrow> if kid \<noteq> [] \<and> secret \<noteq> [] then Some (kid, secret) else None
      | _ \<Rightarrow> None)"

definition loadRetiredKeys :: "jwt_config \<Rightarrow> string \<Rightarrow> string option" where
  "loadRetiredKeys cfg =
     (case jc_previousKeys cfg of
        None \<Rightarrow> (\<lambda>_. None)
      | Some raw \<Rightarrow>
          if raw = [] then (\<lambda>_. None)
          else foldl (\<lambda>m e. case retired_entry e of None \<Rightarrow> m | Some (kid, secret) \<Rightarrow> m(kid \<mapsto> secret))
                 (\<lambda>_. None) (split_on (CHR '','') raw))"

text \<open>\<open>jwt_verify\<close> is \<open>jwt.verify\<close> with the pinned algorithm, issuer and audience; \<open>kid_of\<close> reads the
  unverified header.\<close>

datatype 'c verify_result = TokenValid 'c | TokenExpired | TokenInvalid | TokenCrashed

definition verifyAccessToken ::
    "jwt_config \<Rightarrow> (string \<Rightarrow> string option) \<Rightarrow> (string \<Rightarrow> string \<Rightarrow> 'c verify_result) \<Rightarrow> string \<Rightarrow> 'c verify_result" where
  "verifyAccessToken cfg kid_of jwt_verify token =
     (case loadActiveSecret cfg of
        None \<Rightarrow> TokenCrashed
      | Some active \<Rightarrow>
          (case (case kid_of token of
                   None \<Rightarrow> Some active
                 | Some kid \<Rightarrow> if kid = [] \<or> kid = jc_keyId cfg then Some active else loadRetiredKeys cfg kid) of
             None \<Rightarrow> TokenInvalid
           | Some secret \<Rightarrow> if secret = [] then TokenInvalid else jwt_verify secret token))"

section \<open>Cookies\<close>

text \<open>\<open>decode\<close> is \<open>decodeURIComponent\<close>, which may throw.\<close>

definition cookie_part :: "(string \<Rightarrow> string option) \<Rightarrow> string \<Rightarrow> (string \<times> string) option" where
  "cookie_part decode part =
     (if CHR ''='' \<notin> set part then None
      else
        (let name = trim (takeWhile (\<lambda>c. c \<noteq> CHR ''='') part);
             v = trim (tl (dropWhile (\<lambda>c. c \<noteq> CHR ''='') part))
         in if name = [] then None else Some (name, case decode v of Some d \<Rightarrow> d | None \<Rightarrow> v)))"

definition parseCookieHeader :: "(string \<Rightarrow> string option) \<Rightarrow> string option \<Rightarrow> string \<Rightarrow> string option" where
  "parseCookieHeader decode header =
     (case header of
        None \<Rightarrow> (\<lambda>_. None)
      | Some h \<Rightarrow>
          if h = [] then (\<lambda>_. None)
          else foldl (\<lambda>m part. case cookie_part decode part of None \<Rightarrow> m | Some (k, v) \<Rightarrow> m(k \<mapsto> v))
                 (\<lambda>_. None) (split_on (CHR '';'') h))"

section \<open>The gates\<close>

datatype db_role = RoleAdmin | RoleLearner | RoleInstructor

fun role_name :: "db_role \<Rightarrow> string" where
  "role_name RoleAdmin = ''ADMIN''"
| "role_name RoleLearner = ''LEARNER''"
| "role_name RoleInstructor = ''INSTRUCTOR''"

record account_row = user_row +
  acc_role :: db_role
  acc_createdAt :: time

text \<open>What a gate does with a request: it answers, or passes it on with the user it has set.\<close>

datatype gate = Refuse nat string "string option" | Pass "auth_user option"

record auth_headers =
  ah_authorization :: "string option"
  ah_user :: "auth_user option"

definition starts_with :: "string \<Rightarrow> string \<Rightarrow> bool" where
  "starts_with p s \<longleftrightarrow> take (length p) s = p"

text \<open>\<open>authHeader.split(' ')[1]\<close>.\<close>

definition bearer_token :: "string option \<Rightarrow> string option" where
  "bearer_token header =
     (case header of
        None \<Rightarrow> None
      | Some h \<Rightarrow> if h = [] \<or> \<not> starts_with ''Bearer '' h then None else Some (split_on (CHR '' '') h ! 1))"

definition authenticate :: "(string \<Rightarrow> auth_user verify_result) \<Rightarrow> auth_headers \<Rightarrow> gate" where
  "authenticate verify req =
     (case bearer_token (ah_authorization req) of
        None \<Rightarrow> Refuse 401 ''Authorization token required'' None
      | Some token \<Rightarrow>
          (case verify token of
             TokenValid u \<Rightarrow> Pass (Some u)
           | TokenExpired \<Rightarrow> Refuse 401 ''Token has expired'' None
           | TokenInvalid \<Rightarrow> Refuse 401 ''Invalid token'' None
           | TokenCrashed \<Rightarrow> Refuse 500 ''Internal server error during authentication'' None))"

definition optionalAuthenticate :: "(string \<Rightarrow> auth_user verify_result) \<Rightarrow> auth_headers \<Rightarrow> gate" where
  "optionalAuthenticate verify req =
     (case bearer_token (ah_authorization req) of
        None \<Rightarrow> Pass (ah_user req)
      | Some token \<Rightarrow> (case verify token of TokenValid u \<Rightarrow> Pass (Some u) | _ \<Rightarrow> Pass (ah_user req)))"

definition find_account :: "ident \<Rightarrow> account_row list \<Rightarrow> account_row option" where
  "find_account i us = List.find (\<lambda>u. us_id u = i) us"

definition requireActiveAccount :: "bool \<Rightarrow> account_row list \<Rightarrow> auth_user option \<Rightarrow> gate" where
  "requireActiveAccount down us user =
     (case user of
        None \<Rightarrow> Refuse 401 ''Authentication required'' None
      | Some v \<Rightarrow>
          if down then Refuse 500 ''Internal server error during account status check'' None
          else
            (case find_account (au_id v) us of
               None \<Rightarrow> Refuse 401 ''Account not found'' None
             | Some u \<Rightarrow>
                 if us_status u = StDeleted then Refuse 401 ''Account not found'' None
                 else if us_status u = StDeactivated
                 then Refuse 403 ''Account is deactivated'' (Some ''ACCOUNT_DEACTIVATED'')
                 else if us_status u = StPendingDeletion
                 then Refuse 403 ''Account is scheduled for deletion'' (Some ''ACCOUNT_PENDING_DELETION'')
                 else Pass user))"

definition requireVerifiedEmail :: "bool \<Rightarrow> account_row list \<Rightarrow> auth_user option \<Rightarrow> gate" where
  "requireVerifiedEmail down us user =
     (case user of
        None \<Rightarrow> Refuse 401 ''Authentication required'' None
      | Some v \<Rightarrow>
          if down then Refuse 500 ''Internal server error during verification check'' None
          else
            (case find_account (au_id v) us of
               None \<Rightarrow> Refuse 401 ''Account not found'' None
             | Some u \<Rightarrow>
                 if \<not> us_isVerified u
                 then Refuse 403 ''This action requires a verified email address'' (Some ''EMAIL_NOT_VERIFIED'')
                 else Pass user))"

fun join_roles :: "string list \<Rightarrow> string" where
  "join_roles [] = []"
| "join_roles [r] = r"
| "join_roles (r # rs) = r @ '', '' @ join_roles rs"

definition authorize :: "string list \<Rightarrow> bool \<Rightarrow> account_row list \<Rightarrow> auth_user option \<Rightarrow> gate" where
  "authorize roles down us user =
     (case user of
        None \<Rightarrow> Refuse 401 ''Authentication required'' None
      | Some v \<Rightarrow>
          if down then Refuse 500 ''Internal server error during authorization'' None
          else
            (case find_account (au_id v) us of
               None \<Rightarrow> Refuse 401 ''Account not found'' None
             | Some u \<Rightarrow>
                 if us_status u = StDeleted then Refuse 401 ''Account not found'' None
                 else if us_status u = StDeactivated
                 then Refuse 403 ''Account is deactivated'' (Some ''ACCOUNT_DEACTIVATED'')
                 else if us_status u = StPendingDeletion
                 then Refuse 403 ''Account is scheduled for deletion'' (Some ''ACCOUNT_PENDING_DELETION'')
                 else if role_name (acc_role u) \<notin> set roles
                 then Refuse 403 (''Access denied. Requires one of the following roles: '' @ join_roles roles) None
                 else Pass (Some (v\<lparr>au_role := role_name (acc_role u)\<rparr>))))"

section \<open>Rate limits\<close>

record rate_options =
  ro_windowMs :: int
  ro_max :: nat

record rate_data =
  rd_count :: nat
  rd_resetTime :: time

type_synonym rate_store = "string \<Rightarrow> rate_data option"

record client_address =
  ca_forwardedFor :: "string option"
  ca_realIp :: "string option"
  ca_remote :: "string option"

text \<open>\<open>a || b || c || 'unknown'\<close>: the first that is there and not empty.\<close>

definition getClientIP :: "client_address \<Rightarrow> string" where
  "getClientIP a =
     (let forwarded = map_option (\<lambda>h. trim (hd (split_on (CHR '','') h))) (ca_forwardedFor a) in
      if forwarded \<noteq> None \<and> forwarded \<noteq> Some [] then the forwarded
      else if ca_realIp a \<noteq> None \<and> ca_realIp a \<noteq> Some [] then the (ca_realIp a)
      else if ca_remote a \<noteq> None \<and> ca_remote a \<noteq> Some [] then the (ca_remote a)
      else ''unknown'')"

definition rate_key :: "client_address \<Rightarrow> string \<Rightarrow> string" where
  "rate_key a originalUrl = getClientIP a @ '':'' @ originalUrl"

text \<open>One request: whether it passes, and the store. A refused request is counted in an object that is
  stored only if it was stored already, so the entry that \<open>store.get\<close> returned is the one that
  \<open>data.count++\<close> changes.\<close>

definition rate_limit :: "rate_options \<Rightarrow> time \<Rightarrow> string \<Rightarrow> rate_store \<Rightarrow> bool \<times> rate_store" where
  "rate_limit opts now key store =
     (let fresh = (case store key of None \<Rightarrow> True | Some d \<Rightarrow> rd_resetTime d < now);
          d0 = (if fresh then \<lparr>rd_count = 0, rd_resetTime = now + ro_windowMs opts\<rparr> else the (store key));
          d = d0\<lparr>rd_count := rd_count d0 + 1\<rparr>
      in if rd_count d > ro_max opts then (False, if fresh then store else store(key \<mapsto> d))
         else (True, store(key \<mapsto> d)))"

datatype limiter = GeneralLimiter | EmployerLimiter | AuthenticatedLimiter

definition dynamicRateLimiter :: "auth_user option \<Rightarrow> limiter" where
  "dynamicRateLimiter user =
     (case user of
        None \<Rightarrow> GeneralLimiter
      | Some u \<Rightarrow> if au_role u = ''employer'' then EmployerLimiter else AuthenticatedLimiter)"

section \<open>Errors\<close>

datatype error_code =
    BAD_REQUEST | VALIDATION_ERROR | UNAUTHORIZED | FORBIDDEN | RESOURCE_NOT_FOUND | CONFLICT
  | RATE_LIMIT_EXCEEDED | INTERNAL_SERVER_ERROR | SERVICE_UNAVAILABLE

definition mapStatusCodeToErrorCode :: "nat \<Rightarrow> error_code" where
  "mapStatusCodeToErrorCode n =
     (if n = 400 then BAD_REQUEST else if n = 401 then UNAUTHORIZED else if n = 403 then FORBIDDEN
      else if n = 404 then RESOURCE_NOT_FOUND else if n = 409 then CONFLICT else if n = 422 then VALIDATION_ERROR
      else if n = 429 then RATE_LIMIT_EXCEEDED else if n = 503 then SERVICE_UNAVAILABLE
      else INTERNAL_SERVER_ERROR)"

record app_error =
  ap_message :: string
  ap_statusCode :: nat
  ap_code :: "error_code option"
  ap_isOperational :: bool
  ap_errors :: "json option"

definition app_error_of :: "string \<Rightarrow> nat \<Rightarrow> error_code \<Rightarrow> bool \<Rightarrow> app_error" where
  "app_error_of message status code operational =
     \<lparr>ap_message = message, ap_statusCode = status, ap_code = Some code, ap_isOperational = operational, ap_errors = None\<rparr>"

definition BadRequestError :: "string \<Rightarrow> app_error" where
  "BadRequestError m = app_error_of m 400 BAD_REQUEST True"
definition UnauthorizedError :: "string \<Rightarrow> app_error" where
  "UnauthorizedError m = app_error_of m 401 UNAUTHORIZED True"
definition ForbiddenError :: "string \<Rightarrow> app_error" where
  "ForbiddenError m = app_error_of m 403 FORBIDDEN True"
definition NotFoundError :: "string \<Rightarrow> app_error" where
  "NotFoundError m = app_error_of m 404 RESOURCE_NOT_FOUND True"
definition ConflictError :: "string \<Rightarrow> app_error" where
  "ConflictError m = app_error_of m 409 CONFLICT True"
definition ValidationError :: "string \<Rightarrow> json option \<Rightarrow> app_error" where
  "ValidationError m errors = (app_error_of m 422 VALIDATION_ERROR True)\<lparr>ap_errors := errors\<rparr>"
definition InternalServerError :: "string \<Rightarrow> app_error" where
  "InternalServerError m = app_error_of m 500 INTERNAL_SERVER_ERROR False"

datatype thrown = AppError app_error | OtherError string | NotAnError

record error_response =
  er_status :: nat
  er_message :: string
  er_code :: error_code
  er_details :: "json option"
  er_debug :: bool
  er_requestId :: string

definition errorHandler :: "bool \<Rightarrow> string option \<Rightarrow> thrown \<Rightarrow> error_response" where
  "errorHandler development requestId err =
     (let e = (case err of
                 AppError a \<Rightarrow> a
               | OtherError m \<Rightarrow> InternalServerError m
               | NotAnError \<Rightarrow> InternalServerError ''An unexpected error occurred'');
          status = (if ap_statusCode e = 0 then 500 else ap_statusCode e)
      in \<lparr>er_status = status, er_message = ap_message e,
          er_code = (case ap_code e of Some c \<Rightarrow> c | None \<Rightarrow> mapStatusCodeToErrorCode status),
          er_details = ap_errors e, er_debug = development,
          er_requestId = (case requestId of Some r \<Rightarrow> if r = [] then ''unknown'' else r | None \<Rightarrow> ''unknown'')\<rparr>)"

section \<open>What the gates let through\<close>


end
