(* ===== verification/Auth.thy ===== *)
theory Auth
  imports Credentials Otp RetryQueues Outbox
begin

text \<open>
  The authentication controller, \<open>src/src/controllers/auth.controller.ts\<close>: registration, e-mail
  verification, login, refresh, logout, password reset and one-time codes, over the tables of the
  services it calls and its own in-memory counters.

  What a request draws and computes outside the code is one record, \<open>auth_env\<close>: the clock, fresh
  identifiers and tokens, bcrypt (hashing with a fresh salt, comparing), SHA-256 and the signing of tokens.
  \<open>ev_fault = Some k\<close> makes the \<open>k\<close>-th call the handler awaits from the database or a service throw before it
  has changed anything (counted from 0 in the order of the source); the \<open>catch\<close> answers 500 and what was
  written before stays. A mail is queued without
  waiting: \<open>ev_mailFails\<close> says that queueing it fails, which is only logged.
\<close>

section \<open>State\<close>

datatype token_type = EmailVerification | PasswordReset
datatype vt_status = VtPending | VtUsed | VtRevoked

record verification_token =
  vt_id :: ident
  vt_userId :: ident
  vt_tokenHash :: string
  vt_type :: token_type
  vt_status :: vt_status
  vt_expiresAt :: time
  vt_createdAt :: time

record window =
  wn_count :: nat
  wn_resetAt :: time

type_synonym windows = "string \<Rightarrow> window option"

text \<open>The audit row of a password reset; its metadata is always \<open>{}\<close>.\<close>

record reset_audit =
  ra_userId :: ident
  ra_ipAddress :: string
  ra_userAgent :: string

record identity_db =
  id_users :: "account_row list"
  id_vtokens :: "verification_token list"
  id_auth :: auth_db
  id_otps :: "otp_challenge list"
  id_emails :: "email_delivery list"
  id_outbox :: outbox_db
  id_resets :: "reset_audit list"
  id_deletions :: "deletion_request list"
  id_cooldowns :: "string \<Rightarrow> time option"
  id_resends :: windows
  id_resetRequests :: windows
  id_phones :: windows
  id_devices :: windows

record auth_env =
  ev_now :: time
  ev_tokens :: token_config
  ev_bcrypt :: "string \<Rightarrow> string"
  ev_compare :: "string \<Rightarrow> string \<Rightarrow> bool"
  ev_saltRounds :: "string option"
  ev_sessionIds :: fresh_ids
  ev_newUserId :: ident
  ev_newTokenId :: ident
  ev_newMailId :: ident
  ev_rawToken :: string
  ev_eventRnd :: string
  ev_refreshId :: ident
  ev_refreshRaw :: string
  ev_otpHash :: otp_hash
  ev_otpId :: ident
  ev_otpDrawn :: nat
  ev_verificationUrl :: "string option"
  ev_resetUrl :: "string option"
  ev_mailFails :: bool
  ev_fault :: "nat option"

record client =
  cl_address :: client_address
  cl_userAgent :: "string option"
  cl_cookie :: "string option"
  cl_user :: "auth_user option"

definition VERIFICATION_TOKEN_EXPIRY_MS :: int where "VERIFICATION_TOKEN_EXPIRY_MS = 24 * 60 * 60 * 1000"
definition PASSWORD_RESET_TOKEN_EXPIRY_MS :: int where "PASSWORD_RESET_TOKEN_EXPIRY_MS = 30 * 60 * 1000"
definition RESEND_COOLDOWN_MS :: int where "RESEND_COOLDOWN_MS = 60 * 1000"
definition RESEND_ACCOUNT_LIMIT :: nat where "RESEND_ACCOUNT_LIMIT = 5"
definition RESEND_ACCOUNT_WINDOW_MS :: int where "RESEND_ACCOUNT_WINDOW_MS = 24 * 60 * 60 * 1000"
definition RESET_PASSWORD_COOLDOWN_MS :: int where "RESET_PASSWORD_COOLDOWN_MS = 60 * 1000"
definition RESET_PASSWORD_ACCOUNT_LIMIT :: nat where "RESET_PASSWORD_ACCOUNT_LIMIT = 3"
definition RESET_PASSWORD_ACCOUNT_WINDOW_MS :: int where "RESET_PASSWORD_ACCOUNT_WINDOW_MS = 24 * 60 * 60 * 1000"
definition OTP_PHONE_COOLDOWN_MS :: int where "OTP_PHONE_COOLDOWN_MS = 60 * 1000"
definition OTP_PHONE_LIMIT :: nat where "OTP_PHONE_LIMIT = 5"
definition OTP_PHONE_WINDOW_MS :: int where "OTP_PHONE_WINDOW_MS = 60 * 60 * 1000"
definition OTP_DEVICE_LIMIT :: nat where "OTP_DEVICE_LIMIT = 10"
definition OTP_DEVICE_WINDOW_MS :: int where "OTP_DEVICE_WINDOW_MS = 60 * 60 * 1000"

section \<open>Limits\<close>

definition isRateLimited :: "time \<Rightarrow> string \<Rightarrow> int \<Rightarrow> identity_db \<Rightarrow> bool \<times> identity_db" where
  "isRateLimited now key windowMs s =
     (case id_cooldowns s key of
        Some t \<Rightarrow> if t \<noteq> 0 \<and> t > now then (True, s)
                  else (False, s\<lparr>id_cooldowns := (id_cooldowns s)(key \<mapsto> now + windowMs)\<rparr>)
      | None \<Rightarrow> (False, s\<lparr>id_cooldowns := (id_cooldowns s)(key \<mapsto> now + windowMs)\<rparr>))"

text \<open>The counters are four copies of the same two functions.\<close>

definition window_over :: "time \<Rightarrow> window option \<Rightarrow> bool" where
  "window_over now w = (case w of None \<Rightarrow> True | Some r \<Rightarrow> wn_resetAt r < now)"

definition window_full :: "nat \<Rightarrow> time \<Rightarrow> string \<Rightarrow> windows \<Rightarrow> bool" where
  "window_full limit now key m \<longleftrightarrow> \<not> window_over now (m key) \<and> wn_count (the (m key)) \<ge> limit"

definition window_count :: "int \<Rightarrow> time \<Rightarrow> string \<Rightarrow> windows \<Rightarrow> windows" where
  "window_count windowMs now key m =
     (if window_over now (m key) then m(key \<mapsto> \<lparr>wn_count = 1, wn_resetAt = now + windowMs\<rparr>)
      else m(key \<mapsto> (the (m key))\<lparr>wn_count := wn_count (the (m key)) + 1\<rparr>))"

definition isAccountLimited :: "time \<Rightarrow> ident \<Rightarrow> identity_db \<Rightarrow> bool" where
  "isAccountLimited now userId s = window_full RESEND_ACCOUNT_LIMIT now userId (id_resends s)"

definition recordAccountRequest :: "time \<Rightarrow> ident \<Rightarrow> identity_db \<Rightarrow> identity_db" where
  "recordAccountRequest now userId s = s\<lparr>id_resends := window_count RESEND_ACCOUNT_WINDOW_MS now userId (id_resends s)\<rparr>"

definition isResetPasswordAccountLimited :: "time \<Rightarrow> ident \<Rightarrow> identity_db \<Rightarrow> bool" where
  "isResetPasswordAccountLimited now userId s = window_full RESET_PASSWORD_ACCOUNT_LIMIT now userId (id_resetRequests s)"

definition recordResetPasswordAccountRequest :: "time \<Rightarrow> ident \<Rightarrow> identity_db \<Rightarrow> identity_db" where
  "recordResetPasswordAccountRequest now userId s =
     s\<lparr>id_resetRequests := window_count RESET_PASSWORD_ACCOUNT_WINDOW_MS now userId (id_resetRequests s)\<rparr>"

fun purpose_name :: "otp_purpose \<Rightarrow> string" where
  "purpose_name PurposeLogin = ''LOGIN''"
| "purpose_name PurposePhoneVerification = ''PHONE_VERIFICATION''"

definition isPhoneOtpLimited :: "time \<Rightarrow> string \<Rightarrow> otp_purpose \<Rightarrow> identity_db \<Rightarrow> bool" where
  "isPhoneOtpLimited now phone purpose s =
     window_full OTP_PHONE_LIMIT now (purpose_name purpose @ '':'' @ phone) (id_phones s)"

definition recordPhoneOtpRequest :: "time \<Rightarrow> string \<Rightarrow> otp_purpose \<Rightarrow> identity_db \<Rightarrow> identity_db" where
  "recordPhoneOtpRequest now phone purpose s =
     s\<lparr>id_phones := window_count OTP_PHONE_WINDOW_MS now (purpose_name purpose @ '':'' @ phone) (id_phones s)\<rparr>"

definition isDeviceOtpLimited :: "time \<Rightarrow> string \<Rightarrow> identity_db \<Rightarrow> bool" where
  "isDeviceOtpLimited now deviceId s = window_full OTP_DEVICE_LIMIT now deviceId (id_devices s)"

definition recordDeviceOtpRequest :: "time \<Rightarrow> string \<Rightarrow> identity_db \<Rightarrow> identity_db" where
  "recordDeviceOtpRequest now deviceId s =
     s\<lparr>id_devices := window_count OTP_DEVICE_WINDOW_MS now deviceId (id_devices s)\<rparr>"

section \<open>Replies\<close>

record token_payload =
  tp_accessToken :: string
  tp_refreshToken :: string
  tp_expiresIn :: int
  tp_tokenType :: string

record user_summary =
  um_id :: ident
  um_email :: string
  um_username :: string
  um_role :: string

datatype auth_data =
    SessionData token_payload user_summary
  | TokenData token_payload
  | RevokedCount nat
  | ErrorCode string
  | ErrorSchedule string "time option"

type_synonym auth_reply = "auth_data reply"

definition stmt :: "auth_env \<Rightarrow> nat \<Rightarrow> string \<Rightarrow> identity_db \<Rightarrow> auth_reply \<times> identity_db \<Rightarrow> auth_reply \<times> identity_db" where
  "stmt env k msg s r = (if ev_fault env = Some k then (ErrorReply 500 msg, s) else r)"

definition clientContext :: "client \<Rightarrow> refresh_context" where
  "clientContext c = \<lparr>cx_ipAddress = Some (getClientIP (cl_address c)), cx_userAgent = cl_userAgent c\<rparr>"

definition readRefreshToken :: "(string \<Rightarrow> string option) \<Rightarrow> string option \<Rightarrow> client \<Rightarrow> string option" where
  "readRefreshToken decode bodyToken c =
     (if bodyToken \<noteq> None \<and> bodyToken \<noteq> Some [] then bodyToken
      else
        (case parseCookieHeader decode (cl_cookie c) ''refresh_token'' of
           None \<Rightarrow> None
         | Some t \<Rightarrow> if t = [] then None else Some t))"

definition tokenPayload :: "string \<Rightarrow> string \<Rightarrow> int \<Rightarrow> token_payload" where
  "tokenPayload access refresh expiresIn =
     \<lparr>tp_accessToken = access, tp_refreshToken = refresh, tp_expiresIn = expiresIn, tp_tokenType = ''Bearer''\<rparr>"

definition summary :: "account_row \<Rightarrow> user_summary" where
  "summary u = \<lparr>um_id = us_id u, um_email = us_email u, um_username = us_username u, um_role = role_name (acc_role u)\<rparr>"

definition find_by_email :: "string \<Rightarrow> identity_db \<Rightarrow> account_row option" where
  "find_by_email email s = List.find (\<lambda>u. us_email u = email) (id_users s)"

definition update_user :: "ident \<Rightarrow> (account_row \<Rightarrow> account_row) \<Rightarrow> identity_db \<Rightarrow> identity_db" where
  "update_user userId f s = s\<lparr>id_users := update_where (\<lambda>u. us_id u = userId) f (id_users s)\<rparr>"

definition token_format :: "string \<Rightarrow> bool" where
  "token_format t \<longleftrightarrow> length t = 64 \<and> list_all (\<lambda>c. is_digit c \<or> c \<in> set ''abcdefABCDEF'') t"

definition queue_mail :: "auth_env \<Rightarrow> ident \<Rightarrow> string \<Rightarrow> string \<times> string \<Rightarrow> string \<Rightarrow> identity_db \<Rightarrow> identity_db" where
  "queue_mail env userId email m type s =
     (if ev_mailFails env then s
      else s\<lparr>id_emails := snd (queueEmail (ev_now env) (ev_newMailId env) userId email (fst m) (snd m) type (id_emails s))\<rparr>)"

definition getAccountStatusError :: "account_row \<Rightarrow> identity_db \<Rightarrow> auth_reply option" where
  "getAccountStatusError u s =
     (case us_status u of
        StDeleted \<Rightarrow> Some (ErrorReply 401 ''Invalid credentials'')
      | StDeactivated \<Rightarrow> Some (ErrorData 403 ''Account is deactivated'' (ErrorCode ''ACCOUNT_DEACTIVATED''))
      | StPendingDeletion \<Rightarrow>
          Some (ErrorData 403 ''Account is scheduled for deletion''
            (ErrorSchedule ''ACCOUNT_PENDING_DELETION''
              (map_option dr_scheduledFor
                (List.find (\<lambda>r. dr_userId r = us_id u \<and> dr_status r = DelPending) (id_deletions s)))))
      | StActive \<Rightarrow> None)"

text \<open>The end of every handler that logs a user in.\<close>

definition start_session ::
    "auth_env \<Rightarrow> nat \<Rightarrow> nat \<Rightarrow> string \<Rightarrow> string \<Rightarrow> account_row \<Rightarrow> client \<Rightarrow> identity_db \<Rightarrow> auth_reply \<times> identity_db" where
  "start_session env k okStatus okMsg errMsg u c s =
     stmt env k errMsg s
       (case issueSession (ev_tokens env) (ev_now env) (ev_sessionIds env)
               \<lparr>ip_userId = us_id u, ip_role = role_name (acc_role u), ip_userAgent = cl_userAgent c,
                ip_ipAddress = Some (getClientIP (cl_address c))\<rparr> (id_auth s) of
          (Inl e, a) \<Rightarrow> (ErrorReply 500 errMsg, s\<lparr>id_auth := a\<rparr>)
        | (Inr r, a) \<Rightarrow>
            (OkReply okStatus (Some okMsg)
               (SessionData (tokenPayload (ir_accessToken r) (ir_refreshToken r) (ir_expiresIn r)) (summary u)),
             s\<lparr>id_auth := a\<rparr>))"

section \<open>Mails\<close>

definition mail_head :: "string list" where
  "mail_head = [''<!DOCTYPE html>'', ''<html>'', ''<head><meta charset='' @ [CHR 0x22] @ ''utf-8'' @ [CHR 0x22] @ ''></head>'',
     ''<body style='' @ [CHR 0x22] @ ''font-family:sans-serif;padding:24px'' @ [CHR 0x22] @ ''>'']"

definition token_lines :: "string \<Rightarrow> string \<Rightarrow> string \<Rightarrow> string list" where
  "token_lines url rawToken label =
     [''  <p><a href='' @ [CHR 0x22] @ url @ ''?token='' @ rawToken @ [CHR 0x22] @ ''>'', ''    '' @ label, ''  </a></p>'',
      ''  <p>Or enter this token manually:</p>'',
      ''  <pre style='' @ [CHR 0x22] @ ''background:#f5f5f5;padding:12px;font-size:14px'' @ [CHR 0x22] @ ''>'' @ rawToken @ ''</pre>'']"

definition join_lines :: "string list \<Rightarrow> string" where
  "join_lines ls = (case ls of [] \<Rightarrow> [] | l # r \<Rightarrow> l @ concat (map (\<lambda>x. CHR 0x0A # x) r))"

definition base_url :: "string option \<Rightarrow> string \<Rightarrow> string" where
  "base_url env d = (case env of None \<Rightarrow> d | Some u \<Rightarrow> if u = [] then d else u)"

definition buildVerificationEmail :: "string option \<Rightarrow> string \<Rightarrow> string \<times> string" where
  "buildVerificationEmail url rawToken =
     (''Verify your email address'',
      join_lines (mail_head
        @ [''  <h2>Verify your email</h2>'', ''  <p>Use the link below to verify your email address:</p>'']
        @ token_lines (base_url url ''http://localhost:3000/verify-email'') rawToken ''Verify email''
        @ [''  <p>This link expires in 24 hours.</p>'',
           ''  <p>If you did not create this account, please ignore this email.</p>'', ''</body>'', ''</html>'']))"

definition buildPasswordResetEmail :: "string option \<Rightarrow> string \<Rightarrow> string \<times> string" where
  "buildPasswordResetEmail url rawToken =
     (''Reset your password'',
      join_lines (mail_head
        @ [''  <h2>Reset your password</h2>'', ''  <p>Use the link below to reset your password:</p>'']
        @ token_lines (base_url url ''http://localhost:3000/reset-password'') rawToken ''Reset password''
        @ [''  <p>This link expires in 30 minutes.</p>'',
           ''  <p>If you did not request this, please ignore this email.</p>'', ''</body>'', ''</html>'']))"

section \<open>Registration\<close>

record register_input =
  ri_email :: string
  ri_password :: string
  ri_username :: string
  ri_role :: string

text \<open>The values of the enum \<open>UserRole\<close>, which the request schema accepts.\<close>

definition USER_ROLES :: "string list" where
  "USER_ROLES = [''admin'', ''learner'', ''instructor'']"

text \<open>A role Prisma accepts is a name of the enum in the schema; anything else throws.\<close>

definition stored_role :: "string \<Rightarrow> db_role option" where
  "stored_role r = List.find (\<lambda>d. role_name d = r) [RoleAdmin, RoleLearner, RoleInstructor]"

definition new_vtoken :: "auth_env \<Rightarrow> ident \<Rightarrow> token_type \<Rightarrow> int \<Rightarrow> verification_token" where
  "new_vtoken env userId type expiry =
     \<lparr>vt_id = ev_newTokenId env, vt_userId = userId, vt_tokenHash = tc_hash (ev_tokens env) (ev_rawToken env),
      vt_type = type, vt_status = VtPending, vt_expiresAt = ev_now env + expiry, vt_createdAt = ev_now env\<rparr>"

definition new_account :: "auth_env \<Rightarrow> register_input \<Rightarrow> db_role \<Rightarrow> account_row" where
  "new_account env i role =
     \<lparr>us_id = ev_newUserId env, us_email = ri_email i, us_username = ri_username i,
      us_password = ev_bcrypt env (ri_password i), us_walletAddress = None, us_isVerified = False,
      us_phone = None, us_phoneVerifiedAt = None, us_status = StActive, us_statusChangedAt = None,
      us_lastLoginAt = None, acc_role = role, acc_createdAt = ev_now env\<rparr>"

definition register_event :: "account_row \<Rightarrow> create_event_options" where
  "register_event u =
     \<lparr>ceo_aggregateId = us_id u, ceo_aggregateType = ''User'', ceo_eventType = ''UserCreated'', ceo_eventVersion = 1,
      ceo_payload = JObj [(''userId'', JStr (us_id u)), (''email'', JStr (us_email u)), (''role'', JStr (role_name (acc_role u)))],
      ceo_source = Some ''api.auth.register'', ceo_causedBy = None\<rparr>"

text \<open>The transaction; \<open>None\<close> when one of its statements throws.\<close>

definition register_tx :: "auth_env \<Rightarrow> register_input \<Rightarrow> identity_db \<Rightarrow> (account_row \<times> identity_db) option" where
  "register_tx env i s =
     (case stored_role (if ri_role i = [] then ''learner'' else ri_role i) of
        None \<Rightarrow> None
      | Some role \<Rightarrow>
          (let u = new_account env i role in
           if \<exists>v \<in> set (id_users s). us_id v = us_id u \<or> us_email v = us_email u \<or> us_username v = us_username u
           then None
           else
             (case createEvent (ev_now env) (ev_eventRnd env) (register_event u) (id_outbox s) of
                (Inl e, ob) \<Rightarrow> None
              | (Inr e, ob) \<Rightarrow>
                  Some (u, s\<lparr>id_users := id_users s @ [u],
                             id_vtokens := id_vtokens s @ [new_vtoken env (us_id u) EmailVerification VERIFICATION_TOKEN_EXPIRY_MS],
                             id_outbox := ob\<rparr>))))"

definition register :: "auth_env \<Rightarrow> client \<Rightarrow> json + register_input \<Rightarrow> identity_db \<Rightarrow> auth_reply \<times> identity_db" where
  "register env c body s =
     (let err = ''Internal server error during registration'' in
      validated body s (\<lambda>i.
        stmt env 0 err s
          (if \<exists>u \<in> set (id_users s). us_email u = ri_email i \<or> us_username u = ri_username i
           then (ErrorReply 409 ''User with this email or username already exists'', s)
           else
             stmt env 1 err s
               (case register_tx env i s of
                  None \<Rightarrow> (ErrorReply 500 err, s)
                | Some (u, s1) \<Rightarrow>
                    start_session env 2 201 ''User registered successfully'' err u c
                      (queue_mail env (us_id u) (ri_email i)
                        (buildVerificationEmail (ev_verificationUrl env) (ev_rawToken env)) ''EMAIL_VERIFICATION'' s1)))))"

section \<open>E-mail verification\<close>

definition set_vt :: "ident \<Rightarrow> vt_status \<Rightarrow> identity_db \<Rightarrow> identity_db" where
  "set_vt tid st s = s\<lparr>id_vtokens := update_where (\<lambda>t. vt_id t = tid) (\<lambda>t. t\<lparr>vt_status := st\<rparr>) (id_vtokens s)\<rparr>"

definition revoke_pending :: "(verification_token \<Rightarrow> bool) \<Rightarrow> identity_db \<Rightarrow> identity_db" where
  "revoke_pending p s = s\<lparr>id_vtokens :=
     update_where (\<lambda>t. p t \<and> vt_status t = VtPending) (\<lambda>t. t\<lparr>vt_status := VtRevoked\<rparr>) (id_vtokens s)\<rparr>"

definition verifyEmail :: "auth_env \<Rightarrow> json + string \<Rightarrow> identity_db \<Rightarrow> auth_reply \<times> identity_db" where
  "verifyEmail env body s =
     (let err = ''Internal server error during verification''; bad = (ErrorReply 400 ''Invalid token'', s) in
      case body of
        Inl _ \<Rightarrow> bad
      | Inr token \<Rightarrow>
          if \<not> token_format token then bad
          else
            stmt env 0 err s
              (case List.find (\<lambda>t. vt_tokenHash t = tc_hash (ev_tokens env) token) (id_vtokens s) of
                 None \<Rightarrow> bad
               | Some t \<Rightarrow>
                   (case vt_status t of
                      VtUsed \<Rightarrow> (MessageReply 200 ''Email already verified'', s)
                    | VtRevoked \<Rightarrow> bad
                    | VtPending \<Rightarrow>
                        if ev_now env > vt_expiresAt t
                        then stmt env 1 err s (ErrorReply 400 ''Token expired'', set_vt (vt_id t) VtRevoked s)
                        else
                          stmt env 1 err s
                            (if \<exists>u \<in> set (id_users s). us_id u = vt_userId t
                             then (MessageReply 200 ''Email verified successfully'',
                                   update_user (vt_userId t) (\<lambda>u. u\<lparr>us_isVerified := True\<rparr>) (set_vt (vt_id t) VtUsed s))
                             else (ErrorReply 500 err, s)))))"

definition neutral_resend :: auth_reply where
  "neutral_resend = MessageReply 200 ''If the account exists, a verification email has been sent.''"

definition too_many :: auth_reply where
  "too_many = ErrorReply 429 ''Too many requests. Please try again later.''"

text \<open>What follows once every limit lets the request through.\<close>

definition resend_send :: "auth_env \<Rightarrow> account_row \<Rightarrow> string \<Rightarrow> identity_db \<Rightarrow> auth_reply \<times> identity_db" where
  "resend_send env u email s2 =
     (let err = ''Internal server error'' in
      stmt env 1 err s2
        (let s3 = revoke_pending (\<lambda>t. vt_userId t = us_id u) s2 in
         stmt env 2 err s3
           (let s4 = s3\<lparr>id_vtokens := id_vtokens s3
                       @ [new_vtoken env (us_id u) EmailVerification VERIFICATION_TOKEN_EXPIRY_MS]\<rparr>;
                s5 = queue_mail env (us_id u) email
                       (buildVerificationEmail (ev_verificationUrl env) (ev_rawToken env)) ''EMAIL_VERIFICATION'' s4
            in (neutral_resend, recordAccountRequest (ev_now env) (us_id u) s5))))"

definition resendVerification ::
    "auth_env \<Rightarrow> client \<Rightarrow> json + string \<Rightarrow> identity_db \<Rightarrow> auth_reply \<times> identity_db" where
  "resendVerification env c body s =
     (let err = ''Internal server error''; now = ev_now env in
      case body of
        Inl _ \<Rightarrow> (neutral_resend, s)
      | Inr email \<Rightarrow>
          (case isRateLimited now (''ip:'' @ getClientIP (cl_address c)) RESEND_COOLDOWN_MS s of
             (True, s1) \<Rightarrow> (too_many, s1)
           | (False, s1) \<Rightarrow>
               stmt env 0 err s1
                 (case find_by_email email s1 of
                    None \<Rightarrow> (neutral_resend, s1)
                  | Some u \<Rightarrow>
                      if us_isVerified u then (neutral_resend, s1)
                      else if isAccountLimited now (us_id u) s1 then (too_many, s1)
                      else
                        (case isRateLimited now (''user:'' @ us_id u) RESEND_COOLDOWN_MS s1 of
                           (True, s2) \<Rightarrow> (too_many, s2)
                         | (False, s2) \<Rightarrow>
                             resend_send env u email s2))))"

section \<open>Login\<close>

record login_input =
  li_email :: string
  li_password :: string

definition login :: "auth_env \<Rightarrow> client \<Rightarrow> json + login_input \<Rightarrow> identity_db \<Rightarrow> auth_reply \<times> identity_db" where
  "login env c body s =
     (let err = ''Internal server error during login'' in
      validated body s (\<lambda>i.
        stmt env 0 err s
          (case find_by_email (li_email i) s of
             None \<Rightarrow> (ErrorReply 401 ''Invalid credentials'', s)
           | Some u \<Rightarrow>
               if \<not> ev_compare env (li_password i) (us_password u) then (ErrorReply 401 ''Invalid credentials'', s)
               else if us_status u = StPendingDeletion \<and> ev_fault env = Some 1 then (ErrorReply 500 err, s)
               else
                 (case getAccountStatusError u s of
                    Some r \<Rightarrow> (r, s)
                  | None \<Rightarrow>
                      stmt env 1 err s
                        (start_session env 2 200 ''Login successful'' err u c
                          (update_user (us_id u)
                            (\<lambda>v. v\<lparr>us_password := if needsRehash (ev_saltRounds env) (us_password u)
                                                  then ev_bcrypt env (li_password i) else us_password v,
                                   us_lastLoginAt := Some (ev_now env)\<rparr>) s))))))"

section \<open>Refresh and logout\<close>

text \<open>The session service joins the user row of a session; its role is the one stored now.\<close>

definition role_of :: "identity_db \<Rightarrow> ident \<Rightarrow> string" where
  "role_of s userId = (case find_account userId (id_users s) of None \<Rightarrow> [] | Some u \<Rightarrow> role_name (acc_role u))"

definition session_db :: "identity_db \<Rightarrow> auth_db" where
  "session_db s = (id_auth s)\<lparr>ad_role := role_of s\<rparr>"

definition with_refresh_token ::
    "(string \<Rightarrow> string option) \<Rightarrow> client \<Rightarrow> json + string option \<Rightarrow> identity_db \<Rightarrow> (string \<Rightarrow> auth_reply \<times> identity_db) \<Rightarrow>
     auth_reply \<times> identity_db" where
  "with_refresh_token decode c body s f =
     validated body s (\<lambda>bodyToken.
       case readRefreshToken decode bodyToken c of
         None \<Rightarrow> (ErrorReply 400 ''refreshToken is required'', s)
       | Some t \<Rightarrow> f t)"

definition refresh ::
    "auth_env \<Rightarrow> (string \<Rightarrow> string option) \<Rightarrow> client \<Rightarrow> json + string option \<Rightarrow> identity_db \<Rightarrow> auth_reply \<times> identity_db" where
  "refresh env decode c body s =
     (let err = ''Internal server error during refresh'' in
      with_refresh_token decode c body s (\<lambda>token.
        stmt env 0 err s
          (case rotate (ev_tokens env) (ev_now env) (ev_refreshId env) (ev_refreshRaw env) token (clientContext c) (session_db s) of
             (Inl e, a) \<Rightarrow> (ErrorReply 500 err, s\<lparr>id_auth := a\<rparr>)
           | (Inr r, a) \<Rightarrow>
               (case r of
                  RotOk access raw ttl \<Rightarrow> OkReply 200 (Some ''Token refreshed successfully'') (TokenData (tokenPayload access raw ttl))
                | RotReuse \<Rightarrow> ErrorData 401 ''Refresh token reuse detected; the session has been revoked''
                                (ErrorCode ''REFRESH_REUSE_DETECTED'')
                | RotExpired \<Rightarrow> ErrorData 401 ''Refresh token expired'' (ErrorCode ''REFRESH_EXPIRED'')
                | RotRevoked \<Rightarrow> ErrorData 401 ''Refresh token revoked'' (ErrorCode ''REFRESH_REVOKED'')
                | RotInvalid \<Rightarrow> ErrorData 401 ''Invalid refresh token'' (ErrorCode ''REFRESH_INVALID''),
                s\<lparr>id_auth := a\<rparr>))))"

definition logged_out :: "string \<Rightarrow> identity_db \<Rightarrow> (auth_error + nat) \<times> auth_db \<Rightarrow> auth_reply \<times> identity_db" where
  "logged_out msg s r =
     (case r of
        (Inl e, a) \<Rightarrow> (ErrorReply 500 ''Internal server error during logout'', s\<lparr>id_auth := a\<rparr>)
      | (Inr n, a) \<Rightarrow> (OkReply 200 (Some msg) (RevokedCount n), s\<lparr>id_auth := a\<rparr>))"

definition logout ::
    "auth_env \<Rightarrow> (string \<Rightarrow> string option) \<Rightarrow> client \<Rightarrow> json + string option \<Rightarrow> identity_db \<Rightarrow> auth_reply \<times> identity_db" where
  "logout env decode c body s =
     with_refresh_token decode c body s (\<lambda>token.
       stmt env 0 ''Internal server error during logout'' s
         (logged_out ''Logged out successfully'' s
           (revokeByRefreshToken (ev_tokens env) (ev_now env) token (clientContext c) (session_db s))))"

definition logoutAll ::
    "auth_env \<Rightarrow> (string \<Rightarrow> string option) \<Rightarrow> client \<Rightarrow> json + string option \<Rightarrow> identity_db \<Rightarrow> auth_reply \<times> identity_db" where
  "logoutAll env decode c body s =
     with_refresh_token decode c body s (\<lambda>token.
       stmt env 0 ''Internal server error during logout'' s
         (logged_out ''All sessions logged out'' s
           (revokeAllByRefreshToken (ev_tokens env) (ev_now env) token (clientContext c) (session_db s))))"

section \<open>Password reset\<close>

definition neutral_reset :: auth_reply where
  "neutral_reset = MessageReply 200 ''If the account exists, a password reset email has been sent.''"

text \<open>What follows once every limit lets the request through.\<close>

definition forgot_send :: "auth_env \<Rightarrow> account_row \<Rightarrow> string \<Rightarrow> identity_db \<Rightarrow> auth_reply \<times> identity_db" where
  "forgot_send env u email s2 =
     (let err = ''Internal server error'' in
      stmt env 1 err s2
        (let s3 = revoke_pending (\<lambda>t. vt_userId t = us_id u \<and> vt_type t = PasswordReset) s2 in
         stmt env 2 err s3
           (let s4 = s3\<lparr>id_vtokens := id_vtokens s3
                       @ [new_vtoken env (us_id u) PasswordReset PASSWORD_RESET_TOKEN_EXPIRY_MS]\<rparr>;
                s5 = queue_mail env (us_id u) email
                       (buildPasswordResetEmail (ev_resetUrl env) (ev_rawToken env)) ''PASSWORD_RESET'' s4
            in (neutral_reset, recordResetPasswordAccountRequest (ev_now env) (us_id u) s5))))"

definition forgotPassword ::
    "auth_env \<Rightarrow> client \<Rightarrow> json + string \<Rightarrow> identity_db \<Rightarrow> auth_reply \<times> identity_db" where
  "forgotPassword env c body s =
     (let err = ''Internal server error''; now = ev_now env in
      case body of
        Inl _ \<Rightarrow> (neutral_reset, s)
      | Inr email \<Rightarrow>
          (case isRateLimited now (''reset:ip:'' @ getClientIP (cl_address c)) RESET_PASSWORD_COOLDOWN_MS s of
             (True, s1) \<Rightarrow> (too_many, s1)
           | (False, s1) \<Rightarrow>
               stmt env 0 err s1
                 (case find_by_email email s1 of
                    None \<Rightarrow> (neutral_reset, s1)
                  | Some u \<Rightarrow>
                      if isResetPasswordAccountLimited now (us_id u) s1 then (too_many, s1)
                      else
                        (case isRateLimited now (''reset:user:'' @ us_id u) RESET_PASSWORD_COOLDOWN_MS s1 of
                           (True, s2) \<Rightarrow> (too_many, s2)
                         | (False, s2) \<Rightarrow>
                             forgot_send env u email s2))))"

record reset_input =
  si_token :: string
  si_newPassword :: string

definition reset_tx :: "auth_env \<Rightarrow> client \<Rightarrow> verification_token \<Rightarrow> string \<Rightarrow> identity_db \<Rightarrow> identity_db" where
  "reset_tx env c t hashed s =
     (let uid = vt_userId t; now = ev_now env;
          s1 = update_user uid (\<lambda>u. u\<lparr>us_password := hashed\<rparr>) (set_vt (vt_id t) VtUsed s);
          s2 = revoke_pending (\<lambda>t. vt_userId t = uid) s1
      in s2\<lparr>id_auth := revoke_sessions now (\<lambda>x. ss_userId x = uid) (id_auth s2),
           id_resets := id_resets s2 @ [\<lparr>ra_userId = uid, ra_ipAddress = getClientIP (cl_address c),
             ra_userAgent = (case cl_userAgent c of None \<Rightarrow> ''unknown'' | Some a \<Rightarrow> if a = [] then ''unknown'' else a)\<rparr>]\<rparr>)"

definition resetPassword ::
    "auth_env \<Rightarrow> client \<Rightarrow> json + reset_input \<Rightarrow> identity_db \<Rightarrow> auth_reply \<times> identity_db" where
  "resetPassword env c body s =
     (let err = ''Internal server error''; bad = (ErrorReply 400 ''Invalid token'', s) in
      case body of
        Inl _ \<Rightarrow> (ErrorReply 400 ''Invalid token or password'', s)
      | Inr i \<Rightarrow>
          if \<not> token_format (si_token i) then bad
          else
            stmt env 0 err s
              (case List.find (\<lambda>t. vt_tokenHash t = tc_hash (ev_tokens env) (si_token i) \<and> vt_type t = PasswordReset)
                      (id_vtokens s) of
                 None \<Rightarrow> bad
               | Some t \<Rightarrow>
                   if vt_status t \<noteq> VtPending then bad
                   else if ev_now env > vt_expiresAt t
                   then stmt env 1 err s (ErrorReply 400 ''Token expired'', set_vt (vt_id t) VtRevoked s)
                   else
                     stmt env 1 err s
                       (if \<exists>u \<in> set (id_users s). us_id u = vt_userId t
                        then (MessageReply 200 ''Password reset successful'',
                              reset_tx env c t (ev_bcrypt env (si_newPassword i)) s)
                        else (ErrorReply 500 err, s))))"

section \<open>One-time codes\<close>

record otp_input =
  oi_phone :: string
  oi_deviceId :: "string option"

definition neutral_otp :: auth_reply where
  "neutral_otp = MessageReply 200 ''If this phone number is registered, a verification code has been sent.''"

definition otp_purpose_of :: "client \<Rightarrow> otp_purpose" where
  "otp_purpose_of c = (if user_id (cl_user c) = None then PurposeLogin else PurposePhoneVerification)"

text \<open>Who the code is for, or the reply that ends the request.\<close>

definition otp_target :: "client \<Rightarrow> string \<Rightarrow> identity_db \<Rightarrow> auth_reply + ident" where
  "otp_target c phone s =
     (case user_id (cl_user c) of
        Some i \<Rightarrow>
          if \<exists>u \<in> set (id_users s). us_phone u = Some phone \<and> us_phoneVerifiedAt u \<noteq> None \<and> us_id u \<noteq> i
          then Inl (ErrorReply 409 ''Phone number is already verified on another account'')
          else Inr i
      | None \<Rightarrow>
          (case List.find (\<lambda>u. us_phone u = Some phone) (id_users s) of
             None \<Rightarrow> Inl neutral_otp
           | Some u \<Rightarrow> if us_phoneVerifiedAt u = None \<or> us_status u \<noteq> StActive then Inl neutral_otp else Inr (us_id u)))"

definition requestOtp :: "auth_env \<Rightarrow> client \<Rightarrow> json + otp_input \<Rightarrow> identity_db \<Rightarrow> auth_reply \<times> identity_db" where
  "requestOtp env c body s =
     (let err = ''Internal server error''; now = ev_now env; purpose = otp_purpose_of c in
      validated body s (\<lambda>i.
        case normalizePhone (oi_phone i) of
          None \<Rightarrow> (ErrorReply 400 ''Phone number must be in E.164 format, e.g. +2348012345678'', s)
        | Some phone \<Rightarrow>
            (let device = (if oi_deviceId i = Some [] then None else oi_deviceId i) in
             if (case device of None \<Rightarrow> False | Some d \<Rightarrow> isDeviceOtpLimited now d s) then (too_many, s)
             else
               (case isRateLimited now (''otp:phone:'' @ purpose_name purpose @ '':'' @ phone) OTP_PHONE_COOLDOWN_MS s of
                  (True, s1) \<Rightarrow> (too_many, s1)
                | (False, s1) \<Rightarrow>
                    if isPhoneOtpLimited now phone purpose s1 then (too_many, s1)
                    else
                      stmt env 0 err s1
                        (case otp_target c phone s1 of
                           Inl r \<Rightarrow> (r, s1)
                         | Inr target \<Rightarrow>
                             (let s2 = recordPhoneOtpRequest now phone purpose s1;
                                  s3 = (case device of None \<Rightarrow> s2 | Some d \<Rightarrow> recordDeviceOtpRequest now d s2) in
                              stmt env 1 err s3
                                (if purpose = PurposePhoneVerification then MessageReply 200 ''Verification code sent.''
                                 else neutral_otp,
                                 s3\<lparr>id_otps := requestChallenge (ev_otpHash env) now (ev_otpDrawn env) (ev_otpId env) phone
                                       purpose target (Some (getClientIP (cl_address c))) (oi_deviceId i) (id_otps s3)\<rparr>)))))))"

record otp_check =
  ov_phone :: string
  ov_code :: string

definition verifyOtp :: "auth_env \<Rightarrow> client \<Rightarrow> json + otp_check \<Rightarrow> identity_db \<Rightarrow> auth_reply \<times> identity_db" where
  "verifyOtp env c body s =
     (let err = ''Internal server error''; now = ev_now env; purpose = otp_purpose_of c in
      validated body s (\<lambda>i.
        case normalizePhone (ov_phone i) of
          None \<Rightarrow> (ErrorReply 400 ''Invalid or expired code'', s)
        | Some phone \<Rightarrow>
            stmt env 0 err s
              (case verifyChallenge (ev_otpHash env) now phone (ov_code i) purpose (user_id (cl_user c)) (id_otps s) of
                 (Inl OtpIsLocked, rows) \<Rightarrow> (ErrorReply 429 ''Too many attempts. Please request a new code.'', s\<lparr>id_otps := rows\<rparr>)
               | (Inl _, rows) \<Rightarrow> (ErrorReply 400 ''Invalid or expired code'', s\<lparr>id_otps := rows\<rparr>)
               | (Inr userId, rows) \<Rightarrow>
                   (let s1 = s\<lparr>id_otps := rows\<rparr> in
                    if purpose = PurposePhoneVerification then
                      stmt env 1 err s1
                        (if (\<exists>u \<in> set (id_users s1). us_id u = userId)
                            \<and> \<not> (\<exists>u \<in> set (id_users s1). us_id u \<noteq> userId \<and> us_phone u = Some phone)
                         then (MessageReply 200 ''Phone number verified successfully'',
                               update_user userId (\<lambda>u. u\<lparr>us_phone := Some phone, us_phoneVerifiedAt := Some now\<rparr>) s1)
                         else (ErrorReply 500 err, s1))
                    else
                      stmt env 1 err s1
                        (case find_account userId (id_users s1) of
                           None \<Rightarrow> (ErrorReply 401 ''Invalid credentials'', s1)
                         | Some u \<Rightarrow>
                             if us_status u = StPendingDeletion \<and> ev_fault env = Some 2 then (ErrorReply 500 err, s1)
                             else
                               (case getAccountStatusError u s1 of
                                  Some r \<Rightarrow> (r, s1)
                                | None \<Rightarrow>
                                    stmt env 2 err s1
                                      (start_session env 3 200 ''Login successful'' err u c
                                        (update_user (us_id u) (\<lambda>v. v\<lparr>us_lastLoginAt := Some now\<rparr>) s1))))))))"

end
