(* ===== verification/AuthProps.thy ===== *)
theory AuthProps
  imports Auth SessionProps
begin

text \<open>
  What the authentication controller promises, and where it does not keep it.
\<close>

section \<open>Limits\<close>

definition window_hits :: "string \<Rightarrow> windows \<Rightarrow> nat" where
  "window_hits key m = (case m key of None \<Rightarrow> 0 | Some w \<Rightarrow> wn_count w)"

definition window_closes :: "string \<Rightarrow> windows \<Rightarrow> time option" where
  "window_closes key m = map_option wn_resetAt (m key)"

lemma window_count_open:
  "\<lbrakk>window_closes key m = Some e; now \<le> e\<rbrakk> \<Longrightarrow>
     window_closes key (window_count w now key m) = Some e
     \<and> window_hits key (window_count w now key m) = Suc (window_hits key m)
     \<and> (window_full limit now key m \<longleftrightarrow> limit \<le> window_hits key m)"
  by (auto simp: window_closes_def window_hits_def window_count_def window_full_def window_over_def)

lemma window_count_closed:
  "(\<And>e. window_closes key m = Some e \<Longrightarrow> e < now) \<Longrightarrow>
     window_closes key (window_count w now key m) = Some (now + w) \<and> window_hits key (window_count w now key m) = 1"
  by (auto simp: window_closes_def window_hits_def window_count_def window_over_def split: option.splits)

lemma window_count_other:
  "k \<noteq> key \<Longrightarrow> window_closes key (window_count w now k m) = window_closes key m
     \<and> window_hits key (window_count w now k m) = window_hits key m"
  by (simp add: window_closes_def window_hits_def window_count_def)

text \<open>The requests of one client to one route, as the middleware counts them.\<close>

definition rate_hits :: "string \<Rightarrow> rate_store \<Rightarrow> nat" where
  "rate_hits key m = (case m key of None \<Rightarrow> 0 | Some d \<Rightarrow> rd_count d)"

interpretation route_limit: fixed_window "\<lambda>now. rate_limit opts now key" "\<lambda>now. now"
    "rate_hits key" "\<lambda>m. map_option rd_resetTime (m key)" "ro_max opts" "ro_windowMs opts"
  by unfold_locales
    (auto simp: rate_limit_def rate_hits_def Let_def split: if_splits option.splits)

definition reset_tokens :: "ident \<Rightarrow> identity_db \<Rightarrow> nat" where
  "reset_tokens uid s = count_where (\<lambda>t. vt_userId t = uid \<and> vt_type t = PasswordReset) (id_vtokens s)"

lemma isRateLimited_frame:
  "isRateLimited now key w s = (b, s') \<Longrightarrow> s' = s\<lparr>id_cooldowns := id_cooldowns s'\<rparr>"
  by (auto simp: isRateLimited_def split: option.splits if_splits)

lemma count_update_where:
  "(\<And>r. p r \<Longrightarrow> q (f r) = q r) \<Longrightarrow> count_where q (update_where p f rows) = count_where q rows"
  by (induction rows) auto

definition reset_unchanged :: "identity_db \<Rightarrow> identity_db \<Rightarrow> bool" where
  "reset_unchanged s s' \<longleftrightarrow> id_resetRequests s' = id_resetRequests s \<and> (\<forall>uid. reset_tokens uid s' = reset_tokens uid s)"

definition reset_sent :: "time \<Rightarrow> ident \<Rightarrow> identity_db \<Rightarrow> identity_db \<Rightarrow> bool" where
  "reset_sent now i s s' \<longleftrightarrow>
     id_resetRequests s' = window_count RESET_PASSWORD_ACCOUNT_WINDOW_MS now i (id_resetRequests s)
     \<and> (\<forall>uid. reset_tokens uid s' = reset_tokens uid s + (if uid = i then 1 else 0))"

lemma reset_tokens_revoke [simp]: "reset_tokens uid (revoke_pending p s) = reset_tokens uid s"
  by (simp add: reset_tokens_def revoke_pending_def count_update_where)

lemma forgot_send_cases:
  "forgot_send env u email s = (r, s') \<Longrightarrow> reset_unchanged s s' \<or> reset_sent (ev_now env) (us_id u) s s'"
  by (auto simp: forgot_send_def Let_def stmt_def reset_unchanged_def reset_sent_def queue_mail_def
      recordResetPasswordAccountRequest_def revoke_pending_def reset_tokens_def new_vtoken_def count_update_where
      split: if_splits)

lemma forgot_split:
  assumes "forgotPassword env c body s = (r, s')"
  shows "(\<exists>x. s' = s\<lparr>id_cooldowns := x\<rparr>)
    \<or> (\<exists>email u x. body = Inr email \<and> find_by_email email s = Some u
        \<and> \<not> isResetPasswordAccountLimited (ev_now env) (us_id u) s
        \<and> forgot_send env u email (s\<lparr>id_cooldowns := x\<rparr>) = (r, s'))"
proof (cases body)
  case (Inl e)
  with assms have "s' = s\<lparr>id_cooldowns := id_cooldowns s\<rparr>" by (simp add: forgotPassword_def)
  then show ?thesis by blast
next
  case (Inr email)
  let ?now = "ev_now env"
  obtain b1 s1 where one: "isRateLimited ?now (''reset:ip:'' @ getClientIP (cl_address c)) RESET_PASSWORD_COOLDOWN_MS s = (b1, s1)"
    by fastforce
  obtain x where s1: "s1 = s\<lparr>id_cooldowns := x\<rparr>" using isRateLimited_frame [OF one] by blast
  have same: "find_by_email email s1 = find_by_email email s"
    "isResetPasswordAccountLimited ?now i s1 = isResetPasswordAccountLimited ?now i s" for i
    by (simp_all add: s1 find_by_email_def isResetPasswordAccountLimited_def)
  have eq0: "(if b1 then (too_many, s1) else if ev_fault env = Some 0 then (ErrorReply 500 ''Internal server error'', s1)
      else case find_by_email email s1 of
         None \<Rightarrow> (neutral_reset, s1)
       | Some u \<Rightarrow>
           if isResetPasswordAccountLimited ?now (us_id u) s1 then (too_many, s1)
           else (case isRateLimited ?now (''reset:user:'' @ us_id u) RESET_PASSWORD_COOLDOWN_MS s1 of
                   (True, s2) \<Rightarrow> (too_many, s2) | (False, s2) \<Rightarrow> forgot_send env u email s2)) = (r, s')"
    using assms one by (cases b1) (simp_all add: forgotPassword_def Inr Let_def stmt_def)
  note eq = eq0 [unfolded same]
  show ?thesis
  proof (cases "\<exists>u. \<not> b1 \<and> ev_fault env \<noteq> Some 0 \<and> find_by_email email s = Some u \<and> \<not> isResetPasswordAccountLimited ?now (us_id u) s")
    case False
    with eq have "s' = s1" by (auto split: option.splits if_splits)
    with s1 show ?thesis by blast
  next
    case True
    then obtain u where u: "\<not> b1" "ev_fault env \<noteq> Some 0" "find_by_email email s = Some u"
      "\<not> isResetPasswordAccountLimited ?now (us_id u) s" by blast
    obtain b2 s2 where two: "isRateLimited ?now (''reset:user:'' @ us_id u) RESET_PASSWORD_COOLDOWN_MS s1 = (b2, s2)"
      by fastforce
    obtain y where "s2 = s1\<lparr>id_cooldowns := y\<rparr>" using isRateLimited_frame [OF two] by blast
    with s1 have s2: "s2 = s\<lparr>id_cooldowns := y\<rparr>" by simp
    show ?thesis
    proof (cases b2)
      case True
      with eq u two s2 show ?thesis by auto
    next
      case False
      with eq u two have "forgot_send env u email s2 = (r, s')" by simp
      with u Inr s2 show ?thesis by blast
    qed
  qed
qed

lemma forgot_cases:
  assumes "forgotPassword env c body s = (r, s')"
  shows "reset_unchanged s s'
    \<or> (\<exists>i. \<not> isResetPasswordAccountLimited (ev_now env) i s \<and> reset_sent (ev_now env) i s s')"
  using forgot_split [OF assms]
proof (elim disjE exE conjE)
  fix x assume "s' = s\<lparr>id_cooldowns := x\<rparr>"
  then show ?thesis by (simp add: reset_unchanged_def reset_tokens_def)
next
  fix email u x
  assume u: "\<not> isResetPasswordAccountLimited (ev_now env) (us_id u) s" and "forgot_send env u email (s\<lparr>id_cooldowns := x\<rparr>) = (r, s')"
  from forgot_send_cases [OF this(2)]
  have "reset_unchanged s s' \<or> reset_sent (ev_now env) (us_id u) s s'"
    by (simp add: reset_unchanged_def reset_sent_def reset_tokens_def)
  with u show ?thesis by blast
qed

text \<open>One request to the route, and whether it made a reset token for the user.\<close>

type_synonym forgot_request = "auth_env \<times> client \<times> (json + string)"

definition forgot_request :: "ident \<Rightarrow> forgot_request \<Rightarrow> identity_db \<Rightarrow> bool \<times> identity_db" where
  "forgot_request uid q s =
     (let s' = snd (forgotPassword (fst q) (fst (snd q)) (snd (snd q)) s)
      in (reset_tokens uid s' \<noteq> reset_tokens uid s, s'))"

lemma forgot_request_cases:
  assumes "forgot_request uid q s = (b, s')"
  shows "\<not> b \<and> window_closes uid (id_resetRequests s') = window_closes uid (id_resetRequests s)
      \<and> window_hits uid (id_resetRequests s') = window_hits uid (id_resetRequests s)
    \<or> b \<and> \<not> window_full RESET_PASSWORD_ACCOUNT_LIMIT (ev_now (fst q)) uid (id_resetRequests s)
      \<and> id_resetRequests s' = window_count RESET_PASSWORD_ACCOUNT_WINDOW_MS (ev_now (fst q)) uid (id_resetRequests s)"
proof -
  obtain r where r: "forgotPassword (fst q) (fst (snd q)) (snd (snd q)) s = (r, s')"
    and b: "b \<longleftrightarrow> reset_tokens uid s' \<noteq> reset_tokens uid s"
    using assms by (cases "forgotPassword (fst q) (fst (snd q)) (snd (snd q)) s") (simp add: forgot_request_def)
  from forgot_cases [OF r] show ?thesis
  proof (elim disjE exE conjE)
    assume "reset_unchanged s s'"
    with b show ?thesis by (simp add: reset_unchanged_def)
  next
    fix i assume i: "\<not> isResetPasswordAccountLimited (ev_now (fst q)) i s" "reset_sent (ev_now (fst q)) i s s'"
    with b show ?thesis
      by (cases "i = uid") (auto simp: reset_sent_def isResetPasswordAccountLimited_def window_count_other)
  qed
qed

interpretation reset_limit: fixed_window "forgot_request uid" "\<lambda>q. ev_now (fst q)"
    "\<lambda>s. window_hits uid (id_resetRequests s)" "\<lambda>s. window_closes uid (id_resetRequests s)"
    RESET_PASSWORD_ACCOUNT_LIMIT RESET_PASSWORD_ACCOUNT_WINDOW_MS
proof
  fix s e and q :: forgot_request and b s'
  assume o: "window_closes uid (id_resetRequests s) = Some e" "ev_now (fst q) \<le> e" and r: "forgot_request uid q s = (b, s')"
  show "window_closes uid (id_resetRequests s') = Some e
      \<and> window_hits uid (id_resetRequests s) \<le> window_hits uid (id_resetRequests s')
      \<and> (b \<longrightarrow> window_hits uid (id_resetRequests s) < RESET_PASSWORD_ACCOUNT_LIMIT
              \<and> window_hits uid (id_resetRequests s) < window_hits uid (id_resetRequests s'))"
    using forgot_request_cases [OF r] o
      window_count_open [OF o, where w = RESET_PASSWORD_ACCOUNT_WINDOW_MS and limit = RESET_PASSWORD_ACCOUNT_LIMIT]
    by (elim disjE) (simp_all add: not_le)
next
  fix s and q :: forgot_request and b s'
  assume c: "\<And>e. window_closes uid (id_resetRequests s) = Some e \<Longrightarrow> e < ev_now (fst q)"
    and r: "forgot_request uid q s = (b, s')"
  show "\<not> b \<and> window_closes uid (id_resetRequests s') = window_closes uid (id_resetRequests s)
        \<and> window_hits uid (id_resetRequests s') = window_hits uid (id_resetRequests s)
      \<or> window_closes uid (id_resetRequests s') = Some (ev_now (fst q) + RESET_PASSWORD_ACCOUNT_WINDOW_MS)
        \<and> 1 \<le> window_hits uid (id_resetRequests s')"
    using forgot_request_cases [OF r] window_count_closed [OF c, where w = RESET_PASSWORD_ACCOUNT_WINDOW_MS]
    by (elim disjE) simp_all
qed

fun forgot_run :: "forgot_request list \<Rightarrow> identity_db \<Rightarrow> identity_db" where
  "forgot_run [] s = s"
| "forgot_run (q # qs) s = forgot_run qs (snd (forgotPassword (fst q) (fst (snd q)) (snd (snd q)) s))"

lemma forgot_run_tokens:
  "reset_tokens uid (forgot_run qs s) \<le> reset_tokens uid s + admissions (forgot_request uid) qs s"
proof (induction qs arbitrary: s)
  case (Cons q qs)
  obtain r s' where r: "forgotPassword (fst q) (fst (snd q)) (snd (snd q)) s = (r, s')" by fastforce
  then have step: "forgot_request uid q s = (reset_tokens uid s' \<noteq> reset_tokens uid s, s')"
    by (simp add: forgot_request_def)
  from forgot_cases [OF r]
  have "reset_tokens uid s' \<le> reset_tokens uid s + (if reset_tokens uid s' \<noteq> reset_tokens uid s then 1 else 0)"
    by (auto simp: reset_unchanged_def reset_sent_def)
  with Cons.IH [of s'] r step show ?case by simp
qed simp

text \<open>
  Whoever asks, from whatever addresses and however often: within any 24 hours the route that sends reset
  mails makes at most six tokens for an account (its window of three is not aligned, so two windows can touch).
\<close>

theorem reset_mails_bounded:
  assumes "list_all (\<lambda>q. t0 \<le> ev_now (fst q) \<and> ev_now (fst q) \<le> t0 + RESET_PASSWORD_ACCOUNT_WINDOW_MS) qs"
  shows "reset_tokens uid (forgot_run qs s) \<le> reset_tokens uid s + 6"
  using forgot_run_tokens [of uid qs s] reset_limit.interval_bound [OF assms, of uid s]
  by (simp add: RESET_PASSWORD_ACCOUNT_LIMIT_def)

abbreviation demo_account :: account_row where
  "demo_account \<equiv> \<lparr>us_id = ''u'', us_email = ''a@b.c'', us_username = ''ann'', us_password = ''old'', us_walletAddress = None,
     us_isVerified = True, us_phone = None, us_phoneVerifiedAt = None, us_status = StActive, us_statusChangedAt = None,
     us_lastLoginAt = None, acc_role = RoleLearner, acc_createdAt = 0\<rparr>"

abbreviation demo_identity :: identity_db where
  "demo_identity \<equiv> \<lparr>id_users = [demo_account], id_vtokens = [], id_auth = demo_auth [] [], id_otps = [], id_emails = [],
     id_outbox = \<lparr>events = [], jobs = [], rolledBack = []\<rparr>, id_resets = [], id_deletions = [], id_cooldowns = (\<lambda>_. None), id_resends = (\<lambda>_. None),
     id_resetRequests = (\<lambda>_. None), id_phones = (\<lambda>_. None), id_devices = (\<lambda>_. None)\<rparr>"

abbreviation demo_auth_env :: "time \<Rightarrow> auth_env" where
  "demo_auth_env now \<equiv> \<lparr>ev_now = now, ev_tokens = demo_tc, ev_bcrypt = (#) (CHR ''#''), ev_compare = (\<lambda>p h. h = CHR ''#'' # p),
     ev_saltRounds = None, ev_sessionIds = demo_ids, ev_newUserId = ''u2'', ev_newTokenId = ''t'', ev_newMailId = ''m'',
     ev_rawToken = replicate 64 (CHR ''a''), ev_eventRnd = ''r'', ev_refreshId = ''f2'', ev_refreshRaw = ''raw2'',
     ev_otpHash = (\<lambda>c p. c), ev_otpId = ''o'', ev_otpDrawn = 7, ev_verificationUrl = None, ev_resetUrl = None,
     ev_mailFails = False, ev_fault = None\<rparr>"

abbreviation demo_client :: "string \<Rightarrow> client" where
  "demo_client ip \<equiv> \<lparr>cl_address = \<lparr>ca_forwardedFor = None, ca_realIp = Some ip, ca_remote = None\<rparr>, cl_userAgent = None,
     cl_cookie = None, cl_user = None\<rparr>"

theorem reset_mails_bounded_witness:
  "reset_tokens ''u'' (forgot_run [(demo_auth_env 0, demo_client ''1'', Inr ''a@b.c''),
       (demo_auth_env 60000, demo_client ''2'', Inr ''a@b.c''), (demo_auth_env 120000, demo_client ''3'', Inr ''a@b.c''),
       (demo_auth_env 180000, demo_client ''4'', Inr ''a@b.c'')] demo_identity) \<le> 6"
  using reset_mails_bounded [of 0 "[(demo_auth_env 0, demo_client ''1'', Inr ''a@b.c''),
       (demo_auth_env 60000, demo_client ''2'', Inr ''a@b.c''), (demo_auth_env 120000, demo_client ''3'', Inr ''a@b.c''),
       (demo_auth_env 180000, demo_client ''4'', Inr ''a@b.c'')]" "''u''" demo_identity]
  by (simp add: RESET_PASSWORD_ACCOUNT_WINDOW_MS_def reset_tokens_def del: forgot_run.simps)

section \<open>Resetting a password\<close>

lemma find_account_update:
  "find_account i (id_users (update_user j f s)) =
     (if i = j then map_option f (find_account i (id_users s)) else find_account i (id_users s))"
  if "\<And>u. us_id (f u) = us_id u"
proof -
  have "find_account i (update_where (\<lambda>u. us_id u = j) f us) =
      (if i = j then map_option f (find_account i us) else find_account i us)" for us
    by (induction us) (auto simp: find_account_def that)
  then show ?thesis by (simp add: update_user_def)
qed

lemma reset_success:
  assumes "resetPassword env c (Inr i) s = (MessageReply 200 m, s')"
  obtains t where "List.find (\<lambda>t. vt_tokenHash t = tc_hash (ev_tokens env) (si_token i) \<and> vt_type t = PasswordReset) (id_vtokens s) = Some t"
    and "vt_status t = VtPending" and "ev_now env \<le> vt_expiresAt t" and "\<exists>u \<in> set (id_users s). us_id u = vt_userId t"
    and "s' = reset_tx env c t (ev_bcrypt env (si_newPassword i)) s"
  using assms
  by (auto simp: resetPassword_def stmt_def Let_def split: if_splits option.splits)

lemma rotate_revoked:
  assumes "find_session (rt_sessionId t) db = Some x" and "ss_isRevoked x" and "find_token (tc_hash tc raw) db = Some t"
  shows "fst (rotate tc now nid nraw raw ctx db) \<in> {Inr RotReuse, Inr RotRevoked, Inr RotExpired}"
  using assms by (auto simp: rotate_def rotate_decide_def Let_def)

lemma refresh_revoked:
  assumes "\<And>t x. find_token (tc_hash (ev_tokens env) raw) (session_db s) = Some t \<Longrightarrow>
      find_session (rt_sessionId t) (session_db s) = Some x \<Longrightarrow> ss_isRevoked x"
    and "readRefreshToken decode bodyToken c = Some raw"
  shows "reply_status (fst (refresh env decode c (Inr bodyToken) s)) \<noteq> 200"
proof -
  obtain r a where rot: "rotate (ev_tokens env) (ev_now env) (ev_refreshId env) (ev_refreshRaw env) raw (clientContext c) (session_db s) = (r, a)"
    by fastforce
  have "r = Inl SessionMissing \<or> r = Inr RotInvalid \<or> r \<in> {Inr RotReuse, Inr RotRevoked, Inr RotExpired}"
  proof (cases "find_token (tc_hash (ev_tokens env) raw) (session_db s)")
    case None
    with rot show ?thesis by (simp add: rotate_def)
  next
    case (Some t)
    show ?thesis
    proof (cases "find_session (rt_sessionId t) (session_db s)")
      case None
      with Some rot show ?thesis by (simp add: rotate_def)
    next
      case (Some x)
      with assms(1) \<open>find_token _ _ = Some t\<close> rotate_revoked [of t "session_db s" x "ev_tokens env" raw] rot
      show ?thesis by (metis fst_conv)
    qed
  qed
  with rot assms(2) show ?thesis
    by (auto simp: refresh_def with_refresh_token_def stmt_def Let_def)
qed

lemma reset_tx_tokens:
  "t' \<in> set (id_vtokens (reset_tx env c t h s)) \<Longrightarrow> vt_userId t' = vt_userId t \<Longrightarrow> vt_status t' \<noteq> VtPending"
  by (auto simp: reset_tx_def Let_def revoke_pending_def update_user_def set_update_where split: if_splits)

lemma reset_tx_sessions:
  "x \<in> set (ad_sessions (id_auth (reset_tx env c t h s))) \<Longrightarrow> ss_userId x = vt_userId t \<Longrightarrow> ss_isRevoked x"
  by (auto simp: reset_tx_def Let_def revoke_pending_def revoke_sessions_def update_user_def set_vt_def set_update_where
      mark_revoked_def split: if_splits)

lemma reset_tx_users: "id_users (reset_tx env c t h s) = id_users (update_user (vt_userId t) (\<lambda>u. u\<lparr>us_password := h\<rparr>) s)"
  by (simp add: reset_tx_def Let_def revoke_pending_def update_user_def set_vt_def)

lemma reset_tx_find:
  "List.find (\<lambda>t. vt_tokenHash t = h \<and> vt_type t = PasswordReset) (id_vtokens s) = Some t \<Longrightarrow>
   \<exists>t'. List.find (\<lambda>t. vt_tokenHash t = h \<and> vt_type t = PasswordReset) (id_vtokens (reset_tx env c t p s)) = Some t'
     \<and> vt_userId t' = vt_userId t"
proof -
  have "List.find (\<lambda>t. vt_tokenHash t = h \<and> vt_type t = PasswordReset) ts = Some t \<Longrightarrow>
      \<exists>t'. List.find (\<lambda>t. vt_tokenHash t = h \<and> vt_type t = PasswordReset)
             (update_where (\<lambda>x. vt_userId x = vt_userId t \<and> vt_status x = VtPending) (\<lambda>t. t\<lparr>vt_status := VtRevoked\<rparr>)
               (update_where (\<lambda>x. vt_id x = vt_id t) (\<lambda>t. t\<lparr>vt_status := VtUsed\<rparr>) ts)) = Some t'
         \<and> vt_userId t' = vt_userId t" for ts
    by (induction ts) (auto split: if_splits)
  then show "List.find (\<lambda>t. vt_tokenHash t = h \<and> vt_type t = PasswordReset) (id_vtokens s) = Some t \<Longrightarrow> ?thesis"
    by (simp add: reset_tx_def Let_def revoke_pending_def update_user_def set_vt_def)
qed

text \<open>
  C4. A password reset locks everybody else out: it needs a pending, unexpired token of the account, the account
  (and no other) has the new password afterwards, all its sessions are revoked so that none of their refresh
  tokens is exchanged any more, no other mailed token of the account stays usable, and the same link does not
  work twice.
\<close>

theorem reset_locks_out:
  assumes "resetPassword env c (Inr i) s = (MessageReply 200 m, s')"
  shows "\<exists>t. t \<in> set (id_vtokens s) \<and> vt_tokenHash t = tc_hash (ev_tokens env) (si_token i) \<and> vt_type t = PasswordReset
      \<and> vt_status t = VtPending \<and> ev_now env \<le> vt_expiresAt t
    \<and> (\<forall>j. find_account j (id_users s') = (if j = vt_userId t
            then map_option (\<lambda>u. u\<lparr>us_password := ev_bcrypt env (si_newPassword i)\<rparr>) (find_account j (id_users s))
            else find_account j (id_users s)))
    \<and> (\<forall>x \<in> set (ad_sessions (id_auth s')). ss_userId x = vt_userId t \<longrightarrow> ss_isRevoked x)
    \<and> (\<forall>x \<in> set (id_vtokens s'). vt_userId x = vt_userId t \<longrightarrow> vt_status x \<noteq> VtPending)
    \<and> (\<forall>env' decode c' body raw tok x. readRefreshToken decode body c' = Some raw
          \<and> find_token (tc_hash (ev_tokens env') raw) (session_db s') = Some tok
          \<and> find_session (rt_sessionId tok) (session_db s') = Some x \<and> ss_userId x = vt_userId t
        \<longrightarrow> reply_status (fst (refresh env' decode c' (Inr body) s')) \<noteq> 200)
    \<and> (\<forall>env' c'. tc_hash (ev_tokens env') = tc_hash (ev_tokens env)
        \<longrightarrow> reply_status (fst (resetPassword env' c' (Inr i) s')) \<noteq> 200)"
proof -
  from reset_success [OF assms] obtain t where
    t: "List.find (\<lambda>t. vt_tokenHash t = tc_hash (ev_tokens env) (si_token i) \<and> vt_type t = PasswordReset) (id_vtokens s) = Some t"
      "vt_status t = VtPending" "ev_now env \<le> vt_expiresAt t" "s' = reset_tx env c t (ev_bcrypt env (si_newPassword i)) s"
    by blast
  have users: "\<forall>j. find_account j (id_users s') = (if j = vt_userId t
      then map_option (\<lambda>u. u\<lparr>us_password := ev_bcrypt env (si_newPassword i)\<rparr>) (find_account j (id_users s))
      else find_account j (id_users s))"
    by (simp add: t(4) reset_tx_users find_account_update)
  have sessions: "\<forall>x \<in> set (ad_sessions (id_auth s')). ss_userId x = vt_userId t \<longrightarrow> ss_isRevoked x"
    using reset_tx_sessions t(4) by blast
  have tokens: "\<forall>x \<in> set (id_vtokens s'). vt_userId x = vt_userId t \<longrightarrow> vt_status x \<noteq> VtPending"
    using reset_tx_tokens t(4) by blast
  have "reply_status (fst (refresh env' decode c' (Inr body) s')) \<noteq> 200"
    if "readRefreshToken decode body c' = Some raw" "find_token (tc_hash (ev_tokens env') raw) (session_db s') = Some tok"
      "find_session (rt_sessionId tok) (session_db s') = Some x" "ss_userId x = vt_userId t"
    for env' decode c' body raw tok x
  proof (rule refresh_revoked [OF _ that(1)])
    have "x \<in> set (ad_sessions (id_auth s'))"
      using that(3) find_Some by (fastforce simp: find_session_def session_db_def)
    then show "ss_isRevoked y" if "find_token (tc_hash (ev_tokens env') raw) (session_db s') = Some t'"
        "find_session (rt_sessionId t') (session_db s') = Some y" for t' y
      using that sessions \<open>find_token _ _ = Some tok\<close> \<open>find_session _ _ = Some x\<close> \<open>ss_userId x = _\<close> by simp
  qed
  moreover have "reply_status (fst (resetPassword env' c' (Inr i) s')) \<noteq> 200"
    if same: "tc_hash (ev_tokens env') = tc_hash (ev_tokens env)" for env' c'
  proof -
    from reset_tx_find [OF t(1), of env c "ev_bcrypt env (si_newPassword i)"] t(4) obtain t' where
      f: "List.find (\<lambda>t. vt_tokenHash t = tc_hash (ev_tokens env') (si_token i) \<and> vt_type t = PasswordReset) (id_vtokens s') = Some t'"
      "vt_userId t' = vt_userId t" by (auto simp: same)
    with tokens have "vt_status t' \<noteq> VtPending" using find_Some by fastforce
    with f show ?thesis by (simp add: resetPassword_def stmt_def Let_def)
  qed
  moreover note find_Some [OF t(1)] t(2,3) users sessions tokens
  ultimately show ?thesis by (intro exI [of _ t] conjI) blast+
qed

abbreviation demo_link :: string where
  "demo_link \<equiv> replicate 64 (CHR ''a'')"

lemma demo_link_format: "token_format demo_link"
  by (simp add: token_format_def is_digit_def list_all_iff)

definition demo_reset :: identity_db where
  "demo_reset = demo_identity\<lparr>id_auth := demo_login, id_vtokens := [\<lparr>vt_id = ''t'', vt_userId = ''u'',
     vt_tokenHash = CHR ''#'' # demo_link, vt_type = PasswordReset, vt_status = VtPending, vt_expiresAt = 1800000, vt_createdAt = 0\<rparr>]\<rparr>"

definition demo_after_reset :: identity_db where
  "demo_after_reset = snd (resetPassword (demo_auth_env 10) (demo_client ''1'')
     (Inr \<lparr>si_token = demo_link, si_newPassword = ''new''\<rparr>) demo_reset)"

lemma demo_reset_run:
  "resetPassword (demo_auth_env 10) (demo_client ''1'') (Inr \<lparr>si_token = demo_link, si_newPassword = ''new''\<rparr>) demo_reset
     = (MessageReply 200 ''Password reset successful'', demo_after_reset)"
  by (rule prod_eqI) (simp_all add: demo_after_reset_def resetPassword_def demo_link_format stmt_def demo_reset_def)

theorem reset_locks_out_witness:
  "fst (resetPassword (demo_auth_env 10) (demo_client ''1'') (Inr \<lparr>si_token = demo_link, si_newPassword = ''new''\<rparr>) demo_reset)
     = MessageReply 200 ''Password reset successful''
   \<and> map_option us_password (find_account ''u'' (id_users demo_after_reset)) = Some ''#new''
   \<and> reply_status (fst (refresh (demo_auth_env 20) Some (demo_client ''1'') (Inr (Some ''raw'')) demo_after_reset)) \<noteq> 200
   \<and> reply_status (fst (resetPassword (demo_auth_env 20) (demo_client ''1'')
        (Inr \<lparr>si_token = demo_link, si_newPassword = ''new''\<rparr>) demo_after_reset)) \<noteq> 200"
proof -
  have after: "id_users demo_after_reset = [demo_account\<lparr>us_password := ''#new''\<rparr>]"
    "id_auth demo_after_reset = revoke_sessions 10 (\<lambda>x. ss_userId x = ''u'') demo_login"
    by (simp_all add: demo_after_reset_def resetPassword_def demo_link_format stmt_def demo_reset_def reset_tx_def Let_def
        update_user_def set_vt_def revoke_pending_def)
  from reset_locks_out [OF demo_reset_run] obtain t where t: "t \<in> set (id_vtokens demo_reset)"
    and refused: "\<And>env' decode c' body raw tok x. readRefreshToken decode body c' = Some raw
          \<and> find_token (tc_hash (ev_tokens env') raw) (session_db demo_after_reset) = Some tok
          \<and> find_session (rt_sessionId tok) (session_db demo_after_reset) = Some x \<and> ss_userId x = vt_userId t
        \<Longrightarrow> reply_status (fst (refresh env' decode c' (Inr body) demo_after_reset)) \<noteq> 200"
    and again: "\<And>env' c'. tc_hash (ev_tokens env') = tc_hash (ev_tokens (demo_auth_env 10))
        \<Longrightarrow> reply_status (fst (resetPassword env' c' (Inr \<lparr>si_token = demo_link, si_newPassword = ''new''\<rparr>) demo_after_reset)) \<noteq> 200"
    by blast
  from t have "vt_userId t = ''u''" by (simp add: demo_reset_def)
  with refused [of Some "Some ''raw''" "demo_client ''1''" "''raw''" "demo_auth_env 20" "demo_token ''r1'' ''raw'' TokActive 1000"
      "mark_revoked 10 (demo_session (''uL'' @ show_int 0) None)"]
  have "reply_status (fst (refresh (demo_auth_env 20) Some (demo_client ''1'') (Inr (Some ''raw'')) demo_after_reset)) \<noteq> 200"
    by (simp add: readRefreshToken_def find_token_def find_session_def session_db_def after revoke_sessions_def mark_revoked_def)
  moreover have "reply_status (fst (resetPassword (demo_auth_env 20) (demo_client ''1'')
        (Inr \<lparr>si_token = demo_link, si_newPassword = ''new''\<rparr>) demo_after_reset)) \<noteq> 200"
    by (rule again) simp
  ultimately show ?thesis by (simp add: demo_reset_run after find_account_def)
qed

end
