(* ===== verification/AuthLimits.thy ===== *)
theory AuthLimits
  imports AuthProps
begin

text \<open>
  Where the authentication controller does not do what it means to: registration, repeated logins, what the
  answers reveal, and the tokens it mails.
\<close>

section \<open>Registration and login\<close>

text \<open>
  Nobody can register: every role the request schema accepts is a lower-case name that the database enum does not
  have, so the insertion throws. The answer is 409 or 500, and nothing is stored.
\<close>

theorem registration_always_rejected:
  assumes "ri_role i \<in> set USER_ROLES"
  shows "reply_status (fst (register env c (Inr i) s)) \<in> {409, 500} \<and> snd (register env c (Inr i) s) = s"
proof -
  from assms have "ri_role i \<noteq> [] \<and> stored_role (ri_role i) = None"
    unfolding USER_ROLES_def by (auto simp: stored_role_def)
  then have "register_tx env i s = None" by (simp add: register_tx_def)
  then show ?thesis by (simp add: register_def stmt_def Let_def del: bex_simps)
qed

theorem registration_always_rejected_witness:
  "reply_status (fst (register (demo_auth_env 0) (demo_client ''1'')
     (Inr \<lparr>ri_email = ''n@b.c'', ri_password = ''Passw0rd!'', ri_username = ''new'', ri_role = ''learner''\<rparr>) demo_identity)) \<in> {409, 500}"
  using registration_always_rejected [of "\<lparr>ri_email = ''n@b.c'', ri_password = ''Passw0rd!'', ri_username = ''new'', ri_role = ''learner''\<rparr>"
      "demo_auth_env 0" "demo_client ''1''" demo_identity]
  by (simp add: USER_ROLES_def)

lemma login_success:
  assumes "login env c (Inr i) s = (OkReply 200 m d, s')"
  obtains u r where "find_by_email (li_email i) s = Some u" and "ev_compare env (li_password i) (us_password u)"
    and "us_status u = StActive"
    and "issueSession (ev_tokens env) (ev_now env) (ev_sessionIds env)
           \<lparr>ip_userId = us_id u, ip_role = role_name (acc_role u), ip_userAgent = cl_userAgent c,
            ip_ipAddress = Some (getClientIP (cl_address c))\<rparr> (id_auth s) = (Inr r, id_auth s')"
    and "id_users s' = update_where (\<lambda>v. us_id v = us_id u)
           (\<lambda>v. v\<lparr>us_password := if needsRehash (ev_saltRounds env) (us_password u) then ev_bcrypt env (li_password i) else us_password v,
                  us_lastLoginAt := Some (ev_now env)\<rparr>) (id_users s)"
    and "id_deletions s' = id_deletions s"
proof -
  let ?err = "''Internal server error during login''"
  let ?s1 = "\<lambda>u. update_user (us_id u) (\<lambda>v. v\<lparr>us_password := if needsRehash (ev_saltRounds env) (us_password u)
      then ev_bcrypt env (li_password i) else us_password v, us_lastLoginAt := Some (ev_now env)\<rparr>) s"
  have eq: "(if ev_fault env = Some 0 then (ErrorReply 500 ?err, s)
      else case find_by_email (li_email i) s of
             None \<Rightarrow> (ErrorReply 401 ''Invalid credentials'', s)
           | Some u \<Rightarrow>
               if \<not> ev_compare env (li_password i) (us_password u) then (ErrorReply 401 ''Invalid credentials'', s)
               else if us_status u = StPendingDeletion \<and> ev_fault env = Some 1 then (ErrorReply 500 ?err, s)
               else (case getAccountStatusError u s of Some r \<Rightarrow> (r, s)
                     | None \<Rightarrow> if ev_fault env = Some 1 then (ErrorReply 500 ?err, s)
                               else start_session env 2 200 ''Login successful'' ?err u c (?s1 u))) = (OkReply 200 m d, s')"
    using assms unfolding login_def Let_def validated_simps stmt_def .
  then obtain u where u: "find_by_email (li_email i) s = Some u" by (cases "find_by_email (li_email i) s") (auto split: if_splits)
  with eq have cmp: "ev_compare env (li_password i) (us_password u)" by (rule_tac ccontr) (simp split: if_splits)
  from eq u cmp have none: "getAccountStatusError u s = None"
    by (cases "us_status u") (simp_all add: getAccountStatusError_def split: if_splits)
  then have st: "us_status u = StActive" by (cases "us_status u") (simp_all add: getAccountStatusError_def)
  from eq u cmp none have run: "start_session env 2 200 ''Login successful'' ?err u c (?s1 u) = (OkReply 200 m d, s')"
    by (simp split: if_splits)
  obtain res a where iss: "issueSession (ev_tokens env) (ev_now env) (ev_sessionIds env)
           \<lparr>ip_userId = us_id u, ip_role = role_name (acc_role u), ip_userAgent = cl_userAgent c,
            ip_ipAddress = Some (getClientIP (cl_address c))\<rparr> (id_auth s) = (res, a)" by fastforce
  have "id_auth (?s1 u) = id_auth s" by (simp add: update_user_def)
  with run iss have "s' = ?s1 u\<lparr>id_auth := a\<rparr> \<and> (\<exists>r. res = Inr r)"
    by (cases res) (simp_all add: start_session_def stmt_def split: if_splits)
  then obtain r where "s' = ?s1 u\<lparr>id_auth := a\<rparr>" "res = Inr r" by blast
  with iss show ?thesis by (intro that [OF u cmp st]) (simp_all add: update_user_def)
qed

lemma insert_session_row: "insert_session x a = (Inr r, a') \<Longrightarrow> x \<in> set (ad_sessions a')"
  unfolding insert_session_def by (cases "\<exists>r \<in> set (ad_sessions a). ss_id r = ss_id x \<or> ss_token r = ss_token x") auto

lemma issued_token_stored:
  assumes "issueSession tc now ids p a = (Inr r, a')"
  shows "\<exists>x \<in> set (ad_sessions a'). ss_token x = tc_sign tc (ip_userId p) (ip_role p) now"
proof -
  from assms have tx: "transaction (issue_tx tc now ids p) a = (Inr (), a')"
    by (cases "transaction (issue_tx tc now ids p) a") (auto simp: issueSession_def split: sum.splits)
  then have "issue_tx tc now ids p a = (Inr (), a')" by (auto dest: transaction_atomic)
  then obtain x a1 where "insert_session x a = (Inr (), a1)" "ss_token x = tc_sign tc (ip_userId p) (ip_role p) now"
    "ad_sessions a' = ad_sessions a1"
    unfolding issue_tx_def by (auto split: prod.splits sum.splits dest: insert_token_sessions)
  then show ?thesis by (metis insert_session_row)
qed

lemma token_taken:
  assumes "x \<in> set (ad_sessions a)" and "ss_token x = tc_sign tc (ip_userId p) (ip_role p) now"
  shows "issueSession tc now ids p a = (Inl AuthUniqueViolation, a)"
proof -
  have "insert_session y a = (Inl AuthUniqueViolation, a)" if "ss_token y = ss_token x" for y
    using assms(1) that unfolding insert_session_def by auto
  then have "issue_tx tc now ids p a = (Inl AuthUniqueViolation, a)" by (simp add: issue_tx_def assms(2))
  then show ?thesis by (simp add: issueSession_def transaction_def)
qed

lemma same_account:
  assumes "List.find (\<lambda>u. us_email u = e) us = Some v"
    and "List.find (\<lambda>u. us_email u = e) (update_where (\<lambda>w. us_id w = us_id v)
           (\<lambda>w. w\<lparr>us_password := f w, us_lastLoginAt := t\<rparr>) us) = Some (u :: account_row)"
  shows "us_id u = us_id v \<and> acc_role u = acc_role v \<and> us_status u = us_status v"
  using assms by (induction us) (auto split: if_splits)

text \<open>
  Two logins of a user within the same second: access tokens carry no random claim and their times are in seconds,
  so both sign the same token; the session column is unique, and the second login, with the right password, is answered 500.
\<close>

theorem repeated_login_fails:
  assumes "login env c (Inr i) s = (OkReply 200 m d, s1)" and "find_by_email (li_email i) s1 = Some u"
    and "ev_compare env' (li_password i) (us_password u)" and "ev_fault env' = None"
    and "tc_sign (ev_tokens env') (us_id u) (role_name (acc_role u)) (ev_now env')
           = tc_sign (ev_tokens env) (us_id u) (role_name (acc_role u)) (ev_now env)"
  shows "fst (login env' c' (Inr i) s1) = ErrorReply 500 ''Internal server error during login''"
proof -
  from login_success [OF assms(1)] obtain v r where v: "find_by_email (li_email i) s = Some v" "us_status v = StActive"
    and issue: "issueSession (ev_tokens env) (ev_now env) (ev_sessionIds env)
           \<lparr>ip_userId = us_id v, ip_role = role_name (acc_role v), ip_userAgent = cl_userAgent c,
            ip_ipAddress = Some (getClientIP (cl_address c))\<rparr> (id_auth s) = (Inr r, id_auth s1)"
    and users: "id_users s1 = update_where (\<lambda>w. us_id w = us_id v)
           (\<lambda>w. w\<lparr>us_password := if needsRehash (ev_saltRounds env) (us_password v) then ev_bcrypt env (li_password i) else us_password w,
                  us_lastLoginAt := Some (ev_now env)\<rparr>) (id_users s)" by blast
  have "us_id u = us_id v \<and> acc_role u = acc_role v \<and> us_status u = us_status v"
    by (rule same_account [OF v(1) [unfolded find_by_email_def] assms(2) [unfolded find_by_email_def users]])
  with v(2) have u: "us_id u = us_id v" "acc_role u = acc_role v" "us_status u = StActive" by auto
  from issued_token_stored [OF issue] obtain x where x: "x \<in> set (ad_sessions (id_auth s1))"
    "ss_token x = tc_sign (ev_tokens env') (us_id u) (role_name (acc_role u)) (ev_now env')"
    using assms(5) u(1,2) by auto
  have taken: "issueSession (ev_tokens env') (ev_now env') (ev_sessionIds env')
      \<lparr>ip_userId = us_id u, ip_role = role_name (acc_role u), ip_userAgent = cl_userAgent c',
       ip_ipAddress = Some (getClientIP (cl_address c'))\<rparr> (id_auth s1) = (Inl AuthUniqueViolation, id_auth s1)"
    by (rule token_taken [OF x(1)]) (simp add: x(2))
  have "getAccountStatusError u s1 = None" by (simp add: getAccountStatusError_def u(3))
  with taken show ?thesis
    unfolding login_def Let_def validated_simps stmt_def start_session_def by (simp add: assms(2-4) u(3) update_user_def)
qed

abbreviation second_tc :: token_config where
  "second_tc \<equiv> demo_tc\<lparr>tc_sign := \<lambda>u r t. u @ r @ show_int (t div 1000)\<rparr>"

abbreviation demo_ann :: account_row where
  "demo_ann \<equiv> demo_account\<lparr>us_password := ''#Pw''\<rparr>"

abbreviation demo_login_env :: "time \<Rightarrow> ident \<Rightarrow> auth_env" where
  "demo_login_env now i \<equiv> (demo_auth_env now)\<lparr>ev_tokens := second_tc,
     ev_sessionIds := \<lparr>fi_sessionId = i, fi_refreshTokenId = i, fi_familyId = i, fi_rawToken = i\<rparr>\<rparr>"

definition demo_logged_in :: identity_db where
  "demo_logged_in = snd (login (demo_login_env 100 ''s1'') (demo_client ''1'') (Inr \<lparr>li_email = ''a@b.c'', li_password = ''Pw''\<rparr>)
     (demo_identity\<lparr>id_users := [demo_ann]\<rparr>))"

theorem repeated_login_fails_witness:
  "reply_status (fst (login (demo_login_env 100 ''s1'') (demo_client ''1'') (Inr \<lparr>li_email = ''a@b.c'', li_password = ''Pw''\<rparr>)
     (demo_identity\<lparr>id_users := [demo_ann]\<rparr>))) = 200
   \<and> fst (login (demo_login_env 900 ''s2'') (demo_client ''1'') (Inr \<lparr>li_email = ''a@b.c'', li_password = ''Pw''\<rparr>) demo_logged_in)
     = ErrorReply 500 ''Internal server error during login''"
proof -
  let ?in = "Inr \<lparr>li_email = ''a@b.c'', li_password = ''Pw''\<rparr> :: json + login_input"
  have "needsRehash None ''#Pw''" by (simp add: needsRehash_def currentHashCost_def)
  then have run: "\<exists>d. login (demo_login_env 100 ''s1'') (demo_client ''1'') ?in (demo_identity\<lparr>id_users := [demo_ann]\<rparr>)
      = (OkReply 200 (Some ''Login successful'') d, demo_logged_in)
      \<and> id_users demo_logged_in = [demo_ann\<lparr>us_lastLoginAt := Some 100\<rparr>]"
    by (simp add: demo_logged_in_def login_def stmt_def Let_def find_by_email_def getAccountStatusError_def start_session_def
        issueSession_def issue_tx_def transaction_def insert_session_def insert_token_def update_user_def)
  then obtain d where d: "login (demo_login_env 100 ''s1'') (demo_client ''1'') ?in (demo_identity\<lparr>id_users := [demo_ann]\<rparr>)
      = (OkReply 200 (Some ''Login successful'') d, demo_logged_in)"
    and users: "id_users demo_logged_in = [demo_ann\<lparr>us_lastLoginAt := Some 100\<rparr>]" by blast
  have "fst (login (demo_login_env 900 ''s2'') (demo_client ''1'') ?in demo_logged_in)
      = ErrorReply 500 ''Internal server error during login''"
    by (rule repeated_login_fails [OF d, where u = "demo_ann\<lparr>us_lastLoginAt := Some 100\<rparr>"])
       (simp_all add: find_by_email_def users)
  with d show ?thesis by simp
qed

section \<open>What the answers reveal\<close>

text \<open>
  The neutral answer of the reset route gives the account away all the same: while the account cools down, a
  request from a fresh address is answered 429 for its e-mail address and 200 for one without an account.
\<close>

theorem forgot_reveals_account:
  assumes "find_by_email known s = Some u" and "find_by_email unknown s = None" and "ev_fault env = None"
    and "id_cooldowns s (''reset:ip:'' @ getClientIP (cl_address c)) = None"
    and "id_cooldowns s (''reset:user:'' @ us_id u) = Some t" and "ev_now env < t" and "0 < t"
    and "\<not> isResetPasswordAccountLimited (ev_now env) (us_id u) s"
  shows "fst (forgotPassword env c (Inr known) s) = too_many \<and> fst (forgotPassword env c (Inr unknown) s) = neutral_reset"
proof -
  let ?s1 = "s\<lparr>id_cooldowns := (id_cooldowns s)(''reset:ip:'' @ getClientIP (cl_address c) \<mapsto> ev_now env + RESET_PASSWORD_COOLDOWN_MS)\<rparr>"
  have one: "isRateLimited (ev_now env) (''reset:ip:'' @ getClientIP (cl_address c)) RESET_PASSWORD_COOLDOWN_MS s = (False, ?s1)"
    using assms(4) unfolding isRateLimited_def by simp
  have "''reset:user:'' @ us_id u \<noteq> ''reset:ip:'' @ getClientIP (cl_address c)" by simp
  then have "id_cooldowns ?s1 (''reset:user:'' @ us_id u) = Some t" using assms(5) by simp
  then have two: "isRateLimited (ev_now env) (''reset:user:'' @ us_id u) RESET_PASSWORD_COOLDOWN_MS ?s1 = (True, ?s1)"
    unfolding isRateLimited_def using assms(6,7) by simp
  have same: "find_by_email e ?s1 = find_by_email e s"
    "isResetPasswordAccountLimited (ev_now env) i ?s1 = isResetPasswordAccountLimited (ev_now env) i s" for e i
    by (simp_all add: find_by_email_def isResetPasswordAccountLimited_def)
  show ?thesis
    unfolding forgotPassword_def Let_def sum.case one stmt_def by (simp only: prod.case bool.case same assms(1-3) two option.case fst_conv if_False assms(8)) simp
qed

text \<open>Ann has just been sent a mail; somebody else asks ten milliseconds later.\<close>

definition demo_asked :: identity_db where
  "demo_asked = snd (forgotPassword (demo_auth_env 0) (demo_client ''1'') (Inr ''a@b.c'') demo_identity)"

theorem forgot_reveals_account_witness:
  "fst (forgotPassword (demo_auth_env 10) (demo_client ''2'') (Inr ''a@b.c'') demo_asked) = too_many
   \<and> fst (forgotPassword (demo_auth_env 10) (demo_client ''2'') (Inr ''x@b.c'') demo_asked) = neutral_reset"
  by (rule forgot_reveals_account [where u = demo_account and t = 60000])
     (simp_all add: demo_asked_def forgotPassword_def stmt_def Let_def find_by_email_def isRateLimited_def getClientIP_def
        isResetPasswordAccountLimited_def window_full_def window_over_def forgot_send_def queue_mail_def revoke_pending_def
        recordResetPasswordAccountRequest_def window_count_def RESET_PASSWORD_ACCOUNT_LIMIT_def RESET_PASSWORD_COOLDOWN_MS_def
        RESET_PASSWORD_ACCOUNT_WINDOW_MS_def)

section \<open>Mailed tokens\<close>

text \<open>The two purposes of mailed tokens are not kept apart: a password-reset token also verifies the e-mail address, and is
  then used up.\<close>

theorem reset_token_verifies_email:
  assumes "List.find (\<lambda>t. vt_tokenHash t = tc_hash (ev_tokens env) token) (id_vtokens s) = Some t"
    and "vt_type t = PasswordReset" and "vt_status t = VtPending" and "ev_now env \<le> vt_expiresAt t"
    and "token_format token" and "ev_fault env = None" and "find_account (vt_userId t) (id_users s) = Some u"
  shows "fst (verifyEmail env (Inr token) s) = MessageReply 200 ''Email verified successfully''
    \<and> map_option us_isVerified (find_account (vt_userId t) (id_users (snd (verifyEmail env (Inr token) s)))) = Some True"
proof -
  from assms(7) have "\<exists>u \<in> set (id_users s). us_id u = vt_userId t" using find_Some by (fastforce simp: find_account_def)
  then have "verifyEmail env (Inr token) s = (MessageReply 200 ''Email verified successfully'',
      update_user (vt_userId t) (\<lambda>u. u\<lparr>us_isVerified := True\<rparr>) (set_vt (vt_id t) VtUsed s))"
    using assms unfolding verifyEmail_def Let_def stmt_def by simp
  then show ?thesis using assms(7) by (simp add: find_account_update) (simp add: set_vt_def)
qed

text \<open>Asking for another verification mail revokes a pending password-reset link too.\<close>

theorem resend_kills_reset_link:
  assumes "ev_fault env = None" and "resend_send env u email s = (r, s')"
    and "t \<in> set (id_vtokens s')" and "vt_type t = PasswordReset" and "vt_userId t = us_id u"
  shows "vt_status t \<noteq> VtPending"
  using assms
  by (auto simp: resend_send_def stmt_def Let_def recordAccountRequest_def queue_mail_def revoke_pending_def new_vtoken_def
      set_update_where split: if_splits)

lemma join_lines_middle: "as \<noteq> [] \<Longrightarrow> \<exists>pre post. join_lines (as @ (p @ t @ q) # bs) = pre @ t @ post"
  by (rule exI [of _ "join_lines as @ CHR 0x0A # p"], rule exI [of _ "q @ concat (map (\<lambda>x. CHR 0x0A # x) bs)"])
    (cases as, simp_all add: join_lines_def)

lemma token_lines_head: "\<exists>p q r. token_lines u token l = (p @ token @ q) # r"
  by (rule exI [of _ "''  <p><a href='' @ [CHR 0x22] @ u @ ''?token=''"]) (simp add: token_lines_def)

lemma body_has_token: "\<exists>pre post. snd (buildPasswordResetEmail url token) = pre @ token @ post"
proof -
  have lines: "\<exists>pre post. join_lines (mail_head @ x @ token_lines u token l @ y) = pre @ token @ post" for x u l y
  proof -
    obtain p q r where "token_lines u token l = (p @ token @ q) # r" using token_lines_head by blast
    moreover have "mail_head @ x \<noteq> []" by (simp add: mail_head_def)
    ultimately show ?thesis using join_lines_middle [of "mail_head @ x" p token q "r @ y"] by simp
  qed
  show ?thesis unfolding buildPasswordResetEmail_def snd_conv by (rule lines)
qed


lemma demo_asked_run:
  "forgotPassword (demo_auth_env 0) (demo_client ''1'') (Inr ''a@b.c'') demo_identity = (neutral_reset, demo_asked)"
  "reset_tokens ''u'' demo_asked = 1"
  by (rule prod_eqI)
     (simp_all add: demo_asked_def forgotPassword_def stmt_def Let_def find_by_email_def isRateLimited_def getClientIP_def
        isResetPasswordAccountLimited_def window_full_def window_over_def forgot_send_def queue_mail_def revoke_pending_def
        recordResetPasswordAccountRequest_def reset_tokens_def new_vtoken_def)


end
