(* ===== verification/Profiles.thy ===== *)
theory Profiles
  imports Learner AuditTrail Auth
begin

text \<open>
  Learner profiles: \<open>src/src/types/profile.types.ts\<close>, \<open>services/profile-serializer.ts\<close>,
  \<open>services/profile.service.ts\<close>, \<open>controllers/profile.controller.ts\<close>, \<open>utils/audit-context.ts\<close>. The state joins
  the tables of the authentication controller, of consents and onboarding, and the profiles. The bookkeeping
  column \<open>updatedAt\<close> is left out. The database client adds \<open>archivedAt: null\<close> to \<open>findFirst\<close> on profiles and not
  to \<open>upsert\<close> (\<open>audit/archive.ts\<close>), as the two reads here show.
\<close>

section \<open>Profiles\<close>

datatype visibility = VisPrivate | VisEmployer | VisPublic

fun VISIBILITY_RANK :: "visibility \<Rightarrow> nat" where
  "VISIBILITY_RANK VisPrivate = 0"
| "VISIBILITY_RANK VisEmployer = 1"
| "VISIBILITY_RANK VisPublic = 2"

record profile_fields =
  lp_displayName :: "string option"
  lp_bio :: "string option"
  lp_avatarUrl :: "string option"
  lp_country :: "string option"
  lp_timezone :: "string option"
  lp_languages :: "string list"
  lp_level :: string
  lp_interests :: "string list"
  lp_goals :: "string list"
  lp_visibility :: visibility

record profile = profile_fields +
  lp_id :: ident
  lp_userId :: ident
  lp_createdAt :: time
  lp_archivedAt :: "time option"

definition default_profile :: "ident \<Rightarrow> ident \<Rightarrow> time \<Rightarrow> profile" where
  "default_profile i userId now =
     \<lparr>lp_displayName = None, lp_bio = None, lp_avatarUrl = None, lp_country = None, lp_timezone = None,
      lp_languages = [], lp_level = ''beginner'', lp_interests = [], lp_goals = [], lp_visibility = VisPrivate,
      lp_id = i, lp_userId = userId, lp_createdAt = now, lp_archivedAt = None\<rparr>"

text \<open>A partial update: a field that is given replaces the column, \<open>Some None\<close> with null.\<close>

record profile_patch =
  up_displayName :: "string option option"
  up_bio :: "string option option"
  up_avatarUrl :: "string option option"
  up_country :: "string option option"
  up_timezone :: "string option option"
  up_languages :: "string list option"
  up_level :: "string option"
  up_interests :: "string list option"
  up_goals :: "string list option"
  up_visibility :: "visibility option"

definition apply_patch :: "profile_patch \<Rightarrow> profile \<Rightarrow> profile" where
  "apply_patch d p = p\<lparr>
     lp_displayName := or_default (lp_displayName p) (up_displayName d),
     lp_bio := or_default (lp_bio p) (up_bio d),
     lp_avatarUrl := or_default (lp_avatarUrl p) (up_avatarUrl d),
     lp_country := or_default (lp_country p) (up_country d),
     lp_timezone := or_default (lp_timezone p) (up_timezone d),
     lp_languages := or_default (lp_languages p) (up_languages d),
     lp_level := or_default (lp_level p) (up_level d),
     lp_interests := or_default (lp_interests p) (up_interests d),
     lp_goals := or_default (lp_goals p) (up_goals d),
     lp_visibility := or_default (lp_visibility p) (up_visibility d)\<rparr>"

definition given :: "string \<Rightarrow> 'v option \<Rightarrow> string list" where
  "given name v = (if v = None then [] else [name])"

text \<open>\<open>Object.keys(data).sort()\<close>.\<close>

definition patch_fields :: "profile_patch \<Rightarrow> string list" where
  "patch_fields d =
     given ''avatarUrl'' (up_avatarUrl d) @ given ''bio'' (up_bio d) @ given ''country'' (up_country d)
     @ given ''displayName'' (up_displayName d) @ given ''goals'' (up_goals d) @ given ''interests'' (up_interests d)
     @ given ''languages'' (up_languages d) @ given ''level'' (up_level d) @ given ''timezone'' (up_timezone d)
     @ given ''visibility'' (up_visibility d)"

section \<open>Serializers\<close>

text \<open>The fields that count towards completion, with whether each is filled.\<close>

definition filled_text :: "string option \<Rightarrow> bool" where
  "filled_text v = (case v of None \<Rightarrow> False | Some s \<Rightarrow> trim s \<noteq> [])"

definition PROFILE_COMPLETION_FIELDS :: "string list" where
  "PROFILE_COMPLETION_FIELDS = [''displayName'', ''bio'', ''avatarUrl'', ''country'', ''timezone'', ''languages'',
     ''interests'', ''goals'']"

definition isFilled :: "profile \<Rightarrow> string \<Rightarrow> bool" where
  "isFilled p f =
     (if f = ''displayName'' then filled_text (lp_displayName p)
      else if f = ''bio'' then filled_text (lp_bio p)
      else if f = ''avatarUrl'' then filled_text (lp_avatarUrl p)
      else if f = ''country'' then filled_text (lp_country p)
      else if f = ''timezone'' then filled_text (lp_timezone p)
      else if f = ''languages'' then lp_languages p \<noteq> []
      else if f = ''interests'' then lp_interests p \<noteq> []
      else lp_goals p \<noteq> [])"

record profile_completion =
  co_percent :: int
  co_missingFields :: "string list"

text \<open>\<open>Math.round\<close> of a quotient: halves are rounded up.\<close>

definition round_ratio :: "int \<Rightarrow> int \<Rightarrow> int" where
  "round_ratio a b = (2 * a + b) div (2 * b)"

definition computeProfileCompletion :: "profile \<Rightarrow> profile_completion" where
  "computeProfileCompletion p =
     (let missing = filter (\<lambda>f. \<not> isFilled p f) PROFILE_COMPLETION_FIELDS;
          n = int (length PROFILE_COMPLETION_FIELDS)
      in \<lparr>co_percent = round_ratio ((n - int (length missing)) * 100) n, co_missingFields = missing\<rparr>)"

text \<open>The declared profile fields of a row, without the archive columns.\<close>

record profile_record = profile_fields +
  pr_id :: ident
  pr_userId :: ident
  pr_createdAt :: time

definition toProfileRecord :: "profile \<Rightarrow> profile_record" where
  "toProfileRecord p = profile_fields.extend (profile_fields.truncate p)
     \<lparr>pr_id = lp_id p, pr_userId = lp_userId p, pr_createdAt = lp_createdAt p\<rparr>"

definition toOwnerProfile :: "profile \<Rightarrow> profile_record \<times> profile_completion" where
  "toOwnerProfile p = (toProfileRecord p, computeProfileCompletion p)"

record public_fields =
  pf_id :: ident
  pf_displayName :: "string option"
  pf_bio :: "string option"
  pf_avatarUrl :: "string option"
  pf_country :: "string option"
  pf_level :: string
  pf_interests :: "string list"

record employer_fields = public_fields +
  pf_timezone :: "string option"
  pf_languages :: "string list"
  pf_goals :: "string list"

datatype 'f third_party_view = Hidden ident | Visible 'f

definition redactedProfile :: "ident \<Rightarrow> 'f third_party_view" where
  "redactedProfile i = Hidden i"

definition toEmployerProfile :: "profile \<Rightarrow> employer_fields third_party_view" where
  "toEmployerProfile p =
     (if VISIBILITY_RANK (lp_visibility p) < VISIBILITY_RANK VisEmployer then Hidden (lp_id p)
      else Visible \<lparr>pf_id = lp_id p, pf_displayName = lp_displayName p, pf_bio = lp_bio p, pf_avatarUrl = lp_avatarUrl p,
             pf_country = lp_country p, pf_level = lp_level p, pf_interests = lp_interests p,
             pf_timezone = lp_timezone p, pf_languages = lp_languages p, pf_goals = lp_goals p\<rparr>)"

definition toPublicProfile :: "profile \<Rightarrow> public_fields third_party_view" where
  "toPublicProfile p =
     (if VISIBILITY_RANK (lp_visibility p) < VISIBILITY_RANK VisPublic then Hidden (lp_id p)
      else Visible \<lparr>pf_id = lp_id p, pf_displayName = lp_displayName p, pf_bio = lp_bio p, pf_avatarUrl = lp_avatarUrl p,
             pf_country = lp_country p, pf_level = lp_level p, pf_interests = lp_interests p\<rparr>)"

definition toPrivateProfile :: "profile \<Rightarrow> account_row \<Rightarrow> profile_record \<times> account_status \<times> bool \<times> time option" where
  "toPrivateProfile p u = (toProfileRecord p, us_status u, us_isVerified u, us_phoneVerifiedAt u)"

definition DISCLOSURE_CONSENT_PURPOSE :: string where "DISCLOSURE_CONSENT_PURPOSE = ''data_sharing''"
definition DISCLOSABLE_ACCOUNT_STATUS :: account_status where "DISCLOSABLE_ACCOUNT_STATUS = StActive"

definition isDisclosureAllowed :: "account_status \<Rightarrow> consent_record list \<Rightarrow> bool" where
  "isDisclosureAllowed accountStatus cs =
     (if accountStatus \<noteq> DISCLOSABLE_ACCOUNT_STATUS then False
      else map_option cr_status (List.find (\<lambda>c. cr_purpose c = DISCLOSURE_CONSENT_PURPOSE) cs) \<noteq> Some Withdrawn)"

record account_summary =
  as_id :: ident
  as_email :: string
  as_username :: string
  as_role :: db_role
  as_status :: account_status
  as_isVerified :: bool
  as_phoneVerifiedAt :: "time option"
  as_walletAddress :: "string option"
  as_createdAt :: time
  as_lastLoginAt :: "time option"

definition toAccountSummary :: "account_row \<Rightarrow> account_summary" where
  "toAccountSummary u =
     \<lparr>as_id = us_id u, as_email = us_email u, as_username = us_username u, as_role = acc_role u,
      as_status = us_status u, as_isVerified = us_isVerified u, as_phoneVerifiedAt = us_phoneVerifiedAt u,
      as_walletAddress = us_walletAddress u, as_createdAt = acc_createdAt u, as_lastLoginAt = us_lastLoginAt u\<rparr>"

record onboarding_summary =
  os_version :: string
  os_status :: onboarding_status
  os_currentStep :: string
  os_completedSteps :: "string list"
  os_requiredStepsRemaining :: "string list"
  os_startedAt :: time
  os_completedAt :: "time option"

definition toOnboardingSummary :: "onboarding \<Rightarrow> onboarding_summary" where
  "toOnboardingSummary ob =
     \<lparr>os_version = ob_version ob, os_status = ob_status ob, os_currentStep = ob_currentStep ob,
      os_completedSteps = ob_completedSteps ob,
      os_requiredStepsRemaining = filter (\<lambda>s. s \<notin> set (ob_completedSteps ob)) REQUIRED_ONBOARDING_STEPS,
      os_startedAt = ob_startedAt ob, os_completedAt = ob_completedAt ob\<rparr>"

record consent_summary =
  cu_purpose :: string
  cu_status :: consent_status
  cu_required :: bool
  cu_policyVersion :: string
  cu_grantedAt :: "time option"
  cu_withdrawnAt :: "time option"

definition toConsentSummary :: "consent_record \<Rightarrow> consent_summary" where
  "toConsentSummary c =
     \<lparr>cu_purpose = cr_purpose c, cu_status = cr_status c, cu_required = cr_required c,
      cu_policyVersion = cr_policyVersion c, cu_grantedAt = cr_grantedAt c, cu_withdrawnAt = cr_withdrawnAt c\<rparr>"

record owner_view =
  ow_account :: account_summary
  ow_profile :: profile_record
  ow_completion :: profile_completion
  ow_onboarding :: "onboarding_summary option"
  ow_consents :: "consent_summary list"
  ow_requiredConsentsGranted :: bool

definition toOwnerAccountProfile ::
    "account_row \<Rightarrow> profile \<Rightarrow> onboarding option \<Rightarrow> consent_record list \<Rightarrow> bool \<Rightarrow> owner_view" where
  "toOwnerAccountProfile u p ob cs granted =
     \<lparr>ow_account = toAccountSummary u, ow_profile = toProfileRecord p, ow_completion = computeProfileCompletion p,
      ow_onboarding = map_option toOnboardingSummary ob, ow_consents = map toConsentSummary cs,
      ow_requiredConsentsGranted = granted\<rparr>"

section \<open>The service\<close>

record people_db =
  pe_identity :: identity_db
  pe_learner :: learner_db
  pe_profiles :: "profile list"

type_synonym people_world = "people_db \<times> audit_event list"

datatype people_error = ForeignKeyViolation | PeopleUniqueViolation | PeopleRecordNotFound

record people_env =
  pn_now :: time
  pn_profileId :: ident
  pn_eventId :: ident
  pn_audit :: audit_env
  pn_fieldsAddr :: nat
  pn_down :: bool

definition account_of :: "ident \<Rightarrow> people_db \<Rightarrow> account_row option" where
  "account_of userId db = find_account userId (id_users (pe_identity db))"

text \<open>\<open>upsert\<close>: the row of the user, archived or not, or a new one, for which the user has to exist.\<close>

definition upsert_profile ::
    "people_env \<Rightarrow> ident \<Rightarrow> profile_patch \<Rightarrow> (people_db, people_error, profile) step" where
  "upsert_profile env userId d db =
     (case List.find (\<lambda>p. lp_userId p = userId) (pe_profiles db) of
        Some p \<Rightarrow>
          (Inr (apply_patch d p),
           db\<lparr>pe_profiles := update_where (\<lambda>q. lp_userId q = userId) (apply_patch d) (pe_profiles db)\<rparr>)
      | None \<Rightarrow>
          if account_of userId db = None then (Inl ForeignKeyViolation, db)
          else
            (let p = apply_patch d (default_profile (pn_profileId env) userId (pn_now env))
             in (Inr p, db\<lparr>pe_profiles := pe_profiles db @ [p]\<rparr>)))"

definition no_patch :: profile_patch where
  "no_patch = \<lparr>up_displayName = None, up_bio = None, up_avatarUrl = None, up_country = None, up_timezone = None,
     up_languages = None, up_level = None, up_interests = None, up_goals = None, up_visibility = None\<rparr>"

definition getOrCreateProfile :: "people_env \<Rightarrow> ident \<Rightarrow> (people_db, people_error, profile) step" where
  "getOrCreateProfile env userId db = upsert_profile env userId no_patch db"

definition updateProfile :: "people_env \<Rightarrow> ident \<Rightarrow> profile_patch \<Rightarrow> (people_db, people_error, profile) step" where
  "updateProfile env userId d db = upsert_profile env userId d db"

text \<open>The list of field names is an object of its own on the heap the audit filter walks.\<close>

definition update_spec ::
    "people_env \<Rightarrow> ident \<Rightarrow> profile_patch \<Rightarrow> audit_context \<Rightarrow> (people_db, people_error, profile) mutation_spec" where
  "update_spec env userId d ctx =
     \<lparr>ms_action = ''learner_profile.updated'', ms_actor = ac_actor ctx,
      ms_target = \<lparr>tg_type = ''LearnerProfile'', tg_id = None\<rparr>, ms_reason = None, ms_requestId = ac_requestId ctx,
      ms_correlationId = None, ms_source = Some ''api.users.update_profile'',
      ms_metadata = Some [(''userId'', JsString userId), (''fields'', JsRef (pn_fieldsAddr env))],
      ms_ipAddress = ac_ipAddress ctx, ms_userAgent = ac_userAgent ctx,
      ms_mutate = upsert_profile env userId d, ms_resolveTargetId = (\<lambda>p. Some (lp_id p)), ms_resolveMetadata = (\<lambda>_. None)\<rparr>"

definition updateProfileAudited ::
    "people_env \<Rightarrow> ident \<Rightarrow> profile_patch \<Rightarrow> audit_context \<Rightarrow> (people_world, people_error audit_failure, profile) step" where
  "updateProfileAudited env userId d ctx =
     auditedMutation
       ((pn_audit env)\<lparr>av_heap := (av_heap (pn_audit env))(pn_fieldsAddr env := JsArray (map JsString (patch_fields d)))\<rparr>)
       (pn_eventId env) (pn_now env) (update_spec env userId d ctx)"

definition getOwnerView ::
    "people_env \<Rightarrow> ident \<Rightarrow> (people_db, people_error, profile_record \<times> profile_completion) step" where
  "getOwnerView env userId db =
     (case getOrCreateProfile env userId db of
        (Inl e, db1) \<Rightarrow> (Inl e, db1)
      | (Inr p, db1) \<Rightarrow> (Inr (toOwnerProfile p), db1))"

definition getOwnerAccountProfile ::
    "people_env \<Rightarrow> ident \<Rightarrow> (people_db, people_error, owner_view option) step" where
  "getOwnerAccountProfile env userId db =
     (case account_of userId db of
        None \<Rightarrow> (Inr None, db)
      | Some u \<Rightarrow>
          if us_status u = StDeleted then (Inr None, db)
          else
            (case getOrCreateProfile env userId db of
               (Inl e, db1) \<Rightarrow> (Inl e, db1)
             | (Inr p, db1) \<Rightarrow>
                 (let cs = getCurrent userId (pe_learner db1) in
                  (Inr (Some (toOwnerAccountProfile u p (progress_of userId (pe_learner db1)) cs
                     (list_all (\<lambda>purpose. list_ex (\<lambda>c. cr_purpose c = purpose \<and> cr_status c = Granted) cs)
                       REQUIRED_CONSENT_PURPOSES))), db1))))"

definition disclosureContext :: "ident \<Rightarrow> people_db \<Rightarrow> (profile \<times> bool) option" where
  "disclosureContext userId db =
     (case (List.find (\<lambda>p. lp_userId p = userId \<and> lp_archivedAt p = None) (pe_profiles db), account_of userId db) of
        (Some p, Some u) \<Rightarrow> Some (p, isDisclosureAllowed (us_status u) (getCurrent userId (pe_learner db)))
      | _ \<Rightarrow> None)"

definition getEmployerView :: "ident \<Rightarrow> people_db \<Rightarrow> employer_fields third_party_view option" where
  "getEmployerView userId db =
     (case disclosureContext userId db of
        None \<Rightarrow> None
      | Some (p, allowed) \<Rightarrow> Some (if \<not> allowed then redactedProfile (lp_id p) else toEmployerProfile p))"

definition getPublicView :: "ident \<Rightarrow> people_db \<Rightarrow> public_fields third_party_view option" where
  "getPublicView userId db =
     (case disclosureContext userId db of
        None \<Rightarrow> None
      | Some (p, allowed) \<Rightarrow> Some (if \<not> allowed then redactedProfile (lp_id p) else toPublicProfile p))"

definition getPrivateView ::
    "people_env \<Rightarrow> ident \<Rightarrow> (people_db, people_error, (profile_record \<times> account_status \<times> bool \<times> time option) option) step" where
  "getPrivateView env userId db =
     (case getOrCreateProfile env userId db of
        (Inl e, db1) \<Rightarrow> (Inl e, db1)
      | (Inr p, db1) \<Rightarrow> (Inr (map_option (toPrivateProfile p) (account_of userId db1)), db1))"

section \<open>The context of a request\<close>

text \<open>The middleware runs before authentication, so \<open>user\<close> is always missing there: the actor it sets never exists.\<close>

definition requestContext :: "string option \<Rightarrow> string \<Rightarrow> auth_user option \<Rightarrow> string \<times> (ident \<times> string) option" where
  "requestContext header uuid user =
     (case header of None \<Rightarrow> uuid | Some h \<Rightarrow> if h = [] then uuid else h, map_option (\<lambda>u. (au_id u, au_role u)) user)"

definition requestAuditContext :: "auth_user option \<Rightarrow> audit_request \<Rightarrow> audit_context" where
  "requestAuditContext user req =
     actorFromRequest (req\<lparr>ar_actor := (case ar_actor req of
        Some a \<Rightarrow> Some a | None \<Rightarrow> map_option (\<lambda>u. (au_id u, au_role u)) user)\<rparr>)"

section \<open>Controllers\<close>

datatype people_data =
    OwnerProfile "profile_record \<times> profile_completion"
  | OwnerAccount owner_view
  | EmployerView "employer_fields third_party_view"
  | PublicView "public_fields third_party_view"
  | WalletAddress string
  | RevokedSessions nat
  | PeopleCode string

text \<open>A read of the owner's profile, and the reply that ends a handler with it.\<close>

definition owner_reply ::
    "people_env \<Rightarrow> string option \<Rightarrow> ident \<Rightarrow> people_world \<Rightarrow> people_data reply \<times> people_world" where
  "owner_reply env msg userId w =
     (case getOwnerView env userId (fst w) of
        (Inl e, db) \<Rightarrow> (internal_error, (db, snd w))
      | (Inr v, db) \<Rightarrow> (OkReply 200 msg (OwnerProfile v), (db, snd w)))"

definition getMyProfile :: "people_env \<Rightarrow> auth_user option \<Rightarrow> people_world \<Rightarrow> people_data reply \<times> people_world" where
  "getMyProfile env user w = authenticated user w (\<lambda>i. guarded (pn_down env) w (owner_reply env None i w))"

definition updateMyProfile ::
    "people_env \<Rightarrow> auth_user option \<Rightarrow> audit_request \<Rightarrow> json + profile_patch \<Rightarrow> people_world \<Rightarrow>
     people_data reply \<times> people_world" where
  "updateMyProfile env user req body w = authenticated user w (\<lambda>i. validated body w (\<lambda>d.
     guarded (pn_down env) w
       (case updateProfileAudited env i d (requestAuditContext user req) w of
          (Inl e, w1) \<Rightarrow> (internal_error, w1)
        | (Inr p, w1) \<Rightarrow> owner_reply env (Some ''Profile updated successfully'') i w1)))"

definition getProfileById ::
    "people_env \<Rightarrow> auth_user option \<Rightarrow> ident \<Rightarrow> people_world \<Rightarrow> people_data reply \<times> people_world" where
  "getProfileById env user i w = guarded (pn_down env) w
     (if map_option au_id user = Some i then owner_reply env None i w
      else
        (case (if map_option au_role user = Some ''employer'' then map_option EmployerView (getEmployerView i (fst w))
               else map_option PublicView (getPublicView i (fst w))) of
           None \<Rightarrow> (ErrorReply 404 ''Profile not found'', w)
         | Some v \<Rightarrow> (OkReply 200 None v, w)))"

definition account_reply ::
    "people_env \<Rightarrow> string option \<Rightarrow> ident \<Rightarrow> people_world \<Rightarrow> people_data reply \<times> people_world" where
  "account_reply env msg userId w =
     (case getOwnerAccountProfile env userId (fst w) of
        (Inl e, db) \<Rightarrow> (internal_error, (db, snd w))
      | (Inr None, db) \<Rightarrow> (ErrorReply 404 ''User not found'', (db, snd w))
      | (Inr (Some v), db) \<Rightarrow> (OkReply 200 msg (OwnerAccount v), (db, snd w)))"

definition getCurrentUser :: "people_env \<Rightarrow> auth_user option \<Rightarrow> people_world \<Rightarrow> people_data reply \<times> people_world" where
  "getCurrentUser env user w = authenticated user w (\<lambda>i. guarded (pn_down env) w (account_reply env None i w))"

definition users_updateProfile ::
    "people_env \<Rightarrow> auth_user option \<Rightarrow> audit_request \<Rightarrow> json + profile_patch \<Rightarrow> people_world \<Rightarrow>
     people_data reply \<times> people_world" where
  "users_updateProfile env user req body w = authenticated user w (\<lambda>i. validated body w (\<lambda>d.
     guarded (pn_down env) w
       (case updateProfileAudited env i d (requestAuditContext user req) w of
          (Inl e, w1) \<Rightarrow> (internal_error, w1)
        | (Inr p, w1) \<Rightarrow> account_reply env (Some ''Profile updated successfully'') i w1)))"

definition getUserById :: "people_env \<Rightarrow> json + ident \<Rightarrow> people_world \<Rightarrow> people_data reply \<times> people_world" where
  "getUserById env params w = validated params w (\<lambda>i. guarded (pn_down env) w
     (case getPublicView i (fst w) of
        None \<Rightarrow> (ErrorReply 404 ''User not found'', w)
      | Some v \<Rightarrow> (OkReply 200 None (PublicView v), w)))"

end
