(* ===== verification/UserAccounts.thy ===== *)
theory UserAccounts
  imports Profiles
begin

text \<open>
  Changes of a user's own credentials: \<open>src/src/services/user-account.service.ts\<close> and the two handlers of
  \<open>controllers/user.controller.ts\<close> that use it. Setting a wallet address reads the user and other owners of the address
  and writes later; \<open>wallet_check\<close> and \<open>wallet_commit\<close> are the two halves.
\<close>

datatype change_password_result = PasswordChanged nat | PasswordUserNotFound | PasswordInvalid

datatype update_wallet_result =
  WalletAddressUpdated string | WalletAddressUnchanged string | WalletUserNotFound | WalletConflict

definition open_sessions :: "ident \<Rightarrow> auth_db \<Rightarrow> ident list" where
  "open_sessions userId a = map ss_id (filter (\<lambda>s. ss_userId s = userId \<and> \<not> ss_isRevoked s) (ad_sessions a))"

text \<open>The mutation of a password change.\<close>

definition password_mutation ::
    "time \<Rightarrow> ident \<Rightarrow> string \<Rightarrow> (people_db, people_error, nat) step" where
  "password_mutation now userId passwordHash db =
     (if account_of userId db = None then (Inl PeopleRecordNotFound, db)
      else
        (let s = update_user userId (\<lambda>u. u\<lparr>us_password := passwordHash\<rparr>) (pe_identity db);
             ids = open_sessions userId (id_auth s)
         in if ids = [] then (Inr 0, db\<lparr>pe_identity := s\<rparr>)
            else (Inr (length ids),
                  db\<lparr>pe_identity := s\<lparr>id_auth := revoke_tokens (\<lambda>t. rt_sessionId t \<in> set ids)
                       (revoke_sessions now (\<lambda>x. ss_id x \<in> set ids) (id_auth s))\<rparr>\<rparr>)))"

definition user_spec ::
    "string \<Rightarrow> string \<Rightarrow> ident \<Rightarrow> audit_context \<Rightarrow> (string \<times> js) list option \<Rightarrow> (people_db, people_error, 'a) step \<Rightarrow>
     ('a \<Rightarrow> (string \<times> js) list option) \<Rightarrow> (people_db, people_error, 'a) mutation_spec" where
  "user_spec action source userId ctx metadata mutate resolve =
     \<lparr>ms_action = action, ms_actor = ac_actor ctx, ms_target = \<lparr>tg_type = ''User'', tg_id = Some userId\<rparr>,
      ms_reason = None, ms_requestId = ac_requestId ctx, ms_correlationId = None, ms_source = Some source,
      ms_metadata = metadata, ms_ipAddress = ac_ipAddress ctx, ms_userAgent = ac_userAgent ctx,
      ms_mutate = mutate, ms_resolveTargetId = (\<lambda>_. None), ms_resolveMetadata = resolve\<rparr>"

definition changePassword ::
    "people_env \<Rightarrow> auth_env \<Rightarrow> ident \<Rightarrow> string \<Rightarrow> string \<Rightarrow> audit_context \<Rightarrow>
     (people_world, people_error audit_failure, change_password_result) step" where
  "changePassword env bc userId currentPassword newPassword ctx w =
     (case account_of userId (fst w) of
        None \<Rightarrow> (Inr PasswordUserNotFound, w)
      | Some u \<Rightarrow>
          if us_status u = StDeleted then (Inr PasswordUserNotFound, w)
          else if \<not> ev_compare bc currentPassword (us_password u) then (Inr PasswordInvalid, w)
          else
            (case auditedMutation (pn_audit env) (pn_eventId env) (pn_now env)
                    (user_spec ''user.password_changed'' ''api.users.change_password'' userId ctx None
                      (password_mutation (pn_now env) userId (ev_bcrypt bc newPassword))
                      (\<lambda>n. Some [(''revokedSessionCount'', JsNum (int n))])) w of
               (Inl e, w1) \<Rightarrow> (Inl e, w1)
             | (Inr n, w1) \<Rightarrow> (Inr (PasswordChanged n), w1)))"

datatype wallet_decision = WalletDone update_wallet_result | WalletProceed bool

definition wallet_check :: "ident \<Rightarrow> string \<Rightarrow> people_db \<Rightarrow> wallet_decision" where
  "wallet_check userId address db =
     (case account_of userId db of
        None \<Rightarrow> WalletDone WalletUserNotFound
      | Some u \<Rightarrow>
          if us_status u = StDeleted then WalletDone WalletUserNotFound
          else if us_walletAddress u = Some address then WalletDone (WalletAddressUnchanged address)
          else if \<exists>v \<in> set (id_users (pe_identity db)). us_walletAddress v = Some address \<and> us_id v \<noteq> userId
          then WalletDone WalletConflict
          else WalletProceed (us_walletAddress u \<noteq> None))"

text \<open>The update, under the unique index of the column.\<close>

definition wallet_mutation :: "ident \<Rightarrow> string \<Rightarrow> (people_db, people_error, unit) step" where
  "wallet_mutation userId address db =
     (if account_of userId db = None then (Inl PeopleRecordNotFound, db)
      else if \<exists>v \<in> set (id_users (pe_identity db)). us_walletAddress v = Some address \<and> us_id v \<noteq> userId
      then (Inl PeopleUniqueViolation, db)
      else (Inr (), db\<lparr>pe_identity := update_user userId (\<lambda>u. u\<lparr>us_walletAddress := Some address\<rparr>) (pe_identity db)\<rparr>))"

definition wallet_commit ::
    "people_env \<Rightarrow> ident \<Rightarrow> string \<Rightarrow> bool \<Rightarrow> audit_context \<Rightarrow>
     (people_world, people_error audit_failure, update_wallet_result) step" where
  "wallet_commit env userId address hadPrevious ctx w =
     (case auditedMutation (pn_audit env) (pn_eventId env) (pn_now env)
             (user_spec ''user.wallet_address_changed'' ''api.users.update_wallet_address'' userId ctx
               (Some [(''walletAddress'', JsString address), (''hadPreviousAddress'', JsBool hadPrevious)])
               (wallet_mutation userId address) (\<lambda>_. None)) w of
        (Inl e, w1) \<Rightarrow> if e = MutationFailed PeopleUniqueViolation then (Inr WalletConflict, w1) else (Inl e, w1)
      | (Inr _, w1) \<Rightarrow> (Inr (WalletAddressUpdated address), w1))"

definition updateWalletAddress ::
    "people_env \<Rightarrow> ident \<Rightarrow> string \<Rightarrow> audit_context \<Rightarrow>
     (people_world, people_error audit_failure, update_wallet_result) step" where
  "updateWalletAddress env userId address ctx w =
     (case wallet_check userId address (fst w) of
        WalletDone r \<Rightarrow> (Inr r, w)
      | WalletProceed had \<Rightarrow> wallet_commit env userId address had ctx w)"

section \<open>Handlers\<close>

record change_password_input =
  cp_currentPassword :: string
  cp_newPassword :: string

definition users_changePassword ::
    "people_env \<Rightarrow> auth_env \<Rightarrow> auth_user option \<Rightarrow> audit_request \<Rightarrow> json + change_password_input \<Rightarrow> people_world \<Rightarrow>
     people_data reply \<times> people_world" where
  "users_changePassword env bc user req body w = authenticated user w (\<lambda>i. validated body w (\<lambda>d.
     guarded (pn_down env) w
       (case changePassword env bc i (cp_currentPassword d) (cp_newPassword d) (requestAuditContext user req) w of
          (Inl e, w1) \<Rightarrow> (internal_error, w1)
        | (Inr PasswordUserNotFound, w1) \<Rightarrow> (ErrorReply 404 ''User not found'', w1)
        | (Inr PasswordInvalid, w1) \<Rightarrow>
            (ErrorData 401 ''Current password is incorrect'' (PeopleCode ''STEP_UP_FAILED''), w1)
        | (Inr (PasswordChanged n), w1) \<Rightarrow>
            (OkReply 200 (Some ''Password updated successfully. All sessions have been signed out.'') (RevokedSessions n), w1))))"

definition users_updateWalletAddress ::
    "people_env \<Rightarrow> auth_user option \<Rightarrow> audit_request \<Rightarrow> json + string \<Rightarrow> people_world \<Rightarrow> people_data reply \<times> people_world" where
  "users_updateWalletAddress env user req body w = authenticated user w (\<lambda>i. validated body w (\<lambda>address.
     guarded (pn_down env) w
       (case updateWalletAddress env i address (requestAuditContext user req) w of
          (Inl e, w1) \<Rightarrow> (internal_error, w1)
        | (Inr WalletUserNotFound, w1) \<Rightarrow> (ErrorReply 404 ''User not found'', w1)
        | (Inr WalletConflict, w1) \<Rightarrow>
            (ErrorData 409 ''Wallet address is already associated with another account'' (PeopleCode ''WALLET_ADDRESS_TAKEN''), w1)
        | (Inr (WalletAddressUnchanged a), w1) \<Rightarrow> (OkReply 200 (Some ''Wallet address unchanged'') (WalletAddress a), w1)
        | (Inr (WalletAddressUpdated a), w1) \<Rightarrow> (OkReply 200 (Some ''Wallet address updated successfully'') (WalletAddress a), w1))))"

end
