(* ===== verification/ProfileProps.thy ===== *)
theory ProfileProps
  imports UserAccounts LearnerProps AuditProps AuthProps
begin

text \<open>
  What a profile discloses, and what changing one's own credentials does.
\<close>

section \<open>Disclosure\<close>

lemma sort_snoc_least:
  "\<forall>x \<in> set xs. key r < key x \<Longrightarrow> sort_key key (xs @ [r]) = r # sort_key key xs"
  by (induction xs) auto

lemma first_by_snoc_least:
  assumes "p r" and "\<forall>x \<in> set rows. key r < key x"
  shows "first_by key p (rows @ [r]) = Some r"
  using assms by (simp add: first_by_def sort_snoc_least)

lemma find_distinct_by:
  "List.find (\<lambda>r. key r = k) (distinct_by key rs) = List.find (\<lambda>r. key r = k) rs"
proof (induction key rs rule: distinct_by.induct)
  case (2 key r rs)
  have "List.find (\<lambda>x. key x = k) (filter (\<lambda>x. key x \<noteq> key r) rs) = List.find (\<lambda>x. key x = k) rs"
    if "key r \<noteq> k" using that by (induction rs) auto
  with 2 show ?case by simp
qed simp

lemma disclosure_consent:
  "isDisclosureAllowed st (getCurrent userId db) \<longleftrightarrow>
     st = StActive \<and> map_option cr_status (getCurrentForPurpose userId ''data_sharing'' db) \<noteq> Some Withdrawn"
  unfolding isDisclosureAllowed_def getCurrent_def find_distinct_by DISCLOSURE_CONSENT_PURPOSE_def find_filter_sorted
    getCurrentForPurpose_def DISCLOSABLE_ACCOUNT_STATUS_def by simp

lemma current_after_append:
  assumes "list_all (\<lambda>r. cr_createdAt r < now) (consents db)" and "cr_userId r = u" and "cr_purpose r = p" and "cr_createdAt r = now"
    and "consents db' = consents db @ [r]"
  shows "getCurrentForPurpose u p db' = Some r"
  unfolding getCurrentForPurpose_def assms(5)
  by (rule first_by_snoc_least) (use assms in \<open>auto simp: list_all_iff\<close>)

definition third_party_hidden :: "ident \<Rightarrow> people_db \<Rightarrow> bool" where
  "third_party_hidden uid db \<longleftrightarrow>
     getPublicView uid db = map_option (\<lambda>c. Hidden (lp_id (fst c))) (disclosureContext uid db)
     \<and> getEmployerView uid db = map_option (\<lambda>c. Hidden (lp_id (fst c))) (disclosureContext uid db)"

lemma refused_hidden:
  "map_option cr_status (getCurrentForPurpose uid ''data_sharing'' (pe_learner db)) = Some Withdrawn
     \<or> map_option us_status (account_of uid db) \<noteq> Some StActive \<Longrightarrow> third_party_hidden uid db"
  by (auto simp: third_party_hidden_def getPublicView_def getEmployerView_def disclosureContext_def disclosure_consent
      redactedProfile_def split: option.splits)

lemma visible_conditions:
  assumes "getPublicView uid db = Some (Visible f)"
  shows "\<exists>p u. List.find (\<lambda>p. lp_userId p = uid \<and> lp_archivedAt p = None) (pe_profiles db) = Some p
    \<and> account_of uid db = Some u \<and> us_status u = StActive \<and> lp_visibility p = VisPublic
    \<and> map_option cr_status (getCurrentForPurpose uid ''data_sharing'' (pe_learner db)) \<noteq> Some Withdrawn
    \<and> toPublicProfile p = Visible f"
proof -
  have public: "toPublicProfile p = Visible f \<Longrightarrow> lp_visibility p = VisPublic" for p
    by (cases "lp_visibility p") (simp_all add: toPublicProfile_def)
  with assms show ?thesis
    by (auto simp: getPublicView_def disclosureContext_def disclosure_consent redactedProfile_def
        split: option.splits if_splits)
qed


abbreviation demo_profile :: profile where
  "demo_profile \<equiv> (default_profile ''p'' ''u'' 0)\<lparr>lp_displayName := Some ''Ann'', lp_visibility := VisPublic\<rparr>"

abbreviation demo_consents :: learner_db where
  "demo_consents \<equiv> snd (grant 1 ''c1'' ''u'' \<lparr>gd_purpose = ''data_sharing'', gd_policyVersion = ''v1'', gd_source = ''api''\<rparr>
     \<lparr>consents = [], onboardings = [], preference_rows = [], preference_log = []\<rparr>)"

abbreviation demo_people :: "learner_db \<Rightarrow> people_db" where
  "demo_people l \<equiv> \<lparr>pe_identity = demo_identity, pe_learner = l, pe_profiles = [demo_profile]\<rparr>"

abbreviation demo_ann_user :: "auth_user option" where
  "demo_ann_user \<equiv> Some \<lparr>au_id = ''u'', au_role = ''LEARNER'', au_email = ''a@b.c''\<rparr>"

definition demo_withdrawn :: "learner_data reply \<times> learner_db" where
  "demo_withdrawn = consents_withdraw demo_ann_user False (Inr \<lparr>wd_purpose = ''data_sharing'', wd_source = ''api''\<rparr>) 2 ''c2'' demo_consents"


section \<open>Credentials\<close>

text \<open>
  A user's password changes only for the current password; the new one, the end of every session with its refresh
  tokens, and one audit event naming user and actor are committed together, and nobody else's account changes. In every
  other outcome nothing has changed at all.
\<close>

theorem password_change_atomic:
  assumes "changePassword env bc uid cur new ctx w = (res, w')"
  shows "case res of
      Inr (PasswordChanged n) \<Rightarrow>
        (\<exists>u. account_of uid (fst w) = Some u \<and> ev_compare bc cur (us_password u))
        \<and> (\<forall>j. account_of j (fst w') = (if j = uid then map_option (\<lambda>u. u\<lparr>us_password := ev_bcrypt bc new\<rparr>) (account_of j (fst w))
              else account_of j (fst w)))
        \<and> (\<forall>x \<in> set (ad_sessions (id_auth (pe_identity (fst w')))). ss_userId x = uid \<longrightarrow> ss_isRevoked x)
        \<and> (\<forall>t \<in> set (ad_tokens (id_auth (pe_identity (fst w')))).
             rt_sessionId t \<in> set (open_sessions uid (id_auth (pe_identity (fst w)))) \<longrightarrow> rt_status t = TokRevoked)
        \<and> (\<exists>e. snd w' = snd w @ [e] \<and> ev_action e = ''user.password_changed'' \<and> ev_targetId e = Some uid
             \<and> ev_actorId e = at_id (ac_actor ctx))
    | _ \<Rightarrow> w' = w"
proof -
  let ?spec = "user_spec ''user.password_changed'' ''api.users.change_password'' uid ctx None
      (password_mutation (pn_now env) uid (ev_bcrypt bc new)) (\<lambda>n. Some [(''revokedSessionCount'', JsNum (int n))])"
  let ?run = "auditedMutation (pn_audit env) (pn_eventId env) (pn_now env) ?spec w"
  show ?thesis
  proof (cases "\<exists>u n. account_of uid (fst w) = Some u \<and> us_status u \<noteq> StDeleted \<and> ev_compare bc cur (us_password u) \<and> fst ?run = Inr n")
    case False
    have "fst ?run = Inl e \<Longrightarrow> snd ?run = w" for e
      using auditedMutation_error [of _ _ _ ?spec w e "snd ?run"] by (cases ?run) simp
    with False assms show ?thesis
      unfolding changePassword_def by (auto split: option.splits if_splits prod.splits sum.splits change_password_result.splits)
  next
    case True
    then obtain u n where u: "account_of uid (fst w) = Some u" "us_status u \<noteq> StDeleted" "ev_compare bc cur (us_password u)"
      and run: "?run = (Inr n, snd ?run)" by (metis prod.collapse)
    from mutate_and_record_ok [OF conjunct1 [OF auditedMutation_ok [OF run]]] obtain db' e where
      mut: "password_mutation (pn_now env) uid (ev_bcrypt bc new) (fst w) = (Inr n, db')"
      and w2: "snd ?run = (db', snd w @ [e])" and e: "attributed ?spec n (pn_now env) e"
      by (auto simp: user_spec_def)
    have "res = Inr (PasswordChanged n) \<and> w' = (db', snd w @ [e])"
      using assms u run w2 unfolding changePassword_def by (auto split: prod.splits)
    moreover have "\<forall>j. account_of j db' = (if j = uid then map_option (\<lambda>u. u\<lparr>us_password := ev_bcrypt bc new\<rparr>) (account_of j (fst w))
              else account_of j (fst w))"
      using mut u(1) by (auto simp: password_mutation_def Let_def account_of_def find_account_update split: if_splits)
    moreover have "\<forall>x \<in> set (ad_sessions (id_auth (pe_identity db'))). ss_userId x = uid \<longrightarrow> ss_isRevoked x"
      using mut u(1) by (auto simp: password_mutation_def Let_def open_sessions_def filter_empty_conv update_user_def
          revoke_sessions_def revoke_tokens_def set_update_where mark_revoked_def split: if_splits)
    moreover have "\<forall>t \<in> set (ad_tokens (id_auth (pe_identity db'))).
        rt_sessionId t \<in> set (open_sessions uid (id_auth (pe_identity (fst w)))) \<longrightarrow> rt_status t = TokRevoked"
      using mut u(1) by (auto simp: password_mutation_def Let_def open_sessions_def filter_empty_conv update_user_def
          revoke_sessions_def revoke_tokens_def set_update_where split: if_splits)
    moreover have "ev_action e = ''user.password_changed'' \<and> ev_targetId e = Some uid \<and> ev_actorId e = at_id (ac_actor ctx)"
      using e by (simp add: attributed_def user_spec_def or_else_def)
    ultimately show ?thesis using u by auto
  qed
qed

abbreviation demo_people_env :: people_env where
  "demo_people_env \<equiv> \<lparr>pn_now = 10, pn_profileId = ''p2'', pn_eventId = ''e'', pn_audit = demo_env, pn_fieldsAddr = 7, pn_down = False\<rparr>"

abbreviation demo_world :: people_world where
  "demo_world \<equiv> (\<lparr>pe_identity = demo_identity\<lparr>id_users := [demo_account\<lparr>us_password := ''#Pw''\<rparr>], id_auth := demo_login\<rparr>,
     pe_learner = demo_consents, pe_profiles = [demo_profile]\<rparr>, [])"

abbreviation demo_context :: audit_context where
  "demo_context \<equiv> \<lparr>ac_actor = \<lparr>at_type = ActorUser, at_id = Some ''u'', at_role = Some ''LEARNER''\<rparr>, ac_requestId = None,
     ac_ipAddress = None, ac_userAgent = None\<rparr>"

theorem password_change_atomic_witness:
  "let w' = snd (changePassword demo_people_env (demo_auth_env 10) ''u'' ''Pw'' ''new'' demo_context demo_world)
   in fst (changePassword demo_people_env (demo_auth_env 10) ''u'' ''Pw'' ''new'' demo_context demo_world) = Inr (PasswordChanged 1)
     \<and> map_option us_password (account_of ''u'' (fst w')) = Some ''#new''
     \<and> list_all ss_isRevoked (filter (\<lambda>x. ss_userId x = ''u'') (ad_sessions (id_auth (pe_identity (fst w')))))
     \<and> map ev_action (snd w') = [''user.password_changed'']"
proof -
  define run where "run = changePassword demo_people_env (demo_auth_env 10) ''u'' ''Pw'' ''new'' demo_context demo_world"
  have fst_run: "fst run = Inr (PasswordChanged 1)" unfolding run_def by code_simp
  have "changePassword demo_people_env (demo_auth_env 10) ''u'' ''Pw'' ''new'' demo_context demo_world = (Inr (PasswordChanged 1), snd run)"
    unfolding run_def [symmetric] by (rule prod_eqI) (simp_all only: fst_run fst_conv snd_conv)
  from password_change_atomic [OF this, unfolded sum.case change_password_result.case]
  have p: "\<forall>j. account_of j (fst (snd run)) = (if j = ''u'' then map_option (\<lambda>u. u\<lparr>us_password := ''#new''\<rparr>) (account_of j (fst demo_world))
        else account_of j (fst demo_world))"
    and q: "\<forall>x \<in> set (ad_sessions (id_auth (pe_identity (fst (snd run))))). ss_userId x = ''u'' \<longrightarrow> ss_isRevoked x"
    and e: "\<exists>e. snd (snd run) = snd demo_world @ [e] \<and> ev_action e = ''user.password_changed''"
    by auto
  have "account_of ''u'' (fst demo_world) = Some (demo_account\<lparr>us_password := ''#Pw''\<rparr>)"
    by (simp add: account_of_def find_account_def)
  with p have "map_option us_password (account_of ''u'' (fst (snd run))) = Some ''#new''" by simp
  with q e fst_run show ?thesis unfolding run_def [symmetric] Let_def by (auto simp: list_all_iff)
qed

text \<open>
  An administrator can change nothing about themselves: the audit policy wants a reason for what an administrator does,
  these routes have none to give, and the error is answered 500 - for the right password, a free wallet address,
  or a profile field - with nothing changed.
\<close>

theorem admins_cannot_change_themselves:
  assumes "user_id user = Some uid" and "map_option au_role user = Some ''ADMIN''" and "ar_actor req = None" and "\<not> pn_down env"
    and "account_of uid (fst w) = Some u" and "us_status u \<noteq> StDeleted" and "ev_compare bc cur (us_password u)"
    and "wallet_check uid address (fst w) = WalletProceed had"
  shows "users_changePassword env bc user req (Inr \<lparr>cp_currentPassword = cur, cp_newPassword = new\<rparr>) w = (internal_error, w)
    \<and> users_updateWalletAddress env user req (Inr address) w = (internal_error, w)
    \<and> users_updateProfile env user req (Inr d) w = (internal_error, w)
    \<and> updateMyProfile env user req (Inr d) w = (internal_error, w)"
proof -
  from assms(2,3) have admin: "at_type (ac_actor (requestAuditContext user req)) = ActorAdmin"
    by (auto simp: requestAuditContext_def actorFromRequest_def)
  have "trim ''User'' \<noteq> []" "trim ''LearnerProfile'' \<noteq> []" "trim ''user.password_changed'' \<noteq> []"
    "trim ''user.wallet_address_changed'' \<noteq> []" "trim ''learner_profile.updated'' \<noteq> []"
    by (simp_all add: trim_def is_space_def)
  then have refused: "auditedMutation e i t (user_spec ''user.password_changed'' s uid (requestAuditContext user req) m f g) w
      = (Inl (PolicyViolated ReasonRequired), w)"
    "auditedMutation e i t (user_spec ''user.wallet_address_changed'' s uid (requestAuditContext user req) m f2 g2) w
      = (Inl (PolicyViolated ReasonRequired), w)"
    "updateProfileAudited env uid d (requestAuditContext user req) w = (Inl (PolicyViolated ReasonRequired), w)"
    for e i t s m f g f2 g2
    by (simp_all add: auditedMutation_def assertPolicy_def user_spec_def update_spec_def updateProfileAudited_def admin blank_def)
  show ?thesis
    using assms(4-8)
    by (simp add: users_changePassword_def users_updateWalletAddress_def users_updateProfile_def updateMyProfile_def assms(1) guarded_def
        changePassword_def updateWalletAddress_def wallet_commit_def refused)
qed

theorem admins_cannot_change_themselves_witness:
  "users_changePassword demo_people_env (demo_auth_env 10) (Some \<lparr>au_id = ''u'', au_role = ''ADMIN'', au_email = ''a@b.c''\<rparr>)
     \<lparr>ar_actor = None, ar_requestId = None, ar_ip = None, ar_userAgentHeader = None\<rparr>
     (Inr \<lparr>cp_currentPassword = ''Pw'', cp_newPassword = ''new''\<rparr>) demo_world = (internal_error, demo_world)"
proof -
  have "wallet_check ''u'' ''G'' (fst demo_world) = WalletProceed False"
    by (simp add: wallet_check_def account_of_def find_account_def)
  from admins_cannot_change_themselves [OF _ _ _ _ _ _ _ this, where user = "Some \<lparr>au_id = ''u'', au_role = ''ADMIN'', au_email = ''a@b.c''\<rparr>"
      and req = "\<lparr>ar_actor = None, ar_requestId = None, ar_ip = None, ar_userAgentHeader = None\<rparr>" and env = demo_people_env
      and u = "demo_account\<lparr>us_password := ''#Pw''\<rparr>" and bc = "demo_auth_env 10" and cur = "''Pw''" and new = "''new''" and d = no_patch]
  show ?thesis by (simp add: user_id_def account_of_def find_account_def)
qed

end
