(* ===== verification/SessionRoutes.thy ===== *)
theory SessionRoutes
  imports SessionProps Credentials
begin

text \<open>
  The session controller, \<open>src/src/controllers/session.controller.ts\<close>, with the query schema of
  \<open>schemas/session.schema.ts\<close>: a user lists, revokes one of, or revokes all other of the own sessions. Which session is the current
  one is found by the access token of the request, which the row of a session holds until the
  next refresh. \<open>down\<close> says that the database throws in the service; the lookup of
  the current session catches what it throws (\<open>lookupDown\<close>) and finds nothing.
\<close>

record session_request =
  sr_authorization :: "string option"
  sr_user :: auth_user
  sr_ip :: "string option"
  sr_userAgent :: "string option"

definition session_context :: "session_request \<Rightarrow> refresh_context" where
  "session_context req = \<lparr>cx_ipAddress = sr_ip req, cx_userAgent = sr_userAgent req\<rparr>"

definition bearer_raw :: "string option \<Rightarrow> string option" where
  "bearer_raw header =
     (case header of
        None \<Rightarrow> None
      | Some h \<Rightarrow> if h = [] \<or> \<not> starts_with ''Bearer '' h then None else Some (drop 7 h))"

definition resolveCurrentSessionId :: "bool \<Rightarrow> session_request \<Rightarrow> auth_db \<Rightarrow> ident option" where
  "resolveCurrentSessionId lookupDown req db =
     (case bearer_raw (sr_authorization req) of
        None \<Rightarrow> None
      | Some raw \<Rightarrow>
          if lookupDown then None
          else (case List.find (\<lambda>s. ss_token s = raw) (ad_sessions db) of
                  None \<Rightarrow> None
                | Some s \<Rightarrow> if ss_isRevoked s \<or> ss_userId s \<noteq> au_id (sr_user req) then None else Some (ss_id s)))"

text \<open>One number of a query: absent or empty is the default, text that does not start with a number fails.\<close>

definition page_number :: "nat \<Rightarrow> string option \<Rightarrow> int option" where
  "page_number d v =
     (case v of None \<Rightarrow> Some (int d) | Some s \<Rightarrow> if s = [] then Some (int d) else parseInt10 s)"

definition sessionListQuery :: "string option \<Rightarrow> string option \<Rightarrow> (nat \<times> nat) option" where
  "sessionListQuery page limit =
     (case (page_number 1 page, page_number 20 limit) of
        (Some p, Some l) \<Rightarrow> if 1 \<le> p \<and> 1 \<le> l \<and> l \<le> 100 then Some (nat p, nat l) else None
      | _ \<Rightarrow> None)"

record session_page =
  pg_sessions :: "session_view list"
  pg_page :: nat
  pg_limit :: nat
  pg_total :: nat
  pg_totalPages :: nat
  pg_hasNext :: bool
  pg_hasPrev :: bool

datatype session_data = SessionPage session_page | SessionsRevoked nat | SessionCode string

type_synonym session_reply = "session_data reply"

definition ceil_div :: "nat \<Rightarrow> nat \<Rightarrow> nat" where
  "ceil_div n k = (n + k - 1) div k"

definition sessions_list ::
    "time \<Rightarrow> bool \<Rightarrow> bool \<Rightarrow> json \<Rightarrow> string option \<Rightarrow> string option \<Rightarrow> session_request \<Rightarrow> auth_db \<Rightarrow> session_reply" where
  "sessions_list now down lookupDown details page limit req db =
     (case sessionListQuery page limit of
        None \<Rightarrow> validation_failed details
      | Some (p, l) \<Rightarrow>
          if down then internal_error
          else (case list_sessions now (au_id (sr_user req)) (resolveCurrentSessionId lookupDown req db) p l db of
                  (views, n) \<Rightarrow>
                    OkReply 200 None (SessionPage
                      \<lparr>pg_sessions = views, pg_page = p, pg_limit = l, pg_total = n,
                       pg_totalPages = ceil_div n l, pg_hasNext = (p < ceil_div n l), pg_hasPrev = (p > 1)\<rparr>)))"

definition sessions_revoke ::
    "time \<Rightarrow> bool \<Rightarrow> bool \<Rightarrow> json + ident \<Rightarrow> session_request \<Rightarrow> auth_db \<Rightarrow> session_reply \<times> auth_db" where
  "sessions_revoke now down lookupDown params req db = validated params db (\<lambda>sessionId.
     if down then (internal_error, db)
     else (case revokeOne now (au_id (sr_user req)) sessionId (resolveCurrentSessionId lookupDown req db)
                  (session_context req) db of
             (RevokeOk, db1) \<Rightarrow> (MessageReply 200 ''Session revoked successfully'', db1)
           | (RevokeCurrentSession, db1) \<Rightarrow>
               (ErrorData 400 ''Cannot revoke your current session. Use POST /v1/auth/logout instead.''
                  (SessionCode ''CURRENT_SESSION''), db1)
           | (RevokeCrossUser, db1) \<Rightarrow> (ErrorReply 404 ''Session not found'', db1)
           | (RevokeNotFound, db1) \<Rightarrow> (ErrorReply 404 ''Session not found'', db1)))"

definition sessions_revokeOthers ::
    "time \<Rightarrow> bool \<Rightarrow> bool \<Rightarrow> session_request \<Rightarrow> auth_db \<Rightarrow> session_reply \<times> auth_db" where
  "sessions_revokeOthers now down lookupDown req db =
     (if down then (internal_error, db)
      else (case revokeAll now (au_id (sr_user req)) (resolveCurrentSessionId lookupDown req db)
                   (session_context req) db of
              (n, db1) \<Rightarrow>
                (OkReply 200
                   (Some (if n = 0 then ''No other active sessions to revoke''
                          else show_nat n @ '' session'' @ (if n = 1 then [] else ''s'') @ '' revoked successfully''))
                   (SessionsRevoked n), db1)))"

end
