(* ===== verification/SessionRouteProps.thy ===== *)
theory SessionRouteProps
  imports SessionRoutes
begin

text \<open>
  Properties of the session routes: they depend on and change the sessions of the caller only, and what
  revoking the others leaves.
\<close>

definition own_sessions :: "ident \<Rightarrow> auth_db \<Rightarrow> auth_db" where
  "own_sessions userId db = db\<lparr>ad_sessions := filter (\<lambda>s. ss_userId s = userId) (ad_sessions db)\<rparr>"

lemma own_sessions_simps [simp]:
  "ad_sessions (own_sessions u db) = filter (\<lambda>s. ss_userId s = u) (ad_sessions db)"
  by (simp add: own_sessions_def)

lemma find_filter_own:
  assumes "distinct (map key rows)"
  shows "List.find (\<lambda>r. key r = k) (filter p rows) =
    (case List.find (\<lambda>r. key r = k) rows of None \<Rightarrow> None | Some r \<Rightarrow> if p r then Some r else None)"
  using assms
proof (induction rows)
  case (Cons y rows)
  have "List.find (\<lambda>r. key r = key y) (filter p rows) = None"
    using Cons.prems by (auto simp: find_None rev_image_eqI)
  with Cons show ?case by auto
qed simp

lemma filter_live_own:
  "filter (live_session u now) (filter (\<lambda>s. ss_userId s = u) rows) = filter (live_session u now) rows"
  by (auto simp: live_session_def intro: filter_cong)

lemma resolve_own:
  assumes "distinct (map ss_token (ad_sessions db))"
  shows "resolveCurrentSessionId ld req (own_sessions (au_id (sr_user req)) db) = resolveCurrentSessionId ld req db"
  unfolding resolveCurrentSessionId_def own_sessions_simps find_filter_own [OF assms]
  by (auto split: option.splits)

lemma list_own: "list_sessions now u c p l (own_sessions u db) = list_sessions now u c p l db"
  unfolding list_sessions_def own_sessions_simps filter_live_own ..

lemma count_live_own:
  "count_where (\<lambda>s. live_session u now s \<and> q s) (filter (\<lambda>s. ss_userId s = u) rows) =
     count_where (\<lambda>s. live_session u now s \<and> q s) rows"
  by (induction rows) (auto simp: live_session_def)

lemma revokeAll_own: "fst (revokeAll now u c ctx (own_sessions u db)) = fst (revokeAll now u c ctx db)"
  by (simp add: revokeAll_def Let_def count_live_own)

text \<open>For the caller, another user's session is a missing one.\<close>

definition hidden :: "revoke_one_result \<Rightarrow> revoke_one_result" where
  "hidden r = (if r = RevokeCrossUser then RevokeNotFound else r)"

lemma revokeOne_own:
  assumes "distinct (map ss_id (ad_sessions db))"
  shows "hidden (fst (revokeOne now u sid c ctx (own_sessions u db))) = hidden (fst (revokeOne now u sid c ctx db))"
  unfolding revokeOne_def find_session_def own_sessions_simps find_filter_own [OF assms]
  by (auto simp: hidden_def split: option.splits)

lemma revoke_reply_hidden:
  "fst (sessions_revoke now False ld (Inr sid) req db) =
     (case hidden (fst (revokeOne now (au_id (sr_user req)) sid (resolveCurrentSessionId ld req db) (session_context req) db)) of
        RevokeOk \<Rightarrow> MessageReply 200 ''Session revoked successfully''
      | RevokeCurrentSession \<Rightarrow>
          ErrorData 400 ''Cannot revoke your current session. Use POST /v1/auth/logout instead.'' (SessionCode ''CURRENT_SESSION'')
      | _ \<Rightarrow> ErrorReply 404 ''Session not found'')"
  unfolding sessions_revoke_def
  by (simp add: hidden_def split: prod.split revoke_one_result.split)

lemma filter_update_other:
  assumes "\<And>r. r \<in> set rows \<Longrightarrow> p r \<Longrightarrow> \<not> q r" and "\<And>r. q (f r) \<Longrightarrow> q r"
  shows "filter q (update_where p f rows) = filter q rows"
  using assms by (induction rows) auto

lemma revokeOne_others:
  assumes "distinct (map ss_id (ad_sessions db))"
  shows "filter (\<lambda>s. ss_userId s \<noteq> u) (ad_sessions (snd (revokeOne now u sid c ctx db))) =
    filter (\<lambda>s. ss_userId s \<noteq> u) (ad_sessions db)"
proof (cases "fst (revokeOne now u sid c ctx db) = RevokeOk")
  case True
  then obtain r where r: "find_session sid db = Some r" "ss_userId r = u"
    by (auto simp: revokeOne_def split: option.splits if_splits)
  then have "ss_userId s = u" if "s \<in> set (ad_sessions db)" "ss_id s = sid" for s
    using find_key_unique [OF assms that(1)] that(2) by (simp add: find_session_def)
  then have "filter (\<lambda>s. ss_userId s \<noteq> u) (update_where (\<lambda>s. ss_id s = sid) (mark_revoked now) (ad_sessions db))
      = filter (\<lambda>s. ss_userId s \<noteq> u) (ad_sessions db)"
    by (intro filter_update_other) (auto simp: mark_revoked_def)
  with r show ?thesis by (simp add: revokeOne_def audit_op_def)
next
  case False
  then have "snd (revokeOne now u sid c ctx db) = db"
    by (auto simp: revokeOne_def split: option.splits if_splits)
  then show ?thesis by simp
qed

lemma revokeAll_others:
  "filter (\<lambda>s. ss_userId s \<noteq> u) (ad_sessions (snd (revokeAll now u c ctx db))) =
    filter (\<lambda>s. ss_userId s \<noteq> u) (ad_sessions db)"
  by (auto simp: revokeAll_def Let_def audit_op_def mark_revoked_def live_session_def intro!: filter_update_other)

lemma revoke_state:
  "snd (sessions_revoke now down ld params req db) \<in> {db,
     snd (revokeOne now (au_id (sr_user req)) (projr params) (resolveCurrentSessionId ld req db) (session_context req) db)}"
proof (cases params)
  case (Inr sid)
  then show ?thesis unfolding Inr sessions_revoke_def
    by (simp split: prod.split revoke_one_result.split)
qed (simp add: sessions_revoke_def)

text \<open>
  C16. A user's session routes see and change only the user's own sessions: every answer is the one the same request
  would get in a database without anybody else's sessions, in particular a session of another user is answered as a
  missing one, and the sessions of others are left as they were.
\<close>

theorem session_routes_see_only_own:
  assumes tokens: "distinct (map ss_token (ad_sessions db))" and ids: "distinct (map ss_id (ad_sessions db))"
    and own: "own = own_sessions (au_id (sr_user req)) db"
  shows "sessions_list now down ld details page limit req own = sessions_list now down ld details page limit req db
    \<and> fst (sessions_revoke now down ld params req own) = fst (sessions_revoke now down ld params req db)
    \<and> fst (sessions_revokeOthers now down ld req own) = fst (sessions_revokeOthers now down ld req db)
    \<and> list_all (\<lambda>db'. filter (\<lambda>s. ss_userId s \<noteq> au_id (sr_user req)) (ad_sessions db')
          = filter (\<lambda>s. ss_userId s \<noteq> au_id (sr_user req)) (ad_sessions db))
        [snd (sessions_revoke now down ld params req db), snd (sessions_revokeOthers now down ld req db)]"
proof -
  note resolve = resolve_own [OF tokens, of ld req]
  have "fst (sessions_revoke now down ld params req own) = fst (sessions_revoke now down ld params req db)"
  proof (cases params)
    case (Inr sid)
    show ?thesis
    proof (cases down)
      case False
      show ?thesis
        unfolding Inr own using False revokeOne_own [OF ids, of now "au_id (sr_user req)" sid]
        by (simp add: revoke_reply_hidden resolve)
    qed (simp add: Inr sessions_revoke_def)
  qed (simp add: sessions_revoke_def)
  moreover have "fst (sessions_revokeOthers now down ld req own) = fst (sessions_revokeOthers now down ld req db)"
    using revokeAll_own [of now "au_id (sr_user req)" "resolveCurrentSessionId ld req db" "session_context req" db]
    by (auto simp: own sessions_revokeOthers_def resolve split: prod.split)
  moreover have "sessions_list now down ld details page limit req own = sessions_list now down ld details page limit req db"
    unfolding own sessions_list_def resolve list_own ..
  moreover have "snd (sessions_revoke now down ld params req db) \<in> {db,
      snd (revokeOne now (au_id (sr_user req)) (projr params) (resolveCurrentSessionId ld req db) (session_context req) db)}"
    by (rule revoke_state)
  moreover have "snd (sessions_revokeOthers now down ld req db) \<in> {db,
      snd (revokeAll now (au_id (sr_user req)) (resolveCurrentSessionId ld req db) (session_context req) db)}"
    by (auto simp: sessions_revokeOthers_def split: prod.split)
  ultimately show ?thesis using revokeOne_others [OF ids] revokeAll_others by auto
qed

abbreviation demo_session_request :: "string \<Rightarrow> session_request" where
  "demo_session_request token \<equiv> \<lparr>sr_authorization = Some (''Bearer '' @ token),
     sr_user = \<lparr>au_id = ''u'', au_role = ''LEARNER'', au_email = ''e''\<rparr>, sr_ip = None, sr_userAgent = None\<rparr>"

abbreviation two_users :: auth_db where
  "two_users \<equiv> demo_auth [demo_session ''t0'' None,
     (demo_session ''t1'' None)\<lparr>ss_id := ''s-2'', ss_userId := ''v''\<rparr>] []"

theorem session_routes_see_only_own_witness:
  "fst (sessions_revoke 5 False False (Inr ''s-2'') (demo_session_request ''t0'') two_users) = ErrorReply 404 ''Session not found''
   \<and> fst (sessions_revoke 5 False False (Inr ''s-2'') (demo_session_request ''t0'') (own_sessions ''u'' two_users))
      = ErrorReply 404 ''Session not found''"
proof -
  have r: "fst (sessions_revoke 5 False False (Inr ''s-2'') (demo_session_request ''t0'') two_users)
      = ErrorReply 404 ''Session not found''"
    by (simp add: sessions_revoke_def revokeOne_def find_session_def)
  moreover have "fst (sessions_revoke 5 False False (Inr ''s-2'') (demo_session_request ''t0'') (own_sessions ''u'' two_users)) =
      fst (sessions_revoke 5 False False (Inr ''s-2'') (demo_session_request ''t0'') two_users)"
    using session_routes_see_only_own [of two_users "own_sessions ''u'' two_users" "demo_session_request ''t0''" 5 False False
        JNull None None "Inr ''s-2''"] by simp
  ultimately show ?thesis by simp
qed

section \<open>Revoking the others\<close>

lemma filter_live_update:
  "filter (live_session u now) (update_where (\<lambda>s. live_session u now s \<and> q s) (mark_revoked now) rows) =
     filter (\<lambda>s. live_session u now s \<and> \<not> q s) rows"
  by (induction rows) (auto simp: live_session_def mark_revoked_def)

text \<open>Exactly the session the request's access token is stored with stays alive.\<close>

lemma revoke_others_keeps_current:
  assumes "list_all (\<lambda>s. ss_id s \<noteq> []) (ad_sessions db)"
  shows "filter (live_session (au_id (sr_user req)) now) (ad_sessions (snd (sessions_revokeOthers now False ld req db))) =
    filter (\<lambda>s. live_session (au_id (sr_user req)) now s \<and> Some (ss_id s) = resolveCurrentSessionId ld req db) (ad_sessions db)"
proof -
  let ?c = "resolveCurrentSessionId ld req db"
  have "ad_sessions (snd (sessions_revokeOthers now False ld req db)) =
      update_where (\<lambda>s. live_session (au_id (sr_user req)) now s \<and>
        ss_id s \<notin> set (case ?c of None \<Rightarrow> [] | Some c \<Rightarrow> if c = [] then [] else [c])) (mark_revoked now) (ad_sessions db)"
    by (simp add: sessions_revokeOthers_def revokeAll_def Let_def audit_op_def split: prod.split)
  with assms show ?thesis
    by (auto simp: filter_live_update list_all_iff intro!: filter_cong split: option.splits)
qed

text \<open>
  Whoever refreshes and then asks to revoke all other sessions with the access token from before the refresh, which is still
  valid, is signed out everywhere: the session row holds the new token only, so no session counts as the current one.
\<close>

theorem revoke_others_after_refresh:
  assumes rotated: "rotate tc t newId newRaw raw ctx db = (Inr (RotOk access fresh n), db1)"
    and t: "find_token (tc_hash tc raw) db = Some tok" and s: "find_session (rt_sessionId tok) db = Some s"
    and tokens: "distinct (map ss_token (ad_sessions db))" and ids: "list_all (\<lambda>s. ss_id s \<noteq> []) (ad_sessions db)"
    and old: "sr_authorization req = Some (''Bearer '' @ ss_token s)" "access \<noteq> ss_token s"
  shows "filter (live_session (au_id (sr_user req)) now)
    (ad_sessions (snd (sessions_revokeOthers now False ld req db1))) = []"
proof -
  from rotated obtain tok' s' where found: "find_token (tc_hash tc raw) db = Some tok'"
    "find_session (rt_sessionId tok') db = Some s'"
    and mint: "rotate_mint tc t newId newRaw (tc_sign tc (ss_userId s') (ad_role db (ss_userId s')) t) tok'
      (snd (rotate_claim (rt_id tok') db)) = (Inr (), db1)"
    by (rule rotate_ok)
  with t s have same: "tok' = tok" "s' = s" by simp_all
  let ?acc = "tc_sign tc (ss_userId s) (ad_role db (ss_userId s)) t"
  have acc: "access = ?acc"
    using rotated t s mint unfolding same
    by (auto simp: rotate_def Let_def rotate_claim_def split: rotate_decision.splits if_splits prod.splits sum.splits)
  have "ad_sessions (snd (rotate_claim (rt_id tok) db)) = ad_sessions db" by (simp add: rotate_claim_def)
  with minted [OF mint [unfolded same]] have rows: "ad_sessions db1 = update_where (\<lambda>s. ss_id s = rt_sessionId tok)
      (\<lambda>s. s\<lparr>ss_token := ?acc, ss_lastUsedAt := Some t\<rparr>) (ad_sessions db)" by auto
  have "s \<in> set (ad_sessions db)" "ss_id s = rt_sessionId tok"
    using find_Some [OF s [unfolded find_session_def]] by auto
  then have only: "x = s" if "x \<in> set (ad_sessions db)" "ss_token x = ss_token s" for x
    using tokens that by (auto simp: distinct_map inj_on_def)
  have "List.find (\<lambda>x. ss_token x = ss_token s) (ad_sessions db1) = None"
    unfolding find_None rows ball_update_where
    using only old(2) acc \<open>ss_id s = rt_sessionId tok\<close> by auto
  then have "resolveCurrentSessionId ld req db1 = None"
    by (simp add: resolveCurrentSessionId_def bearer_raw_def old(1) starts_with_def)
  moreover have "list_all (\<lambda>s. ss_id s \<noteq> []) (ad_sessions db1)"
    using ids by (auto simp: rows list_all_iff ball_update_where)
  ultimately show ?thesis using revoke_others_keeps_current [of db1 req now ld] by simp
qed

theorem revoke_others_after_refresh_witness:
  "filter (live_session ''u'' 20) (ad_sessions (snd (sessions_revokeOthers 20 False False
     (demo_session_request (''uL'' @ show_int 0)) (demo_auth [demo_session (''uL'' @ show_int 10) (Some 10)]
        [demo_token ''r1'' ''raw'' TokRotated 1000, demo_token ''r2'' ''raw2'' TokActive 1010])))) = []"
  using revoke_others_after_refresh [OF demo_rotate, of "demo_token ''r1'' ''raw'' TokActive 1000"
      "demo_session (''uL'' @ show_int 0) None" "demo_session_request (''uL'' @ show_int 0)" 20 False]
  by (simp add: find_token_def find_session_def show_int_def show_nat.simps)

end
