(* ===== verification/DataExports.thy ===== *)
theory DataExports
  imports Auth
begin

text \<open>
  Data exports, \<open>src/src/services/data-export.service.ts\<close>: a user asks for an export, a runner claims it and gathers what
  the tables hold about the user into one JSON text, which can be downloaded until it expires. The tables of an account are those of
  \<open>Accounts\<close>; exports and mails are kept here with their columns.

  What a run reads from the other tables is the argument \<open>xe_rows\<close>, with each column as \<open>JSON.stringify\<close>
  writes it. The generated database client knows the columns of the schema (\<open>xe_columns\<close>) and rejects a \<open>select\<close> of any
  other column with the message \<open>xe_unknown\<close>. \<open>xe_fault\<close> is a failure of the database while the
  export is read, or while the mail is queued at the end.
\<close>

section \<open>State\<close>

datatype data_export_status = ExportPending | ExportProcessing | ExportReady | ExportFailed | ExportExpired

record data_export_request =
  xr_id :: ident
  xr_userId :: ident
  xr_status :: data_export_status
  xr_artifact :: "json_text option"
  xr_artifactBytes :: "nat option"
  xr_error :: "string option"
  xr_attemptCount :: nat
  xr_maxAttempts :: nat
  xr_nextAttemptAt :: "time option"
  xr_lastAttemptAt :: "time option"
  xr_completedAt :: "time option"
  xr_expiresAt :: "time option"
  xr_downloadedAt :: "time option"
  xr_createdAt :: time

text \<open>The role and the creation time of a user are columns no operation here writes.\<close>

record lifecycle_db =
  lc_account :: account_db
  lc_exports :: "data_export_request list"
  lc_emails :: "email_delivery list"
  lc_role :: "ident \<Rightarrow> string"
  lc_joined :: "ident \<Rightarrow> time"

record db_row =
  rw_columns :: "(string \<times> json) list"
  rw_createdAt :: time

datatype export_fault = FaultRead | FaultMail

record data_export_env =
  xe_now :: time
  xe_iso :: "time \<Rightarrow> string"
  xe_utc :: "time \<Rightarrow> string"
  xe_bytes :: "json_text \<Rightarrow> nat"
  xe_ttlDays :: int
  xe_mailId :: "ident \<Rightarrow> ident"
  xe_rows :: "string \<Rightarrow> db_row list"
  xe_columns :: "string \<Rightarrow> string list"
  xe_unknown :: "string \<Rightarrow> string \<Rightarrow> string"
  xe_auditDown :: bool
  xe_fault :: "ident \<Rightarrow> (export_fault \<times> string) option"

definition SYNC_EVENT_EXPORT_CAP :: nat where "SYNC_EVENT_EXPORT_CAP = 1000"

definition active_export :: "ident \<Rightarrow> data_export_request \<Rightarrow> bool" where
  "active_export userId r \<longleftrightarrow> xr_userId r = userId \<and> xr_status r \<in> {ExportPending, ExportProcessing}"

text \<open>\<open>auditService.record\<close> never throws; a failure to write is only logged.\<close>

definition log_account ::
    "bool \<Rightarrow> refresh_context \<Rightarrow> ident \<Rightarrow> account_action \<Rightarrow> json option \<Rightarrow> lifecycle_db \<Rightarrow> lifecycle_db" where
  "log_account down ctx userId action meta db =
     (if down then db else db\<lparr>lc_account := account_op ctx userId action meta (lc_account db)\<rparr>)"

definition no_context :: refresh_context where
  "no_context = \<lparr>cx_ipAddress = None, cx_userAgent = None\<rparr>"

section \<open>Requests\<close>

datatype export_result = ExportCreated data_export_request | ExportDuplicate data_export_request

text \<open>The partial unique index allows one active request per user; the winner of a race is what the \<open>catch\<close> finds.\<close>

definition requestExport :: "time \<Rightarrow> bool \<Rightarrow> ident \<Rightarrow> ident \<Rightarrow> lifecycle_db \<Rightarrow> export_result \<times> lifecycle_db" where
  "requestExport now auditDown rowId userId db =
     (case List.find (active_export userId) (lc_exports db) of
        Some r \<Rightarrow> (ExportDuplicate r, db)
      | None \<Rightarrow>
          (let r = \<lparr>xr_id = rowId, xr_userId = userId, xr_status = ExportPending, xr_artifact = None,
                    xr_artifactBytes = None, xr_error = None, xr_attemptCount = 0, xr_maxAttempts = 5,
                    xr_nextAttemptAt = Some now, xr_lastAttemptAt = None, xr_completedAt = None,
                    xr_expiresAt = None, xr_downloadedAt = None, xr_createdAt = now\<rparr>
           in (ExportCreated r,
               log_account auditDown no_context userId EXPORT_REQUESTED (Some (JObj [(''requestId'', JStr rowId)]))
                 (db\<lparr>lc_exports := lc_exports db @ [r]\<rparr>))))"

definition getExportStatus :: "ident \<Rightarrow> ident \<Rightarrow> lifecycle_db \<Rightarrow> data_export_request option" where
  "getExportStatus userId i db = List.find (\<lambda>r. xr_id r = i \<and> xr_userId r = userId) (lc_exports db)"

definition markDownloaded :: "time \<Rightarrow> bool \<Rightarrow> ident \<Rightarrow> ident \<Rightarrow> lifecycle_db \<Rightarrow> lifecycle_db" where
  "markDownloaded now auditDown userId i db =
     log_account auditDown no_context userId EXPORT_DOWNLOADED (Some (JObj [(''requestId'', JStr i)]))
       (db\<lparr>lc_exports := update_where (\<lambda>r. xr_id r = i \<and> xr_userId r = userId \<and> xr_downloadedAt r = None)
            (\<lambda>r. r\<lparr>xr_downloadedAt := Some now\<rparr>) (lc_exports db)\<rparr>)"

definition purge_due :: "time \<Rightarrow> data_export_request \<Rightarrow> bool" where
  "purge_due now r \<longleftrightarrow> xr_status r = ExportReady \<and> due_at now (xr_expiresAt r)"

definition purge_row :: "data_export_request \<Rightarrow> data_export_request" where
  "purge_row r = r\<lparr>xr_status := ExportExpired, xr_artifact := None\<rparr>"

definition export_purgeExpired :: "time \<Rightarrow> lifecycle_db \<Rightarrow> nat \<times> lifecycle_db" where
  "export_purgeExpired now db = (count_where (purge_due now) (lc_exports db),
     db\<lparr>lc_exports := update_where (purge_due now) purge_row (lc_exports db)\<rparr>)"

section \<open>The artifact\<close>

text \<open>An undefined property is left out by \<open>JSON.stringify\<close>.\<close>

definition prop_of :: "string \<Rightarrow> json option \<Rightarrow> (string \<times> json) list" where
  "prop_of k v = (case v of None \<Rightarrow> [] | Some x \<Rightarrow> [(k, x)])"

definition row_column :: "db_row \<Rightarrow> string \<Rightarrow> json option" where
  "row_column r k = map_of (rw_columns r) k"

definition columns_json :: "string list \<Rightarrow> db_row \<Rightarrow> json" where
  "columns_json cs r = JObj (concat (map (\<lambda>c. prop_of c (row_column r c)) cs))"

definition owned_by :: "string \<Rightarrow> ident \<Rightarrow> db_row \<Rightarrow> bool" where
  "owned_by key userId r \<longleftrightarrow> row_column r key = Some (JStr userId)"

definition owned_rows :: "data_export_env \<Rightarrow> string \<Rightarrow> string \<Rightarrow> ident \<Rightarrow> db_row list" where
  "owned_rows env model key userId = filter (owned_by key userId) (xe_rows env model)"

definition select_rows :: "data_export_env \<Rightarrow> string \<Rightarrow> string list \<Rightarrow> db_row list \<Rightarrow> string + json list" where
  "select_rows env model cs rows =
     (case List.find (\<lambda>c. c \<notin> set (xe_columns env model)) cs of
        Some c \<Rightarrow> Inl (xe_unknown env model c)
      | None \<Rightarrow> Inr (map (columns_json cs) rows))"

definition first_or_null :: "json list \<Rightarrow> json" where
  "first_or_null vs = (case vs of [] \<Rightarrow> JNull | v # _ \<Rightarrow> v)"

definition moduleTitle :: "data_export_env \<Rightarrow> db_row \<Rightarrow> json option" where
  "moduleTitle env r =
     (case List.find (\<lambda>m. row_column m ''id'' = row_column r ''moduleId'') (xe_rows env ''Module'') of
        None \<Rightarrow> None | Some m \<Rightarrow> row_column m ''title'')"

definition with_title :: "data_export_env \<Rightarrow> string list \<Rightarrow> db_row \<Rightarrow> json" where
  "with_title env cs r = JObj (prop_of ''moduleId'' (row_column r ''moduleId'') @ prop_of ''moduleTitle'' (moduleTitle env r)
     @ concat (map (\<lambda>c. prop_of c (row_column r c)) cs))"

definition not_archived :: "db_row \<Rightarrow> bool" where
  "not_archived r \<longleftrightarrow> row_column r ''archivedAt'' \<in> {None, Some JNull}"

definition latest_first :: "db_row list \<Rightarrow> db_row list" where
  "latest_first rows = sort_key (\<lambda>r. - rw_createdAt r) rows"

fun status_name :: "account_status \<Rightarrow> string" where
  "status_name StActive = ''ACTIVE''"
| "status_name StDeactivated = ''DEACTIVATED''"
| "status_name StPendingDeletion = ''PENDING_DELETION''"
| "status_name StDeleted = ''DELETED''"

definition nullable :: "('a \<Rightarrow> json) \<Rightarrow> 'a option \<Rightarrow> json" where
  "nullable f v = (case v of None \<Rightarrow> JNull | Some x \<Rightarrow> f x)"

definition profile_json :: "data_export_env \<Rightarrow> lifecycle_db \<Rightarrow> user_row \<Rightarrow> json" where
  "profile_json env db u = JObj
     [(''id'', JStr (us_id u)), (''email'', JStr (us_email u)), (''username'', JStr (us_username u)),
      (''role'', JStr (lc_role db (us_id u))), (''walletAddress'', nullable JStr (us_walletAddress u)),
      (''isVerified'', JBool (us_isVerified u)), (''status'', JStr (status_name (us_status u))),
      (''createdAt'', JStr (xe_iso env (lc_joined db (us_id u)))),
      (''lastLoginAt'', nullable (\<lambda>t. JStr (xe_iso env t)) (us_lastLoginAt u))]"

definition referral_columns :: "string list" where
  "referral_columns = [''referreeId'', ''bonusPaid'', ''bonusAmount'', ''createdAt'']"

text \<open>The eight reads of the \<open>Promise.all\<close> that name their columns, in its order.\<close>

definition selected_reads :: "data_export_env \<Rightarrow> ident \<Rightarrow> (string + json list) list" where
  "selected_reads env userId =
     [select_rows env ''ReferralCode'' [''code'', ''createdAt'']
        (filter not_archived (owned_rows env ''ReferralCode'' ''userId'' userId)),
      select_rows env ''Referral'' referral_columns
        (owned_rows env ''Referral'' ''referrerId'' userId),
      select_rows env ''Referral'' [''referrerId'', ''createdAt''] (owned_rows env ''Referral'' ''referreeId'' userId),
      select_rows env ''SyncEvent''
        [''deviceId'', ''eventType'', ''payload'', ''clientTimestamp'', ''status'', ''createdAt'']
        (take SYNC_EVENT_EXPORT_CAP (latest_first (owned_rows env ''SyncEvent'' ''userId'' userId))),
      select_rows env ''NotificationPreference'' [''rewardReceipt'', ''quizPassFail'', ''streakReminders'']
        (owned_rows env ''NotificationPreference'' ''userId'' userId),
      select_rows env ''NotificationLog'' [''type'', ''title'', ''status'', ''createdAt'']
        (owned_rows env ''NotificationLog'' ''userId'' userId),
      select_rows env ''Session'' [''userAgent'', ''ipAddress'', ''createdAt'', ''expiresAt'', ''isRevoked'']
        (owned_rows env ''Session'' ''userId'' userId),
      select_rows env ''AuditLog'' [''action'', ''createdAt''] (owned_rows env ''AuditLog'' ''userId'' userId)]"

fun all_or_error :: "('e + 'a) list \<Rightarrow> 'e + 'a list" where
  "all_or_error [] = Inr []"
| "all_or_error (Inl e # rs) = Inl e"
| "all_or_error (Inr a # rs) = (case all_or_error rs of Inl e \<Rightarrow> Inl e | Inr as \<Rightarrow> Inr (a # as))"

definition artifact_of :: "data_export_env \<Rightarrow> lifecycle_db \<Rightarrow> user_row \<Rightarrow> json list list \<Rightarrow> json_text" where
  "artifact_of env db u reads =
     json_stringify (JObj
       [(''exportVersion'', JNum 1), (''generatedAt'', JStr (xe_iso env (xe_now env))),
        (''data'', JObj
          [(''profile'', profile_json env db u),
           (''completions'', JArr (map (with_title env [''score'', ''completedAt'']) (owned_rows env ''Completion'' ''userId'' (us_id u)))),
           (''credentials'', JArr (map (with_title env [''onChainId'', ''issuedAt'']) (owned_rows env ''Credential'' ''userId'' (us_id u)))),
           (''transactions'', JArr (map (columns_json [''id'', ''amount'', ''type'', ''status'', ''createdAt''])
              (owned_rows env ''Transaction'' ''userId'' (us_id u)))),
           (''referralCode'', first_or_null (reads ! 0)), (''referralsGiven'', JArr (reads ! 1)),
           (''referralReceived'', first_or_null (reads ! 2)), (''syncEvents'', JArr (reads ! 3)),
           (''notificationPreference'', first_or_null (reads ! 4)), (''notificationLogs'', JArr (reads ! 5)),
           (''sessions'', JArr (reads ! 6)), (''auditLog'', JArr (reads ! 7))])])"

section \<open>The runner\<close>

definition buildExportReadyEmail :: "data_export_env \<Rightarrow> string \<Rightarrow> time \<Rightarrow> string" where
  "buildExportReadyEmail env username expiresAt = join_lines
     [[], ''      <p>Hi '' @ username @ '',</p>'',
      ''      <p>Your Learnault data export is ready to download from your account settings.</p>'',
      ''      <p>The download is available until <strong>'' @ xe_utc env expiresAt
        @ ''</strong>, after which it is permanently removed.</p>'',
      ''      <p>If you did not request this export, please change your password immediately.</p>'',
      ''    '']"

definition read_export :: "data_export_env \<Rightarrow> ident \<Rightarrow> ident \<Rightarrow> lifecycle_db \<Rightarrow> string + user_row \<times> json_text" where
  "read_export env requestId userId db =
     (case xe_fault env requestId of
        Some (FaultRead, err) \<Rightarrow> Inl err
      | _ \<Rightarrow>
          (case List.find (\<lambda>u. us_id u = userId) (ac_users (lc_account db)) of
             None \<Rightarrow> Inl (''User '' @ userId @ '' not found for export'')
           | Some u \<Rightarrow>
               (case all_or_error (selected_reads env userId) of
                  Inl err \<Rightarrow> Inl err
                | Inr reads \<Rightarrow> Inr (u, artifact_of env db u reads))))"

definition mark_ready :: "data_export_env \<Rightarrow> json_text \<Rightarrow> data_export_request \<Rightarrow> data_export_request" where
  "mark_ready env artifact r = r\<lparr>xr_status := ExportReady, xr_artifact := Some artifact,
     xr_artifactBytes := Some (xe_bytes env artifact), xr_error := None, xr_completedAt := Some (xe_now env),
     xr_expiresAt := Some (xe_now env + xe_ttlDays env * 24 * 60 * 60000)\<rparr>"

text \<open>An update by primary key; it throws when the row is gone.\<close>

definition update_export ::
    "ident \<Rightarrow> (data_export_request \<Rightarrow> data_export_request) \<Rightarrow> (lifecycle_db, string, unit) step" where
  "update_export i f db =
     (if \<exists>r \<in> set (lc_exports db). xr_id r = i
      then (Inr (), db\<lparr>lc_exports := update_where (\<lambda>r. xr_id r = i) f (lc_exports db)\<rparr>)
      else (Inl ''Record to update not found.'', db))"

definition announce_export :: "data_export_env \<Rightarrow> ident \<Rightarrow> ident \<Rightarrow> user_row \<Rightarrow> (lifecycle_db, string, unit) step" where
  "announce_export env requestId userId u db =
     (let db1 = log_account (xe_auditDown env) no_context userId EXPORT_READY
                  (Some (JObj [(''requestId'', JStr requestId)])) db;
          expiresAt = xe_now env + xe_ttlDays env * 24 * 60 * 60000
      in case xe_fault env requestId of
           Some (FaultMail, err) \<Rightarrow> (Inl err, db1)
         | _ \<Rightarrow> (Inr (), db1\<lparr>lc_emails := snd (queueEmail (xe_now env) (xe_mailId env requestId) userId (us_email u)
                    ''Your Learnault data export is ready''
                    (buildExportReadyEmail env (us_username u) expiresAt) ''DATA_EXPORT'' (lc_emails db1))\<rparr>))"

definition generateExport :: "data_export_env \<Rightarrow> ident \<Rightarrow> ident \<Rightarrow> (lifecycle_db, string, unit) step" where
  "generateExport env requestId userId db =
     (case read_export env requestId userId db of
        Inl err \<Rightarrow> (Inl err, db)
      | Inr (u, artifact) \<Rightarrow>
          (case update_export requestId (mark_ready env artifact) db of
             (Inl err, db1) \<Rightarrow> (Inl err, db1)
           | (Inr _, db1) \<Rightarrow> announce_export env requestId userId u db1))"

text \<open>\<open>request\<close> is the row as it was read before the claim.\<close>

definition failed_export :: "time \<Rightarrow> data_export_request \<Rightarrow> string \<Rightarrow> data_export_request \<Rightarrow> data_export_request" where
  "failed_export now request err r =
     (let next = xr_attemptCount request + 1 in
      if next \<ge> xr_maxAttempts request then r\<lparr>xr_status := ExportFailed, xr_error := Some err\<rparr>
      else r\<lparr>xr_status := ExportPending, xr_error := Some err, xr_nextAttemptAt := Some (now + backoff_ms 5 next)\<rparr>)"

definition export_due :: "time \<Rightarrow> data_export_request \<Rightarrow> bool" where
  "export_due now r \<longleftrightarrow> xr_status r = ExportPending \<and> due_at now (xr_nextAttemptAt r) \<and> xr_attemptCount r < 5"

definition export_claimable :: "ident \<Rightarrow> data_export_request \<Rightarrow> bool" where
  "export_claimable i r \<longleftrightarrow> xr_id r = i \<and> xr_status r = ExportPending"

definition mark_exporting :: "time \<Rightarrow> data_export_request \<Rightarrow> data_export_request" where
  "mark_exporting now r = r\<lparr>xr_status := ExportProcessing, xr_attemptCount := xr_attemptCount r + 1,
     xr_lastAttemptAt := Some now\<rparr>"

definition claim_export :: "time \<Rightarrow> ident \<Rightarrow> lifecycle_db \<Rightarrow> nat \<times> lifecycle_db" where
  "claim_export now i db = (count_where (export_claimable i) (lc_exports db),
     db\<lparr>lc_exports := update_where (export_claimable i) (mark_exporting now) (lc_exports db)\<rparr>)"

definition run_export :: "data_export_env \<Rightarrow> data_export_request \<Rightarrow> (lifecycle_db, string, unit) step" where
  "run_export env r db =
     (case claim_export (xe_now env) (xr_id r) db of (count, db1) \<Rightarrow>
        if count = 0 then (Inr (), db1)
        else (case generateExport env (xr_id r) (xr_userId r) db1 of
                (Inr _, db2) \<Rightarrow> (Inr (), db2)
              | (Inl err, db2) \<Rightarrow> update_export (xr_id r) (failed_export (xe_now env) r err) db2))"

fun run_exports :: "data_export_env \<Rightarrow> data_export_request list \<Rightarrow> (lifecycle_db, string, unit) step" where
  "run_exports env [] db = (Inr (), db)"
| "run_exports env (r # rs) db =
     (case run_export env r db of (Inl e, db1) \<Rightarrow> (Inl e, db1) | (Inr _, db1) \<Rightarrow> run_exports env rs db1)"

definition export_processQueue :: "data_export_env \<Rightarrow> (lifecycle_db, string, unit) step" where
  "export_processQueue env db = run_exports env (filter (export_due (xe_now env)) (lc_exports db)) db"

section \<open>The sweep\<close>

text \<open>Finalizing a deletion also deletes the exports and the mails of the user.\<close>

definition finalize_one ::
    "(ident \<Rightarrow> string option) \<Rightarrow> (ident \<Rightarrow> string) \<Rightarrow> time \<Rightarrow> deletion_request \<Rightarrow> lifecycle_db \<Rightarrow> lifecycle_db" where
  "finalize_one fault hex now r db =
     (let db1 = db\<lparr>lc_account := process_one fault hex now r (lc_account db)\<rparr> in
      if fst (claim_deletion now (dr_id r) (lc_account db)) = 0 \<or> fault (dr_id r) \<noteq> None then db1
      else db1\<lparr>lc_exports := delete_where (\<lambda>x. xr_userId x = dr_userId r) (lc_exports db),
               lc_emails := delete_where (\<lambda>m. em_userId m = dr_userId r) (lc_emails db)\<rparr>)"

definition finalize_due ::
    "(ident \<Rightarrow> string option) \<Rightarrow> (ident \<Rightarrow> string) \<Rightarrow> time \<Rightarrow> lifecycle_db \<Rightarrow> lifecycle_db" where
  "finalize_due fault hex now db =
     foldl (\<lambda>s r. finalize_one fault hex now r s) db (filter (deletion_due now) (ac_requests (lc_account db)))"

text \<open>The three tasks run side by side and settle each on its own; here one after the other.\<close>

definition sweep :: "(ident \<Rightarrow> string option) \<Rightarrow> (ident \<Rightarrow> string) \<Rightarrow> data_export_env \<Rightarrow> lifecycle_db \<Rightarrow> lifecycle_db" where
  "sweep fault hex env db =
     snd (export_purgeExpired (xe_now env) (snd (export_processQueue env (finalize_due fault hex (xe_now env) db))))"

end
