(* ===== verification/AccountRoutes.thy ===== *)
theory AccountRoutes
  imports DataExports
begin

text \<open>
  The account controller, \<open>src/src/controllers/account.controller.ts\<close>: exports, deactivation and reactivation, requesting
  and cancelling the deletion of an account. Sensitive actions of a signed-in user ask for the password again
  (\<open>stepUp\<close>); reactivating and cancelling are public and take an email and the password (\<open>verifyCredentials\<close>).

  \<open>rq_down\<close> says that the database throws at the first statement of the handler, \<open>rq_mailDown\<close> that queueing the mail at its
  end throws. bcrypt's comparison and the signing of tokens are \<open>rq_compare\<close> and \<open>rq_sign\<close>. The parsers of the schemas
  are arguments, as in \<open>Http\<close>.
\<close>

record account_env =
  rq_now :: time
  rq_rowId :: ident
  rq_mailId :: ident
  rq_coolingOffDays :: int
  rq_compare :: "string \<Rightarrow> string \<Rightarrow> bool"
  rq_sign :: "ident \<Rightarrow> string \<Rightarrow> time \<Rightarrow> string"
  rq_utc :: "time \<Rightarrow> string"
  rq_auditDown :: bool
  rq_down :: bool
  rq_mailDown :: bool

record account_request =
  rr_user :: auth_user
  rr_ip :: "string option"
  rr_userAgent :: "string option"

record export_view =
  xv_id :: ident
  xv_status :: data_export_status
  xv_createdAt :: time
  xv_completedAt :: "time option"
  xv_expiresAt :: "time option"
  xv_downloadedAt :: "time option"

record deletion_view =
  dv_id :: ident
  dv_status :: deletion_status
  dv_scheduledFor :: time
  dv_cancelledAt :: "time option"
  dv_completedAt :: "time option"
  dv_createdAt :: time

datatype account_data =
    ExistingRequest ident
  | ExistingDeletion ident time
  | ExportAccepted ident data_export_status time
  | ExportStatusData export_view
  | NotReadyYet data_export_status
  | Attachment string json_text
  | StatusCode string
  | StatusChanged account_status
  | ReactivatedData string user_summary
  | DeletionAccepted ident deletion_status time
  | DeletionStatusData deletion_view
  | NoDeletion

type_synonym account_response = "account_data reply"

definition account_context :: "account_request \<Rightarrow> refresh_context" where
  "account_context req = \<lparr>cx_ipAddress = rr_ip req, cx_userAgent = rr_userAgent req\<rparr>"

text \<open>The frame of a handler: what the database throws ends in its \<open>catch\<close>.\<close>

definition or_500 :: "bool \<Rightarrow> string \<Rightarrow> 's \<Rightarrow> account_response \<times> 's \<Rightarrow> account_response \<times> 's" where
  "or_500 down msg s r = (if down then (ErrorReply 500 msg, s) else r)"

definition on_account :: "('a \<times> account_db) \<Rightarrow> lifecycle_db \<Rightarrow> 'a \<times> lifecycle_db" where
  "on_account r db = (fst r, db\<lparr>lc_account := snd r\<rparr>)"

section \<open>Mails\<close>

definition buildDeletionRequestedEmail :: "(time \<Rightarrow> string) \<Rightarrow> string \<Rightarrow> time \<Rightarrow> string \<times> string" where
  "buildDeletionRequestedEmail utc username scheduledFor =
     (''Your account deletion request'', join_lines (mail_head @
       [''  <h2>Account deletion requested</h2>'', ''  <p>Hi '' @ username @ '',</p>'',
        ''  <p>We received a request to permanently delete your Learnault account.</p>'',
        ''  <p>Your account is now deactivated and will be permanently deleted on'',
        ''     <strong>'' @ utc scheduledFor @ ''</strong>.</p>'',
        ''  <p>If you change your mind before then, you can cancel the deletion by signing in'',
        ''     through the '' @ [CHR 0x22] @ ''cancel deletion'' @ [CHR 0x22] @ '' option with your email and password.</p>'',
        ''  <p>If you did not request this, cancel the deletion and change your password immediately.</p>'',
        ''</body>'', ''</html>'']))"

definition buildDeletionCancelledEmail :: "string \<Rightarrow> string \<times> string" where
  "buildDeletionCancelledEmail username =
     (''Your account deletion was cancelled'', join_lines (mail_head @
       [''  <h2>Deletion cancelled</h2>'', ''  <p>Hi '' @ username @ '',</p>'',
        ''  <p>Your account deletion request has been cancelled and your account is active again.</p>'',
        ''  <p>If you did not do this, please change your password immediately.</p>'',
        ''</body>'', ''</html>'']))"

definition queue_account_mail ::
    "account_env \<Rightarrow> user_row \<Rightarrow> string \<times> string \<Rightarrow> lifecycle_db \<Rightarrow> lifecycle_db" where
  "queue_account_mail env u m db = db\<lparr>lc_emails := snd (queueEmail (rq_now env) (rq_mailId env) (us_id u)
     (us_email u) (fst m) (snd m) ''ACCOUNT_DELETION'' (lc_emails db))\<rparr>"

section \<open>Exports\<close>

definition account_requestExport :: "account_env \<Rightarrow> account_request \<Rightarrow> lifecycle_db \<Rightarrow> account_response \<times> lifecycle_db" where
  "account_requestExport env req db =
     or_500 (rq_down env) ''Internal server error during export request'' db
       (case requestExport (rq_now env) (rq_auditDown env) (rq_rowId env) (au_id (rr_user req)) db of
          (ExportDuplicate r, db1) \<Rightarrow>
            (ErrorData 409 ''An export request is already in progress'' (ExistingRequest (xr_id r)), db1)
        | (ExportCreated r, db1) \<Rightarrow>
            (OkReply 202 None (ExportAccepted (xr_id r) (xr_status r) (xr_createdAt r)), db1))"

definition account_getExportStatus ::
    "account_env \<Rightarrow> json + ident \<Rightarrow> account_request \<Rightarrow> lifecycle_db \<Rightarrow> account_response \<times> lifecycle_db" where
  "account_getExportStatus env params req db = validated params db (\<lambda>i.
     or_500 (rq_down env) ''Internal server error during export status lookup'' db
       (case getExportStatus (au_id (rr_user req)) i db of
          None \<Rightarrow> (ErrorReply 404 ''Export request not found'', db)
        | Some r \<Rightarrow>
            (OkReply 200 None (ExportStatusData \<lparr>xv_id = xr_id r, xv_status = xr_status r,
               xv_createdAt = xr_createdAt r, xv_completedAt = xr_completedAt r, xv_expiresAt = xr_expiresAt r,
               xv_downloadedAt = xr_downloadedAt r\<rparr>), db)))"

definition export_over :: "time \<Rightarrow> data_export_request \<Rightarrow> bool" where
  "export_over now r \<longleftrightarrow> xr_status r = ExportExpired \<or> due_at now (xr_expiresAt r)"

definition account_downloadExport ::
    "account_env \<Rightarrow> json + ident \<Rightarrow> account_request \<Rightarrow> lifecycle_db \<Rightarrow> account_response \<times> lifecycle_db" where
  "account_downloadExport env params req db = validated params db (\<lambda>i.
     or_500 (rq_down env) ''Internal server error during export download'' db
       (case getExportStatus (au_id (rr_user req)) i db of
          None \<Rightarrow> (ErrorReply 404 ''Export request not found'', db)
        | Some r \<Rightarrow>
            if xr_status r = ExportPending \<or> xr_status r = ExportProcessing
            then (ErrorData 409 ''Export is not ready yet'' (NotReadyYet (xr_status r)), db)
            else if xr_status r = ExportFailed \<or> export_over (rq_now env) r
            then (ErrorReply 410 ''Export is no longer available'', db)
            else (case xr_artifact r of
                    None \<Rightarrow> (ErrorReply 410 ''Export is no longer available'', db)
                  | Some artifact \<Rightarrow>
                      (OkReply 200 None (Attachment (''learnault-export-'' @ xr_id r @ ''.json'') artifact),
                       markDownloaded (rq_now env) (rq_auditDown env) (au_id (rr_user req)) (xr_id r) db))))"

section \<open>Proving who asks\<close>

definition find_user :: "ident \<Rightarrow> lifecycle_db \<Rightarrow> user_row option" where
  "find_user userId db = List.find (\<lambda>u. us_id u = userId) (ac_users (lc_account db))"

definition stepUp ::
    "account_env \<Rightarrow> account_request \<Rightarrow> string \<Rightarrow> string \<Rightarrow> lifecycle_db \<Rightarrow> (account_response + user_row) \<times> lifecycle_db" where
  "stepUp env req password action db =
     (case find_user (au_id (rr_user req)) db of
        None \<Rightarrow> (Inl (ErrorReply 401 ''Account not found''), db)
      | Some u \<Rightarrow>
          if us_status u = StDeleted then (Inl (ErrorReply 401 ''Account not found''), db)
          else if \<not> rq_compare env password (us_password u)
          then (Inl (ErrorData 401 ''Invalid password'' (StatusCode ''STEP_UP_FAILED'')),
                log_account (rq_auditDown env) (account_context req) (au_id (rr_user req)) STEP_UP_FAILED
                  (Some (JObj [(''attemptedAction'', JStr action)])) db)
          else (Inr u, db))"

definition verifyCredentials :: "account_env \<Rightarrow> string \<Rightarrow> string \<Rightarrow> lifecycle_db \<Rightarrow> user_row option" where
  "verifyCredentials env email password db =
     (case List.find (\<lambda>u. us_email u = email) (ac_users (lc_account db)) of
        None \<Rightarrow> None
      | Some u \<Rightarrow>
          if us_status u = StDeleted then None
          else if \<not> rq_compare env password (us_password u) then None
          else Some u)"

section \<open>Deactivation and deletion\<close>

definition account_deactivate ::
    "account_env \<Rightarrow> json + string \<Rightarrow> account_request \<Rightarrow> lifecycle_db \<Rightarrow> account_response \<times> lifecycle_db" where
  "account_deactivate env body req db = validated body db (\<lambda>password.
     or_500 (rq_down env) ''Internal server error during deactivation'' db
       (case stepUp env req password ''deactivate'' db of
          (Inl reply, db1) \<Rightarrow> (reply, db1)
        | (Inr u, db1) \<Rightarrow>
            (case on_account (deactivate (rq_now env) (us_id u) (us_status u) (account_context req) (lc_account db1)) db1 of
               (DeactivateConflict st, db2) \<Rightarrow>
                 (ErrorData 409 (if st = StPendingDeletion then ''Account is pending deletion''
                                 else ''Account is already deactivated'') (StatusCode (status_name st)), db2)
             | (Deactivated, db2) \<Rightarrow>
                 (OkReply 200 (Some ''Account deactivated successfully'') (StatusChanged StDeactivated), db2))))"

record credentials_input =
  ci_email :: string
  ci_password :: string

definition reactivated_user :: "user_row \<Rightarrow> lifecycle_db \<Rightarrow> user_summary" where
  "reactivated_user u db = \<lparr>um_id = us_id u, um_email = us_email u, um_username = us_username u, um_role = lc_role db (us_id u)\<rparr>"

definition account_reactivate ::
    "account_env \<Rightarrow> json + credentials_input \<Rightarrow> account_request \<Rightarrow> lifecycle_db \<Rightarrow> account_response \<times> lifecycle_db" where
  "account_reactivate env body req db = validated body db (\<lambda>c.
     or_500 (rq_down env) ''Internal server error during reactivation'' db
       (case verifyCredentials env (ci_email c) (ci_password c) db of
          None \<Rightarrow> (ErrorReply 401 ''Invalid credentials'', db)
        | Some u \<Rightarrow>
            if us_status u = StPendingDeletion
            then (ErrorData 409 ''Account is scheduled for deletion. Cancel the deletion request to restore access.''
                    (StatusCode ''ACCOUNT_PENDING_DELETION''), db)
            else
              (OkReply 200 (Some ''Account reactivated successfully'')
                 (ReactivatedData (rq_sign env (us_id u) (lc_role db (us_id u)) (rq_now env)) (reactivated_user u db)),
               if us_status u = StDeactivated
               then db\<lparr>lc_account := reactivate (rq_now env) (us_id u) (account_context req) (lc_account db)\<rparr>
               else db)))"

record deletion_input =
  di_password :: string
  di_reason :: "string option"

definition account_requestDeletion ::
    "account_env \<Rightarrow> json + deletion_input \<Rightarrow> account_request \<Rightarrow> lifecycle_db \<Rightarrow> account_response \<times> lifecycle_db" where
  "account_requestDeletion env body req db = validated body db (\<lambda>d.
     or_500 (rq_down env) ''Internal server error during deletion request'' db
       (case stepUp env req (di_password d) ''deletion'' db of
          (Inl reply, db1) \<Rightarrow> (reply, db1)
        | (Inr u, db1) \<Rightarrow>
            (case on_account (requestDeletion (rq_now env) (rq_coolingOffDays env) (rq_rowId env) (us_id u)
                    (di_reason d) (account_context req) (lc_account db1)) db1 of
               (DelRequestDuplicate r, db2) \<Rightarrow>
                 (ErrorData 409 ''A deletion request is already pending'' (ExistingDeletion (dr_id r) (dr_scheduledFor r)), db2)
             | (DelRequestCreated r, db2) \<Rightarrow>
                 or_500 (rq_mailDown env) ''Internal server error during deletion request'' db2
                   (OkReply 202 None (DeletionAccepted (dr_id r) (dr_status r) (dr_scheduledFor r)),
                    queue_account_mail env u
                      (buildDeletionRequestedEmail (rq_utc env) (us_username u) (dr_scheduledFor r)) db2))))"

definition account_getDeletionStatus :: "account_env \<Rightarrow> account_request \<Rightarrow> lifecycle_db \<Rightarrow> account_response \<times> lifecycle_db" where
  "account_getDeletionStatus env req db =
     or_500 (rq_down env) ''Internal server error during deletion status lookup'' db
       (case getLatestDeletionRequest (au_id (rr_user req)) (lc_account db) of
          None \<Rightarrow> (OkReply 200 None NoDeletion, db)
        | Some r \<Rightarrow>
            (OkReply 200 None (DeletionStatusData \<lparr>dv_id = dr_id r, dv_status = dr_status r,
               dv_scheduledFor = dr_scheduledFor r, dv_cancelledAt = dr_cancelledAt r,
               dv_completedAt = dr_completedAt r, dv_createdAt = dr_createdAt r\<rparr>), db))"

definition account_cancelDeletion ::
    "account_env \<Rightarrow> json + credentials_input \<Rightarrow> account_request \<Rightarrow> lifecycle_db \<Rightarrow> account_response \<times> lifecycle_db" where
  "account_cancelDeletion env body req db = validated body db (\<lambda>c.
     or_500 (rq_down env) ''Internal server error during deletion cancellation'' db
       (case verifyCredentials env (ci_email c) (ci_password c) db of
          None \<Rightarrow> (ErrorReply 401 ''Invalid credentials'', db)
        | Some u \<Rightarrow>
            (case on_account (cancelDeletion (rq_now env) (us_id u) (account_context req) (lc_account db)) db of
               (DelCancelNone, db1) \<Rightarrow> (ErrorReply 404 ''No pending deletion request found'', db1)
             | (DelCancelFinalized, db1) \<Rightarrow>
                 (ErrorReply 410 ''Deletion has already been finalized and cannot be cancelled'', db1)
             | (DelCancelDone _, db1) \<Rightarrow>
                 or_500 (rq_mailDown env) ''Internal server error during deletion cancellation'' db1
                   (MessageReply 200 ''Deletion request cancelled. Your account is active again.'',
                    queue_account_mail env u (buildDeletionCancelledEmail (us_username u)) db1))))"

end
