(* ===== verification/ExportProps.thy ===== *)
theory ExportProps
  imports DataExports
begin

text \<open>
  Properties of data exports: a request is tried a bounded number of times; with the columns of the
  schema no export is ever ready; and an export whose last attempt fails while the mail is queued keeps its artifact for ever.
\<close>

interpretation exporting: exclusive_claim "export_claimable i" "mark_exporting now"
  by unfold_locales (simp add: export_claimable_def mark_exporting_def)

interpretation purging: exclusive_claim "purge_due now" purge_row
  by unfold_locales (simp add: purge_due_def purge_row_def)

text \<open>One failed attempt of a request, seen from its row: the claim counts it, the failure settles it.\<close>

definition failed_attempt :: "time \<Rightarrow> string \<Rightarrow> data_export_request \<Rightarrow> data_export_request" where
  "failed_attempt now err r = failed_export now r err (mark_exporting now r)"

interpretation export_retries: retry_policy xr_attemptCount xr_maxAttempts "\<lambda>r. xr_status r = ExportPending" "failed_attempt now err"
  by unfold_locales (auto simp: failed_attempt_def failed_export_def mark_exporting_def Let_def)

section \<open>Reading\<close>

lemma all_or_error_fails: "Inl e \<in> set rs \<Longrightarrow> \<exists>e'. all_or_error rs = Inl e'"
  by (induction rs rule: all_or_error.induct) (auto split: sum.splits)

lemma select_unknown: "c \<in> set cs \<Longrightarrow> c \<notin> set (xe_columns env model) \<Longrightarrow> \<exists>e. select_rows env model cs rows = Inl e"
  by (auto simp: select_rows_def find_None_iff split: option.splits)

lemma read_export_fails:
  assumes "''bonusAmount'' \<notin> set (xe_columns env ''Referral'')"
  shows "\<exists>e. read_export env requestId userId db = Inl e"
proof -
  let ?read = "select_rows env ''Referral'' referral_columns (owned_rows env ''Referral'' ''referrerId'' userId)"
  have "''bonusAmount'' \<in> set referral_columns" by (simp add: referral_columns_def)
  from select_unknown [OF this assms] obtain e where e: "?read = Inl e" ..
  have "?read \<in> set (selected_reads env userId)"
    unfolding selected_reads_def by (rule list.set_intros(2), rule list.set_intros(1))
  then have "\<exists>e'. all_or_error (selected_reads env userId) = Inl e'"
    unfolding e by (rule all_or_error_fails)
  then obtain e' where "all_or_error (selected_reads env userId) = Inl e'" ..
  then show ?thesis unfolding read_export_def by (simp split: option.split export_fault.split)
qed

lemma generate_fails:
  assumes "''bonusAmount'' \<notin> set (xe_columns env ''Referral'')"
  obtains e where "generateExport env requestId userId db = (Inl e, db)"
  using read_export_fails [OF assms, of requestId userId db] by (auto simp: generateExport_def)

section \<open>A run over the table\<close>

text \<open>Without the column, a run is a map over the table.\<close>

lemma claim_export_ids: "xr_id ` set (lc_exports (snd (claim_export now i db))) = xr_id ` set (lc_exports db)"
  by (simp add: claim_export_def image_update_where mark_exporting_def)

definition attempted :: "data_export_env \<Rightarrow> data_export_request \<Rightarrow> data_export_request \<Rightarrow> data_export_request \<Rightarrow> bool" where
  "attempted env request r r' \<longleftrightarrow>
     r' = r \<or> xr_id r = xr_id request \<and> (\<exists>err. r' = failed_export (xe_now env) request err r
       \<or> r' = failed_export (xe_now env) request err (mark_exporting (xe_now env) r))"

lemma run_export_rows:
  assumes "''bonusAmount'' \<notin> set (xe_columns env ''Referral'')"
  shows "\<exists>f. lc_exports (snd (run_export env r db)) = map f (lc_exports db) \<and> (\<forall>x. attempted env r x (f x))"
proof (cases "count_where (export_claimable (xr_id r)) (lc_exports db) = 0")
  case True
  then have "lc_exports (snd (run_export env r db)) = map (\<lambda>x. x) (lc_exports db)"
    by (simp add: run_export_def claim_export_def count_where_0 update_where_id)
  then show ?thesis by (intro exI [of _ "\<lambda>x. x"]) (simp add: attempted_def)
next
  case False
  let ?db1 = "snd (claim_export (xe_now env) (xr_id r) db)"
  obtain e where gen: "generateExport env (xr_id r) (xr_userId r) ?db1 = (Inl e, ?db1)"
    using generate_fails [OF assms] .
  have "\<exists>x \<in> set (lc_exports db). xr_id x = xr_id r"
    using False by (auto simp: count_where_0 export_claimable_def)
  then have "\<exists>x \<in> set (lc_exports ?db1). xr_id x = xr_id r"
    using claim_export_ids [of "xe_now env" "xr_id r" db] by (metis (no_types, lifting) image_iff)
  then have "run_export env r db = (Inr (), ?db1\<lparr>lc_exports := update_where (\<lambda>x. xr_id x = xr_id r)
      (failed_export (xe_now env) r e) (lc_exports ?db1)\<rparr>)"
    using False gen by (simp add: run_export_def claim_export_def update_export_def)
  then have "lc_exports (snd (run_export env r db)) = map (\<lambda>x. if xr_id x = xr_id r
      then failed_export (xe_now env) r e (if xr_status x = ExportPending then mark_exporting (xe_now env) x else x) else x)
      (lc_exports db)"
    by (auto simp: claim_export_def update_where_def export_claimable_def mark_exporting_def)
  then show ?thesis
    by (intro exI conjI, assumption) (auto simp: attempted_def)
qed

definition without_result :: "data_export_request \<Rightarrow> bool" where
  "without_result r \<longleftrightarrow> xr_status r \<noteq> ExportReady \<and> xr_artifact r = None"

lemma attempted_keeps: "attempted env r x y \<Longrightarrow> without_result x \<Longrightarrow> without_result y"
  by (auto simp: attempted_def failed_export_def mark_exporting_def without_result_def Let_def split: if_splits)

lemma run_exports_keeps:
  assumes "''bonusAmount'' \<notin> set (xe_columns env ''Referral'')" and "list_all without_result (lc_exports db)"
  shows "list_all without_result (lc_exports (snd (run_exports env rs db)))"
  using assms(2)
proof (induction rs arbitrary: db)
  case (Cons r rs)
  obtain f where f: "lc_exports (snd (run_export env r db)) = map f (lc_exports db)" "\<forall>x. attempted env r x (f x)"
    using run_export_rows [OF assms(1)] by blast
  have "list_all without_result (lc_exports (snd (run_export env r db)))"
    using Cons.prems f(2) by (auto simp: f(1) list_all_iff intro: attempted_keeps)
  moreover obtain e db1 where "run_export env r db = (e, db1)" by fastforce
  ultimately show ?case using Cons.IH by (cases e) simp_all
qed simp

definition run_queue :: "lifecycle_db \<Rightarrow> data_export_env \<Rightarrow> lifecycle_db" where
  "run_queue db env = snd (export_processQueue env db)"

text \<open>
  No data export is ever finished. The export selects the column \<open>bonusAmount\<close> of the referrals, which the schema does
  not have (it is \<open>bonusAmountStroops\<close>), so every generation throws: however many runs there are, no request becomes ready and
  none gets an artifact.
\<close>

theorem exports_never_ready:
  assumes "list_all (\<lambda>env. ''bonusAmount'' \<notin> set (xe_columns env ''Referral'')) envs"
    and "list_all (\<lambda>r. xr_status r \<noteq> ExportReady \<and> xr_artifact r = None) (lc_exports db)"
  shows "list_all (\<lambda>r. xr_status r \<noteq> ExportReady \<and> xr_artifact r = None) (lc_exports (foldl run_queue db envs))"
proof -
  have "list_all without_result (lc_exports (foldl run_queue db envs))"
    if "list_all without_result (lc_exports db)" for db
    using assms(1) that
    by (induction envs arbitrary: db) (simp_all add: run_queue_def export_processQueue_def run_exports_keeps)
  with assms(2) show ?thesis by (simp add: without_result_def [abs_def])
qed

section \<open>One request\<close>

lemma run_export_failure:
  assumes "fst (claim_export (xe_now env) (xr_id r) db) \<noteq> 0"
    and "generateExport env (xr_id r) (xr_userId r) (snd (claim_export (xe_now env) (xr_id r) db)) = (Inl err, db2)"
  shows "run_export env r db = update_export (xr_id r) (failed_export (xe_now env) r err) db2"
  using assms by (cases "claim_export (xe_now env) (xr_id r) db") (simp add: run_export_def)

lemma run_queue_single:
  assumes "lc_exports db = [r]" and "export_due (xe_now env) r"
  shows "run_queue db env = snd (run_export env r db)"
proof -
  obtain e db1 where "run_export env r db = (e, db1)" by fastforce
  with assms show ?thesis by (cases e) (simp_all add: run_queue_def export_processQueue_def)
qed

lemma run_single:
  assumes "''bonusAmount'' \<notin> set (xe_columns env ''Referral'')" and "lc_exports db = [r]" and "export_due (xe_now env) r"
  shows "\<exists>err. lc_exports (run_queue db env) = [failed_attempt (xe_now env) err r]"
proof -
  let ?db1 = "snd (claim_export (xe_now env) (xr_id r) db)"
  obtain e where gen: "generateExport env (xr_id r) (xr_userId r) ?db1 = (Inl e, ?db1)"
    using generate_fails [OF assms(1)] .
  have "xr_status r = ExportPending" using assms(3) by (simp add: export_due_def)
  with assms(2) have "lc_exports ?db1 = [mark_exporting (xe_now env) r]"
    "fst (claim_export (xe_now env) (xr_id r) db) \<noteq> 0"
    by (simp_all add: claim_export_def export_claimable_def)
  then have "lc_exports (snd (run_export env r db)) = [failed_attempt (xe_now env) e r]"
    using run_export_failure [OF _ gen] by (simp add: update_export_def failed_attempt_def mark_exporting_def)
  with run_queue_single [OF assms(2,3)] show ?thesis by auto
qed

text \<open>Each run comes when the request is due.\<close>

fun runs_due :: "data_export_env list \<Rightarrow> lifecycle_db \<Rightarrow> bool" where
  "runs_due [] db = True"
| "runs_due (e # es) db = (list_all (export_due (xe_now e)) (lc_exports db) \<and> runs_due es (run_queue db e))"

theorem export_gives_up:
  assumes "list_all (\<lambda>env. ''bonusAmount'' \<notin> set (xe_columns env ''Referral'')) envs"
    and "lc_exports db = [r]" and "xr_status r = ExportPending" and "runs_due envs db"
    and "length envs = xr_maxAttempts r - xr_attemptCount r" and "envs \<noteq> []"
  shows "map xr_status (lc_exports (foldl run_queue db envs)) = [ExportFailed]"
  using assms
proof (induction envs arbitrary: db r)
  case (Cons env envs)
  then have due: "export_due (xe_now env) r" by simp
  with Cons.prems obtain err where run: "lc_exports (run_queue db env) = [failed_attempt (xe_now env) err r]"
    using run_single [of env db r] by auto
  show ?case
  proof (cases "envs = []")
    case True
    with Cons.prems have "xr_maxAttempts r \<le> Suc (xr_attemptCount r)" by simp
    with True run show ?thesis by (simp add: failed_attempt_def failed_export_def mark_exporting_def)
  next
    case False
    let ?r = "failed_attempt (xe_now env) err r"
    from Cons.prems(5) False have "Suc (xr_attemptCount r) < xr_maxAttempts r" by (cases envs) auto
    then have "xr_status ?r = ExportPending" using export_retries.live_fail [OF Cons.prems(3)] by simp
    moreover have "length envs = xr_maxAttempts ?r - xr_attemptCount ?r"
      using Cons.prems(5) by (simp add: export_retries.tries_fail export_retries.limit_fail)
    ultimately show ?thesis using Cons.IH [OF _ run] Cons.prems False by simp
  qed
qed simp

section \<open>A failure after the artifact is stored\<close>

text \<open>
  When the mail of an export cannot be queued at the last attempt, the request is failed although its artifact is stored:
  the user is told it is gone, and the whole copy of the personal data stays in the table for good, since neither the purge
  of expired exports nor any later run touches the row.
\<close>

theorem failed_mail_keeps_artifact:
  assumes one: "lc_exports db = [r]" and due: "export_due (xe_now env) r" and last: "xr_maxAttempts r \<le> Suc (xr_attemptCount r)"
    and artifact: "read_export env (xr_id r) (xr_userId r) (snd (claim_export (xe_now env) (xr_id r) db)) = Inr (u, artifact)"
    and mail: "xe_fault env (xr_id r) = Some (FaultMail, err)"
  shows "\<exists>r'. lc_exports (run_queue db env) = [r'] \<and> xr_status r' = ExportFailed \<and> xr_artifact r' = Some artifact
    \<and> (\<forall>t. snd (export_purgeExpired t (run_queue db env)) = run_queue db env)
    \<and> (\<forall>env'. export_processQueue env' (run_queue db env) = (Inr (), run_queue db env))"
proof -
  let ?db1 = "snd (claim_export (xe_now env) (xr_id r) db)"
  let ?ready = "mark_ready env artifact (mark_exporting (xe_now env) r)"
  have "xr_status r = ExportPending" using due by (simp add: export_due_def)
  with one have db1: "lc_exports ?db1 = [mark_exporting (xe_now env) r]"
    "fst (claim_export (xe_now env) (xr_id r) db) \<noteq> 0"
    by (simp_all add: claim_export_def export_claimable_def)
  have ids: "xr_id (mark_exporting (xe_now env) r) = xr_id r" "xr_id ?ready = xr_id r"
    by (simp_all add: mark_exporting_def mark_ready_def)
  obtain db2 where db2: "generateExport env (xr_id r) (xr_userId r) ?db1 = (Inl err, db2)" "lc_exports db2 = [?ready]"
    using artifact mail db1(1) ids by (simp add: generateExport_def update_export_def announce_export_def log_account_def)
  let ?failed = "failed_export (xe_now env) r err ?ready"
  have "lc_exports (snd (run_export env r db)) = [?failed]"
    using run_export_failure [OF db1(2) db2(1)] db2(2) ids by (simp add: update_export_def)
  with run_queue_single [OF one due] have rows: "lc_exports (run_queue db env) = [?failed]" by simp
  have failed: "xr_status ?failed = ExportFailed" "xr_artifact ?failed = Some artifact"
    using last by (simp_all add: failed_export_def mark_ready_def)
  have "lc_exports (run_queue db env) = [?failed] \<and> xr_status ?failed = ExportFailed \<and> xr_artifact ?failed = Some artifact
    \<and> (\<forall>t. snd (export_purgeExpired t (run_queue db env)) = run_queue db env)
    \<and> (\<forall>env'. export_processQueue env' (run_queue db env) = (Inr (), run_queue db env))"
    using rows failed by (auto simp: export_purgeExpired_def purge_due_def export_processQueue_def export_due_def
        intro!: lifecycle_db.equality)
  then show ?thesis by blast
qed

section \<open>Witnesses\<close>

abbreviation demo_export :: "nat \<Rightarrow> data_export_request" where
  "demo_export tried \<equiv> \<lparr>xr_id = ''x'', xr_userId = ''u'', xr_status = ExportPending, xr_artifact = None,
     xr_artifactBytes = None, xr_error = None, xr_attemptCount = tried, xr_maxAttempts = 5,
     xr_nextAttemptAt = Some 0, xr_lastAttemptAt = None, xr_completedAt = None, xr_expiresAt = None,
     xr_downloadedAt = None, xr_createdAt = 0\<rparr>"

abbreviation export_user :: user_row where
  "export_user \<equiv> \<lparr>us_id = ''u'', us_email = ''a@b'', us_username = ''a'', us_password = ''p'',
     us_walletAddress = None, us_isVerified = True, us_phone = None, us_phoneVerifiedAt = None,
     us_status = StActive, us_statusChangedAt = None, us_lastLoginAt = None\<rparr>"

definition demo_exports :: "nat \<Rightarrow> lifecycle_db" where
  "demo_exports tried = \<lparr>lc_account = \<lparr>ac_users = [export_user], ac_requests = [], ac_sessions = [], ac_audit = [], ac_tables = (\<lambda>_. [])\<rparr>,
     lc_exports = [demo_export tried], lc_emails = [], lc_role = (\<lambda>_. ''LEARNER''), lc_joined = (\<lambda>_. 0)\<rparr>"

text \<open>The columns of the schema, and those the export asks for.\<close>

definition demo_columns :: "string list \<Rightarrow> string \<Rightarrow> string list" where
  "demo_columns referral model =
     (if model = ''Referral'' then referral
      else [''code'', ''createdAt'', ''deviceId'', ''eventType'', ''payload'', ''clientTimestamp'', ''status'', ''rewardReceipt'',
            ''quizPassFail'', ''streakReminders'', ''type'', ''title'', ''userAgent'', ''ipAddress'', ''expiresAt'', ''isRevoked'',
            ''action''])"

definition schema_referral :: "string list" where
  "schema_referral = [''id'', ''referrerId'', ''referreeId'', ''codeId'', ''bonusPaid'', ''bonusAmountStroops'', ''bonusPaidAt'',
     ''createdAt'', ''updatedAt'']"

definition demo_export_env :: "string list \<Rightarrow> time \<Rightarrow> (ident \<Rightarrow> (export_fault \<times> string) option) \<Rightarrow> data_export_env" where
  "demo_export_env referral now fault = \<lparr>xe_now = now, xe_iso = show_int, xe_utc = show_int, xe_bytes = (\<lambda>_. 0), xe_ttlDays = 7,
     xe_mailId = (\<lambda>i. i), xe_rows = (\<lambda>_. []), xe_columns = demo_columns referral, xe_unknown = (\<lambda>m c. m @ c),
     xe_auditDown = False, xe_fault = fault\<rparr>"

theorem exports_never_ready_witness:
  "list_all (\<lambda>r. xr_status r \<noteq> ExportReady \<and> xr_artifact r = None)
     (lc_exports (foldl run_queue (demo_exports 0) [demo_export_env schema_referral 5 (\<lambda>_. None)]))"
  by (rule exports_never_ready)
    (simp_all add: demo_export_env_def demo_columns_def schema_referral_def demo_exports_def)

lemma demo_selected:
  "all_or_error (selected_reads (demo_export_env [''referreeId'', ''bonusPaid'', ''bonusAmount'', ''createdAt'', ''referrerId''] now f) uid) =
     Inr (replicate 8 [])"
proof -
  have select: "select_rows env model cs [] = Inr []" if "list_all (\<lambda>c. c \<in> set (xe_columns env model)) cs" for env model cs
    using that by (auto simp: select_rows_def find_None_iff list_all_iff split: option.split)
  have owned: "owned_rows (demo_export_env r now f) model key uid = []" for r model key
    by (simp add: owned_rows_def demo_export_env_def)
  show ?thesis
    unfolding selected_reads_def owned filter.simps latest_first_def sort_key_simps take_Nil
    by (simp add: select demo_export_env_def demo_columns_def referral_columns_def numeral_eq_Suc)
qed

theorem failed_mail_keeps_artifact_witness:
  "map xr_status (lc_exports (run_queue (demo_exports 4)
     (demo_export_env [''referreeId'', ''bonusPaid'', ''bonusAmount'', ''createdAt'', ''referrerId''] 5 (\<lambda>_. Some (FaultMail, ''down''))))) = [ExportFailed]"
proof -
  let ?env = "demo_export_env [''referreeId'', ''bonusPaid'', ''bonusAmount'', ''createdAt'', ''referrerId''] 5 (\<lambda>_. Some (FaultMail, ''down''))"
  let ?db1 = "snd (claim_export 5 ''x'' (demo_exports 4))"
  have env: "xe_now ?env = 5" "xe_fault ?env = (\<lambda>_. Some (FaultMail, ''down''))" by (simp_all add: demo_export_env_def)
  have one: "lc_exports (demo_exports 4) = [demo_export 4]" by (simp add: demo_exports_def)
  have due: "export_due (xe_now ?env) (demo_export 4)" by (simp add: env export_due_def due_at_def)
  have last: "xr_maxAttempts (demo_export 4) \<le> Suc (xr_attemptCount (demo_export 4))" by simp
  have mail: "xe_fault ?env (xr_id (demo_export 4)) = Some (FaultMail, ''down'')" by (simp add: env)
  have users: "ac_users (lc_account ?db1) = [export_user]" by (simp add: claim_export_def demo_exports_def)
  have artifact: "read_export ?env (xr_id (demo_export 4)) (xr_userId (demo_export 4))
      (snd (claim_export (xe_now ?env) (xr_id (demo_export 4)) (demo_exports 4)))
      = Inr (export_user, artifact_of ?env ?db1 export_user (replicate 8 []))"
    using users by (simp add: read_export_def env demo_selected)
  show ?thesis using failed_mail_keeps_artifact [OF one due last artifact mail] by auto
qed

end
