(* ===== verification/AccountRouteProps.thy ===== *)
theory AccountRouteProps
  imports AccountRoutes ExportProps AccountProps
begin

text \<open>
  Properties of the account routes: the password guards what they change and what they reveal, an export is handed to its owner
  in its time only, how a deletion proceeds from the request to the erasure, and two ways in which they go wrong.
\<close>

lemma or_500_False [simp]: "or_500 False msg s r = r"
  by (simp add: or_500_def)

lemma log_account_frame [simp]:
  "lc_exports (log_account d ctx u a m db) = lc_exports db" "lc_emails (log_account d ctx u a m db) = lc_emails db"
  "ac_users (lc_account (log_account d ctx u a m db)) = ac_users (lc_account db)"
  "ac_requests (lc_account (log_account d ctx u a m db)) = ac_requests (lc_account db)"
  "ac_sessions (lc_account (log_account d ctx u a m db)) = ac_sessions (lc_account db)"
  "ac_tables (lc_account (log_account d ctx u a m db)) = ac_tables (lc_account db)"
  by (simp_all add: log_account_def account_op_def)

section \<open>The password\<close>

text \<open>Everything but the audit log.\<close>

definition same_but_audit :: "lifecycle_db \<Rightarrow> lifecycle_db \<Rightarrow> bool" where
  "same_but_audit db db' \<longleftrightarrow> (\<exists>log. db' = db\<lparr>lc_account := (lc_account db)\<lparr>ac_audit := log\<rparr>\<rparr>)"

lemma same_but_audit_refl [simp]: "same_but_audit db db"
  unfolding same_but_audit_def by (intro exI [of _ "ac_audit (lc_account db)"]) simp

lemma same_but_log_account [simp]: "same_but_audit db (log_account d ctx u a m db)"
  by (cases d) (auto simp: log_account_def account_op_def same_but_audit_def)

definition wrong_password :: "account_env \<Rightarrow> string \<Rightarrow> user_row option \<Rightarrow> bool" where
  "wrong_password env password u = (case u of None \<Rightarrow> True | Some v \<Rightarrow> \<not> rq_compare env password (us_password v))"

lemma stepUp_fails:
  assumes "wrong_password env password (find_user (au_id (rr_user req)) db)"
  obtains reply db' where "stepUp env req password action db = (Inl reply, db')" "same_but_audit db db'" "reply_status reply = 401"
proof -
  have "\<exists>reply db'. stepUp env req password action db = (Inl reply, db') \<and> same_but_audit db db' \<and> reply_status reply = 401"
    using assms by (auto simp: stepUp_def wrong_password_def split: option.splits)
  then show thesis using that by blast
qed

text \<open>
  C13. Nothing sensitive happens to an account without its password. A signed-in user who does not know it gets 401 (or 400,
  500) from deactivating and from deleting the account, and only the audit log changes; on the public routes a wrong password, an unknown
  address and an erased account all get the same answer, and nothing at all changes.
\<close>

theorem password_guards_account:
  assumes signed: "wrong_password env (projr body) (find_user (au_id (rr_user req)) db)"
    and signed': "wrong_password env (di_password (projr deletion)) (find_user (au_id (rr_user req)) db)"
    and public: "verifyCredentials env (ci_email c) (ci_password c) db = None"
  shows "reply_status (fst (account_deactivate env body req db)) \<in> {400, 401, 500}
    \<and> reply_status (fst (account_requestDeletion env deletion req db)) \<in> {400, 401, 500}
    \<and> same_but_audit db (snd (account_deactivate env body req db))
    \<and> same_but_audit db (snd (account_requestDeletion env deletion req db))
    \<and> account_reactivate env (Inr c) req db =
        (if rq_down env then (ErrorReply 500 ''Internal server error during reactivation'', db)
         else (ErrorReply 401 ''Invalid credentials'', db))
    \<and> account_cancelDeletion env (Inr c) req db =
        (if rq_down env then (ErrorReply 500 ''Internal server error during deletion cancellation'', db)
         else (ErrorReply 401 ''Invalid credentials'', db))"
proof -
  obtain r1 db1 where s1: "stepUp env req (projr body) ''deactivate'' db = (Inl r1, db1)" "same_but_audit db db1" "reply_status r1 = 401"
    using stepUp_fails [OF signed] .
  obtain r2 db2 where s2: "stepUp env req (di_password (projr deletion)) ''deletion'' db = (Inl r2, db2)"
    "same_but_audit db db2" "reply_status r2 = 401" using stepUp_fails [OF signed'] .
  have "reply_status (fst (account_deactivate env body req db)) \<in> {400, 401, 500}
      \<and> same_but_audit db (snd (account_deactivate env body req db))"
    using s1 by (cases body) (auto simp: account_deactivate_def or_500_def validation_failed_def)
  moreover have "reply_status (fst (account_requestDeletion env deletion req db)) \<in> {400, 401, 500}
      \<and> same_but_audit db (snd (account_requestDeletion env deletion req db))"
    using s2 by (cases deletion) (auto simp: account_requestDeletion_def or_500_def validation_failed_def)
  ultimately show ?thesis using public by (simp add: account_reactivate_def account_cancelDeletion_def or_500_def)
qed

abbreviation demo_account_env :: "time \<Rightarrow> account_env" where
  "demo_account_env now \<equiv> \<lparr>rq_now = now, rq_rowId = ''d'', rq_mailId = ''m'', rq_coolingOffDays = 14, rq_compare = (=),
     rq_sign = (\<lambda>i r t. i @ r), rq_utc = show_int, rq_auditDown = False, rq_down = False, rq_mailDown = False\<rparr>"

abbreviation demo_account_request :: account_request where
  "demo_account_request \<equiv> \<lparr>rr_user = \<lparr>au_id = ''u'', au_role = ''LEARNER'', au_email = ''a@b''\<rparr>, rr_ip = None, rr_userAgent = None\<rparr>"

theorem password_guards_account_witness:
  "reply_status (fst (account_deactivate (demo_account_env 1) (Inr ''wrong'') demo_account_request (demo_exports 0))) = 401"
proof -
  have "wrong_password (demo_account_env 1) ''wrong'' (find_user ''u'' (demo_exports 0))"
    by (simp add: wrong_password_def find_user_def demo_exports_def)
  moreover have "verifyCredentials (demo_account_env 1) ''x'' ''y'' (demo_exports 0) = None"
    by (simp add: verifyCredentials_def demo_exports_def)
  ultimately have "reply_status (fst (account_deactivate (demo_account_env 1) (Inr ''wrong'') demo_account_request (demo_exports 0))) \<in> {400, 401, 500}"
    using password_guards_account [of "demo_account_env 1" "Inr ''wrong''" demo_account_request "demo_exports 0"
      "Inr \<lparr>di_password = ''wrong'', di_reason = None\<rparr>" "\<lparr>ci_email = ''x'', ci_password = ''y''\<rparr>"] by simp
  then show ?thesis
    by (simp add: account_deactivate_def stepUp_def find_user_def demo_exports_def)
qed

section \<open>Downloads\<close>

text \<open>
  C15. Only the owner downloads an export, only while it is ready and has not expired, and gets exactly its artifact; the
  download changes nothing but the time of the first download and the audit log.
\<close>

theorem download_own_ready_export:
  assumes "account_downloadExport env (Inr i) req db = (reply, db')" and "reply_status reply = 200"
  shows "\<exists>r artifact. r \<in> set (lc_exports db) \<and> xr_id r = i \<and> xr_userId r = au_id (rr_user req) \<and> xr_status r = ExportReady
    \<and> \<not> due_at (rq_now env) (xr_expiresAt r) \<and> xr_artifact r = Some artifact
    \<and> reply = OkReply 200 None (Attachment (''learnault-export-'' @ i @ ''.json'') artifact)
    \<and> lc_exports db' = update_where (\<lambda>r. xr_id r = i \<and> xr_userId r = au_id (rr_user req) \<and> xr_downloadedAt r = None)
         (\<lambda>r. r\<lparr>xr_downloadedAt := Some (rq_now env)\<rparr>) (lc_exports db)
    \<and> same_but_audit (db\<lparr>lc_exports := lc_exports db'\<rparr>) db'"
proof -
  have "\<not> rq_down env" using assms by (auto simp: account_downloadExport_def or_500_def)
  with assms obtain r where r: "getExportStatus (au_id (rr_user req)) i db = Some r"
    by (auto simp: account_downloadExport_def split: option.splits)
  note run = assms [unfolded account_downloadExport_def]
  have st: "xr_status r = ExportReady \<and> \<not> due_at (rq_now env) (xr_expiresAt r)"
    using run r \<open>\<not> rq_down env\<close> by (cases "xr_status r") (auto simp: export_over_def split: if_splits)
  with run r \<open>\<not> rq_down env\<close> obtain artifact where "xr_artifact r = Some artifact"
    and reply: "reply = OkReply 200 None (Attachment (''learnault-export-'' @ xr_id r @ ''.json'') artifact)"
    and db': "db' = markDownloaded (rq_now env) (rq_auditDown env) (au_id (rr_user req)) (xr_id r) db"
    by (auto simp: export_over_def split: option.splits)
  moreover have "r \<in> set (lc_exports db) \<and> xr_id r = i \<and> xr_userId r = au_id (rr_user req)"
    using find_Some [OF r [unfolded getExportStatus_def]] by simp
  ultimately show ?thesis using st by (simp add: markDownloaded_def) (metis)
qed

abbreviation ready_export :: data_export_request where
  "ready_export \<equiv> (demo_export 4)\<lparr>xr_status := ExportReady, xr_artifact := Some (JsonText JNull), xr_expiresAt := Some 100\<rparr>"

theorem download_own_ready_export_witness:
  "lc_exports (snd (account_downloadExport (demo_account_env 7) (Inr ''x'') demo_account_request
     ((demo_exports 0)\<lparr>lc_exports := [ready_export]\<rparr>))) = [ready_export\<lparr>xr_downloadedAt := Some 7\<rparr>]"
proof -
  let ?db = "(demo_exports 0)\<lparr>lc_exports := [ready_export]\<rparr>"
  obtain reply db' where run: "account_downloadExport (demo_account_env 7) (Inr ''x'') demo_account_request ?db = (reply, db')"
    by fastforce
  then have "reply_status reply = 200"
    by (auto simp: account_downloadExport_def getExportStatus_def export_over_def due_at_def)
  from download_own_ready_export [OF run this]
  have "lc_exports db' = update_where (\<lambda>r. xr_id r = ''x'' \<and> xr_userId r = ''u'' \<and> xr_downloadedAt r = None)
      (\<lambda>r. r\<lparr>xr_downloadedAt := Some 7\<rparr>) (lc_exports ?db)" by auto
  with run show ?thesis by simp
qed

section \<open>From the request to the erasure\<close>

lemma stepUp_ok:
  assumes "find_user (au_id (rr_user req)) db = Some u" and "us_status u \<noteq> StDeleted" and "rq_compare env password (us_password u)"
  shows "stepUp env req password action db = (Inr u, db)"
  using assms by (simp add: stepUp_def)

lemma requestDeletion_none:
  assumes "List.find (active_request userId) (ac_requests db) = None"
  obtains r where "fst (requestDeletion now days rowId userId reason ctx db) = DelRequestCreated r"
    and "ac_requests (snd (requestDeletion now days rowId userId reason ctx db)) = ac_requests db @ [r]"
    and "dr_id r = rowId" and "dr_userId r = userId" and "dr_status r = DelPending"
    and "dr_scheduledFor r = now + days * 24 * 60 * 60000" and "dr_attemptCount r = 0" and "dr_nextAttemptAt r = None"
    and "list_all (\<lambda>s. ss_userId s \<noteq> userId \<or> ss_isRevoked s)
           (ac_sessions (snd (requestDeletion now days rowId userId reason ctx db)))"
  using assms by (auto simp: requestDeletion_def Let_def revoke_user_sessions_def mark_revoked_def list_all_iff ball_update_where)

lemma finalize_erases:
  assumes "r \<in> set (ac_requests (lc_account db))" and "dr_status r = DelPending" and "fault (dr_id r) = None"
  shows "list_all (\<lambda>x. xr_userId x \<noteq> dr_userId r) (lc_exports (finalize_one fault hex t r db))"
    and "list_all (\<lambda>m. em_userId m \<noteq> dr_userId r) (lc_emails (finalize_one fault hex t r db))"
    and "list_all (\<lambda>s. ss_userId s \<noteq> dr_userId r) (ac_sessions (lc_account (finalize_one fault hex t r db)))"
    and "list_all (\<lambda>u. us_id u \<noteq> dr_userId r \<or> us_status u = StDeleted) (ac_users (lc_account (finalize_one fault hex t r db)))"
proof -
  note claimed = process_one_finalizes(1) [where fault = fault and now = t, OF assms]
    process_one_finalizes(2) [where fault = fault and now = t and hex = hex, OF assms]
  show "list_all (\<lambda>x. xr_userId x \<noteq> dr_userId r) (lc_exports (finalize_one fault hex t r db))"
    and "list_all (\<lambda>m. em_userId m \<noteq> dr_userId r) (lc_emails (finalize_one fault hex t r db))"
    using claimed(1) assms(3) by (simp_all add: finalize_one_def Let_def delete_where_def list_all_iff)
  show "list_all (\<lambda>s. ss_userId s \<noteq> dr_userId r) (ac_sessions (lc_account (finalize_one fault hex t r db)))"
    and "list_all (\<lambda>u. us_id u \<noteq> dr_userId r \<or> us_status u = StDeleted) (ac_users (lc_account (finalize_one fault hex t r db)))"
    using claimed assms(3)
    by (simp_all add: finalize_one_def Let_def finalizeDeletion_def list_all_iff ball_update_where anonymize_def)
qed

text \<open>
  C14. The way of a deletion. With the password, the request is accepted for the end of the cooling-off time and every session
  of the user is revoked; the sweep takes the request up from that moment on and not before; and when it does, without a failure
  of the database, no session, no export and no mail of the user is left and the account is a tombstone.
\<close>

theorem deletion_runs_its_course:
  assumes run: "account_requestDeletion env (Inr d) req db = (reply, db1)"
    and user: "find_user uid db = Some u" "uid = au_id (rr_user req)" "us_status u \<noteq> StDeleted"
    and password: "rq_compare env (di_password d) (us_password u)"
    and none: "List.find (active_request uid) (ac_requests (lc_account db)) = None"
    and up: "\<not> rq_down env" "\<not> rq_mailDown env"
    and due: "due = rq_now env + rq_coolingOffDays env * 24 * 60 * 60000"
  shows "reply = OkReply 202 None (DeletionAccepted (rq_rowId env) DelPending due)
    \<and> list_all (\<lambda>s. ss_userId s \<noteq> uid \<or> ss_isRevoked s) (ac_sessions (lc_account db1))
    \<and> (\<exists>r \<in> set (ac_requests (lc_account db1)). dr_id r = rq_rowId env \<and> dr_userId r = uid
        \<and> (\<forall>t. deletion_due t r \<longleftrightarrow> due \<le> t)
        \<and> (\<forall>fault hex t db2. fault (dr_id r) = None \<and> db2 = finalize_one fault hex t r db1 \<longrightarrow>
             list_all (\<lambda>x. xr_userId x \<noteq> uid) (lc_exports db2) \<and> list_all (\<lambda>m. em_userId m \<noteq> uid) (lc_emails db2)
             \<and> list_all (\<lambda>s. ss_userId s \<noteq> uid) (ac_sessions (lc_account db2))
             \<and> list_all (\<lambda>v. us_id v \<noteq> uid \<or> us_status v = StDeleted) (ac_users (lc_account db2))))"
proof -
  have uid: "us_id u = uid" using find_Some [OF user(1) [unfolded find_user_def]] by simp
  let ?req = "requestDeletion (rq_now env) (rq_coolingOffDays env) (rq_rowId env) uid (di_reason d) (account_context req) (lc_account db)"
  obtain r where r: "fst ?req = DelRequestCreated r" "ac_requests (snd ?req) = ac_requests (lc_account db) @ [r]"
    "dr_id r = rq_rowId env" "dr_userId r = uid" "dr_status r = DelPending" "dr_scheduledFor r = due"
    "dr_attemptCount r = 0" "dr_nextAttemptAt r = None"
    "list_all (\<lambda>s. ss_userId s \<noteq> uid \<or> ss_isRevoked s) (ac_sessions (snd ?req))"
    unfolding due using requestDeletion_none [OF none] .
  have stepped: "stepUp env req (di_password d) ''deletion'' db = (Inr u, db)"
    using user password by (intro stepUp_ok) auto
  have reply: "reply = OkReply 202 None (DeletionAccepted (dr_id r) (dr_status r) (dr_scheduledFor r))"
    and db1: "lc_account db1 = snd ?req"
    using run up stepped r(1)
    by (simp_all add: account_requestDeletion_def on_account_def uid queue_account_mail_def split: prod.splits)
      (auto simp: queue_account_mail_def)
  have mem: "r \<in> set (ac_requests (lc_account db1))" by (simp add: db1 r(2))
  have is_due: "deletion_due t r \<longleftrightarrow> due \<le> t" for t
    by (simp add: deletion_due_def r)
  show ?thesis
    using reply r db1 mem is_due finalize_erases [OF mem r(5)] by auto
qed

abbreviation deletion_ask :: "json + deletion_input" where
  "deletion_ask \<equiv> Inr \<lparr>di_password = ''p'', di_reason = None\<rparr>"

theorem deletion_runs_its_course_witness:
  "fst (account_requestDeletion (demo_account_env 0) deletion_ask demo_account_request (demo_exports 0))
     = OkReply 202 None (DeletionAccepted ''d'' DelPending 1209600000)"
  using deletion_runs_its_course [of "demo_account_env 0" "\<lparr>di_password = ''p'', di_reason = None\<rparr>" demo_account_request
      "demo_exports 0", OF prod.collapse [symmetric], of "''u''" export_user]
  by (simp add: find_user_def demo_exports_def)

section \<open>A cancellation that is cut short\<close>

text \<open>
  Cancelling is two writes: the request is marked cancelled, then the account is made active. If the process stops between
  them the owner can never come back: the account still waits for its deletion, so reactivating refuses and points to
  cancelling; cancelling finds no pending request; no sweep ever takes it up; and all three leave everything as it is.
\<close>

theorem interrupted_cancel_locks_account:
  assumes user: "verifyCredentials env (ci_email c) (ci_password c) db = Some u" "us_status u = StPendingDeletion"
    and one: "ac_requests (lc_account db) = [r]" "dr_userId r = us_id u" "dr_status r = DelPending"
    and cut: "db1 = db\<lparr>lc_account := (lc_account db)\<lparr>ac_requests :=
        update_where (cancellable (us_id u)) (mark_cancelled t) (ac_requests (lc_account db))\<rparr>\<rparr>"
    and up: "\<not> rq_down env"
  shows "account_reactivate env (Inr c) req db1 =
      (ErrorData 409 ''Account is scheduled for deletion. Cancel the deletion request to restore access.''
         (StatusCode ''ACCOUNT_PENDING_DELETION''), db1)
    \<and> account_cancelDeletion env (Inr c) req db1 = (ErrorReply 404 ''No pending deletion request found'', db1)
    \<and> finalize_due fault hex t' db1 = db1"
proof (intro conjI)
  have rows: "ac_requests (lc_account db1) = [mark_cancelled t r]"
    using one by (simp add: cut cancellable_def)
  have cancelled: "dr_status (mark_cancelled t r) = DelCancelled" "dr_userId (mark_cancelled t r) = us_id u"
    using one by (simp_all add: mark_cancelled_def)
  have cred: "verifyCredentials env (ci_email c) (ci_password c) db1 = Some u"
    using user(1) by (simp add: verifyCredentials_def cut)
  show "account_reactivate env (Inr c) req db1 =
      (ErrorData 409 ''Account is scheduled for deletion. Cancel the deletion request to restore access.''
         (StatusCode ''ACCOUNT_PENDING_DELETION''), db1)"
    using up by (simp add: account_reactivate_def cred user(2))
  have "(lc_account db1)\<lparr>ac_requests := [mark_cancelled t r]\<rparr> = lc_account db1" using rows by simp
  then have "cancelDeletion (rq_now env) (us_id u) (account_context req) (lc_account db1) = (DelCancelNone, lc_account db1)"
    using rows cancelled by (simp add: cancelDeletion_def Let_def cancellable_def getLatestDeletionRequest_def first_by_def)
  then show "account_cancelDeletion env (Inr c) req db1 = (ErrorReply 404 ''No pending deletion request found'', db1)"
    using up by (simp add: account_cancelDeletion_def cred on_account_def)
  show "finalize_due fault hex t' db1 = db1"
    using rows cancelled by (simp add: finalize_due_def deletion_due_def)
qed

definition waiting_account :: lifecycle_db where
  "waiting_account = (demo_exports 0)\<lparr>lc_account := (lc_account (demo_exports 0))
     \<lparr>ac_users := [export_user\<lparr>us_status := StPendingDeletion\<rparr>], ac_requests := [(demo_request DelPending)\<lparr>dr_userId := ''u''\<rparr>]\<rparr>\<rparr>"

theorem interrupted_cancel_locks_account_witness:
  "fst (account_cancelDeletion (demo_account_env 9) (Inr \<lparr>ci_email = ''a@b'', ci_password = ''p''\<rparr>) demo_account_request
     (waiting_account\<lparr>lc_account := (lc_account waiting_account)\<lparr>ac_requests :=
        update_where (cancellable ''u'') (mark_cancelled 5) (ac_requests (lc_account waiting_account))\<rparr>\<rparr>))
   = ErrorReply 404 ''No pending deletion request found''"
proof -
  have "verifyCredentials (demo_account_env 9) ''a@b'' ''p'' waiting_account = Some (export_user\<lparr>us_status := StPendingDeletion\<rparr>)"
    by (simp add: verifyCredentials_def waiting_account_def)
  then show ?thesis
    using interrupted_cancel_locks_account [of "demo_account_env 9" "\<lparr>ci_email = ''a@b'', ci_password = ''p''\<rparr>" waiting_account
        "export_user\<lparr>us_status := StPendingDeletion\<rparr>" "(demo_request DelPending)\<lparr>dr_userId := ''u''\<rparr>" _ 5, OF _ _ _ _ _ refl]
    by (simp add: waiting_account_def)
qed

section \<open>Reactivating an active account\<close>

text \<open>
  Reactivating works as a second login: for an account that is active already it answers with a token without
  the session a login stores, so the token is in no list of sessions and no
  revocation of sessions reaches it.
\<close>

theorem reactivation_token_untracked:
  assumes "verifyCredentials env (ci_email c) (ci_password c) db = Some u" and "us_status u = StActive" and "\<not> rq_down env"
  shows "account_reactivate env (Inr c) req db =
    (OkReply 200 (Some ''Account reactivated successfully'')
       (ReactivatedData (rq_sign env (us_id u) (lc_role db (us_id u)) (rq_now env)) (reactivated_user u db)), db)"
  using assms by (simp add: account_reactivate_def)

theorem reactivation_token_untracked_witness:
  "snd (account_reactivate (demo_account_env 9) (Inr \<lparr>ci_email = ''a@b'', ci_password = ''p''\<rparr>) demo_account_request (demo_exports 0))
     = demo_exports 0"
  using reactivation_token_untracked [of "demo_account_env 9" "\<lparr>ci_email = ''a@b'', ci_password = ''p''\<rparr>" "demo_exports 0"
      export_user demo_account_request]
  by (simp add: verifyCredentials_def demo_exports_def)

end
