(* ===== verification/RewardRoutes.thy ===== *)
theory RewardRoutes
  imports RewardsProps Credentials Stellar
begin

text \<open>
  The reward controller, \<open>src/src/controllers/reward.controller.ts\<close>: balance, history and withdrawals over the ledger of
  \<open>Rewards\<close>, whose payments are those of \<open>Stellar\<close>. A handler throws, and the error handler of
  \<open>Credentials\<close> answers.

  Parsing a date and writing one (\<open>toISOString\<close>) and \<open>Number.toFixed(7)\<close> are arguments. Address and memo of a body are taken to be text; the code
  does not check it.
\<close>

section \<open>Errors\<close>

text \<open>The class \<open>UnauthorizedError\<close> of this file is a plain \<open>Error\<close>.\<close>

datatype reward_thrown = BadRequest string | SignedOut string | LedgerError reward_error | AmountError money_error

definition reward_error_of :: "(reward_error \<Rightarrow> string) \<Rightarrow> reward_thrown \<Rightarrow> thrown" where
  "reward_error_of message t =
     (case t of
        BadRequest m \<Rightarrow> AppError (BadRequestError m)
      | SignedOut m \<Rightarrow> OtherError m
      | LedgerError e \<Rightarrow> OtherError (message e)
      | AmountError e \<Rightarrow> OtherError (message (MoneyFailed e)))"

definition reward_failure_status :: "(reward_error \<Rightarrow> string) \<Rightarrow> reward_thrown \<Rightarrow> nat" where
  "reward_failure_status message t = er_status (errorHandler False None (reward_error_of message t))"

section \<open>Balance\<close>

record balance_view =
  bv_available :: string
  bv_pending :: string
  bv_lifetime :: string

definition signed_in :: "ident option \<Rightarrow> ident option" where
  "signed_in u = (case u of None \<Rightarrow> None | Some i \<Rightarrow> if i = [] then None else Some i)"

definition rewards_getBalance :: "ident option \<Rightarrow> reward_state \<Rightarrow> reward_thrown + balance_view" where
  "rewards_getBalance user s =
     (case signed_in user of
        None \<Rightarrow> Inl (SignedOut ''User ID not found'')
      | Some userId \<Rightarrow>
          (let b = getBalance s userId in
           case (stroopsToXlmString (availableStroops b), stroopsToXlmString (pendingStroops b),
                 stroopsToXlmString (lifetimeStroops b)) of
             (Inl e, _, _) \<Rightarrow> Inl (AmountError e)
           | (_, Inl e, _) \<Rightarrow> Inl (AmountError e)
           | (_, _, Inl e) \<Rightarrow> Inl (AmountError e)
           | (Inr a, Inr p, Inr l) \<Rightarrow> Inr \<lparr>bv_available = a, bv_pending = p, bv_lifetime = l\<rparr>))"

section \<open>History\<close>

record history_query =
  hq_type :: "string option"
  hq_status :: "string option"
  hq_fromDate :: "string option"
  hq_toDate :: "string option"
  hq_limit :: "string option"
  hq_offset :: "string option"

definition type_of_query :: "string \<Rightarrow> txn_type option" where
  "type_of_query t =
     (if t = ''module_reward'' then Some ModuleReward else if t = ''streak_bonus'' then Some StreakBonus
      else if t = ''referral_reward'' then Some ReferralReward else if t = ''withdrawal'' then Some Withdrawal else None)"

definition status_of_query :: "string \<Rightarrow> txn_status option" where
  "status_of_query t =
     (if t = ''pending'' then Some TxnPending else if t = ''completed'' then Some TxnCompleted
      else if t = ''failed'' then Some TxnFailed else None)"

text \<open>One parameter: absent or empty sets nothing, a value that does not parse is refused.\<close>

definition query_param :: "(string \<Rightarrow> 'a option) \<Rightarrow> string \<Rightarrow> string option \<Rightarrow> reward_thrown + 'a option" where
  "query_param parse refusal v =
     (case v of
        None \<Rightarrow> Inr None
      | Some s \<Rightarrow>
          if s = [] then Inr None
          else (case parse s of None \<Rightarrow> Inl (BadRequest refusal) | Some a \<Rightarrow> Inr (Some a)))"

definition limit_of_query :: "string \<Rightarrow> nat option" where
  "limit_of_query s = (case parseInt10 s of None \<Rightarrow> None | Some n \<Rightarrow> if n < 1 \<or> n > 100 then None else Some (nat n))"

definition offset_of_query :: "string \<Rightarrow> nat option" where
  "offset_of_query s = (case parseInt10 s of None \<Rightarrow> None | Some n \<Rightarrow> if n < 0 then None else Some (nat n))"

definition history_filters :: "(string \<Rightarrow> time option) \<Rightarrow> history_query \<Rightarrow> reward_thrown + txn_filter" where
  "history_filters date q =
     (case query_param type_of_query ''Invalid transaction type'' (hq_type q) of Inl e \<Rightarrow> Inl e | Inr ty \<Rightarrow>
     (case query_param status_of_query ''Invalid transaction status'' (hq_status q) of Inl e \<Rightarrow> Inl e | Inr st \<Rightarrow>
     (case query_param date ''Invalid fromDate format. Use ISO 8601 format'' (hq_fromDate q) of Inl e \<Rightarrow> Inl e | Inr from \<Rightarrow>
     (case query_param date ''Invalid toDate format. Use ISO 8601 format'' (hq_toDate q) of Inl e \<Rightarrow> Inl e | Inr till \<Rightarrow>
     (case query_param limit_of_query ''Limit must be between 1 and 100'' (hq_limit q) of Inl e \<Rightarrow> Inl e | Inr lmt \<Rightarrow>
     (case query_param offset_of_query ''Offset must be a non-negative number'' (hq_offset q) of Inl e \<Rightarrow> Inl e | Inr off \<Rightarrow>
        Inr \<lparr>tf_type = ty, tf_status = st, tf_fromDate = from, tf_toDate = till, tf_limit = lmt, tf_offset = off\<rparr>))))))"

record txn_view =
  tv_txn :: txn
  tv_amount :: string

record history_view =
  hv_transactions :: "txn_view list"
  hv_total :: nat
  hv_limit :: nat
  hv_offset :: nat
  hv_hasMore :: bool

fun txn_views :: "txn list \<Rightarrow> reward_thrown + txn_view list" where
  "txn_views [] = Inr []"
| "txn_views (t # ts) =
     (case stroopsToXlmString (txn_amountStroops t) of
        Inl e \<Rightarrow> Inl (AmountError e)
      | Inr a \<Rightarrow> (case txn_views ts of Inl e \<Rightarrow> Inl e | Inr vs \<Rightarrow> Inr (\<lparr>tv_txn = t, tv_amount = a\<rparr> # vs)))"

definition rewards_getHistory ::
    "(string \<Rightarrow> time option) \<Rightarrow> ident option \<Rightarrow> history_query \<Rightarrow> reward_state \<Rightarrow> reward_thrown + history_view" where
  "rewards_getHistory date user q s =
     (case signed_in user of
        None \<Rightarrow> Inl (SignedOut ''User ID not found'')
      | Some userId \<Rightarrow>
          (case history_filters date q of
             Inl e \<Rightarrow> Inl e
           | Inr f \<Rightarrow>
               (let h = getTransactionHistory s userId f in
                case txn_views (page_transactions h) of
                  Inl e \<Rightarrow> Inl e
                | Inr vs \<Rightarrow>
                    Inr \<lparr>hv_transactions = vs, hv_total = page_total h,
                         hv_limit = (case tf_limit f of None \<Rightarrow> 20 | Some l \<Rightarrow> l),
                         hv_offset = (case tf_offset f of None \<Rightarrow> 0 | Some k \<Rightarrow> k), hv_hasMore = page_hasMore h\<rparr>)))"

section \<open>Withdrawals\<close>

text \<open>\<open>/^G[A-Z0-9]{50,55}$/\<close>.\<close>

definition isValidStellarAddress :: "string \<Rightarrow> bool" where
  "isValidStellarAddress a \<longleftrightarrow>
     (case a of
        [] \<Rightarrow> False
      | c # cs \<Rightarrow> c = CHR ''G'' \<and> 50 \<le> length cs \<and> length cs \<le> 55
          \<and> list_all (\<lambda>x. in_range (CHR ''A'') (CHR ''Z'') x \<or> is_digit x) cs)"

text \<open>The amount of a body: missing or null, text, a number with its seven-digit text, or anything else.\<close>

datatype amount_input = NoAmount | AmountText string | AmountNumber string | AmountOther

record withdraw_input =
  wi_walletAddress :: "string option"
  wi_amount :: amount_input
  wi_memo :: "string option"

definition amount_string :: "amount_input \<Rightarrow> string option" where
  "amount_string a = (case a of AmountText s \<Rightarrow> if s = [] then None else Some s | AmountNumber s \<Rightarrow> Some s | _ \<Rightarrow> None)"

record withdrawal_view =
  wv_transactionId :: ident
  wv_amount :: string
  wv_stellarTxHash :: string
  wv_requestedAt :: time
  wv_completedAt :: time

definition withdrawal_request_of :: "ident option \<Rightarrow> withdraw_input \<Rightarrow> reward_thrown + withdrawal_request" where
  "withdrawal_request_of user i =
     (case signed_in user of
        None \<Rightarrow> Inl (SignedOut ''User ID not found'')
      | Some userId \<Rightarrow>
          if wi_walletAddress i = None \<or> wi_walletAddress i = Some [] then Inl (BadRequest ''Wallet address is required'')
          else if wi_amount i = NoAmount then Inl (BadRequest ''Amount is required'')
          else
            (case amount_string (wi_amount i) of
               None \<Rightarrow> Inl (BadRequest (''Amount must be a numeric string (e.g. '' @ [CHR 0x22] @ ''5.0000000'' @ [CHR 0x22] @ '')''))
             | Some text \<Rightarrow>
                 (case xlmStringToStroops text of
                    Inl _ \<Rightarrow> Inl (BadRequest (''Invalid amount: must be a decimal with at most 7 fractional digits (e.g. ''
                               @ [CHR 0x22] @ ''5.0000000'' @ [CHR 0x22] @ '')''))
                  | Inr n \<Rightarrow>
                      if n \<le> 0 then Inl (BadRequest ''Amount must be greater than 0'')
                      else if \<not> isValidStellarAddress (the (wi_walletAddress i))
                      then Inl (BadRequest ''Invalid Stellar wallet address format'')
                      else Inr \<lparr>wr_userId = userId, wr_walletAddress = the (wi_walletAddress i),
                                wr_amountStroops = n, wr_memo = wi_memo i\<rparr>)))"

definition insufficient :: "int \<Rightarrow> int \<Rightarrow> reward_thrown" where
  "insufficient available requested =
     (case (stroopsToXlmString available, stroopsToXlmString requested) of
        (Inl e, _) \<Rightarrow> AmountError e
      | (_, Inl e) \<Rightarrow> AmountError e
      | (Inr a, Inr r) \<Rightarrow> BadRequest (''Insufficient balance. Available: '' @ a @ '' XLM, Requested: '' @ r @ '' XLM''))"

definition rewards_withdraw ::
    "(payment_request \<Rightarrow> string + string) \<Rightarrow> ident \<Rightarrow> time \<Rightarrow> ident option \<Rightarrow> withdraw_input \<Rightarrow>
     (reward_state, reward_thrown, withdrawal_view) step" where
  "rewards_withdraw pay tid now user i s =
     (case withdrawal_request_of user i of
        Inl e \<Rightarrow> (Inl e, s)
      | Inr r \<Rightarrow>
          if \<not> hasSufficientBalance s (wr_userId r) (wr_amountStroops r)
          then (Inl (insufficient (availableStroops (getBalance s (wr_userId r))) (wr_amountStroops r)), s)
          else
            (case processWithdrawal pay tid now r s of
               (Inl e, s1) \<Rightarrow> (Inl (LedgerError e), s1)
             | (Inr hash, s1) \<Rightarrow>
                 (case stroopsToXlmString (wr_amountStroops r) of
                    Inl e \<Rightarrow> (Inl (AmountError e), s1)
                  | Inr a \<Rightarrow> (Inr \<lparr>wv_transactionId = tid, wv_amount = a, wv_stellarTxHash = hash,
                                 wv_requestedAt = now, wv_completedAt = now\<rparr>, s1))))"

section \<open>Payments over Stellar\<close>

text \<open>What the reward service passes to \<open>stellarService.sendPayment\<close>, and what it takes from the answer.\<close>

definition stellar_pay :: "stellar_sdk \<Rightarrow> string \<Rightarrow> (stellar_code \<Rightarrow> string) \<Rightarrow> payment_request \<Rightarrow> string + string" where
  "stellar_pay sdk secret message p =
     (case sendPayment sdk \<lparr>po_sourceSecret = secret, po_destination = pay_destination p, po_amount = pay_amount p,
             po_asset = None, po_memo = Some (pay_memo p)\<rparr> of
        Inl e \<Rightarrow> Inl (message e)
      | Inr r \<Rightarrow> Inr (py_hash r))"

end
