(* ===== verification/RewardRouteProps.thy ===== *)
theory RewardRouteProps
  imports RewardRoutes
begin

text \<open>
  Properties of the reward routes: a withdrawal moves exactly what was asked for, and with the memos the service writes no
  payment can succeed.
\<close>

lemma balance_totals:
  "availableStroops (getBalance s u) = (if total_of is_withdrawn u s + total_of is_pending_withdrawal u s \<le> total_of is_earning u s
      then total_of is_earning u s - total_of is_withdrawn u s - total_of is_pending_withdrawal u s else 0)"
  "pendingStroops (getBalance s u) = total_of is_pending_withdrawal u s"
  "lifetimeStroops (getBalance s u) = total_of is_earning u s"
  by (simp_all add: getBalance_def Let_def sum_stroops_total)

lemma total_of_snoc:
  "transactions s' = transactions s @ [t] \<Longrightarrow> total_of p u s' = total_of p u s + weight p u t"
  by (simp add: total_of_def)

lemma pending_only: "is_pending_withdrawal t \<Longrightarrow> \<not> is_earning t \<and> \<not> is_withdrawn t"
  by (simp add: is_pending_withdrawal_def is_earning_def is_withdrawn_def)

text \<open>The sums after a withdrawal that was paid.\<close>

lemma paid_withdrawal_totals:
  assumes "withdraw_prepare tid now r s = (Inr (), s1)" and "distinct (map txn_id (transactions s))"
    and "tid \<notin> txn_id ` set (transactions s)"
  shows "total_of is_earning u (withdraw_settle tid now (Some h) s1) = total_of is_earning u s"
    and "total_of is_pending_withdrawal u (withdraw_settle tid now (Some h) s1) = total_of is_pending_withdrawal u s"
    and "total_of is_withdrawn u (withdraw_settle tid now (Some h) s1) =
      total_of is_withdrawn u s + (if u = wr_userId r then wr_amountStroops r else 0)"
proof -
  obtain t where t: "transactions s1 = transactions s @ [t]" "txn_id t = tid" "is_pending_withdrawal t"
    "txn_userId t = wr_userId r" "txn_amountStroops t = wr_amountStroops r"
    using prepared_withdrawal [OF assms(1)] by blast
  have d: "distinct (map txn_id (transactions s1))" and m: "t \<in> set (transactions s1)"
    using assms(2,3) t(1,2) by auto
  note settled = total_of_settle [OF d m t(2,3), of _ now "Some h"]
  have w: "weight is_pending_withdrawal u t = (if u = wr_userId r then wr_amountStroops r else 0)"
    "weight is_earning u t = 0" "weight is_withdrawn u t = 0"
    using t pending_only [OF t(3)] by (auto simp: weight_def)
  show "total_of is_earning u (withdraw_settle tid now (Some h) s1) = total_of is_earning u s"
    and "total_of is_pending_withdrawal u (withdraw_settle tid now (Some h) s1) = total_of is_pending_withdrawal u s"
    and "total_of is_withdrawn u (withdraw_settle tid now (Some h) s1) =
      total_of is_withdrawn u s + (if u = wr_userId r then wr_amountStroops r else 0)"
    by (simp_all add: settled total_of_snoc [OF t(1)] w)
qed

lemma paid_withdrawal:
  assumes "processWithdrawal pay tid now r s = (Inr hash, s')"
  obtains s1 where "withdraw_prepare tid now r s = (Inr (), s1)" and "s' = withdraw_settle tid now (Some hash) s1"
  using assms by (auto simp: processWithdrawal_def split: prod.splits sum.splits)


section \<open>Memos\<close>

lemma long_memo_fails:
  assumes "\<And>t m. tr_memo t = Some m \<Longrightarrow> 28 < length m \<Longrightarrow> sd_submit sdk t = None"
    and "28 < length (pay_memo p)"
  shows "\<exists>e. stellar_pay sdk secret message p = Inl e"
proof -
  have "pay_memo p \<noteq> []" using assms(2) by auto
  with assms show ?thesis
    by (auto simp: stellar_pay_def sendPayment_def split: option.splits sum.splits)
qed

text \<open>
  The platform pays nobody. A text memo of Stellar has at most 28 bytes, and the SDK rejects a transaction with a longer one;
  the memo of a reward is \<open>Learnault reward: module\<close> with the id of the module, that of a withdrawal without a memo of its own
  \<open>Learnault withdrawal:\<close> with the id of the transaction. So claiming a reward always fails and changes nothing, and such a
  withdrawal fails and is booked as failed.
\<close>

theorem payouts_always_fail:
  assumes memos: "\<forall>t m. tr_memo t = Some m \<and> 28 < length m \<longrightarrow> sd_submit sdk t = None"
    and claim: "3 < length (rc_moduleId c)" and withdrawal: "6 < length tid" "wr_memo r = None"
    and pay: "pay = stellar_pay sdk secret message"
  shows "(\<exists>e. claimReward pay tid now c m s = (Inl e, s))
    \<and> (\<exists>e s'. processWithdrawal pay tid now r s = (Inl e, s')
        \<and> (s' = s \<or> (\<exists>s1. withdraw_prepare tid now r s = (Inr (), s1) \<and> s' = withdraw_settle tid now None s1)))"
proof
  show "\<exists>e. claimReward pay tid now c m s = (Inl e, s)"
  proof (cases "claim_prepare s c m")
    case (Inr p)
    then obtain b req where p: "claim_prepare s c m = Inr (b, req)" by (cases p) auto
    then have "pay_memo req = ''Learnault reward: module '' @ rc_moduleId c"
      by (auto simp: claim_prepare_def Let_def split: if_splits sum.splits)
    then have "28 < length (pay_memo req)" using claim by simp
    then obtain e where "pay req = Inl e" using long_memo_fails memos unfolding pay by blast
    with p show ?thesis by (simp add: claimReward_def)
  qed (simp add: claimReward_def)
  show "\<exists>e s'. processWithdrawal pay tid now r s = (Inl e, s')
      \<and> (s' = s \<or> (\<exists>s1. withdraw_prepare tid now r s = (Inr (), s1) \<and> s' = withdraw_settle tid now None s1))"
  proof (cases "withdraw_prepare tid now r s")
    case (Pair x s1)
    show ?thesis
    proof (cases x)
      case (Inl e)
      with Pair have "s1 = s" by (auto simp: withdraw_prepare_def Let_def split: if_splits sum.splits)
      with Pair Inl show ?thesis by (simp add: processWithdrawal_def)
    next
      case (Inr y)
      show ?thesis
      proof (cases "withdraw_payment tid r")
        case (Inl e)
        with Pair Inr show ?thesis by (auto simp: processWithdrawal_def)
      next
        case p: (Inr req)
        then have "pay_memo req = ''Learnault withdrawal: '' @ tid"
          using withdrawal(2) by (auto simp: withdraw_payment_def split: sum.splits)
        then have "28 < length (pay_memo req)" using withdrawal(1) by simp
        then obtain e where "pay req = Inl e" using long_memo_fails memos unfolding pay by blast
        with Pair Inr p show ?thesis by (auto simp: processWithdrawal_def)
      qed
    qed
  qed
qed

section \<open>Witnesses\<close>

definition demo_address :: string where
  "demo_address = CHR ''G'' # replicate 55 (CHR ''A'')"

abbreviation demo_withdraw :: withdraw_input where
  "demo_withdraw \<equiv> \<lparr>wi_walletAddress = Some demo_address, wi_amount = AmountText ''5'', wi_memo = Some ''rent''\<rparr>"

lemma demo_address_valid: "isValidStellarAddress demo_address" "demo_address \<noteq> []"
  by (simp_all add: demo_address_def isValidStellarAddress_def list_all_iff in_range_def)

lemma demo_parsed: "xlmStringToStroops ''5'' = Inr 50000000"
  by code_simp

lemma demo_available: "getBalance (demo_paid ''t1'' empty_rewards) ''u'' =
    \<lparr>availableStroops = 50000000, pendingStroops = 0, lifetimeStroops = 50000000\<rparr>"
  by (simp add: getBalance_def Let_def sum_stroops_def getUserTransactions_def claim_record_def
      recordTransaction_def markAsClaimed_def empty_rewards_def is_earning_def is_withdrawn_def is_pending_withdrawal_def)

lemma demo_withdrawn:
  obtains v s' where "rewards_withdraw (\<lambda>_. Inr ''h'') ''w'' 9 (Some ''u'') demo_withdraw (demo_paid ''t1'' empty_rewards) = (Inr v, s')"
proof -
  let ?r = "\<lparr>wr_userId = ''u'', wr_walletAddress = demo_address, wr_amountStroops = 50000000, wr_memo = Some ''rent''\<rparr>"
  have "withdrawal_request_of (Some ''u'') demo_withdraw = Inr ?r"
    by (simp add: withdrawal_request_of_def signed_in_def amount_string_def demo_parsed demo_address_valid)
  moreover have "\<exists>s'. processWithdrawal (\<lambda>_. Inr ''h'') ''w'' 9 ?r (demo_paid ''t1'' empty_rewards) = (Inr ''h'', s')"
    by (simp add: processWithdrawal_def withdraw_prepare_def withdraw_payment_def demo_available demo_amount Let_def)
  ultimately show thesis
    using that by (auto simp: rewards_withdraw_def hasSufficientBalance_def demo_available demo_amount)
qed


text \<open>A Stellar network that accepts every payment with a memo of at most 28 bytes.\<close>

definition memo_sdk :: stellar_sdk where
  "memo_sdk = \<lparr>sd_network = ''testnet'', sd_contractId = ''C'', sd_nativeSame = True, sd_random = None,
     sd_friendbot = (\<lambda>_. None), sd_publicKey = Some, sd_loadAccount = (\<lambda>_. Inr \<lparr>ha_balances = [], ha_last_modified_time = None\<rparr>),
     sd_payments = (\<lambda>_ _ _ _. Inr []),
     sd_submit = (\<lambda>t. case tr_memo t of None \<Rightarrow> None | Some m \<Rightarrow> if 28 < length m then None
        else Some \<lparr>sr_hash = ''h'', sr_successful = True, sr_ledger = Some 1\<rparr>),
     sd_getTransaction = (\<lambda>_ _. Some \<lparr>tx_state = TxSuccess, tx_ledger = Some 1, tx_returnValue = None\<rparr>), sd_simulate = (\<lambda>_ _. None), sd_sendInvocation = (\<lambda>_ _. None)\<rparr>"

theorem payouts_always_fail_witness:
  "\<exists>e. claimReward (stellar_pay memo_sdk ''S'' (\<lambda>_. ''failed'')) ''txn-123'' 5 (demo_claim\<lparr>rc_moduleId := ''c0ffee''\<rparr>)
     demo_module empty_rewards = (Inl e, empty_rewards)"
  by (rule payouts_always_fail [where tid = "''txn-123''" and c = "demo_claim\<lparr>rc_moduleId := ''c0ffee''\<rparr>"
        and r = "\<lparr>wr_userId = ''u'', wr_walletAddress = ''G'', wr_amountStroops = 5, wr_memo = None\<rparr>",
        OF _ _ _ _ refl, THEN conjunct1]) (simp_all add: memo_sdk_def)

end
