(* ===== verification/Learning.thy ===== *)
theory Learning
  imports Credentials Stellar "HOL-Library.Word"
begin

text \<open>
  Modules, credentials and referrals, whose controllers talk to the database themselves:
  \<open>src/src/controllers/module.controller.ts\<close>, \<open>credential.controller.ts\<close> and \<open>referral.controller.ts\<close>, over the tables
  of \<open>prisma/schema.prisma\<close>.

  The generated database client rejects a statement that names a column its model does not have, or leaves out a required one;
  the columns it knows and requires are the arguments \<open>lv_columns\<close>
  and \<open>lv_required\<close>, and a rejected statement throws (\<open>lv_rejected\<close>). Fresh identifiers, the
  clock and dates are arguments; \<open>lv_down\<close> says that the database throws at the first statement. A score is a whole number: the code rounds it.
  Reads of lists leave out archived modules and codes (\<open>audit/archive.ts\<close>), lookups by key do not.
\<close>

section \<open>Tables\<close>

record module_row =
  md_id :: ident
  md_title :: string
  md_description :: string
  md_category :: string
  md_difficulty :: string
  md_rewardStroops :: int
  md_archivedAt :: "time option"
  md_createdAt :: time
  md_updatedAt :: time

record completion_row =
  cm_id :: ident
  cm_userId :: ident
  cm_moduleId :: ident
  cm_score :: int
  cm_completedAt :: time
  cm_createdAt :: time

record credential_row =
  cd_id :: ident
  cd_userId :: ident
  cd_moduleId :: ident
  cd_onChainId :: "string option"
  cd_issuedAt :: time

record payout_row =
  pt_id :: ident
  pt_userId :: ident
  pt_amountStroops :: int
  pt_type :: string
  pt_status :: string

record code_row =
  rk_id :: ident
  rk_code :: string
  rk_userId :: ident
  rk_archivedAt :: "time option"

record referral_row =
  rf_id :: ident
  rf_referrerId :: ident
  rf_referreeId :: ident
  rf_codeId :: ident
  rf_bonusPaid :: bool
  rf_bonusPaidAt :: "time option"

text \<open>The name of a user, as far as these controllers read the user table.\<close>

record learning_db =
  ln_modules :: "module_row list"
  ln_completions :: "completion_row list"
  ln_credentials :: "credential_row list"
  ln_payouts :: "payout_row list"
  ln_codes :: "code_row list"
  ln_referrals :: "referral_row list"
  ln_usernames :: "ident \<Rightarrow> string"

record learning_env =
  lv_now :: time
  lv_newId :: ident
  lv_columns :: "string \<Rightarrow> string list"
  lv_required :: "string \<Rightarrow> string list"
  lv_rejected :: string
  lv_date :: "string \<Rightarrow> time option"
  lv_down :: bool

section \<open>Modules\<close>

definition COMPLETION_IN_PROGRESS_SCORE :: int where "COMPLETION_IN_PROGRESS_SCORE = - 1"

record module_query =
  mq_page :: "string option"
  mq_limit :: "string option"
  mq_category :: "string option"
  mq_difficulty :: "string option"
  mq_search :: "string option"

record progress_view =
  gv_completed :: bool
  gv_score :: int
  gv_completedAt :: time

text \<open>The reward of a module is read from a column that does not exist, so it is undefined and left out.\<close>

record module_view =
  mv_module :: module_row
  mv_completionCount :: nat
  mv_progress :: "progress_view option"

record module_page =
  mp_modules :: "module_view list"
  mp_page :: int
  mp_limit :: int
  mp_total :: nat

datatype module_data =
    ModuleList module_page
  | ModuleDetail module_view
  | ModuleStarted ident time
  | AlreadyStarted string
  | ModuleCompleted int bool "ident option" time

type_synonym module_reply = "module_data reply"

text \<open>\<open>None\<close> is \<open>NaN\<close>; a number written in hexadecimal, which \<open>parseInt\<close> without a radix also reads, is left out.\<close>

definition number_or :: "int \<Rightarrow> string option \<Rightarrow> int option" where
  "number_or d v = (case v of None \<Rightarrow> Some d | Some s \<Rightarrow> if s = [] then Some d else parseInt10 s)"

definition query_text :: "string option \<Rightarrow> string option" where
  "query_text v = (case v of None \<Rightarrow> None | Some s \<Rightarrow> if s = [] then None else Some s)"

definition contains_insensitive :: "string \<Rightarrow> string \<Rightarrow> bool" where
  "contains_insensitive needle s \<longleftrightarrow> includes_str (toLowerCase needle) (toLowerCase s)"

definition module_matches :: "module_query \<Rightarrow> module_row \<Rightarrow> bool" where
  "module_matches q m \<longleftrightarrow> md_archivedAt m = None
     \<and> (case query_text (mq_category q) of None \<Rightarrow> True | Some c \<Rightarrow> md_category m = c)
     \<and> (case query_text (mq_difficulty q) of None \<Rightarrow> True | Some d \<Rightarrow> md_difficulty m = d)
     \<and> (case query_text (mq_search q) of None \<Rightarrow> True
        | Some x \<Rightarrow> contains_insensitive x (md_title m) \<or> contains_insensitive x (md_description m))"

definition find_completion :: "ident \<Rightarrow> ident \<Rightarrow> learning_db \<Rightarrow> completion_row option" where
  "find_completion userId moduleId db =
     List.find (\<lambda>c. cm_userId c = userId \<and> cm_moduleId c = moduleId) (ln_completions db)"

definition completion_progress :: "completion_row \<Rightarrow> progress_view" where
  "completion_progress c = \<lparr>gv_completed = True, gv_score = cm_score c, gv_completedAt = cm_completedAt c\<rparr>"

definition view_module :: "auth_user option \<Rightarrow> learning_db \<Rightarrow> module_row \<Rightarrow> module_view" where
  "view_module user db m =
     \<lparr>mv_module = m, mv_completionCount = count_where (\<lambda>c. cm_moduleId c = md_id m) (ln_completions db),
      mv_progress = (case user of None \<Rightarrow> None
         | Some u \<Rightarrow> map_option completion_progress (find_completion (au_id u) (md_id m) db))\<rparr>"

text \<open>Prisma refuses a negative \<open>skip\<close> or a number that is none, and takes from the end for a negative \<open>take\<close>.\<close>

definition page_rows :: "int \<Rightarrow> int \<Rightarrow> 'a list \<Rightarrow> 'a list option" where
  "page_rows skip k rows =
     (if skip < 0 then None
      else if 0 \<le> k then Some (take (nat k) (drop (nat skip) rows))
      else Some (let from_end = drop (nat skip) (rev rows) in rev (take (nat (- k)) from_end)))"

definition listModules ::
    "learning_env \<Rightarrow> auth_user option \<Rightarrow> json + module_query \<Rightarrow> learning_db \<Rightarrow> module_reply" where
  "listModules env user query db =
     (case query of
        Inl errors \<Rightarrow> ErrorDetails 400 ''Invalid query parameters'' errors
      | Inr q \<Rightarrow>
          if lv_down env then internal_error
          else
            (case (number_or 1 (mq_page q), number_or 10 (mq_limit q)) of
               (Some page, Some limit) \<Rightarrow>
                 (let rows = sort_key (\<lambda>m. - md_createdAt m) (filter (module_matches q) (ln_modules db)) in
                  case page_rows ((page - 1) * limit) limit rows of
                    None \<Rightarrow> internal_error
                  | Some ms \<Rightarrow>
                      OkReply 200 None (ModuleList \<lparr>mp_modules = map (view_module user db) ms, mp_page = page,
                        mp_limit = limit, mp_total = length rows\<rparr>))
             | _ \<Rightarrow> internal_error))"

definition find_module :: "ident \<Rightarrow> learning_db \<Rightarrow> module_row option" where
  "find_module i db = List.find (\<lambda>m. md_id m = i) (ln_modules db)"

definition getModuleById :: "learning_env \<Rightarrow> auth_user option \<Rightarrow> ident \<Rightarrow> learning_db \<Rightarrow> module_reply" where
  "getModuleById env user i db =
     (if lv_down env then internal_error
      else (case find_module i db of
              None \<Rightarrow> ErrorReply 404 ''Module not found''
            | Some m \<Rightarrow> OkReply 200 None (ModuleDetail (view_module user db m))))"

section \<open>Starting and completing a module\<close>

definition client_knows :: "learning_env \<Rightarrow> string \<Rightarrow> string list \<Rightarrow> bool" where
  "client_knows env model cs \<longleftrightarrow> list_all (\<lambda>c. c \<in> set (lv_columns env model)) cs"

definition client_creates :: "learning_env \<Rightarrow> string \<Rightarrow> string list \<Rightarrow> bool" where
  "client_creates env model cs \<longleftrightarrow> client_knows env model cs \<and> list_all (\<lambda>c. c \<in> set cs) (lv_required env model)"

text \<open>The row is written under the unique index of user and module.\<close>

definition insert_completion :: "completion_row \<Rightarrow> learning_db \<Rightarrow> learning_db option" where
  "insert_completion c db =
     (if find_completion (cm_userId c) (cm_moduleId c) db \<noteq> None then None
      else Some (db\<lparr>ln_completions := ln_completions db @ [c]\<rparr>))"

definition start_check :: "ident \<Rightarrow> ident \<Rightarrow> learning_db \<Rightarrow> module_reply option" where
  "start_check userId i db =
     (if find_module i db = None then Some (ErrorReply 404 ''Module not found'')
      else (case find_completion userId i db of
              None \<Rightarrow> None
            | Some c \<Rightarrow> Some (ErrorData 400 ''Module already started or completed''
                (AlreadyStarted (if cm_score c \<ge> 0 then ''completed'' else ''in_progress'')))))"

definition start_commit :: "learning_env \<Rightarrow> ident \<Rightarrow> ident \<Rightarrow> learning_db \<Rightarrow> module_reply \<times> learning_db" where
  "start_commit env userId i db =
     (case insert_completion \<lparr>cm_id = lv_newId env, cm_userId = userId, cm_moduleId = i,
             cm_score = COMPLETION_IN_PROGRESS_SCORE, cm_completedAt = lv_now env, cm_createdAt = lv_now env\<rparr> db of
        None \<Rightarrow> (internal_error, db)
      | Some db1 \<Rightarrow>
          (OkReply 201 (Some ''Module started successfully'') (ModuleStarted (lv_newId env) (lv_now env)), db1))"

definition startModule :: "learning_env \<Rightarrow> auth_user option \<Rightarrow> ident \<Rightarrow> learning_db \<Rightarrow> module_reply \<times> learning_db" where
  "startModule env user i db =
     (case user of
        None \<Rightarrow> (ErrorReply 401 ''Authentication required'', db)
      | Some u \<Rightarrow>
          if lv_down env then (internal_error, db)
          else (case start_check (au_id u) i db of
                  Some reply \<Rightarrow> (reply, db)
                | None \<Rightarrow> start_commit env (au_id u) i db))"

text \<open>The score of \<open>n\<close> answers: all of them count as right.\<close>

definition quiz_score :: "nat \<Rightarrow> int" where
  "quiz_score n = (let total_questions = (if n = 0 then 1 else n) in int ((n * 100) div total_questions))"

text \<open>What the handler calls \<open>module.reward\<close>.\<close>

definition module_reward :: "learning_env \<Rightarrow> module_row \<Rightarrow> int option" where
  "module_reward env m = (if ''reward'' \<in> set (lv_columns env ''Module'') then Some (md_rewardStroops m) else None)"

definition complete_check :: "ident \<Rightarrow> ident \<Rightarrow> learning_db \<Rightarrow> module_reply + module_row" where
  "complete_check userId i db =
     (case find_module i db of
        None \<Rightarrow> Inl (ErrorReply 404 ''Module not found'')
      | Some m \<Rightarrow>
          (case find_completion userId i db of
             None \<Rightarrow> Inl (ErrorReply 400 ''Module must be started before completion'')
           | Some c \<Rightarrow> if cm_score c \<ge> 0 then Inl (ErrorReply 400 ''Module already completed'') else Inr m))"

definition store_score :: "time \<Rightarrow> ident \<Rightarrow> ident \<Rightarrow> int \<Rightarrow> learning_db \<Rightarrow> learning_db" where
  "store_score now userId i score db = db\<lparr>ln_completions :=
     update_where (\<lambda>c. cm_userId c = userId \<and> cm_moduleId c = i)
       (\<lambda>c. c\<lparr>cm_score := score, cm_completedAt := now\<rparr>) (ln_completions db)\<rparr>"

text \<open>An undefined value is dropped from the statement.\<close>

definition payout_columns :: "int option \<Rightarrow> string list" where
  "payout_columns amount = [''userId''] @ (if amount = None then [] else [''amount'']) @ [''type'', ''status'']"

definition complete_commit ::
    "learning_env \<Rightarrow> ident \<Rightarrow> module_row \<Rightarrow> nat \<Rightarrow> learning_db \<Rightarrow> module_reply \<times> learning_db" where
  "complete_commit env userId m answers db =
     (let score = quiz_score answers;
          db1 = store_score (lv_now env) userId (md_id m) score db;
          reward = module_reward env m
      in if score < 70
         then (OkReply 200 (Some ''Module completed successfully'') (ModuleCompleted score False None (lv_now env)), db1)
         else if \<not> client_creates env ''Transaction'' (payout_columns reward) then (internal_error, db1)
         else (OkReply 200 (Some ''Module completed successfully'')
                 (ModuleCompleted score True (Some (lv_newId env)) (lv_now env)),
               db1\<lparr>ln_payouts := ln_payouts db1 @ [\<lparr>pt_id = lv_newId env, pt_userId = userId,
                 pt_amountStroops = or_default 0 reward, pt_type = ''reward'', pt_status = ''pending''\<rparr>]\<rparr>))"

definition completeModule ::
    "learning_env \<Rightarrow> auth_user option \<Rightarrow> ident \<Rightarrow> json + nat \<Rightarrow> learning_db \<Rightarrow> module_reply \<times> learning_db" where
  "completeModule env user i body db =
     (case user of
        None \<Rightarrow> (ErrorReply 401 ''Authentication required'', db)
      | Some u \<Rightarrow>
          (case body of
             Inl errors \<Rightarrow> (ErrorDetails 400 ''Invalid request body'' errors, db)
           | Inr answers \<Rightarrow>
               if lv_down env then (internal_error, db)
               else (case complete_check (au_id u) i db of
                       Inl reply \<Rightarrow> (reply, db)
                     | Inr m \<Rightarrow> complete_commit env (au_id u) m answers db)))"

end
