(* ===== verification/Referrals.thy ===== *)
theory Referrals
  imports Learning
begin

text \<open>
  Credentials and referrals over the tables of \<open>Learning\<close>: \<open>src/src/controllers/credential.controller.ts\<close> and
  \<open>referral.controller.ts\<close>. Their handlers throw, and the error handler of \<open>Credentials\<close> answers.
  Random bytes are drawn from the argument \<open>draws\<close>. Prices in XLM of the referral bonus are given in stroops.
\<close>

section \<open>Credentials\<close>

record credential_query =
  cq_page :: "string option"
  cq_limit :: "string option"
  cq_moduleId :: "string option"
  cq_fromDate :: "string option"
  cq_toDate :: "string option"

record credential_view =
  cv_credential :: credential_row
  cv_module :: "module_row option"
  cv_holder :: string
  cv_link :: string

record credential_page =
  cpg_credentials :: "credential_view list"
  cpg_page :: int
  cpg_limit :: int
  cpg_total :: nat

definition number_or_else :: "int \<Rightarrow> string option \<Rightarrow> int" where
  "number_or_else d v =
     (case v of None \<Rightarrow> d | Some s \<Rightarrow> (case parseInt10 s of None \<Rightarrow> d | Some n \<Rightarrow> if n = 0 then d else n))"

definition shareable :: "credential_row \<Rightarrow> string" where
  "shareable c = ''/api/v1/credentials/verify/''
     @ (case cd_onChainId c of None \<Rightarrow> cd_id c | Some x \<Rightarrow> if x = [] then cd_id c else x)"

definition credential_view_of :: "learning_db \<Rightarrow> credential_row \<Rightarrow> credential_view" where
  "credential_view_of db c = \<lparr>cv_credential = c, cv_module = find_module (cd_moduleId c) db,
     cv_holder = ln_usernames db (cd_userId c), cv_link = shareable c\<rparr>"

definition date_param :: "learning_env \<Rightarrow> string \<Rightarrow> string option \<Rightarrow> thrown + time option" where
  "date_param env refusal v =
     (case query_text v of
        None \<Rightarrow> Inr None
      | Some s \<Rightarrow> (case lv_date env s of None \<Rightarrow> Inl (AppError (BadRequestError refusal)) | Some t \<Rightarrow> Inr (Some t)))"

definition credential_matches ::
    "ident \<Rightarrow> string option \<Rightarrow> time option \<Rightarrow> time option \<Rightarrow> credential_row \<Rightarrow> bool" where
  "credential_matches userId moduleId from till c \<longleftrightarrow> cd_userId c = userId
     \<and> (case query_text moduleId of None \<Rightarrow> True | Some m \<Rightarrow> cd_moduleId c = m)
     \<and> (case from of None \<Rightarrow> True | Some t \<Rightarrow> t \<le> cd_issuedAt c)
     \<and> (case till of None \<Rightarrow> True | Some t \<Rightarrow> cd_issuedAt c \<le> t)"

definition getUserCredentials ::
    "learning_env \<Rightarrow> auth_user option \<Rightarrow> credential_query \<Rightarrow> learning_db \<Rightarrow> thrown + credential_page" where
  "getUserCredentials env user q db =
     (case user_id user of
        None \<Rightarrow> Inl (AppError (UnauthorizedError ''User ID not found''))
      | Some userId \<Rightarrow>
          (let page = number_or_else 1 (cq_page q); limit = min (number_or_else 10 (cq_limit q)) 100 in
           case date_param env ''Invalid fromDate format'' (cq_fromDate q) of
             Inl e \<Rightarrow> Inl e
           | Inr from \<Rightarrow>
               (case date_param env ''Invalid toDate format'' (cq_toDate q) of
                  Inl e \<Rightarrow> Inl e
                | Inr till \<Rightarrow>
                    (let rows = sort_key (\<lambda>c. - cd_issuedAt c)
                           (filter (credential_matches userId (cq_moduleId q) from till) (ln_credentials db)) in
                     if lv_down env then Inl (OtherError (lv_rejected env))
                     else
                       (case page_rows ((page - 1) * limit) limit rows of
                          None \<Rightarrow> Inl (OtherError (lv_rejected env))
                        | Some cs \<Rightarrow> Inr \<lparr>cpg_credentials = map (credential_view_of db) cs, cpg_page = page,
                            cpg_limit = limit, cpg_total = length rows\<rparr>)))))"

definition detail_columns :: "string list" where
  "detail_columns = [''id'', ''title'', ''description'', ''category'', ''difficulty'', ''reward'']"

definition getCredentialById ::
    "learning_env \<Rightarrow> auth_user option \<Rightarrow> ident \<Rightarrow> learning_db \<Rightarrow> thrown + credential_view" where
  "getCredentialById env user i db =
     (case user_id user of
        None \<Rightarrow> Inl (AppError (UnauthorizedError ''User ID not found''))
      | Some userId \<Rightarrow>
          if lv_down env \<or> \<not> client_knows env ''Module'' detail_columns then Inl (OtherError (lv_rejected env))
          else
            (case List.find (\<lambda>c. cd_id c = i) (ln_credentials db) of
               None \<Rightarrow> Inl (AppError (NotFoundError ''Credential not found''))
             | Some c \<Rightarrow>
                 if cd_userId c \<noteq> userId
                 then Inl (AppError (UnauthorizedError ''You do not have access to this credential''))
                 else Inr (credential_view_of db c)))"

record verification =
  vf_valid :: bool
  vf_credential :: credential_view
  vf_verifiedAt :: time
  vf_message :: string

definition credentials_verify :: "learning_env \<Rightarrow> string \<Rightarrow> learning_db \<Rightarrow> thrown + verification" where
  "credentials_verify env onChainId db =
     (if lv_down env then Inl (OtherError (lv_rejected env))
      else
        (case (case List.find (\<lambda>c. cd_onChainId c = Some onChainId) (ln_credentials db) of
                 Some c \<Rightarrow> Some c
               | None \<Rightarrow> List.find (\<lambda>c. cd_id c = onChainId) (ln_credentials db)) of
           None \<Rightarrow> Inl (AppError (NotFoundError ''Credential not found or invalid''))
         | Some c \<Rightarrow> Inr \<lparr>vf_valid = True, vf_credential = credential_view_of db c, vf_verifiedAt = lv_now env,
             vf_message = ''This credential is valid and has been verified on-chain''\<rparr>))"

section \<open>Referral codes\<close>

definition REFERRAL_BONUS_AMOUNT :: int where "REFERRAL_BONUS_AMOUNT = 5 * 10000000"
definition CODE_BYTES :: nat where "CODE_BYTES = 4"

definition code_digit :: "nat \<Rightarrow> char" where
  "code_digit n = ''0123456789ABCDEF'' ! (n mod 16)"

definition code_text :: "8 word list \<Rightarrow> string" where
  "code_text bytes = concat (map (\<lambda>b. [code_digit (unat b div 16), code_digit (unat b)]) (take CODE_BYTES bytes))"

definition code_taken :: "string \<Rightarrow> learning_db \<Rightarrow> bool" where
  "code_taken code db \<longleftrightarrow> list_ex (\<lambda>k. rk_code k = code) (ln_codes db)"

text \<open>The loop draws until a code is free; it need not end.\<close>

partial_function (option) draw_code :: "(nat \<Rightarrow> 8 word list) \<Rightarrow> learning_db \<Rightarrow> nat \<Rightarrow> string option" where
  "draw_code draws db k =
     (if code_taken (code_text (draws k)) db then draw_code draws db (k + 1) else Some (code_text (draws k)))"

datatype 'a outcome = Done 'a | Thrown thrown | Looping

datatype code_reply = CodeExists string | CodeCreated string

definition generateUniqueCode :: "(nat \<Rightarrow> 8 word list) \<Rightarrow> learning_db \<Rightarrow> string option" where
  "generateUniqueCode draws db = draw_code draws db 0"

definition referral_generateCode ::
    "learning_env \<Rightarrow> (nat \<Rightarrow> 8 word list) \<Rightarrow> auth_user option \<Rightarrow> learning_db \<Rightarrow> code_reply outcome \<times> learning_db" where
  "referral_generateCode env draws user db =
     (case user_id user of
        None \<Rightarrow> (Thrown (AppError (UnauthorizedError ''User ID not found'')), db)
      | Some userId \<Rightarrow>
          if lv_down env then (Thrown (OtherError (lv_rejected env)), db)
          else
            (case List.find (\<lambda>k. rk_userId k = userId) (ln_codes db) of
               Some k \<Rightarrow> (Done (CodeExists (rk_code k)), db)
             | None \<Rightarrow>
                 (case generateUniqueCode draws db of
                    None \<Rightarrow> (Looping, db)
                  | Some code \<Rightarrow>
                      (Done (CodeCreated code),
                       db\<lparr>ln_codes := ln_codes db @ [\<lparr>rk_id = lv_newId env, rk_code = code, rk_userId = userId,
                            rk_archivedAt = None\<rparr>]\<rparr>))))"

section \<open>Referrals\<close>

definition apply_check :: "ident \<Rightarrow> json option \<Rightarrow> learning_db \<Rightarrow> thrown + code_row" where
  "apply_check userId code db =
     (case code of
        Some (JStr c) \<Rightarrow>
          if c = [] then Inl (AppError (BadRequestError ''Referral code is required''))
          else
            (case List.find (\<lambda>k. rk_code k = c) (ln_codes db) of
               None \<Rightarrow> Inl (AppError (NotFoundError ''Referral code not found''))
             | Some k \<Rightarrow>
                 if rk_userId k = userId then Inl (AppError (BadRequestError ''Self-referrals are not allowed''))
                 else if list_ex (\<lambda>r. rf_referreeId r = userId) (ln_referrals db)
                 then Inl (AppError (ConflictError ''You have already used a referral code''))
                 else Inr k)
      | _ \<Rightarrow> Inl (AppError (BadRequestError ''Referral code is required'')))"

text \<open>The referred user of a referral is unique. The lookup by referrer and referred user before the insert can find
  nothing that the one before it did not.\<close>

definition apply_commit :: "learning_env \<Rightarrow> ident \<Rightarrow> code_row \<Rightarrow> (learning_db, thrown, ident) step" where
  "apply_commit env userId k db =
     (if list_ex (\<lambda>r. rf_referreeId r = userId) (ln_referrals db) then (Inl (OtherError (lv_rejected env)), db)
      else (Inr (lv_newId env),
            db\<lparr>ln_referrals := ln_referrals db @ [\<lparr>rf_id = lv_newId env, rf_referrerId = rk_userId k,
                 rf_referreeId = userId, rf_codeId = rk_id k, rf_bonusPaid = False, rf_bonusPaidAt = None\<rparr>]\<rparr>))"

definition referral_applyCode ::
    "learning_env \<Rightarrow> auth_user option \<Rightarrow> json option \<Rightarrow> (learning_db, thrown, ident) step" where
  "referral_applyCode env user code db =
     (case user_id user of
        None \<Rightarrow> (Inl (AppError (UnauthorizedError ''User ID not found'')), db)
      | Some userId \<Rightarrow>
          (case apply_check userId code db of
             Inl e \<Rightarrow> (if lv_down env \<and> e \<noteq> AppError (BadRequestError ''Referral code is required'')
                       then Inl (OtherError (lv_rejected env)) else Inl e, db)
           | Inr k \<Rightarrow> if lv_down env then (Inl (OtherError (lv_rejected env)), db) else apply_commit env userId k db))"

record referral_stats =
  st_totalReferrals :: nat
  st_activeReferrals :: nat
  st_earnedBonuses :: int
  st_pendingBonuses :: int

text \<open>\<open>r.bonusAmount ?? 0\<close>: no row has such a column, so it counts as nothing.\<close>

definition earned_bonus :: "learning_env \<Rightarrow> referral_row \<Rightarrow> int" where
  "earned_bonus env r = (if ''bonusAmount'' \<in> set (lv_columns env ''Referral'') then REFERRAL_BONUS_AMOUNT else 0)"

definition referral_getStats :: "learning_env \<Rightarrow> auth_user option \<Rightarrow> learning_db \<Rightarrow> thrown + referral_stats" where
  "referral_getStats env user db =
     (case user_id user of
        None \<Rightarrow> Inl (AppError (UnauthorizedError ''User ID not found''))
      | Some userId \<Rightarrow>
          if lv_down env then Inl (OtherError (lv_rejected env))
          else
            (let rs = filter (\<lambda>r. rf_referrerId r = userId) (ln_referrals db);
                 active = filter (\<lambda>r. list_ex (\<lambda>c. cm_userId c = rf_referreeId r) (ln_completions db)) rs;
                 paid = filter rf_bonusPaid rs
             in Inr \<lparr>st_totalReferrals = length rs, st_activeReferrals = length active,
                     st_earnedBonuses = foldl (\<lambda>sum r. sum + earned_bonus env r) 0 paid,
                     st_pendingBonuses = int (length rs - length paid) * REFERRAL_BONUS_AMOUNT\<rparr>))"

definition bonus_columns :: "string list" where
  "bonus_columns = [''bonusPaid'', ''bonusAmount'', ''bonusPaidAt'']"

definition processReferralBonus :: "learning_env \<Rightarrow> ident \<Rightarrow> (learning_db, thrown, unit) step" where
  "processReferralBonus env referreeId db =
     (if lv_down env then (Inl (OtherError (lv_rejected env)), db)
      else
        (case List.find (\<lambda>r. rf_referreeId r = referreeId) (ln_referrals db) of
           None \<Rightarrow> (Inr (), db)
         | Some r \<Rightarrow>
             if rf_bonusPaid r then (Inr (), db)
             else if count_where (\<lambda>c. cm_userId c = referreeId) (ln_completions db) < 1 then (Inr (), db)
             else if \<not> client_knows env ''Referral'' bonus_columns then (Inl (OtherError (lv_rejected env)), db)
             else
               (let db1 = db\<lparr>ln_referrals := update_where (\<lambda>x. rf_id x = rf_id r)
                      (\<lambda>x. x\<lparr>rf_bonusPaid := True, rf_bonusPaidAt := Some (lv_now env)\<rparr>) (ln_referrals db)\<rparr> in
                if \<not> client_creates env ''Transaction'' [''userId'', ''amount'', ''type'', ''status'']
                then (Inl (OtherError (lv_rejected env)), db1)
                else (Inr (), db1\<lparr>ln_payouts := ln_payouts db1 @ [\<lparr>pt_id = lv_newId env, pt_userId = rf_referrerId r,
                        pt_amountStroops = REFERRAL_BONUS_AMOUNT, pt_type = ''referral_reward'',
                        pt_status = ''completed''\<rparr>]\<rparr>))))"

end
