(* ===== verification/LearningProps.thy ===== *)
theory LearningProps
  imports Referrals
begin

text \<open>
  Properties of modules, credentials and referrals: what holds of the tables however requests interleave, when a referral code is found,
  and what goes wrong with the columns of the schema.
\<close>

section \<open>Interleaved requests\<close>

text \<open>A request reads and decides, then writes; both halves interleave with those of others.\<close>

record learning_sys =
  ls_db :: learning_db
  ls_starts :: "(ident \<times> ident) list"
  ls_completes :: "(ident \<times> module_row \<times> nat) list"
  ls_applies :: "(ident \<times> code_row) list"

inductive learning_step :: "learning_sys \<Rightarrow> learning_sys \<Rightarrow> bool" where
  start_read: "start_check u i (ls_db s) = None \<Longrightarrow> learning_step s (s\<lparr>ls_starts := (u, i) # ls_starts s\<rparr>)"
| start_write: "(u, i) \<in> set (ls_starts s) \<Longrightarrow>
    learning_step s (s\<lparr>ls_db := snd (start_commit env u i (ls_db s)), ls_starts := remove1 (u, i) (ls_starts s)\<rparr>)"
| complete_read: "complete_check u i (ls_db s) = Inr m \<Longrightarrow>
    learning_step s (s\<lparr>ls_completes := (u, m, n) # ls_completes s\<rparr>)"
| complete_write: "(u, m, n) \<in> set (ls_completes s) \<Longrightarrow>
    learning_step s (s\<lparr>ls_db := snd (complete_commit env u m n (ls_db s)),
      ls_completes := remove1 (u, m, n) (ls_completes s)\<rparr>)"
| apply_read: "apply_check u code (ls_db s) = Inr k \<Longrightarrow> learning_step s (s\<lparr>ls_applies := (u, k) # ls_applies s\<rparr>)"
| apply_write: "(u, k) \<in> set (ls_applies s) \<Longrightarrow>
    learning_step s (s\<lparr>ls_db := snd (apply_commit env u k (ls_db s)), ls_applies := remove1 (u, k) (ls_applies s)\<rparr>)"
| bonus: "learning_step s (s\<lparr>ls_db := snd (processReferralBonus env u (ls_db s))\<rparr>)"

definition completion_key :: "completion_row \<Rightarrow> ident \<times> ident" where
  "completion_key c = (cm_userId c, cm_moduleId c)"

definition tables_wf :: "learning_db \<Rightarrow> bool" where
  "tables_wf db \<longleftrightarrow> distinct (map completion_key (ln_completions db))
     \<and> list_all (\<lambda>c. cm_score c \<in> {- 1, 0, 100}) (ln_completions db)
     \<and> distinct (map rf_referreeId (ln_referrals db))
     \<and> list_all (\<lambda>r. rf_referrerId r \<noteq> rf_referreeId r) (ln_referrals db)"

definition learning_inv :: "learning_sys \<Rightarrow> bool" where
  "learning_inv s \<longleftrightarrow> tables_wf (ls_db s) \<and> list_all (\<lambda>(u, k). rk_userId k \<noteq> u) (ls_applies s)"

lemma quiz_score_cases: "quiz_score n = (if n = 0 then 0 else 100)"
  by (simp add: quiz_score_def Let_def)

lemma insert_completion_wf:
  assumes "insert_completion c db = Some db'" and "tables_wf db" and "cm_score c \<in> {- 1, 0, 100}"
  shows "tables_wf db'"
proof -
  have "find_completion (cm_userId c) (cm_moduleId c) db = None" "db' = db\<lparr>ln_completions := ln_completions db @ [c]\<rparr>"
    using assms(1) by (auto simp: insert_completion_def split: if_splits)
  moreover from this(1) have "completion_key c \<notin> set (map completion_key (ln_completions db))"
    by (auto simp: find_completion_def find_None completion_key_def)
  ultimately show ?thesis using assms(2,3) by (simp add: tables_wf_def)
qed

lemma start_commit_wf: "tables_wf db \<Longrightarrow> tables_wf (snd (start_commit env u i db))"
  by (auto simp: start_commit_def COMPLETION_IN_PROGRESS_SCORE_def split: option.split intro: insert_completion_wf)

lemma store_score_wf:
  assumes "tables_wf db" and "score \<in> {0, 100}"
  shows "tables_wf (store_score now u i score db)"
proof -
  have "map completion_key (ln_completions (store_score now u i score db)) = map completion_key (ln_completions db)"
    by (simp add: store_score_def map_update_where completion_key_def)
  with assms show ?thesis
    by (auto simp: tables_wf_def store_score_def list_all_iff set_update_where)
qed

lemma complete_commit_wf: "tables_wf db \<Longrightarrow> tables_wf (snd (complete_commit env u m n db))"
  using store_score_wf [of db "quiz_score n" "lv_now env" u "md_id m"]
  by (auto simp: complete_commit_def Let_def quiz_score_cases) (auto simp: tables_wf_def)

lemma apply_commit_wf:
  assumes "tables_wf db" and "rk_userId k \<noteq> u"
  shows "tables_wf (snd (apply_commit env u k db))"
  using assms by (auto simp: apply_commit_def tables_wf_def list_ex_iff)

lemma bonus_wf:
  assumes "tables_wf db"
  shows "tables_wf (snd (processReferralBonus env u db))"
proof -
  have "tables_wf (db\<lparr>ln_referrals := update_where p (\<lambda>x. x\<lparr>rf_bonusPaid := True, rf_bonusPaidAt := t\<rparr>) (ln_referrals db)\<rparr>)" for p t
    using assms by (auto simp: tables_wf_def map_update_where list_all_iff set_update_where)
  then show ?thesis using assms
    by (auto simp: processReferralBonus_def Let_def tables_wf_def split: option.split)
qed

lemma learning_step_inv: "learning_step s t \<Longrightarrow> learning_inv s \<Longrightarrow> learning_inv t"
proof (induction rule: learning_step.induct)
  case (apply_read u code s k)
  then have "rk_userId k \<noteq> u"
    by (auto simp: apply_check_def split: option.splits json.splits if_splits)
  with apply_read show ?case by (simp add: learning_inv_def)
next
  case (apply_write u k s env)
  then show ?case
    by (auto simp: learning_inv_def list_all_iff intro!: apply_commit_wf dest: in_set_remove1 set_remove1_subset [THEN subsetD])
qed (auto simp: learning_inv_def intro: start_commit_wf complete_commit_wf bonus_wf)

definition learning_init :: "learning_sys \<Rightarrow> bool" where
  "learning_init s \<longleftrightarrow> learning_inv s \<and> ls_starts s = [] \<and> ls_completes s = []"

interpretation learning: invariant_system learning_init learning_step learning_inv
  by unfold_locales (auto simp: learning_init_def intro: learning_step_inv)


section \<open>The code of a referral\<close>

abbreviation taken_at :: "(nat \<Rightarrow> 8 word list) \<Rightarrow> learning_db \<Rightarrow> nat \<Rightarrow> bool" where
  "taken_at draws db k \<equiv> code_taken (code_text (draws k)) db"

lemma draw_code_finds:
  "\<lbrakk>\<And>j. j < n \<Longrightarrow> taken_at draws db (k + j); \<not> taken_at draws db (k + n)\<rbrakk> \<Longrightarrow>
     draw_code draws db k = Some (code_text (draws (k + n)))"
proof (induction n arbitrary: k)
  case 0
  then show ?case by (simp add: draw_code.simps)
next
  case (Suc n)
  have "taken_at draws db (Suc k + j)" if "j < n" for j
    using Suc.prems(1) [of "Suc j"] that by simp
  then have "draw_code draws db (Suc k) = Some (code_text (draws (Suc k + n)))"
    using Suc.IH [of "Suc k"] Suc.prems(2) by simp
  with Suc.prems(1) [of 0] show ?case by (subst draw_code.simps) simp
qed

definition first_free :: "(nat \<Rightarrow> 8 word list) \<Rightarrow> learning_db \<Rightarrow> nat \<Rightarrow> string \<Rightarrow> bool" where
  "first_free draws db k c \<longleftrightarrow>
     (\<exists>n. c = code_text (draws (k + n)) \<and> \<not> taken_at draws db (k + n) \<and> (\<forall>j<n. taken_at draws db (k + j)))"

lemma draw_code_sound:
  assumes "draw_code draws db k = Some c"
  shows "first_free draws db k c"
proof (rule draw_code.raw_induct [where P = first_free, OF _ assms])
  fix f draws db k c
  assume IH: "\<And>draws db k y. f draws db k = Some y \<Longrightarrow> first_free draws db k y"
    and run: "(if taken_at draws db k then f draws db (k + 1) else Some (code_text (draws k))) = Some c"
  show "first_free draws db k c"
  proof (cases "taken_at draws db k")
    case True
    with run IH have "first_free draws db (Suc k) c" by simp
    then obtain n where n: "c = code_text (draws (Suc k + n))" "\<not> taken_at draws db (Suc k + n)"
      "\<forall>j<n. taken_at draws db (Suc k + j)" by (auto simp: first_free_def)
    then have "\<forall>j<Suc n. taken_at draws db (k + j)" using True by (auto simp: less_Suc_eq_0_disj)
    with n show ?thesis unfolding first_free_def by (intro exI [of _ "Suc n"]) simp
  next
    case False
    with run show ?thesis unfolding first_free_def by (intro exI [of _ 0]) auto
  qed
qed

text \<open>
  C39. Drawing a referral code ends exactly when some draw is free, and gives the first free one: a code that no user has yet.
\<close>

theorem referral_code_found:
  "(generateUniqueCode draws db = Some c \<longleftrightarrow>
      (\<exists>n. c = code_text (draws n) \<and> \<not> code_taken c db \<and> list_all (\<lambda>j. code_taken (code_text (draws j)) db) [0..<n]))
   \<and> (generateUniqueCode draws db = None \<longleftrightarrow> \<not> (\<exists>n. \<not> code_taken (code_text (draws n)) db))"
proof -
  have found: "generateUniqueCode draws db = Some (code_text (draws n))"
    if "list_all (\<lambda>j. code_taken (code_text (draws j)) db) [0..<n]" "\<not> taken_at draws db n" for n
    using draw_code_finds [of n draws 0 db] that by (simp add: generateUniqueCode_def list_all_iff)
  have sound: "\<exists>n. c = code_text (draws n) \<and> \<not> code_taken c db \<and> list_all (\<lambda>j. code_taken (code_text (draws j)) db) [0..<n]"
    if gen: "generateUniqueCode draws db = Some c" for c
  proof -
    have "first_free draws db 0 c" using gen unfolding generateUniqueCode_def by (rule draw_code_sound)
    then obtain n where "c = code_text (draws n)" "\<not> taken_at draws db n" "\<forall>j<n. taken_at draws db j"
      by (auto simp: first_free_def)
    then show ?thesis by (intro exI [of _ n]) (simp add: list_all_iff)
  qed
  have exactly: "generateUniqueCode draws db = Some c \<longleftrightarrow>
      (\<exists>n. c = code_text (draws n) \<and> \<not> code_taken c db \<and> list_all (\<lambda>j. code_taken (code_text (draws j)) db) [0..<n])"
    using sound [of c] found by blast
  have "\<exists>c. generateUniqueCode draws db = Some c" if free: "\<not> taken_at draws db n" for n
  proof -
    obtain m where m: "\<not> taken_at draws db m" "\<forall>j<m. taken_at draws db j"
      using exists_least_iff [of "\<lambda>n. \<not> taken_at draws db n"] free by blast
    then have "list_all (\<lambda>j. code_taken (code_text (draws j)) db) [0..<m]" by (simp add: list_all_iff)
    from found [OF this m(1)] show ?thesis by blast
  qed
  moreover have "\<exists>n. \<not> taken_at draws db n" if "generateUniqueCode draws db = Some x" for x
    using sound [OF that] by blast
  ultimately have "generateUniqueCode draws db = None \<longleftrightarrow> \<not> (\<exists>n. \<not> taken_at draws db n)"
    by (cases "generateUniqueCode draws db") fastforce+
  with exactly show ?thesis by blast
qed

section \<open>What the schema does to the controllers\<close>

text \<open>The columns of \<open>prisma/schema.prisma\<close>, and those without a default.\<close>

definition schema_columns :: "string \<Rightarrow> string list" where
  "schema_columns model =
     (if model = ''Module'' then [''id'', ''title'', ''description'', ''category'', ''difficulty'', ''rewardStroops'', ''assetCode'',
        ''assetIssuer'', ''assetNetwork'', ''archivedAt'', ''archivedById'', ''archivedReason'', ''createdAt'', ''updatedAt'']
      else if model = ''Transaction'' then [''id'', ''userId'', ''amountStroops'', ''assetCode'', ''assetIssuer'', ''assetNetwork'',
        ''type'', ''status'', ''createdAt'', ''updatedAt'']
      else if model = ''Referral'' then [''id'', ''referrerId'', ''referreeId'', ''codeId'', ''bonusPaid'', ''bonusAmountStroops'',
        ''bonusPaidAt'', ''createdAt'', ''updatedAt'']
      else [])"

definition schema_required :: "string \<Rightarrow> string list" where
  "schema_required model = (if model = ''Transaction'' then [''userId'', ''amountStroops'', ''type''] else [])"

definition on_schema :: "learning_env \<Rightarrow> bool" where
  "on_schema env \<longleftrightarrow> lv_columns env = schema_columns \<and> lv_required env = schema_required"

lemma schema_rejects:
  assumes "on_schema env"
  shows "\<not> client_creates env ''Transaction'' (payout_columns (module_reward env m))"
    and "\<not> client_knows env ''Module'' detail_columns" and "\<not> client_knows env ''Referral'' bonus_columns"
  using assms
  by (simp_all add: on_schema_def client_creates_def client_knows_def schema_columns_def schema_required_def payout_columns_def
      detail_columns_def bonus_columns_def)

lemma complete_check_after_score:
  assumes "complete_check u i db = Inr m" and "0 \<le> score"
  shows "complete_check u i (store_score now u i score db) = Inl (ErrorReply 400 ''Module already completed'')"
proof -
  from assms(1) obtain c where c: "find_module i db = Some m" "find_completion u i db = Some c"
    by (auto simp: complete_check_def split: option.splits if_splits)
  have "find_completion u i (store_score now u i score db) = Some (c\<lparr>cm_score := score, cm_completedAt := now\<rparr>)"
  proof -
    have "List.find (\<lambda>x. completion_key x = (u, i)) (update_where (\<lambda>x. completion_key x = (u, i))
        (\<lambda>c. c\<lparr>cm_score := score, cm_completedAt := now\<rparr>) (ln_completions db)) = Some (c\<lparr>cm_score := score, cm_completedAt := now\<rparr>)"
      by (rule find_update_where_key) (use c(2) in \<open>simp_all add: find_completion_def completion_key_def\<close>)
    then show ?thesis by (simp add: find_completion_def store_score_def completion_key_def)
  qed
  with c(1) assms(2) show ?thesis by (simp add: complete_check_def find_module_def store_score_def)
qed

text \<open>
  Nobody is rewarded for passing a module. The reward is read from the column \<open>reward\<close> and written to \<open>amount\<close>, and the schema
  has neither, so the transaction is rejected: the user who answers the quiz gets 500, but the score is stored, no payout is created,
  and every later attempt is refused because the module is already completed.
\<close>

theorem passing_loses_reward:
  assumes "on_schema env" and "\<not> lv_down env" and "on_schema env'" and "\<not> lv_down env'"
    and check: "complete_check (au_id u) i db = Inr m" and "0 < answers"
    and run: "completeModule env (Some u) i (Inr answers) db = (reply, db')"
  shows "reply_status reply = 500 \<and> db' = store_score (lv_now env) (au_id u) i 100 db \<and> ln_payouts db' = ln_payouts db
    \<and> completeModule env' (Some u) i (Inr answers') db' = (ErrorReply 400 ''Module already completed'', db')"
proof -
  have m: "md_id m = i"
    using check find_Some [of "\<lambda>m. md_id m = i" "ln_modules db" m]
    by (auto simp: complete_check_def find_module_def split: option.splits if_splits)
  have "completeModule env (Some u) i (Inr answers) db = (internal_error, store_score (lv_now env) (au_id u) i 100 db)"
    using assms(1,2,6) check schema_rejects(1) [OF assms(1), of m]
    by (simp add: completeModule_def complete_commit_def Let_def quiz_score_cases m)
  with run have r: "reply = internal_error" "db' = store_score (lv_now env) (au_id u) i 100 db" by simp_all
  moreover have "completeModule env' (Some u) i (Inr answers') db' = (ErrorReply 400 ''Module already completed'', db')"
    using complete_check_after_score [OF check, of 100 "lv_now env"] assms(4) r(2) by (simp add: completeModule_def)
  ultimately show ?thesis by (simp add: internal_error_def store_score_def)
qed

text \<open>
  The rest of what the controllers show is wrong with the schema, too: no credential can be opened by its owner, a paid referral bonus never counts as
  earned, no bonus is ever paid, and a credential that was never issued on chain is confirmed to be verified there.
\<close>

theorem schema_breaks_views:
  assumes "on_schema env" and "\<not> lv_down env" and user: "user_id user = Some uid"
    and c: "List.find (\<lambda>c. cd_onChainId c = Some (cd_id c0)) (ln_credentials db) = None"
      "List.find (\<lambda>c. cd_id c = cd_id c0) (ln_credentials db) = Some c0" "cd_onChainId c0 = None"
  shows "getCredentialById env user i db = Inl (OtherError (lv_rejected env))
    \<and> map_sum id st_earnedBonuses (referral_getStats env user db) = Inr 0
    \<and> snd (processReferralBonus env r db) = db
    \<and> credentials_verify env (cd_id c0) db = Inr \<lparr>vf_valid = True, vf_credential = credential_view_of db c0,
        vf_verifiedAt = lv_now env, vf_message = ''This credential is valid and has been verified on-chain''\<rparr>"
proof (intro conjI)
  show "getCredentialById env user i db = Inl (OtherError (lv_rejected env))"
    using schema_rejects(2) [OF assms(1)] user by (simp add: getCredentialById_def)
  have "foldl (\<lambda>sum r. sum + earned_bonus env r) a rs = a" for a rs
    using assms(1) by (induction rs) (simp_all add: earned_bonus_def on_schema_def schema_columns_def)
  then show "map_sum id st_earnedBonuses (referral_getStats env user db) = Inr 0"
    using user assms(2) by (simp add: referral_getStats_def Let_def)
  show "snd (processReferralBonus env r db) = db"
    using schema_rejects(3) [OF assms(1)] by (simp add: processReferralBonus_def split: option.split)
  show "credentials_verify env (cd_id c0) db = Inr \<lparr>vf_valid = True, vf_credential = credential_view_of db c0,
      vf_verifiedAt = lv_now env, vf_message = ''This credential is valid and has been verified on-chain''\<rparr>"
    using assms(2) c by (simp add: credentials_verify_def)
qed

section \<open>Witnesses\<close>

abbreviation demo_lesson :: module_row where
  "demo_lesson \<equiv> \<lparr>md_id = ''m'', md_title = ''Intro'', md_description = ''d'', md_category = ''c'', md_difficulty = ''easy'',
     md_rewardStroops = 50000000, md_archivedAt = None, md_createdAt = 0, md_updatedAt = 0\<rparr>"

abbreviation demo_started :: completion_row where
  "demo_started \<equiv> \<lparr>cm_id = ''k'', cm_userId = ''u'', cm_moduleId = ''m'', cm_score = - 1, cm_completedAt = 0, cm_createdAt = 0\<rparr>"

definition demo_learning :: "completion_row list \<Rightarrow> learning_db" where
  "demo_learning cs = \<lparr>ln_modules = [demo_lesson], ln_completions = cs,
     ln_credentials = [\<lparr>cd_id = ''c1'', cd_userId = ''u'', cd_moduleId = ''m'', cd_onChainId = None, cd_issuedAt = 0\<rparr>],
     ln_payouts = [], ln_codes = [], ln_referrals = [], ln_usernames = (\<lambda>_. ''name'')\<rparr>"

definition demo_learning_env :: learning_env where
  "demo_learning_env = \<lparr>lv_now = 7, lv_newId = ''k'', lv_columns = schema_columns, lv_required = schema_required,
     lv_rejected = ''Invalid invocation'', lv_date = (\<lambda>_. None), lv_down = False\<rparr>"

abbreviation demo_learner :: auth_user where
  "demo_learner \<equiv> \<lparr>au_id = ''u'', au_role = ''LEARNER'', au_email = ''a@b''\<rparr>"

lemma demo_on_schema: "on_schema demo_learning_env" "\<not> lv_down demo_learning_env"
  by (simp_all add: on_schema_def demo_learning_env_def)

lemma demo_check: "complete_check ''u'' ''m'' (demo_learning [demo_started]) = Inr demo_lesson"
  by (simp add: complete_check_def find_module_def find_completion_def demo_learning_def)

theorem passing_loses_reward_witness:
  "ln_payouts (snd (completeModule demo_learning_env (Some demo_learner) ''m'' (Inr 3) (demo_learning [demo_started]))) = []"
proof -
  obtain reply db' where run: "completeModule demo_learning_env (Some demo_learner) ''m'' (Inr 3) (demo_learning [demo_started]) = (reply, db')"
    by fastforce
  have "complete_check (au_id demo_learner) ''m'' (demo_learning [demo_started]) = Inr demo_lesson" by (simp add: demo_check)
  from passing_loses_reward [OF demo_on_schema demo_on_schema this _ run, of 1]
  have "ln_payouts db' = ln_payouts (demo_learning [demo_started])" by (simp add: store_score_def)
  with run show ?thesis by (simp add: demo_learning_def)
qed

theorem schema_breaks_views_witness:
  "getCredentialById demo_learning_env (Some demo_learner) ''c1'' (demo_learning []) = Inl (OtherError ''Invalid invocation'')"
  using schema_breaks_views [OF demo_on_schema, of "Some demo_learner" "''u''"
      "\<lparr>cd_id = ''c1'', cd_userId = ''u'', cd_moduleId = ''m'', cd_onChainId = None, cd_issuedAt = 0\<rparr>" "demo_learning []" "''c1''"]
  by (simp add: user_id_def demo_learning_def demo_learning_env_def)

abbreviation demo_sys_at :: "learning_db \<Rightarrow> (ident \<times> ident) list \<Rightarrow> learning_sys" where
  "demo_sys_at db ss \<equiv> \<lparr>ls_db = db, ls_starts = ss, ls_completes = [], ls_applies = []\<rparr>"

lemma demo_starting:
  "reaches learning_step (demo_sys_at (demo_learning []) [])
     (demo_sys_at (snd (start_commit demo_learning_env ''u'' ''m'' (demo_learning []))) [])"
proof -
  let ?s0 = "demo_sys_at (demo_learning []) []" and ?s1 = "demo_sys_at (demo_learning []) [(''u'', ''m'')]"
  have "start_check ''u'' ''m'' (ls_db ?s0) = None"
    by (simp add: start_check_def find_module_def find_completion_def demo_learning_def)
  from start_read [OF this] have read: "learning_step ?s0 ?s1" by simp
  have "(''u'', ''m'') \<in> set (ls_starts ?s1)" by simp
  from start_write [OF this, of demo_learning_env]
  have "learning_step ?s1 (demo_sys_at (snd (start_commit demo_learning_env ''u'' ''m'' (demo_learning []))) [])" by simp
  then show ?thesis using reaches_step [where R = learning_step, OF reaches_one [where R = learning_step, OF read]] by simp
qed


end
