(* ===== verification/Sync.thy ===== *)
theory Sync
  imports Learning
begin

text \<open>
  Synchronization of what a device recorded offline: \<open>src/src/controllers/sync.controller.ts\<close>, over the modules and completions of
  \<open>Learning\<close> and the table of sync events.

  An event is a JSON value of the request body, checked as the handler does; numbers are whole. The parser of \<open>new Date\<close>, fresh identifiers
  and the clock are arguments. \<open>sv_fails key statement\<close> says that the database throws at that statement of the event with that key.
  A batch is not a transaction: what the events before a throw wrote stays.
\<close>

section \<open>Tables and events\<close>

record sync_row =
  sy_key :: string
  sy_userId :: ident
  sy_deviceId :: string
  sy_eventType :: string
  sy_payload :: string
  sy_clientTimestamp :: time
  sy_syncVersion :: int
  sy_status :: string
  sy_rejectionReason :: "string option"

record sync_db =
  sd_learning :: learning_db
  sd_events :: "sync_row list"

record sync_env =
  sv_now :: time
  sv_newId :: "nat \<Rightarrow> ident"
  sv_date :: "json \<Rightarrow> time option"
  sv_rejected :: string
  sv_fails :: "json \<Rightarrow> string \<Rightarrow> bool"

datatype sync_status = Applied | Skipped | Rejected

record sync_result =
  sr_key :: json
  sr_status :: sync_status
  sr_reason :: "string option"

type_synonym 'a sync_outcome = "(thrown + 'a) \<times> sync_db"

section \<open>Values of JavaScript\<close>

definition absent_or_falsy :: "json option \<Rightarrow> bool" where
  "absent_or_falsy v = (case v of None \<Rightarrow> True | Some x \<Rightarrow> \<not> json_truthy x)"

text \<open>\<open>idempotencyKey ?? 'unknown'\<close>\<close>

definition key_or_unknown :: "json option \<Rightarrow> json" where
  "key_or_unknown v = (case v of None \<Rightarrow> JStr ''unknown'' | Some x \<Rightarrow> if x = JNull then JStr ''unknown'' else x)"

text \<open>What a comparison with \<open>>\<close> makes of its right operand; \<open>None\<close> is \<open>NaN\<close>.\<close>

definition number_text :: "string \<Rightarrow> int option" where
  "number_text s = (let t = trim s; (negative, ds) = (case t of [] \<Rightarrow> (False, []) | c # cs \<Rightarrow>
       if c = CHR ''-'' then (True, cs) else if c = CHR ''+'' then (False, cs) else (False, t)) in
     if t = [] then Some 0
     else if ds = [] \<or> \<not> list_all is_digit ds then None
     else Some (if negative then - int (parse_nat ds) else int (parse_nat ds)))"

fun coerce_number :: "json \<Rightarrow> int option" where
  "coerce_number JNull = Some 0"
| "coerce_number (JBool b) = Some (if b then 1 else 0)"
| "coerce_number (JNum n) = Some n"
| "coerce_number (JStr s) = number_text s"
| "coerce_number (JArr []) = Some 0"
| "coerce_number (JArr [v]) = (case v of JBool _ \<Rightarrow> None | _ \<Rightarrow> coerce_number v)"
| "coerce_number (JArr (_ # _ # _)) = None"
| "coerce_number (JObj _) = None"

definition greater_than :: "int \<Rightarrow> json \<Rightarrow> bool" where
  "greater_than n v = (case coerce_number v of None \<Rightarrow> False | Some m \<Rightarrow> m < n)"

text \<open>The text of a payload, \<open>JSON.stringify\<close> of a string and a number.\<close>

definition json_hex :: "nat \<Rightarrow> char" where
  "json_hex n = (if n < 10 then digit_char n else char_of (n + 87))"

definition json_escape_char :: "char \<Rightarrow> string" where
  "json_escape_char c =
     (if c = CHR 0x22 then [CHR 0x5C, CHR 0x22]
      else if c = CHR 0x5C then [CHR 0x5C, CHR 0x5C]
      else if c = CHR 0x08 then [CHR 0x5C, CHR ''b'']
      else if c = CHR 0x09 then [CHR 0x5C, CHR ''t'']
      else if c = CHR 0x0A then [CHR 0x5C, CHR ''n'']
      else if c = CHR 0x0C then [CHR 0x5C, CHR ''f'']
      else if c = CHR 0x0D then [CHR 0x5C, CHR ''r'']
      else if of_char c < (32 :: nat)
      then [CHR 0x5C, CHR ''u''] @ ''00'' @ [json_hex (of_char c div 16), json_hex (of_char c mod 16)]
      else [c])"

definition payload_text :: "string \<Rightarrow> string \<Rightarrow> int \<Rightarrow> string" where
  "payload_text moduleId field n =
     ''{'' @ [CHR 0x22] @ ''moduleId'' @ [CHR 0x22] @ '':'' @ [CHR 0x22] @ concat (map json_escape_char moduleId) @ [CHR 0x22]
     @ '','' @ [CHR 0x22] @ field @ [CHR 0x22] @ '':'' @ show_int n @ ''}''"

section \<open>The checks of an event\<close>

record sync_event =
  ev_key :: json
  ev_deviceId :: json
  ev_moduleId :: json
  ev_value :: int
  ev_clientTs :: time
  ev_syncVersion :: json

abbreviation answered :: "json \<Rightarrow> sync_status \<Rightarrow> string option \<Rightarrow> sync_result" where
  "answered k s r \<equiv> \<lparr>sr_key = k, sr_status = s, sr_reason = r\<rparr>"

text \<open>Destructuring \<open>null\<close> throws; any other value that is no object has none of the fields.\<close>

definition check_event :: "sync_env \<Rightarrow> string \<Rightarrow> string \<Rightarrow> json \<Rightarrow> (thrown + sync_result) + sync_event" where
  "check_event env field range_reason e =
     (if e = JNull then Inl (Inl (OtherError ''Cannot destructure property 'idempotencyKey' of 'event' as it is null.''))
      else
        (let key = json_field e ''idempotencyKey''; deviceId = json_field e ''deviceId''; moduleId = json_field e ''moduleId'';
             n = json_field e field; clientTimestamp = json_field e ''clientTimestamp''; syncVersion = json_field e ''syncVersion'' in
         if absent_or_falsy key \<or> absent_or_falsy deviceId \<or> absent_or_falsy moduleId \<or> n = None
            \<or> absent_or_falsy clientTimestamp \<or> syncVersion = None
         then Inl (Inr (answered (key_or_unknown key) Rejected (Some ''Missing required fields'')))
         else
           (case the n of
              JNum k \<Rightarrow>
                if k < 0 \<or> 100 < k then Inl (Inr (answered (the key) Rejected (Some range_reason)))
                else
                  (case sv_date env (the clientTimestamp) of
                     None \<Rightarrow> Inl (Inr (answered (the key) Rejected (Some ''Invalid clientTimestamp format'')))
                   | Some t \<Rightarrow> Inr \<lparr>ev_key = the key, ev_deviceId = the deviceId, ev_moduleId = the moduleId, ev_value = k,
                       ev_clientTs = t, ev_syncVersion = the syncVersion\<rparr>)
            | _ \<Rightarrow> Inl (Inr (answered (the key) Rejected (Some range_reason))))))"

section \<open>Statements\<close>

abbreviation rejected_statement :: "sync_env \<Rightarrow> thrown" where
  "rejected_statement env \<equiv> OtherError (sv_rejected env)"

definition text_of :: "json \<Rightarrow> string option" where
  "text_of v = (case v of JStr s \<Rightarrow> Some s | _ \<Rightarrow> None)"

definition find_event_key :: "string \<Rightarrow> sync_db \<Rightarrow> sync_row option" where
  "find_event_key k db = List.find (\<lambda>r. sy_key r = k) (sd_events db)"

text \<open>A column of 32 bits.\<close>

definition fits_int :: "int \<Rightarrow> bool" where
  "fits_int n \<longleftrightarrow> - (2 ^ 31) \<le> n \<and> n < 2 ^ 31"

definition create_event ::
    "sync_env \<Rightarrow> ident \<Rightarrow> string \<Rightarrow> string \<Rightarrow> string option \<Rightarrow> string \<Rightarrow> sync_event \<Rightarrow> sync_db \<Rightarrow> sync_db option" where
  "create_event env userId eventType status reason payload e db =
     (case (text_of (ev_key e), text_of (ev_deviceId e), ev_syncVersion e) of
        (Some key, Some deviceId, JNum version) \<Rightarrow>
          if sv_fails env (ev_key e) ''syncEvent.create'' \<or> \<not> fits_int version \<or> find_event_key key db \<noteq> None then None
          else Some (db\<lparr>sd_events := sd_events db @ [\<lparr>sy_key = key, sy_userId = userId, sy_deviceId = deviceId,
            sy_eventType = eventType, sy_payload = payload, sy_clientTimestamp = ev_clientTs e, sy_syncVersion = version,
            sy_status = status, sy_rejectionReason = reason\<rparr>]\<rparr>)
      | _ \<Rightarrow> None)"

definition is_progress_for :: "ident \<Rightarrow> string \<Rightarrow> sync_row \<Rightarrow> bool" where
  "is_progress_for userId moduleId r \<longleftrightarrow>
     sy_userId r = userId \<and> includes_str moduleId (sy_payload r) \<and> sy_eventType r = ''progress''"

text \<open>The greatest version among the progress events of a user whose payload contains the module.\<close>

definition latest_version :: "ident \<Rightarrow> string \<Rightarrow> sync_db \<Rightarrow> int option" where
  "latest_version userId moduleId db =
     map_option sy_syncVersion (first_by (\<lambda>r. - sy_syncVersion r) (is_progress_for userId moduleId) (sd_events db))"

definition stale_version :: "ident \<Rightarrow> string \<Rightarrow> json \<Rightarrow> sync_db \<Rightarrow> bool" where
  "stale_version userId moduleId version db =
     (case latest_version userId moduleId db of None \<Rightarrow> False | Some n \<Rightarrow> greater_than n version)"

section \<open>Progress\<close>

definition apply_progress :: "sync_env \<Rightarrow> ident \<Rightarrow> sync_event \<Rightarrow> sync_db \<Rightarrow> sync_result sync_outcome" where
  "apply_progress env userId e db =
     (case text_of (ev_key e) of
        None \<Rightarrow> (Inl (rejected_statement env), db)
      | Some key \<Rightarrow>
          if sv_fails env (ev_key e) ''syncEvent.findUnique'' then (Inl (rejected_statement env), db)
          else if find_event_key key db \<noteq> None then (Inr (answered (ev_key e) Skipped None), db)
          else
            (case text_of (ev_moduleId e) of
               None \<Rightarrow> (Inl (rejected_statement env), db)
             | Some moduleId \<Rightarrow>
                 if sv_fails env (ev_key e) ''syncEvent.findFirst'' then (Inl (rejected_statement env), db)
                 else if stale_version userId moduleId (ev_syncVersion e) db
                 then (Inr (answered (ev_key e) Skipped (Some ''Stale sync version -- a newer version already applied'')), db)
                 else
                   (case create_event env userId ''progress'' ''applied'' None
                           (payload_text moduleId ''progressPercent'' (ev_value e)) e db of
                      None \<Rightarrow> (Inl (rejected_statement env), db)
                    | Some db' \<Rightarrow> (Inr (answered (ev_key e) Applied None), db'))))"

definition progress_event :: "sync_env \<Rightarrow> ident \<Rightarrow> json \<Rightarrow> sync_db \<Rightarrow> sync_result sync_outcome" where
  "progress_event env userId e db =
     (case check_event env ''progressPercent'' ''progressPercent must be between 0 and 100'' e of
        Inl (Inl t) \<Rightarrow> (Inl t, db)
      | Inl (Inr r) \<Rightarrow> (Inr r, db)
      | Inr ev \<Rightarrow> apply_progress env userId ev db)"

section \<open>Completions\<close>

text \<open>The score of a completion, all else kept; and a new completion under the unique index of user and module.\<close>

definition update_score :: "ident \<Rightarrow> ident \<Rightarrow> int \<Rightarrow> sync_db \<Rightarrow> sync_db" where
  "update_score userId moduleId score db = db\<lparr>sd_learning := (sd_learning db)\<lparr>ln_completions :=
     update_where (\<lambda>c. cm_userId c = userId \<and> cm_moduleId c = moduleId) (\<lambda>c. c\<lparr>cm_score := score\<rparr>)
       (ln_completions (sd_learning db))\<rparr>\<rparr>"

definition create_completion :: "sync_env \<Rightarrow> ident \<Rightarrow> ident \<Rightarrow> int \<Rightarrow> sync_db \<Rightarrow> sync_db option" where
  "create_completion env userId moduleId score db =
     map_option (\<lambda>l. db\<lparr>sd_learning := l\<rparr>)
       (insert_completion \<lparr>cm_id = sv_newId env (length (ln_completions (sd_learning db))), cm_userId = userId,
          cm_moduleId = moduleId, cm_score = score, cm_completedAt = sv_now env, cm_createdAt = sv_now env\<rparr> (sd_learning db))"

definition EQUAL_OR_HIGHER :: string where
  "EQUAL_OR_HIGHER = ''Existing completion has equal or higher score''"

text \<open>Either the refusal, with the event that records it, or the tables with the score.\<close>

definition reconcile_score ::
    "sync_env \<Rightarrow> ident \<Rightarrow> ident \<Rightarrow> sync_event \<Rightarrow> sync_db \<Rightarrow> sync_result sync_outcome + sync_db" where
  "reconcile_score env userId moduleId e db =
     (if sv_fails env (ev_key e) ''completion.findUnique'' then Inl (Inl (rejected_statement env), db)
      else
        (case find_completion userId moduleId (sd_learning db) of
           Some c \<Rightarrow>
             if ev_value e \<le> cm_score c
             then Inl (case create_event env userId ''completion'' ''skipped'' (Some EQUAL_OR_HIGHER)
                         (payload_text moduleId ''score'' (ev_value e)) e db of
                    None \<Rightarrow> (Inl (rejected_statement env), db)
                  | Some db' \<Rightarrow> (Inr (answered (ev_key e) Skipped (Some EQUAL_OR_HIGHER)), db'))
             else if sv_fails env (ev_key e) ''completion.update'' then Inl (Inl (rejected_statement env), db)
             else Inr (update_score userId moduleId (ev_value e) db)
         | None \<Rightarrow>
             if sv_fails env (ev_key e) ''completion.create'' then Inl (Inl (rejected_statement env), db)
             else (case create_completion env userId moduleId (ev_value e) db of
                     None \<Rightarrow> Inl (Inl (rejected_statement env), db)
                   | Some db' \<Rightarrow> Inr db')))"

definition apply_completion :: "sync_env \<Rightarrow> ident \<Rightarrow> sync_event \<Rightarrow> sync_db \<Rightarrow> sync_result sync_outcome" where
  "apply_completion env userId e db =
     (case text_of (ev_key e) of
        None \<Rightarrow> (Inl (rejected_statement env), db)
      | Some key \<Rightarrow>
          if sv_fails env (ev_key e) ''syncEvent.findUnique'' then (Inl (rejected_statement env), db)
          else if find_event_key key db \<noteq> None then (Inr (answered (ev_key e) Skipped None), db)
          else
            (case text_of (ev_moduleId e) of
               None \<Rightarrow> (Inl (rejected_statement env), db)
             | Some moduleId \<Rightarrow>
                 if sv_fails env (ev_key e) ''module.findUnique'' then (Inl (rejected_statement env), db)
                 else if find_module moduleId (sd_learning db) = None
                 then (Inr (answered (ev_key e) Rejected (Some ''Module not found'')), db)
                 else
                   (case reconcile_score env userId moduleId e db of
                      Inl outcome \<Rightarrow> outcome
                    | Inr db1 \<Rightarrow>
                        (case create_event env userId ''completion'' ''applied'' None
                                (payload_text moduleId ''score'' (ev_value e)) e db1 of
                           None \<Rightarrow> (Inl (rejected_statement env), db1)
                         | Some db2 \<Rightarrow> (Inr (answered (ev_key e) Applied None), db2)))))"

definition completion_event :: "sync_env \<Rightarrow> ident \<Rightarrow> json \<Rightarrow> sync_db \<Rightarrow> sync_result sync_outcome" where
  "completion_event env userId e db =
     (case check_event env ''score'' ''score must be between 0 and 100'' e of
        Inl (Inl t) \<Rightarrow> (Inl t, db)
      | Inl (Inr r) \<Rightarrow> (Inr r, db)
      | Inr ev \<Rightarrow> apply_completion env userId ev db)"

section \<open>A batch\<close>

fun sync_batch ::
    "(json \<Rightarrow> sync_db \<Rightarrow> sync_result sync_outcome) \<Rightarrow> json list \<Rightarrow> sync_db \<Rightarrow> sync_result list sync_outcome" where
  "sync_batch one [] db = (Inr [], db)"
| "sync_batch one (e # es) db =
     (case one e db of
        (Inl t, db1) \<Rightarrow> (Inl t, db1)
      | (Inr r, db1) \<Rightarrow>
          (case sync_batch one es db1 of
             (Inl t, db2) \<Rightarrow> (Inl t, db2)
           | (Inr rs, db2) \<Rightarrow> (Inr (r # rs), db2)))"

definition sync_request ::
    "(ident \<Rightarrow> json \<Rightarrow> sync_db \<Rightarrow> sync_result sync_outcome) \<Rightarrow> auth_user option \<Rightarrow> json option \<Rightarrow> sync_db \<Rightarrow>
     sync_result list sync_outcome" where
  "sync_request one user body db =
     (case user_id user of
        None \<Rightarrow> (Inl (AppError (UnauthorizedError ''User ID not found'')), db)
      | Some userId \<Rightarrow>
          (case body of
             None \<Rightarrow> (Inl (OtherError ''Cannot destructure property 'events' of 'req.body' as it is undefined.''), db)
           | Some content \<Rightarrow>
               (case json_field content ''events'' of
                  Some (JArr (e # es)) \<Rightarrow> sync_batch (one userId) (e # es) db
                | _ \<Rightarrow> (Inl (AppError (BadRequestError ''events must be a non-empty array'')), db))))"

definition syncProgress :: "sync_env \<Rightarrow> auth_user option \<Rightarrow> json option \<Rightarrow> sync_db \<Rightarrow> sync_result list sync_outcome" where
  "syncProgress env = sync_request (progress_event env)"

definition syncCompletions :: "sync_env \<Rightarrow> auth_user option \<Rightarrow> json option \<Rightarrow> sync_db \<Rightarrow> sync_result list sync_outcome" where
  "syncCompletions env = sync_request (completion_event env)"

end
