(* ===== verification/SyncProps.thy ===== *)
theory SyncProps
  imports Sync
begin

text \<open>
  Properties of synchronization: sending a batch again changes nothing, scores only grow and nobody else's are touched,
  and what offline completions and the keys of events do to later requests.
\<close>

section \<open>Sending a batch again\<close>

text \<open>A handler of events that leaves behind, for each event it answers, tables on which the event is settled.\<close>

locale replayable =
  fixes one later :: "json \<Rightarrow> sync_db \<Rightarrow> sync_result sync_outcome"
    and grows :: "sync_db \<Rightarrow> sync_db \<Rightarrow> bool"
  assumes grows_refl: "grows db db"
    and grows_trans: "grows a b \<Longrightarrow> grows b c \<Longrightarrow> grows a c"
    and one_grows: "one e db = (Inr r, db') \<Longrightarrow> grows db db'"
    and one_settles: "one e db = (Inr r, db') \<Longrightarrow> grows db' db'' \<Longrightarrow>
      \<exists>s. later e db'' = (Inr s, db'') \<and> sr_key s = sr_key r \<and> sr_status s \<noteq> Applied"
begin

lemma batch_grows: "sync_batch one es db = (Inr rs, db') \<Longrightarrow> grows db db'"
  by (induction es arbitrary: db rs) (auto intro: grows_refl grows_trans one_grows split: prod.splits sum.splits)

lemma batch_settled:
  assumes "sync_batch one es db = (Inr rs, db')" and "grows db' db''"
  shows "\<exists>ss. sync_batch later es db'' = (Inr ss, db'') \<and> map sr_key ss = map sr_key rs
    \<and> list_all (\<lambda>s. sr_status s \<noteq> Applied) ss"
  using assms
proof (induction es arbitrary: db rs)
  case (Cons e es)
  from Cons.prems(1) obtain r db1 rs1 where step: "one e db = (Inr r, db1)" "sync_batch one es db1 = (Inr rs1, db')" "rs = r # rs1"
    by (auto split: prod.splits sum.splits)
  have "grows db1 db''" using batch_grows [OF step(2)] Cons.prems(2) by (rule grows_trans)
  from one_settles [OF step(1) this] Cons.IH [OF step(2) Cons.prems(2)] step(3) show ?case by fastforce
qed simp

end

definition sync_grows :: "sync_db \<Rightarrow> sync_db \<Rightarrow> bool" where
  "sync_grows a b \<longleftrightarrow> (\<exists>es. sd_events b = sd_events a @ es) \<and> ln_modules (sd_learning b) = ln_modules (sd_learning a)"

lemma create_event_events:
  assumes "create_event env u t st rs p e db = Some db'"
  shows "\<exists>row. db' = db\<lparr>sd_events := sd_events db @ [row]\<rparr> \<and> ev_key e = JStr (sy_key row) \<and> find_event_key (sy_key row) db = None"
proof -
  from assms obtain k d v where cs: "ev_key e = JStr k" "ev_deviceId e = JStr d" "ev_syncVersion e = JNum v"
    by (auto simp: create_event_def text_of_def split: json.splits)
  let ?row = "\<lparr>sy_key = k, sy_userId = u, sy_deviceId = d, sy_eventType = t, sy_payload = p, sy_clientTimestamp = ev_clientTs e,
    sy_syncVersion = v, sy_status = st, sy_rejectionReason = rs\<rparr>"
  from assms cs have "db' = db\<lparr>sd_events := sd_events db @ [?row]\<rparr> \<and> find_event_key k db = None"
    by (simp add: create_event_def text_of_def split: if_splits)
  with cs(1) show ?thesis by (intro exI [of _ ?row]) simp
qed

lemma found_key_grows: "find_event_key k a \<noteq> None \<Longrightarrow> sync_grows a b \<Longrightarrow> find_event_key k b \<noteq> None"
  by (auto simp: sync_grows_def find_event_key_def find_append split: option.split)

lemma created_key_found:
  assumes "create_event env u t st rs p e db = Some db'" and "text_of (ev_key e) = Some k"
  shows "find_event_key k db' \<noteq> None"
proof -
  from create_event_events [OF assms(1)] obtain row where "sy_key row = k" "db' = db\<lparr>sd_events := sd_events db @ [row]\<rparr>"
    using assms(2) by (auto simp: text_of_def)
  then show ?thesis by (simp add: find_event_key_def find_append split: option.split)
qed

lemma create_event_grows: "create_event env u t st rs p e db = Some db' \<Longrightarrow> sync_grows db db'"
  by (auto simp: sync_grows_def dest!: create_event_events)

lemma reconcile_frame:
  "reconcile_score env u m e db = Inr db' \<Longrightarrow> sd_events db' = sd_events db \<and> ln_modules (sd_learning db') = ln_modules (sd_learning db)"
  by (auto simp: reconcile_score_def update_score_def create_completion_def insert_completion_def split: if_splits option.splits)

lemma sync_grows_refl: "sync_grows db db"
  by (simp add: sync_grows_def)

lemma sync_grows_trans: "sync_grows a b \<Longrightarrow> sync_grows b c \<Longrightarrow> sync_grows a c"
  by (auto simp: sync_grows_def)

lemma latest_grows:
  assumes "latest_version u m a = Some n" and "sync_grows a b"
  shows "\<exists>n'\<ge>n. latest_version u m b = Some n'"
proof -
  let ?p = "is_progress_for u m"
  from assms(1) obtain r where r: "first_by (\<lambda>r. - sy_syncVersion r) ?p (sd_events a) = Some r" "sy_syncVersion r = n"
    by (auto simp: latest_version_def)
  from first_by_Some [OF r(1)] assms(2) have mem: "r \<in> set (sd_events b)" "?p r" by (auto simp: sync_grows_def)
  have "first_by (\<lambda>r. - sy_syncVersion r) ?p (sd_events b) \<noteq> None" unfolding first_by_None using mem by blast
  then obtain r' where r': "first_by (\<lambda>r. - sy_syncVersion r) ?p (sd_events b) = Some r'" by blast
  have "- sy_syncVersion r' \<le> - sy_syncVersion r" by (rule first_by_least [OF r' mem])
  with r(2) r' show ?thesis by (auto simp: latest_version_def)
qed

lemma stale_grows:
  assumes "stale_version u m v a" and "sync_grows a b"
  shows "stale_version u m v b"
proof -
  from assms(1) obtain n where n: "latest_version u m a = Some n" "greater_than n v"
    by (auto simp: stale_version_def split: option.splits)
  from latest_grows [OF n(1) assms(2)] obtain n' where "n \<le> n'" "latest_version u m b = Some n'" by blast
  with n(2) show ?thesis by (auto simp: stale_version_def greater_than_def split: option.splits)
qed

lemma check_event_date:
  assumes "sv_date env' = sv_date env"
  shows "check_event env' f m e = check_event env f m e"
  unfolding check_event_def assms ..

lemma check_event_answer: "check_event env f m e = Inl (Inr r) \<Longrightarrow> sr_status r = Rejected"
  by (auto simp: check_event_def Let_def split: if_splits json.splits option.splits)

text \<open>The database of a later request works, and dates are read the same way.\<close>

definition works_later :: "sync_env \<Rightarrow> sync_env \<Rightarrow> bool" where
  "works_later env env' \<longleftrightarrow> sv_date env' = sv_date env \<and> sv_fails env' = (\<lambda>_ _. False)"

text \<open>An answered event has a key, and either its key is stored now, or it is stale.\<close>

lemma apply_progress_cases:
  assumes "apply_progress env u e db = (Inr r, db')"
  obtains k where "text_of (ev_key e) = Some k" "sr_key r = ev_key e" "sync_grows db db'" "find_event_key k db' \<noteq> None"
  | k m where "text_of (ev_key e) = Some k" "sr_key r = ev_key e" "db' = db" "find_event_key k db = None"
      "text_of (ev_moduleId e) = Some m" "stale_version u m (ev_syncVersion e) db"
proof -
  from assms obtain k where k: "text_of (ev_key e) = Some k" by (auto simp: apply_progress_def split: option.splits)
  note stored = that(1) [OF k] and stale = that(2) [OF k]
  show thesis
  proof (cases "find_event_key k db")
    case (Some row)
    with assms k have "sr_key r = ev_key e" "db' = db" by (auto simp: apply_progress_def split: if_splits)
    with Some show thesis by (auto intro: stored sync_grows_refl)
  next
    case None
    with assms k obtain m where m: "text_of (ev_moduleId e) = Some m" by (auto simp: apply_progress_def split: if_splits option.splits)
    show thesis
    proof (cases "stale_version u m (ev_syncVersion e) db")
      case True
      with assms k None m show thesis by (auto intro!: stale simp: apply_progress_def split: if_splits)
    next
      case False
      with assms k None m have "sr_key r = ev_key e"
        and made: "create_event env u ''progress'' ''applied'' None (payload_text m ''progressPercent'' (ev_value e)) e db = Some db'"
        by (auto simp: apply_progress_def split: if_splits option.splits)
      with create_event_grows [OF made] created_key_found [OF made k] show thesis by (auto intro: stored)
    qed
  qed
qed

lemma apply_progress_grows: "apply_progress env u e db = (Inr r, db') \<Longrightarrow> sync_grows db db'"
  by (erule apply_progress_cases) (simp_all add: sync_grows_refl)

lemma apply_progress_settles:
  assumes run: "apply_progress env u e db = (Inr r, db')" and grows: "sync_grows db' db''" and later: "works_later env env'"
  shows "\<exists>s. apply_progress env' u e db'' = (Inr s, db'') \<and> sr_key s = sr_key r \<and> sr_status s \<noteq> Applied"
  using run
proof (cases rule: apply_progress_cases)
  case (1 k)
  with found_key_grows [OF _ grows, of k] later show ?thesis by (auto simp: apply_progress_def works_later_def)
next
  case (2 k m)
  with grows have "stale_version u m (ev_syncVersion e) db''" by (simp add: stale_grows)
  with 2 later show ?thesis by (auto simp: apply_progress_def works_later_def split: option.split)
qed

lemma update_score_grows: "sync_grows db (update_score u m n db)"
  by (simp add: sync_grows_def update_score_def)

lemma create_completion_grows: "create_completion env u m n db = Some db' \<Longrightarrow> sync_grows db db'"
  by (auto simp: sync_grows_def create_completion_def insert_completion_def split: if_splits)

lemma reconcile_grows: "reconcile_score env u m e db = Inr db' \<Longrightarrow> sync_grows db db'"
  by (auto simp: reconcile_score_def intro: update_score_grows create_completion_grows split: if_splits option.splits)

lemma reconcile_refuses:
  assumes "reconcile_score env u m e db = Inl (Inr r, db')"
  shows "r = answered (ev_key e) Skipped (Some EQUAL_OR_HIGHER)
    \<and> create_event env u ''completion'' ''skipped'' (Some EQUAL_OR_HIGHER) (payload_text m ''score'' (ev_value e)) e db = Some db'"
  using assms by (auto simp: reconcile_score_def split: if_splits option.splits)

text \<open>An answered event has a key, and either its key is stored now, or its module is unknown.\<close>

lemma apply_completion_cases:
  assumes "apply_completion env u e db = (Inr r, db')"
  obtains k where "text_of (ev_key e) = Some k" "sr_key r = ev_key e" "sync_grows db db'" "find_event_key k db' \<noteq> None"
  | k m where "text_of (ev_key e) = Some k" "sr_key r = ev_key e" "db' = db" "find_event_key k db = None"
      "text_of (ev_moduleId e) = Some m" "find_module m (sd_learning db) = None"
proof -
  from assms obtain k where k: "text_of (ev_key e) = Some k" by (auto simp: apply_completion_def split: option.splits)
  note stored = that(1) [OF k] and unknown = that(2) [OF k]
  show thesis
  proof (cases "find_event_key k db")
    case (Some row)
    with assms k have "sr_key r = ev_key e" "db' = db" by (auto simp: apply_completion_def split: if_splits)
    with Some show thesis by (auto intro: stored sync_grows_refl)
  next
    case None
    with assms k obtain m where m: "text_of (ev_moduleId e) = Some m" by (auto simp: apply_completion_def split: if_splits option.splits)
    show thesis
    proof (cases "find_module m (sd_learning db)")
      case (Some row)
      show thesis
      proof (cases "reconcile_score env u m e db")
        case (Inl outcome)
        with assms k None m Some have "outcome = (Inr r, db')" by (simp add: apply_completion_def split: if_splits)
        with Inl have "r = answered (ev_key e) Skipped (Some EQUAL_OR_HIGHER)"
          "create_event env u ''completion'' ''skipped'' (Some EQUAL_OR_HIGHER) (payload_text m ''score'' (ev_value e)) e db = Some db'"
          using reconcile_refuses by blast+
        with k show thesis by (auto intro!: stored dest: create_event_grows created_key_found)
      next
        case (Inr db1)
        with assms k None m Some have "r = answered (ev_key e) Applied None"
          and made: "create_event env u ''completion'' ''applied'' None (payload_text m ''score'' (ev_value e)) e db1 = Some db'"
          by (auto simp: apply_completion_def split: if_splits option.splits)
        moreover have "sync_grows db db'"
          using reconcile_grows [OF Inr] create_event_grows [OF made] by (rule sync_grows_trans)
        ultimately show thesis using created_key_found [OF made k] by (auto intro: stored)
      qed
    next
      case none: None
      with assms k None m show thesis by (auto intro!: unknown simp: apply_completion_def split: if_splits)
    qed
  qed
qed

lemma apply_completion_settles:
  assumes run: "apply_completion env u e db = (Inr r, db')" and grows: "sync_grows db' db''" and later: "works_later env env'"
  shows "\<exists>s. apply_completion env' u e db'' = (Inr s, db'') \<and> sr_key s = sr_key r \<and> sr_status s \<noteq> Applied"
  using run
proof (cases rule: apply_completion_cases)
  case (1 k)
  with found_key_grows [OF _ grows, of k] later show ?thesis by (auto simp: apply_completion_def works_later_def)
next
  case (2 k m)
  with grows have "find_module m (sd_learning db'') = None" by (simp add: sync_grows_def find_module_def)
  with 2 later show ?thesis by (auto simp: apply_completion_def works_later_def split: option.split)
qed

lemma apply_completion_grows: "apply_completion env u e db = (Inr r, db') \<Longrightarrow> sync_grows db db'"
  by (erule apply_completion_cases) (simp_all add: sync_grows_refl)

lemma progress_event_settles:
  assumes "works_later env env'" and "progress_event env u e db = (Inr r, db')" and "sync_grows db' db''"
  shows "\<exists>s. progress_event env' u e db'' = (Inr s, db'') \<and> sr_key s = sr_key r \<and> sr_status s \<noteq> Applied"
  using assms check_event_date [of env' env] apply_progress_settles [OF _ assms(3,1)]
  by (auto simp: progress_event_def works_later_def dest: check_event_answer split: sum.splits)

lemma completion_event_settles:
  assumes "works_later env env'" and "completion_event env u e db = (Inr r, db')" and "sync_grows db' db''"
  shows "\<exists>s. completion_event env' u e db'' = (Inr s, db'') \<and> sr_key s = sr_key r \<and> sr_status s \<noteq> Applied"
  using assms check_event_date [of env' env] apply_completion_settles [OF _ assms(3,1)]
  by (auto simp: completion_event_def works_later_def dest: check_event_answer split: sum.splits)

lemma replayable_progress:
  assumes "works_later env env'"
  shows "replayable (progress_event env u) (progress_event env' u) sync_grows"
  using assms progress_event_settles
  by unfold_locales (auto simp: sync_grows_refl progress_event_def intro: sync_grows_trans apply_progress_grows split: sum.splits)

lemma replayable_completion:
  assumes "works_later env env'"
  shows "replayable (completion_event env u) (completion_event env' u) sync_grows"
  using assms completion_event_settles
  by unfold_locales (auto simp: sync_grows_refl completion_event_def intro: sync_grows_trans apply_completion_grows split: sum.splits)

text \<open>The laws hold of the handlers with any environment whose database always works.\<close>

definition working :: "sync_env \<Rightarrow> sync_env" where
  "working env = env\<lparr>sv_fails := (\<lambda>_ _. False)\<rparr>"

lemma works_later_working [simp]: "works_later env (working env)"
  by (simp add: works_later_def working_def)

interpretation progress_replay: replayable "progress_event env u" "progress_event (working env) u" sync_grows for env u
  by (rule replayable_progress) simp

interpretation completion_replay: replayable "completion_event env u" "completion_event (working env) u" sync_grows for env u
  by (rule replayable_completion) simp

lemma request_batch:
  assumes "sync_request one user body db = (x, db')"
  shows "(\<exists>u es. user_id user = Some u \<and> (\<forall>f s. sync_request f user body s = sync_batch (f u) es s) \<and> sync_batch (one u) es db = (x, db'))
    \<or> db' = db \<and> (\<exists>t. x = Inl t)"
proof (cases "\<exists>u e es. user_id user = Some u \<and> Option.bind body (\<lambda>f. json_field f ''events'') = Some (JArr (e # es))")
  case True
  then obtain u e es where "user_id user = Some u" "Option.bind body (\<lambda>f. json_field f ''events'') = Some (JArr (e # es))" by blast
  then have "sync_request f user body s = sync_batch (f u) (e # es) s" for f s
    by (cases body) (simp_all add: sync_request_def del: sync_batch.simps)
  with assms \<open>user_id user = Some u\<close> show ?thesis by (metis (no_types))
next
  case False
  with assms show ?thesis by (auto simp: sync_request_def split: option.splits json.splits list.splits)
qed

text \<open>
  C24. Synchronization is idempotent. When a batch was answered, sending it again, at any later time and after any growth of the tables, is
  answered without an error for every event under the same keys, applies none of them, and changes nothing.
\<close>

theorem sync_replay_changes_nothing:
  assumes "sync \<in> {syncProgress, syncCompletions}" and "sync env user body db = (Inr rs, db')" and "sync_grows db' db''"
  shows "\<exists>ss. sync (working env) user body db'' = (Inr ss, db'') \<and> map sr_key ss = map sr_key rs
    \<and> list_all (\<lambda>s. sr_status s \<noteq> Applied) ss"
  using assms(1)
proof (elim insertE emptyE)
  assume sync: "sync = syncProgress"
  from request_batch [OF assms(2) [unfolded sync syncProgress_def]] obtain u es where
    "\<And>f s. sync_request f user body s = sync_batch (f u) es s" "sync_batch (progress_event env u) es db = (Inr rs, db')" by auto
  with progress_replay.batch_settled [OF _ assms(3)] show ?thesis unfolding sync syncProgress_def by metis
next
  assume sync: "sync = syncCompletions"
  from request_batch [OF assms(2) [unfolded sync syncCompletions_def]] obtain u es where
    "\<And>f s. sync_request f user body s = sync_batch (f u) es s" "sync_batch (completion_event env u) es db = (Inr rs, db')" by auto
  with completion_replay.batch_settled [OF _ assms(3)] show ?thesis unfolding sync syncCompletions_def by metis
qed

section \<open>Scores\<close>

lemma find_update_score:
  "find_completion u' m' (sd_learning (update_score u m n db)) =
     map_option (\<lambda>c. if u' = u \<and> m' = m then c\<lparr>cm_score := n\<rparr> else c) (find_completion u' m' (sd_learning db))"
proof -
  have "List.find (\<lambda>c. cm_userId c = u' \<and> cm_moduleId c = m')
      (update_where (\<lambda>c. cm_userId c = u \<and> cm_moduleId c = m) (\<lambda>c. c\<lparr>cm_score := n\<rparr>) cs) =
    map_option (\<lambda>c. if u' = u \<and> m' = m then c\<lparr>cm_score := n\<rparr> else c)
      (List.find (\<lambda>c. cm_userId c = u' \<and> cm_moduleId c = m') cs)" for cs
    by (induction cs) auto
  then show ?thesis by (simp add: find_completion_def update_score_def)
qed

lemma find_create_completion:
  assumes "create_completion env u m n db = Some db'"
  shows "find_completion u' m' (sd_learning db') = (if u' = u \<and> m' = m
    then Some \<lparr>cm_id = sv_newId env (length (ln_completions (sd_learning db))), cm_userId = u, cm_moduleId = m,
      cm_score = n, cm_completedAt = sv_now env, cm_createdAt = sv_now env\<rparr>
    else find_completion u' m' (sd_learning db))"
  using assms
  by (auto simp: create_completion_def insert_completion_def find_completion_def find_append split: if_splits option.splits)

text \<open>The score a user has of a module, and what reconciling a score does to it.\<close>

definition score_of :: "ident \<Rightarrow> ident \<Rightarrow> sync_db \<Rightarrow> int option" where
  "score_of u m db = map_option cm_score (find_completion u m (sd_learning db))"

lemma score_of_created: "create_event env u t st rs p e db = Some db' \<Longrightarrow> score_of u' m' db' = score_of u' m' db"
  by (auto simp: score_of_def dest: create_event_events)

lemma score_of_reconciled:
  assumes "reconcile_score env u m e db = Inr db'"
  shows "score_of u' m' db' = (if u' = u \<and> m' = m then Some (ev_value e) else score_of u' m' db)"
    and "case score_of u m db of None \<Rightarrow> True | Some n \<Rightarrow> n < ev_value e"
  using assms
  by (auto simp: reconcile_score_def score_of_def find_update_score find_create_completion option.map_ident split: if_splits option.splits)

lemma score_of_refused: "reconcile_score env u m e db = Inl (r, db') \<Longrightarrow> score_of u' m' db' = score_of u' m' db"
  by (auto simp: reconcile_score_def score_of_created split: if_splits option.splits)

text \<open>Whatever comes of an event, also when a statement of it throws.\<close>

lemma apply_completion_scores:
  assumes "apply_completion env u e db = (x, db')"
  shows "score_of u' m' db' = score_of u' m' db
    \<or> u' = u \<and> ev_moduleId e = JStr m' \<and> score_of u m' db' = Some (ev_value e)
      \<and> (case score_of u m' db of None \<Rightarrow> True | Some n \<Rightarrow> n < ev_value e)"
proof (cases "db' = db")
  case False
  with assms obtain m where m: "text_of (ev_moduleId e) = Some m"
    and out: "case reconcile_score env u m e db of Inl outcome \<Rightarrow> outcome = (x, db')
      | Inr db1 \<Rightarrow> db' = db1 \<or> create_event env u ''completion'' ''applied'' None (payload_text m ''score'' (ev_value e)) e db1 = Some db'"
    by (auto simp: apply_completion_def split: option.splits if_splits sum.splits)
  then have m': "ev_moduleId e = JStr m" by (simp add: text_of_def split: json.splits)
  show ?thesis
  proof (cases "reconcile_score env u m e db")
    case (Inl outcome)
    with out show ?thesis by (simp add: score_of_refused)
  next
    case (Inr db1)
    with out have "score_of u' m' db' = score_of u' m' db1" by (auto simp: score_of_created)
    with score_of_reconciled [OF Inr] m' show ?thesis by auto
  qed
qed simp

definition better :: "int option \<Rightarrow> int option \<Rightarrow> bool" where
  "better old new \<longleftrightarrow> (case old of None \<Rightarrow> True | Some n \<Rightarrow> (case new of None \<Rightarrow> False | Some k \<Rightarrow> n \<le> k))"

lemma better_refl: "better a a" and better_trans: "better a b \<Longrightarrow> better b c \<Longrightarrow> better a c"
  by (auto simp: better_def split: option.splits)

definition scores_kept :: "ident \<Rightarrow> sync_db \<Rightarrow> sync_db \<Rightarrow> bool" where
  "scores_kept u a b \<longleftrightarrow> (\<forall>v m. better (score_of v m a) (score_of v m b) \<and> (v \<noteq> u \<longrightarrow> score_of v m b = score_of v m a)
     \<and> (score_of v m b \<noteq> score_of v m a \<longrightarrow> (\<exists>n. score_of v m b = Some n \<and> 0 \<le> n \<and> n \<le> 100)))"

lemma check_event_value: "check_event env f m e = Inr ev \<Longrightarrow> 0 \<le> ev_value ev \<and> ev_value ev \<le> 100"
  by (auto simp: check_event_def Let_def split: if_splits json.splits option.splits)

lemma completion_event_scores: "completion_event env u e db = (x, db') \<Longrightarrow> scores_kept u db db'"
proof -
  assume run: "completion_event env u e db = (x, db')"
  show ?thesis
  proof (cases "check_event env ''score'' ''score must be between 0 and 100'' e")
    case (Inl a)
    with run show ?thesis by (auto simp: completion_event_def scores_kept_def better_refl split: sum.splits)
  next
    case (Inr ev)
    with run have "apply_completion env u ev db = (x, db')" by (simp add: completion_event_def)
    note change = apply_completion_scores [OF this] check_event_value [OF Inr]
    show ?thesis unfolding scores_kept_def
    proof (intro allI)
      fix v m
      from change(1) [of v m] change(2)
      show "better (score_of v m db) (score_of v m db') \<and> (v \<noteq> u \<longrightarrow> score_of v m db' = score_of v m db)
        \<and> (score_of v m db' \<noteq> score_of v m db \<longrightarrow> (\<exists>n. score_of v m db' = Some n \<and> 0 \<le> n \<and> n \<le> 100))"
        by (auto simp: better_def split: option.splits)
    qed
  qed
qed

lemma scores_kept_refl: "scores_kept u a a"
  by (simp add: scores_kept_def better_refl)

lemma scores_kept_trans: "scores_kept u a b \<Longrightarrow> scores_kept u b c \<Longrightarrow> scores_kept u a c"
  unfolding scores_kept_def by (metis better_trans)

lemma batch_scores: "sync_batch (completion_event env u) es db = (x, db') \<Longrightarrow> scores_kept u db db'"
proof (induction es arbitrary: db x db')
  case (Cons e es)
  obtain y db1 where one: "completion_event env u e db = (y, db1)" by fastforce
  obtain z db2 where rest: "sync_batch (completion_event env u) es db1 = (z, db2)" by fastforce
  from Cons.prems one rest have "db' = db1 \<or> db' = db2" by (auto split: sum.splits)
  with completion_event_scores [OF one] scores_kept_trans [OF completion_event_scores [OF one] Cons.IH [OF rest]]
  show ?case by blast
qed (simp add: scores_kept_refl)

text \<open>
  C25. Offline completions never lower a score. Whatever a device sends, and even when the request fails half-way, no completion disappears, a score
  that changes grows and is between 0 and 100, and the completions of other users stay as they are.
\<close>

theorem offline_scores_only_grow:
  assumes "syncCompletions env user body db = (x, db')"
  shows "(case find_completion v m (sd_learning db) of
       None \<Rightarrow> True
     | Some c \<Rightarrow> \<exists>c'. find_completion v m (sd_learning db') = Some c' \<and> cm_score c \<le> cm_score c')
   \<and> (user_id user = Some v \<or> map_option cm_score (find_completion v m (sd_learning db')) = map_option cm_score (find_completion v m (sd_learning db)))
   \<and> (map_option cm_score (find_completion v m (sd_learning db')) = map_option cm_score (find_completion v m (sd_learning db))
      \<or> (\<exists>n. map_option cm_score (find_completion v m (sd_learning db')) = Some n \<and> 0 \<le> n \<and> n \<le> 100))"
proof -
  from request_batch [OF assms [unfolded syncCompletions_def]] scores_kept_refl batch_scores
  have "\<exists>u. (user_id user = Some u \<or> db' = db) \<and> scores_kept u db db'" by metis
  then obtain u where u: "user_id user = Some u \<or> db' = db" and kept: "scores_kept u db db'" by blast
  from kept have "better (score_of v m db) (score_of v m db')" "v = u \<or> score_of v m db' = score_of v m db"
    "score_of v m db' = score_of v m db \<or> (\<exists>n. score_of v m db' = Some n \<and> 0 \<le> n \<and> n \<le> 100)"
    unfolding scores_kept_def by blast+
  with u show ?thesis unfolding score_of_def better_def by (auto split: option.splits)
qed

section \<open>What is lost\<close>

lemma apply_completion_applied:
  assumes "apply_completion env u e db = (Inr r, db')" and "sr_status r = Applied" and "ev_moduleId e = JStr m"
  shows "find_module m (sd_learning db) \<noteq> None"
    and "\<exists>db1. reconcile_score env u m e db = Inr db1 \<and> sd_learning db' = sd_learning db1"
proof -
  have m: "text_of (ev_moduleId e) = Some m" using assms(3) by (simp add: text_of_def)
  from assms(1,2) m show found: "find_module m (sd_learning db) \<noteq> None"
    by (auto simp: apply_completion_def split: option.splits if_splits)
  show "\<exists>db1. reconcile_score env u m e db = Inr db1 \<and> sd_learning db' = sd_learning db1"
  proof (cases "reconcile_score env u m e db")
    case (Inl outcome)
    with assms(1,2) m found have "outcome = (Inr r, db')"
      by (auto simp: apply_completion_def split: option.splits if_splits)
    with reconcile_refuses [of env u m e db r db'] Inl assms(2) show ?thesis by simp
  next
    case (Inr db1)
    with assms(1,2) m found have
      "create_event env u ''completion'' ''applied'' None (payload_text m ''score'' (ev_value e)) e db1 = Some db'"
      by (auto simp: apply_completion_def split: option.splits if_splits)
    with create_event_events Inr show ?thesis by fastforce
  qed
qed

lemma reconcile_payouts: "reconcile_score env u m e db = Inr db1 \<Longrightarrow>
    ln_payouts (sd_learning db1) = ln_payouts (sd_learning db) \<and> ln_modules (sd_learning db1) = ln_modules (sd_learning db)"
  by (auto simp: reconcile_score_def update_score_def create_completion_def insert_completion_def split: if_splits option.splits)

text \<open>
  A module that is completed offline is never rewarded. Applying the completion creates no payout, and afterwards the module can be neither started
  nor completed online, so whatever the learner answers later no payout is created either, although the answers would have passed.
\<close>

theorem offline_completion_unpaid:
  assumes run: "completion_event env (au_id u) e db = (Inr r, db')" and applied: "sr_status r = Applied"
    and m: "json_field e ''moduleId'' = Some (JStr m)" and up: "\<not> lv_down lenv"
  shows "ln_payouts (sd_learning db') = ln_payouts (sd_learning db)
    \<and> startModule lenv (Some u) m (sd_learning db') =
        (ErrorData 400 ''Module already started or completed'' (AlreadyStarted ''completed''), sd_learning db')
    \<and> completeModule lenv (Some u) m (Inr answers) (sd_learning db') =
        (ErrorReply 400 ''Module already completed'', sd_learning db')"
proof -
  from run applied obtain ev where ev: "check_event env ''score'' ''score must be between 0 and 100'' e = Inr ev"
    and go: "apply_completion env (au_id u) ev db = (Inr r, db')"
    by (auto simp: completion_event_def dest: check_event_answer split: sum.splits)
  have "ev_moduleId ev = JStr m"
    using ev m by (auto simp: check_event_def Let_def split: if_splits json.splits option.splits)
  from apply_completion_applied [OF go applied this] obtain db1 where found: "find_module m (sd_learning db) \<noteq> None"
    and rec: "reconcile_score env (au_id u) m ev db = Inr db1" and same: "sd_learning db' = sd_learning db1" by blast
  from score_of_reconciled(1) [OF rec, of "au_id u" m] obtain c where
    c: "find_completion (au_id u) m (sd_learning db1) = Some c" "cm_score c = ev_value ev"
    by (auto simp: score_of_def)
  obtain row where row: "find_module m (sd_learning db1) = Some row"
    using found reconcile_payouts [OF rec] by (auto simp: find_module_def)
  from check_event_value [OF ev] c row up same reconcile_payouts [OF rec] show ?thesis
    by (simp add: startModule_def start_check_def completeModule_def complete_check_def)
qed

definition demo_offline :: "string \<Rightarrow> string \<Rightarrow> string \<Rightarrow> int \<Rightarrow> int \<Rightarrow> json" where
  "demo_offline key moduleId field n version = JObj [(''idempotencyKey'', JStr key), (''deviceId'', JStr ''d''),
     (''moduleId'', JStr moduleId), (field, JNum n), (''clientTimestamp'', JStr ''2026-01-01''), (''syncVersion'', JNum version)]"

definition demo_events :: "json list \<Rightarrow> json" where
  "demo_events es = JObj [(''events'', JArr es)]"

definition demo_sync_env :: sync_env where
  "demo_sync_env = \<lparr>sv_now = 7, sv_newId = (\<lambda>n. ''k''), sv_date = (\<lambda>_. Some 5), sv_rejected = ''Invalid invocation'',
     sv_fails = (\<lambda>_ _. False)\<rparr>"

definition demo_sync_db :: sync_db where
  "demo_sync_db = \<lparr>sd_learning = \<lparr>ln_modules = [\<lparr>md_id = ''m1'', md_title = ''Intro'', md_description = ''d'', md_category = ''c'',
     md_difficulty = ''easy'', md_rewardStroops = 50000000, md_archivedAt = None, md_createdAt = 0, md_updatedAt = 0\<rparr>],
     ln_completions = [], ln_credentials = [], ln_payouts = [], ln_codes = [], ln_referrals = [], ln_usernames = (\<lambda>_. ''name'')\<rparr>,
     sd_events = []\<rparr>"

abbreviation demo_device_user :: "ident \<Rightarrow> auth_user" where
  "demo_device_user i \<equiv> \<lparr>au_id = i, au_role = ''LEARNER'', au_email = ''a@b''\<rparr>"

text \<open>
  Offline work can be lost. Progress on a module is stale as soon as a newer version was synchronized for a module whose id contains its id, and
  an event under a key that another user has used before is skipped without a reason, its completion never stored.
\<close>

theorem offline_events_lost:
  "fst (syncProgress demo_sync_env (Some (demo_device_user ''u'')) (Some (demo_events [demo_offline ''k1'' ''m12'' ''progressPercent'' 40 2,
       demo_offline ''k2'' ''m1'' ''progressPercent'' 90 1])) demo_sync_db) =
     Inr [answered (JStr ''k1'') Applied None,
       answered (JStr ''k2'') Skipped (Some ''Stale sync version -- a newer version already applied'')]
   \<and> (let first = snd (syncCompletions demo_sync_env (Some (demo_device_user ''u'')) (Some (demo_events [demo_offline ''k'' ''m1'' ''score'' 80 1])) demo_sync_db);
          second = syncCompletions demo_sync_env (Some (demo_device_user ''v'')) (Some (demo_events [demo_offline ''k'' ''m1'' ''score'' 80 1])) first
      in fst second = Inr [answered (JStr ''k'') Skipped None] \<and> map cm_userId (ln_completions (sd_learning (snd second))) = [''u''])"
  by (rule conjI; code_simp)

section \<open>Witnesses\<close>

lemma demo_completions_run:
  "fst (syncCompletions demo_sync_env (Some (demo_device_user ''u'')) (Some (demo_events [demo_offline ''k'' ''m1'' ''score'' 80 1])) demo_sync_db) =
     Inr [answered (JStr ''k'') Applied None]"
  by code_simp

abbreviation demo_synced :: sync_db where
  "demo_synced \<equiv>
     snd (syncCompletions demo_sync_env (Some (demo_device_user ''u'')) (Some (demo_events [demo_offline ''k'' ''m1'' ''score'' 80 1])) demo_sync_db)"

lemma demo_synced_eq:
  "syncCompletions demo_sync_env (Some (demo_device_user ''u'')) (Some (demo_events [demo_offline ''k'' ''m1'' ''score'' 80 1])) demo_sync_db =
     (Inr [answered (JStr ''k'') Applied None], demo_synced)"
  by (rule prod_eqI) (simp_all add: demo_completions_run)

theorem sync_replay_changes_nothing_witness:
  "snd (syncCompletions (working demo_sync_env) (Some (demo_device_user ''u'')) (Some (demo_events [demo_offline ''k'' ''m1'' ''score'' 80 1]))
     demo_synced) = demo_synced"
proof -
  have "syncCompletions \<in> {syncProgress, syncCompletions}" by simp
  from sync_replay_changes_nothing [OF this demo_synced_eq sync_grows_refl] show ?thesis by force
qed

theorem offline_scores_only_grow_witness:
  "map_option cm_score (find_completion ''v'' ''m1'' (sd_learning demo_synced)) =
     map_option cm_score (find_completion ''v'' ''m1'' (sd_learning demo_sync_db))"
  using offline_scores_only_grow [OF demo_synced_eq, of "''v''" "''m1''"] by (simp add: user_id_def)

lemma demo_completion_run:
  "completion_event demo_sync_env ''u'' (demo_offline ''k'' ''m1'' ''score'' 80 1) demo_sync_db =
     (Inr (answered (JStr ''k'') Applied None),
      snd (completion_event demo_sync_env ''u'' (demo_offline ''k'' ''m1'' ''score'' 80 1) demo_sync_db))"
proof -
  have "fst (completion_event demo_sync_env ''u'' (demo_offline ''k'' ''m1'' ''score'' 80 1) demo_sync_db) =
    Inr (answered (JStr ''k'') Applied None)" by code_simp
  then show ?thesis by (intro prod_eqI) simp_all
qed

theorem offline_completion_unpaid_witness:
  "ln_payouts (sd_learning (snd (completion_event demo_sync_env ''u'' (demo_offline ''k'' ''m1'' ''score'' 80 1) demo_sync_db))) = []"
proof -
  have "completion_event demo_sync_env (au_id (demo_device_user ''u'')) (demo_offline ''k'' ''m1'' ''score'' 80 1) demo_sync_db =
     (Inr (answered (JStr ''k'') Applied None),
      snd (completion_event demo_sync_env ''u'' (demo_offline ''k'' ''m1'' ''score'' 80 1) demo_sync_db))"
    using demo_completion_run by simp
  moreover have "json_field (demo_offline ''k'' ''m1'' ''score'' 80 1) ''moduleId'' = Some (JStr ''m1'')"
    by (simp add: json_field_def demo_offline_def)
  moreover have "\<not> lv_down \<lparr>lv_now = 7, lv_newId = ''k'', lv_columns = (\<lambda>_. []), lv_required = (\<lambda>_. []),
     lv_rejected = ''x'', lv_date = (\<lambda>_. None), lv_down = False\<rparr>" by simp
  ultimately have "ln_payouts (sd_learning (snd (completion_event demo_sync_env ''u'' (demo_offline ''k'' ''m1'' ''score'' 80 1) demo_sync_db))) =
      ln_payouts (sd_learning demo_sync_db)"
    using offline_completion_unpaid by fastforce
  then show ?thesis by (simp add: demo_sync_db_def)
qed

end
