(* ===== verification/Notifications.thy ===== *)
theory Notifications
  imports RetryQueues Referrals
begin

text \<open>
  The routes for push notifications, \<open>src/src/controllers/notification.controller.ts\<close>, over the devices, preferences and logs of
  \<open>RetryQueues\<close>. The rows of the log stand in the order of their creation. \<open>details\<close> are the messages of a failed
  validation and \<open>down\<close> says that the database throws; a query parameter is given at most once.
\<close>

section \<open>Bodies\<close>

definition parse_device :: "json \<Rightarrow> (string \<times> string) option" where
  "parse_device body =
     (case (json_field body ''token'', json_field body ''platform'') of
        (Some (JStr token), Some (JStr platform)) \<Rightarrow>
          if token \<noteq> [] \<and> platform \<in> set [''ios'', ''android'', ''web''] then Some (token, platform) else None
      | _ \<Rightarrow> None)"

definition PREFERENCE_FIELDS :: "string list" where
  "PREFERENCE_FIELDS = [''rewardReceipt'', ''quizPassFail'', ''streakReminders'']"

definition preference_change :: "json \<Rightarrow> string \<Rightarrow> bool option" where
  "preference_change body k =
     (if k \<in> set PREFERENCE_FIELDS then (case json_field body k of Some (JBool b) \<Rightarrow> Some b | _ \<Rightarrow> None) else None)"

definition valid_preference :: "json \<Rightarrow> string \<Rightarrow> bool" where
  "valid_preference body k = (case json_field body k of None \<Rightarrow> True | Some (JBool _) \<Rightarrow> True | _ \<Rightarrow> False)"

text \<open>At least one field; keys that the schema does not name are stripped and do not count.\<close>

definition parse_preferences :: "json \<Rightarrow> (string \<Rightarrow> bool option) option" where
  "parse_preferences body =
     (case body of
        JObj _ \<Rightarrow>
          if list_all (valid_preference body) PREFERENCE_FIELDS \<and> list_ex (\<lambda>k. json_field body k \<noteq> None) PREFERENCE_FIELDS
          then Some (preference_change body) else None
      | _ \<Rightarrow> None)"

section \<open>Handlers\<close>

record log_view =
  gl_id :: ident
  gl_type :: string
  gl_title :: string
  gl_body :: string
  gl_status :: push_status
  gl_error :: "string option"
  gl_attemptCount :: nat

datatype notification_data =
    DeviceData "device_token option"
  | PreferenceData "(string \<times> bool) list"
  | DeliveryData "log_view list" nat

type_synonym notification_reply = "notification_data reply"

definition registerDevice ::
    "bool \<Rightarrow> json \<Rightarrow> auth_user option \<Rightarrow> json \<Rightarrow> notification_db \<Rightarrow> notification_reply \<times> notification_db" where
  "registerDevice down details user body db =
     authenticated user db (\<lambda>userId.
       case parse_device body of
         None \<Rightarrow> (validation_failed details, db)
       | Some (token, platform) \<Rightarrow>
           if down then (internal_error, db)
           else
             (let db' = registerDeviceToken userId token platform db in
              (OkReply 201 (Some ''Device token registered successfully'')
                 (DeviceData (List.find (\<lambda>t. dt_token t = token) (nd_tokens db'))), db')))"

definition current_prefs :: "ident \<Rightarrow> notification_db \<Rightarrow> string \<Rightarrow> bool" where
  "current_prefs userId db = (case nd_prefs db userId of None \<Rightarrow> (\<lambda>_. True) | Some p \<Rightarrow> p)"

definition notification_updatePreferences ::
    "bool \<Rightarrow> json \<Rightarrow> auth_user option \<Rightarrow> json \<Rightarrow> notification_db \<Rightarrow> notification_reply \<times> notification_db" where
  "notification_updatePreferences down details user body db =
     authenticated user db (\<lambda>userId.
       case parse_preferences body of
         None \<Rightarrow> (validation_failed details, db)
       | Some changes \<Rightarrow>
           if down then (internal_error, db)
           else
             (let db' = updateUserPreferences userId changes db in
              (OkReply 200 (Some ''Preferences updated successfully'') (PreferenceData (map (\<lambda>k. (k, current_prefs userId db' k)) PREFERENCE_FIELDS)), db')))"

fun push_status_text :: "push_status \<Rightarrow> string" where
  "push_status_text PushPending = ''pending''"
| "push_status_text PushSuccess = ''success''"
| "push_status_text PushFailed = ''failed''"
| "push_status_text PushDeadLetter = ''dead-letter''"

definition log_view_of :: "notification_log \<Rightarrow> log_view" where
  "log_view_of l = \<lparr>gl_id = nl_id l, gl_type = nl_type l, gl_title = nl_title l, gl_body = nl_body l, gl_status = nl_status l,
     gl_error = nl_error l, gl_attemptCount = nl_attemptCount l\<rparr>"

definition own_logs :: "ident \<Rightarrow> string option \<Rightarrow> notification_db \<Rightarrow> notification_log list" where
  "own_logs userId status db =
     rev (filter (\<lambda>l. nl_userId l = userId
       \<and> (case query_text status of None \<Rightarrow> True | Some s \<Rightarrow> push_status_text (nl_status l) = s)) (nd_logs db))"

definition getDeliveryStatus ::
    "bool \<Rightarrow> auth_user option \<Rightarrow> string option \<Rightarrow> string option \<Rightarrow> notification_db \<Rightarrow> notification_reply" where
  "getDeliveryStatus down user limit status db =
     (case user_id user of
        None \<Rightarrow> unauthorized
      | Some userId \<Rightarrow>
          if down then internal_error
          else
            (case page_rows 0 (min (number_or_else 20 limit) 100) (own_logs userId status db) of
               None \<Rightarrow> internal_error
             | Some ls \<Rightarrow> OkReply 200 None (DeliveryData (map log_view_of ls) (length ls))))"

section \<open>Properties\<close>

text \<open>A device belongs to one user at a time: the one who registered it last.\<close>

definition devices_unique :: "notification_db \<Rightarrow> bool" where
  "devices_unique db \<longleftrightarrow> distinct (map dt_token (nd_tokens db))"

lemma register_tokens:
  "nd_tokens (registerDeviceToken u t p db) =
     (if list_ex (\<lambda>d. dt_token d = t) (nd_tokens db)
      then update_where (\<lambda>d. dt_token d = t) (\<lambda>d. d\<lparr>dt_userId := u, dt_platform := p\<rparr>) (nd_tokens db)
      else nd_tokens db @ [\<lparr>dt_userId = u, dt_token = t, dt_platform = p\<rparr>])"
  by (simp add: registerDeviceToken_def list_ex_iff)

lemma register_keeps_unique: "devices_unique db \<Longrightarrow> devices_unique (registerDeviceToken u t p db)"
  by (auto simp: devices_unique_def register_tokens map_update_where list_ex_iff)

lemma register_owner: "\<forall>d\<in>set (nd_tokens (registerDeviceToken u t p db)). dt_token d = t \<longrightarrow> dt_userId d = u \<and> dt_platform d = p"
  by (auto simp: register_tokens list_ex_iff set_update_where)

lemma filter_update_all:
  "(\<And>x. Q (f x) \<longleftrightarrow> Q x) \<Longrightarrow> filter Q (update_where Q f xs) = map f (filter Q xs)"
  "(\<And>x. Q (f x) \<longleftrightarrow> Q x) \<Longrightarrow> filter (\<lambda>x. \<not> Q x) (update_where Q f xs) = filter (\<lambda>x. \<not> Q x) xs"
  by (induction xs) simp_all

lemma unique_filter: "distinct (map key xs) \<Longrightarrow> x \<in> set xs \<Longrightarrow> filter (\<lambda>y. key y = key x) xs = [x]"
  by (induction xs) (auto simp: filter_empty_conv, metis imageI)

lemma register_stores_once:
  assumes "devices_unique db"
  shows "filter (\<lambda>d. dt_token d = t) (nd_tokens (registerDeviceToken u t p db)) = [\<lparr>dt_userId = u, dt_token = t, dt_platform = p\<rparr>]"
    and "filter (\<lambda>d. dt_token d \<noteq> t) (nd_tokens (registerDeviceToken u t p db)) = filter (\<lambda>d. dt_token d \<noteq> t) (nd_tokens db)"
proof -
  let ?db = "registerDeviceToken u t p db"
  have "\<exists>d\<in>set (nd_tokens ?db). dt_token d = t"
    by (auto simp: register_tokens list_ex_iff bex_update_where)
  then obtain d where d: "d \<in> set (nd_tokens ?db)" "dt_token d = t" by blast
  from unique_filter [OF register_keeps_unique [OF assms, unfolded devices_unique_def] d(1)] d register_owner [of u t p db]
  show "filter (\<lambda>d. dt_token d = t) (nd_tokens ?db) = [\<lparr>dt_userId = u, dt_token = t, dt_platform = p\<rparr>]"
    by auto
  show "filter (\<lambda>d. dt_token d \<noteq> t) (nd_tokens ?db) = filter (\<lambda>d. dt_token d \<noteq> t) (nd_tokens db)"
    by (simp add: register_tokens filter_update_all(2) [where Q = "\<lambda>d. dt_token d = t"])
qed

text \<open>
  A device token has one owner. After a registration the token is stored once, for the user who registered it last, with the
  platform he named; so the device of somebody else stops receiving that person's notifications as soon as its token is registered by another.
\<close>

theorem device_has_one_owner:
  assumes "devices_unique db" and "registerDevice down details user body db = (reply, db')"
  shows "devices_unique db'
    \<and> (reply_status reply = 201 \<longrightarrow> (\<exists>u t p. user_id user = Some u \<and> parse_device body = Some (t, p)
        \<and> filter (\<lambda>d. dt_token d = t) (nd_tokens db') = [\<lparr>dt_userId = u, dt_token = t, dt_platform = p\<rparr>]
        \<and> filter (\<lambda>d. dt_token d \<noteq> t) (nd_tokens db') = filter (\<lambda>d. dt_token d \<noteq> t) (nd_tokens db)))
    \<and> (reply_status reply = 201 \<or> db' = db)"
proof (cases "user_id user")
  case None
  with assms show ?thesis by (auto simp: registerDevice_def unauthorized_def)
next
  case (Some u)
  show ?thesis
  proof (cases "down \<or> parse_device body = None")
    case True
    with assms Some show ?thesis
      by (auto simp: registerDevice_def validation_failed_def internal_error_def split: option.splits)
  next
    case False
    then obtain t p where "parse_device body = Some (t, p)" "\<not> down" by auto
    with assms Some register_keeps_unique [OF assms(1)] register_stores_once [OF assms(1), of t u p] show ?thesis
      by (auto simp: registerDevice_def Let_def)
  qed
qed

text \<open>
  The delivery log shows a user his own rows only, newest first, at most 100 of them for a limit that is not negative; a negative limit passes
  the maximum, and returns that many of the oldest rows.
\<close>

theorem delivery_log_own:
  assumes "getDeliveryStatus False user limit status db = OkReply 200 None (DeliveryData vs n)"
  shows "\<exists>u. user_id user = Some u \<and> n = length vs \<and> set vs \<subseteq> log_view_of ` set (filter (\<lambda>l. nl_userId l = u) (nd_logs db))
    \<and> (0 \<le> number_or_else 20 limit \<longrightarrow> n \<le> 100 \<and> vs = map log_view_of (take (nat (min (number_or_else 20 limit) 100)) (own_logs u status db)))
    \<and> (number_or_else 20 limit < 0 \<longrightarrow> n = min (nat (- number_or_else 20 limit)) (length (own_logs u status db)))"
proof -
  let ?k = "number_or_else 20 limit"
  obtain u where u: "user_id user = Some u" using assms by (auto simp: getDeliveryStatus_def unauthorized_def split: option.splits)
  let ?ls = "own_logs u status db"
  from assms u obtain ls where ls: "page_rows 0 (min ?k 100) ?ls = Some ls" "vs = map log_view_of ls" "n = length ls"
    by (auto simp: getDeliveryStatus_def internal_error_def split: option.splits)
  then have taken: "ls = (if 0 \<le> ?k then take (nat (min ?k 100)) ?ls else rev (take (nat (- ?k)) (rev ?ls)))"
    by (auto simp: page_rows_def split: if_splits)
  have own: "set ?ls \<subseteq> set (filter (\<lambda>l. nl_userId l = u) (nd_logs db))" by (auto simp: own_logs_def)
  have "set ls \<subseteq> set ?ls" unfolding taken by (auto dest: in_set_takeD)
  with own have "set vs \<subseteq> log_view_of ` set (filter (\<lambda>l. nl_userId l = u) (nd_logs db))" using ls(2) by auto
  with u ls taken show ?thesis by (auto simp: min.commute)
qed

section \<open>Witnesses\<close>

definition demo_notifications :: notification_db where
  "demo_notifications = \<lparr>nd_logs = [], nd_tokens = [\<lparr>dt_userId = ''u'', dt_token = ''t'', dt_platform = ''ios''\<rparr>], nd_prefs = (\<lambda>_. None)\<rparr>"

theorem device_has_one_owner_witness:
  "devices_unique (snd (registerDevice False JNull (Some \<lparr>au_id = ''v'', au_role = ''LEARNER'', au_email = ''a@b''\<rparr>)
     (JObj [(''token'', JStr ''t''), (''platform'', JStr ''web'')]) demo_notifications))"
proof -
  have "devices_unique demo_notifications" by (simp add: devices_unique_def demo_notifications_def)
  from device_has_one_owner [OF this surjective_pairing] show ?thesis by blast
qed

theorem delivery_log_own_witness:
  "\<exists>u. user_id (Some \<lparr>au_id = ''v'', au_role = ''LEARNER'', au_email = ''a@b''\<rparr>) = Some u"
proof -
  have "getDeliveryStatus False (Some \<lparr>au_id = ''v'', au_role = ''LEARNER'', au_email = ''a@b''\<rparr>) None None demo_notifications =
      OkReply 200 None (DeliveryData [] 0)" by code_simp
  from delivery_log_own [OF this] show ?thesis by blast
qed

end
