(* ===== verification/Employer.thy ===== *)
theory Employer
  imports RetryQueues Sync "HOL-Library.List_Lexorder" "HOL-Library.Char_ord"
begin

text \<open>
  The talent search of employers: \<open>src/src/controllers/employer.controller.ts\<close>, over the users, the completions and credentials of
  \<open>Learning\<close> and the webhook tables of \<open>RetryQueues\<close>.

  Every user is a candidate. \<open>ev_details\<close> are the messages of a failed validation. A number of the query is read
  as \<open>Number\<close> does, without points and exponents. The average score is rounded from the exact quotient; the code rounds
  the nearest double, which can differ when the quotient lies exactly half-way. A thrown error of the database is left to the error handler.
\<close>

section \<open>Query and body\<close>

record search_query =
  sq_page :: "string option"
  sq_limit :: "string option"
  sq_skills :: "string option"
  sq_location :: "string option"
  sq_credentials :: "string option"
  sq_search :: "string option"

record search_params =
  sp_page :: int
  sp_limit :: int
  sp_skills :: "string list"
  sp_location :: "string option"
  sp_credentials :: string
  sp_search :: "string option"

text \<open>\<open>z.coerce.number().int()\<close> with bounds and a default.\<close>

definition bounded_number :: "int \<Rightarrow> int option \<Rightarrow> int \<Rightarrow> string option \<Rightarrow> int option" where
  "bounded_number lo hi d v =
     (case v of
        None \<Rightarrow> Some d
      | Some s \<Rightarrow>
          (case number_text s of
             None \<Rightarrow> None
           | Some n \<Rightarrow> if n < lo \<or> (case hi of None \<Rightarrow> False | Some h \<Rightarrow> h < n) then None else Some n))"

definition skill_list :: "string option \<Rightarrow> string list" where
  "skill_list v = (case v of None \<Rightarrow> []
     | Some s \<Rightarrow> if s = [] then [] else filter (\<lambda>x. x \<noteq> []) (map (\<lambda>x. toLowerCase (trim x)) (split_on (CHR '','') s)))"

definition parse_search :: "search_query \<Rightarrow> search_params option" where
  "parse_search q =
     (case (bounded_number 1 None 1 (sq_page q), bounded_number 1 (Some 100) 20 (sq_limit q),
            or_default ''any'' (sq_credentials q)) of
        (Some page, Some limit, creds) \<Rightarrow>
          if creds \<in> set [''any'', ''verified'', ''none'']
          then Some \<lparr>sp_page = page, sp_limit = limit, sp_skills = skill_list (sq_skills q),
                 sp_location = map_option (\<lambda>s. toLowerCase (trim s)) (sq_location q), sp_credentials = creds,
                 sp_search = map_option trim (sq_search q)\<rparr>
          else None
      | _ \<Rightarrow> None)"

record contact_body =
  cb_candidateId :: ident
  cb_subject :: string
  cb_message :: string
  cb_channel :: string

definition parse_contact :: "json \<Rightarrow> contact_body option" where
  "parse_contact body =
     (case (json_field body ''candidateId'', json_field body ''subject'', json_field body ''message'',
            or_default (JStr ''platform'') (json_field body ''channel'')) of
        (Some (JStr c), Some (JStr s), Some (JStr m), JStr ch) \<Rightarrow>
          if c \<noteq> [] \<and> 3 \<le> length s \<and> length s \<le> 120 \<and> 10 \<le> length m \<and> length m \<le> 3000
             \<and> ch \<in> set [''platform'', ''email'', ''both'']
          then Some \<lparr>cb_candidateId = c, cb_subject = s, cb_message = m, cb_channel = ch\<rparr> else None
      | _ \<Rightarrow> None)"

section \<open>Plans\<close>

text \<open>
  The value of a property of the plan tables: a number of the table, or an object that the table inherits,
  which a comparison turns into \<open>NaN\<close>. Of the inherited names only these two are in lower case.
\<close>

datatype plan_value = PlanNumber int | InheritedObject

definition plan_property :: "(string \<times> int) list \<Rightarrow> string \<Rightarrow> plan_value option" where
  "plan_property table name =
     (case map_of table name of
        Some n \<Rightarrow> Some (PlanNumber n)
      | None \<Rightarrow> if name \<in> set [''constructor'', ''__proto__''] then Some InheritedObject else None)"

definition PLAN_RANK :: "(string \<times> int) list" where
  "PLAN_RANK = [(''starter'', 1), (''pro'', 2), (''enterprise'', 3)]"

definition PLAN_MAX_SEARCH_LIMIT :: "(string \<times> int) list" where
  "PLAN_MAX_SEARCH_LIMIT = [(''starter'', 10), (''pro'', 50), (''enterprise'', 100)]"

definition getEmployerPlan :: "string option \<Rightarrow> string" where
  "getEmployerPlan header =
     (let normalized = toLowerCase (or_default ''starter'' header) in
      case plan_property PLAN_RANK normalized of
        None \<Rightarrow> ''starter''
      | Some (PlanNumber n) \<Rightarrow> if n = 0 then ''starter'' else normalized
      | Some InheritedObject \<Rightarrow> normalized)"

definition max_search_limit :: "string \<Rightarrow> plan_value" where
  "max_search_limit plan = or_default (PlanNumber 10) (plan_property PLAN_MAX_SEARCH_LIMIT plan)"

definition below_pro :: "string \<Rightarrow> bool" where
  "below_pro plan = (case plan_property PLAN_RANK plan of Some (PlanNumber n) \<Rightarrow> n < 2 | _ \<Rightarrow> False)"

section \<open>Candidates\<close>

record candidate_row =
  ca_id :: ident
  ca_email :: string
  ca_username :: string
  ca_createdAt :: time

record employer_db =
  ed_users :: "candidate_row list"
  ed_learning :: learning_db
  ed_hooks :: webhook_db

record employer_env =
  ev_now :: time
  ev_iso :: "time \<Rightarrow> string"
  ev_newId :: ident
  ev_private :: "string option"
  ev_details :: json
  ev_thrown :: string
  ev_down :: bool

definition getPrivateCandidateIds :: "employer_env \<Rightarrow> ident list" where
  "getPrivateCandidateIds env = filter (\<lambda>i. i \<noteq> []) (map trim (split_on (CHR '','') (or_default [] (ev_private env))))"

definition locationForCandidate :: "string \<Rightarrow> string" where
  "locationForCandidate email =
     (let loc = toLowerCase (takeWhile (\<lambda>c. c \<noteq> CHR ''@'') email) in
      if includes_str ''alice'' loc then ''lagos''
      else if includes_str ''bob'' loc then ''nairobi''
      else if includes_str ''carla'' loc then ''manila''
      else if includes_str ''deepak'' loc then ''mumbai''
      else ''remote'')"

definition completions_of :: "employer_db \<Rightarrow> ident \<Rightarrow> completion_row list" where
  "completions_of db u = filter (\<lambda>c. cm_userId c = u) (ln_completions (ed_learning db))"

definition credentials_of :: "employer_db \<Rightarrow> ident \<Rightarrow> credential_row list" where
  "credentials_of db u = sort_key (\<lambda>c. - cd_issuedAt c) (filter (\<lambda>c. cd_userId c = u) (ln_credentials (ed_learning db)))"

definition is_word_char :: "char \<Rightarrow> bool" where
  "is_word_char c \<longleftrightarrow> (CHR ''a'' \<le> c \<and> c \<le> CHR ''z'') \<or> is_digit c"

text \<open>The pieces between runs of other characters; empty ones are too short to count.\<close>

fun words_of :: "string \<Rightarrow> string list" where
  "words_of [] = [[]]"
| "words_of (c # cs) =
     (if is_word_char c then (case words_of cs of [] \<Rightarrow> [[c]] | w # ws \<Rightarrow> (c # w) # ws) else [] # words_of cs)"

definition module_skills :: "module_row \<Rightarrow> string list" where
  "module_skills m = toLowerCase (md_category m) # filter (\<lambda>w. 3 < length w) (words_of (toLowerCase (md_title m)))"

definition completion_skills :: "employer_db \<Rightarrow> completion_row \<Rightarrow> string list" where
  "completion_skills db c = (case find_module (cm_moduleId c) (ed_learning db) of None \<Rightarrow> [] | Some m \<Rightarrow> module_skills m)"

definition derivedSkills :: "employer_db \<Rightarrow> ident \<Rightarrow> string list" where
  "derivedSkills db u = sort (remdups (concat (map (completion_skills db) (completions_of db u))))"

text \<open>In hundredths.\<close>

definition average_score :: "completion_row list \<Rightarrow> int" where
  "average_score cs = (if cs = [] then 0
     else (200 * sum_list (map cm_score cs) + int (length cs)) div (2 * int (length cs)))"

definition has_chain_id :: "credential_row \<Rightarrow> bool" where
  "has_chain_id c = (case cd_onChainId c of None \<Rightarrow> False | Some x \<Rightarrow> x \<noteq> [])"

record candidate_profile =
  cp_id :: ident
  cp_name :: string
  cp_location :: string
  cp_joinedAt :: time
  cp_skills :: "string list"
  cp_completions :: nat
  cp_averageScore :: int
  cp_credentials :: "(credential_row \<times> module_row option \<times> bool) list"

definition profileFromCandidate :: "employer_db \<Rightarrow> candidate_row \<Rightarrow> candidate_profile" where
  "profileFromCandidate db u =
     \<lparr>cp_id = ca_id u, cp_name = ca_username u, cp_location = locationForCandidate (ca_email u), cp_joinedAt = ca_createdAt u,
      cp_skills = derivedSkills db (ca_id u), cp_completions = length (completions_of db (ca_id u)),
      cp_averageScore = average_score (completions_of db (ca_id u)),
      cp_credentials = map (\<lambda>c. (c, find_module (cd_moduleId c) (ed_learning db), has_chain_id c)) (credentials_of db (ca_id u))\<rparr>"

section \<open>Handlers\<close>

record search_item =
  si_id :: ident
  si_name :: string
  si_location :: string
  si_skills :: "string list"
  si_completions :: nat
  si_averageScore :: int
  si_verifiedCredentialCount :: nat

record search_page =
  sg_candidates :: "search_item list"
  sg_page :: int
  sg_limit :: int
  sg_total :: nat
  sg_totalPages :: nat
  sg_hasNext :: bool
  sg_hasPrev :: bool
  sg_params :: search_params
  sg_plan :: string

datatype employer_data =
    SearchPage search_page
  | LimitExceeded string int int
  | CandidateProfile candidate_profile
  | UpgradeRequired string
  | Outreach ident ident string time

type_synonym employer_reply = "thrown + employer_data reply"

definition isEmployer :: "auth_user option \<Rightarrow> bool" where
  "isEmployer user = (case user of None \<Rightarrow> False | Some u \<Rightarrow> au_role u = ''employer'')"

definition employer_required :: "employer_data reply" where
  "employer_required = ErrorReply 403 ''Employer account required''"

definition matches_search :: "string option \<Rightarrow> candidate_row \<Rightarrow> bool" where
  "matches_search search u = (case search of None \<Rightarrow> True
     | Some s \<Rightarrow> s = [] \<or> contains_insensitive s (ca_username u) \<or> contains_insensitive s (ca_email u))"

definition matches_credentials :: "string \<Rightarrow> credential_row list \<Rightarrow> bool" where
  "matches_credentials creds cs \<longleftrightarrow>
     (if creds = ''any'' then True else if creds = ''verified'' then list_ex has_chain_id cs else cs = [])"

definition shown_candidate :: "employer_env \<Rightarrow> ident \<Rightarrow> search_params \<Rightarrow> employer_db \<Rightarrow> candidate_row \<Rightarrow> bool" where
  "shown_candidate env employerId p db u \<longleftrightarrow>
     ca_id u \<noteq> employerId \<and> matches_search (sp_search p) u
     \<and> ca_id u \<notin> set (getPrivateCandidateIds env)
     \<and> completions_of db (ca_id u) \<noteq> []
     \<and> (case sp_location p of None \<Rightarrow> True | Some l \<Rightarrow> l = [] \<or> locationForCandidate (ca_email u) = l)
     \<and> matches_credentials (sp_credentials p) (credentials_of db (ca_id u))
     \<and> list_all (\<lambda>s. s \<in> set (derivedSkills db (ca_id u))) (sp_skills p)"

definition search_item_of :: "employer_db \<Rightarrow> candidate_row \<Rightarrow> search_item" where
  "search_item_of db u =
     (let profile = profileFromCandidate db u in
      \<lparr>si_id = cp_id profile, si_name = cp_name profile, si_location = cp_location profile, si_skills = cp_skills profile,
       si_completions = cp_completions profile, si_averageScore = cp_averageScore profile,
       si_verifiedCredentialCount = length (filter (\<lambda>(c, m, verified). verified) (cp_credentials profile))\<rparr>)"

definition found_candidates :: "employer_env \<Rightarrow> ident \<Rightarrow> search_params \<Rightarrow> employer_db \<Rightarrow> search_item list" where
  "found_candidates env employerId p db =
     map (search_item_of db) (filter (shown_candidate env employerId p db) (sort_key (\<lambda>u. - ca_createdAt u) (ed_users db)))"

definition search_page_of :: "search_params \<Rightarrow> string \<Rightarrow> search_item list \<Rightarrow> search_page" where
  "search_page_of p plan filtered =
     (let total = length filtered; offset = nat ((sp_page p - 1) * sp_limit p) in
      \<lparr>sg_candidates = take (nat (sp_limit p)) (drop offset filtered), sg_page = sp_page p, sg_limit = sp_limit p, sg_total = total,
       sg_totalPages = (total + nat (sp_limit p) - 1) div nat (sp_limit p),
       sg_hasNext = (sp_page p * sp_limit p < int total), sg_hasPrev = (1 < sp_page p), sg_params = p, sg_plan = plan\<rparr>)"

definition searchTalent ::
    "employer_env \<Rightarrow> auth_user option \<Rightarrow> string option \<Rightarrow> search_query \<Rightarrow> employer_db \<Rightarrow> employer_reply" where
  "searchTalent env user header query db =
     (case user of
        None \<Rightarrow> Inr employer_required
      | Some u \<Rightarrow>
          if \<not> isEmployer user then Inr employer_required
          else
            (case parse_search query of
               None \<Rightarrow> Inr (ErrorDetails 400 ''Invalid query parameters'' (ev_details env))
             | Some p \<Rightarrow>
                 (let plan = getEmployerPlan header; maxLimit = max_search_limit plan in
                  case maxLimit of
                    PlanNumber n \<Rightarrow>
                      if n < sp_limit p
                      then Inr (ErrorData 400 (''Current plan allows up to '' @ show_int n @ '' results per page'')
                             (LimitExceeded plan (sp_limit p) n))
                      else if ev_down env then Inl (OtherError (ev_thrown env))
                      else Inr (OkReply 200 None (SearchPage (search_page_of p plan (found_candidates env (au_id u) p db))))
                  | InheritedObject \<Rightarrow>
                      if ev_down env then Inl (OtherError (ev_thrown env))
                      else Inr (OkReply 200 None (SearchPage (search_page_of p plan (found_candidates env (au_id u) p db)))))))"

definition find_candidate :: "ident \<Rightarrow> employer_db \<Rightarrow> candidate_row option" where
  "find_candidate i db = List.find (\<lambda>u. ca_id u = i) (ed_users db)"

definition getCandidateProfile :: "employer_env \<Rightarrow> auth_user option \<Rightarrow> ident \<Rightarrow> employer_db \<Rightarrow> employer_reply" where
  "getCandidateProfile env user i db =
     (if \<not> isEmployer user then Inr employer_required
      else if i \<in> set (getPrivateCandidateIds env) then Inr (ErrorReply 403 ''Candidate profile is private'')
      else if ev_down env then Inl (OtherError (ev_thrown env))
      else
        (case find_candidate i db of
           None \<Rightarrow> Inr (ErrorReply 404 ''Candidate not found'')
         | Some u \<Rightarrow>
             if completions_of db i = [] then Inr (ErrorReply 404 ''Candidate not found'')
             else Inr (OkReply 200 None (CandidateProfile (profileFromCandidate db u)))))"

definition OUTREACH_LOG :: ident where
  "OUTREACH_LOG = ''system-employer-outreach-log''"

definition upsert_outreach_log :: "webhook_db \<Rightarrow> webhook_db" where
  "upsert_outreach_log wh =
     (let row = \<lparr>we_id = OUTREACH_LOG, we_url = ''https://internal.learnault/employer-outreach'', we_secret = None,
            we_events = ''employer.contact_attempt'',
            we_description = Some ''System log endpoint for employer candidate outreach attempts'', we_isActive = True\<rparr> in
      if list_ex (\<lambda>e. we_id e = OUTREACH_LOG) (wh_endpoints wh)
      then wh\<lparr>wh_endpoints := update_where (\<lambda>e. we_id e = OUTREACH_LOG) (\<lambda>e. row\<lparr>we_secret := we_secret e\<rparr>) (wh_endpoints wh)\<rparr>
      else wh\<lparr>wh_endpoints := wh_endpoints wh @ [row]\<rparr>)"

definition outreach_row :: "employer_env \<Rightarrow> ident \<Rightarrow> string \<Rightarrow> contact_body \<Rightarrow> webhook_delivery" where
  "outreach_row env employerId plan b =
     \<lparr>wd_id = ev_newId env, wd_endpointId = OUTREACH_LOG, wd_eventType = ''employer.contact_attempt'',
      wd_payload = json_stringify (JObj [(''employerId'', JStr employerId), (''employerPlan'', JStr plan),
        (''candidateId'', JStr (cb_candidateId b)), (''subject'', JStr (cb_subject b)), (''message'', JStr (cb_message b)),
        (''channel'', JStr (cb_channel b)), (''attemptedAt'', JStr (ev_iso env (ev_now env)))]),
      wd_status = HookSuccess, wd_statusCode = Some 201, wd_responseBody = Some ''recorded'', wd_error = None, wd_attemptCount = 1,
      wd_maxAttempts = 1, wd_nextAttemptAt = None, wd_lastAttemptAt = Some (ev_now env), wd_createdAt = ev_now env\<rparr>"

definition contactCandidate ::
    "employer_env \<Rightarrow> auth_user option \<Rightarrow> string option \<Rightarrow> json \<Rightarrow> employer_db \<Rightarrow> employer_reply \<times> employer_db" where
  "contactCandidate env user header body db =
     (case user of
        None \<Rightarrow> (Inr employer_required, db)
      | Some u \<Rightarrow>
          if \<not> isEmployer user then (Inr employer_required, db)
          else
            (let plan = getEmployerPlan header in
             if below_pro plan then (Inr (ErrorData 402 ''Employer plan upgrade required'' (UpgradeRequired plan)), db)
             else
               (case parse_contact body of
                  None \<Rightarrow> (Inr (ErrorDetails 400 ''Invalid request body'' (ev_details env)), db)
                | Some b \<Rightarrow>
                    if cb_candidateId b \<in> set (getPrivateCandidateIds env) then (Inr (ErrorReply 403 ''Candidate profile is private''), db)
                    else if ev_down env then (Inl (OtherError (ev_thrown env)), db)
                    else
                      (case find_candidate (cb_candidateId b) db of
                         None \<Rightarrow> (Inr (ErrorReply 404 ''Candidate not found''), db)
                       | Some c \<Rightarrow>
                           (let wh = upsert_outreach_log (ed_hooks db) in
                            (Inr (OkReply 201 (Some ''Candidate outreach recorded'')
                               (Outreach (ev_newId env) (ca_id c) (cb_channel b) (ev_now env))),
                             db\<lparr>ed_hooks := wh\<lparr>wh_deliveries := wh_deliveries wh @ [outreach_row env (au_id u) plan b]\<rparr>\<rparr>))))))"

end
