(* ===== verification/EmployerProps.thy ===== *)
theory EmployerProps
  imports Employer SyncProps
begin

text \<open>
  Properties of the talent search: who is never shown or contacted, that the pages of a search are a partition of what was found,
  and what a client can make of its plan.
\<close>

section \<open>Who is shown\<close>

lemma found_sound: "x \<in> set (found_candidates env employerId p db) \<Longrightarrow>
    \<exists>u\<in>set (ed_users db). shown_candidate env employerId p db u \<and> x = search_item_of db u"
  by (auto simp: found_candidates_def)

lemma search_item_id [simp]: "si_id (search_item_of db u) = ca_id u"
  by (simp add: search_item_of_def profileFromCandidate_def Let_def)

lemma search_ok:
  assumes "searchTalent env user header query db = Inr (OkReply n m (SearchPage page))"
  shows "\<exists>u p. user = Some u \<and> au_role u = ''employer'' \<and> parse_search query = Some p
    \<and> page = search_page_of p (getEmployerPlan header) (found_candidates env (au_id u) p db)"
  using assms
  by (auto simp: searchTalent_def isEmployer_def employer_required_def Let_def split: option.splits plan_value.splits if_splits)

lemma search_page_shown: "set (sg_candidates (search_page_of p plan xs)) \<subseteq> set xs"
  by (auto simp: search_page_of_def Let_def dest!: in_set_takeD in_set_dropD)

lemma only_employers:
  "\<not> isEmployer user \<Longrightarrow> searchTalent env user header query db = Inr employer_required
    \<and> getCandidateProfile env user i db = Inr employer_required \<and> contactCandidate env user header body db = (Inr employer_required, db)"
  by (cases user) (simp_all add: searchTalent_def getCandidateProfile_def contactCandidate_def)

text \<open>
  C26. A candidate who is on the list of private candidates is never shown: no page of a search has him, whatever the query and the plan, his
  profile is refused, and contacting him records nothing. The same holds of everybody for a caller who is no employer; and no search shows the caller, or somebody without completions.
\<close>

theorem private_candidates_hidden:
  assumes "i \<in> set (getPrivateCandidateIds env) \<or> \<not> isEmployer user"
  shows "(case searchTalent env user header query db of
       Inr (OkReply _ _ (SearchPage page)) \<Rightarrow>
         list_all (\<lambda>x. si_id x \<noteq> i \<and> Some (si_id x) \<noteq> map_option au_id user \<and> completions_of db (si_id x) \<noteq> []) (sg_candidates page)
     | _ \<Rightarrow> True)
   \<and> (\<exists>message. getCandidateProfile env user i db = Inr (ErrorReply 403 message))
   \<and> (\<forall>b. parse_contact body = Some b \<and> cb_candidateId b = i \<longrightarrow> snd (contactCandidate env user header body db) = db)"
proof (intro conjI)
  show "case searchTalent env user header query db of
       Inr (OkReply _ _ (SearchPage page)) \<Rightarrow>
         list_all (\<lambda>x. si_id x \<noteq> i \<and> Some (si_id x) \<noteq> map_option au_id user \<and> completions_of db (si_id x) \<noteq> []) (sg_candidates page)
     | _ \<Rightarrow> True"
  proof (cases "\<exists>n m page. searchTalent env user header query db = Inr (OkReply n m (SearchPage page))")
    case True
    then obtain n m page where ok: "searchTalent env user header query db = Inr (OkReply n m (SearchPage page))" by blast
    from search_ok [OF ok] obtain u p where u: "user = Some u" "isEmployer user"
      "page = search_page_of p (getEmployerPlan header) (found_candidates env (au_id u) p db)" by (auto simp: isEmployer_def)
    with assms have i: "i \<in> set (getPrivateCandidateIds env)" by blast
    have "set (sg_candidates page) \<subseteq> set (found_candidates env (au_id u) p db)" unfolding u(3) by (rule search_page_shown)
    with i u(1) show ?thesis unfolding ok by (auto simp: list_all_iff shown_candidate_def dest!: subsetD found_sound)
  next
    case False
    then show ?thesis by (auto split: sum.split reply.split employer_data.split)
  qed
  show "\<exists>message. getCandidateProfile env user i db = Inr (ErrorReply 403 message)"
    using assms by (auto simp: getCandidateProfile_def employer_required_def)
  show "\<forall>b. parse_contact body = Some b \<and> cb_candidateId b = i \<longrightarrow> snd (contactCandidate env user header body db) = db"
    using assms only_employers by (auto simp: contactCandidate_def Let_def split: option.split)
qed

section \<open>Pages\<close>

lemma below_ceiling:
  assumes "0 < (l :: nat)"
  shows "k * l < n \<longleftrightarrow> k < (n + l - 1) div l"
proof -
  have "Suc k \<le> (n + l - 1) div l \<longleftrightarrow> Suc k * l \<le> n + l - 1" using assms by (simp add: less_eq_div_iff_mult_less_eq)
  also have "\<dots> \<longleftrightarrow> k * l < n" using assms by auto
  finally show ?thesis by (simp add: Suc_le_eq)
qed

lemma ceiling_covers: "0 < (l :: nat) \<Longrightarrow> n \<le> (n + l - 1) div l * l"
  using below_ceiling [of l "(n + l - 1) div l" n] by simp

lemma parse_search_bounds:
  assumes "parse_search query = Some p"
  shows "1 \<le> sp_limit p \<and> sp_limit p \<le> 100 \<and> 1 \<le> sp_page p"
  using assms by (auto simp: parse_search_def bounded_number_def split: option.splits if_splits)

text \<open>
  The pages of a search are a partition of what was found. With a limit of at least one, the pages one to \<open>totalPages\<close> in order are exactly the candidates found,
  each page has at most \<open>limit\<close> of them, there is a next page exactly below \<open>totalPages\<close>, and no limit passes 100.
\<close>

theorem search_pages_partition:
  assumes "parse_search query = Some p"
  shows "concat (map (\<lambda>k. sg_candidates (search_page_of (p\<lparr>sp_page := int k + 1\<rparr>) plan xs)) [0..<sg_totalPages (search_page_of p plan xs)]) = xs
    \<and> length (sg_candidates (search_page_of p plan xs)) \<le> nat (sp_limit p) \<and> 1 \<le> sp_limit p \<and> sp_limit p \<le> 100
    \<and> (sg_hasNext (search_page_of p plan xs) \<longleftrightarrow> sp_page p < int (sg_totalPages (search_page_of p plan xs)))"
proof -
  let ?l = "nat (sp_limit p)" and ?n = "length xs"
  have l: "1 \<le> sp_limit p" "sp_limit p \<le> 100" "1 \<le> sp_page p" using parse_search_bounds [OF assms] by blast+
  let ?pages = "sg_totalPages (search_page_of p plan xs)"
  have pages: "?pages = (?n + ?l - 1) div ?l" by (simp add: search_page_of_def Let_def)
  have "sg_candidates (search_page_of (p\<lparr>sp_page := int k + 1\<rparr>) plan xs) = take ?l (drop (k * ?l) xs)" for k
    using l by (simp add: search_page_of_def Let_def nat_mult_distrib)
  moreover have "?n \<le> ?pages * ?l"
    unfolding pages using l(1) ceiling_covers [of ?l ?n] by simp
  ultimately have "concat (map (\<lambda>k. sg_candidates (search_page_of (p\<lparr>sp_page := int k + 1\<rparr>) plan xs)) [0..<?pages]) = xs"
    by (simp add: concat_pages)
  moreover have "sg_hasNext (search_page_of p plan xs) \<longleftrightarrow> sp_page p < int ?pages"
  proof -
    have "nat (sp_page p) * ?l < ?n \<longleftrightarrow> nat (sp_page p) < ?pages"
      unfolding pages using l(1) by (simp add: below_ceiling)
    moreover have "sp_page p * sp_limit p < int ?n \<longleftrightarrow> nat (sp_page p) * ?l < ?n"
    proof -
      have "int (nat (sp_page p) * ?l) = sp_page p * sp_limit p" using l by simp
      then show ?thesis by (metis of_nat_less_iff)
    qed
    moreover have "sp_page p < int ?pages \<longleftrightarrow> nat (sp_page p) < ?pages" using l(3) by (simp add: nat_less_iff)
    moreover have "sg_hasNext (search_page_of p plan xs) \<longleftrightarrow> sp_page p * sp_limit p < int ?n"
      by (simp add: search_page_of_def Let_def)
    ultimately show ?thesis by blast
  qed
  ultimately show ?thesis using l by (simp add: search_page_of_def Let_def)
qed

section \<open>Plans\<close>

lemma header_plans:
  "getEmployerPlan (Some ''constructor'') = ''constructor''" "getEmployerPlan (Some ''enterprise'') = ''enterprise''"
  "max_search_limit ''constructor'' = InheritedObject" "max_search_limit ''enterprise'' = PlanNumber 100"
  "\<not> below_pro ''constructor''" "\<not> below_pro ''enterprise''"
  by code_simp+

lemma search_within_plan:
  assumes "parse_search query = Some p" and "user = Some u" and "isEmployer user" and "\<not> ev_down env"
    and "case max_search_limit (getEmployerPlan header) of PlanNumber n \<Rightarrow> sp_limit p \<le> n | InheritedObject \<Rightarrow> True"
  shows "searchTalent env user header query db =
    Inr (OkReply 200 None (SearchPage (search_page_of p (getEmployerPlan header) (found_candidates env (au_id u) p db))))"
  using assms by (simp add: searchTalent_def Let_def split: plan_value.splits)

text \<open>
  The plan of an employer is whatever his request says. Under the header \<open>constructor\<close>, no plan at all, the tables give what they inherit
  from every object, so no limit of a plan applies to a search and the gate of paid contacts opens: each request is answered as under
  \<open>enterprise\<close>, but for the name of the plan.
\<close>

theorem inherited_plan_is_enterprise:
  assumes "parse_search query = Some p" and "isEmployer user" and "\<not> ev_down env"
  shows "(\<exists>page. searchTalent env user (Some ''constructor'') query db = Inr (OkReply 200 None (SearchPage page))
       \<and> searchTalent env user (Some ''enterprise'') query db = Inr (OkReply 200 None (SearchPage (page\<lparr>sg_plan := ''enterprise''\<rparr>))))
    \<and> fst (contactCandidate env user (Some ''constructor'') body db) = fst (contactCandidate env user (Some ''enterprise'') body db)
    \<and> length (wh_deliveries (ed_hooks (snd (contactCandidate env user (Some ''constructor'') body db)))) =
        length (wh_deliveries (ed_hooks (snd (contactCandidate env user (Some ''enterprise'') body db))))"
proof -
  obtain u where u: "user = Some u" using assms(2) by (auto simp: isEmployer_def split: option.splits)
  note search = search_within_plan [OF assms(1) u assms(2,3)]
  have "sp_limit p \<le> 100" using parse_search_bounds [OF assms(1)] by blast
  then have "searchTalent env user (Some ''enterprise'') query db =
      Inr (OkReply 200 None (SearchPage (search_page_of p ''enterprise'' (found_candidates env (au_id u) p db))))"
    using search [of "Some ''enterprise''" db] by (simp add: header_plans)
  moreover have "searchTalent env user (Some ''constructor'') query db =
      Inr (OkReply 200 None (SearchPage (search_page_of p ''constructor'' (found_candidates env (au_id u) p db))))"
    using search [of "Some ''constructor''" db] by (simp add: header_plans)
  moreover have "search_page_of p ''enterprise'' xs = (search_page_of p ''constructor'' xs)\<lparr>sg_plan := ''enterprise''\<rparr>" for xs
    by (simp add: search_page_of_def Let_def)
  moreover have "fst (contactCandidate env user (Some ''constructor'') body db) = fst (contactCandidate env user (Some ''enterprise'') body db)"
    and "length (wh_deliveries (ed_hooks (snd (contactCandidate env user (Some ''constructor'') body db)))) =
        length (wh_deliveries (ed_hooks (snd (contactCandidate env user (Some ''enterprise'') body db))))"
    using u assms(2) by (simp_all add: contactCandidate_def header_plans Let_def split: option.split)
  ultimately show ?thesis by simp
qed

section \<open>Witnesses\<close>

definition demo_candidates :: employer_db where
  "demo_candidates = \<lparr>ed_users = [\<lparr>ca_id = ''u'', ca_email = ''alice@b'', ca_username = ''Alice'', ca_createdAt = 0\<rparr>],
     ed_learning = sd_learning demo_sync_db\<lparr>ln_completions := [\<lparr>cm_id = ''k'', cm_userId = ''u'', cm_moduleId = ''m1'', cm_score = 80,
       cm_completedAt = 0, cm_createdAt = 0\<rparr>]\<rparr>,
     ed_hooks = \<lparr>wh_endpoints = [], wh_deliveries = []\<rparr>\<rparr>"

definition demo_employer_env :: employer_env where
  "demo_employer_env = \<lparr>ev_now = 7, ev_iso = show_int, ev_newId = ''w'', ev_private = Some ''x, u'', ev_details = JNull,
     ev_thrown = ''Invalid invocation'', ev_down = False\<rparr>"

abbreviation demo_employer :: "auth_user option" where
  "demo_employer \<equiv> Some \<lparr>au_id = ''e'', au_role = ''employer'', au_email = ''e@b''\<rparr>"

abbreviation demo_query :: search_query where
  "demo_query \<equiv> \<lparr>sq_page = None, sq_limit = Some ''100'', sq_skills = None, sq_location = None, sq_credentials = None, sq_search = None\<rparr>"

definition demo_search_params :: search_params where
  "demo_search_params = \<lparr>sp_page = 1, sp_limit = 100, sp_skills = [], sp_location = None, sp_credentials = ''any'', sp_search = None\<rparr>"

lemma demo_search_parsed: "parse_search demo_query = Some demo_search_params"
  by code_simp

lemma demo_is_employer: "isEmployer demo_employer" "\<not> ev_down demo_employer_env"
  by (simp_all add: isEmployer_def demo_employer_env_def)

theorem private_candidates_hidden_witness:
  "\<exists>message. getCandidateProfile demo_employer_env demo_employer ''u'' demo_candidates = Inr (ErrorReply 403 message)"
proof -
  have "''u'' \<in> set (getPrivateCandidateIds demo_employer_env) \<or> \<not> isEmployer demo_employer" by code_simp
  from private_candidates_hidden [OF this] show ?thesis by blast
qed

theorem search_pages_partition_witness:
  "length (sg_candidates (search_page_of demo_search_params ''starter'' [])) \<le> 100"
proof -
  from search_pages_partition [OF demo_search_parsed]
  have "length (sg_candidates (search_page_of demo_search_params ''starter'' [])) \<le> nat (sp_limit demo_search_params)" by blast
  then show ?thesis by (simp add: demo_search_params_def)
qed

theorem inherited_plan_is_enterprise_witness:
  "\<exists>page. searchTalent demo_employer_env demo_employer (Some ''constructor'') demo_query demo_candidates = Inr (OkReply 200 None (SearchPage page))"
  using inherited_plan_is_enterprise [OF demo_search_parsed demo_is_employer] by blast

end
