(* ===== verification/ImageBytes.thy ===== *)
theory ImageBytes
  imports Stellar Redaction "HOL-Library.Word"
begin

text \<open>
  What the server makes of the bytes of an uploaded image: \<open>extractImageDimensions\<close> and \<open>sniffMimeType\<close> of
  \<open>src/src/services/storage/in-memory-storage.ts\<close>, \<open>validateAvatarBytes\<close> of \<open>asset-validation.service.ts\<close> and the constraints
  of \<open>types/avatar.types.ts\<close>. A buffer is a list of bytes; the parser of JPEG segments is total because every step moves ahead.
\<close>

unbundle bit_operations_syntax

type_synonym bytes = "8 word list"

section \<open>Constraints\<close>

definition AVATAR_MAX_BYTES :: nat where "AVATAR_MAX_BYTES = 5 * 1024 * 1024"

definition AVATAR_MIN_BYTES :: nat where "AVATAR_MIN_BYTES = 1 * 1024"

definition AVATAR_ALLOWED_MIME_TYPES :: "string list" where
  "AVATAR_ALLOWED_MIME_TYPES = [''image/jpeg'', ''image/png'', ''image/webp'', ''image/gif'']"

section \<open>Reading a buffer\<close>

definition subarray :: "nat \<Rightarrow> nat \<Rightarrow> bytes \<Rightarrow> bytes" where
  "subarray i j data = take (j - i) (drop i data)"

definition ascii :: "string \<Rightarrow> bytes" where
  "ascii s = map (\<lambda>c. word_of_nat (of_char c)) s"

definition readUInt16BE :: "bytes \<Rightarrow> nat \<Rightarrow> nat" where
  "readUInt16BE data i = 256 * unat (data ! i) + unat (data ! (i + 1))"

definition readUInt16LE :: "bytes \<Rightarrow> nat \<Rightarrow> nat" where
  "readUInt16LE data i = unat (data ! i) + 256 * unat (data ! (i + 1))"

definition readUInt32BE :: "bytes \<Rightarrow> nat \<Rightarrow> nat" where
  "readUInt32BE data i = 65536 * readUInt16BE data i + readUInt16BE data (i + 2)"

definition readUInt32LE :: "bytes \<Rightarrow> nat \<Rightarrow> nat" where
  "readUInt32LE data i = readUInt16LE data i + 65536 * readUInt16LE data (i + 2)"

section \<open>Dimensions\<close>

type_synonym dimensions = "nat \<times> nat"

definition PNG_IHDR_SIGNATURE :: bytes where
  "PNG_IHDR_SIGNATURE = [0x89, 0x50, 0x4e, 0x47, 0x0d, 0x0a, 0x1a, 0x0a]"

definition is_start_of_frame :: "8 word \<Rightarrow> bool" where
  "is_start_of_frame marker \<longleftrightarrow> (0xc0 \<le> marker \<and> marker \<le> 0xc3) \<or> (0xc5 \<le> marker \<and> marker \<le> 0xc7)
     \<or> (0xc9 \<le> marker \<and> marker \<le> 0xcb) \<or> (0xcd \<le> marker \<and> marker \<le> 0xcf)"

function jpeg_from :: "bytes \<Rightarrow> nat \<Rightarrow> dimensions option" where
  "jpeg_from data offset =
     (if length data \<le> offset + 1 then None
      else if data ! offset \<noteq> 0xff then None
      else
        (let marker = data ! (offset + 1) in
         if is_start_of_frame marker
         then (if length data \<le> offset + 9 then None
               else Some (readUInt16BE data (offset + 7), readUInt16BE data (offset + 5)))
         else if marker = 0xda then None
         else if marker = 0xd9 then None
         else if marker = 0x00 then jpeg_from data (offset + 1)
         else if length data \<le> offset + 3 then None
         else jpeg_from data (offset + 2 + readUInt16BE data (offset + 2))))"
  by pat_completeness auto

termination
  by (relation "measure (\<lambda>(data, offset). length data - offset)") auto

declare jpeg_from.simps [simp del]

definition parseJpegDimensions :: "bytes \<Rightarrow> dimensions option" where
  "parseJpegDimensions data = jpeg_from data 2"

definition fourteen_bits :: "32 word \<Rightarrow> nat" where
  "fourteen_bits w = unat (w AND 0x3fff)"

definition parseWebpDimensions :: "bytes \<Rightarrow> dimensions option" where
  "parseWebpDimensions data =
     (if subarray 12 16 data = ascii ''VP8 '' then
        (if length data < 30 then None
         else Some (fourteen_bits (word_of_nat (readUInt16LE data 26)) + 1, fourteen_bits (word_of_nat (readUInt16LE data 28)) + 1))
      else if subarray 12 16 data = ascii ''VP8L'' then
        (if length data < 25 then None
         else (let bits = word_of_nat (readUInt32LE data 21) in
               Some (fourteen_bits bits + 1, fourteen_bits (signed_drop_bit 14 bits) + 1)))
      else if subarray 12 16 data = ascii ''VP8X'' then
        (if length data < 30 then None
         else Some (readUInt32LE data 20 + 1, readUInt32LE data 24 + 1))
      else None)"

definition extractImageDimensions :: "bytes \<Rightarrow> dimensions option" where
  "extractImageDimensions data =
     (if length data < 24 then None
      else if subarray 0 8 data = PNG_IHDR_SIGNATURE then Some (readUInt32BE data 16, readUInt32BE data 20)
      else if subarray 0 6 data = ascii ''GIF87a'' \<or> subarray 0 6 data = ascii ''GIF89a''
      then Some (readUInt16LE data 6, readUInt16LE data 8)
      else if subarray 0 2 data = [0xff, 0xd8] then parseJpegDimensions data
      else if subarray 0 4 data = ascii ''RIFF'' \<and> subarray 8 12 data = ascii ''WEBP'' then parseWebpDimensions data
      else None)"

section \<open>The type of a file\<close>

definition MIME_SIGNATURES :: "(bytes \<times> string) list" where
  "MIME_SIGNATURES =
     [([0x89, 0x50, 0x4e, 0x47, 0x0d, 0x0a, 0x1a, 0x0a], ''image/png''),
      ([0xff, 0xd8, 0xff], ''image/jpeg''),
      ([0x47, 0x49, 0x46, 0x38], ''image/gif''),
      ([0x52, 0x49, 0x46, 0x46], ''image/webp'')]"

definition sniffMimeType :: "bytes \<Rightarrow> string option" where
  "sniffMimeType data =
     map_option snd (List.find (\<lambda>(sig, mime). length sig \<le> length data \<and> list_all (\<lambda>i. data ! i = sig ! i) [0..<length sig]) MIME_SIGNATURES)"

text \<open>\<open>contentType.split(';')[0].trim().toLowerCase()\<close>\<close>

definition normalised_mime :: "string \<Rightarrow> string" where
  "normalised_mime s = toLowerCase (trim (takeWhile (\<lambda>c. c \<noteq> CHR '';'') s))"

section \<open>Validation\<close>

record validation_result =
  vr_ok :: bool
  vr_detectedMime :: "string option"
  vr_dimensions :: "dimensions option"
  vr_error :: "string option"

definition rejected_bytes :: "string option \<Rightarrow> string \<Rightarrow> validation_result" where
  "rejected_bytes mime e = \<lparr>vr_ok = False, vr_detectedMime = mime, vr_dimensions = None, vr_error = Some e\<rparr>"

definition validateAvatarBytes :: "bytes \<Rightarrow> string \<Rightarrow> nat option \<Rightarrow> validation_result" where
  "validateAvatarBytes data declaredContentType sizeBytes =
     (let actualSize = (case sizeBytes of None \<Rightarrow> length data | Some n \<Rightarrow> n) in
      if actualSize < AVATAR_MIN_BYTES then rejected_bytes None ''File too small (minimum 1 KB)''
      else if AVATAR_MAX_BYTES < actualSize then rejected_bytes None ''File too large (maximum 5 MB)''
      else if AVATAR_MAX_BYTES < length data then rejected_bytes None ''File too large (maximum 5 MB)''
      else
        (case sniffMimeType data of
           None \<Rightarrow> rejected_bytes None ''Unrecognised image format''
         | Some detected \<Rightarrow>
             if detected \<notin> set AVATAR_ALLOWED_MIME_TYPES then rejected_bytes (Some detected) (''Unsupported image type: '' @ detected)
             else if normalised_mime declaredContentType \<noteq> detected
             then rejected_bytes (Some detected) (''MIME mismatch: declared '' @ [CHR 0x22] @ declaredContentType @ [CHR 0x22]
                    @ '' but file is '' @ [CHR 0x22] @ detected @ [CHR 0x22])
             else \<lparr>vr_ok = True, vr_detectedMime = Some detected, vr_dimensions = extractImageDimensions data, vr_error = None\<rparr>))"

end
