(* ===== verification/Avatars.thy ===== *)
theory Avatars
  imports ImageBytes Http
begin

text \<open>
  Avatars: \<open>src/src/services/avatar.service.ts\<close> over its tables and the in-memory object store
  (\<open>services/storage/in-memory-storage.ts\<close>), and the routes of \<open>controllers/avatar.controller.ts\<close>.

  \<open>finalize\<close> is also given as its two halves, the checks and the promotion, which interleave with other requests.
  Fresh identifiers, the clock, \<open>toISOString\<close>, the SHA-256 digest and the messages of a failed validation are arguments; \<open>ae_fails\<close> names the statements
  of the database that throw. A statement also throws when a number does not fit its column.
\<close>

section \<open>Tables and objects\<close>

datatype avatar_status = AvPending | AvProcessing | AvActive | AvFailed

fun avatar_status_text :: "avatar_status \<Rightarrow> string" where
  "avatar_status_text AvPending = ''PENDING''"
| "avatar_status_text AvProcessing = ''PROCESSING''"
| "avatar_status_text AvActive = ''ACTIVE''"
| "avatar_status_text AvFailed = ''FAILED''"

record avatar_row =
  av_id :: ident
  av_userId :: ident
  av_storageKey :: string
  av_originalName :: "string option"
  av_contentType :: string
  av_detectedMime :: "string option"
  av_originalBytes :: nat
  av_status :: avatar_status
  av_scanResult :: "string option"
  av_scanReason :: "string option"
  av_width :: "nat option"
  av_height :: "nat option"
  av_variantCount :: nat
  av_createdAt :: time
  av_finalizedAt :: "time option"
  av_replacedAt :: "time option"
  av_replacedById :: "ident option"
  av_archivedAt :: "time option"

record variant_row =
  va_avatarId :: ident
  va_label :: string
  va_storageKey :: string
  va_bytes :: nat
  va_width :: "nat option"
  va_height :: "nat option"

text \<open>The profiles as far as they carry an avatar, and the objects by their key.\<close>

record avatar_db =
  ad_avatars :: "avatar_row list"
  ad_variants :: "variant_row list"
  ad_profiles :: "ident \<Rightarrow> string option option"
  ad_objects :: "string \<Rightarrow> bytes option"

record avatar_env =
  ae_now :: time
  ae_newId :: ident
  ae_iso :: "time \<Rightarrow> string"
  ae_sha256 :: "bytes \<Rightarrow> string"
  ae_details :: json
  ae_fails :: "string \<Rightarrow> bool"

datatype avatar_error = AvatarRejected nat string | AvatarThrown

type_synonym 'a avatar_outcome = "(avatar_error + 'a) \<times> avatar_db"

section \<open>The object store\<close>

definition AVATAR_INTENT_TTL_MS :: time where "AVATAR_INTENT_TTL_MS = 15 * 60 * 1000"

definition createSignedUpload :: "avatar_env \<Rightarrow> string \<Rightarrow> time \<Rightarrow> string \<times> string \<times> time" where
  "createSignedUpload env key expiresMs = (''data:placeholder/'' @ key, key, ae_now env + expiresMs)"

definition readBytes :: "string \<Rightarrow> avatar_db \<Rightarrow> bytes option" where
  "readBytes key db = ad_objects db key"

definition writeBytes :: "string \<Rightarrow> bytes \<Rightarrow> avatar_db \<Rightarrow> avatar_db" where
  "writeBytes key data db = db\<lparr>ad_objects := (ad_objects db)(key := Some data)\<rparr>"

definition deleteObject :: "string \<Rightarrow> avatar_db \<Rightarrow> avatar_db" where
  "deleteObject key db = db\<lparr>ad_objects := (ad_objects db)(key := None)\<rparr>"

definition getServingUrl :: "string \<Rightarrow> string" where
  "getServingUrl key = ''/storage/'' @ key"

section \<open>Upload intents\<close>

record upload_intent =
  ui_uploadKey :: string
  ui_uploadUrl :: string
  ui_expiresAt :: string

definition safe_char :: "char \<Rightarrow> bool" where
  "safe_char c \<longleftrightarrow> in_range (CHR ''a'') (CHR ''z'') c \<or> in_range (CHR ''A'') (CHR ''Z'') c \<or> is_digit c
     \<or> c = CHR ''.'' \<or> c = CHR ''_'' \<or> c = CHR ''-''"

definition safeName :: "string option \<Rightarrow> string" where
  "safeName originalName = take 80 (map (\<lambda>c. if safe_char c then c else CHR ''_'') (or_default ''avatar'' originalName))"

definition user_prefix :: "ident \<Rightarrow> string" where
  "user_prefix userId = ''avatars/'' @ userId @ ''/''"

definition avatar_key :: "ident \<Rightarrow> ident \<Rightarrow> string \<Rightarrow> string" where
  "avatar_key userId i name = user_prefix userId @ i @ ''/'' @ name"

definition find_avatar :: "ident \<Rightarrow> avatar_db \<Rightarrow> avatar_row option" where
  "find_avatar i db = List.find (\<lambda>a. av_id a = i) (ad_avatars db)"

definition pending_avatar :: "avatar_env \<Rightarrow> ident \<Rightarrow> string \<Rightarrow> string option \<Rightarrow> string \<Rightarrow> nat option \<Rightarrow> avatar_row" where
  "pending_avatar env userId key originalName mime sizeBytes =
     \<lparr>av_id = ae_newId env, av_userId = userId, av_storageKey = key, av_originalName = originalName, av_contentType = mime,
      av_detectedMime = None, av_originalBytes = or_default 0 sizeBytes, av_status = AvPending, av_scanResult = None,
      av_scanReason = None, av_width = None, av_height = None, av_variantCount = 0, av_createdAt = ae_now env,
      av_finalizedAt = None, av_replacedAt = None, av_replacedById = None, av_archivedAt = None\<rparr>"

definition avatar_createUploadIntent ::
    "avatar_env \<Rightarrow> ident \<Rightarrow> string \<Rightarrow> string option \<Rightarrow> nat option \<Rightarrow> avatar_db \<Rightarrow> upload_intent avatar_outcome" where
  "avatar_createUploadIntent env userId contentType originalName sizeBytes db =
     (let mime = normalised_mime contentType in
      if mime \<notin> set AVATAR_ALLOWED_MIME_TYPES then (Inl (AvatarRejected 400 (''Unsupported content type: '' @ contentType)), db)
      else if (case sizeBytes of None \<Rightarrow> False | Some n \<Rightarrow> AVATAR_MAX_BYTES < n)
      then (Inl (AvatarRejected 400 ''File too large (maximum 5 MB)''), db)
      else
        (let key = avatar_key userId (ae_newId env) (safeName originalName);
             (url, storageKey, expiresAt) = createSignedUpload env key AVATAR_INTENT_TTL_MS in
         if ae_fails env ''avatar.create'' \<or> find_avatar (ae_newId env) db \<noteq> None then (Inl AvatarThrown, db)
         else (Inr \<lparr>ui_uploadKey = storageKey, ui_uploadUrl = url, ui_expiresAt = ae_iso env expiresAt\<rparr>,
               db\<lparr>ad_avatars := ad_avatars db @ [pending_avatar env userId storageKey originalName mime sizeBytes]\<rparr>)))"

section \<open>Finalizing an upload\<close>

definition VARIANT_SPECS :: "(string \<times> string) list" where
  "VARIANT_SPECS = [(''original'', ''''), (''thumb'', ''_thumb''), (''medium'', ''_medium'')]"

definition update_avatar :: "ident \<Rightarrow> (avatar_row \<Rightarrow> avatar_row) \<Rightarrow> avatar_db \<Rightarrow> avatar_db" where
  "update_avatar i f db = db\<lparr>ad_avatars := update_where (\<lambda>a. av_id a = i) f (ad_avatars db)\<rparr>"

text \<open>The row is marked as failed, then the request is rejected.\<close>

definition fail_upload :: "avatar_env \<Rightarrow> ident \<Rightarrow> string \<Rightarrow> string \<Rightarrow> avatar_db \<Rightarrow> 'a avatar_outcome" where
  "fail_upload env i reason message db =
     (if ae_fails env ''avatar.update'' \<or> find_avatar i db = None then (Inl AvatarThrown, db)
      else (Inl (AvatarRejected 422 message),
            update_avatar i (\<lambda>a. a\<lparr>av_status := AvFailed, av_scanResult := Some ''rejected'', av_scanReason := Some reason\<rparr>) db))"

record checked_upload =
  ck_avatar :: avatar_row
  ck_data :: bytes
  ck_validation :: validation_result

definition finalize_check :: "avatar_env \<Rightarrow> ident \<Rightarrow> string \<Rightarrow> string option \<Rightarrow> avatar_db \<Rightarrow> checked_upload avatar_outcome" where
  "finalize_check env userId uploadKey sha256 db =
     (case drop 2 (split_on (CHR ''/'') uploadKey) of
        [] \<Rightarrow> (Inl AvatarThrown, db)
      | i # _ \<Rightarrow>
          if ae_fails env ''avatar.findUnique'' then (Inl AvatarThrown, db)
          else
            (case find_avatar i db of
               None \<Rightarrow> (Inl (AvatarRejected 404 ''Upload not found''), db)
             | Some avatar \<Rightarrow>
                 if av_userId avatar \<noteq> userId then (Inl (AvatarRejected 403 ''Forbidden''), db)
                 else if av_status avatar \<noteq> AvPending
                 then (Inl (AvatarRejected 409 (''Avatar is already '' @ avatar_status_text (av_status avatar))), db)
                 else
                   (case readBytes (av_storageKey avatar) db of
                      None \<Rightarrow> (Inl AvatarThrown, db)
                    | Some data \<Rightarrow>
                        if (case sha256 of None \<Rightarrow> False | Some h \<Rightarrow> h \<noteq> [] \<and> ae_sha256 env data \<noteq> h)
                        then fail_upload env (av_id avatar) ''Integrity check failed (SHA-256 mismatch)'' ''Integrity check failed'' db
                        else
                          (let v = validateAvatarBytes data (av_contentType avatar)
                                 (if av_originalBytes avatar = 0 then None else Some (av_originalBytes avatar));
                               e = or_default ''Validation failed'' (vr_error v)
                           in if \<not> vr_ok v then fail_upload env (av_id avatar) e e db
                              else (Inr \<lparr>ck_avatar = avatar, ck_data = data, ck_validation = v\<rparr>, db)))))"

definition write_variants :: "string \<Rightarrow> bytes \<Rightarrow> avatar_db \<Rightarrow> avatar_db" where
  "write_variants key data db = foldl (\<lambda>db spec. writeBytes (key @ snd spec) data db) db VARIANT_SPECS"

definition variant_rows :: "checked_upload \<Rightarrow> variant_row list" where
  "variant_rows c = map (\<lambda>(label, suffix). \<lparr>va_avatarId = av_id (ck_avatar c), va_label = label,
     va_storageKey = av_storageKey (ck_avatar c) @ suffix, va_bytes = length (ck_data c),
     va_width = map_option fst (vr_dimensions (ck_validation c)), va_height = map_option snd (vr_dimensions (ck_validation c))\<rparr>) VARIANT_SPECS"

definition fits_column :: "nat option \<Rightarrow> bool" where
  "fits_column v = (case v of None \<Rightarrow> True | Some n \<Rightarrow> n < 2 ^ 31)"

definition retire_active :: "time \<Rightarrow> ident \<Rightarrow> ident \<Rightarrow> avatar_db \<Rightarrow> avatar_db" where
  "retire_active now userId i db = db\<lparr>ad_avatars := update_where (\<lambda>a. av_userId a = userId \<and> av_status a = AvActive)
     (\<lambda>a. a\<lparr>av_status := AvPending, av_replacedAt := Some now, av_replacedById := Some i\<rparr>) (ad_avatars db)\<rparr>"

definition activate :: "time \<Rightarrow> checked_upload \<Rightarrow> avatar_db \<Rightarrow> avatar_db" where
  "activate now c = update_avatar (av_id (ck_avatar c)) (\<lambda>a. a\<lparr>av_status := AvActive,
     av_detectedMime := vr_detectedMime (ck_validation c), av_width := map_option fst (vr_dimensions (ck_validation c)),
     av_height := map_option snd (vr_dimensions (ck_validation c)), av_variantCount := length VARIANT_SPECS,
     av_finalizedAt := Some now\<rparr>)"

text \<open>The transaction; \<open>None\<close> when one of its statements throws, and then it is rolled back.\<close>

definition promote :: "avatar_env \<Rightarrow> ident \<Rightarrow> checked_upload \<Rightarrow> avatar_db \<Rightarrow> avatar_db option" where
  "promote env userId c db =
     (if ae_fails env ''$transaction'' \<or> find_avatar (av_id (ck_avatar c)) db = None
         \<or> \<not> fits_column (map_option fst (vr_dimensions (ck_validation c)))
         \<or> \<not> fits_column (map_option snd (vr_dimensions (ck_validation c))) then None
      else
        (let db1 = activate (ae_now env) c (retire_active (ae_now env) userId (av_id (ck_avatar c)) db) in
         Some (db1\<lparr>ad_variants := ad_variants db1 @ variant_rows c\<rparr>)))"

definition retired_by :: "ident \<Rightarrow> ident \<Rightarrow> avatar_db \<Rightarrow> avatar_row list" where
  "retired_by userId i db = filter (\<lambda>a. av_userId a = userId \<and> av_status a = AvPending \<and> av_replacedById a = Some i
     \<and> av_archivedAt a = None) (ad_avatars db)"

definition delete_objects :: "string list \<Rightarrow> avatar_db \<Rightarrow> avatar_db" where
  "delete_objects keys db = foldl (\<lambda>db k. deleteObject k db) db keys"

record finalized_avatar =
  fz_id :: ident
  fz_variantCount :: nat
  fz_width :: "nat option"
  fz_height :: "nat option"
  fz_createdAt :: string

definition finalize_commit :: "avatar_env \<Rightarrow> ident \<Rightarrow> checked_upload \<Rightarrow> avatar_db \<Rightarrow> finalized_avatar avatar_outcome" where
  "finalize_commit env userId c db =
     (let avatar = ck_avatar c; db1 = write_variants (av_storageKey avatar) (ck_data c) db in
      case promote env userId c db1 of
        None \<Rightarrow> (Inl AvatarThrown, db1)
      | Some db2 \<Rightarrow>
          if ae_fails env ''learnerProfile.upsert'' then (Inl AvatarThrown, db2)
          else
            (let db3 = db2\<lparr>ad_profiles := (ad_profiles db2)(userId := Some (Some (getServingUrl (av_storageKey avatar))))\<rparr> in
             if ae_fails env ''avatar.findMany'' then (Inl AvatarThrown, db3)
             else (Inr \<lparr>fz_id = av_id avatar, fz_variantCount = length VARIANT_SPECS,
                     fz_width = map_option fst (vr_dimensions (ck_validation c)),
                     fz_height = map_option snd (vr_dimensions (ck_validation c)), fz_createdAt = ae_iso env (av_createdAt avatar)\<rparr>,
                   delete_objects (map av_storageKey (retired_by userId (av_id avatar) db3)) db3)))"

definition avatar_finalize :: "avatar_env \<Rightarrow> ident \<Rightarrow> string \<Rightarrow> string option \<Rightarrow> avatar_db \<Rightarrow> finalized_avatar avatar_outcome" where
  "avatar_finalize env userId uploadKey sha256 db =
     (case finalize_check env userId uploadKey sha256 db of
        (Inl e, db1) \<Rightarrow> (Inl e, db1)
      | (Inr c, db1) \<Rightarrow> finalize_commit env userId c db1)"

section \<open>The current avatar\<close>

definition is_current :: "ident \<Rightarrow> avatar_row \<Rightarrow> bool" where
  "is_current userId a \<longleftrightarrow> av_userId a = userId \<and> av_status a = AvActive \<and> av_archivedAt a = None"

definition variants_of :: "ident \<Rightarrow> avatar_db \<Rightarrow> variant_row list" where
  "variants_of i db = filter (\<lambda>v. va_avatarId v = i) (ad_variants db)"

text \<open>The row is deleted with its variants, and the rows it replaced forget it.\<close>

definition remove_avatar :: "ident \<Rightarrow> ident \<Rightarrow> avatar_db \<Rightarrow> avatar_db" where
  "remove_avatar userId i db = db\<lparr>
     ad_avatars := update_where (\<lambda>a. av_replacedById a = Some i) (\<lambda>a. a\<lparr>av_replacedById := None\<rparr>)
       (delete_where (\<lambda>a. av_id a = i) (ad_avatars db)),
     ad_variants := delete_where (\<lambda>v. va_avatarId v = i) (ad_variants db),
     ad_profiles := (ad_profiles db)(userId := map_option (\<lambda>_. None) (ad_profiles db userId))\<rparr>"

definition avatar_delete :: "avatar_env \<Rightarrow> ident \<Rightarrow> avatar_db \<Rightarrow> unit avatar_outcome" where
  "avatar_delete env userId db =
     (if ae_fails env ''avatar.findFirst'' then (Inl AvatarThrown, db)
      else
        (case List.find (is_current userId) (ad_avatars db) of
           None \<Rightarrow> (Inl (AvatarRejected 404 ''No active avatar to delete''), db)
         | Some avatar \<Rightarrow>
             if ae_fails env ''avatarVariant.findMany'' then (Inl AvatarThrown, db)
             else
               (let db1 = delete_objects (map va_storageKey (variants_of (av_id avatar) db) @ [av_storageKey avatar]) db in
                if ae_fails env ''$transaction'' \<or> find_avatar (av_id avatar) db1 = None then (Inl AvatarThrown, db1)
                else (Inr (), remove_avatar userId (av_id avatar) db1))))"

record current_avatar =
  ua_id :: ident
  ua_variants :: "(string \<times> string \<times> nat option \<times> nat option) list"
  ua_createdAt :: string

definition avatar_current :: "avatar_env \<Rightarrow> ident \<Rightarrow> avatar_db \<Rightarrow> avatar_error + current_avatar option" where
  "avatar_current env userId db =
     (if ae_fails env ''avatar.findFirst'' then Inl AvatarThrown
      else Inr (map_option (\<lambda>a. \<lparr>ua_id = av_id a,
             ua_variants = map (\<lambda>v. (va_label v, getServingUrl (va_storageKey v), va_width v, va_height v)) (variants_of (av_id a) db),
             ua_createdAt = ae_iso env (av_createdAt a)\<rparr>)
           (List.find (is_current userId) (ad_avatars db))))"

section \<open>Routes\<close>

datatype avatar_data = IntentData upload_intent | FinalizedData finalized_avatar | CurrentData "current_avatar option"

type_synonym avatar_reply = "avatar_data reply"

definition only_keys :: "string list \<Rightarrow> json \<Rightarrow> bool" where
  "only_keys ks body = (case body of JObj fs \<Rightarrow> list_all (\<lambda>(k, v). k \<in> set ks) fs | _ \<Rightarrow> False)"

text \<open>Optional fields: \<open>None\<close> when they are there but wrong.\<close>

definition parse_name :: "json option \<Rightarrow> string option option" where
  "parse_name v = (case v of None \<Rightarrow> Some None | Some (JStr s) \<Rightarrow> if length s \<le> 200 then Some (Some s) else None | _ \<Rightarrow> None)"

definition parse_size :: "json option \<Rightarrow> nat option option" where
  "parse_size v = (case v of None \<Rightarrow> Some None
     | Some (JNum n) \<Rightarrow> if 0 < n \<and> n \<le> int AVATAR_MAX_BYTES then Some (Some (nat n)) else None | _ \<Rightarrow> None)"

definition parse_intent :: "json \<Rightarrow> (string \<times> string option \<times> nat option) option" where
  "parse_intent body =
     (if \<not> only_keys [''contentType'', ''originalName'', ''sizeBytes''] body then None
      else
        (case (json_field body ''contentType'', parse_name (json_field body ''originalName''), parse_size (json_field body ''sizeBytes'')) of
           (Some (JStr t), Some name, Some n) \<Rightarrow> if t = [] then None else Some (t, name, n)
         | _ \<Rightarrow> None))"

definition is_hex_char :: "char \<Rightarrow> bool" where
  "is_hex_char c \<longleftrightarrow> is_digit c \<or> in_range (CHR ''a'') (CHR ''f'') c \<or> in_range (CHR ''A'') (CHR ''F'') c"

definition parse_finalize :: "json \<Rightarrow> (string \<times> string option) option" where
  "parse_finalize body =
     (if \<not> only_keys [''uploadKey'', ''sha256''] body then None
      else
        (case (json_field body ''uploadKey'', json_field body ''sha256'') of
           (Some (JStr k), None) \<Rightarrow> if k = [] then None else Some (k, None)
         | (Some (JStr k), Some (JStr h)) \<Rightarrow>
             if k = [] \<or> length h \<noteq> 64 \<or> \<not> list_all is_hex_char h then None else Some (k, Some h)
         | _ \<Rightarrow> None))"

definition avatar_answer :: "nat \<Rightarrow> ('a \<Rightarrow> avatar_data) \<Rightarrow> 'a avatar_outcome \<Rightarrow> avatar_reply \<times> avatar_db" where
  "avatar_answer status wrap outcome =
     (case outcome of
        (Inl (AvatarRejected n message), db) \<Rightarrow> (ErrorReply n message, db)
      | (Inl AvatarThrown, db) \<Rightarrow> (internal_error, db)
      | (Inr a, db) \<Rightarrow> (OkReply status None (wrap a), db))"

definition createUploadIntent_route :: "avatar_env \<Rightarrow> auth_user option \<Rightarrow> json \<Rightarrow> avatar_db \<Rightarrow> avatar_reply \<times> avatar_db" where
  "createUploadIntent_route env user body db =
     authenticated user db (\<lambda>userId.
       case parse_intent body of
         None \<Rightarrow> (validation_failed (ae_details env), db)
       | Some (contentType, originalName, sizeBytes) \<Rightarrow>
           avatar_answer 201 IntentData (avatar_createUploadIntent env userId contentType originalName sizeBytes db))"

definition finalize_route :: "avatar_env \<Rightarrow> auth_user option \<Rightarrow> json \<Rightarrow> avatar_db \<Rightarrow> avatar_reply \<times> avatar_db" where
  "finalize_route env user body db =
     authenticated user db (\<lambda>userId.
       case parse_finalize body of
         None \<Rightarrow> (validation_failed (ae_details env), db)
       | Some (uploadKey, sha256) \<Rightarrow> avatar_answer 200 FinalizedData (avatar_finalize env userId uploadKey sha256 db))"

definition deleteAvatar_route :: "avatar_env \<Rightarrow> auth_user option \<Rightarrow> avatar_db \<Rightarrow> avatar_reply \<times> avatar_db" where
  "deleteAvatar_route env user db =
     authenticated user db (\<lambda>userId.
       case avatar_delete env userId db of
         (Inl (AvatarRejected n message), db1) \<Rightarrow> (ErrorReply n message, db1)
       | (Inl AvatarThrown, db1) \<Rightarrow> (internal_error, db1)
       | (Inr _, db1) \<Rightarrow> (EmptyReply 204, db1))"

definition getCurrentAvatar_route :: "avatar_env \<Rightarrow> auth_user option \<Rightarrow> avatar_db \<Rightarrow> avatar_reply" where
  "getCurrentAvatar_route env user db =
     (case user_id user of
        None \<Rightarrow> unauthorized
      | Some userId \<Rightarrow>
          (case avatar_current env userId db of
             Inl _ \<Rightarrow> internal_error
           | Inr a \<Rightarrow> OkReply 200 None (CurrentData a)))"

end
