(* ===== verification/ImageProps.thy ===== *)
theory ImageProps
  imports ImageBytes
begin

text \<open>
  Properties of the image parsers: the dimensions of a well-formed PNG or JPEG file are found, what validation guarantees of an accepted file,
  and what it does not: a file of another kind in a RIFF container, or one shorter than the minimum, passes, and the dimensions of an extended WebP are not its own.
\<close>

section \<open>Numbers in a buffer\<close>

definition be16 :: "nat \<Rightarrow> bytes" where
  "be16 n = [word_of_nat (n div 256), word_of_nat (n mod 256)]"

definition be32 :: "nat \<Rightarrow> bytes" where
  "be32 n = be16 (n div 65536) @ be16 (n mod 65536)"

lemma be_lengths [simp]: "length (be16 n) = 2" "length (be32 n) = 4"
  by (simp_all add: be16_def be32_def)

lemma unat_byte: "n < 256 \<Longrightarrow> unat (word_of_nat n :: 8 word) = n"
  by (simp add: unat_of_nat)

lemma read_be16:
  assumes "n < 65536" and "length xs = i"
  shows "readUInt16BE (xs @ be16 n @ ys) i = n"
  using assms by (auto simp: readUInt16BE_def be16_def nth_append unat_byte)

lemma read_be32:
  assumes "n < 4294967296" and "length xs = i"
  shows "readUInt32BE (xs @ be32 n @ ys) i = n"
proof -
  have "readUInt16BE (xs @ be16 (n div 65536) @ be16 (n mod 65536) @ ys) i = n div 65536"
    using assms by (intro read_be16) auto
  moreover have "readUInt16BE ((xs @ be16 (n div 65536)) @ be16 (n mod 65536) @ ys) (i + 2) = n mod 65536"
    using assms by (intro read_be16) auto
  ultimately show ?thesis by (simp add: readUInt32BE_def be32_def)
qed

section \<open>PNG\<close>

definition png_file :: "nat \<Rightarrow> nat \<Rightarrow> bytes \<Rightarrow> bytes" where
  "png_file w h rest = PNG_IHDR_SIGNATURE @ be32 13 @ ascii ''IHDR'' @ be32 w @ be32 h @ rest"

lemma ascii_length [simp]: "length (ascii s) = length s"
  by (simp add: ascii_def)

lemma png_dimensions:
  assumes "w < 2 ^ 32" and "h < 2 ^ 32"
  shows "extractImageDimensions (png_file w h rest) = Some (w, h)"
proof -
  have sig: "length PNG_IHDR_SIGNATURE = 8" by (simp add: PNG_IHDR_SIGNATURE_def)
  have "readUInt32BE ((PNG_IHDR_SIGNATURE @ be32 13 @ ascii ''IHDR'') @ be32 w @ (be32 h @ rest)) 16 = w"
    using assms by (intro read_be32) (simp_all add: sig)
  moreover have "readUInt32BE ((PNG_IHDR_SIGNATURE @ be32 13 @ ascii ''IHDR'' @ be32 w) @ be32 h @ rest) 20 = h"
    using assms by (intro read_be32) (simp_all add: sig)
  ultimately show ?thesis by (simp add: extractImageDimensions_def png_file_def subarray_def sig)
qed

section \<open>JPEG\<close>

definition plain_marker :: "8 word \<Rightarrow> bool" where
  "plain_marker m \<longleftrightarrow> \<not> is_start_of_frame m \<and> m \<notin> {0xda, 0xd9, 0x00}"

definition jpeg_segment :: "8 word \<times> bytes \<Rightarrow> bytes" where
  "jpeg_segment s = [0xff, fst s] @ be16 (length (snd s) + 2) @ snd s"

definition jpeg_frame :: "8 word \<Rightarrow> nat \<Rightarrow> 8 word \<Rightarrow> nat \<Rightarrow> nat \<Rightarrow> bytes" where
  "jpeg_frame m len precision h w = [0xff, m] @ be16 len @ [precision] @ be16 h @ be16 w"

lemma jpeg_reads_frame:
  assumes "is_start_of_frame m" and "w < 65536" and "h < 65536" and "rest \<noteq> []" and "length pre = i"
  shows "jpeg_from (pre @ jpeg_frame m len precision h w @ rest) i = Some (w, h)"
proof -
  let ?data = "pre @ jpeg_frame m len precision h w @ rest"
  have at: "?data ! i = 0xff" "?data ! (i + 1) = m" using assms(5) by (auto simp: jpeg_frame_def nth_append)
  have "readUInt16BE ((pre @ [0xff, m] @ be16 len @ [precision]) @ be16 h @ (be16 w @ rest)) (i + 5) = h"
    and "readUInt16BE ((pre @ [0xff, m] @ be16 len @ [precision] @ be16 h) @ be16 w @ rest) (i + 7) = w"
    using assms by (intro read_be16; simp)+
  then have "readUInt16BE ?data (i + 5) = h" "readUInt16BE ?data (i + 7) = w" by (simp_all add: jpeg_frame_def)
  moreover have "i + 9 < length ?data" using assms(4,5) by (simp add: jpeg_frame_def)
  ultimately show ?thesis using at assms(1) by (subst jpeg_from.simps) (simp add: Let_def)
qed

lemma jpeg_skips_segment:
  assumes "plain_marker (fst s)" and "length (snd s) + 2 < 65536" and "length pre = i"
  shows "jpeg_from (pre @ jpeg_segment s @ rest) i = jpeg_from (pre @ jpeg_segment s @ rest) (i + length (jpeg_segment s))"
proof -
  let ?data = "pre @ jpeg_segment s @ rest"
  have at: "?data ! i = 0xff" "?data ! (i + 1) = fst s" using assms(3) by (auto simp: jpeg_segment_def nth_append)
  have "readUInt16BE ((pre @ [0xff, fst s]) @ be16 (length (snd s) + 2) @ (snd s @ rest)) (i + 2) = length (snd s) + 2"
    using assms(2,3) by (intro read_be16) simp_all
  then have "readUInt16BE ?data (i + 2) = length (snd s) + 2" by (simp add: jpeg_segment_def)
  moreover have "i + 3 < length ?data" using assms(3) by (simp add: jpeg_segment_def)
  ultimately show ?thesis using at assms(1)
    by (subst jpeg_from.simps) (simp add: Let_def plain_marker_def jpeg_segment_def)
qed

lemma jpeg_finds_frame:
  assumes "list_all (\<lambda>s. plain_marker (fst s) \<and> length (snd s) + 2 < 65536) segments"
    and "is_start_of_frame m" and "w < 65536" and "h < 65536" and "rest \<noteq> []"
  shows "jpeg_from (pre @ concat (map jpeg_segment segments) @ jpeg_frame m len precision h w @ rest) (length pre) = Some (w, h)"
  using assms(1)
proof (induction segments arbitrary: pre)
  case Nil
  with assms(2-) show ?case by (simp add: jpeg_reads_frame)
next
  case (Cons s segments)
  from Cons.prems jpeg_skips_segment [of s pre "length pre" "concat (map jpeg_segment segments) @ jpeg_frame m len precision h w @ rest"]
    Cons.IH [of "pre @ jpeg_segment s"] show ?case by simp
qed

definition jpeg_file :: "(8 word \<times> bytes) list \<Rightarrow> 8 word \<Rightarrow> nat \<Rightarrow> 8 word \<Rightarrow> nat \<Rightarrow> nat \<Rightarrow> bytes \<Rightarrow> bytes" where
  "jpeg_file segments m len precision h w rest =
     [0xff, 0xd8] @ concat (map jpeg_segment segments) @ jpeg_frame m len precision h w @ rest"

lemma jpeg_file_head: "\<exists>t. jpeg_file segments m len precision h w rest = [0xff, 0xd8, 0xff] @ t"
  by (cases segments) (simp_all add: jpeg_file_def jpeg_segment_def jpeg_frame_def)

lemma starts_with_signature:
  "length sig \<le> length data \<and> list_all (\<lambda>i. data ! i = sig ! i) [0..<length sig] \<longleftrightarrow> take (length sig) data = sig"
proof
  assume "length sig \<le> length data \<and> list_all (\<lambda>i. data ! i = sig ! i) [0..<length sig]"
  then show "take (length sig) data = sig" by (intro nth_equalityI) (auto simp: list_all_iff)
next
  assume sig: "take (length sig) data = sig"
  have "length sig \<le> length data" using arg_cong [OF sig, of length] by simp
  moreover have "data ! i = sig ! i" if "i < length sig" for i
    using arg_cong [OF sig, of "\<lambda>xs. xs ! i"] that by simp
  ultimately show "length sig \<le> length data \<and> list_all (\<lambda>i. data ! i = sig ! i) [0..<length sig]" by (simp add: list_all_iff)
qed

lemma sniff_by_prefix: "sniffMimeType data = map_option snd (List.find (\<lambda>(sig, mime). take (length sig) data = sig) MIME_SIGNATURES)"
  unfolding sniffMimeType_def starts_with_signature ..

lemma sniff_jpeg: "sniffMimeType ([0xff, 0xd8, 0xff] @ t) = Some ''image/jpeg''"
  by (simp add: sniff_by_prefix MIME_SIGNATURES_def)

lemma sniff_png: "sniffMimeType (PNG_IHDR_SIGNATURE @ t) = Some ''image/png''"
  by (simp add: sniff_by_prefix MIME_SIGNATURES_def PNG_IHDR_SIGNATURE_def)

lemma sniff_riff: "sniffMimeType (ascii ''RIFF'' @ t) = Some ''image/webp''"
  by (simp add: sniff_by_prefix MIME_SIGNATURES_def ascii_def)

lemma jpeg_dimensions:
  assumes "list_all (\<lambda>s. plain_marker (fst s) \<and> length (snd s) + 2 < 65536) segments"
    and "is_start_of_frame m" and "w < 65536" and "h < 65536" and "13 < length rest"
  shows "extractImageDimensions (jpeg_file segments m len precision h w rest) = Some (w, h)"
proof -
  let ?data = "jpeg_file segments m len precision h w rest"
  have "24 \<le> length ?data" using assms(5) by (simp add: jpeg_file_def jpeg_frame_def)
  moreover obtain t where t: "?data = [0xff, 0xd8, 0xff] @ t" using jpeg_file_head by blast
  then have "subarray 0 8 ?data \<noteq> PNG_IHDR_SIGNATURE" "subarray 0 6 ?data \<noteq> ascii ''GIF87a''"
    "subarray 0 6 ?data \<noteq> ascii ''GIF89a''" "subarray 0 2 ?data = [0xff, 0xd8]"
    by (simp_all add: subarray_def PNG_IHDR_SIGNATURE_def ascii_def)
  moreover have "parseJpegDimensions ?data = Some (w, h)"
  proof -
    have "rest \<noteq> []" using assms(5) by auto
    from jpeg_finds_frame [OF assms(1-4) this, of "[0xff, 0xd8]" len precision] show ?thesis
      by (simp add: parseJpegDimensions_def jpeg_file_def numeral_2_eq_2)
  qed
  ultimately show ?thesis by (simp add: extractImageDimensions_def)
qed

text \<open>
  C28. The dimensions of an image are found in its bytes. A PNG file gives the width and height its header encodes, and a JPEG file those of its first frame
  header, of any of the twelve kinds, behind any number of other segments of any content.
\<close>

theorem image_dimensions_found:
  assumes "list_all (\<lambda>s. plain_marker (fst s) \<and> length (snd s) + 2 < 65536) segments"
    and "is_start_of_frame m" and "w < 65536" and "h < 65536" and "13 < length rest"
  shows "extractImageDimensions (jpeg_file segments m len precision h w rest) = Some (w, h)
    \<and> sniffMimeType (jpeg_file segments m len precision h w rest) = Some ''image/jpeg''
    \<and> extractImageDimensions (png_file w h body) = Some (w, h)
    \<and> sniffMimeType (png_file w h body) = Some ''image/png''"
proof -
  obtain t where "jpeg_file segments m len precision h w rest = [0xff, 0xd8, 0xff] @ t" using jpeg_file_head by blast
  with sniff_jpeg have "sniffMimeType (jpeg_file segments m len precision h w rest) = Some ''image/jpeg''" by metis
  moreover have "sniffMimeType (png_file w h body) = Some ''image/png''" unfolding png_file_def by (rule sniff_png)
  ultimately show ?thesis using jpeg_dimensions [OF assms] png_dimensions [of w h body] assms(3,4) by simp
qed

section \<open>What validation guarantees\<close>

lemma validated_bytes:
  assumes "vr_ok (validateAvatarBytes data declared declared_size)"
  shows "length data \<le> AVATAR_MAX_BYTES \<and> sniffMimeType data = Some (normalised_mime declared)
    \<and> normalised_mime declared \<in> set AVATAR_ALLOWED_MIME_TYPES
    \<and> AVATAR_MIN_BYTES \<le> (case declared_size of None \<Rightarrow> length data | Some n \<Rightarrow> n)"
  using assms by (auto simp: validateAvatarBytes_def rejected_bytes_def Let_def simp del: set_simps list.set split: if_splits option.splits)

text \<open>
  Validation does not trust the client's type, but it does trust its size and a container. An accepted file has at most 5 MB and is of the declared,
  allowed type by its first bytes; yet with a declared size of 1 KB everything that starts with the four bytes of a RIFF container, such as a sound file or
  those four bytes alone, is accepted as a WebP image.
\<close>

theorem avatar_validation:
  "(vr_ok (validateAvatarBytes data declared declared_size) \<longrightarrow>
      length data \<le> AVATAR_MAX_BYTES \<and> sniffMimeType data = Some (normalised_mime declared)
      \<and> normalised_mime declared \<in> set AVATAR_ALLOWED_MIME_TYPES
      \<and> (declared_size = None \<longrightarrow> AVATAR_MIN_BYTES \<le> length data))
   \<and> (vr_ok (validateAvatarBytes (ascii ''RIFF'' @ rest) ''image/webp'' (Some 1024)) \<longleftrightarrow> length rest + 4 \<le> AVATAR_MAX_BYTES)"
proof
  show "vr_ok (validateAvatarBytes data declared declared_size) \<longrightarrow>
      length data \<le> AVATAR_MAX_BYTES \<and> sniffMimeType data = Some (normalised_mime declared)
      \<and> normalised_mime declared \<in> set AVATAR_ALLOWED_MIME_TYPES \<and> (declared_size = None \<longrightarrow> AVATAR_MIN_BYTES \<le> length data)"
    using validated_bytes [of data declared declared_size] by auto
  have "normalised_mime ''image/webp'' = ''image/webp''" "''image/webp'' \<in> set AVATAR_ALLOWED_MIME_TYPES" by code_simp+
  then show "vr_ok (validateAvatarBytes (ascii ''RIFF'' @ rest) ''image/webp'' (Some 1024)) \<longleftrightarrow> length rest + 4 \<le> AVATAR_MAX_BYTES"
    by (simp add: validateAvatarBytes_def sniff_riff rejected_bytes_def AVATAR_MIN_BYTES_def AVATAR_MAX_BYTES_def)
qed

section \<open>Extended WebP\<close>

definition le24 :: "nat \<Rightarrow> bytes" where
  "le24 n = [word_of_nat (n mod 256), word_of_nat (n div 256 mod 256), word_of_nat (n div 65536)]"

lemma three_digits: "(n :: nat) mod 256 + 256 * (n div 256 mod 256) + 65536 * (n div 65536) = n"
proof -
  have "256 * (n div 256) + n mod 256 = n" "256 * (n div 256 div 256) + n div 256 mod 256 = n div 256" by simp_all
  moreover have "n div 256 div 256 = n div 65536" by (simp add: div_mult2_eq [symmetric])
  ultimately show ?thesis by linarith
qed

text \<open>The header of an extended WebP file: the flags and three reserved zeros stand before the canvas, whose sides are stored less one.\<close>

definition webp_extended :: "bytes \<Rightarrow> bytes \<Rightarrow> 8 word \<Rightarrow> nat \<Rightarrow> nat \<Rightarrow> bytes \<Rightarrow> bytes" where
  "webp_extended file_size chunk_size flags w h rest =
     ascii ''RIFF'' @ file_size @ ascii ''WEBPVP8X'' @ chunk_size @ [flags, 0, 0, 0] @ le24 (w - 1) @ le24 (h - 1) @ rest"

text \<open>
  The dimensions of an extended WebP are read four bytes too early: the width that is stored is one more than the flags, whatever the canvas, and the height mixes
  the width with the low byte of the height.
\<close>

theorem webp_extended_misread:
  assumes "length file_size = 4" and "length chunk_size = 4" and "1 \<le> w" and "w \<le> 2 ^ 24" and "1 \<le> h" and "h \<le> 2 ^ 24"
  shows "extractImageDimensions (webp_extended file_size chunk_size flags w h rest) =
    Some (unat flags + 1, w + 16777216 * ((h - 1) mod 256))"
proof -
  let ?pre = "ascii ''RIFF'' @ file_size @ ascii ''WEBPVP8X'' @ chunk_size"
  let ?data = "webp_extended file_size chunk_size flags w h rest"
  have lens: "length ?pre = 20" using assms(1,2) by simp
  have data: "?data = ?pre @ [flags, 0, 0, 0] @ le24 (w - 1) @ le24 (h - 1) @ rest" by (simp add: webp_extended_def)
  have after: "?data ! (20 + k) = ([flags, 0, 0, 0] @ le24 (w - 1) @ le24 (h - 1) @ rest) ! k" for k
    unfolding data using nth_append_length_plus [of ?pre "[flags, 0, 0, 0] @ le24 (w - 1) @ le24 (h - 1) @ rest" k] unfolding lens .
  have at: "?data ! 20 = flags" "?data ! 21 = 0" "?data ! 22 = 0" "?data ! 23 = 0"
    using after [of 0] after [of 1] after [of 2] after [of 3] by (simp_all add: numeral_eq_Suc)
  have canvas: "?data ! 24 = word_of_nat ((w - 1) mod 256)" "?data ! 25 = word_of_nat ((w - 1) div 256 mod 256)"
    "?data ! 26 = word_of_nat ((w - 1) div 65536)" "?data ! 27 = word_of_nat ((h - 1) mod 256)"
    using after [of 4] after [of 5] after [of 6] after [of 7] by (simp_all add: le24_def nth_append)
  have width: "readUInt32LE ?data 20 = unat flags" by (simp add: readUInt32LE_def readUInt16LE_def at)
  have height: "readUInt32LE ?data 24 = (w - 1) + 16777216 * ((h - 1) mod 256)"
  proof -
    have "(w - 1) div 65536 < 256" using assms(3,4) by (simp add: less_mult_imp_div_less)
    then have "readUInt32LE ?data 24 = (w - 1) mod 256 + 256 * ((w - 1) div 256 mod 256)
        + 65536 * ((w - 1) div 65536 + 256 * ((h - 1) mod 256))"
      by (simp add: readUInt32LE_def readUInt16LE_def canvas unat_byte)
    moreover have "(w - 1) mod 256 + 256 * ((w - 1) div 256 mod 256) + 65536 * ((w - 1) div 65536) = w - 1"
      by (rule three_digits)
    ultimately show ?thesis by (simp add: distrib_left)
  qed
  have chunk: "subarray 12 16 ?data = ascii ''VP8X''" and riff: "subarray 0 4 ?data = ascii ''RIFF''" "subarray 8 12 ?data = ascii ''WEBP''"
    using assms(1,2) by (simp_all add: webp_extended_def subarray_def ascii_def)
  have other: "subarray 0 8 ?data \<noteq> PNG_IHDR_SIGNATURE" "subarray 0 6 ?data \<noteq> ascii ''GIF87a''"
    "subarray 0 6 ?data \<noteq> ascii ''GIF89a''" "subarray 0 2 ?data \<noteq> [0xff, 0xd8]"
    by (simp_all add: webp_extended_def subarray_def ascii_def PNG_IHDR_SIGNATURE_def)
  have long: "30 \<le> length ?data" using assms(1,2) by (simp add: webp_extended_def le24_def)
  have "ascii ''VP8X'' \<noteq> ascii ''VP8 ''" "ascii ''VP8X'' \<noteq> ascii ''VP8L''" by (simp_all add: ascii_def)
  then have "parseWebpDimensions ?data = Some (readUInt32LE ?data 20 + 1, readUInt32LE ?data 24 + 1)"
    using chunk long by (simp add: parseWebpDimensions_def)
  then have "extractImageDimensions ?data = Some (readUInt32LE ?data 20 + 1, readUInt32LE ?data 24 + 1)"
    using riff other long by (simp add: extractImageDimensions_def)
  then show ?thesis unfolding width height using assms(3) by simp
qed

section \<open>Witnesses\<close>

theorem image_dimensions_found_witness:
  "extractImageDimensions (jpeg_file [(0xe0, [1, 2, 3])] 0xc0 17 8 480 640 (replicate 20 0)) = Some (640, 480)"
proof -
  have "list_all (\<lambda>s. plain_marker (fst s) \<and> length (snd s) + 2 < 65536) [(0xe0 :: 8 word, [1, 2, 3 :: 8 word])]"
    "is_start_of_frame 0xc0" by (simp_all add: plain_marker_def is_start_of_frame_def)
  from image_dimensions_found [OF this, of 640 480 "replicate 20 0" 17 8] show ?thesis by simp
qed

theorem webp_extended_misread_witness:
  "extractImageDimensions (webp_extended [0, 0, 0, 0] [0, 0, 0, 0] 16 400 300 []) = Some (17, 721420688)"
  using webp_extended_misread [of "[0, 0, 0, 0]" "[0, 0, 0, 0]" 400 300 16 "[]"] by simp

theorem avatar_validation_witness:
  "vr_ok (validateAvatarBytes (ascii ''RIFF'') ''image/webp'' (Some 1024))"
  using avatar_validation [of "[]" "[]" None "[]"] by (simp add: AVATAR_MAX_BYTES_def)

end
