(* ===== verification/AvatarProps.thy ===== *)
theory AvatarProps
  imports Avatars ImageProps
begin

text \<open>
  Properties of avatars: a user has at most one active avatar however requests interleave, users cannot touch each other's avatars and objects,
  what a replacement leaves behind, and that without a way to store the bytes of an upload no avatar ever becomes active.
\<close>

section \<open>Interleaved requests\<close>

text \<open>
  The checks and the promotion of a finalization interleave with everything else. The ghost \<open>as_reg\<close> knows, for every identifier ever issued, its
  owner and storage key; identifiers are drawn at random and never repeat.
\<close>

type_synonym avatar_registry = "ident \<Rightarrow> (ident \<times> string) option"

record avatar_sys =
  as_db :: avatar_db
  as_reg :: avatar_registry
  as_finalizing :: "(ident \<times> checked_upload) list"

inductive avatar_step :: "avatar_sys \<Rightarrow> avatar_sys \<Rightarrow> bool" where
  intent: "avatar_createUploadIntent env u t name n (as_db s) = (Inr i, db') \<Longrightarrow> as_reg s (ae_newId env) = None \<Longrightarrow>
    avatar_step s (s\<lparr>as_db := db', as_reg := (as_reg s)(ae_newId env \<mapsto> (u, ui_uploadKey i))\<rparr>)"
| upload: "avatar_step s (s\<lparr>as_db := writeBytes key data (as_db s)\<rparr>)"
| check_passes: "finalize_check env u key sha (as_db s) = (Inr c, db') \<Longrightarrow>
    avatar_step s (s\<lparr>as_finalizing := (u, c) # as_finalizing s\<rparr>)"
| check_fails: "finalize_check env u key sha (as_db s) = (Inl e, db') \<Longrightarrow> avatar_step s (s\<lparr>as_db := db'\<rparr>)"
| commit: "(u, c) \<in> set (as_finalizing s) \<Longrightarrow>
    avatar_step s (s\<lparr>as_db := snd (finalize_commit env u c (as_db s)), as_finalizing := remove1 (u, c) (as_finalizing s)\<rparr>)"
| delete: "avatar_step s (s\<lparr>as_db := snd (avatar_delete env u (as_db s))\<rparr>)"

definition active_of :: "ident \<Rightarrow> avatar_row \<Rightarrow> bool" where
  "active_of u a \<longleftrightarrow> av_userId a = u \<and> av_status a = AvActive"

definition row_ok :: "avatar_registry \<Rightarrow> avatar_row \<Rightarrow> bool" where
  "row_ok reg a \<longleftrightarrow> reg (av_id a) = Some (av_userId a, av_storageKey a)
     \<and> (case av_replacedById a of None \<Rightarrow> True | Some j \<Rightarrow> \<exists>k. reg j = Some (av_userId a, k))"

definition variant_ok :: "avatar_registry \<Rightarrow> variant_row \<Rightarrow> bool" where
  "variant_ok reg v \<longleftrightarrow> (\<exists>u k suffix. reg (va_avatarId v) = Some (u, k) \<and> va_storageKey v = k @ suffix)"

definition issued_ok :: "avatar_registry \<Rightarrow> bool" where
  "issued_ok reg \<longleftrightarrow> (\<forall>i u k. reg i = Some (u, k) \<longrightarrow> (\<exists>rest. k = user_prefix u @ rest))"

definition avatars_ok :: "avatar_registry \<Rightarrow> avatar_db \<Rightarrow> bool" where
  "avatars_ok reg db \<longleftrightarrow> distinct (map av_id (ad_avatars db)) \<and> list_all (row_ok reg) (ad_avatars db)
     \<and> list_all (variant_ok reg) (ad_variants db) \<and> (\<forall>u. count_where (active_of u) (ad_avatars db) \<le> 1)"

definition check_ok :: "avatar_registry \<Rightarrow> ident \<times> checked_upload \<Rightarrow> bool" where
  "check_ok reg p \<longleftrightarrow> reg (av_id (ck_avatar (snd p))) = Some (fst p, av_storageKey (ck_avatar (snd p)))"

definition avatar_inv :: "avatar_sys \<Rightarrow> bool" where
  "avatar_inv s \<longleftrightarrow> issued_ok (as_reg s) \<and> avatars_ok (as_reg s) (as_db s) \<and> list_all (check_ok (as_reg s)) (as_finalizing s)"

subsection \<open>Objects only\<close>

lemma foldl_keeps: "(\<And>db x. g (f db x) = g db) \<Longrightarrow> g (foldl f db xs) = g db"
  by (induction xs arbitrary: db) simp_all

lemma store_frame [simp]:
  "ad_avatars (writeBytes k d db) = ad_avatars db" "ad_variants (writeBytes k d db) = ad_variants db"
  "ad_profiles (writeBytes k d db) = ad_profiles db" "ad_avatars (deleteObject k db) = ad_avatars db"
  "ad_variants (deleteObject k db) = ad_variants db" "ad_profiles (deleteObject k db) = ad_profiles db"
  by (simp_all add: writeBytes_def deleteObject_def)

lemma objects_frame [simp]:
  "ad_avatars (delete_objects ks db) = ad_avatars db" "ad_variants (delete_objects ks db) = ad_variants db"
  "ad_profiles (delete_objects ks db) = ad_profiles db"
  "ad_avatars (write_variants k d db) = ad_avatars db" "ad_variants (write_variants k d db) = ad_variants db"
  "ad_profiles (write_variants k d db) = ad_profiles db"
  by (simp_all add: delete_objects_def write_variants_def foldl_keeps)

lemma deleted_objects: "ad_objects (delete_objects ks db) k = (if k \<in> set ks then None else ad_objects db k)"
  by (induction ks arbitrary: db) (simp_all add: delete_objects_def deleteObject_def)

lemma written_objects:
  "ad_objects (write_variants key data db) k = (if k \<in> {key, key @ ''_thumb'', key @ ''_medium''} then Some data else ad_objects db k)"
  by (simp add: write_variants_def VARIANT_SPECS_def writeBytes_def)

lemma avatars_ok_objects [simp]:
  "avatars_ok reg (delete_objects ks db) = avatars_ok reg db" "avatars_ok reg (write_variants k d db) = avatars_ok reg db"
  "avatars_ok reg (writeBytes k d db) = avatars_ok reg db" "avatars_ok reg (db\<lparr>ad_profiles := p\<rparr>) = avatars_ok reg db"
  by (simp_all add: avatars_ok_def)

lemma avatars_ok_count: "avatars_ok reg db \<Longrightarrow> count_where (active_of u) (ad_avatars db) \<le> 1"
  by (simp add: avatars_ok_def)

subsection \<open>The invariant\<close>

lemma count_at_most_one:
  assumes "distinct (map key rows)" and "\<And>r. r \<in> set rows \<Longrightarrow> q r \<Longrightarrow> key r = k"
  shows "count_where q rows \<le> 1"
  using assms
proof (induction rows)
  case (Cons r rows)
  show ?case
  proof (cases "q r")
    case True
    have "\<not> q x" if "x \<in> set rows" for x
    proof
      assume "q x"
      with that True Cons.prems(2) have "key x = key r" by simp
      with that Cons.prems(1) show False by (auto simp: image_iff)
    qed
    then have "count_where q rows = 0" by (simp add: count_where_0)
    with True show ?thesis by simp
  next
    case False
    with Cons show ?thesis by simp
  qed
qed simp

lemma row_ok_mono: "reg \<subseteq>\<^sub>m reg' \<Longrightarrow> row_ok reg a \<Longrightarrow> row_ok reg' a"
  by (auto simp: row_ok_def map_le_def dom_def split: option.splits)

lemma variant_ok_mono: "reg \<subseteq>\<^sub>m reg' \<Longrightarrow> variant_ok reg v \<Longrightarrow> variant_ok reg' v"
  unfolding variant_ok_def map_le_def dom_def by (metis (mono_tags, lifting) mem_Collect_eq option.distinct(1))

lemma avatars_ok_mono: "reg \<subseteq>\<^sub>m reg' \<Longrightarrow> avatars_ok reg db \<Longrightarrow> avatars_ok reg' db"
  by (auto simp: avatars_ok_def list_all_iff intro: row_ok_mono variant_ok_mono)

lemma update_avatar_ok:
  assumes "avatars_ok reg db" and "\<And>a. av_id (f a) = av_id a" and "\<And>a. av_userId (f a) = av_userId a"
    and "\<And>a. av_storageKey (f a) = av_storageKey a" and "\<And>a. av_replacedById (f a) = av_replacedById a"
    and "\<And>u. count_where (active_of u) (update_where (\<lambda>a. av_id a = i) f (ad_avatars db)) \<le> 1"
  shows "avatars_ok reg (update_avatar i f db)"
proof -
  have "row_ok reg (f a) = row_ok reg a" for a unfolding row_ok_def assms(2-5) ..
  with assms(1,2,6) show ?thesis
    by (auto simp: avatars_ok_def update_avatar_def map_update_where list_all_iff set_update_where)
qed

lemma mark_failed_ok:
  assumes "avatars_ok reg db"
  shows "avatars_ok reg (update_avatar i (\<lambda>a. a\<lparr>av_status := AvFailed, av_scanResult := x, av_scanReason := y\<rparr>) db)"
proof (rule update_avatar_ok [OF assms])
  show "count_where (active_of u) (update_where (\<lambda>a. av_id a = i)
      (\<lambda>a. a\<lparr>av_status := AvFailed, av_scanResult := x, av_scanReason := y\<rparr>) (ad_avatars db)) \<le> 1" for u
  proof -
    have "count_where (active_of u) (update_where (\<lambda>a. av_id a = i)
        (\<lambda>a. a\<lparr>av_status := AvFailed, av_scanResult := x, av_scanReason := y\<rparr>) (ad_avatars db))
      \<le> count_where (active_of u) (ad_avatars db)" by (rule count_update_le) (simp add: active_of_def)
    also have "\<dots> \<le> 1" using assms by (simp add: avatars_ok_def)
    finally show ?thesis .
  qed
qed simp_all

lemma fail_upload_never_passes: "fail_upload env i reason m db \<noteq> (Inr c, db')"
  by (simp add: fail_upload_def)

lemma finalize_check_passes:
  assumes "finalize_check env u key sha db = (Inr c, db')"
  shows "db' = db \<and> ck_avatar c \<in> set (ad_avatars db) \<and> av_userId (ck_avatar c) = u
    \<and> readBytes (av_storageKey (ck_avatar c)) db = Some (ck_data c)"
  using assms
  by (auto simp: finalize_check_def Let_def fail_upload_never_passes find_avatar_def dest!: find_Some split: list.splits option.splits if_splits)

text \<open>A failed check leaves the tables alone, or marks the user's own upload as failed.\<close>

lemma finalize_check_fails:
  assumes "finalize_check env u key sha db = (Inl e, db')"
  shows "db' = db \<or> (\<exists>a reason. a \<in> set (ad_avatars db) \<and> av_userId a = u
      \<and> db' = update_avatar (av_id a) (\<lambda>a. a\<lparr>av_status := AvFailed, av_scanResult := Some ''rejected'', av_scanReason := Some reason\<rparr>) db)"
proof -
  have failed: "db2 = db \<or> db2 = update_avatar i (\<lambda>a. a\<lparr>av_status := AvFailed, av_scanResult := Some ''rejected'', av_scanReason := Some reason\<rparr>) db"
    if "fail_upload env i reason m db = (Inl e, db2)" for i reason m db2
    using that by (auto simp: fail_upload_def split: if_splits)
  from assms show ?thesis
    by (auto simp: finalize_check_def Let_def find_avatar_def dest!: find_Some failed split: list.splits option.splits if_splits)
qed

lemma find_avatar_row: "avatars_ok reg db \<Longrightarrow> a \<in> set (ad_avatars db) \<Longrightarrow> row_ok reg a"
  by (simp add: avatars_ok_def list_all_iff)

lemma retire_active_ok:
  assumes ok: "avatars_ok reg db" and i: "reg i = Some (u, k)"
  shows "avatars_ok reg (retire_active now u i db)"
    and "a \<in> set (ad_avatars (retire_active now u i db)) \<Longrightarrow> \<not> active_of u a"
proof -
  let ?f = "\<lambda>a. a\<lparr>av_status := AvPending, av_replacedAt := Some now, av_replacedById := Some i\<rparr>"
  have "count_where (active_of v) (ad_avatars (retire_active now u i db)) \<le> count_where (active_of v) (ad_avatars db)" for v
  proof -
    have "count_where (active_of v) (update_where (\<lambda>a. av_userId a = u \<and> av_status a = AvActive) ?f (ad_avatars db))
      \<le> count_where (active_of v) (ad_avatars db)" by (rule count_update_le) (simp add: active_of_def)
    then show ?thesis by (simp add: retire_active_def)
  qed
  then have counts: "count_where (active_of v) (ad_avatars (retire_active now u i db)) \<le> 1" for v
    by (rule le_trans) (rule avatars_ok_count [OF ok])
  have "row_ok reg (?f a)" if "row_ok reg a" "av_userId a = u" for a using that i by (simp add: row_ok_def)
  then have rows: "list_all (row_ok reg) (ad_avatars (retire_active now u i db))"
    using find_avatar_row [OF ok] by (auto simp: retire_active_def list_all_iff set_update_where)
  have ids: "map av_id (ad_avatars (retire_active now u i db)) = map av_id (ad_avatars db)"
    and variants: "ad_variants (retire_active now u i db) = ad_variants db" by (simp_all add: retire_active_def map_update_where)
  have "distinct (map av_id (ad_avatars db))" "list_all (variant_ok reg) (ad_variants db)"
    using ok unfolding avatars_ok_def by blast+
  with rows counts show "avatars_ok reg (retire_active now u i db)" unfolding avatars_ok_def ids variants by blast
  show "\<not> active_of u a" if mem: "a \<in> set (ad_avatars (retire_active now u i db))"
  proof -
    have "\<forall>x \<in> set (ad_avatars (retire_active now u i db)). \<not> active_of u x"
      by (simp add: retire_active_def ball_update_where active_of_def)
    with mem show ?thesis by blast
  qed
qed

lemma activate_ok:
  assumes ok: "avatars_ok reg db" and c: "check_ok reg (u, c)" and none: "\<And>a. a \<in> set (ad_avatars db) \<Longrightarrow> \<not> active_of u a"
  shows "avatars_ok reg (activate now c db)"
  unfolding activate_def
proof (rule update_avatar_ok [OF ok])
  let ?i = "av_id (ck_avatar c)"
  let ?f = "\<lambda>a. a\<lparr>av_status := AvActive, av_detectedMime := vr_detectedMime (ck_validation c),
     av_width := map_option fst (vr_dimensions (ck_validation c)), av_height := map_option snd (vr_dimensions (ck_validation c)),
     av_variantCount := length VARIANT_SPECS, av_finalizedAt := Some now\<rparr>"
  have owner: "av_userId a = u" if "a \<in> set (ad_avatars db)" "av_id a = ?i" for a
    using ok c that by (auto simp: avatars_ok_def list_all_iff row_ok_def check_ok_def)
  show "count_where (active_of v) (update_where (\<lambda>a. av_id a = ?i) ?f (ad_avatars db)) \<le> 1" for v
  proof (cases "v = u")
    case True
    show ?thesis
    proof (rule count_at_most_one)
      show "distinct (map av_id (update_where (\<lambda>a. av_id a = ?i) ?f (ad_avatars db)))"
        using ok by (simp add: avatars_ok_def map_update_where)
      show "av_id r = ?i" if "r \<in> set (update_where (\<lambda>a. av_id a = ?i) ?f (ad_avatars db))" "active_of v r" for r
        using that none True by (auto simp: set_update_where split: if_splits)
    qed
  next
    case False
    have "count_where (active_of v) (update_where (\<lambda>a. av_id a = ?i) ?f (ad_avatars db)) \<le> count_where (active_of v) (ad_avatars db)"
      by (rule count_update_le) (use owner False in \<open>auto simp: active_of_def\<close>)
    also have "\<dots> \<le> 1" using ok by (simp add: avatars_ok_def)
    finally show ?thesis .
  qed
qed simp_all

lemma promote_ok:
  assumes ok: "avatars_ok reg db" and c: "check_ok reg (u, c)" and run: "promote env u c db = Some db'"
  shows "avatars_ok reg db'"
proof -
  let ?i = "av_id (ck_avatar c)"
  from c have i: "reg ?i = Some (u, av_storageKey (ck_avatar c))" by (simp add: check_ok_def)
  let ?db1 = "activate (ae_now env) c (retire_active (ae_now env) u ?i db)"
  have "avatars_ok reg ?db1"
    using activate_ok [OF retire_active_ok(1) [OF ok i] c] retire_active_ok(2) [OF ok i] by blast
  moreover from run have "db' = ?db1\<lparr>ad_variants := ad_variants ?db1 @ variant_rows c\<rparr>"
    by (auto simp: promote_def Let_def split: if_splits)
  moreover have "list_all (variant_ok reg) (variant_rows c)"
    using i by (auto simp: list_all_iff variant_rows_def variant_ok_def VARIANT_SPECS_def)
  ultimately show ?thesis by (simp add: avatars_ok_def)
qed

abbreviation written_by :: "checked_upload \<Rightarrow> avatar_db \<Rightarrow> avatar_db" where
  "written_by c db \<equiv> write_variants (av_storageKey (ck_avatar c)) (ck_data c) db"

lemma finalize_commit_rolled_back:
  "promote env u c (written_by c db) = None \<Longrightarrow> finalize_commit env u c db = (Inl AvatarThrown, written_by c db)"
  by (simp add: finalize_commit_def Let_def)

text \<open>What a promotion leaves: its tables, the profile of its user, and objects that are gone because of it.\<close>

lemma finalize_commit_done:
  assumes "promote env u c (written_by c db) = Some db2"
  shows "\<exists>ks p. snd (finalize_commit env u c db) = delete_objects ks (db2\<lparr>ad_profiles := (ad_profiles db2)(u := p)\<rparr>)
    \<and> (\<forall>k \<in> set ks. \<exists>a \<in> set (ad_avatars db2). av_userId a = u \<and> av_storageKey a = k)"
proof (cases "ae_fails env ''learnerProfile.upsert''")
  case True
  with assms show ?thesis
    by (intro exI [of _ "[]"] exI [of _ "ad_profiles db2 u"]) (simp add: finalize_commit_def Let_def delete_objects_def)
next
  case False
  let ?p = "Some (Some (getServingUrl (av_storageKey (ck_avatar c))))"
  let ?db3 = "db2\<lparr>ad_profiles := (ad_profiles db2)(u := ?p)\<rparr>"
  show ?thesis
  proof (cases "ae_fails env ''avatar.findMany''")
    case True
    with assms False show ?thesis
      by (intro exI [of _ "[]"] exI [of _ ?p]) (simp add: finalize_commit_def Let_def delete_objects_def)
  next
    case no_fault: False
    with assms False have "snd (finalize_commit env u c db) =
        delete_objects (map av_storageKey (retired_by u (av_id (ck_avatar c)) ?db3)) ?db3"
      by (simp add: finalize_commit_def Let_def)
    moreover have "\<exists>a \<in> set (ad_avatars db2). av_userId a = u \<and> av_storageKey a = k"
      if "k \<in> set (map av_storageKey (retired_by u (av_id (ck_avatar c)) ?db3))" for k
      using that by (auto simp: retired_by_def)
    ultimately show ?thesis by blast
  qed
qed

lemma finalize_commit_ok:
  assumes "avatars_ok reg db" and "check_ok reg (u, c)"
  shows "avatars_ok reg (snd (finalize_commit env u c db))"
proof (cases "promote env u c (written_by c db)")
  case None
  with assms(1) show ?thesis by (simp add: finalize_commit_rolled_back)
next
  case (Some db2)
  have "avatars_ok reg (written_by c db)" using assms(1) by simp
  from promote_ok [OF this assms(2) Some] have "avatars_ok reg db2" .
  moreover obtain ks p where "snd (finalize_commit env u c db) = delete_objects ks (db2\<lparr>ad_profiles := p\<rparr>)"
    using finalize_commit_done [OF Some] by blast
  ultimately show ?thesis by simp
qed

lemma count_delete_le: "count_where q (delete_where p rows) \<le> count_where q rows"
  by (induction rows) (auto simp: delete_where_def)

lemma remove_avatar_ok:
  assumes "avatars_ok reg db"
  shows "avatars_ok reg (remove_avatar u i db)"
proof -
  let ?f = "\<lambda>a. a\<lparr>av_replacedById := None\<rparr>" and ?rows = "delete_where (\<lambda>a. av_id a = i) (ad_avatars db)"
  have "count_where (active_of v) (update_where (\<lambda>a. av_replacedById a = Some i) ?f ?rows) \<le> count_where (active_of v) ?rows" for v
    by (rule count_update_le) (simp add: active_of_def)
  moreover have "count_where (active_of v) ?rows \<le> count_where (active_of v) (ad_avatars db)" for v
    by (rule count_delete_le)
  moreover have "count_where (active_of v) (ad_avatars db) \<le> 1" for v using assms by (simp add: avatars_ok_def)
  ultimately have "count_where (active_of v) (update_where (\<lambda>a. av_replacedById a = Some i) ?f ?rows) \<le> 1" for v
    by (meson le_trans)
  moreover have "distinct (map av_id ?rows)" using assms by (simp add: avatars_ok_def delete_where_def distinct_map_filter)
  moreover have "row_ok reg (?f a)" if "row_ok reg a" for a using that by (simp add: row_ok_def)
  ultimately show ?thesis using assms
    by (auto simp: avatars_ok_def remove_avatar_def map_update_where list_all_iff set_update_where)
qed

lemma avatar_delete_cases:
  "\<exists>ks i. (snd (avatar_delete env u db) = delete_objects ks db \<or> snd (avatar_delete env u db) = remove_avatar u i (delete_objects ks db))
    \<and> (ks = [] \<and> snd (avatar_delete env u db) = db \<or> (\<exists>a \<in> set (ad_avatars db). av_userId a = u \<and> av_id a = i
       \<and> ks = map va_storageKey (variants_of i db) @ [av_storageKey a]))"
proof (cases "ae_fails env ''avatar.findFirst'' \<or> List.find (is_current u) (ad_avatars db) = None \<or> ae_fails env ''avatarVariant.findMany''")
  case True
  then have "snd (avatar_delete env u db) = db" by (auto simp: avatar_delete_def split: option.split)
  then show ?thesis by (intro exI [of _ "[]"]) (simp add: delete_objects_def)
next
  case False
  then obtain a where a: "List.find (is_current u) (ad_avatars db) = Some a" by auto
  from find_Some [OF this] have mem: "a \<in> set (ad_avatars db)" "av_userId a = u" by (simp_all add: is_current_def)
  let ?ks = "map va_storageKey (variants_of (av_id a) db) @ [av_storageKey a]"
  have "snd (avatar_delete env u db) = delete_objects ?ks db \<or> snd (avatar_delete env u db) = remove_avatar u (av_id a) (delete_objects ?ks db)"
    using False a by (simp add: avatar_delete_def Let_def)
  with mem show ?thesis by (intro exI [of _ ?ks] exI [of _ "av_id a"]) blast
qed

lemma avatar_delete_ok:
  assumes "avatars_ok reg db"
  shows "avatars_ok reg (snd (avatar_delete env u db))"
proof -
  obtain ks i where "snd (avatar_delete env u db) = delete_objects ks db \<or> snd (avatar_delete env u db) = remove_avatar u i (delete_objects ks db)"
    using avatar_delete_cases [of env u db] by blast
  with assms show ?thesis by (elim disjE) (simp_all add: remove_avatar_ok)
qed

subsection \<open>Reachable states\<close>

lemma user_key_issued: "issued_ok reg \<Longrightarrow> reg i = Some (u, k) \<Longrightarrow> \<exists>rest. k = user_prefix u @ rest"
  unfolding issued_ok_def by blast

lemma intent_result:
  assumes "avatar_createUploadIntent env u t name n db = (Inr i, db')"
  shows "\<exists>row rest. db' = db\<lparr>ad_avatars := ad_avatars db @ [row]\<rparr> \<and> av_id row = ae_newId env \<and> av_userId row = u
    \<and> av_storageKey row = ui_uploadKey i \<and> ui_uploadKey i = user_prefix u @ rest \<and> av_status row = AvPending \<and> av_replacedById row = None"
proof -
  from assms obtain mime where "db' = db\<lparr>ad_avatars := ad_avatars db @ [pending_avatar env u (avatar_key u (ae_newId env) (safeName name)) name mime n]\<rparr>"
    and "ui_uploadKey i = avatar_key u (ae_newId env) (safeName name)"
    by (auto simp: avatar_createUploadIntent_def createSignedUpload_def Let_def split: if_splits)
  then show ?thesis
    by (intro exI [of _ "pending_avatar env u (avatar_key u (ae_newId env) (safeName name)) name mime n"]
        exI [of _ "ae_newId env @ ''/'' @ safeName name"]) (simp add: pending_avatar_def avatar_key_def)
qed

lemma check_ok_mono: "reg \<subseteq>\<^sub>m reg' \<Longrightarrow> check_ok reg p \<Longrightarrow> check_ok reg' p"
  by (auto simp: check_ok_def map_le_def dom_def)

lemma avatar_step_inv: "avatar_step s t \<Longrightarrow> avatar_inv s \<Longrightarrow> avatar_inv t"
proof (induction rule: avatar_step.induct)
  case (intent env u t name n s i db')
  let ?reg = "(as_reg s)(ae_newId env \<mapsto> (u, ui_uploadKey i))"
  from intent_result [OF intent(1)] obtain row rest where row: "db' = (as_db s)\<lparr>ad_avatars := ad_avatars (as_db s) @ [row]\<rparr>"
    "av_id row = ae_newId env" "av_userId row = u" "av_storageKey row = ui_uploadKey i" "ui_uploadKey i = user_prefix u @ rest"
    "av_status row = AvPending" "av_replacedById row = None" by blast
  have le: "as_reg s \<subseteq>\<^sub>m ?reg" using intent(2) by (auto simp: map_le_def)
  have ok: "avatars_ok (as_reg s) (as_db s)" using intent(3) by (simp add: avatar_inv_def)
  have "av_id row \<notin> av_id ` set (ad_avatars (as_db s))"
    using find_avatar_row [OF ok] intent(2) row(2) by (auto simp: row_ok_def)
  moreover have "row_ok ?reg row" using row by (simp add: row_ok_def)
  moreover have "count_where (active_of v) [row] = 0" for v using row(6) by (simp add: active_of_def)
  ultimately have "avatars_ok ?reg db'" using avatars_ok_mono [OF le ok] by (simp add: row(1) avatars_ok_def)
  moreover have "issued_ok ?reg" using intent(3) row(5) by (auto simp: avatar_inv_def issued_ok_def)
  moreover have "list_all (check_ok ?reg) (as_finalizing s)"
    using intent(3) check_ok_mono [OF le] by (auto simp: avatar_inv_def list_all_iff)
  ultimately show ?case by (simp add: avatar_inv_def)
next
  case (check_passes env u key sha s c db')
  from finalize_check_passes [OF check_passes(1)] have c: "ck_avatar c \<in> set (ad_avatars (as_db s))" "av_userId (ck_avatar c) = u" by blast+
  have "avatars_ok (as_reg s) (as_db s)" using check_passes(2) by (simp add: avatar_inv_def)
  from find_avatar_row [OF this c(1)] c(2) have "check_ok (as_reg s) (u, c)" by (simp add: row_ok_def check_ok_def)
  with check_passes(2) show ?case by (simp add: avatar_inv_def)
next
  case (check_fails env u key sha s e db')
  from finalize_check_fails [OF check_fails(1)] check_fails(2) show ?case
    by (auto simp: avatar_inv_def mark_failed_ok)
next
  case (commit u c s env)
  then have "check_ok (as_reg s) (u, c)" by (auto simp: avatar_inv_def list_all_iff)
  with commit show ?case
    by (auto simp: avatar_inv_def finalize_commit_ok list_all_iff dest: notin_set_remove1 set_remove1_subset [THEN subsetD])
qed (simp_all add: avatar_inv_def avatar_delete_ok)

definition avatar_init :: "avatar_sys \<Rightarrow> bool" where
  "avatar_init s \<longleftrightarrow> ad_avatars (as_db s) = [] \<and> ad_variants (as_db s) = [] \<and> as_reg s = Map.empty \<and> as_finalizing s = []"

lemma avatar_init_inv: "avatar_init s \<Longrightarrow> avatar_inv s"
  by (simp add: avatar_init_def avatar_inv_def issued_ok_def avatars_ok_def)

interpretation avatars: invariant_system avatar_init avatar_step avatar_inv
  by unfold_locales (auto intro: avatar_step_inv avatar_init_inv)


section \<open>Users stay apart\<close>

definition below_prefix :: "ident \<Rightarrow> string \<Rightarrow> bool" where
  "below_prefix v k \<longleftrightarrow> take (length (user_prefix v)) k = user_prefix v"

text \<open>What belongs to a user: his rows, his profile, and the objects under his prefix.\<close>

definition avatars_owned_by :: "ident \<Rightarrow> avatar_db \<Rightarrow> avatar_row list \<times> string option option \<times> (string \<Rightarrow> bytes option)" where
  "avatars_owned_by v db = (filter (\<lambda>a. av_userId a = v) (ad_avatars db), ad_profiles db v,
     (\<lambda>k. if below_prefix v k then ad_objects db k else None))"

lemma prefix_apart:
  assumes "u \<noteq> v" and "CHR ''/'' \<notin> set u" and "CHR ''/'' \<notin> set v"
  shows "\<not> below_prefix v (user_prefix u @ rest)"
proof
  assume "below_prefix v (user_prefix u @ rest)"
  then have "user_prefix u @ rest = user_prefix v @ drop (length (user_prefix v)) (user_prefix u @ rest)"
    unfolding below_prefix_def by (metis append_take_drop_id)
  then obtain t where "u @ CHR ''/'' # rest = v @ CHR ''/'' # t" by (auto simp: user_prefix_def)
  then have "takeWhile (\<lambda>c. c \<noteq> CHR ''/'') (u @ CHR ''/'' # rest) = takeWhile (\<lambda>c. c \<noteq> CHR ''/'') (v @ CHR ''/'' # t)" by simp
  moreover have "takeWhile (\<lambda>c. c \<noteq> CHR ''/'') (w @ CHR ''/'' # r) = w" if "CHR ''/'' \<notin> set w" for w r
    using that by (induction w) auto
  ultimately show False using assms by simp
qed

text \<open>The keys that a user's rows and variants name.\<close>

definition users_key :: "ident \<Rightarrow> string \<Rightarrow> bool" where
  "users_key u k \<longleftrightarrow> (\<exists>rest. k = user_prefix u @ rest)"

lemma users_key_append: "users_key u k \<Longrightarrow> users_key u (k @ x)"
  by (auto simp: users_key_def)

lemma filter_update_others:
  assumes "\<And>x. x \<in> set xs \<Longrightarrow> p x \<Longrightarrow> \<not> q x" and "\<And>x. q (f x) = q x"
  shows "filter q (update_where p f xs) = filter q xs"
  using assms(1) by (induction xs) (auto simp: assms(2))

lemma filter_delete_others:
  assumes "\<And>x. x \<in> set xs \<Longrightarrow> p x \<Longrightarrow> \<not> q x"
  shows "filter q (delete_where p xs) = filter q xs"
  using assms by (induction xs) (auto simp: delete_where_def)

lemma owned_rows:
  assumes "filter (\<lambda>a. av_userId a = v) (ad_avatars db') = filter (\<lambda>a. av_userId a = v) (ad_avatars db)"
    and "ad_profiles db' v = ad_profiles db v" and "ad_objects db' = ad_objects db"
  shows "avatars_owned_by v db' = avatars_owned_by v db"
  using assms by (simp add: avatars_owned_by_def cong: if_cong)

lemma owned_delete_objects:
  assumes "\<And>k. k \<in> set ks \<Longrightarrow> \<not> below_prefix v k"
  shows "avatars_owned_by v (delete_objects ks db) = avatars_owned_by v db"
  using assms by (auto simp: avatars_owned_by_def deleted_objects fun_eq_iff)

lemma owned_written:
  assumes "\<And>x. \<not> below_prefix v (k @ x)"
  shows "avatars_owned_by v (write_variants k d db) = avatars_owned_by v db"
  using assms [of "[]"] assms [of "''_thumb''"] assms [of "''_medium''"]
  by (auto simp: avatars_owned_by_def written_objects fun_eq_iff)

lemma owned_profile: "u \<noteq> v \<Longrightarrow> avatars_owned_by v (db\<lparr>ad_profiles := (ad_profiles db)(u := p)\<rparr>) = avatars_owned_by v db"
  by (simp add: avatars_owned_by_def cong: if_cong)

lemma owned_update:
  assumes ok: "avatars_ok reg db" and i: "reg i = Some (u, k)" and "u \<noteq> v" and "\<And>a. av_userId (f a) = av_userId a"
  shows "avatars_owned_by v (update_avatar i f db) = avatars_owned_by v db"
proof -
  have "av_userId a = u" if "a \<in> set (ad_avatars db)" "av_id a = i" for a
    using find_avatar_row [OF ok that(1)] that(2) i by (simp add: row_ok_def)
  then have "filter (\<lambda>a. av_userId a = v) (update_where (\<lambda>a. av_id a = i) f (ad_avatars db)) = filter (\<lambda>a. av_userId a = v) (ad_avatars db)"
    using assms(3,4) by (intro filter_update_others) auto
  then show ?thesis by (intro owned_rows) (simp_all add: update_avatar_def)
qed

lemma owned_retire:
  assumes "u \<noteq> v"
  shows "avatars_owned_by v (retire_active now u i db) = avatars_owned_by v db"
proof -
  have "filter (\<lambda>a. av_userId a = v) (update_where (\<lambda>a. av_userId a = u \<and> av_status a = AvActive)
      (\<lambda>a. a\<lparr>av_status := AvPending, av_replacedAt := Some now, av_replacedById := Some i\<rparr>) (ad_avatars db))
    = filter (\<lambda>a. av_userId a = v) (ad_avatars db)" by (rule filter_update_others) (use assms in auto)
  then show ?thesis by (intro owned_rows) (simp_all add: retire_active_def)
qed

lemma owned_promote:
  assumes ok: "avatars_ok reg db" and c: "check_ok reg (u, c)" and "u \<noteq> v" and run: "promote env u c db = Some db'"
  shows "avatars_owned_by v db' = avatars_owned_by v db"
proof -
  let ?i = "av_id (ck_avatar c)"
  from c have i: "reg ?i = Some (u, av_storageKey (ck_avatar c))" by (simp add: check_ok_def)
  from run have "avatars_owned_by v db' = avatars_owned_by v (activate (ae_now env) c (retire_active (ae_now env) u ?i db))"
    by (auto simp: promote_def Let_def avatars_owned_by_def split: if_splits)
  also have "\<dots> = avatars_owned_by v (retire_active (ae_now env) u ?i db)"
    unfolding activate_def by (rule owned_update [OF retire_active_ok(1) [OF ok i] i assms(3)]) simp
  also have "\<dots> = avatars_owned_by v db" using assms(3) by (rule owned_retire)
  finally show ?thesis .
qed

lemma owned_commit:
  assumes ok: "avatars_ok reg db" and issued: "issued_ok reg" and c: "check_ok reg (u, c)"
    and apart: "u \<noteq> v" "CHR ''/'' \<notin> set u" "CHR ''/'' \<notin> set v"
  shows "avatars_owned_by v (snd (finalize_commit env u c db)) = avatars_owned_by v db"
proof -
  have "users_key u (av_storageKey (ck_avatar c))"
    using user_key_issued [OF issued] c by (auto simp: check_ok_def users_key_def)
  then have "\<not> below_prefix v (av_storageKey (ck_avatar c) @ x)" for x
    using prefix_apart [OF apart] users_key_append by (auto simp: users_key_def)
  then have written: "avatars_owned_by v (written_by c db) = avatars_owned_by v db" by (rule owned_written)
  show ?thesis
  proof (cases "promote env u c (written_by c db)")
    case None
    with written show ?thesis by (simp add: finalize_commit_rolled_back)
  next
    case (Some db2)
    have ok1: "avatars_ok reg (written_by c db)" using ok by simp
    from finalize_commit_done [OF Some] obtain ks p where
      result: "snd (finalize_commit env u c db) = delete_objects ks (db2\<lparr>ad_profiles := (ad_profiles db2)(u := p)\<rparr>)"
      and keys: "\<And>k. k \<in> set ks \<Longrightarrow> \<exists>a \<in> set (ad_avatars db2). av_userId a = u \<and> av_storageKey a = k" by blast
    have "\<not> below_prefix v k" if "k \<in> set ks" for k
    proof -
      from keys [OF that] obtain a where a: "a \<in> set (ad_avatars db2)" "av_userId a = u" "av_storageKey a = k" by blast
      from find_avatar_row [OF promote_ok [OF ok1 c Some] a(1)] user_key_issued [OF issued] a(2,3)
      have "users_key u k" by (auto simp: row_ok_def users_key_def)
      with prefix_apart [OF apart] show ?thesis by (auto simp: users_key_def)
    qed
    note gone = owned_delete_objects [of ks v, OF this]
    show ?thesis
      by (simp only: result gone owned_profile [OF apart(1)] owned_promote [OF ok1 c apart(1) Some] written)
  qed
qed

lemma owned_remove:
  assumes ok: "avatars_ok reg db" and i: "reg i = Some (u, k)" and "u \<noteq> v"
  shows "avatars_owned_by v (remove_avatar u i db) = avatars_owned_by v db"
proof -
  let ?rows = "delete_where (\<lambda>a. av_id a = i) (ad_avatars db)"
  have row: "row_ok reg a" if "a \<in> set (ad_avatars db)" for a by (rule find_avatar_row [OF ok that])
  have "av_userId a \<noteq> v" if "a \<in> set ?rows" "av_replacedById a = Some i" for a
    using row [of a] that i assms(3) by (auto simp: row_ok_def)
  then have "filter (\<lambda>a. av_userId a = v) (update_where (\<lambda>a. av_replacedById a = Some i) (\<lambda>a. a\<lparr>av_replacedById := None\<rparr>) ?rows)
      = filter (\<lambda>a. av_userId a = v) ?rows" by (intro filter_update_others) auto
  also have "\<dots> = filter (\<lambda>a. av_userId a = v) (ad_avatars db)"
  proof (rule filter_delete_others)
    show "av_userId a \<noteq> v" if "a \<in> set (ad_avatars db)" "av_id a = i" for a
      using row [OF that(1)] that(2) i assms(3) by (simp add: row_ok_def)
  qed
  finally show ?thesis using assms(3) by (intro owned_rows) (simp_all add: remove_avatar_def)
qed

lemma owned_delete:
  assumes ok: "avatars_ok reg db" and issued: "issued_ok reg"
    and apart: "u \<noteq> v" "CHR ''/'' \<notin> set u" "CHR ''/'' \<notin> set v"
  shows "avatars_owned_by v (snd (avatar_delete env u db)) = avatars_owned_by v db"
proof -
  obtain ks i where res: "snd (avatar_delete env u db) = delete_objects ks db \<or> snd (avatar_delete env u db) = remove_avatar u i (delete_objects ks db)"
    and from_row: "ks = [] \<and> snd (avatar_delete env u db) = db \<or> (\<exists>a \<in> set (ad_avatars db). av_userId a = u \<and> av_id a = i
       \<and> ks = map va_storageKey (variants_of i db) @ [av_storageKey a])"
    using avatar_delete_cases [of env u db] by blast
  from from_row show ?thesis
  proof (elim disjE bexE conjE)
    assume "snd (avatar_delete env u db) = db"
    then show ?thesis by simp
  next
    fix a assume a: "a \<in> set (ad_avatars db)" "av_userId a = u" "av_id a = i"
      and ks: "ks = map va_storageKey (variants_of i db) @ [av_storageKey a]"
    from find_avatar_row [OF ok a(1)] a have i: "reg i = Some (u, av_storageKey a)" by (simp add: row_ok_def)
    with user_key_issued [OF issued] have key: "users_key u (av_storageKey a)" by (auto simp: users_key_def)
    have "users_key u k" if "k \<in> set ks" for k
    proof (cases "k = av_storageKey a")
      case False
      with that ks obtain w where w: "w \<in> set (ad_variants db)" "va_avatarId w = i" "va_storageKey w = k"
        by (auto simp: variants_of_def)
      with ok have "variant_ok reg w" by (simp add: avatars_ok_def list_all_iff)
      with w i have "\<exists>x. k = av_storageKey a @ x" by (auto simp: variant_ok_def)
      with key show ?thesis by (auto intro: users_key_append)
    qed (use key in simp)
    then have "\<not> below_prefix v k" if "k \<in> set ks" for k
      using that prefix_apart [OF apart] by (auto simp: users_key_def)
    note gone = owned_delete_objects [of ks v, OF this]
    have "avatars_ok reg (delete_objects ks db)" using ok by simp
    from res gone owned_remove [OF this i apart(1)] show ?thesis by (elim disjE) simp_all
  qed
qed

lemma owned_check:
  assumes ok: "avatars_ok reg db" and "u \<noteq> v" and run: "finalize_check env u key sha db = (Inl e, db')"
  shows "avatars_owned_by v db' = avatars_owned_by v db"
  using finalize_check_fails [OF run]
proof (elim disjE exE conjE)
  fix a reason assume a: "a \<in> set (ad_avatars db)" "av_userId a = u"
    and res: "db' = update_avatar (av_id a) (\<lambda>a. a\<lparr>av_status := AvFailed, av_scanResult := Some ''rejected'', av_scanReason := Some reason\<rparr>) db"
  from find_avatar_row [OF ok a(1)] a(2) have i: "reg (av_id a) = Some (u, av_storageKey a)" by (simp add: row_ok_def)
  show ?thesis unfolding res by (rule owned_update [OF ok i assms(2)]) simp
qed simp

lemma owned_finalize:
  assumes ok: "avatars_ok reg db" and issued: "issued_ok reg"
    and apart: "u \<noteq> v" "CHR ''/'' \<notin> set u" "CHR ''/'' \<notin> set v"
  shows "avatars_owned_by v (snd (avatar_finalize env u key sha db)) = avatars_owned_by v db"
proof -
  obtain r db' where run: "finalize_check env u key sha db = (r, db')" by fastforce
  show ?thesis
  proof (cases r)
    case (Inl e)
    with owned_check [OF ok apart(1)] run show ?thesis by (simp add: avatar_finalize_def)
  next
    case (Inr c)
    with run have run': "finalize_check env u key sha db = (Inr c, db')" by simp
    from finalize_check_passes [OF this] have "ck_avatar c \<in> set (ad_avatars db)" "av_userId (ck_avatar c) = u" "db' = db" by blast+
    with find_avatar_row [OF ok] have "check_ok reg (u, c)" by (auto simp: row_ok_def check_ok_def)
    from owned_commit [OF ok issued this apart] run' \<open>db' = db\<close> show ?thesis by (simp add: avatar_finalize_def)
  qed
qed

text \<open>
  C11. Users cannot touch each other's avatars. In every reachable state, whatever a user asks for, an upload intent, a finalization (at once or in two halves) or a deletion,
  and however it ends, the avatars of another user, that user's profile and the objects stored under that user's prefix stay as they are.
\<close>

theorem avatars_stay_apart:
  assumes "avatar_init s0" and "reaches avatar_step s0 s"
    and "u \<noteq> v" and "CHR ''/'' \<notin> set u" and "CHR ''/'' \<notin> set v"
  shows "avatars_owned_by v (snd (avatar_createUploadIntent env u t name n (as_db s))) = avatars_owned_by v (as_db s)
    \<and> avatars_owned_by v (snd (avatar_finalize env u key sha (as_db s))) = avatars_owned_by v (as_db s)
    \<and> list_all (\<lambda>(w, c). w \<noteq> u \<or> avatars_owned_by v (snd (finalize_commit env u c (as_db s))) = avatars_owned_by v (as_db s)) (as_finalizing s)
    \<and> avatars_owned_by v (snd (avatar_delete env u (as_db s))) = avatars_owned_by v (as_db s)"
proof -
  from avatars.inv_reachable [OF assms(1,2)] have ok: "avatars_ok (as_reg s) (as_db s)" and issued: "issued_ok (as_reg s)"
    and checks: "list_all (check_ok (as_reg s)) (as_finalizing s)" by (simp_all add: avatar_inv_def)
  have "avatars_owned_by v (snd (avatar_createUploadIntent env u t name n (as_db s))) = avatars_owned_by v (as_db s)"
  proof (cases "avatar_createUploadIntent env u t name n (as_db s)")
    case (Pair r db')
    show ?thesis
    proof (cases r)
      case (Inl e)
      with Pair have "db' = as_db s" by (auto simp: avatar_createUploadIntent_def createSignedUpload_def Let_def split: if_splits)
      with Pair show ?thesis by simp
    next
      case (Inr i)
      with intent_result [of env u t name n "as_db s" i db'] Pair assms(3) show ?thesis
        by (auto simp: avatars_owned_by_def cong: if_cong)
    qed
  qed
  moreover have "list_all (\<lambda>(w, c). w \<noteq> u \<or> avatars_owned_by v (snd (finalize_commit env u c (as_db s))) = avatars_owned_by v (as_db s)) (as_finalizing s)"
    using checks owned_commit [OF ok issued _ assms(3-5)] by (auto simp: list_all_iff)
  ultimately show ?thesis
    using owned_finalize [OF ok issued assms(3-5)] owned_delete [OF ok issued assms(3-5)] by blast
qed

section \<open>What is left behind, and what is missing\<close>

lemma empty_store_check:
  assumes "ad_objects db = Map.empty"
  shows "\<exists>e. finalize_check env u key sha db = (Inl e, db) \<and> (e = AvatarThrown \<or> (\<exists>n m. e = AvatarRejected n m \<and> n \<noteq> 200))"
  using assms by (simp add: finalize_check_def readBytes_def split: list.split option.split)

lemma empty_store_delete:
  assumes "ad_objects db = Map.empty"
  shows "ad_objects (snd (avatar_delete env u db)) = Map.empty"
proof -
  have gone: "ad_objects (delete_objects ks db) = Map.empty" for ks using assms by (simp add: fun_eq_iff deleted_objects)
  obtain ks i where "snd (avatar_delete env u db) = delete_objects ks db \<or> snd (avatar_delete env u db) = remove_avatar u i (delete_objects ks db)"
    using avatar_delete_cases [of env u db] by blast
  then show ?thesis using gone by (elim disjE) (simp_all add: remove_avatar_def)
qed

lemma answered_state: "snd (avatar_answer k wrap outcome) = snd outcome"
  by (cases outcome) (auto simp: avatar_answer_def split: sum.split avatar_error.split)

text \<open>
  No route stores the bytes of an upload. The upload URL is a placeholder and the only writes to the object store are the variants of an avatar
  whose bytes were read from it, so from an empty store no request ever finalizes an avatar, and the store stays empty.
\<close>

theorem uploads_have_no_route:
  assumes "ad_objects db = Map.empty"
  shows "ad_objects (snd (createUploadIntent_route env user body db)) = Map.empty
    \<and> reply_status (fst (finalize_route env user body db)) \<noteq> 200 \<and> ad_objects (snd (finalize_route env user body db)) = Map.empty
    \<and> ad_objects (snd (deleteAvatar_route env user db)) = Map.empty"
proof -
  have finalize: "reply_status (fst (avatar_answer 200 FinalizedData (avatar_finalize env u key sha db))) \<noteq> 200
      \<and> snd (avatar_answer 200 FinalizedData (avatar_finalize env u key sha db)) = db" for u key sha
    using empty_store_check [OF assms, of env u key sha] by (auto simp: avatar_finalize_def avatar_answer_def internal_error_def)
  have intent: "ad_objects (snd (avatar_createUploadIntent env u t name n db)) = Map.empty" for u t name n
    using assms by (simp add: avatar_createUploadIntent_def createSignedUpload_def Let_def)
  show ?thesis
  proof (cases "user_id user")
    case None
    with assms show ?thesis
      by (simp add: createUploadIntent_route_def finalize_route_def deleteAvatar_route_def unauthorized_def)
  next
    case (Some u)
    have "ad_objects (snd (createUploadIntent_route env user body db)) = Map.empty"
      using assms intent Some by (simp add: createUploadIntent_route_def answered_state split: option.split)
    moreover have "reply_status (fst (finalize_route env user body db)) \<noteq> 200 \<and> ad_objects (snd (finalize_route env user body db)) = Map.empty"
      using assms finalize Some by (simp add: finalize_route_def validation_failed_def split: option.split)
    moreover have "snd (deleteAvatar_route env user db) = snd (avatar_delete env u db)"
      using Some by (simp add: deleteAvatar_route_def split: prod.split sum.split avatar_error.split)
    ultimately show ?thesis using empty_store_delete [OF assms] by simp
  qed
qed

section \<open>Witnesses\<close>

definition demo_avatar_env :: avatar_env where
  "demo_avatar_env = \<lparr>ae_now = 7, ae_newId = ''b'', ae_iso = (\<lambda>_. ''t''), ae_sha256 = (\<lambda>_. ''''), ae_details = JNull, ae_fails = (\<lambda>_. False)\<rparr>"

definition demo_avatar :: "ident \<Rightarrow> avatar_status \<Rightarrow> avatar_row" where
  "demo_avatar i status = \<lparr>av_id = i, av_userId = ''u'', av_storageKey = avatar_key ''u'' i ''x'', av_originalName = None,
     av_contentType = ''image/webp'', av_detectedMime = None, av_originalBytes = 1024, av_status = status, av_scanResult = None,
     av_scanReason = None, av_width = None, av_height = None, av_variantCount = 0, av_createdAt = 0, av_finalizedAt = None,
     av_replacedAt = None, av_replacedById = None, av_archivedAt = None\<rparr>"

definition demo_avatar_db :: avatar_db where
  "demo_avatar_db = write_variants (avatar_key ''u'' ''a'' ''x'') (ascii ''RIFF'') (writeBytes (avatar_key ''u'' ''b'' ''x'') (ascii ''RIFF'')
     \<lparr>ad_avatars = [demo_avatar ''a'' AvActive, demo_avatar ''b'' AvPending], ad_variants = [], ad_profiles = (\<lambda>_. None), ad_objects = Map.empty\<rparr>)"

lemma riff_validated: "validateAvatarBytes (ascii ''RIFF'') ''image/webp'' (Some 1024) =
    \<lparr>vr_ok = True, vr_detectedMime = Some ''image/webp'', vr_dimensions = None, vr_error = None\<rparr>"
proof -
  have "normalised_mime ''image/webp'' = ''image/webp''" "''image/webp'' \<in> set AVATAR_ALLOWED_MIME_TYPES" by code_simp+
  then show ?thesis using sniff_riff [of "[]"]
    by (simp add: validateAvatarBytes_def extractImageDimensions_def AVATAR_MIN_BYTES_def AVATAR_MAX_BYTES_def)
qed

text \<open>A replaced avatar leaves its scaled variants in the store for good; only the object of its own key is deleted.\<close>

theorem replaced_avatar_leaves_variants:
  "let (r, db) = avatar_finalize demo_avatar_env ''u'' ''avatars/u/b/x'' None demo_avatar_db
   in map (\<lambda>a. (av_id a, av_status a)) (ad_avatars db) = [(''a'', AvPending), (''b'', AvActive)]
    \<and> map (\<lambda>x. ad_objects db (avatar_key ''u'' ''a'' ''x'' @ x) = None) [[], ''_thumb'', ''_medium''] = [True, False, False]"
proof -
  let ?c = "\<lparr>ck_avatar = demo_avatar ''b'' AvPending, ck_data = ascii ''RIFF'', ck_validation =
     \<lparr>vr_ok = True, vr_detectedMime = Some ''image/webp'', vr_dimensions = None, vr_error = None\<rparr>\<rparr>"
  have objects: "ad_objects demo_avatar_db (avatar_key ''u'' ''b'' ''x'') = Some (ascii ''RIFF'')"
    by (simp add: demo_avatar_db_def written_objects writeBytes_def avatar_key_def)
  have rows: "ad_avatars demo_avatar_db = [demo_avatar ''a'' AvActive, demo_avatar ''b'' AvPending]"
    by (simp add: demo_avatar_db_def)
  have "split_on (CHR ''/'') ''avatars/u/b/x'' = [''avatars'', ''u'', ''b'', ''x'']" by simp
  then have check: "finalize_check demo_avatar_env ''u'' ''avatars/u/b/x'' None demo_avatar_db = (Inr ?c, demo_avatar_db)"
    using objects by (simp add: finalize_check_def demo_avatar_env_def find_avatar_def rows readBytes_def riff_validated demo_avatar_def)
  have "avatar_finalize demo_avatar_env ''u'' ''avatars/u/b/x'' None demo_avatar_db = finalize_commit demo_avatar_env ''u'' ?c demo_avatar_db"
    by (simp add: avatar_finalize_def check)
  then show ?thesis
    by (simp add: finalize_commit_def promote_def Let_def demo_avatar_env_def find_avatar_def rows fits_column_def
        retired_by_def activate_def update_avatar_def retire_active_def deleted_objects written_objects demo_avatar_def demo_avatar_db_def
        avatar_key_def user_prefix_def update_where_def)
qed

definition demo_avatar_start :: avatar_sys where
  "demo_avatar_start = \<lparr>as_db = \<lparr>ad_avatars = [], ad_variants = [], ad_profiles = (\<lambda>_. None), ad_objects = Map.empty\<rparr>,
     as_reg = Map.empty, as_finalizing = []\<rparr>"

lemma demo_avatar_init: "avatar_init demo_avatar_start"
  by (simp add: avatar_init_def demo_avatar_start_def)

lemma demo_mime: "normalised_mime ''image/png'' = ''image/png''" "''image/png'' \<in> set AVATAR_ALLOWED_MIME_TYPES"
  and demo_name: "safeName None = ''avatar''"
  by code_simp+

lemma demo_intent_step:
  "avatar_createUploadIntent demo_avatar_env ''u'' ''image/png'' None None (as_db demo_avatar_start) =
     (Inr \<lparr>ui_uploadKey = ''avatars/u/b/avatar'', ui_uploadUrl = ''data:placeholder/avatars/u/b/avatar'', ui_expiresAt = ''t''\<rparr>,
      snd (avatar_createUploadIntent demo_avatar_env ''u'' ''image/png'' None None (as_db demo_avatar_start)))"
proof -
  have "fst (avatar_createUploadIntent demo_avatar_env ''u'' ''image/png'' None None (as_db demo_avatar_start)) =
     Inr \<lparr>ui_uploadKey = ''avatars/u/b/avatar'', ui_uploadUrl = ''data:placeholder/avatars/u/b/avatar'', ui_expiresAt = ''t''\<rparr>"
    by (simp add: avatar_createUploadIntent_def Let_def demo_mime demo_name createSignedUpload_def avatar_key_def user_prefix_def find_avatar_def
        demo_avatar_env_def demo_avatar_start_def)
  then show ?thesis by (intro prod_eqI) simp_all
qed

abbreviation demo_issued :: avatar_sys where
  "demo_issued \<equiv> demo_avatar_start\<lparr>as_db := snd (avatar_createUploadIntent demo_avatar_env ''u'' ''image/png'' None None (as_db demo_avatar_start)),
     as_reg := (as_reg demo_avatar_start)(ae_newId demo_avatar_env \<mapsto> (''u'', ''avatars/u/b/avatar''))\<rparr>"

lemma demo_issued_reachable: "reaches avatar_step demo_avatar_start demo_issued"
proof (rule reaches_one)
  have "as_reg demo_avatar_start (ae_newId demo_avatar_env) = None" by (simp add: demo_avatar_start_def)
  from intent [OF demo_intent_step this] show "avatar_step demo_avatar_start demo_issued" by simp
qed


theorem avatars_stay_apart_witness:
  "avatars_owned_by ''u'' (snd (avatar_finalize demo_avatar_env ''v'' ''avatars/u/b/avatar'' None (as_db demo_issued))) = avatars_owned_by ''u'' (as_db demo_issued)"
  using avatars_stay_apart [OF demo_avatar_init demo_issued_reachable, of "''v''" "''u''"] by simp

theorem uploads_have_no_route_witness:
  "reply_status (fst (finalize_route demo_avatar_env None JNull (as_db demo_avatar_start))) \<noteq> 200"
  using uploads_have_no_route [of "as_db demo_avatar_start" demo_avatar_env None JNull] by (simp add: demo_avatar_start_def)

end
