(* ===== verification/Background.thy ===== *)
theory Background
  imports Scheduler Relay DataExports Funding "HOL-Library.Product_Lexorder"
begin

text \<open>
  The queues the scheduler drives, \<open>src/src/workers/queue-registry.ts\<close>: each has a name, a drain and a probe
  of its depth. The drains are the runs of \<open>RetryQueues\<close>, \<open>Funding\<close>, \<open>DataExports\<close> and \<open>Relay\<close> on one
  database, \<open>background_db\<close>; what they ask of providers is \<open>background_env\<close>. The three queries of a probe
  read one state of the tables.
\<close>

section \<open>Depth probes\<close>

text \<open>An ascending order of a nullable column has the rows without a value last.\<close>

definition nulls_last :: "time option \<Rightarrow> bool \<times> time" where
  "nulls_last t = (case t of None \<Rightarrow> (True, 0) | Some u \<Rightarrow> (False, u))"

definition due_where :: "('r \<Rightarrow> bool) \<Rightarrow> ('r \<Rightarrow> time option) \<Rightarrow> time \<Rightarrow> 'r \<Rightarrow> bool" where
  "due_where pending dueField now r \<longleftrightarrow> pending r \<and> (case dueField r of None \<Rightarrow> True | Some t \<Rightarrow> t \<le> now)"

definition delegateDepth :: "('r \<Rightarrow> bool) \<Rightarrow> ('r \<Rightarrow> time option) \<Rightarrow> time \<Rightarrow> 'r list \<Rightarrow> depth_snapshot" where
  "delegateDepth pending dueField now rows =
     \<lparr>ds_depth = int (count_where pending rows),
      ds_due = int (count_where (due_where pending dueField now) rows),
      ds_oldestDueAt =
        (case first_by (\<lambda>r. nulls_last (dueField r)) (due_where pending dueField now) rows of
           None \<Rightarrow> None | Some r \<Rightarrow> dueField r)\<rparr>"

definition outbox_depth :: "outbox_event list \<Rightarrow> depth_snapshot" where
  "outbox_depth es =
     (let depth = int (count_where (\<lambda>e. oe_status e = EvPending) es) in
      \<lparr>ds_depth = depth, ds_due = depth,
       ds_oldestDueAt = (case first_by oe_createdAt (\<lambda>e. oe_status e = EvPending) es of
           None \<Rightarrow> None | Some e \<Rightarrow> Some (oe_createdAt e))\<rparr>)"

section \<open>The queues\<close>

record background_db =
  bg_lifecycle :: lifecycle_db
  bg_notifications :: notification_db
  bg_webhooks :: webhook_db
  bg_funding :: funding_db
  bg_outbox :: outbox_db

record background_env =
  be_now :: time
  be_mailer :: mailer
  be_firebase :: firebase
  be_hmac :: hmac
  be_http :: http
  be_fundingConfig :: funding_config
  be_stellar :: stellar_api
  be_export :: data_export_env
  be_finalizeFault :: "ident \<Rightarrow> string option"
  be_randomHex :: "ident \<Rightarrow> string"
  be_relay :: relay_config
  be_relayFresh :: nat

record default_queue =
  dq_name :: string
  dq_drain :: "background_env \<Rightarrow> (background_db, string, unit) step"
  dq_inspect :: "time \<Rightarrow> background_db \<Rightarrow> depth_snapshot"

definition drain_emails :: "background_env \<Rightarrow> (background_db, string, unit) step" where
  "drain_emails env db = (Inr (), db\<lparr>bg_lifecycle := (bg_lifecycle db)
     \<lparr>lc_emails := email_processQueue (be_mailer env) (be_now env) (lc_emails (bg_lifecycle db))\<rparr>\<rparr>)"

text \<open>A failure of the export run skips the purge.\<close>

definition drain_exports :: "background_env \<Rightarrow> (background_db, string, unit) step" where
  "drain_exports env db =
     (case export_processQueue (be_export env) (bg_lifecycle db) of
        (Inl err, lc) \<Rightarrow> (Inl err, db\<lparr>bg_lifecycle := lc\<rparr>)
      | (Inr _, lc) \<Rightarrow> (Inr (), db\<lparr>bg_lifecycle := snd (export_purgeExpired (be_now env) lc)\<rparr>))"

definition drain_outbox :: "background_env \<Rightarrow> (background_db, string, unit) step" where
  "drain_outbox env db =
     (case relay_runOnce (be_relay env) (be_now env) (be_relayFresh env) (bg_outbox db) of
        (Inl err, ob) \<Rightarrow> (Inl (error_message err), db\<lparr>bg_outbox := ob\<rparr>)
      | (Inr _, ob) \<Rightarrow> (Inr (), db\<lparr>bg_outbox := ob\<rparr>))"

definition createDefaultQueues :: "default_queue list" where
  "createDefaultQueues =
     [\<lparr>dq_name = ''email'', dq_drain = drain_emails,
       dq_inspect = (\<lambda>now db. delegateDepth (\<lambda>d. em_status d = EmailPending) em_nextAttemptAt now
                      (lc_emails (bg_lifecycle db)))\<rparr>,
      \<lparr>dq_name = ''notification'',
       dq_drain = (\<lambda>env db. (Inr (), db\<lparr>bg_notifications :=
          push_processQueue (be_firebase env) (be_now env) (bg_notifications db)\<rparr>)),
       dq_inspect = (\<lambda>now db. delegateDepth (\<lambda>l. nl_status l = PushPending) nl_nextAttemptAt now
                      (nd_logs (bg_notifications db)))\<rparr>,
      \<lparr>dq_name = ''webhook'',
       dq_drain = (\<lambda>env db. (Inr (), db\<lparr>bg_webhooks :=
          hook_processQueue (be_hmac env) (be_http env) (be_now env) (bg_webhooks db)\<rparr>)),
       dq_inspect = (\<lambda>now db. delegateDepth (\<lambda>d. wd_status d = HookPending) wd_nextAttemptAt now
                      (wh_deliveries (bg_webhooks db)))\<rparr>,
      \<lparr>dq_name = ''stellar-funding'',
       dq_drain = (\<lambda>env db. (Inr (), db\<lparr>bg_funding :=
          funding_processQueue (be_fundingConfig env) (be_stellar env) (be_now env) (bg_funding db)\<rparr>)),
       dq_inspect = (\<lambda>now db. delegateDepth (\<lambda>r. fn_status r \<in> {FundPending, FundSubmitted}) fn_nextAttemptAt now
                      (fd_rows (bg_funding db)))\<rparr>,
      \<lparr>dq_name = ''data-export'', dq_drain = drain_exports,
       dq_inspect = (\<lambda>now db. delegateDepth (\<lambda>r. xr_status r = ExportPending) xr_nextAttemptAt now
                      (lc_exports (bg_lifecycle db)))\<rparr>,
      \<lparr>dq_name = ''outbox-relay'', dq_drain = drain_outbox,
       dq_inspect = (\<lambda>now db. outbox_depth (events (bg_outbox db)))\<rparr>,
      \<lparr>dq_name = ''account-lifecycle'',
       dq_drain = (\<lambda>env db. (Inr (), db\<lparr>bg_lifecycle :=
          finalize_due (be_finalizeFault env) (be_randomHex env) (be_now env) (bg_lifecycle db)\<rparr>)),
       dq_inspect = (\<lambda>now db. delegateDepth (\<lambda>r. dr_status r = DelPending) (\<lambda>r. Some (dr_scheduledFor r)) now
                      (ac_requests (lc_account (bg_lifecycle db))))\<rparr>]"

text \<open>One tick of such a queue, under its lease: the drain runs unless the lease was not granted.\<close>

definition as_scheduled :: "background_env \<Rightarrow> background_db \<Rightarrow> default_queue \<Rightarrow> scheduled_queue" where
  "as_scheduled env db q =
     \<lparr>sq_name = dq_name q, sq_drain = (\<lambda>leases. (fst (dq_drain q env db), leases)),
      sq_inspect = Inr (dq_inspect q (be_now env) db)\<rparr>"

definition background_tick ::
    "scheduler_config \<Rightarrow> background_env \<Rightarrow> time \<Rightarrow> ident \<Rightarrow> string option \<Rightarrow> default_queue \<Rightarrow>
     runner_state \<times> background_db \<Rightarrow> tick_outcome \<times> runner_state \<times> background_db" where
  "background_tick cfg env done_at token outage q s =
     (case runQueue cfg (be_now env) done_at token outage (as_scheduled env (snd s) q) (fst s) of
        (outcome, rn) \<Rightarrow>
          (outcome, rn, if outcome = Skipped \<or> outage \<noteq> None then snd s else snd (dq_drain q env (snd s))))"

section \<open>Properties\<close>

text \<open>What a probe reports of a table.\<close>

lemma nulls_last_le: "nulls_last (Some t) \<le> nulls_last (Some u) \<longleftrightarrow> t \<le> u"
  by (simp add: nulls_last_def)

lemma null_is_last: "\<not> nulls_last None \<le> nulls_last (Some u)"
  by (simp add: nulls_last_def)

lemma count_where_mono: "(\<And>r. r \<in> set rows \<Longrightarrow> p r \<Longrightarrow> q r) \<Longrightarrow> count_where p rows \<le> count_where q rows"
  by (induction rows) auto

lemma delegate_due_le_depth: "ds_due (delegateDepth p f now rows) \<le> ds_depth (delegateDepth p f now rows)"
  by (auto simp: delegateDepth_def due_where_def intro!: count_where_mono)

lemma delegate_oldest:
  assumes "ds_oldestDueAt (delegateDepth p f now rows) = Some t"
  shows "t \<le> now \<and> (\<exists>r \<in> set rows. p r \<and> f r = Some t)
    \<and> (\<forall>r \<in> set rows. p r \<longrightarrow> (case f r of None \<Rightarrow> True | Some u \<Rightarrow> t \<le> u))"
proof -
  from assms obtain r where r: "first_by (\<lambda>r. nulls_last (f r)) (due_where p f now) rows = Some r" "f r = Some t"
    by (auto simp: delegateDepth_def split: option.splits)
  from first_by_Some [OF r(1)] r(2) have here: "r \<in> set rows" "p r" "t \<le> now" by (auto simp: due_where_def)
  have "t \<le> u" if "x \<in> set rows" "p x" "f x = Some u" for x u
  proof (cases "u \<le> now")
    case True
    with that have "due_where p f now x" by (simp add: due_where_def)
    from first_by_least [OF r(1) that(1) this] that(3) r(2) show ?thesis by (simp add: nulls_last_def)
  next
    case False
    with here show ?thesis by simp
  qed
  with here r(2) show ?thesis by (auto split: option.split)
qed

lemma delegate_oldest_None:
  assumes "ds_oldestDueAt (delegateDepth p f now rows) = None" and "r \<in> set rows" and "due_where p f now r"
  shows "f r = None"
proof (cases "first_by (\<lambda>r. nulls_last (f r)) (due_where p f now) rows")
  case None
  with assms(2,3) show ?thesis by (auto simp: first_by_None)
next
  case (Some x)
  with assms(1) have "f x = None" by (simp add: delegateDepth_def)
  with first_by_least [OF Some assms(2,3)] show ?thesis
    by (cases "f r") (auto simp: null_is_last)
qed

end
