(* ===== verification/BackgroundProps.thy ===== *)
theory BackgroundProps
  imports Background RetryProps
begin

text \<open>
  What the depth probes of the scheduler say about the runs they announce: the figure of the mail queue is the
  number of mails the next run attempts, while a funding row whose attempts are used up is reported as due
  for ever. A worker without the lease of a queue does not touch its tables.
\<close>

section \<open>The probe of the mail queue\<close>

lemma pair_zip_map: "filter (\<lambda>(r, s). P r s) (zip rows (map f rows)) = map (\<lambda>r. (r, f r)) (filter (\<lambda>r. P r (f r)) rows)"
  by (induction rows) auto

lemma count_where_length: "count_where p rows = length (filter p rows)"
  by (simp add: count_where_def)

lemma email_settle_attempts: "em_attemptCount (email_settle mail now d d) = em_attemptCount d + 1"
  by (simp add: email_settle_def email_failure_def count_email_def split: option.split)


section \<open>The probe of the funding queue\<close>

lemma update_funding_other: "r \<in> set (fd_rows db) \<Longrightarrow> fn_id r \<noteq> i \<Longrightarrow> r \<in> set (fd_rows (update_funding i f db))"
  by (force simp: update_funding_def set_update_where)

lemma processFunding_other:
  assumes "r \<in> set (fd_rows db)" and "fn_id r \<noteq> fn_id rec"
  shows "r \<in> set (fd_rows (processFunding cfg st now rec db))"
  using assms
  by (auto simp: processFunding_def Let_def reconcile_def checkAlreadyFunded_def markConfirmed_def funding_failure_def
      update_funding_other split: option.splits prod.splits sum.splits pay_failure.splits bool.splits if_splits)

lemma fundings_other:
  assumes "r \<in> set (fd_rows db)" and "\<forall>x \<in> set recs. fn_id r \<noteq> fn_id x"
  shows "r \<in> set (fd_rows (foldl (\<lambda>s x. processFunding cfg st now x s) db recs))"
  using assms by (induction recs arbitrary: db) (auto intro: processFunding_other)

fun funding_runs :: "funding_config \<Rightarrow> (stellar_api \<times> time) list \<Rightarrow> funding_db \<Rightarrow> funding_db" where
  "funding_runs cfg [] db = db"
| "funding_runs cfg ((st, now) # rs) db = funding_runs cfg rs (funding_processQueue cfg st now db)"

lemma stuck_kept:
  assumes "r \<in> set (fd_rows db)" and "\<forall>x \<in> set (fd_rows db). fn_id x = fn_id r \<longrightarrow> x = r"
    and "fc_maxRetries cfg \<le> fn_retryCount r"
  shows "r \<in> set (fd_rows (funding_processQueue cfg st now db))"
proof -
  from assms(3) have "\<not> funding_due cfg now r" by (simp add: funding_due_def)
  with assms(2) have "\<forall>x \<in> set (filter (funding_due cfg now) (fd_rows db)). fn_id r \<noteq> fn_id x" by auto
  with assms(1) show ?thesis unfolding funding_processQueue_def by (rule fundings_other)
qed

lemma funding_ids: "map fn_id (fd_rows (update_funding i f db)) = map fn_id (fd_rows db)"
  if "\<And>r. fn_id (f r) = fn_id r"
  using that by (simp add: update_funding_def map_update_where)

lemma processFunding_ids: "map fn_id (fd_rows (processFunding cfg st now rec db)) = map fn_id (fd_rows db)"
  by (auto simp: processFunding_def Let_def reconcile_def checkAlreadyFunded_def markConfirmed_def funding_failure_def
      funding_ids confirm_row_def failure_row_def
      split: option.splits prod.splits sum.splits pay_failure.splits bool.splits if_splits)

lemma funding_run_ids: "map fn_id (fd_rows (funding_processQueue cfg st now db)) = map fn_id (fd_rows db)"
proof -
  have "map fn_id (fd_rows (foldl (\<lambda>s x. processFunding cfg st now x s) d recs)) = map fn_id (fd_rows d)" for d recs
    by (induction recs arbitrary: d) (simp_all add: processFunding_ids)
  then show ?thesis by (simp add: funding_processQueue_def)
qed

lemma stuck_stays:
  assumes "distinct (map fn_id (fd_rows db))" and "r \<in> set (fd_rows db)" and "fc_maxRetries cfg \<le> fn_retryCount r"
  shows "r \<in> set (fd_rows (funding_runs cfg rs db))"
  using assms
proof (induction cfg rs db rule: funding_runs.induct)
  case (2 cfg st now rs db)
  from "2.prems"(1,2) have "\<forall>x \<in> set (fd_rows db). fn_id x = fn_id r \<longrightarrow> x = r"
    by (auto simp: distinct_map inj_on_def)
  with "2.prems" stuck_kept have "r \<in> set (fd_rows (funding_processQueue cfg st now db))" by blast
  with "2.IH" "2.prems"(1,3) show ?case by (simp add: funding_run_ids)
qed simp

lemma due_counted:
  assumes "r \<in> set rows" and "p r" and "f r = Some t" and "t \<le> now"
  shows "1 \<le> ds_due (delegateDepth p f now rows)
    \<and> (\<exists>u. ds_oldestDueAt (delegateDepth p f now rows) = Some u \<and> u \<le> t)"
proof -
  have due: "due_where p f now r" using assms by (simp add: due_where_def)
  with assms(1) have "1 \<le> count_where (due_where p f now) rows" by (induction rows) auto
  moreover from delegate_oldest_None [OF _ assms(1) due] assms(3)
  obtain u where "ds_oldestDueAt (delegateDepth p f now rows) = Some u"
    by (cases "ds_oldestDueAt (delegateDepth p f now rows)") auto
  moreover from delegate_oldest [OF this] assms have "u \<le> t" by auto
  ultimately show ?thesis by (simp add: delegateDepth_def)
qed

text \<open>
  A funding row that used up its attempts without being settled (\<open>last_attempt_timeout_is_stuck\<close>) is
  reported as due for ever: no run of the queue touches it, so at every later time the probe counts at least one due row, and
  the lag it gives is at least the age of that row.
\<close>

theorem stuck_funding_reported_due:
  assumes "distinct (map fn_id (fd_rows (bg_funding db)))" and "r \<in> set (fd_rows (bg_funding db))"
    and "fn_status r = FundSubmitted" and "fc_maxRetries cfg \<le> fn_retryCount r"
    and "fn_nextAttemptAt r = Some t" and "t \<le> now"
    and "List.find (\<lambda>q. dq_name q = ''stellar-funding'') createDefaultQueues = Some q"
  shows "\<exists>u. 1 \<le> ds_due (dq_inspect q now (db\<lparr>bg_funding := funding_runs cfg rs (bg_funding db)\<rparr>))
    \<and> ds_oldestDueAt (dq_inspect q now (db\<lparr>bg_funding := funding_runs cfg rs (bg_funding db)\<rparr>)) = Some u \<and> u \<le> t"
proof -
  from assms(7) have "dq_inspect q now (db\<lparr>bg_funding := fb\<rparr>) =
      delegateDepth (\<lambda>r. fn_status r \<in> {FundPending, FundSubmitted}) fn_nextAttemptAt now (fd_rows fb)" for fb
    by (auto simp: createDefaultQueues_def)
  with due_counted [where p = "\<lambda>r. fn_status r \<in> {FundPending, FundSubmitted}" and f = fn_nextAttemptAt,
      OF stuck_stays [OF assms(1,2,4), of rs] _ assms(5,6)] assms(3)
  show ?thesis by auto
qed

section \<open>The lease of a queue\<close>

text \<open>
  Only the holder of the lease works: while the lease of a queue is held by another worker, a tick of the
  queue is skipped, and neither the tables of the queue nor the lease change.
\<close>

theorem tick_without_lease_idle:
  assumes "held (dq_name q) holder until (rn_leases rn)" and "be_now env < until"
  shows "case background_tick cfg env done_at token None q (rn, db) of
      (outcome, rn', db') \<Rightarrow> outcome = Skipped \<and> db' = db \<and> rn_leases rn' = rn_leases rn"
  using held_blocks [OF assms, of token "Some (leaseFor cfg (dq_name q))" "Some (sc_ownerId cfg)"]
  by (simp add: background_tick_def runQueue_def as_scheduled_def record_tick_def Let_def)

section \<open>Concrete runs\<close>

definition demo_background :: "email_delivery list \<Rightarrow> funding list \<Rightarrow> background_db" where
  "demo_background mails fundings =
     \<lparr>bg_lifecycle = \<lparr>lc_account = \<lparr>ac_users = [], ac_requests = [], ac_sessions = [], ac_audit = [], ac_tables = (\<lambda>_. [])\<rparr>,
        lc_exports = [], lc_emails = mails, lc_role = (\<lambda>_. []), lc_joined = (\<lambda>_. 0)\<rparr>,
      bg_notifications = \<lparr>nd_logs = [], nd_tokens = [], nd_prefs = (\<lambda>_. None)\<rparr>,
      bg_webhooks = \<lparr>wh_endpoints = [], wh_deliveries = []\<rparr>,
      bg_funding = \<lparr>fd_rows = fundings, fd_sent = []\<rparr>,
      bg_outbox = \<lparr>events = [], jobs = [], rolledBack = []\<rparr>\<rparr>"

definition demo_background_env :: "time \<Rightarrow> mailer \<Rightarrow> background_env" where
  "demo_background_env now mail =
     \<lparr>be_now = now, be_mailer = mail, be_firebase = None, be_hmac = (\<lambda>_ _. []), be_http = (\<lambda>_. Inl []),
      be_fundingConfig = demo_funding_config, be_stellar = timing_out, be_export = undefined,
      be_finalizeFault = (\<lambda>_. None), be_randomHex = (\<lambda>_. []), be_relay = undefined, be_relayFresh = 0\<rparr>"


definition demo_stuck :: background_db where
  "demo_stuck = demo_background [] [demo_funding\<lparr>fn_status := FundSubmitted, fn_retryCount := 5\<rparr>]"

theorem stuck_funding_reported_due_witness:
  "\<exists>q u db. List.find (\<lambda>q. dq_name q = ''stellar-funding'') createDefaultQueues = Some q
     \<and> db = demo_stuck\<lparr>bg_funding := funding_runs demo_funding_config [(timing_out, 500), (timing_out, 700)] (bg_funding demo_stuck)\<rparr>
     \<and> 1 \<le> ds_due (dq_inspect q 900 db) \<and> ds_oldestDueAt (dq_inspect q 900 db) = Some u \<and> u \<le> 0"
proof -
  obtain q where q: "List.find (\<lambda>q. dq_name q = ''stellar-funding'') createDefaultQueues = Some q"
    by (simp add: createDefaultQueues_def)
  have "demo_funding\<lparr>fn_status := FundSubmitted, fn_retryCount := 5\<rparr> \<in> set (fd_rows (bg_funding demo_stuck))"
    "distinct (map fn_id (fd_rows (bg_funding demo_stuck)))"
    by (simp_all add: demo_stuck_def demo_background_def)
  from stuck_funding_reported_due [OF this(2,1) _ _ _ _ q, of demo_funding_config 0 900
      "[(timing_out, 500), (timing_out, 700)]"] q
  show ?thesis by auto
qed

theorem tick_without_lease_idle_witness:
  "\<exists>rn'. background_tick (schedulerConfig (\<lambda>_. None) ''h'' 1) (demo_background_env 7 (\<lambda>_. None)) 8 ''mine'' None
          \<lparr>dq_name = ''email'', dq_drain = drain_emails, dq_inspect = (\<lambda>_ _. EMPTY_DEPTH)\<rparr>
          (\<lparr>rn_leases = [\<lparr>ql_queueName = ''email'', ql_leaseToken = Some ''theirs'', ql_leasedUntil = Some 100,
             ql_owner = None, ql_lastTickAt = None\<rparr>], rn_metrics = Map.empty\<rparr>, demo_background [demo_email ''1''] [])
        = (Skipped, rn', demo_background [demo_email ''1''] [])"
proof -
  let ?q = "\<lparr>dq_name = ''email'', dq_drain = drain_emails, dq_inspect = (\<lambda>_ _. EMPTY_DEPTH)\<rparr>"
  let ?rn = "\<lparr>rn_leases = [\<lparr>ql_queueName = ''email'', ql_leaseToken = Some ''theirs'', ql_leasedUntil = Some 100,
             ql_owner = None, ql_lastTickAt = None\<rparr>], rn_metrics = Map.empty\<rparr>"
  have "held (dq_name ?q) ''theirs'' 100 (rn_leases ?rn)" by (simp add: held_def)
  from tick_without_lease_idle [OF this, where env = "demo_background_env 7 (\<lambda>_. None)" and token = "''mine''"
      and cfg = "schedulerConfig (\<lambda>_. None) ''h'' 1" and done_at = 8 and db = "demo_background [demo_email ''1''] []"]
  show ?thesis by (auto simp: demo_background_env_def split: prod.splits)
qed

end
