(* ===== verification/Runner.thy ===== *)
theory Runner
  imports Scheduler
begin

text \<open>
  The life of the scheduler, \<open>src/src/workers/scheduled-job-runner.ts\<close> (\<open>start\<close>, \<open>stop\<close>, \<open>schedule\<close>, \<open>tick\<close>),
  with the processes that own one, \<open>src/src/server.ts\<close> and \<open>src/src/workers/scheduler.worker.ts\<close>. The work of a tick
  is \<open>Scheduler.runQueue\<close>; here a tick has a beginning and an end, and between them other timers fire and
  \<open>stop\<close> may be called. A timer that is set and neither fired nor cleared is \<open>armed\<close>; the map \<open>timers\<close> of
  the code, through which \<open>stop\<close> clears them, knows the last one of each queue only.
\<close>

section \<open>State\<close>

record armed_timer =
  at_id :: nat
  at_queue :: string
  at_delayMs :: int

record runner =
  ru_started :: bool
  ru_stopping :: bool
  ru_armed :: "armed_timer list"
  ru_timers :: "string \<Rightarrow> nat option"
  ru_ticks :: "(nat \<times> string) list"
  ru_inFlight :: "string \<Rightarrow> nat option"
  ru_awaited :: "nat list option"
  ru_next :: nat

definition new_runner :: runner where
  "new_runner = \<lparr>ru_started = False, ru_stopping = False, ru_armed = [], ru_timers = Map.empty, ru_ticks = [],
     ru_inFlight = Map.empty, ru_awaited = None, ru_next = 0\<rparr>"

section \<open>Operations\<close>

definition schedule :: "string \<Rightarrow> int \<Rightarrow> runner \<Rightarrow> runner" where
  "schedule q delayMs s =
     s\<lparr>ru_armed := ru_armed s @ [\<lparr>at_id = ru_next s, at_queue = q, at_delayMs = delayMs\<rparr>],
       ru_timers := (ru_timers s)(q \<mapsto> ru_next s), ru_next := ru_next s + 1\<rparr>"

fun schedule_all :: "string list \<Rightarrow> runner \<Rightarrow> runner" where
  "schedule_all [] s = s"
| "schedule_all (q # qs) s = schedule_all qs (schedule q 0 s)"

definition runner_start :: "string list \<Rightarrow> runner \<Rightarrow> runner" where
  "runner_start queues s =
     (if ru_started s then s
      else (let s1 = s\<lparr>ru_started := True, ru_stopping := False\<rparr> in
            if queues = [] then s1 else schedule_all queues s1))"

text \<open>A timer fires, and \<open>tick\<close> runs up to its \<open>await\<close>.\<close>

definition tick_begins :: "armed_timer \<Rightarrow> runner \<Rightarrow> runner" where
  "tick_begins t s =
     (let s1 = s\<lparr>ru_armed := remove1 t (ru_armed s), ru_timers := (ru_timers s)(at_queue t := None)\<rparr> in
      if ru_stopping s then s1
      else s1\<lparr>ru_ticks := ru_ticks s @ [(ru_next s, at_queue t)],
              ru_inFlight := (ru_inFlight s)(at_queue t \<mapsto> ru_next s), ru_next := ru_next s + 1\<rparr>)"

text \<open>\<open>runQueue\<close> of the tick has returned; it never throws.\<close>

definition tick_ends :: "scheduler_config \<Rightarrow> nat \<times> string \<Rightarrow> runner \<Rightarrow> runner" where
  "tick_ends cfg x s =
     (let s1 = s\<lparr>ru_ticks := remove1 x (ru_ticks s), ru_inFlight := (ru_inFlight s)(snd x := None)\<rparr> in
      if ru_stopping s then s1 else schedule (snd x) (intervalFor cfg (snd x)) s1)"

text \<open>\<open>stop\<close> up to its \<open>await\<close>: the ticks it waits for are those of \<open>inFlight\<close>.\<close>

definition runner_stop :: "runner \<Rightarrow> runner" where
  "runner_stop s =
     (if \<not> ru_started s \<or> ru_stopping s then s
      else s\<lparr>ru_stopping := True,
             ru_armed := filter (\<lambda>t. ru_timers s (at_queue t) \<noteq> Some (at_id t)) (ru_armed s),
             ru_timers := Map.empty,
             ru_awaited := Some (map fst (filter (\<lambda>(i, q). ru_inFlight s q = Some i) (ru_ticks s)))\<rparr>)"

definition drained :: "runner \<Rightarrow> bool" where
  "drained s \<longleftrightarrow> (case ru_awaited s of None \<Rightarrow> False | Some ids \<Rightarrow> list_all (\<lambda>(i, q). i \<notin> set ids) (ru_ticks s))"

text \<open>The rest of \<open>stop\<close>, after its ticks have ended or its deadline has passed (\<open>withDeadline\<close>).\<close>

definition stop_returns :: "runner \<Rightarrow> runner" where
  "stop_returns s = s\<lparr>ru_started := False, ru_awaited := None\<rparr>"

text \<open>The steps of a runner of the queues \<open>qs\<close>; \<open>deadlines\<close> says whether a stop may return at its deadline.\<close>

inductive runner_step :: "bool \<Rightarrow> scheduler_config \<Rightarrow> string list \<Rightarrow> runner \<Rightarrow> runner \<Rightarrow> bool"
  for deadlines cfg qs where
  starts: "runner_step deadlines cfg qs s (runner_start qs s)"
| fires: "t \<in> set (ru_armed s) \<Longrightarrow> runner_step deadlines cfg qs s (tick_begins t s)"
| ends: "x \<in> set (ru_ticks s) \<Longrightarrow> runner_step deadlines cfg qs s (tick_ends cfg x s)"
| stops: "runner_step deadlines cfg qs s (runner_stop s)"
| returns: "ru_awaited s \<noteq> None \<Longrightarrow> drained s \<or> deadlines \<Longrightarrow> runner_step deadlines cfg qs s (stop_returns s)"

section \<open>Shutting down a process\<close>

datatype shutdown_effect = HttpClosed | SchedulerStopped | Disconnected | Exited nat

record process =
  ps_shuttingDown :: bool
  ps_effects :: "shutdown_effect list"

text \<open>
  \<open>gracefulShutdown\<close> of the server, with the results of closing the HTTP server and of disconnecting the database;
  \<open>scheduler\<close> says whether the process runs one. Where the deadline of the process passes first, its
  timer exits with 1 whatever has been done.
\<close>

definition server_shutdown :: "bool \<Rightarrow> bool \<Rightarrow> bool \<Rightarrow> process \<Rightarrow> process" where
  "server_shutdown closes scheduler disconnects p =
     (if ps_shuttingDown p then p
      else p\<lparr>ps_shuttingDown := True,
             ps_effects := ps_effects p @
               (if \<not> closes then [Exited 1]
                else [HttpClosed] @ (if scheduler then [SchedulerStopped] else [])
                  @ (if disconnects then [Disconnected, Exited 0] else [Exited 1]))\<rparr>)"

definition worker_shutdown :: "bool \<Rightarrow> process \<Rightarrow> process" where
  "worker_shutdown disconnects p =
     (if ps_shuttingDown p then p
      else p\<lparr>ps_shuttingDown := True,
             ps_effects := ps_effects p @ [SchedulerStopped] @ (if disconnects then [Disconnected, Exited 0] else [Exited 1])\<rparr>)"

text \<open>The deadlines of the two processes: \<open>setTimeout\<close> takes a delay that is no number, below 1 or above 31 bits as 1.\<close>

definition timeout_delay :: "int option \<Rightarrow> int" where
  "timeout_delay n = (case n of None \<Rightarrow> 1 | Some k \<Rightarrow> if k < 1 \<or> 2147483647 < k then 1 else k)"

definition SHUTDOWN_TIMEOUT_MS :: "env \<Rightarrow> int option" where
  "SHUTDOWN_TIMEOUT_MS env = parseInt10 (case env ''SHUTDOWN_TIMEOUT_MS'' of
     None \<Rightarrow> ''30000'' | Some s \<Rightarrow> if s = [] then ''30000'' else s)"

definition server_deadline :: "env \<Rightarrow> int" where
  "server_deadline env = timeout_delay (SHUTDOWN_TIMEOUT_MS env)"

definition worker_deadline :: "scheduler_config \<Rightarrow> int" where
  "worker_deadline cfg = timeout_delay (Some (sc_shutdownTimeoutMs cfg + 5000))"

section \<open>Properties\<close>

definition running_queues :: "runner \<Rightarrow> string list" where
  "running_queues s = map at_queue (ru_armed s) @ map snd (ru_ticks s)"

definition runner_ok :: "string list \<Rightarrow> runner \<Rightarrow> bool" where
  "runner_ok qs s \<longleftrightarrow> distinct (running_queues s)
     \<and> (\<forall>t \<in> set (ru_armed s). ru_timers s (at_queue t) = Some (at_id t))
     \<and> (\<forall>x \<in> set (ru_ticks s). ru_inFlight s (snd x) = Some (fst x))
     \<and> (ru_started s \<and> \<not> ru_stopping s \<longrightarrow> set (running_queues s) = set qs)
     \<and> (ru_stopping s \<longrightarrow> ru_armed s = [])
     \<and> (\<not> ru_started s \<longrightarrow> running_queues s = [])
     \<and> (\<forall>ids. ru_awaited s = Some ids \<longrightarrow> ru_started s \<and> ru_stopping s \<and> (\<forall>x \<in> set (ru_ticks s). fst x \<in> set ids))"

lemma schedule_all_ok:
  assumes "distinct (map at_queue (ru_armed s) @ qs)" and "\<forall>t \<in> set (ru_armed s). ru_timers s (at_queue t) = Some (at_id t)"
  shows "map at_queue (ru_armed (schedule_all qs s)) = map at_queue (ru_armed s) @ qs
    \<and> (\<forall>t \<in> set (ru_armed (schedule_all qs s)). ru_timers (schedule_all qs s) (at_queue t) = Some (at_id t))
    \<and> ru_ticks (schedule_all qs s) = ru_ticks s \<and> ru_started (schedule_all qs s) = ru_started s
    \<and> ru_stopping (schedule_all qs s) = ru_stopping s \<and> ru_awaited (schedule_all qs s) = ru_awaited s"
  using assms
proof (induction qs s rule: schedule_all.induct)
  case (2 q qs s)
  have "distinct (map at_queue (ru_armed (schedule q 0 s)) @ qs)"
    and "\<forall>t \<in> set (ru_armed (schedule q 0 s)). ru_timers (schedule q 0 s) (at_queue t) = Some (at_id t)"
    using "2.prems" by (auto simp: schedule_def)
  from "2.IH" [OF this] show ?case by (simp add: schedule_def)
qed simp

lemma remove1_split:
  assumes "x \<in> set xs"
  obtains ys zs where "xs = ys @ x # zs" and "remove1 x xs = ys @ zs"
proof -
  from split_list_first [OF assms] obtain ys zs where "xs = ys @ x # zs" "x \<notin> set ys" by blast
  then show ?thesis by (intro that [of ys zs]) (simp_all add: remove1_append)
qed

lemma start_ok:
  assumes "distinct qs" and "runner_ok qs s"
  shows "runner_ok qs (runner_start qs s)"
proof (cases "ru_started s")
  case True
  with assms show ?thesis by (simp add: runner_start_def)
next
  case False
  let ?s1 = "s\<lparr>ru_started := True, ru_stopping := False\<rparr>"
  let ?s2 = "schedule_all qs ?s1"
  from False assms(2) have empty: "ru_armed s = []" "ru_ticks s = []" "ru_awaited s = None"
    by (auto simp: runner_ok_def running_queues_def)
  with assms(1) have "map at_queue (ru_armed ?s2) = qs"
    "\<forall>t \<in> set (ru_armed ?s2). ru_timers ?s2 (at_queue t) = Some (at_id t)"
    "ru_ticks ?s2 = []" "ru_started ?s2" "\<not> ru_stopping ?s2" "ru_awaited ?s2 = None"
    using schedule_all_ok [of ?s1 qs] by simp_all
  with assms(1) have "runner_ok qs ?s2" by (simp add: runner_ok_def running_queues_def)
  moreover have "runner_start qs s = ?s2"
    using False by (cases qs) (simp_all add: runner_start_def Let_def)
  ultimately show ?thesis by simp
qed

lemma fires_ok:
  assumes ok: "runner_ok qs s" and t: "t \<in> set (ru_armed s)"
  shows "runner_ok qs (tick_begins t s)"
proof -
  from ok t have not_stopping: "\<not> ru_stopping s" by (auto simp: runner_ok_def)
  obtain ys zs where yz: "ru_armed s = ys @ t # zs" "remove1 t (ru_armed s) = ys @ zs"
    using t by (rule remove1_split)
  from not_stopping yz have ticks: "ru_armed (tick_begins t s) = ys @ zs"
    "ru_ticks (tick_begins t s) = ru_ticks s @ [(ru_next s, at_queue t)]"
    "ru_timers (tick_begins t s) = (ru_timers s)(at_queue t := None)"
    "ru_inFlight (tick_begins t s) = (ru_inFlight s)(at_queue t \<mapsto> ru_next s)"
    "ru_started (tick_begins t s) = ru_started s" "\<not> ru_stopping (tick_begins t s)"
    "ru_awaited (tick_begins t s) = ru_awaited s"
    by (simp_all add: tick_begins_def Let_def)
  from ok yz have dist: "distinct (map at_queue (ys @ t # zs) @ map snd (ru_ticks s))"
    by (simp add: runner_ok_def running_queues_def)
  then have others: "\<forall>u \<in> set (ys @ zs). at_queue u \<noteq> at_queue t" "\<forall>x \<in> set (ru_ticks s). snd x \<noteq> at_queue t"
    by (auto simp: image_iff)
  from dist have "distinct (running_queues (tick_begins t s))"
    by (auto simp: running_queues_def ticks)
  moreover have "set (running_queues (tick_begins t s)) = set (running_queues s)"
    by (auto simp: running_queues_def ticks yz)
  moreover have "\<forall>u \<in> set (ru_armed (tick_begins t s)). ru_timers (tick_begins t s) (at_queue u) = Some (at_id u)"
    using ok others(1) by (simp add: ticks yz runner_ok_def ball_Un)
  moreover have "\<forall>x \<in> set (ru_ticks (tick_begins t s)). ru_inFlight (tick_begins t s) (snd x) = Some (fst x)"
    using ok others(2) by (simp add: ticks runner_ok_def)
  moreover have "ru_started s" "ru_awaited s = None"
    using ok yz not_stopping by (auto simp: runner_ok_def running_queues_def)
  ultimately show ?thesis
    using ok not_stopping by (simp add: runner_ok_def ticks)
qed

lemma ends_ok:
  assumes ok: "runner_ok qs s" and x: "x \<in> set (ru_ticks s)"
  shows "runner_ok qs (tick_ends cfg x s)"
proof -
  obtain ys zs where yz: "ru_ticks s = ys @ x # zs" "remove1 x (ru_ticks s) = ys @ zs"
    using x by (rule remove1_split)
  from ok yz have dist: "distinct (map at_queue (ru_armed s) @ map snd (ys @ x # zs))"
    by (simp add: runner_ok_def running_queues_def)
  then have others: "\<forall>y \<in> set (ys @ zs). snd y \<noteq> snd x" "\<forall>u \<in> set (ru_armed s). at_queue u \<noteq> snd x"
    by (auto simp: image_iff)
  from ok x have started: "ru_started s" by (auto simp: runner_ok_def running_queues_def)
  let ?t = "tick_ends cfg x s"
  have parts: "ru_ticks ?t = ys @ zs" "ru_inFlight ?t = (ru_inFlight s)(snd x := None)"
    "ru_started ?t = ru_started s" "ru_stopping ?t = ru_stopping s" "ru_awaited ?t = ru_awaited s"
    using yz(2) by (simp_all add: tick_ends_def schedule_def Let_def)
  have flight: "\<forall>y \<in> set (ru_ticks ?t). ru_inFlight ?t (snd y) = Some (fst y)"
    using ok others(1) by (simp add: parts runner_ok_def yz ball_Un)
  show ?thesis
  proof (cases "ru_stopping s")
    case True
    then have "ru_armed ?t = ru_armed s" "ru_timers ?t = ru_timers s" by (simp_all add: tick_ends_def Let_def)
    with True ok started flight dist parts show ?thesis by (auto simp: runner_ok_def running_queues_def yz)
  next
    case False
    then have armed: "ru_armed ?t = ru_armed s @ [\<lparr>at_id = ru_next s, at_queue = snd x, at_delayMs = intervalFor cfg (snd x)\<rparr>]"
      "ru_timers ?t = (ru_timers s)(snd x \<mapsto> ru_next s)"
      by (simp_all add: tick_ends_def schedule_def Let_def)
    have "\<forall>u \<in> set (ru_armed ?t). ru_timers ?t (at_queue u) = Some (at_id u)"
      using ok others(2) by (simp add: armed runner_ok_def)
    moreover have "distinct (running_queues ?t)"
      using dist by (auto simp: running_queues_def armed parts)
    moreover have "set (running_queues ?t) = set (running_queues s)"
      by (auto simp: running_queues_def armed parts yz)
    moreover have "ru_awaited s = None" using ok False by (auto simp: runner_ok_def)
    ultimately show ?thesis
      using ok started False flight by (simp add: runner_ok_def parts)
  qed
qed

lemma stops_ok:
  assumes "runner_ok qs s"
  shows "runner_ok qs (runner_stop s)"
proof (cases "ru_started s \<and> \<not> ru_stopping s")
  case True
  with assms have "ru_armed (runner_stop s) = []" "ru_ticks (runner_stop s) = ru_ticks s"
    "ru_inFlight (runner_stop s) = ru_inFlight s" "ru_started (runner_stop s)" "ru_stopping (runner_stop s)"
    "ru_awaited (runner_stop s) = Some (map fst (ru_ticks s))"
    by (auto simp: runner_stop_def runner_ok_def intro!: filter_False arg_cong [of _ _ "map fst"] filter_True)
  with assms show ?thesis by (auto simp: runner_ok_def running_queues_def)
next
  case False
  with assms show ?thesis by (simp add: runner_stop_def)
qed

lemma returns_ok:
  assumes "runner_ok qs s" and "drained s"
  shows "runner_ok qs (stop_returns s)"
proof -
  from assms(2) obtain ids where "ru_awaited s = Some ids" "list_all (\<lambda>(i, q). i \<notin> set ids) (ru_ticks s)"
    by (auto simp: drained_def split: option.splits)
  moreover from this(1) assms(1) have "\<forall>x \<in> set (ru_ticks s). fst x \<in> set ids" "ru_armed s = []"
    by (simp_all add: runner_ok_def)
  ultimately have "ru_ticks s = []" "ru_armed s = []"
    by (cases "ru_ticks s"; auto simp: list_all_iff)+
  with assms(1) show ?thesis by (simp add: stop_returns_def runner_ok_def running_queues_def)
qed

interpretation runner_system: invariant_system "\<lambda>s. s = new_runner \<and> distinct qs" "runner_step False cfg qs"
    "\<lambda>s. distinct qs \<and> runner_ok qs s"
proof unfold_locales
  show "s = new_runner \<and> distinct qs \<Longrightarrow> distinct qs \<and> runner_ok qs s" for s
    by (simp add: new_runner_def runner_ok_def running_queues_def)
  show "distinct qs \<and> runner_ok qs s \<Longrightarrow> runner_step False cfg qs s t \<Longrightarrow> distinct qs \<and> runner_ok qs t" for s t
    by (auto elim!: runner_step.cases intro: start_ok fires_ok ends_ok stops_ok returns_ok)
qed


text \<open>A run of one queue, up to its first tick.\<close>

definition demo_ticking :: runner where
  "demo_ticking = tick_begins \<lparr>at_id = 0, at_queue = ''email'', at_delayMs = 0\<rparr> (runner_start [''email''] new_runner)"

lemmas demo_runner_defs = runner_start_def runner_stop_def stop_returns_def tick_begins_def
  tick_ends_def schedule_def new_runner_def

lemma demo_ticking_eq: "demo_ticking = \<lparr>ru_started = True, ru_stopping = False, ru_armed = [], ru_timers = Map.empty,
    ru_ticks = [(1, ''email'')], ru_inFlight = [''email'' \<mapsto> 1], ru_awaited = None, ru_next = 2\<rparr>"
  by (simp add: demo_ticking_def demo_runner_defs Let_def)

lemma demo_ticking_reachable: "reaches (runner_step d cfg [''email'']) new_runner demo_ticking"
proof -
  have "reaches (runner_step d cfg [''email'']) new_runner (runner_start [''email''] new_runner)"
    by (rule reaches_one) (rule runner_step.starts)
  moreover have "\<lparr>at_id = 0, at_queue = ''email'', at_delayMs = 0\<rparr> \<in> set (ru_armed (runner_start [''email''] new_runner))"
    by (simp add: demo_runner_defs)
  ultimately show ?thesis
    unfolding demo_ticking_def by (blast intro: reaches_step runner_step.fires)
qed


text \<open>
  It does need the stop to wait. When a stop returns at its deadline and the scheduler is started again, the tick that is
  still in flight comes back to a running scheduler: the queue has two loops from then on.
\<close>

definition demo_restarted :: runner where
  "demo_restarted = \<lparr>ru_started = True, ru_stopping = False,
     ru_armed = [\<lparr>at_id = 2, at_queue = ''email'', at_delayMs = 0\<rparr>], ru_timers = [''email'' \<mapsto> 2],
     ru_ticks = [(1, ''email'')], ru_inFlight = [''email'' \<mapsto> 1], ru_awaited = None, ru_next = 3\<rparr>"

lemma demo_restarted_eq: "runner_start [''email''] (stop_returns (runner_stop demo_ticking)) = demo_restarted"
  by (simp add: demo_ticking_eq demo_restarted_def demo_runner_defs Let_def)

lemma restart_doubles_loop:
  "\<exists>s. reaches (runner_step True cfg [''email'']) new_runner s \<and> map snd (ru_ticks s) = [''email'', ''email'']"
proof -
  let ?R = "reaches (runner_step True cfg [''email'']) new_runner"
  let ?t = "\<lparr>at_id = 2, at_queue = ''email'', at_delayMs = 0\<rparr>"
  have awaited: "ru_awaited (runner_stop demo_ticking) \<noteq> None" by (simp add: demo_ticking_eq runner_stop_def)
  have "?R (runner_stop demo_ticking)" using demo_ticking_reachable by (rule reaches_step) (rule runner_step.stops)
  then have "?R (stop_returns (runner_stop demo_ticking))"
    by (rule reaches_step) (rule runner_step.returns [OF awaited], simp)
  then have "?R demo_restarted" unfolding demo_restarted_eq [symmetric] by (rule reaches_step) (rule runner_step.starts)
  moreover have "?t \<in> set (ru_armed demo_restarted)" by (simp add: demo_restarted_def)
  ultimately have "?R (tick_begins ?t demo_restarted)" by (blast intro: reaches_step runner_step.fires)
  moreover have "map snd (ru_ticks (tick_begins ?t demo_restarted)) = [''email'', ''email'']"
    by (simp add: demo_restarted_def tick_begins_def Let_def)
  ultimately show ?thesis by (intro exI [of _ "tick_begins ?t demo_restarted"] conjI)
qed

section \<open>Deadlines\<close>

text \<open>With the default settings the deadline of the server is no later than that of the scheduler it stops, which the
  worker process outlasts by five seconds; a setting that is no number makes the server exit at once.\<close>

lemma parse_default_timeout: "parseInt10 ''30000'' = Some 30000"
  by (simp add: parseInt10_def is_space_def is_digit_def parse_nat_def digit_val_def)

lemma toInt_unset: "toInt None fallback = fallback"
  by (simp add: toInt_def parseInt10_def or_default_def)

lemma default_deadlines:
  "server_deadline (\<lambda>_. None) = sc_shutdownTimeoutMs (schedulerConfig (\<lambda>_. None) host pid)
   \<and> sc_shutdownTimeoutMs (schedulerConfig (\<lambda>_. None) host pid) < worker_deadline (schedulerConfig (\<lambda>_. None) host pid)"
  by (simp add: server_deadline_def SHUTDOWN_TIMEOUT_MS_def worker_deadline_def schedulerConfig_def toInt_unset timeout_delay_def
      DEFAULT_SHUTDOWN_TIMEOUT_MS_def parse_default_timeout)

lemma unreadable_deadline: "env ''SHUTDOWN_TIMEOUT_MS'' = Some v \<Longrightarrow> v \<noteq> [] \<Longrightarrow> parseInt10 v = None \<Longrightarrow> server_deadline env = 1"
  by (simp add: server_deadline_def SHUTDOWN_TIMEOUT_MS_def timeout_delay_def)

section \<open>Counters\<close>

fun record_all :: "(time \<times> tick_sample) list \<Rightarrow> metrics \<Rightarrow> metrics" where
  "record_all [] m = m"
| "record_all ((now, s) # ss) m = record_all ss (record_metrics now s m)"

definition outcomes_of :: "string \<Rightarrow> (time \<times> tick_sample) list \<Rightarrow> tick_outcome list" where
  "outcomes_of q ss = map (\<lambda>x. ts_outcome (snd x)) (filter (\<lambda>x. ts_queue (snd x) = q) ss)"

definition counts :: "queue_metrics option \<Rightarrow> nat \<times> nat \<times> nat" where
  "counts m = (case m of None \<Rightarrow> (0, 0, 0) | Some c \<Rightarrow> (qm_attempts c, qm_failures c, qm_skipped c))"

definition add_outcome :: "tick_outcome \<Rightarrow> nat \<times> nat \<times> nat \<Rightarrow> nat \<times> nat \<times> nat" where
  "add_outcome x c = (case c of (a, f, k) \<Rightarrow>
     (if x = Skipped then (a, f, k + 1) else if x = TickFailed then (a + 1, f + 1, k) else (a + 1, f, k)))"

lemma counts_record:
  "counts (record_metrics now s m q) = (if ts_queue s = q then add_outcome (ts_outcome s) (counts (m q)) else counts (m q))"
  by (cases "ts_outcome s"; cases "m q")
    (auto simp: counts_def record_metrics_def next_metrics_def emptyMetrics_def add_outcome_def or_default_def Let_def)

lemma counts_record_all: "counts (record_all ss m q) = foldl (\<lambda>c x. add_outcome x c) (counts (m q)) (outcomes_of q ss)"
  by (induction ss m rule: record_all.induct) (simp_all add: outcomes_of_def counts_record)

lemma foldl_outcomes: "foldl (\<lambda>c x. add_outcome x c) (a, f, k) xs =
    (a + count_where (\<lambda>x. x \<noteq> Skipped) xs, f + count_where (\<lambda>x. x = TickFailed) xs, k + count_where (\<lambda>x. x = Skipped) xs)"
  by (induction xs arbitrary: a f k) (simp_all add: add_outcome_def)

text \<open>
  The counters are exact: from an empty registry, after any samples, a queue shows as attempts the ticks that were
  not skipped, and its failed and skipped ticks.
\<close>

theorem counters_exact:
  "counts (record_all ss Map.empty q) = (count_where (\<lambda>x. x \<noteq> Skipped) (outcomes_of q ss),
     count_where (\<lambda>x. x = TickFailed) (outcomes_of q ss), count_where (\<lambda>x. x = Skipped) (outcomes_of q ss))"
proof -
  have "counts (Map.empty q) = (0, 0, 0)" by (simp add: counts_def)
  then show ?thesis unfolding counts_record_all by (simp only: foldl_outcomes add_0)
qed

end
