(* ===== verification/WalletRoutes.thy ===== *)
theory WalletRoutes
  imports WalletStatus WalletExport Avatars Sync
begin

text \<open>
  The routes of a wallet: \<open>src/src/controllers/wallet-status.controller.ts\<close> with its query schema
  (\<open>src/src/schemas/wallet-status.schema.ts\<close>), and \<open>src/src/controllers/wallet-self-custody-export.controller.ts\<close>. A
  user is always authenticated (the routers require it), so \<open>req.user!.id\<close> is the argument \<open>userId\<close>. A query is
  a JSON object of what the query parser found; numbers are whole, as in \<open>Sync\<close>. \<open>down\<close> says that
  the database cannot be reached.
\<close>

section \<open>Status, balances and history\<close>

datatype wallet_reply =
    WalletStatusReply wallet_status_view
  | WalletBalancesReply balances_view
  | WalletHistoryReply "history_entry list" "string option" "string option" bool int
  | WalletError nat string
  | WalletInvalid json

fun wallet_reply_status :: "wallet_reply \<Rightarrow> nat" where
  "wallet_reply_status (WalletStatusReply _) = 200"
| "wallet_reply_status (WalletBalancesReply _) = 200"
| "wallet_reply_status (WalletHistoryReply _ _ _ _ _) = 200"
| "wallet_reply_status (WalletError n _) = n"
| "wallet_reply_status (WalletInvalid _) = 400"

text \<open>The code of a \<open>WalletStatusError\<close>; another error has none here.\<close>

definition wallet_error_code :: "wallet_view_error \<Rightarrow> string option" where
  "wallet_error_code e =
     (case e of
        WALLET_NOT_FOUND \<Rightarrow> Some ''WALLET_NOT_FOUND''
      | ProviderError c \<Rightarrow> Some (if c = HORIZON_TIMEOUT then ''HORIZON_TIMEOUT'' else ''HORIZON_UNAVAILABLE'')
      | ThrownOn _ \<Rightarrow> None)"

definition PROVIDER_ERROR_STATUS :: "(string \<times> nat) list" where
  "PROVIDER_ERROR_STATUS = [(''WALLET_NOT_FOUND'', 404), (''HORIZON_TIMEOUT'', 504), (''HORIZON_UNAVAILABLE'', 503)]"

definition wallet_failed :: wallet_reply where
  "wallet_failed = WalletError 500 ''INTERNAL_SERVER_ERROR''"

definition wallet_respondWithError :: "wallet_view_error \<Rightarrow> wallet_reply" where
  "wallet_respondWithError e =
     (case wallet_error_code e of
        Some code \<Rightarrow> WalletError (or_default 500 (map_of PROVIDER_ERROR_STATUS code)) code
      | None \<Rightarrow> wallet_failed)"

definition getStatus_route :: "bool \<Rightarrow> ident \<Rightarrow> wallet_db \<Rightarrow> wallet_reply" where
  "getStatus_route down userId db = (if down then wallet_failed else WalletStatusReply (getStatus userId db))"

definition getBalances_route :: "bool \<Rightarrow> stellar_sdk \<Rightarrow> ident \<Rightarrow> wallet_db \<Rightarrow> wallet_reply" where
  "getBalances_route down sdk userId db =
     (if down then wallet_failed
      else case wallet_getBalances sdk userId db of
             Inl e \<Rightarrow> wallet_respondWithError e
           | Inr b \<Rightarrow> WalletBalancesReply b)"

record history_params =
  hq_cursor :: "string option"
  hq_limit :: int
  hq_direction :: "history_direction option"

definition parse_cursor :: "json option \<Rightarrow> string option option" where
  "parse_cursor v = (case v of None \<Rightarrow> Some None | Some (JStr s) \<Rightarrow> if s = [] then None else Some (Some s) | _ \<Rightarrow> None)"

definition parse_limit :: "json option \<Rightarrow> int option" where
  "parse_limit v =
     (case v of
        None \<Rightarrow> Some 20
      | Some j \<Rightarrow> (case coerce_number j of None \<Rightarrow> None | Some n \<Rightarrow> if 1 \<le> n \<and> n \<le> 100 then Some n else None))"

text \<open>\<open>'all'\<close> is the direction \<open>None\<close>.\<close>

definition parse_direction :: "json option \<Rightarrow> history_direction option option" where
  "parse_direction v =
     (case v of
        None \<Rightarrow> Some None
      | Some (JStr s) \<Rightarrow> if s = ''all'' then Some None else if s = ''incoming'' then Some (Some Incoming)
                         else if s = ''outgoing'' then Some (Some Outgoing) else None
      | _ \<Rightarrow> None)"

definition parse_history_query :: "json \<Rightarrow> history_params option" where
  "parse_history_query q =
     (if \<not> only_keys [''cursor'', ''limit'', ''direction''] q then None
      else case (parse_cursor (json_field q ''cursor''), parse_limit (json_field q ''limit''),
                 parse_direction (json_field q ''direction'')) of
             (Some c, Some l, Some d) \<Rightarrow> Some \<lparr>hq_cursor = c, hq_limit = l, hq_direction = d\<rparr>
           | _ \<Rightarrow> None)"

definition getHistory_route :: "(json \<Rightarrow> json) \<Rightarrow> bool \<Rightarrow> stellar_sdk \<Rightarrow> ident \<Rightarrow> json \<Rightarrow> wallet_db \<Rightarrow> wallet_reply" where
  "getHistory_route explain down sdk userId q db =
     (case parse_history_query q of
        None \<Rightarrow> WalletInvalid (explain q)
      | Some p \<Rightarrow>
          if down then wallet_failed
          else (case getHistory sdk userId (hq_cursor p) (Some (nat (hq_limit p))) (hq_direction p) db of
                  Inl e \<Rightarrow> wallet_respondWithError e
                | Inr (entries, nextCursor) \<Rightarrow>
                    WalletHistoryReply entries (hq_cursor p) nextCursor (nextCursor \<noteq> None) (hq_limit p)))"

section \<open>The self-custody export\<close>

text \<open>The headers of a request the controller reads, and of a reply that must not be stored.\<close>

record export_request =
  er_userId :: ident
  er_authorization :: "string option"
  er_exportToken :: "string option"
  er_password :: "json option"
  er_acknowledgement :: "json option"

datatype export_reply =
    ExportAuthorized bool string time
  | ExportSecret bool sensitive_value
  | ExportError bool nat string

fun no_store :: "export_reply \<Rightarrow> bool" where
  "no_store (ExportAuthorized b _ _) = b"
| "no_store (ExportSecret b _) = b"
| "no_store (ExportError b _ _) = b"

text \<open>The session of a request is the digest of its \<open>Authorization\<close> header, that is of the access token.\<close>

definition sessionFingerprint :: "'r export_env \<Rightarrow> export_request \<Rightarrow> ident" where
  "sessionFingerprint env rq = xe_digest env (or_default [] (er_authorization rq))"

fun export_error_code :: "export_error \<Rightarrow> string" where
  "export_error_code ACKNOWLEDGEMENT_REQUIRED = ''ACKNOWLEDGEMENT_REQUIRED''"
| "export_error_code export_error.STEP_UP_FAILED = ''STEP_UP_FAILED''"
| "export_error_code WALLET_NOT_ELIGIBLE = ''WALLET_NOT_ELIGIBLE''"
| "export_error_code AUTHORIZATION_INVALID = ''AUTHORIZATION_INVALID''"
| "export_error_code KMS_SECRET_UNAVAILABLE = ''KMS_SECRET_UNAVAILABLE''"
| "export_error_code CUSTODY_TRANSITION_FAILED = ''CUSTODY_TRANSITION_FAILED''"
| "export_error_code KMS_DELETE_FAILED = ''KMS_DELETE_FAILED''"
| "export_error_code Unexpected = ''INTERNAL_ERROR''"

definition export_respondWithError :: "export_error \<Rightarrow> export_reply" where
  "export_respondWithError e = ExportError (e \<noteq> Unexpected) (export_status e) (export_error_code e)"

definition authorize_route ::
    "'r export_env \<Rightarrow> int option \<Rightarrow> time \<Rightarrow> string \<Rightarrow> ident \<Rightarrow> export_request \<Rightarrow> 'r \<Rightarrow> export_reply \<times> 'r" where
  "authorize_route env ttl now token authId rq r =
     (case er_password rq of
        Some (JStr password) \<Rightarrow>
          if password = [] then (ExportError False 400 ''PASSWORD_REQUIRED'', r)
          else (case export_authorize env ttl now token authId (er_userId rq) (sessionFingerprint env rq) password
                       (er_acknowledgement rq = Some (JBool True)) r of
                  (Inr (authorizationToken, expiresAt), r') \<Rightarrow> (ExportAuthorized True authorizationToken expiresAt, r')
                | (Inl e, r') \<Rightarrow> (export_respondWithError e, r'))
      | _ \<Rightarrow> (ExportError False 400 ''PASSWORD_REQUIRED'', r))"

definition exportOnce_route ::
    "'r export_env \<Rightarrow> aead \<Rightarrow> bool \<Rightarrow> bool \<Rightarrow> time \<Rightarrow> time \<Rightarrow> export_request \<Rightarrow> 'r \<times> kms \<Rightarrow> export_reply \<times> 'r \<times> kms" where
  "exportOnce_route env ae loadFails deleteFails claimedAt completedAt rq s =
     (case er_exportToken rq of
        None \<Rightarrow> (ExportError False 401 ''AUTHORIZATION_INVALID'', s)
      | Some token \<Rightarrow>
          if token = [] then (ExportError False 401 ''AUTHORIZATION_INVALID'', s)
          else (case export_once env ae loadFails deleteFails claimedAt completedAt (er_userId rq)
                       (sessionFingerprint env rq) token s of
                  (Inr secret, s') \<Rightarrow> (ExportSecret True secret, s')
                | (Inl e, s') \<Rightarrow> (export_respondWithError e, s')))"

section \<open>Properties\<close>

lemma parse_history_limit: "parse_history_query q = Some p \<Longrightarrow> 1 \<le> hq_limit p \<and> hq_limit p \<le> 100"
  by (auto simp: parse_history_query_def parse_limit_def split: if_splits option.splits)

lemma wallet_error_status: "wallet_reply_status (wallet_respondWithError e) \<in> {404, 500, 503, 504}"
  by (auto simp: wallet_respondWithError_def wallet_error_code_def wallet_failed_def PROVIDER_ERROR_STATUS_def or_default_def
      split: wallet_view_error.splits)

end
