(* ===== verification/WalletRouteProps.thy ===== *)
theory WalletRouteProps
  imports WalletRoutes
begin

text \<open>
  Reading the whole history of a wallet page by page. Horizon is assumed to do what its documentation says of a list that
  does not change meanwhile: a request answers the first \<open>limit\<close> records after the one whose paging token is the cursor.
\<close>

section \<open>Cursors\<close>

definition paging_token :: "json \<Rightarrow> string" where
  "paging_token r = or_default [] (json_str_opt r ''paging_token'')"

definition after_cursor :: "json list \<Rightarrow> string option \<Rightarrow> json list" where
  "after_cursor ledger c = (case c of None \<Rightarrow> ledger | Some t \<Rightarrow> tl (dropWhile (\<lambda>r. paging_token r \<noteq> t) ledger))"

definition tokens_ok :: "json list \<Rightarrow> bool" where
  "tokens_ok ledger \<longleftrightarrow> distinct (map paging_token ledger)
     \<and> list_all (\<lambda>r. \<exists>t. json_str_opt r ''paging_token'' = Some t \<and> t \<noteq> []) ledger"

text \<open>The cursor a client holds after \<open>k\<close> records.\<close>

definition cursor_at :: "json list \<Rightarrow> nat \<Rightarrow> string option" where
  "cursor_at ledger k = (if k = 0 then None else Some (paging_token (ledger ! (k - 1))))"

lemma dropWhile_at:
  assumes "distinct (map f xs)" and "i < length xs"
  shows "dropWhile (\<lambda>x. f x \<noteq> f (xs ! i)) xs = drop i xs"
  using assms
proof (induction xs arbitrary: i)
  case (Cons x xs)
  show ?case
  proof (cases i)
    case (Suc j)
    with Cons.prems have "f x \<noteq> f (xs ! j)" by auto
    with Suc Cons show ?thesis by simp
  qed simp
qed simp

lemma after_cursor_at: "tokens_ok ledger \<Longrightarrow> k \<le> length ledger \<Longrightarrow> after_cursor ledger (cursor_at ledger k) = drop k ledger"
  by (cases k) (auto simp: after_cursor_def cursor_at_def tokens_ok_def dropWhile_at drop_Suc tl_drop)

lemma cursor_nonempty: "tokens_ok ledger \<Longrightarrow> k \<le> length ledger \<Longrightarrow> cursor_at ledger k \<noteq> Some []"
  by (auto simp: cursor_at_def tokens_ok_def list_all_length paging_token_def or_default_def)
    (metis One_nat_def Suc_pred le_simps(3) option.simps(5))

lemma last_token:
  assumes "tokens_ok ledger" and "k < length ledger" and "0 < l"
  shows "json_str_opt (last (take l (drop k ledger))) ''paging_token'' = cursor_at ledger (min (k + l) (length ledger))"
proof -
  let ?n = "min (k + l) (length ledger)"
  have "last (take l (drop k ledger)) = ledger ! (?n - 1)"
    using assms(2,3) by (auto simp: last_conv_nth nth_append min_def algebra_simps intro!: arg_cong [of _ _ "nth ledger"])
  moreover have "?n - 1 < length ledger" "0 < ?n" using assms(2,3) by auto
  moreover from this(1) assms(1) obtain t where "json_str_opt (ledger ! (?n - 1)) ''paging_token'' = Some t"
    by (auto simp: tokens_ok_def list_all_length)
  ultimately show ?thesis by (simp add: cursor_at_def paging_token_def or_default_def)
qed

section \<open>Walking through the pages\<close>

text \<open>A client that follows \<open>nextCursor\<close>; \<open>query\<close> makes the query of a cursor.\<close>

fun history_walk ::
    "(json \<Rightarrow> json) \<Rightarrow> stellar_sdk \<Rightarrow> ident \<Rightarrow> (string option \<Rightarrow> json) \<Rightarrow> wallet_db \<Rightarrow> nat \<Rightarrow> string option \<Rightarrow>
     history_entry list option" where
  "history_walk explain sdk userId query db 0 c = None"
| "history_walk explain sdk userId query db (Suc n) c =
     (case getHistory_route explain False sdk userId (query c) db of
        WalletHistoryReply es _ nextCursor hasMore _ \<Rightarrow>
          if hasMore then map_option (\<lambda>rest. es @ rest) (history_walk explain sdk userId query db n nextCursor) else Some es
      | _ \<Rightarrow> None)"

definition entries_of :: "string \<Rightarrow> history_direction option \<Rightarrow> json list \<Rightarrow> history_entry list" where
  "entries_of pk direction rs = filter (\<lambda>e. direction = None \<or> direction = Some (he_direction e))
     (map (to_history_entry pk) (map toPaymentHistoryRecord (filter history_relevant rs)))"

lemma entries_of_append: "entries_of pk d (xs @ ys) = entries_of pk d xs @ entries_of pk d ys"
  by (simp add: entries_of_def)

lemma getHistory_page:
  assumes "requireActiveWallet userId db = Inr (w, pk)" and "parse_history_query q = Some \<lparr>hq_cursor = c, hq_limit = l, hq_direction = d\<rparr>"
    and "sd_payments sdk pk c (nat l) True = Inr page" and "c \<noteq> Some []"
  shows "getHistory_route explain False sdk userId q db =
    (let next = (if page = [] then None else json_str_opt (last page) ''paging_token'')
     in WalletHistoryReply (entries_of pk d page) c next (next \<noteq> None) l)"
proof -
  have "(case c of None \<Rightarrow> None | Some c' \<Rightarrow> if c' = [] then None else Some c') = c"
    using assms(4) by (simp split: option.split)
  with assms show ?thesis
    by (simp add: getHistory_route_def getHistory_def getPaymentHistory_def wrapProviderErrors_def entries_of_def Let_def or_default_def)
qed

lemma walk_from:
  assumes wallet: "requireActiveWallet userId db = Inr (w, pk)"
    and parses: "\<And>c. c \<noteq> Some [] \<Longrightarrow> parse_history_query (query c) = Some \<lparr>hq_cursor = c, hq_limit = l, hq_direction = d\<rparr>"
    and horizon: "\<And>c. sd_payments sdk pk c (nat l) True = Inr (take (nat l) (after_cursor ledger c))"
    and ok: "tokens_ok ledger" and "1 \<le> l"
    and "k \<le> length ledger" and "length ledger - k < n"
  shows "history_walk explain sdk userId query db n (cursor_at ledger k) = Some (entries_of pk d (drop k ledger))"
  using assms(6,7)
proof (induction n arbitrary: k)
  case (Suc n)
  let ?c = "cursor_at ledger k" and ?page = "take (nat l) (drop k ledger)"
  have c: "?c \<noteq> Some []" using cursor_nonempty [OF ok Suc.prems(1)] .
  have page: "sd_payments sdk pk ?c (nat l) True = Inr ?page"
    using horizon after_cursor_at [OF ok Suc.prems(1)] by simp
  note route = getHistory_page [OF wallet parses [OF c] page c]
  show ?case
  proof (cases "k = length ledger")
    case True
    then show ?thesis unfolding history_walk.simps route by (simp add: Let_def entries_of_def)
  next
    case False
    with Suc.prems have less: "k < length ledger" by simp
    let ?m = "min (k + nat l) (length ledger)"
    from \<open>1 \<le> l\<close> have pos: "0 < nat l" by simp
    have nextc: "json_str_opt (last ?page) ''paging_token'' = cursor_at ledger ?m"
      using last_token [OF ok less pos] .
    have "?m \<le> length ledger" "length ledger - ?m < n" "0 < ?m"
      using less pos Suc.prems(2) by auto
    with Suc.IH [of ?m] have rest: "history_walk explain sdk userId query db n (cursor_at ledger ?m)
        = Some (entries_of pk d (drop ?m ledger))" by simp
    have "drop ?m ledger = drop (nat l) (drop k ledger)" by (simp add: min_def add.commute)
    then have "drop k ledger = ?page @ drop ?m ledger" by (simp only: append_take_drop_id)
    then have whole: "entries_of pk d (drop k ledger) = entries_of pk d ?page @ entries_of pk d (drop ?m ledger)"
      by (metis entries_of_append)
    have "?page \<noteq> []" "cursor_at ledger ?m \<noteq> None"
      using less pos \<open>0 < ?m\<close> by (simp_all add: cursor_at_def)
    then show ?thesis
      unfolding history_walk.simps route whole using rest nextc by (simp add: Let_def)
  qed
qed simp

text \<open>
  C38. The history of a wallet can be read to its end. A client that follows \<open>nextCursor\<close> gets every payment of the wallet
  that the history shows and that goes in the direction it asked for, once and in order, and it is done after at most one request per payment and
  one more: pages are cut before the direction is applied, so none of them ends the walk early, however few entries it has.
\<close>

theorem history_walk_complete:
  assumes "requireActiveWallet userId db = Inr (w, pk)"
    and "\<And>c. c \<noteq> Some [] \<Longrightarrow> parse_history_query (query c) = Some \<lparr>hq_cursor = c, hq_limit = l, hq_direction = d\<rparr>"
    and "\<And>c. sd_payments sdk pk c (nat l) True = Inr (take (nat l) (after_cursor ledger c))"
    and "tokens_ok ledger" and "length ledger < n"
  shows "history_walk explain sdk userId query db n None = Some (entries_of pk d ledger)"
proof -
  from parse_history_limit [OF assms(2) [of None]] have "1 \<le> l" by simp
  from walk_from [OF assms(1-4) this, of 0 n explain] assms(5) show ?thesis by (simp add: cursor_at_def)
qed

section \<open>A concrete walk\<close>

definition demo_transfer :: "string \<Rightarrow> string \<Rightarrow> json" where
  "demo_transfer tok receiver = JObj [(''id'', JStr tok), (''paging_token'', JStr tok), (''type'', JStr ''payment''),
     (''to'', JStr receiver)]"

definition demo_ledger :: "json list" where
  "demo_ledger = [demo_transfer ''3'' ''G'', demo_transfer ''2'' ''H'', demo_transfer ''1'' ''G'']"

definition demo_history_wallet :: wallet where
  "demo_history_wallet = \<lparr>w_id = ''w'', w_userId = ''u'', w_network = ''TESTNET'', w_custody = ''CUSTODIAL'', w_publicKey = Some ''G'',
     w_status = WActive, w_managedKeyReferenceId = None, w_failureCode = None, w_attemptCount = 0, w_provisionedAt = None,
     w_statusChangedAt = 0\<rparr>"

definition demo_history_db :: wallet_db where
  "demo_history_db = \<lparr>wallets = [demo_history_wallet], wallet_jobs = [], managed_keys = [], wallet_users = [], wallet_consents = [],
     wallet_log = []\<rparr>"

definition demo_history_sdk :: stellar_sdk where
  "demo_history_sdk = \<lparr>sd_network = ''testnet'', sd_contractId = [], sd_nativeSame = False, sd_random = None,
     sd_friendbot = (\<lambda>_. None), sd_publicKey = (\<lambda>_. None),
     sd_loadAccount = (\<lambda>_. Inl \<lparr>he_status = Some 404, he_code = None, he_name = None, he_message = None\<rparr>),
     sd_payments = (\<lambda>pk c n desc. Inr (take n (after_cursor demo_ledger c))), sd_submit = (\<lambda>_. None),
     sd_getTransaction = (\<lambda>_ _. None), sd_simulate = (\<lambda>_ _. None), sd_sendInvocation = (\<lambda>_ _. None)\<rparr>"

definition demo_history_query :: "string option \<Rightarrow> json" where
  "demo_history_query c = JObj ((case c of None \<Rightarrow> [] | Some t \<Rightarrow> [(''cursor'', JStr t)]) @
     [(''limit'', JStr ''1''), (''direction'', JStr ''incoming'')])"

lemma demo_limit: "number_text ''1'' = Some 1"
  by (simp add: number_text_def trim_def is_space_def is_digit_def parse_nat_def digit_val_def)

lemma demo_transfer_record: "pr_id (toPaymentHistoryRecord (demo_transfer tok r)) = tok"
  "pr_to (toPaymentHistoryRecord (demo_transfer tok r)) = Some r"
  by (simp_all add: toPaymentHistoryRecord_def demo_transfer_def json_field_def json_str_opt_def or_else_def json_to_string_def Let_def)

lemma demo_transfer_shown: "he_id (to_history_entry pk (toPaymentHistoryRecord (demo_transfer tok r))) = tok"
  "he_direction (to_history_entry pk (toPaymentHistoryRecord (demo_transfer tok r))) = (if r = pk then Incoming else Outgoing)"
  by (simp_all add: to_history_entry_def demo_transfer_record)

lemma demo_transfer_relevant: "history_relevant (demo_transfer tok r)"
  by (simp add: history_relevant_def demo_transfer_def json_field_def HISTORY_OPERATION_TYPES_def)

text \<open>With one payment per page, the page in the middle of the walk is empty and says that there is more.\<close>

theorem history_walk_complete_witness:
  "\<exists>es. history_walk (\<lambda>q. q) demo_history_sdk ''u'' demo_history_query demo_history_db 4 None = Some es
     \<and> map he_id es = [''3'', ''1'']"
proof -
  have wallet: "requireActiveWallet ''u'' demo_history_db = Inr (demo_history_wallet, ''G'')"
    by (simp add: requireActiveWallet_def getByUserId_def demo_history_db_def demo_history_wallet_def)
  have parses: "parse_history_query (demo_history_query c) = Some \<lparr>hq_cursor = c, hq_limit = 1, hq_direction = Some Incoming\<rparr>"
    if "c \<noteq> Some []" for c
    using that by (cases c) (simp_all add: demo_history_query_def parse_history_query_def only_keys_def json_field_def
        parse_cursor_def parse_limit_def parse_direction_def demo_limit)
  have horizon: "sd_payments demo_history_sdk ''G'' c (nat 1) True = Inr (take (nat 1) (after_cursor demo_ledger c))" for c
    by (simp add: demo_history_sdk_def)
  have ok: "tokens_ok demo_ledger"
    by (simp add: tokens_ok_def demo_ledger_def demo_transfer_def paging_token_def json_str_opt_def json_field_def or_default_def)
  have "length demo_ledger < 4" by (simp add: demo_ledger_def)
  from history_walk_complete [OF wallet parses horizon ok this, of "\<lambda>q. q"]
  have "history_walk (\<lambda>q. q) demo_history_sdk ''u'' demo_history_query demo_history_db 4 None
      = Some (entries_of ''G'' (Some Incoming) demo_ledger)" by simp
  moreover have "map he_id (entries_of ''G'' (Some Incoming) demo_ledger) = [''3'', ''1'']"
    by (simp add: entries_of_def demo_ledger_def demo_transfer_shown demo_transfer_relevant)
  ultimately show ?thesis by simp
qed

end
