(* ===== verification/Schemas.thy ===== *)
theory Schemas
  imports Credentials Learner
begin

text \<open>
  The shapes the request schemas accept: \<open>src/src/schemas/auth.schema.ts\<close>, \<open>account.schema.ts\<close>, \<open>profile.schema.ts\<close>, the
  schemas of \<open>src/src/controllers/preference.controller.ts\<close> and \<open>consent.controller.ts\<close>, and the common ones of
  \<open>src/src/middleware/validation.middleware.ts\<close>. A schema is a predicate on the JSON body; the texts of its issues
  are left out. The formats zod and \<open>Intl\<close> know (e-mail addresses, URLs, UUIDs, time zones) are the argument \<open>formats\<close>.
\<close>

section \<open>Fields\<close>

record formats =
  fm_email :: "string \<Rightarrow> bool"
  fm_url :: "string \<Rightarrow> bool"
  fm_uuid :: "string \<Rightarrow> bool"
  fm_timezone :: "string \<Rightarrow> bool"

definition is_object :: "json \<Rightarrow> bool" where
  "is_object body = (case body of JObj _ \<Rightarrow> True | _ \<Rightarrow> False)"

text \<open>\<open>z.string()\<close> with checks, \<open>z.boolean()\<close>, \<open>z.enum\<close> and \<open>z.array\<close>; \<open>nullable\<close> and \<open>optional\<close>.\<close>

definition a_string :: "(string \<Rightarrow> bool) \<Rightarrow> json \<Rightarrow> bool" where
  "a_string p v = (case v of JStr s \<Rightarrow> p s | _ \<Rightarrow> False)"

definition a_boolean :: "json \<Rightarrow> bool" where
  "a_boolean v = (case v of JBool _ \<Rightarrow> True | _ \<Rightarrow> False)"

definition one_of :: "string list \<Rightarrow> json \<Rightarrow> bool" where
  "one_of xs = a_string (\<lambda>s. s \<in> set xs)"

definition an_array :: "nat \<Rightarrow> (json \<Rightarrow> bool) \<Rightarrow> json \<Rightarrow> bool" where
  "an_array most p v = (case v of JArr xs \<Rightarrow> length xs \<le> most \<and> list_all p xs | _ \<Rightarrow> False)"

definition or_null :: "(json \<Rightarrow> bool) \<Rightarrow> json \<Rightarrow> bool" where
  "or_null p v \<longleftrightarrow> v = JNull \<or> p v"

definition required :: "json \<Rightarrow> string \<Rightarrow> (json \<Rightarrow> bool) \<Rightarrow> bool" where
  "required body k p = (case json_field body k of None \<Rightarrow> False | Some v \<Rightarrow> p v)"

definition optional :: "json \<Rightarrow> string \<Rightarrow> (json \<Rightarrow> bool) \<Rightarrow> bool" where
  "optional body k p = (case json_field body k of None \<Rightarrow> True | Some v \<Rightarrow> p v)"

text \<open>\<open>.strict()\<close>, and the refinement that some field is there.\<close>

definition strict_keys :: "string list \<Rightarrow> json \<Rightarrow> bool" where
  "strict_keys ks body = (case body of JObj fs \<Rightarrow> list_all (\<lambda>(k, v). k \<in> set ks) fs | _ \<Rightarrow> False)"

definition some_field :: "json \<Rightarrow> bool" where
  "some_field body = (case body of JObj fs \<Rightarrow> fs \<noteq> [] | _ \<Rightarrow> False)"

definition non_empty :: "string \<Rightarrow> bool" where
  "non_empty s \<longleftrightarrow> 1 \<le> length s"

section \<open>Common checks\<close>

definition common_password :: "string \<Rightarrow> bool" where
  "common_password s \<longleftrightarrow> 8 \<le> length s \<and> list_ex (in_range (CHR ''a'') (CHR ''z'')) s
     \<and> list_ex (in_range (CHR ''A'') (CHR ''Z'')) s \<and> list_ex is_digit s \<and> list_ex (\<lambda>c. c \<in> set ''@$!%*?&'') s"

definition word_char :: "char \<Rightarrow> bool" where
  "word_char c \<longleftrightarrow> in_range (CHR ''a'') (CHR ''z'') c \<or> in_range (CHR ''A'') (CHR ''Z'') c \<or> is_digit c \<or> c = CHR ''_''"

definition common_username :: "string \<Rightarrow> bool" where
  "common_username s \<longleftrightarrow> 3 \<le> length s \<and> length s \<le> 30 \<and> list_all word_char s"

definition common_walletAddress :: "string \<Rightarrow> bool" where
  "common_walletAddress s \<longleftrightarrow> length s = 56 \<and> hd s = CHR ''G''
     \<and> list_all (\<lambda>c. in_range (CHR ''A'') (CHR ''Z'') c \<or> is_digit c) (tl s)"

section \<open>Credentials\<close>

definition strongPassword :: "string \<Rightarrow> bool" where
  "strongPassword s \<longleftrightarrow> 8 \<le> length s \<and> isStrongPassword s"

definition registerSchema :: "formats \<Rightarrow> json \<Rightarrow> bool" where
  "registerSchema fm body \<longleftrightarrow> is_object body
     \<and> required body ''email'' (a_string (fm_email fm)) \<and> required body ''password'' (a_string strongPassword)
     \<and> required body ''username'' (a_string (\<lambda>s. 3 \<le> length s))
     \<and> optional body ''role'' (one_of [''admin'', ''learner'', ''instructor''])"

text \<open>The role of the parsed data, with its default.\<close>

definition registered_role :: "json \<Rightarrow> string" where
  "registered_role body = (case json_field body ''role'' of Some (JStr s) \<Rightarrow> s | _ \<Rightarrow> ''learner'')"

definition loginSchema :: "formats \<Rightarrow> json \<Rightarrow> bool" where
  "loginSchema fm body \<longleftrightarrow> is_object body
     \<and> required body ''email'' (a_string (fm_email fm)) \<and> required body ''password'' (a_string (\<lambda>_. True))"

definition verifyEmailSchema :: "json \<Rightarrow> bool" where
  "verifyEmailSchema body \<longleftrightarrow> required body ''token'' (a_string non_empty)"

definition resendVerificationSchema :: "formats \<Rightarrow> json \<Rightarrow> bool" where
  "resendVerificationSchema fm body \<longleftrightarrow> required body ''email'' (a_string (fm_email fm))"

definition forgotPasswordSchema :: "formats \<Rightarrow> json \<Rightarrow> bool" where
  "forgotPasswordSchema fm body \<longleftrightarrow> required body ''email'' (a_string (fm_email fm))"

definition resetPasswordSchema :: "json \<Rightarrow> bool" where
  "resetPasswordSchema body \<longleftrightarrow>
     required body ''token'' (a_string non_empty) \<and> required body ''newPassword'' (a_string strongPassword)"

definition otpRequestSchema :: "json \<Rightarrow> bool" where
  "otpRequestSchema body \<longleftrightarrow>
     required body ''phone'' (a_string non_empty) \<and> optional body ''deviceId'' (a_string non_empty)"

definition otpVerifySchema :: "json \<Rightarrow> bool" where
  "otpVerifySchema body \<longleftrightarrow> required body ''phone'' (a_string non_empty)
     \<and> required body ''code'' (a_string (\<lambda>s. length s = 6)) \<and> optional body ''deviceId'' (a_string non_empty)"

definition refreshTokenSchema :: "json \<Rightarrow> bool" where
  "refreshTokenSchema body \<longleftrightarrow> is_object body \<and> optional body ''refreshToken'' (a_string non_empty)"

section \<open>Accounts\<close>

definition deactivateSchema :: "json \<Rightarrow> bool" where
  "deactivateSchema body \<longleftrightarrow> required body ''password'' (a_string non_empty)"

definition reactivateSchema :: "formats \<Rightarrow> json \<Rightarrow> bool" where
  "reactivateSchema fm body \<longleftrightarrow>
     required body ''email'' (a_string (fm_email fm)) \<and> required body ''password'' (a_string non_empty)"

definition requestDeletionSchema :: "json \<Rightarrow> bool" where
  "requestDeletionSchema body \<longleftrightarrow>
     required body ''password'' (a_string non_empty) \<and> optional body ''reason'' (a_string (\<lambda>s. length s \<le> 500))"

definition cancelDeletionSchema :: "formats \<Rightarrow> json \<Rightarrow> bool" where
  "cancelDeletionSchema fm body \<longleftrightarrow>
     required body ''email'' (a_string (fm_email fm)) \<and> required body ''password'' (a_string non_empty)"

definition exportIdParamSchema :: "formats \<Rightarrow> json \<Rightarrow> bool" where
  "exportIdParamSchema fm params \<longleftrightarrow> required params ''id'' (a_string (fm_uuid fm))"

section \<open>Profiles\<close>

definition LEARNER_LEVELS :: "string list" where
  "LEARNER_LEVELS = [''beginner'', ''intermediate'', ''advanced'', ''expert'']"

definition profile_visibilities :: "string list" where
  "profile_visibilities = [''private'', ''employer'', ''public'']"

definition profileUpdateFieldsShape :: "formats \<Rightarrow> (string \<times> (json \<Rightarrow> bool)) list" where
  "profileUpdateFieldsShape fm =
     [(''displayName'', or_null (a_string (\<lambda>s. 1 \<le> length s \<and> length s \<le> 80))),
      (''bio'', or_null (a_string (\<lambda>s. length s \<le> 1000))),
      (''avatarUrl'', or_null (a_string (fm_url fm))),
      (''country'', or_null (a_string (\<lambda>s. 2 \<le> length s \<and> length s \<le> 60))),
      (''timezone'', or_null (a_string (\<lambda>_. True))),
      (''languages'', an_array 20 (a_string non_empty)),
      (''level'', one_of LEARNER_LEVELS),
      (''interests'', an_array 50 (a_string non_empty)),
      (''goals'', an_array 20 (a_string non_empty)),
      (''visibility'', one_of profile_visibilities)]"

definition OWNER_UPDATABLE_PROFILE_FIELDS :: "string list" where
  "OWNER_UPDATABLE_PROFILE_FIELDS = [''displayName'', ''bio'', ''avatarUrl'', ''country'', ''timezone'', ''languages'', ''level'',
     ''interests'', ''goals'', ''visibility'']"

definition updateProfileSchema :: "formats \<Rightarrow> json \<Rightarrow> bool" where
  "updateProfileSchema fm body \<longleftrightarrow> strict_keys (map fst (profileUpdateFieldsShape fm)) body
     \<and> list_all (\<lambda>(k, p). optional body k p) (profileUpdateFieldsShape fm) \<and> some_field body"

definition changePasswordSchema :: "json \<Rightarrow> bool" where
  "changePasswordSchema body \<longleftrightarrow> strict_keys [''currentPassword'', ''newPassword''] body
     \<and> required body ''currentPassword'' (a_string non_empty) \<and> required body ''newPassword'' (a_string common_password)
     \<and> json_field body ''currentPassword'' \<noteq> json_field body ''newPassword''"

definition updateWalletSchema :: "json \<Rightarrow> bool" where
  "updateWalletSchema body \<longleftrightarrow> strict_keys [''walletAddress''] body \<and> required body ''walletAddress'' (a_string common_walletAddress)"

definition userIdParamSchema :: "formats \<Rightarrow> json \<Rightarrow> bool" where
  "userIdParamSchema fm params \<longleftrightarrow> required params ''id'' (a_string (fm_uuid fm))"

section \<open>Preferences and consents\<close>

definition SUPPORTED_LOCALES :: "string list" where
  "SUPPORTED_LOCALES = [''en-US'', ''en-GB'', ''fr-FR'', ''es-ES'', ''pt-BR'', ''sw-KE'', ''ar-SA'', ''de-DE'']"

definition TEXT_SIZES :: "string list" where
  "TEXT_SIZES = [''small'', ''medium'', ''large'', ''extra_large'']"

definition DIFFICULTY_LEVELS :: "string list" where
  "DIFFICULTY_LEVELS = [''beginner'', ''intermediate'', ''advanced'']"

definition preference_visibilities :: "string list" where
  "preference_visibilities = [''public'', ''private'', ''connections'']"

definition preference_shape :: "formats \<Rightarrow> (string \<times> (json \<Rightarrow> bool)) list" where
  "preference_shape fm =
     [(''locale'', one_of SUPPORTED_LOCALES),
      (''timezone'', a_string (fm_timezone fm)),
      (''lowDataMode'', a_boolean),
      (''highContrast'', a_boolean),
      (''reduceMotion'', a_boolean),
      (''screenReaderOptimized'', a_boolean),
      (''textSize'', one_of TEXT_SIZES),
      (''preferredDifficulty'', one_of DIFFICULTY_LEVELS),
      (''preferredCategories'', an_array 50 (a_string non_empty)),
      (''profileVisibility'', one_of preference_visibilities),
      (''analyticsConsent'', a_boolean),
      (''dataSharingConsent'', a_boolean)]"

definition updatePreferencesSchema :: "formats \<Rightarrow> json \<Rightarrow> bool" where
  "updatePreferencesSchema fm body \<longleftrightarrow> strict_keys (map fst (preference_shape fm)) body
     \<and> list_all (\<lambda>(k, p). optional body k p) (preference_shape fm) \<and> some_field body"

definition CONSENT_SOURCES :: "string list" where
  "CONSENT_SOURCES = [''onboarding'', ''settings'', ''api'']"

definition grantConsentSchema :: "json \<Rightarrow> bool" where
  "grantConsentSchema body \<longleftrightarrow> required body ''purpose'' (one_of CONSENT_PURPOSES)
     \<and> required body ''policyVersion'' (a_string non_empty) \<and> required body ''source'' (one_of CONSENT_SOURCES)"

definition withdrawConsentSchema :: "json \<Rightarrow> bool" where
  "withdrawConsentSchema body \<longleftrightarrow> required body ''purpose'' (one_of CONSENT_PURPOSES)
     \<and> required body ''source'' (one_of CONSENT_SOURCES)"

definition historyQuerySchema :: "json \<Rightarrow> bool" where
  "historyQuerySchema query \<longleftrightarrow> is_object query \<and> optional query ''purpose'' (one_of CONSENT_PURPOSES)"

section \<open>Properties\<close>

lemma a_string_some: "required body k (a_string p) \<longleftrightarrow> (\<exists>s. json_field body k = Some (JStr s) \<and> p s)"
  by (auto simp: required_def a_string_def split: option.splits json.splits)

lemma special_is_symbol:
  "c \<in> set ''@$!%*?&'' \<Longrightarrow> \<not> (in_range (CHR ''A'') (CHR ''Z'') c \<or> in_range (CHR ''a'') (CHR ''z'') c \<or> is_digit c)"
  by (auto simp: in_range_def is_digit_def)

lemma common_password_strong: "common_password s \<Longrightarrow> strongPassword s"
  using special_is_symbol by (auto simp: common_password_def strongPassword_def isStrongPassword_def list_ex_iff)

text \<open>
  Two password policies. What a user may change a password to could also be registered, but not the other way round:
  registration and reset accept any symbol, a change only one of seven, so a password can be accepted
  when an account is made and refused when it is set again.
\<close>

theorem password_policies_differ:
  "(\<forall>s. (\<exists>body. changePasswordSchema body \<and> json_field body ''newPassword'' = Some (JStr s)) \<longrightarrow>
      (\<forall>token. resetPasswordSchema (JObj [(''token'', JStr (CHR ''t'' # token)), (''newPassword'', JStr s)])))
   \<and> (\<exists>s. (\<forall>token. resetPasswordSchema (JObj [(''token'', JStr (CHR ''t'' # token)), (''newPassword'', JStr s)]))
        \<and> (\<forall>body. json_field body ''newPassword'' = Some (JStr s) \<longrightarrow> \<not> changePasswordSchema body))"
proof (intro conjI allI impI)
  fix s token
  assume "\<exists>body. changePasswordSchema body \<and> json_field body ''newPassword'' = Some (JStr s)"
  then have "strongPassword s"
    by (auto simp: changePasswordSchema_def a_string_some intro: common_password_strong)
  then show "resetPasswordSchema (JObj [(''token'', JStr (CHR ''t'' # token)), (''newPassword'', JStr s)])"
    by (simp add: resetPasswordSchema_def a_string_some json_field_def non_empty_def)
next
  let ?s = "''Passw0rd#''"
  have "strongPassword ?s"
    by (simp add: strongPassword_def isStrongPassword_def in_range_def is_digit_def)
  then have "resetPasswordSchema (JObj [(''token'', JStr (CHR ''t'' # token)), (''newPassword'', JStr ?s)])" for token
    by (simp add: resetPasswordSchema_def a_string_some json_field_def non_empty_def)
  moreover have "\<not> common_password ?s" by (simp add: common_password_def)
  then have "\<not> changePasswordSchema body" if "json_field body ''newPassword'' = Some (JStr ?s)" for body
    using that by (simp add: changePasswordSchema_def a_string_some)
  ultimately show "\<exists>s. (\<forall>token. resetPasswordSchema (JObj [(''token'', JStr (CHR ''t'' # token)), (''newPassword'', JStr s)]))
        \<and> (\<forall>body. json_field body ''newPassword'' = Some (JStr s) \<longrightarrow> \<not> changePasswordSchema body)"
    by blast
qed

text \<open>The fields a profile update can reach are the allow-list, whatever the body.\<close>

lemma profile_shape_fields: "map fst (profileUpdateFieldsShape fm) = OWNER_UPDATABLE_PROFILE_FIELDS"
  by (simp add: profileUpdateFieldsShape_def OWNER_UPDATABLE_PROFILE_FIELDS_def)

lemma profile_update_fields:
  "updateProfileSchema fm (JObj fs) \<Longrightarrow> set (map fst fs) \<subseteq> set OWNER_UPDATABLE_PROFILE_FIELDS \<and> fs \<noteq> []"
  unfolding updateProfileSchema_def profile_shape_fields by (auto simp: strict_keys_def some_field_def list_all_iff)

text \<open>Anybody may register as an administrator.\<close>

lemma admin_may_register: "fm_email fm ''a@b.c'' \<Longrightarrow>
    registerSchema fm (JObj [(''email'', JStr ''a@b.c''), (''password'', JStr ''Passw0rd#''), (''username'', JStr ''abc''), (''role'', JStr ''admin'')])
    \<and> registered_role (JObj [(''email'', JStr ''a@b.c''), (''password'', JStr ''Passw0rd#''), (''username'', JStr ''abc''), (''role'', JStr ''admin'')]) = ''admin''"
  by (simp add: registerSchema_def a_string_some json_field_def is_object_def optional_def one_of_def a_string_def registered_role_def
      strongPassword_def isStrongPassword_def in_range_def is_digit_def)

end
