(* ===== verification/Requests.thy ===== *)
theory Requests
  imports Credentials Stellar
begin

text \<open>
  What surrounds the handlers: \<open>src/src/middleware/request-context.ts\<close>, \<open>versioning.middleware.ts\<close>,
  \<open>validation.middleware.ts\<close>, \<open>error.middleware.ts\<close> (\<open>notFoundHandler\<close>, \<open>asyncHandler\<close>), the probes of
  \<open>src/src/routes/health.routes.ts\<close>, the envelopes of \<open>src/src/schemas/api.schema.ts\<close> and
  \<open>src/src/utils/string.ts\<close>. A middleware turns a request and a reply with its headers into the next ones, or answers.
  The order in which Express runs them is that of \<open>src/src/app.ts\<close>; the time is an argument, already printed.
\<close>

section \<open>Requests and their context\<close>

record request =
  rq_method :: string
  rq_path :: string
  rq_headers :: "(string \<times> string) list"
  rq_user :: "auth_user option"
  rq_body :: json
  rq_query :: json
  rq_params :: json
  rq_requestId :: "string option"
  rq_actor :: "auth_user option"
  rq_startTime :: "time option"

type_synonym headers = "(string \<times> string) list"

text \<open>\<open>res.setHeader\<close> replaces a header of the same name.\<close>

definition setHeader :: "string \<Rightarrow> string \<Rightarrow> headers \<Rightarrow> headers" where
  "setHeader k v hs = filter (\<lambda>h. fst h \<noteq> k) hs @ [(k, v)]"

definition truthy_header :: "string option \<Rightarrow> string option" where
  "truthy_header v = (case v of None \<Rightarrow> None | Some s \<Rightarrow> if s = [] then None else Some s)"

definition attachContext :: "string \<Rightarrow> time \<Rightarrow> request \<times> headers \<Rightarrow> request \<times> headers" where
  "attachContext uuid now s =
     (let rq = fst s;
          requestId = or_default uuid (truthy_header (map_of (rq_headers rq) ''x-request-id''));
          rq1 = rq\<lparr>rq_requestId := Some requestId, rq_startTime := Some now\<rparr>
      in (case rq_user rq of None \<Rightarrow> rq1 | Some u \<Rightarrow> rq1\<lparr>rq_actor := Some u\<rparr>,
          setHeader ''x-request-id'' requestId (snd s)))"

definition getRequestId :: "request \<Rightarrow> string option" where
  "getRequestId rq = rq_requestId rq"

definition getActor :: "request \<Rightarrow> auth_user option" where
  "getActor rq = rq_actor rq"

datatype log_level = LogError | LogWarn | LogInfo

record request_log =
  rl_level :: log_level
  rl_requestId :: "string option"
  rl_statusCode :: nat
  rl_duration :: time
  rl_actor :: string

definition actor_text :: "auth_user option \<Rightarrow> string" where
  "actor_text a = (case a of None \<Rightarrow> ''anonymous'' | Some u \<Rightarrow> au_role u @ '':'' @ au_id u)"

text \<open>What is logged when a reply is sent. A start time of 0 counts as none.\<close>

definition on_finish :: "time \<Rightarrow> nat \<Rightarrow> request \<Rightarrow> request_log" where
  "on_finish now statusCode rq =
     \<lparr>rl_level = (if 500 \<le> statusCode then LogError else if 400 \<le> statusCode then LogWarn else LogInfo),
      rl_requestId = rq_requestId rq, rl_statusCode = statusCode,
      rl_duration = (case rq_startTime rq of None \<Rightarrow> 0 | Some t \<Rightarrow> if t = 0 then 0 else now - t),
      rl_actor = actor_text (rq_actor rq)\<rparr>"

section \<open>Versions\<close>

record deprecation_options =
  do_sunsetDate :: "string option"
  do_docUrl :: "string option"

definition apiVersionHeader :: "request \<times> headers \<Rightarrow> request \<times> headers" where
  "apiVersionHeader s = (fst s, setHeader ''X-API-Version'' ''v1'' (snd s))"

definition setDeprecationHeaders :: "deprecation_options \<Rightarrow> headers \<Rightarrow> headers" where
  "setDeprecationHeaders opts hs =
     (let hs1 = setHeader ''Deprecation'' ''true'' hs;
          hs2 = (case truthy_header (do_sunsetDate opts) of None \<Rightarrow> hs1 | Some d \<Rightarrow> setHeader ''Sunset'' d hs1)
      in case truthy_header (do_docUrl opts) of
           None \<Rightarrow> hs2
         | Some u \<Rightarrow> setHeader ''Link'' (''<'' @ u @ ''>; rel=\"sunset\"'') hs2)"

definition deprecatedEndpoint :: "deprecation_options \<Rightarrow> request \<times> headers \<Rightarrow> request \<times> headers" where
  "deprecatedEndpoint opts s = (fst s, setDeprecationHeaders opts (snd s))"

section \<open>Validation\<close>

record issue =
  is_path :: "string list"
  is_message :: string

text \<open>A schema parses a value, rejects it with its issues (\<open>ZodError\<close>), or throws something else.\<close>

datatype parse_result = Parsed json | Rejected "issue list" | ThrewOther

definition join_path :: "string list \<Rightarrow> string" where
  "join_path ps = (case ps of [] \<Rightarrow> [] | p # rest \<Rightarrow> p @ concat (map (\<lambda>q. CHR ''.'' # q) rest))"

definition formatZodMessages :: "issue list \<Rightarrow> string list" where
  "formatZodMessages issues =
     map (\<lambda>i. let path = join_path (is_path i); msg = is_message i in
            if includes_str ''uuid'' (toLowerCase msg) \<and> path = ''id'' then ''Invalid ID format''
            else if msg = ''Required'' then
              (if path = ''currentPassword'' then ''Current password is required''
               else if path = ''newPassword'' then ''New password is required'' else ''Required'')
            else msg) issues"

record validation_schemas =
  vs_body :: "(json \<Rightarrow> parse_result) option"
  vs_query :: "(json \<Rightarrow> parse_result) option"
  vs_params :: "(json \<Rightarrow> parse_result) option"

text \<open>
  One part of a request: its value afterwards, and its messages. An assignment that throws (\<open>writable\<close> is false) is
  caught like any other error that is no \<open>ZodError\<close>, which is not reported.
\<close>

definition validate_part :: "bool \<Rightarrow> (json \<Rightarrow> parse_result) option \<Rightarrow> json \<Rightarrow> json \<times> string list option" where
  "validate_part writable schema v =
     (case schema of
        None \<Rightarrow> (v, None)
      | Some parse \<Rightarrow>
          (case parse v of
             Parsed v' \<Rightarrow> (if writable then v' else v, None)
           | Rejected issues \<Rightarrow> (v, Some (formatZodMessages issues))
           | ThrewOther \<Rightarrow> (v, None)))"

datatype validation_outcome =
    NextHandler request
  | InvalidRequest nat "(string \<times> string list) list" string

definition named_errors :: "(string \<times> string list option) list \<Rightarrow> (string \<times> string list) list" where
  "named_errors ps = concat (map (\<lambda>(k, m). case m of None \<Rightarrow> [] | Some ms \<Rightarrow> [(k, ms)]) ps)"

text \<open>Express 5 gives \<open>req.query\<close> a getter only, so the parsed query cannot be assigned.\<close>

definition validate :: "validation_schemas \<Rightarrow> request \<Rightarrow> validation_outcome" where
  "validate schemas rq =
     (let (body, e1) = validate_part True (vs_body schemas) (rq_body rq);
          (query, e2) = validate_part False (vs_query schemas) (rq_query rq);
          (params, e3) = validate_part True (vs_params schemas) (rq_params rq);
          errors = named_errors [(''body'', e1), (''query'', e2), (''params'', e3)]
      in if errors = [] then NextHandler (rq\<lparr>rq_body := body, rq_query := query, rq_params := params\<rparr>)
         else InvalidRequest 400 errors (or_default ''unknown'' (truthy_header (rq_requestId rq))))"

section \<open>Errors\<close>

text \<open>\<open>asyncHandler\<close>: a handler answers, or its promise is rejected with a value; reading \<open>message\<close> of a
  rejection with \<open>null\<close> or \<open>undefined\<close> (\<open>RejectedNullish\<close>) throws in the \<open>catch\<close>, and nobody answers.\<close>

datatype 'a handled = Replied 'a | RejectedWith thrown | RejectedNullish

datatype 'a next_call = Sent 'a | NextError thrown | NeverAnswered

definition asyncHandler :: "'a handled \<Rightarrow> 'a next_call" where
  "asyncHandler h = (case h of Replied a \<Rightarrow> Sent a | RejectedWith e \<Rightarrow> NextError e | RejectedNullish \<Rightarrow> NeverAnswered)"

definition notFoundHandler :: "request \<Rightarrow> 'a next_call" where
  "notFoundHandler rq = NextError (AppError (NotFoundError (''Cannot '' @ rq_method rq @ '' '' @ rq_path rq)))"

datatype 'a final = Reply 'a | ErrorAnswer error_response | NoAnswer

text \<open>The application: context and version headers, the matching handler or \<open>notFoundHandler\<close>, and \<open>errorHandler\<close>.\<close>

definition app ::
    "bool \<Rightarrow> string \<Rightarrow> time \<Rightarrow> (request \<Rightarrow> 'a next_call option) \<Rightarrow> request \<Rightarrow> 'a final \<times> request \<times> headers" where
  "app development uuid now routes rq =
     (let (rq1, hs) = apiVersionHeader (attachContext uuid now (rq, []));
          result = (case routes rq1 of None \<Rightarrow> notFoundHandler rq1 | Some r \<Rightarrow> r)
      in (case result of
            Sent a \<Rightarrow> Reply a
          | NextError e \<Rightarrow> ErrorAnswer (errorHandler development (rq_requestId rq1) e)
          | NeverAnswered \<Rightarrow> NoAnswer, rq1, hs))"

section \<open>Health\<close>

record health_reply =
  hr_statusCode :: nat
  hr_status :: string
  hr_checks :: "(string \<times> string) list"
  hr_errors :: "string list option"

definition health_live :: health_reply where
  "health_live = \<lparr>hr_statusCode = 200, hr_status = ''ok'', hr_checks = [], hr_errors = None\<rparr>"

text \<open>The database answers, or fails with a message (\<open>None\<close> when what it throws is no error).\<close>

definition health_ready :: "string option + unit \<Rightarrow> health_reply" where
  "health_ready db =
     (case db of
        Inr _ \<Rightarrow> \<lparr>hr_statusCode = 200, hr_status = ''ready'', hr_checks = [(''database'', ''ok'')], hr_errors = None\<rparr>
      | Inl m \<Rightarrow> \<lparr>hr_statusCode = 503, hr_status = ''not ready'', hr_checks = [(''database'', ''error'')],
                  hr_errors = Some [''Database connection failed: '' @ or_default ''unknown error'' m]\<rparr>)"

section \<open>Envelopes\<close>

record pagination_meta =
  pm_page :: int
  pm_limit :: int
  pm_total :: int
  pm_totalPages :: int
  pm_hasNextPage :: bool
  pm_hasPrevPage :: bool
  pm_requestId :: "string option"
  pm_timestamp :: string
  pm_version :: string

text \<open>\<open>Math.ceil(total / limit) || 0\<close> for a limit the schemas accept, which is at least 1.\<close>

definition total_pages :: "int \<Rightarrow> int \<Rightarrow> int" where
  "total_pages a b = - ((- a) div b)"

definition createPaginationMeta :: "string \<Rightarrow> int \<Rightarrow> int \<Rightarrow> int \<Rightarrow> string option \<Rightarrow> string option \<Rightarrow> string option \<Rightarrow> pagination_meta" where
  "createPaginationMeta now page limit totalRows requestId timestamp version =
     (let totalPages = total_pages totalRows limit in
      \<lparr>pm_page = page, pm_limit = limit, pm_total = totalRows, pm_totalPages = totalPages, pm_hasNextPage = page < totalPages,
       pm_hasPrevPage = 1 < page, pm_requestId = requestId, pm_timestamp = or_default now (truthy_header timestamp),
       pm_version = or_default ''v1'' version\<rparr>)"

record cursor_meta =
  cm_cursor :: "string option"
  cm_nextCursor :: "string option"
  cm_hasMore :: bool
  cm_limit :: int
  cm_requestId :: "string option"
  cm_timestamp :: string
  cm_version :: string

definition createCursorPaginationMeta ::
    "string \<Rightarrow> string option \<Rightarrow> string option \<Rightarrow> bool \<Rightarrow> int \<Rightarrow> string option \<Rightarrow> string option \<Rightarrow> string option \<Rightarrow> cursor_meta" where
  "createCursorPaginationMeta now cursor nextCursor hasMore limit requestId timestamp version =
     \<lparr>cm_cursor = cursor, cm_nextCursor = nextCursor, cm_hasMore = hasMore, cm_limit = limit, cm_requestId = requestId,
      cm_timestamp = or_default now (truthy_header timestamp), cm_version = or_default ''v1'' version\<rparr>"

record request_metadata =
  md_requestId :: string
  md_timestamp :: string
  md_version :: string

record ('d, 'm) envelope =
  en_success :: bool
  en_data :: 'd
  en_message :: "string option"
  en_meta :: 'm
  en_time :: string

text \<open>The metadata given may lack any of its fields.\<close>

definition createSuccessEnvelope ::
    "string \<Rightarrow> 'd \<Rightarrow> string option \<Rightarrow> string option \<Rightarrow> string option \<Rightarrow> string option \<Rightarrow> ('d, request_metadata) envelope" where
  "createSuccessEnvelope now data message requestId timestamp version =
     (let t = or_default now (truthy_header timestamp) in
      \<lparr>en_success = True, en_data = data, en_message = message,
       en_meta = \<lparr>md_requestId = or_default ''unknown'' (truthy_header requestId), md_timestamp = t,
                  md_version = or_default ''v1'' (truthy_header version)\<rparr>,
       en_time = t\<rparr>)"

definition createPaginatedEnvelope ::
    "string \<Rightarrow> 'd list \<Rightarrow> pagination_meta \<Rightarrow> string option \<Rightarrow> ('d list, pagination_meta) envelope" where
  "createPaginatedEnvelope now data meta message =
     \<lparr>en_success = True, en_data = data, en_message = message, en_meta = meta,
      en_time = or_default now (truthy_header (Some (pm_timestamp meta)))\<rparr>"

definition createCursorPaginatedEnvelope ::
    "string \<Rightarrow> 'd list \<Rightarrow> cursor_meta \<Rightarrow> string option \<Rightarrow> ('d list, cursor_meta) envelope" where
  "createCursorPaginatedEnvelope now data meta message =
     \<lparr>en_success = True, en_data = data, en_message = message, en_meta = meta,
      en_time = or_default now (truthy_header (Some (cm_timestamp meta)))\<rparr>"

section \<open>Strings\<close>

text \<open>\<open>normalize('NFD')\<close> with the diacritics taken off is the argument \<open>strip\<close>.\<close>

definition slug_char :: "char \<Rightarrow> bool" where
  "slug_char c \<longleftrightarrow> in_range (CHR ''a'') (CHR ''z'') c \<or> is_digit c"

fun dash_runs :: "bool \<Rightarrow> string \<Rightarrow> string" where
  "dash_runs inRun [] = []"
| "dash_runs inRun (c # cs) =
     (if slug_char c then c # dash_runs False cs else if inRun then dash_runs True cs else CHR ''-'' # dash_runs True cs)"

definition trim_dashes :: "string \<Rightarrow> string" where
  "trim_dashes s = rev (dropWhile (\<lambda>c. c = CHR ''-'') (rev (dropWhile (\<lambda>c. c = CHR ''-'') s)))"

definition slugify :: "(string \<Rightarrow> string) \<Rightarrow> string \<Rightarrow> string" where
  "slugify strip input = trim_dashes (dash_runs False (toLowerCase (strip input)))"

text \<open>\<open>slice(0, n)\<close>, where a negative \<open>n\<close> counts from the end.\<close>

definition slice_to :: "int \<Rightarrow> string \<Rightarrow> string" where
  "slice_to n s = (if n < 0 then take (nat (int (length s) + n)) s else take (nat n) s)"

definition truncate_text :: "string \<Rightarrow> int \<Rightarrow> string \<Rightarrow> string" where
  "truncate_text input maxLength ellipsis =
     (if int (length input) \<le> maxLength then input else slice_to (maxLength - int (length ellipsis)) input @ ellipsis)"

end
