(* ===== verification/RequestProps.thy ===== *)
theory RequestProps
  imports Requests
begin

text \<open>
  Properties of what surrounds the handlers: which requests validation lets through and with what values, who answers a
  request, the figures of a page, and the texts of \<open>utils/string.ts\<close>.
\<close>

section \<open>Validation\<close>

definition accepts :: "(json \<Rightarrow> parse_result) option \<Rightarrow> json \<Rightarrow> bool" where
  "accepts schema v \<longleftrightarrow> (case schema of None \<Rightarrow> True
     | Some parse \<Rightarrow> (case parse v of Rejected _ \<Rightarrow> False | _ \<Rightarrow> True))"

lemma part_error: "snd (validate_part w schema v) = None \<longleftrightarrow> accepts schema v"
  by (auto simp: validate_part_def accepts_def split: option.splits parse_result.splits)

text \<open>
  A request goes on exactly when no schema rejects its part. Its query is then the one that came, not the one its
  schema made of it; and a part whose schema failed without a \<open>ZodError\<close> passes as it is.
\<close>

theorem validation_lets_through:
  "(\<exists>rq'. validate schemas rq = NextHandler rq') \<longleftrightarrow>
     accepts (vs_body schemas) (rq_body rq) \<and> accepts (vs_query schemas) (rq_query rq) \<and> accepts (vs_params schemas) (rq_params rq)"
proof -
  have "named_errors [(''body'', e1), (''query'', e2), (''params'', e3)] = [] \<longleftrightarrow> e1 = None \<and> e2 = None \<and> e3 = None" for e1 e2 e3
    by (auto simp: named_errors_def split: option.splits)
  with part_error [of True "vs_body schemas" "rq_body rq"] part_error [of False "vs_query schemas" "rq_query rq"]
    part_error [of True "vs_params schemas" "rq_params rq"]
  show ?thesis by (auto simp: validate_def Let_def split: prod.splits)
qed

lemma validated_query_raw: "validate schemas rq = NextHandler rq' \<Longrightarrow> rq_query rq' = rq_query rq"
  by (auto simp: validate_def Let_def validate_part_def split: prod.splits if_splits option.splits parse_result.splits)

lemma validated_body: "validate schemas rq = NextHandler rq' \<Longrightarrow> vs_body schemas = Some parse \<Longrightarrow>
    parse (rq_body rq) = Parsed b \<Longrightarrow> rq_body rq' = b"
  by (auto simp: validate_def Let_def validate_part_def split: prod.splits if_splits option.splits parse_result.splits)

section \<open>Answers\<close>

lemma unknown_route_answers: "routes (fst (attachContext uuid now (rq, []))) = None \<Longrightarrow>
    case fst (app development uuid now routes rq) of
      ErrorAnswer e \<Rightarrow> Credentials.er_status e = 404 \<and> er_code e = RESOURCE_NOT_FOUND
    | _ \<Rightarrow> False"
  by (simp add: app_def apiVersionHeader_def notFoundHandler_def errorHandler_def NotFoundError_def app_error_of_def Let_def
      split: prod.splits)

text \<open>The context is made before any router runs, when no user is known yet: requests are logged as anonymous.\<close>

lemma logged_anonymous:
  assumes "rq_user rq = None" and "rq_actor rq = None"
    and "rq_actor served = rq_actor (fst (attachContext uuid now (rq, hs)))"
  shows "rl_actor (on_finish later statusCode served) = ''anonymous''"
  using assms by (simp add: attachContext_def on_finish_def actor_text_def Let_def)

lemma version_header: "(''X-API-Version'', ''v1'') \<in> set (snd (snd (app development uuid now routes rq)))"
  by (simp add: app_def apiVersionHeader_def setHeader_def Let_def split: prod.splits)

section \<open>Pages\<close>

lemma total_pages_exact: "0 < b \<Longrightarrow> 0 \<le> a \<Longrightarrow> p < total_pages a b \<longleftrightarrow> p * b < a"
proof -
  assume b: "0 < b" and a: "0 \<le> a"
  let ?q = "(- a) div b"
  have "- a = b * ?q + (- a) mod b" by simp
  with pos_mod_bound [OF b, of "- a"] pos_mod_sign [OF b, of "- a"]
  have split: "b * ?q \<le> - a" "- a < b * (?q + 1)" unfolding distrib_left mult_1_right by linarith+
  have "p * b < a" if "p < - ?q"
  proof -
    from that b have "b * (?q + 1) \<le> b * (- p)" by (intro mult_left_mono) simp_all
    with split(2) show ?thesis by (simp add: mult.commute)
  qed
  moreover have "a \<le> p * b" if "- ?q \<le> p"
  proof -
    from that b have "b * (- p) \<le> b * ?q" by (intro mult_left_mono) simp_all
    with split(1) show ?thesis by (simp add: mult.commute)
  qed
  ultimately show ?thesis unfolding total_pages_def by (meson not_le)
qed

text \<open>There is a next page exactly when some row lies behind this one.\<close>

lemma next_page_exact:
  assumes "0 < limit" and "0 \<le> totalRows"
  shows "pm_hasNextPage (createPaginationMeta now page limit totalRows r t v) \<longleftrightarrow> page * limit < totalRows"
  using assms by (simp add: createPaginationMeta_def Let_def total_pages_exact)

section \<open>Texts\<close>

lemma dash_runs_chars: "c \<in> set (dash_runs b s) \<Longrightarrow> slug_char c \<or> c = CHR ''-''"
  by (induction b s rule: dash_runs.induct) (auto split: if_splits)

lemma trim_dashes_set: "set (trim_dashes s) \<subseteq> set s"
proof
  fix c
  assume "c \<in> set (trim_dashes s)"
  then have "c \<in> set (dropWhile (\<lambda>c. c = CHR ''-'') s)"
    unfolding trim_dashes_def set_rev by (drule_tac set_dropWhileD) simp
  then show "c \<in> set s" by (rule set_dropWhileD)
qed

lemma slug_chars: "c \<in> set (slugify strip s) \<Longrightarrow> slug_char c \<or> c = CHR ''-''"
  using dash_runs_chars trim_dashes_set by (fastforce simp: slugify_def)

text \<open>No two dashes meet, and a slug begins and ends with a letter or digit.\<close>

fun dashed :: "bool \<Rightarrow> string \<Rightarrow> bool" where
  "dashed inRun [] \<longleftrightarrow> True"
| "dashed inRun (c # cs) \<longleftrightarrow> (if c = CHR ''-'' then \<not> inRun \<and> dashed True cs else slug_char c \<and> dashed False cs)"

lemma dash_not_slug: "\<not> slug_char (CHR ''-'')"
  by (simp add: slug_char_def in_range_def is_digit_def)

lemma dash_runs_dashed: "dashed b (dash_runs b s)"
  by (induction b s rule: dash_runs.induct) (auto simp: dash_not_slug)

lemma dashed_weaken: "dashed True s \<Longrightarrow> dashed False s"
  by (cases s) (auto split: if_splits)

lemma dashed_fixed: "dashed b s \<Longrightarrow> dash_runs b s = s"
  by (induction b s rule: dashed.induct) (auto simp: dash_not_slug split: if_splits)

lemma dashed_dropWhile: "dashed b s \<Longrightarrow> dashed False (dropWhile (\<lambda>c. c = CHR ''-'') s)"
  by (induction b s rule: dashed.induct) (auto dest: dashed_weaken split: if_splits)

lemma dashed_prefix: "dashed b (xs @ ys) \<Longrightarrow> dashed b xs"
  by (induction b xs rule: dashed.induct) (auto split: if_splits)

lemma slug_dashed: "dashed False (slugify strip s)"
proof -
  let ?t = "dropWhile (\<lambda>c. c = CHR ''-'') (dash_runs False (toLowerCase (strip s)))"
  have "dashed False ?t" by (rule dashed_dropWhile [OF dash_runs_dashed])
  moreover have "?t = slugify strip s @ rev (takeWhile (\<lambda>c. c = CHR ''-'') (rev ?t))"
    unfolding slugify_def trim_dashes_def by (metis rev_append rev_rev_ident takeWhile_dropWhile_id)
  ultimately show ?thesis using dashed_prefix by metis
qed

lemma dropWhile_idem: "dropWhile P (dropWhile P s) = dropWhile P s"
  by (induction s) auto

lemma trim_dashes_idem: "trim_dashes (trim_dashes s) = trim_dashes s"
proof -
  let ?P = "\<lambda>c. c = CHR ''-''"
  let ?t = "dropWhile ?P s"
  have split: "?t = trim_dashes s @ rev (takeWhile ?P (rev ?t))"
    unfolding trim_dashes_def by (metis rev_append rev_rev_ident takeWhile_dropWhile_id)
  have "dropWhile ?P (trim_dashes s) = trim_dashes s"
  proof (cases "trim_dashes s")
    case (Cons c cs)
    from split have "?t = c # (cs @ rev (takeWhile ?P (rev ?t)))" unfolding Cons by simp
    then obtain r where r: "?t = c # r" by blast
    have "hd ?t = c" "?t \<noteq> []" unfolding r by simp_all
    then have "\<not> ?P c" using hd_dropWhile [of ?P s] by blast
    with Cons show ?thesis by simp
  qed simp
  then show ?thesis
    by (simp add: trim_dashes_def [of "trim_dashes s"]) (simp add: trim_dashes_def dropWhile_idem)
qed

lemma lower_slug_char: "slug_char c \<or> c = CHR ''-'' \<Longrightarrow> lower_char c = c"
  by (auto simp: slug_char_def in_range_def is_digit_def lower_char_def Let_def)

text \<open>
  A slug is made of lower-case letters and digits in runs joined by single dashes, and making a slug of a slug
  changes nothing, given that taking off diacritics leaves such texts alone.
\<close>

theorem slugify_idempotent:
  assumes "\<And>t. \<forall>c \<in> set t. slug_char c \<or> c = CHR ''-'' \<Longrightarrow> strip t = t"
  shows "slugify strip (slugify strip s) = slugify strip s"
proof -
  let ?t = "slugify strip s"
  have "strip ?t = ?t" using slug_chars by (intro assms) blast
  moreover have "toLowerCase ?t = ?t"
    unfolding toLowerCase_def using slug_chars lower_slug_char by (intro map_idI) blast
  moreover have "dash_runs False ?t = ?t" by (rule dashed_fixed [OF slug_dashed])
  moreover have "trim_dashes ?t = ?t" by (simp add: slugify_def trim_dashes_idem)
  ultimately show ?thesis by (simp add: slugify_def [of strip "slugify strip s"])
qed

text \<open>A cut text has the length asked for when the ellipsis fits in it; below that it may be longer than asked for.\<close>

lemma truncate_fits: "int (length ellipsis) \<le> n \<Longrightarrow> int (length (truncate_text s n ellipsis)) \<le> n"
  by (auto simp: truncate_text_def slice_to_def)

lemma truncate_too_long: "truncate_text ''abcdef'' 2 ''...'' = ''abcde...''"
  by (simp add: truncate_text_def slice_to_def)

end
