(* ===== verification/Routes.thy ===== *)
theory Routes
  imports Credentials
begin

text \<open>
  The routers: \<open>src/src/routes/index.ts\<close>, \<open>src/src/routes/v1\<close> and the mounts of \<open>src/src/app.ts\<close>, with their full paths. A layer
  is a value here, with the gates that stand before its handler; the gates are those of \<open>Credentials\<close>, and handlers are named as the
  controllers name them. A request is its \<open>route_env\<close>: the token it sends, the accounts, what rate limiters and request
  validation answer, and how Express matches it: \<open>re_matches\<close> says whether a method and a path pattern match it, \<open>re_below\<close>
  whether it lies at or below the path of a \<open>router.use\<close>. Express is documented to run the layers in the order in which
  they were added, a route until its handler answers; that is \<open>dispatch\<close>. The self-custody router is mounted
  nowhere, and \<open>/api-docs\<close> is left out.
\<close>

section \<open>Layers\<close>

datatype gate_kind =
    Authenticate | OptionalAuthenticate | ActiveAccount | VerifiedEmail
  | Authorize "string list" | RateLimit string | Validate string

datatype segment = Lit string | Param string

datatype layer = Use "segment list" "gate_kind list" | Route string "segment list" "gate_kind list" string

section \<open>Running the layers\<close>

record route_env =
  re_verify :: "string \<Rightarrow> auth_user verify_result"
  re_authorization :: "string option"
  re_down :: bool
  re_accounts :: "account_row list"
  re_underLimit :: "string \<Rightarrow> bool"
  re_valid :: "string \<Rightarrow> bool"
  re_matches :: "string \<Rightarrow> segment list \<Rightarrow> bool"
  re_below :: "segment list \<Rightarrow> bool"

fun run_gate :: "route_env \<Rightarrow> gate_kind \<Rightarrow> auth_user option \<Rightarrow> gate" where
  "run_gate env Authenticate u = authenticate (re_verify env) \<lparr>ah_authorization = re_authorization env, ah_user = u\<rparr>"
| "run_gate env OptionalAuthenticate u =
     optionalAuthenticate (re_verify env) \<lparr>ah_authorization = re_authorization env, ah_user = u\<rparr>"
| "run_gate env ActiveAccount u = requireActiveAccount (re_down env) (re_accounts env) u"
| "run_gate env VerifiedEmail u = requireVerifiedEmail (re_down env) (re_accounts env) u"
| "run_gate env (Authorize roles) u = authorize roles (re_down env) (re_accounts env) u"
| "run_gate env (RateLimit name) u = (if re_underLimit env name then Pass u else Refuse 429 ''Too many requests, please try again later.'' None)"
| "run_gate env (Validate name) u = (if re_valid env name then Pass u else Refuse 400 ''Validation failed'' None)"

fun run_gates :: "route_env \<Rightarrow> gate_kind list \<Rightarrow> auth_user option \<Rightarrow> gate" where
  "run_gates env [] u = Pass u"
| "run_gates env (g # gs) u = (case run_gate env g u of Pass u' \<Rightarrow> run_gates env gs u' | Refuse n m c \<Rightarrow> Refuse n m c)"

datatype routed = Refused nat string | Handled string "auth_user option" | NotRouted

fun dispatch :: "route_env \<Rightarrow> layer list \<Rightarrow> auth_user option \<Rightarrow> routed" where
  "dispatch env [] u = NotRouted"
| "dispatch env (Use p gs # ls) u =
     (if re_below env p then
        (case run_gates env gs u of Pass u' \<Rightarrow> dispatch env ls u' | Refuse n m c \<Rightarrow> Refused n m)
      else dispatch env ls u)"
| "dispatch env (Route m p gs h # ls) u =
     (if re_matches env m p then
        (case run_gates env gs u of Pass u' \<Rightarrow> Handled h u' | Refuse n m' c \<Rightarrow> Refused n m')
      else dispatch env ls u)"

section \<open>The routes\<close>

definition auth_routes :: "layer list" where
  "auth_routes =
     [Route ''POST'' [Lit ''api'', Lit ''v1'', Lit ''auth'', Lit ''register''] [RateLimit ''auth''] ''register'',
      Route ''POST'' [Lit ''api'', Lit ''v1'', Lit ''auth'', Lit ''login''] [RateLimit ''auth''] ''login'',
      Route ''POST'' [Lit ''api'', Lit ''v1'', Lit ''auth'', Lit ''refresh''] [] ''refresh'',
      Route ''POST'' [Lit ''api'', Lit ''v1'', Lit ''auth'', Lit ''logout''] [] ''logout'',
      Route ''POST'' [Lit ''api'', Lit ''v1'', Lit ''auth'', Lit ''logout'', Lit ''all''] [] ''logoutAll'',
      Route ''POST'' [Lit ''api'', Lit ''v1'', Lit ''auth'', Lit ''verify-email''] [] ''verifyEmail'',
      Route ''POST'' [Lit ''api'', Lit ''v1'', Lit ''auth'', Lit ''resend-verification''] [RateLimit ''auth''] ''resendVerification'',
      Route ''POST'' [Lit ''api'', Lit ''v1'', Lit ''auth'', Lit ''forgot-password''] [RateLimit ''auth''] ''forgotPassword'',
      Route ''POST'' [Lit ''api'', Lit ''v1'', Lit ''auth'', Lit ''reset-password''] [RateLimit ''auth''] ''resetPassword'',
      Route ''POST'' [Lit ''api'', Lit ''v1'', Lit ''auth'', Lit ''otp'', Lit ''request''] [RateLimit ''otp'', OptionalAuthenticate] ''requestOtp'',
      Route ''POST'' [Lit ''api'', Lit ''v1'', Lit ''auth'', Lit ''otp'', Lit ''verify''] [RateLimit ''otp'', OptionalAuthenticate] ''verifyOtp'']"

definition avatar_routes :: "layer list" where
  "avatar_routes =
     [Use [Lit ''api'', Lit ''v1'', Lit ''users'', Lit ''me'', Lit ''avatar''] [Authenticate],
      Route ''POST'' [Lit ''api'', Lit ''v1'', Lit ''users'', Lit ''me'', Lit ''avatar'', Lit ''upload-intent''] [] ''createUploadIntent'',
      Route ''POST'' [Lit ''api'', Lit ''v1'', Lit ''users'', Lit ''me'', Lit ''avatar'', Lit ''finalize''] [] ''finalizeAvatar'',
      Route ''GET'' [Lit ''api'', Lit ''v1'', Lit ''users'', Lit ''me'', Lit ''avatar''] [] ''getCurrentAvatar'',
      Route ''DELETE'' [Lit ''api'', Lit ''v1'', Lit ''users'', Lit ''me'', Lit ''avatar''] [] ''deleteAvatar'']"

definition user_routes :: "layer list" where
  "user_routes =
     [Route ''GET'' [Lit ''api'', Lit ''v1'', Lit ''users'', Lit ''me''] [Authenticate] ''getCurrentUser'',
      Route ''PATCH'' [Lit ''api'', Lit ''v1'', Lit ''users'', Lit ''me''] [Authenticate] ''updateProfile'',
      Route ''GET'' [Lit ''api'', Lit ''v1'', Lit ''users'', Lit ''me'', Lit ''preferences''] [Authenticate] ''getPreferences'',
      Route ''PATCH'' [Lit ''api'', Lit ''v1'', Lit ''users'', Lit ''me'', Lit ''preferences''] [Authenticate] ''updatePreferences'',
      Route ''GET'' [Lit ''api'', Lit ''v1'', Lit ''users'', Lit ''me'', Lit ''profile''] [Authenticate] ''getMyProfile'',
      Route ''PATCH'' [Lit ''api'', Lit ''v1'', Lit ''users'', Lit ''me'', Lit ''profile''] [Authenticate] ''updateMyProfile'',
      Route ''PATCH'' [Lit ''api'', Lit ''v1'', Lit ''users'', Lit ''password''] [Authenticate] ''changePassword'',
      Route ''PATCH'' [Lit ''api'', Lit ''v1'', Lit ''users'', Lit ''wallet''] [Authenticate] ''updateWalletAddress''] @
     avatar_routes @
     [Route ''GET'' [Lit ''api'', Lit ''v1'', Lit ''users'', Param ''id'', Lit ''profile''] [OptionalAuthenticate] ''getProfileById'',
      Route ''GET'' [Lit ''api'', Lit ''v1'', Lit ''users'', Param ''id''] [] ''getUserById'']"

definition module_routes :: "layer list" where
  "module_routes =
     [Route ''GET'' [Lit ''api'', Lit ''v1'', Lit ''modules''] [OptionalAuthenticate] ''listModules'',
      Route ''GET'' [Lit ''api'', Lit ''v1'', Lit ''modules'', Param ''id''] [OptionalAuthenticate] ''getModuleById'',
      Route ''POST'' [Lit ''api'', Lit ''v1'', Lit ''modules'', Param ''id'', Lit ''start''] [Authenticate] ''startModule'',
      Route ''POST'' [Lit ''api'', Lit ''v1'', Lit ''modules'', Param ''id'', Lit ''complete''] [Authenticate] ''completeModule'']"

definition credential_routes :: "layer list" where
  "credential_routes =
     [Route ''GET'' [Lit ''api'', Lit ''v1'', Lit ''credentials''] [Authenticate, Validate ''credentialQuerySchema''] ''getUserCredentials'',
      Route ''GET'' [Lit ''api'', Lit ''v1'', Lit ''credentials'', Lit ''verify'', Param ''onChainId''] [Validate ''onChainIdSchema''] ''verifyCredential'',
      Route ''GET'' [Lit ''api'', Lit ''v1'', Lit ''credentials'', Param ''id''] [Authenticate, Validate ''credentialIdSchema''] ''getCredentialById'']"

definition reward_routes :: "layer list" where
  "reward_routes =
     [Route ''GET'' [Lit ''api'', Lit ''v1'', Lit ''rewards'', Lit ''balance''] [Authenticate] ''getBalance'',
      Route ''GET'' [Lit ''api'', Lit ''v1'', Lit ''rewards'', Lit ''history''] [Authenticate] ''getRewardHistory'',
      Route ''POST'' [Lit ''api'', Lit ''v1'', Lit ''rewards'', Lit ''withdraw''] [Authenticate, VerifiedEmail] ''withdraw'']"

definition employer_routes :: "layer list" where
  "employer_routes =
     [Use [Lit ''api'', Lit ''v1'', Lit ''employer''] [Authenticate, Authorize [''employer''], VerifiedEmail, RateLimit ''employer''],
      Route ''GET'' [Lit ''api'', Lit ''v1'', Lit ''employer'', Lit ''search''] [] ''searchTalent'',
      Route ''GET'' [Lit ''api'', Lit ''v1'', Lit ''employer'', Lit ''candidates'', Param ''id''] [] ''getCandidateProfile'',
      Route ''POST'' [Lit ''api'', Lit ''v1'', Lit ''employer'', Lit ''contact''] [] ''contactCandidate'']"

definition notification_routes :: "layer list" where
  "notification_routes =
     [Route ''POST'' [Lit ''api'', Lit ''v1'', Lit ''notifications'', Lit ''devices''] [Authenticate] ''registerDevice'',
      Route ''PATCH'' [Lit ''api'', Lit ''v1'', Lit ''notifications'', Lit ''preferences''] [Authenticate] ''updateNotificationPreferences'',
      Route ''GET'' [Lit ''api'', Lit ''v1'', Lit ''notifications'', Lit ''delivery-status''] [Authenticate] ''getDeliveryStatus'']"

definition sync_routes :: "layer list" where
  "sync_routes =
     [Route ''POST'' [Lit ''api'', Lit ''v1'', Lit ''sync'', Lit ''progress''] [Authenticate, RateLimit ''authenticated''] ''syncProgress'',
      Route ''POST'' [Lit ''api'', Lit ''v1'', Lit ''sync'', Lit ''completions''] [Authenticate, RateLimit ''authenticated''] ''syncCompletions'']"

definition referral_routes :: "layer list" where
  "referral_routes =
     [Route ''POST'' [Lit ''api'', Lit ''v1'', Lit ''referrals'', Lit ''code''] [Authenticate] ''generateCode'',
      Route ''POST'' [Lit ''api'', Lit ''v1'', Lit ''referrals'', Lit ''apply''] [Authenticate] ''applyCode'',
      Route ''GET'' [Lit ''api'', Lit ''v1'', Lit ''referrals'', Lit ''stats''] [Authenticate] ''getStats'']"

definition account_routes :: "layer list" where
  "account_routes =
     [Route ''POST'' [Lit ''api'', Lit ''v1'', Lit ''account'', Lit ''export''] [Authenticate, ActiveAccount] ''requestExport'',
      Route ''GET'' [Lit ''api'', Lit ''v1'', Lit ''account'', Lit ''export'', Param ''id''] [Authenticate] ''getExportStatus'',
      Route ''GET'' [Lit ''api'', Lit ''v1'', Lit ''account'', Lit ''export'', Param ''id'', Lit ''download''] [Authenticate] ''downloadExport'',
      Route ''POST'' [Lit ''api'', Lit ''v1'', Lit ''account'', Lit ''deactivate''] [Authenticate] ''deactivate'',
      Route ''POST'' [Lit ''api'', Lit ''v1'', Lit ''account'', Lit ''reactivate''] [RateLimit ''auth''] ''reactivate'',
      Route ''POST'' [Lit ''api'', Lit ''v1'', Lit ''account'', Lit ''deletion''] [Authenticate, ActiveAccount] ''requestDeletion'',
      Route ''GET'' [Lit ''api'', Lit ''v1'', Lit ''account'', Lit ''deletion''] [Authenticate] ''getDeletionStatus'',
      Route ''POST'' [Lit ''api'', Lit ''v1'', Lit ''account'', Lit ''deletion'', Lit ''cancel''] [RateLimit ''auth''] ''cancelDeletion'']"

definition onboarding_routes :: "layer list" where
  "onboarding_routes =
     [Route ''GET'' [Lit ''api'', Lit ''v1'', Lit ''onboarding''] [Authenticate] ''getProgress'',
      Route ''POST'' [Lit ''api'', Lit ''v1'', Lit ''onboarding'', Lit ''steps''] [Authenticate] ''saveStep'',
      Route ''POST'' [Lit ''api'', Lit ''v1'', Lit ''onboarding'', Lit ''complete''] [Authenticate] ''completeOnboarding'']"

definition consent_routes :: "layer list" where
  "consent_routes =
     [Route ''GET'' [Lit ''api'', Lit ''v1'', Lit ''consents''] [Authenticate] ''getCurrentConsents'',
      Route ''GET'' [Lit ''api'', Lit ''v1'', Lit ''consents'', Lit ''history''] [Authenticate] ''getConsentHistory'',
      Route ''POST'' [Lit ''api'', Lit ''v1'', Lit ''consents'', Lit ''grant''] [Authenticate] ''grantConsent'',
      Route ''POST'' [Lit ''api'', Lit ''v1'', Lit ''consents'', Lit ''withdraw''] [Authenticate] ''withdrawConsent'']"

definition session_routes :: "layer list" where
  "session_routes =
     [Use [Lit ''api'', Lit ''v1'', Lit ''sessions''] [Authenticate, ActiveAccount],
      Route ''GET'' [Lit ''api'', Lit ''v1'', Lit ''sessions''] [] ''listSessions'',
      Route ''DELETE'' [Lit ''api'', Lit ''v1'', Lit ''sessions''] [] ''revokeAllOtherSessions'',
      Route ''DELETE'' [Lit ''api'', Lit ''v1'', Lit ''sessions'', Param ''sessionId''] [] ''revokeSession'']"

definition wallet_routes :: "layer list" where
  "wallet_routes =
     [Use [Lit ''api'', Lit ''v1'', Lit ''wallet''] [Authenticate, ActiveAccount],
      Route ''GET'' [Lit ''api'', Lit ''v1'', Lit ''wallet'', Lit ''status''] [] ''getWalletStatus'',
      Route ''GET'' [Lit ''api'', Lit ''v1'', Lit ''wallet'', Lit ''balances''] [] ''getWalletBalances'',
      Route ''GET'' [Lit ''api'', Lit ''v1'', Lit ''wallet'', Lit ''history''] [] ''getWalletHistory'']"

definition health_routes :: "layer list" where
  "health_routes =
     [Route ''GET'' [Lit ''health'', Lit ''live''] [] ''live'',
      Route ''GET'' [Lit ''health'', Lit ''ready''] [] ''ready'',
      Route ''GET'' [Lit ''health-legacy''] [] ''legacyHealth'']"

definition api_routes :: "layer list" where
  "api_routes = Route ''GET'' [Lit ''api''] [] ''apiRoot'' # auth_routes @
     user_routes @
     module_routes @
     credential_routes @
     reward_routes @
     employer_routes @
     notification_routes @
     sync_routes @
     referral_routes @
     account_routes @
     onboarding_routes @
     consent_routes @
     session_routes @
     wallet_routes"

definition app_layers :: "layer list" where
  "app_layers = api_routes @ health_routes"

lemmas route_tables = app_layers_def api_routes_def auth_routes_def avatar_routes_def user_routes_def module_routes_def credential_routes_def reward_routes_def employer_routes_def notification_routes_def sync_routes_def referral_routes_def account_routes_def onboarding_routes_def consent_routes_def session_routes_def wallet_routes_def health_routes_def

definition handle_route :: "route_env \<Rightarrow> routed" where
  "handle_route env = dispatch env app_layers None"

end
