(* ===== verification/RouteProps.thy ===== *)
theory RouteProps
  imports Routes Stellar
begin

text \<open>
  What the routers let through: which handlers an anonymous request can reach, and which one a deactivated account. Both follow
  from one fact about layers: when a kind of gate refuses a request, the request can only reach handlers with no such gate on
  their way. Of the matching of Express only this is used (\<open>mounts_cover\<close>): a request that matches a route lies below the
  path of each \<open>router.use\<close> that covers the route.
\<close>

section \<open>Handlers behind a gate\<close>

text \<open>The path of a \<open>use\<close> layer covers the path of a route below it.\<close>

fun covers :: "segment list \<Rightarrow> segment list \<Rightarrow> bool" where
  "covers [] ss \<longleftrightarrow> True"
| "covers (p # ps) [] \<longleftrightarrow> False"
| "covers (p # ps) (s # ss) \<longleftrightarrow> p = s \<and> covers ps ss"

definition mounts_cover :: "route_env \<Rightarrow> bool" where
  "mounts_cover env \<longleftrightarrow> (\<forall>m p q. covers p q \<longrightarrow> re_matches env m q \<longrightarrow> re_below env p)"

fun exposed :: "(gate_kind \<Rightarrow> bool) \<Rightarrow> segment list list \<Rightarrow> layer list \<Rightarrow> string list" where
  "exposed blocks ps [] = []"
| "exposed blocks ps (Use p gs # ls) = exposed blocks (if list_ex blocks gs then p # ps else ps) ls"
| "exposed blocks ps (Route m p gs h # ls) =
     (if list_ex blocks gs \<or> list_ex (\<lambda>q. covers q p) ps then exposed blocks ps ls else h # exposed blocks ps ls)"

text \<open>A gate that blocks refuses every user that can come to it, and gates that pass keep to such users.\<close>

definition blocking :: "route_env \<Rightarrow> (auth_user option \<Rightarrow> bool) \<Rightarrow> (gate_kind \<Rightarrow> bool) \<Rightarrow> bool" where
  "blocking env ok blocks \<longleftrightarrow> (\<forall>g u u'. ok u \<longrightarrow> run_gate env g u = Pass u' \<longrightarrow> \<not> blocks g \<and> ok u')"

lemma gates_blocked:
  assumes "blocking env ok blocks" and "ok u" and "run_gates env gs u = Pass u'"
  shows "\<not> list_ex blocks gs \<and> ok u'"
  using assms(2,3)
proof (induction gs arbitrary: u)
  case (Cons g gs)
  then obtain u1 where "run_gate env g u = Pass u1" "run_gates env gs u1 = Pass u'" by (auto split: gate.splits)
  with assms(1) Cons show ?case by (auto simp: blocking_def)
qed simp

lemma dispatch_exposed:
  assumes "blocking env ok blocks" and "mounts_cover env" and "ok u" and "dispatch env ls u = Handled h u'"
    and "list_all (\<lambda>p. \<not> re_below env p) ps"
  shows "h \<in> set (exposed blocks ps ls) \<and> ok u'"
  using assms(3-)
proof (induction ls arbitrary: u ps)
  case (Cons l ls)
  show ?case
  proof (cases l)
    case (Use p gs)
    show ?thesis
    proof (cases "re_below env p")
      case True
      with Use Cons.prems(2) obtain u1 where u1: "run_gates env gs u = Pass u1" "dispatch env ls u1 = Handled h u'"
        by (auto split: gate.splits)
      with gates_blocked [OF assms(1) Cons.prems(1)] have "\<not> list_ex blocks gs" "ok u1" by blast+
      with Use u1 Cons.IH [of u1 ps] Cons.prems(3) show ?thesis by simp
    next
      case False
      with Use Cons.prems Cons.IH [of u "if list_ex blocks gs then p # ps else ps"] show ?thesis by simp
    qed
  next
    case (Route m p gs k)
    show ?thesis
    proof (cases "re_matches env m p")
      case True
      with Route Cons.prems(2) have here: "run_gates env gs u = Pass u'" "k = h" by (auto split: gate.splits)
      with gates_blocked [OF assms(1) Cons.prems(1)] have "\<not> list_ex blocks gs" "ok u'" by blast+
      moreover have "\<not> list_ex (\<lambda>q. covers q p) ps"
        using True Cons.prems(3) assms(2) by (auto simp: list_ex_iff list_all_iff mounts_cover_def)
      ultimately show ?thesis using Route here by simp
    next
      case False
      with Route Cons.prems Cons.IH [of u ps] show ?thesis by auto
    qed
  qed
qed simp

section \<open>Anonymous requests\<close>

definition token_user :: "route_env \<Rightarrow> auth_user option" where
  "token_user env = (case bearer_token (re_authorization env) of
     None \<Rightarrow> None | Some t \<Rightarrow> (case re_verify env t of TokenValid v \<Rightarrow> Some v | _ \<Rightarrow> None))"

definition from_token :: "route_env \<Rightarrow> auth_user option \<Rightarrow> bool" where
  "from_token env u \<longleftrightarrow> (case u of None \<Rightarrow> True
     | Some w \<Rightarrow> (case token_user env of None \<Rightarrow> False | Some v \<Rightarrow> au_id w = au_id v))"

lemma authenticate_passes: "run_gate env Authenticate u = Pass u' \<Longrightarrow> u' \<noteq> None \<and> u' = token_user env"
  by (auto simp: authenticate_def token_user_def split: option.splits verify_result.splits)

lemma gates_keep_user:
  assumes "from_token env u" and "run_gate env g u = Pass u'"
  shows "from_token env u'"
proof (cases g)
  case Authenticate
  with assms authenticate_passes [of env u u'] show ?thesis by (auto simp: from_token_def split: option.splits)
next
  case OptionalAuthenticate
  with assms show ?thesis
    by (auto simp: optionalAuthenticate_def from_token_def token_user_def split: option.splits verify_result.splits)
next
  case ActiveAccount
  with assms show ?thesis by (auto simp: requireActiveAccount_def split: option.splits if_splits)
next
  case VerifiedEmail
  with assms show ?thesis by (auto simp: requireVerifiedEmail_def split: option.splits if_splits)
next
  case (Authorize roles)
  with assms show ?thesis by (auto simp: authorize_def from_token_def split: option.splits if_splits)
qed (use assms in \<open>auto split: if_splits\<close>)

lemma no_token_blocks: "token_user env = None \<Longrightarrow> blocking env (from_token env) (\<lambda>g. g = Authenticate)"
  unfolding blocking_def using authenticate_passes gates_keep_user by metis

definition public_handlers :: "string list" where
  "public_handlers =
     [''apiRoot'', ''register'', ''login'', ''refresh'', ''logout'', ''logoutAll'', ''verifyEmail'', ''resendVerification'',
      ''forgotPassword'', ''resetPassword'', ''requestOtp'', ''verifyOtp'', ''getProfileById'', ''getUserById'', ''listModules'',
      ''getModuleById'', ''verifyCredential'', ''reactivate'', ''cancelDeletion'', ''live'', ''ready'', ''legacyHealth'']"

lemma exposed_anonymous: "exposed (\<lambda>g. g = Authenticate) [] app_layers = public_handlers"
  by (simp add: route_tables public_handlers_def)

text \<open>
  C34. Nobody is served without a token but where the API is meant to be public. A request without a valid access token reaches
  only the handlers of registration, login, recovery and codes, public profiles, modules and credentials, the two account
  routes that check a password themselves, and the probes; and whoever a handler is told the user is, it is the user of the
  token that was sent.
\<close>

theorem handlers_need_token:
  assumes "mounts_cover env" and "handle_route env = Handled h u"
  shows "(token_user env = None \<longrightarrow> h \<in> set public_handlers)
    \<and> (case u of None \<Rightarrow> True | Some w \<Rightarrow> \<exists>v. token_user env = Some v \<and> au_id w = au_id v)"
proof -
  have start: "from_token env None" by (simp add: from_token_def)
  have route: "dispatch env app_layers None = Handled h u"
    using assms(2) by (simp add: handle_route_def)
  have "blocking env (from_token env) (\<lambda>_. False)"
    unfolding blocking_def using gates_keep_user by blast
  from dispatch_exposed [OF this assms(1) start route, of "[]"] have "from_token env u" by simp
  moreover have "h \<in> set public_handlers" if "token_user env = None"
    using dispatch_exposed [OF no_token_blocks [OF that] assms(1) start route, of "[]"] exposed_anonymous by simp
  ultimately show ?thesis by (auto simp: from_token_def split: option.splits)
qed

text \<open>Matching as Express documents it: literals in any case, a parameter for a segment that is not empty, \<open>HEAD\<close> answered by \<open>GET\<close>.\<close>

fun segment_matches :: "segment \<Rightarrow> string \<Rightarrow> bool" where
  "segment_matches (Lit s) t \<longleftrightarrow> toLowerCase t = s"
| "segment_matches (Param _) t \<longleftrightarrow> t \<noteq> []"

fun prefix_matches :: "segment list \<Rightarrow> string list \<Rightarrow> bool" where
  "prefix_matches [] ts \<longleftrightarrow> True"
| "prefix_matches (s # ss) [] \<longleftrightarrow> False"
| "prefix_matches (s # ss) (t # ts) \<longleftrightarrow> segment_matches s t \<and> prefix_matches ss ts"

definition request_env ::
    "(string \<Rightarrow> auth_user verify_result) \<Rightarrow> string option \<Rightarrow> account_row list \<Rightarrow> string \<Rightarrow> string list \<Rightarrow> route_env" where
  "request_env verify header accounts method ts =
     \<lparr>re_verify = verify, re_authorization = header, re_down = False, re_accounts = accounts,
      re_underLimit = (\<lambda>_. True), re_valid = (\<lambda>_. True),
      re_matches = (\<lambda>m p. (method = m \<or> (method = ''HEAD'' \<and> m = ''GET'')) \<and> length p = length ts \<and> prefix_matches p ts),
      re_below = (\<lambda>p. prefix_matches p ts)\<rparr>"

lemma covers_prefix: "covers ps ss \<Longrightarrow> prefix_matches ss ts \<Longrightarrow> prefix_matches ps ts"
  by (induction ps ss arbitrary: ts rule: covers.induct) (case_tac ts; auto)+

lemma request_mounts_cover: "mounts_cover (request_env verify header accounts method ts)"
  using covers_prefix by (auto simp: mounts_cover_def request_env_def)

definition anonymous_env :: route_env where
  "anonymous_env = request_env (\<lambda>_. TokenInvalid) None [] ''GET'' [''api'', ''v1'', ''modules'']"

lemma listModules_handled: "handle_route anonymous_env = Handled ''listModules'' None"
  unfolding handle_route_def
  by (simp add: route_tables toLowerCase_def lower_char_def Let_def anonymous_env_def request_env_def
      optionalAuthenticate_def bearer_token_def)

theorem handlers_need_token_witness:
  "token_user anonymous_env = None \<and> ''listModules'' \<in> set public_handlers
   \<and> handle_route anonymous_env = Handled ''listModules'' None"
proof -
  have "token_user anonymous_env = None" by (simp add: token_user_def anonymous_env_def request_env_def bearer_token_def)
  with handlers_need_token [OF _ listModules_handled] request_mounts_cover listModules_handled show ?thesis
    by (simp add: anonymous_env_def)
qed

section \<open>Accounts that are not active\<close>

definition inactive_user :: "route_env \<Rightarrow> bool" where
  "inactive_user env \<longleftrightarrow> (case token_user env of None \<Rightarrow> False
     | Some v \<Rightarrow> (case find_account (au_id v) (re_accounts env) of None \<Rightarrow> True | Some a \<Rightarrow> us_status a \<noteq> StActive))"

definition asks_status :: "gate_kind \<Rightarrow> bool" where
  "asks_status g \<longleftrightarrow> g = ActiveAccount \<or> (\<exists>roles. g = Authorize roles)"

lemma inactive_blocks:
  assumes "inactive_user env"
  shows "blocking env (from_token env) asks_status"
proof -
  have "\<not> asks_status g" if "from_token env u" "run_gate env g u = Pass u'" for g u u'
  proof
    assume "asks_status g"
    then consider "g = ActiveAccount" | roles where "g = Authorize roles" by (auto simp: asks_status_def)
    then show False
    proof cases
      case 1
      with that assms show ?thesis
        by (cases u) (auto simp: requireActiveAccount_def inactive_user_def from_token_def split: option.splits if_splits,
            metis account_status.exhaust)
    next
      case 2
      with that assms show ?thesis
        by (cases u) (auto simp: authorize_def inactive_user_def from_token_def split: option.splits if_splits,
            metis account_status.exhaust)
    qed
  qed
  with gates_keep_user show ?thesis unfolding blocking_def by blast
qed

definition inactive_reach :: "string list" where
  "inactive_reach = public_handlers @
     [''getCurrentUser'', ''updateProfile'', ''getPreferences'', ''updatePreferences'', ''getMyProfile'', ''updateMyProfile'',
      ''changePassword'', ''updateWalletAddress'', ''createUploadIntent'', ''finalizeAvatar'', ''getCurrentAvatar'', ''deleteAvatar'',
      ''startModule'', ''completeModule'', ''getUserCredentials'', ''getCredentialById'', ''getBalance'', ''getRewardHistory'',
      ''withdraw'', ''registerDevice'', ''updateNotificationPreferences'', ''getDeliveryStatus'', ''syncProgress'', ''syncCompletions'',
      ''generateCode'', ''applyCode'', ''getStats'', ''getExportStatus'', ''downloadExport'', ''deactivate'', ''getDeletionStatus'',
      ''getProgress'', ''saveStep'', ''completeOnboarding'', ''getCurrentConsents'', ''getConsentHistory'', ''grantConsent'',
      ''withdrawConsent'']"

lemma exposed_inactive: "set (exposed asks_status [] app_layers) \<subseteq> set inactive_reach"
  by (simp add: route_tables asks_status_def inactive_reach_def public_handlers_def)

text \<open>
  What an account that was deactivated, is to be deleted, or is deleted can still do with the access token it holds: never list
  or revoke sessions, see its wallet, ask for an export or a deletion, or search candidates; everything else is open to it.
\<close>

theorem inactive_accounts_reach:
  assumes "inactive_user env" and "mounts_cover env" and "handle_route env = Handled h u"
  shows "h \<in> set inactive_reach \<and> h \<notin> {''listSessions'', ''revokeSession'', ''revokeAllOtherSessions'', ''getWalletStatus'',
      ''getWalletBalances'', ''getWalletHistory'', ''requestExport'', ''requestDeletion'', ''searchTalent'', ''getCandidateProfile'',
      ''contactCandidate''}"
proof -
  have "from_token env None" by (simp add: from_token_def)
  from dispatch_exposed [OF inactive_blocks [OF assms(1)] assms(2) this, of app_layers h u "[]"]
  have "h \<in> set (exposed asks_status [] app_layers)" using assms(3) by (simp add: handle_route_def)
  with exposed_inactive have "h \<in> set inactive_reach" by blast
  then show ?thesis by (auto simp: inactive_reach_def public_handlers_def)
qed

text \<open>Among that, money: a deactivated account with a verified address withdraws its balance.\<close>

theorem deactivated_account_withdraws:
  assumes "env = request_env verify header accounts ''POST'' [''api'', ''v1'', ''rewards'', ''withdraw'']"
    and "token_user env = Some v" and "find_account (au_id v) accounts = Some a"
    and "us_status a = StDeactivated" and "us_isVerified a"
  shows "handle_route env = Handled ''withdraw'' (Some v)"
proof -
  have "run_gate env Authenticate None = Pass (Some v)"
    using assms(2) by (auto simp: authenticate_def token_user_def split: option.splits verify_result.splits)
  moreover have "run_gate env VerifiedEmail (Some v) = Pass (Some v)"
    using assms by (simp add: requireVerifiedEmail_def request_env_def)
  ultimately have gates: "run_gates env [Authenticate, VerifiedEmail] None = Pass (Some v)" by simp
  have matching: "re_below env p = prefix_matches p [''api'', ''v1'', ''rewards'', ''withdraw'']"
    "re_matches env m p \<longleftrightarrow> m = ''POST'' \<and> length p = 4 \<and> prefix_matches p [''api'', ''v1'', ''rewards'', ''withdraw'']" for p m
    by (auto simp: assms(1) request_env_def)
  show ?thesis
    unfolding handle_route_def
    by (simp add: route_tables matching gates toLowerCase_def lower_char_def Let_def del: run_gates.simps run_gate.simps)
qed

section \<open>Employers\<close>

lemma employer_blocks: "blocking env (\<lambda>_. True) (\<lambda>g. g = Authorize [''employer''])"
proof -
  have "role_name r \<noteq> ''employer''" for r by (cases r) simp_all
  then show ?thesis by (auto simp: blocking_def authorize_def split: option.splits if_splits)
qed

text \<open>No request at all reaches the handlers of employers: their router asks for a role no account can have.\<close>

lemma employer_handlers_unreachable:
  assumes "mounts_cover env" and "handle_route env = Handled h u"
  shows "h \<notin> {''searchTalent'', ''getCandidateProfile'', ''contactCandidate''}"
proof -
  from assms(2) have "dispatch env app_layers None = Handled h u" by (simp add: handle_route_def)
  from dispatch_exposed [OF employer_blocks assms(1) TrueI this, of "[]"]
  have "h \<in> set (exposed (\<lambda>g. g = Authorize [''employer'']) [] app_layers)" by simp
  moreover have "set (exposed (\<lambda>g. g = Authorize [''employer'']) [] app_layers)
      \<inter> {''searchTalent'', ''getCandidateProfile'', ''contactCandidate''} = {}"
    by (simp add: route_tables)
  ultimately show ?thesis by blast
qed

end
