(* ===== verification/Spec2Isabelle.thy ===== *)
theory Spec2Isabelle
  imports RewardsProps OutboxInvariant Scheduler SessionProps Otp RetryProps Funding AccountProps
    WalletGuarantees WalletLimits WalletExport WalletStatus RedactionProps
    LifecycleProps AuditProps LearnerProps Credentials AuthLimits ProfileProps
    SessionRouteProps AccountRouteProps RewardRouteProps LearningProps
    SyncProps Notifications EmployerProps AvatarProps
    BackgroundProps Runner WalletRouteProps Schemas RequestProps RouteProps
begin

text \<open>
  The Learnault API (TypeScript, \<open>src/src\<close>) is the backend of a learn-to-earn platform: learners
  complete modules, are paid rewards in XLM, and withdraw them; their accounts, sessions, consent
  and wallets live in PostgreSQL through Prisma, and everything slow or external (mail, push,
  webhooks, Stellar payments, wallet provisioning) goes through tables that background workers
  drain. This development models its services as functions on explicit state and proves what
  they promise, and, where they do not keep it, what goes wrong instead.

  \<^bold>\<open>How the model reads the code.\<close> A table is the list of its rows, oldest first; a query is
  written out (\<open>find\<close>, a stable sort for \<open>orderBy\<close>, a guarded update with its count for
  \<open>updateMany\<close>). A service method is a definition of the same name that takes the state and
  returns its result with the new state; an error is a value (\<open>Inl\<close>), and a Prisma
  \<open>$transaction\<close> restores the state when its body fails (\<open>Prelude.transaction\<close>), while
  statements outside one keep what they wrote. A method that gives up control at an \<open>await\<close> between
  two statements that matter is also given as its separate steps, and an inductive relation
  interleaves those with the steps of other requests; the invariants are proved over every reachable
  state. Times are integers (milliseconds), bigint amounts are \<open>int\<close>, strings are
  lists of 8-bit code units, JSON text is a JSON value or malformed text. The clock, random
  identifiers, hashes, signatures, the Stellar network, Firebase, \<open>fetch\<close>, zod validators and event
  handlers are arguments of the definitions that use them; no property assumes more of them
  than it states.

  \<^bold>\<open>Theories.\<close>
  \<^item> \<open>Prelude\<close>: results and transactions, tables, strings and numbers, JSON values, and
    four contracts as locales: \<open>exclusive_claim\<close> (a conditional update claims a row at
    most once; interpreted for job completion, queue release, token rotation, and the claiming and
    cancelling of account deletions, the claiming and purging of exports), \<open>retry_policy\<close> (a bounded number of attempts; interpreted
    for one-time codes, mail, push, funding and exports), \<open>fixed_window\<close> (a limit per window;
    interpreted for the rate limiter and the reset mails) and \<open>invariant_system\<close> (an invariant of a step
    relation; interpreted for the ledger, the outbox and the sessions).
  \<^item> \<open>Money\<close> (\<open>utils/money.ts\<close>): stroop arithmetic, formatting and parsing. Round trip of
    amounts (C27), range of whatever parses (\<open>xlm_parse_range\<close>), scaling as an exact floor (\<open>multiplyStroops_floor\<close>).
  \<^item> \<open>Rewards\<close>, \<open>RewardsProps\<close> (\<open>services/reward.service.ts\<close>): rewards, claims, withdrawals,
    balance and history. Amounts (\<open>reward_breakdown_correct\<close>), double claims in sequence (\<open>claim_then_claim_again\<close>), paging (\<open>history_pages_partition\<close>), the ledger
    under every interleaving (C1), and the double payout two concurrent claims can reach (\<open>double_payout_reachable\<close>).
  \<^item> \<open>Outbox\<close>, \<open>JobLease\<close>, \<open>Relay\<close>, \<open>OutboxProps\<close>, \<open>OutboxInvariant\<close> (\<open>lib/transactions\<close>,
    \<open>jobs/handler-registrations.ts\<close>, \<open>workers/outbox-relay.ts\<close>): events, schemas, handlers, leased
    jobs and the relay. The registry refines a list (C40), only the holder of a lease settles a job
    (C7), failures (\<open>failJob_outcome\<close>) and completions (\<open>completeJob_outcome\<close>), the invariant of the tables (C2), and two limits: crashes
    are not counted (\<open>crashes_are_not_counted\<close>), rolled-back events are still dispatched
    (\<open>rolled_back_event_still_leased\<close>).
  \<^item> \<open>Scheduler\<close> (\<open>config/scheduler.ts\<close>, \<open>workers/queue-metrics.ts\<close>,
    \<open>workers/scheduled-job-runner.ts\<close>): settings, counters and the tick of a queue under its lease.
    Leases outlive intervals (\<open>lease_outlives_interval\<close>); a queue has one worker at a time (C35).
  \<^item> \<open>Runner\<close> (\<open>workers/scheduled-job-runner.ts\<close>, \<open>server.ts\<close>, \<open>workers/scheduler.worker.ts\<close>): starting, stopping and
    timers as a step relation. A running scheduler has one loop per queue (C36) unless it was restarted after a forced stop
    (\<open>restart_doubles_loop\<close>); counters are exact (\<open>counters_exact\<close>).
  \<^item> \<open>Background\<close>, \<open>BackgroundProps\<close> (\<open>workers/queue-registry.ts\<close>): the seven queues with their drains and probes on one
    database. The probe of the mail queue counts what the next run attempts (C37), that of the funding queue
    also what is stuck (\<open>stuck_funding_reported_due\<close>); without the lease nothing changes (\<open>tick_without_lease_idle\<close>).
  \<^item> \<open>Sessions\<close>, \<open>SessionProps\<close> (\<open>services/refresh-token.service.ts\<close>, \<open>session.service.ts\<close>): rotating
    refresh tokens. At most one live token per family (C3), replay (C12), revocation is
    final (C6), and the lock-out after a half-finished refresh (\<open>failed_mint_locks_out\<close>).
  \<^item> \<open>Otp\<close> (\<open>services/otp.service.ts\<close>): one-time codes; the limit on guesses made in sequence
    (C29), and its absence for guesses made together (\<open>concurrent_guesses_count_once\<close>).
  \<^item> \<open>RetryQueues\<close>, \<open>RetryProps\<close>, \<open>Funding\<close> (\<open>services/email.service.ts\<close>, \<open>notification.service.ts\<close>,
    \<open>webhook.service.ts\<close>, \<open>stellar-funding.service.ts\<close>): the delivery queues. A run settles rows
    independently (\<open>email_run_is_rowwise\<close>), attempts are bounded and mails are not sent twice (\<open>email_attempts_bounded\<close>), a funding that times out is paid again
    (\<open>timed_out_funding_paid_twice\<close>) or stays stuck
    (\<open>last_attempt_timeout_is_stuck\<close>).
  \<^item> \<open>Accounts\<close>, \<open>AccountProps\<close> (\<open>services/account-lifecycle.service.ts\<close>): deactivation and deletion. What a deletion erases
    (C18) and leaves (\<open>finalized_account_keeps_phone\<close>), cancelling against finalizing (C19), and a crash in
    between (\<open>crashed_finalization_is_stuck\<close>).
  \<^item> \<open>Kms\<close> (\<open>services/kms\<close>): the key store of managed wallets, its interface as the locale
    \<open>kms_store\<close>, its in-memory implementation as the interpretation.
  \<^item> \<open>Wallets\<close>, \<open>WalletProps\<close>, \<open>WalletGuarantees\<close>, \<open>WalletLimits\<close>
    (\<open>services/wallet-provisioning.*.ts\<close>, \<open>jobs/*.handler.ts\<close>): the provisioning of wallets by leased
    jobs. An active wallet can sign, whatever was interleaved (C5), a retry
    makes no second key (\<open>retry_reuses_key\<close>), a worker settles its wallet (C32); a
    crashed provisioning is reported as done (\<open>crashed_provisioning_reported_done\<close>), registrations
    are dead-lettered (\<open>registration_dead_letters\<close>), retired wallets are revived (\<open>retired_wallet_is_revived\<close>).
  \<^item> \<open>WalletExport\<close>, \<open>WalletStatus\<close> (\<open>services/wallet-self-custody-export.service.ts\<close>,
    \<open>wallet-status.service.ts\<close>): leaving custody (C31; what an audit outage does
    there is \<open>audit_outage_loses_secret\<close>), and what an owner sees.
  \<^item> \<open>Stellar\<close> (\<open>services/stellar.service.ts\<close>): balances, history, payments, credentials over any SDK.
    A payment returns (\<open>payment_outcome\<close>).
  \<^item> \<open>Redaction\<close>, \<open>RedactionProps\<close> (\<open>audit/redaction.ts\<close>): the filter of audit metadata on a heap of
    objects, its regular expressions included (C20).
  \<^item> \<open>Lifecycle\<close>, \<open>LifecycleProps\<close> (\<open>audit/classification.ts\<close>, \<open>archive.ts\<close>): the matrix that classifies
    every model, and the exclusion of archived rows from reads (C21). What an erasure of an
    account does is compared with the matrix (\<open>erasure_against_matrix\<close>).
  \<^item> \<open>AuditTrail\<close>, \<open>AuditProps\<close> (\<open>audit/audit-event.service.ts\<close>, \<open>audited-mutation.ts\<close>): audited changes commit
    with their event or not at all (C8), events stay for their retention period (\<open>audit_events_retained\<close>).
  \<^item> \<open>Http\<close>: the replies of controllers. \<open>Learner\<close>, \<open>LearnerProps\<close> (\<open>services/consent.service.ts\<close>,
    \<open>onboarding.service.ts\<close>, \<open>preference.service.ts\<close> and their controllers): consent, onboarding (C22)
    and preferences.
  \<^item> \<open>Credentials\<close> (\<open>utils/password.ts\<close>, \<open>config/jwt.ts\<close>, \<open>utils/cookies.ts\<close>, \<open>middleware\<close>): passwords, keys,
    gates (C33), rate limits, error replies.
  \<^item> \<open>Auth\<close>, \<open>AuthProps\<close>, \<open>AuthLimits\<close> (\<open>controllers/auth.controller.ts\<close>): registration, login, mailed tokens, codes.
    A reset locks everybody else out (C4), mails are limited (\<open>reset_mails_bounded\<close>), recovery
    works (C30); registering does not (\<open>registration_always_rejected\<close>), nor do two logins in a second
    (\<open>repeated_login_fails\<close>), and the neutral answers are not neutral (\<open>forgot_reveals_account\<close>).
  \<^item> \<open>Profiles\<close>, \<open>UserAccounts\<close>, \<open>ProfileProps\<close> (\<open>services/profile.service.ts\<close>, \<open>profile-serializer.ts\<close>,
    \<open>user-account.service.ts\<close> and their controllers): what others see of a learner (C9), changing one's
    password (\<open>password_change_atomic\<close>), and what administrators cannot do (\<open>admins_cannot_change_themselves\<close>).

  \<^item> \<open>SessionRoutes\<close>, \<open>SessionRouteProps\<close> (\<open>controllers/session.controller.ts\<close>): a user's session list. The routes
    see and change own sessions only (C16); after a refresh, revoking the others revokes all
    (\<open>revoke_others_after_refresh\<close>).
  \<^item> \<open>DataExports\<close>, \<open>ExportProps\<close> (\<open>services/data-export.service.ts\<close>): the export of personal data, over the tables of
    \<open>Accounts\<close>. With the columns of the schema no export is ever finished (\<open>exports_never_ready\<close>), a request is given up
    after its attempts (\<open>export_gives_up\<close>), and a late failure keeps the artifact for good (\<open>failed_mail_keeps_artifact\<close>).
  \<^item> \<open>AccountRoutes\<close>, \<open>AccountRouteProps\<close> (\<open>controllers/account.controller.ts\<close>): exports, deactivation and deletion as
    requested. The password guards them (C13), downloads are the owner's (C15), a
    deletion runs its course (C14), a cancellation cut short locks the account
    (\<open>interrupted_cancel_locks_account\<close>), and reactivating is an untracked login (\<open>reactivation_token_untracked\<close>).

  \<^item> \<open>RewardRoutes\<close>, \<open>RewardRouteProps\<close> (\<open>controllers/reward.controller.ts\<close>): the routes of the ledger, over the payments of
    \<open>Stellar\<close>. A withdrawal moves exactly what was asked for (C17), but with the memos written no
    payment succeeds (\<open>payouts_always_fail\<close>).
  \<^item> \<open>Learning\<close>, \<open>Referrals\<close>, \<open>LearningProps\<close> (\<open>controllers/module.controller.ts\<close>, \<open>credential.controller.ts\<close>,
    \<open>referral.controller.ts\<close>): modules, credentials and referrals. Their tables stay well-formed however requests interleave
    (C23), drawing a code ends when one is free (C39); with the columns of the schema, passing a
    module loses its reward (\<open>passing_loses_reward\<close>) and most views fail (\<open>schema_breaks_views\<close>).
  \<^item> \<open>Sync\<close>, \<open>SyncProps\<close> (\<open>controllers/sync.controller.ts\<close>): what devices record offline. Batches are idempotent
    (C24; the locale \<open>replayable\<close>, interpreted for progress and for completions), scores only grow (C25); a completion made offline is never
    rewarded (\<open>offline_completion_unpaid\<close>), and events can be dropped (\<open>offline_events_lost\<close>).
  \<^item> \<open>Notifications\<close> (\<open>controllers/notification.controller.ts\<close>): devices (\<open>device_has_one_owner\<close>), preferences and the delivery
    log (\<open>delivery_log_own\<close>), over the tables of \<open>RetryQueues\<close>.
  \<^item> \<open>Employer\<close>, \<open>EmployerProps\<close> (\<open>controllers/employer.controller.ts\<close>): the talent search. Private candidates stay hidden
    (C26), pages partition what was found (\<open>search_pages_partition\<close>), but plans are self-declared
    (\<open>inherited_plan_is_enterprise\<close>).
  \<^item> \<open>ImageBytes\<close>, \<open>ImageProps\<close> (\<open>services/storage/in-memory-storage.ts\<close>, \<open>asset-validation.service.ts\<close>): the parsers of uploaded
    images. Dimensions are found (C28), but for extended WebP (\<open>webp_extended_misread\<close>); what validation promises (\<open>avatar_validation\<close>).
  \<^item> \<open>Avatars\<close>, \<open>AvatarProps\<close> (\<open>services/avatar.service.ts\<close>, \<open>controllers/avatar.controller.ts\<close>): uploads, their promotion and
    deletion. A user has one active avatar at most (C10) and cannot touch another's (C11); replaced variants stay behind
    (\<open>replaced_avatar_leaves_variants\<close>), and no route uploads anything (\<open>uploads_have_no_route\<close>).
  \<^item> \<open>WalletRoutes\<close>, \<open>WalletRouteProps\<close> (\<open>controllers/wallet-status.controller.ts\<close>,
    \<open>wallet-self-custody-export.controller.ts\<close>): the routes of a wallet over \<open>WalletStatus\<close> and \<open>WalletExport\<close>. Following
    the cursors reads the whole history (C38).
  \<^item> \<open>Schemas\<close> (\<open>schemas\<close> and the schemas of controllers): what request bodies are accepted. The password policies of reset and
    change differ (\<open>password_policies_differ\<close>).
  \<^item> \<open>Requests\<close>, \<open>RequestProps\<close> (\<open>middleware/request-context.ts\<close>, \<open>validation.middleware.ts\<close>,
    \<open>versioning.middleware.ts\<close>, \<open>error.middleware.ts\<close>, \<open>schemas/api.schema.ts\<close>, \<open>utils/string.ts\<close>): what surrounds the handlers. Which
    requests validation lets through (\<open>validation_lets_through\<close>), and slugs (\<open>slugify_idempotent\<close>).
  \<^item> \<open>Routes\<close>, \<open>RouteProps\<close> (\<open>routes\<close>): every mounted router as data, dispatched through the gates of \<open>Credentials\<close>. Only
    the public handlers answer without a token (C34); what inactive accounts reach (\<open>inactive_accounts_reach\<close>) includes
    withdrawing (\<open>deactivated_account_withdraws\<close>), and nobody reaches the employer handlers (\<open>employer_handlers_unreachable\<close>).

  \<^bold>\<open>Bounds.\<close> The batch size of the relay: \<open>drain_queue\<close> recurses on
  the rounds left of \<open>while (drained < batchSize)\<close>, which is exactly the bound of the loop.
  \<open>wait_from\<close> counts up to the twenty attempts of \<open>waitForTransaction\<close>; \<open>walk\<close> ends because the code
  stops below depth 4. Every other loop of the code runs over a list and is a structural recursion or a fold.

  \<^bold>\<open>Not modelled.\<close> The matching of paths by Express, the formats zod knows and the texts of its issues, logging; the
  Stellar SDK, Firebase and Prisma themselves (concurrent transactions are taken to be serializable); the OpenAPI document,
  seeds and scripts, the construction of the database client and of the loggers, wrappers of one library call, and
  type declarations without behaviour.
\<close>

end
